(* ===== verification/Prelude.thy ===== *)
theory Prelude
  imports Main "HOL-Library.List_Lexorder" "HOL-Library.Product_Lexorder" "HOL-Library.Char_ord"
begin

text \<open>
  Shared vocabulary of the development: Python exceptions as values, the result type of a
  fallible call, sequencing and loop combinators over it, and the generic lemmas on lists
  that several components use.

  A Python call that may raise is a function into \<open>'a result\<close>: \<open>Inl e\<close> is the raised
  exception, \<open>Inr x\<close> the returned value. A guard \<open>if c: raise E\<close> is written
  \<open>if c then Inl E else \<dots>\<close>, in the order of the code.
\<close>

named_theorems result_simps
named_theorems model_defs

subsection \<open>Exceptions and results\<close>

text \<open>
  The exception classes of the package. \<open>CanonicalJsonError\<close>, \<open>RlpError\<close> and
  \<open>ConstantProductArithmeticError\<close> are subclasses of \<open>ValueError\<close> in the code, which
  matters only where the code catches one of them (\<open>is_value_error\<close>, \<open>is_arith_error\<close>).
\<close>

datatype py_error =
    ValueError string
  | TypeError string
  | RuntimeError string
  | CanonicalJsonError string
  | RlpError string
  | ConstantProductArithmeticError string
  | TransitionRejected string
  | AttributeError string
  | OutOfFuel

type_synonym 'a result = "py_error + 'a"

fun is_value_error :: "py_error \<Rightarrow> bool" where
  "is_value_error (ValueError _) = True"
| "is_value_error (CanonicalJsonError _) = True"
| "is_value_error (RlpError _) = True"
| "is_value_error (ConstantProductArithmeticError _) = True"
| "is_value_error _ = False"

fun is_arith_error :: "py_error \<Rightarrow> bool" where
  "is_arith_error (ConstantProductArithmeticError _) = True"
| "is_arith_error _ = False"

fun is_ok :: "'a result \<Rightarrow> bool" where
  "is_ok (Inr _) = True"
| "is_ok (Inl _) = False"

lemma is_ok_iff: "is_ok r \<longleftrightarrow> (\<exists>x. r = Inr x)"
  by (cases r) auto

lemma not_is_ok_iff: "\<not> is_ok r \<longleftrightarrow> (\<exists>e. r = Inl e)"
  by (cases r) auto

definition rbind :: "'a result \<Rightarrow> ('a \<Rightarrow> 'b result) \<Rightarrow> 'b result" where
  "rbind m f = (case m of Inl e \<Rightarrow> Inl e | Inr x \<Rightarrow> f x)"

lemma rbind_simps [simp, result_simps]:
  "rbind (Inl e) f = Inl e"
  "rbind (Inr x) f = f x"
  by (simp_all add: rbind_def)

lemma rbind_eq_Inr [simp, result_simps]:
  "rbind m f = Inr y \<longleftrightarrow> (\<exists>x. m = Inr x \<and> f x = Inr y)"
  by (cases m) auto

lemma rbind_eq_Inl [result_simps]:
  "rbind m f = Inl e \<longleftrightarrow> m = Inl e \<or> (\<exists>x. m = Inr x \<and> f x = Inl e)"
  by (cases m) auto

lemma rbind_cong [fundef_cong]:
  "m = m' \<Longrightarrow> (\<And>x. m' = Inr x \<Longrightarrow> f x = g x) \<Longrightarrow> rbind m f = rbind m' g"
  by (cases m') auto

lemma rbind_assoc: "rbind (rbind m f) g = rbind m (\<lambda>x. rbind (f x) g)"
  by (cases m) auto

subsection \<open>Loops that may raise\<close>

text \<open>\<open>rmap\<close> is a comprehension whose body may raise; \<open>rfold\<close> is a \<open>for\<close> loop over a
  state; \<open>rall\<close> is a \<open>for\<close> loop whose body only checks.\<close>

fun rmap :: "('a \<Rightarrow> 'b result) \<Rightarrow> 'a list \<Rightarrow> 'b list result" where
  "rmap f [] = Inr []"
| "rmap f (x # xs) = rbind (f x) (\<lambda>y. rbind (rmap f xs) (\<lambda>ys. Inr (y # ys)))"

fun rfold :: "('s \<Rightarrow> 'a \<Rightarrow> 's result) \<Rightarrow> 's \<Rightarrow> 'a list \<Rightarrow> 's result" where
  "rfold f s [] = Inr s"
| "rfold f s (x # xs) = rbind (f s x) (\<lambda>s'. rfold f s' xs)"

fun rall :: "('a \<Rightarrow> unit result) \<Rightarrow> 'a list \<Rightarrow> unit result" where
  "rall f [] = Inr ()"
| "rall f (x # xs) = rbind (f x) (\<lambda>_. rall f xs)"

lemma rmap_cong [fundef_cong]:
  "xs = ys \<Longrightarrow> (\<And>x. x \<in> set ys \<Longrightarrow> f x = g x) \<Longrightarrow> rmap f xs = rmap g ys"
  by (induction xs arbitrary: ys) auto

lemma rall_cong [fundef_cong]:
  "xs = ys \<Longrightarrow> (\<And>x. x \<in> set ys \<Longrightarrow> f x = g x) \<Longrightarrow> rall f xs = rall g ys"
  by (induction xs arbitrary: ys) auto

lemma rmap_eq_Inr:
  "rmap f xs = Inr ys \<longleftrightarrow> list_all2 (\<lambda>x y. f x = Inr y) xs ys"
  by (induction xs arbitrary: ys) (auto simp: list_all2_Cons1)

lemma rmap_length: "rmap f xs = Inr ys \<Longrightarrow> length ys = length xs"
  by (auto simp: rmap_eq_Inr list_all2_lengthD)

lemma rmap_InrI: "(\<And>x. x \<in> set xs \<Longrightarrow> f x = Inr (g x)) \<Longrightarrow> rmap f xs = Inr (map g xs)"
  by (induction xs) auto

lemma rall_Inr_iff: "rall f xs = Inr u \<longleftrightarrow> (\<forall>x \<in> set xs. f x = Inr ())"
  by (induction xs) auto

lemma rfold_append: "rfold f s (xs @ ys) = rbind (rfold f s xs) (\<lambda>s'. rfold f s' ys)"
  by (induction xs arbitrary: s) (auto simp: rbind_assoc)

lemma rfold_cong [fundef_cong]:
  assumes "xs = ys" and "s = s'" and "\<And>t x. x \<in> set ys \<Longrightarrow> f t x = g t x"
  shows "rfold f s xs = rfold g s' ys"
proof -
  have "rfold f s ys = rfold g s ys" if "\<And>t x. x \<in> set ys \<Longrightarrow> f t x = g t x" for s
    using that
  proof (induction ys arbitrary: s)
    case Nil
    then show ?case by simp
  next
    case (Cons y ys)
    have "f s y = g s y" using Cons.prems by simp
    moreover have "rfold f t ys = rfold g t ys" for t
      using Cons.IH Cons.prems by simp
    ultimately show ?case by simp
  qed
  with assms show ?thesis by simp
qed

text \<open>A loop keeps what its body keeps.\<close>

lemma rfold_invariant:
  assumes "rfold f s xs = Inr t" and "P s"
    and step: "\<And>s x s'. P s \<Longrightarrow> x \<in> set xs \<Longrightarrow> f s x = Inr s' \<Longrightarrow> P s'"
  shows "P t"
proof -
  have "P t" if "set ys \<subseteq> set xs" and "P s" and "rfold f s ys = Inr t" for ys s
    using that
  proof (induction ys arbitrary: s)
    case Nil
    then show ?case by simp
  next
    case (Cons y ys)
    then obtain s' where s': "f s y = Inr s'" and rest: "rfold f s' ys = Inr t"
      by auto
    have "P s'" by (rule step [OF Cons.prems(2) _ s']) (use Cons.prems(1) in simp)
    with rest Cons.prems(1) show ?case by (intro Cons.IH) simp_all
  qed
  with assms(1,2) show ?thesis by blast
qed

subsection \<open>Uniqueness checks\<close>

text \<open>\<open>len(xs) != len(set(xs))\<close>, the code's test for a duplicate.\<close>

definition has_duplicate :: "'a list \<Rightarrow> bool" where
  "has_duplicate xs \<longleftrightarrow> length xs \<noteq> length (remdups xs)"

lemma has_duplicate_iff [simp, result_simps]: "has_duplicate xs \<longleftrightarrow> \<not> distinct xs"
proof
  assume "has_duplicate xs"
  then show "\<not> distinct xs" by (auto simp: has_duplicate_def distinct_remdups_id)
next
  assume "\<not> distinct xs"
  then have "length (remdups xs) \<noteq> length xs"
    using distinct_remdups [of xs] by (metis length_remdups_eq)
  then show "has_duplicate xs" unfolding has_duplicate_def by argo
qed

subsection \<open>Adjacent pairs\<close>

text \<open>\<open>zip(xs, xs[1:])\<close>: the pairs of neighbours of a list.\<close>

definition neighbours :: "'a list \<Rightarrow> ('a \<times> 'a) list" where
  "neighbours xs = zip xs (tl xs)"

lemma neighbours_simps [simp]:
  "neighbours [] = []"
  "neighbours [x] = []"
  "neighbours (x # y # xs) = (x, y) # neighbours (y # xs)"
  by (simp_all add: neighbours_def)

subsection \<open>Enough fuel\<close>

text \<open>A bounded recursion that ran out would return \<open>OutOfFuel\<close>; this says it did not.\<close>

definition in_fuel :: "'a result \<Rightarrow> bool" where
  "in_fuel r \<longleftrightarrow> r \<noteq> Inl OutOfFuel"

lemma in_fuel_simps [simp]:
  "in_fuel (Inr x)"
  "in_fuel (Inl (ValueError m))"
  "in_fuel (Inl (TypeError m))"
  "in_fuel (Inl (RuntimeError m))"
  "in_fuel (Inl (CanonicalJsonError m))"
  "in_fuel (Inl (RlpError m))"
  "in_fuel (Inl (ConstantProductArithmeticError m))"
  "\<not> in_fuel (Inl OutOfFuel)"
  by (simp_all add: in_fuel_def)

lemma in_fuel_rbind:
  "in_fuel m \<Longrightarrow> (\<And>x. m = Inr x \<Longrightarrow> in_fuel (f x)) \<Longrightarrow> in_fuel (rbind m f)"
  by (cases m) (auto simp: in_fuel_def)

lemma in_fuel_rall: "(\<And>x. x \<in> set xs \<Longrightarrow> in_fuel (f x)) \<Longrightarrow> in_fuel (rall f xs)"
  by (induction xs) (auto intro: in_fuel_rbind)

lemma in_fuel_rfold: "(\<And>s x. x \<in> set xs \<Longrightarrow> in_fuel (f s x)) \<Longrightarrow> in_fuel (rfold f s xs)"
  by (induction xs arbitrary: s) (auto intro: in_fuel_rbind)

subsection \<open>Canonical codecs\<close>

text \<open>
  What a strict codec promises its callers: the decoder returns a value exactly on the
  encoding of that value. Decoding is then the inverse of encoding, each value has one
  accepted form, and an accepted form has one meaning.
\<close>

locale codec =
  fixes encode :: "'a \<Rightarrow> 'b result"
    and decode :: "'b \<Rightarrow> 'a result"
  assumes decode_iff: "decode b = Inr v \<longleftrightarrow> encode v = Inr b"
begin

lemma decode_encode: "encode v = Inr b \<Longrightarrow> decode b = Inr v"
  by (simp add: decode_iff)

lemma encode_decode: "decode b = Inr v \<Longrightarrow> encode v = Inr b"
  by (simp add: decode_iff)

lemma encode_inj: "encode v = Inr b \<Longrightarrow> encode w = Inr b \<Longrightarrow> v = w"
  by (metis decode_iff sum.inject(2))

lemma decode_inj: "decode b = Inr v \<Longrightarrow> decode c = Inr v \<Longrightarrow> b = c"
  by (simp add: decode_iff)

end

end
