(* ===== verification/Pybytes.thy ===== *)
theory Pybytes
  imports Prelude "HOL-Library.Word"
begin

text \<open>
  The parts of Python's built-in types the package uses: \<open>bytes\<close> as lists of 8-bit words,
  \<open>int.to_bytes\<close> and \<open>int.from_bytes\<close>, \<open>int.bit_length\<close>, \<open>bytes.hex\<close> and
  \<open>bytes.fromhex\<close>, \<open>str(int)\<close> and \<open>int(str)\<close>. Integers are unbounded (\<open>int\<close>).

  A \<open>str\<close> is represented by its UTF-8 encoding, one \<open>char\<close> per byte: the order of
  UTF-8 strings is the order of code points, every comparison with an ASCII literal is the
  code's, and \<open>py_len\<close> counts code points (bytes that do not continue a character).
\<close>

type_synonym byte = "8 word"
type_synonym bytes = "byte list"

subsection \<open>Integers and byte strings\<close>

fun to_bytes_le :: "nat \<Rightarrow> int \<Rightarrow> bytes" where
  "to_bytes_le 0 v = []"
| "to_bytes_le (Suc n) v = word_of_int v # to_bytes_le n (v div 256)"

fun from_bytes_le :: "bytes \<Rightarrow> int" where
  "from_bytes_le [] = 0"
| "from_bytes_le (b # bs) = uint b + 256 * from_bytes_le bs"

definition to_bytes_be :: "nat \<Rightarrow> int \<Rightarrow> bytes" where
  "to_bytes_be n v = rev (to_bytes_le n v)"

definition from_bytes_be :: "bytes \<Rightarrow> int" where
  "from_bytes_be bs = from_bytes_le (rev bs)"

definition zero_bytes :: "nat \<Rightarrow> bytes" where
  "zero_bytes n = replicate n 0"

function bit_length :: "int \<Rightarrow> nat" where
  "bit_length v = (if v \<le> 0 then 0 else Suc (bit_length (v div 2)))"
  by pat_completeness auto
termination by (relation "measure nat") auto

declare bit_length.simps [simp del]

definition byte_width :: "int \<Rightarrow> nat" where
  "byte_width v = (bit_length v + 7) div 8"

text \<open>\<open>v.to_bytes((v.bit_length() + 7) // 8, "big")\<close>: the shortest big-endian form.\<close>

definition minimal_be :: "int \<Rightarrow> bytes" where
  "minimal_be v = to_bytes_be (byte_width v) v"

lemma length_to_bytes_le [simp]: "length (to_bytes_le n v) = n"
  by (induction n arbitrary: v) auto

lemma length_to_bytes_be [simp]: "length (to_bytes_be n v) = n"
  by (simp add: to_bytes_be_def)

lemma uint_byte_bounds: "0 \<le> uint (b :: byte)" "uint (b :: byte) < 256"
  using uint_lt2p [of b] by simp_all

lemma from_bytes_le_nonneg: "0 \<le> from_bytes_le bs"
  by (induction bs) (auto simp: uint_byte_bounds)

lemma from_bytes_le_less: "from_bytes_le bs < 256 ^ length bs"
proof (induction bs)
  case Nil
  then show ?case by simp
next
  case (Cons b bs)
  have "uint b \<le> 255" using uint_byte_bounds [of b] by simp
  with Cons have "uint b + 256 * from_bytes_le bs \<le> 255 + 256 * (256 ^ length bs - 1)"
    by simp
  then show ?case by simp
qed

lemma from_to_bytes_le: "from_bytes_le (to_bytes_le n v) = v mod 256 ^ n"
proof (induction n arbitrary: v)
  case 0
  then show ?case by simp
next
  case (Suc n)
  have "uint (word_of_int v :: byte) = v mod 256" by (simp add: uint_word_of_int)
  with Suc show ?case
    by (simp add: mod_mult2_eq [symmetric] zmod_zmult2_eq add.commute)
qed

lemma to_from_bytes_le: "to_bytes_le (length bs) (from_bytes_le bs) = bs"
proof (induction bs)
  case Nil
  then show ?case by simp
next
  case (Cons b bs)
  have "(uint b + 256 * from_bytes_le bs) div 256 = from_bytes_le bs"
    using uint_byte_bounds [of b] by (simp add: div_add1_eq)
  moreover have "(word_of_int (uint b + 256 * from_bytes_le bs) :: byte) = b"
  proof -
    have "(word_of_int (256 * from_bytes_le bs) :: byte) = word_of_int 256 * word_of_int (from_bytes_le bs)"
      by (rule of_int_mult)
    also have "(word_of_int 256 :: byte) = 0" by simp
    finally show ?thesis by (simp add: of_int_add)
  qed
  ultimately show ?case using Cons by simp
qed

lemma from_bytes_be_bounds: "0 \<le> from_bytes_be bs" "from_bytes_be bs < 256 ^ length bs"
  using from_bytes_le_nonneg [of "rev bs"] from_bytes_le_less [of "rev bs"]
  by (simp_all add: from_bytes_be_def)

lemma from_to_bytes_be_mod: "from_bytes_be (to_bytes_be n v) = v mod 256 ^ n"
  by (simp add: from_bytes_be_def to_bytes_be_def from_to_bytes_le)

lemma from_to_bytes_be: "0 \<le> v \<Longrightarrow> v < 256 ^ n \<Longrightarrow> from_bytes_be (to_bytes_be n v) = v"
  by (simp add: from_to_bytes_be_mod)

lemma to_from_bytes_be: "to_bytes_be (length bs) (from_bytes_be bs) = bs"
  using to_from_bytes_le [of "rev bs"] by (simp add: from_bytes_be_def to_bytes_be_def)

lemma from_bytes_be_inj:
  "from_bytes_be xs = from_bytes_be ys \<Longrightarrow> length xs = length ys \<Longrightarrow> xs = ys"
  by (metis to_from_bytes_be)

lemma to_bytes_be_inj:
  "to_bytes_be n v = to_bytes_be n w \<Longrightarrow> 0 \<le> v \<Longrightarrow> v < 256 ^ n \<Longrightarrow> 0 \<le> w \<Longrightarrow> w < 256 ^ n \<Longrightarrow> v = w"
  by (metis from_to_bytes_be)

lemma from_bytes_be_Nil [simp]: "from_bytes_be [] = 0"
  by (simp add: from_bytes_be_def)

lemma from_bytes_le_snoc: "from_bytes_le (bs @ [b]) = from_bytes_le bs + 256 ^ length bs * uint b"
  by (induction bs) (auto simp: algebra_simps)

lemma from_bytes_be_Cons: "from_bytes_be (b # bs) = uint b * 256 ^ length bs + from_bytes_be bs"
  by (simp add: from_bytes_be_def from_bytes_le_snoc)

subsection \<open>Bit length\<close>

lemma bit_length_0 [simp]: "bit_length 0 = 0"
  by (simp add: bit_length.simps)

lemma bit_length_le_iff: "0 \<le> v \<Longrightarrow> bit_length v \<le> n \<longleftrightarrow> v < 2 ^ n"
proof (induction v arbitrary: n rule: bit_length.induct)
  case (1 v)
  show ?case
  proof (cases "v = 0")
    case True
    then show ?thesis by simp
  next
    case False
    with "1.prems" have v: "0 < v" by simp
    show ?thesis
    proof (cases n)
      case 0
      with v show ?thesis by (simp add: bit_length.simps [of v])
    next
      case (Suc m)
      have "bit_length (v div 2) \<le> m \<longleftrightarrow> v div 2 < 2 ^ m"
        using "1.IH" v by simp
      also have "\<dots> \<longleftrightarrow> v < 2 ^ Suc m" by auto
      finally show ?thesis using v Suc by (simp add: bit_length.simps [of v])
    qed
  qed
qed

lemma bit_length_pos: "0 < v \<Longrightarrow> 0 < bit_length v"
  by (simp add: bit_length.simps [of v])

lemma byte_width_le_iff: "0 \<le> v \<Longrightarrow> byte_width v \<le> n \<longleftrightarrow> v < 256 ^ n"
proof -
  assume v: "0 \<le> v"
  have "byte_width v \<le> n \<longleftrightarrow> bit_length v \<le> 8 * n"
    by (auto simp: byte_width_def)
  also have "\<dots> \<longleftrightarrow> v < 2 ^ (8 * n)" by (rule bit_length_le_iff [OF v])
  finally show ?thesis by (simp add: power_mult)
qed

lemma less_256_byte_width: "0 \<le> v \<Longrightarrow> v < 256 ^ byte_width v"
  using byte_width_le_iff by blast

lemma from_minimal_be: "0 \<le> v \<Longrightarrow> from_bytes_be (minimal_be v) = v"
  by (simp add: minimal_be_def from_to_bytes_be less_256_byte_width)

lemma minimal_be_0 [simp]: "minimal_be 0 = []"
  by (simp add: minimal_be_def byte_width_def to_bytes_be_def)

lemma byte_width_from_be:
  assumes "bs \<noteq> []" and "hd bs \<noteq> 0"
  shows "byte_width (from_bytes_be bs) = length bs"
proof -
  obtain b r where bs: "bs = b # r" using assms(1) by (cases bs) auto
  have "uint b \<noteq> 0" using assms(2) bs by (simp add: unsigned_eq_0_iff)
  then have b: "1 \<le> uint b" using uint_byte_bounds [of b] by linarith
  have "1 * 256 ^ length r \<le> uint b * 256 ^ length r" using b by (rule mult_right_mono) simp
  then have lower: "256 ^ length r \<le> from_bytes_be bs"
    unfolding bs from_bytes_be_Cons using from_bytes_be_bounds(1) [of r] by linarith
  have "byte_width (from_bytes_be bs) \<le> length bs"
    by (simp add: byte_width_le_iff from_bytes_be_bounds)
  moreover have "\<not> byte_width (from_bytes_be bs) \<le> length r"
    using lower by (simp add: byte_width_le_iff from_bytes_be_bounds)
  ultimately show ?thesis by (simp add: bs)
qed

lemma minimal_from_be: "bs \<noteq> [] \<Longrightarrow> hd bs \<noteq> 0 \<Longrightarrow> minimal_be (from_bytes_be bs) = bs"
  by (simp add: minimal_be_def byte_width_from_be to_from_bytes_be)

lemma minimal_be_Nil_iff: "0 \<le> v \<Longrightarrow> minimal_be v = [] \<longleftrightarrow> v = 0"
  by (metis from_bytes_be_Nil from_minimal_be minimal_be_0)

lemma hd_minimal_be:
  assumes "0 < v"
  shows "hd (minimal_be v) \<noteq> 0"
proof
  assume hd0: "hd (minimal_be v) = 0"
  have "minimal_be v \<noteq> []" using assms by (simp add: minimal_be_Nil_iff)
  then obtain r where r: "minimal_be v = 0 # r" using hd0 by (cases "minimal_be v") auto
  then have "from_bytes_be r = v"
    using from_minimal_be [of v] assms by (simp add: from_bytes_be_Cons)
  then have "v < 256 ^ length r" using from_bytes_be_bounds(2) [of r] by simp
  then have "byte_width v \<le> length r" using assms by (simp add: byte_width_le_iff)
  moreover have "byte_width v = Suc (length r)"
    using r by (metis length_to_bytes_be minimal_be_def length_Cons)
  ultimately show False by simp
qed

subsection \<open>Hexadecimal text\<close>

definition hex_digits :: string where
  "hex_digits = ''0123456789abcdef''"

definition hex_digit :: "nat \<Rightarrow> char" where
  "hex_digit n = hex_digits ! n"

definition is_hex_char :: "char \<Rightarrow> bool" where
  "is_hex_char c \<longleftrightarrow> c \<in> set hex_digits"

definition is_digit_char :: "char \<Rightarrow> bool" where
  "is_digit_char c \<longleftrightarrow> c \<in> set ''0123456789''"

definition hex_value :: "char \<Rightarrow> nat" where
  "hex_value c = (let n = of_char c in if n < 58 then n - 48 else n - 87)"

text \<open>\<open>bytes.hex()\<close> and \<open>bytes.fromhex\<close> on the even-length lowercase text the callers pass.\<close>

fun bytes_hex :: "bytes \<Rightarrow> string" where
  "bytes_hex [] = []"
| "bytes_hex (b # bs) = hex_digit (unat b div 16) # hex_digit (unat b mod 16) # bytes_hex bs"

fun bytes_fromhex :: "string \<Rightarrow> bytes" where
  "bytes_fromhex (c # d # cs) = of_nat (16 * hex_value c + hex_value d) # bytes_fromhex cs"
| "bytes_fromhex _ = []"

lemma hex_digit_facts:
  assumes "n < 16"
  shows "is_hex_char (hex_digit n)" and "hex_value (hex_digit n) = n"
proof -
  from assms have "n \<in> set [0..<16]" by simp
  also have "[0..<16] = [0,1,2,3,4,5,6,7,8,9,10,11,12,13,14,15]" by (simp add: upt_rec)
  finally have "n \<in> {0,1,2,3,4,5,6,7,8,9,10,11,12,13,14,15}" by simp
  then show "is_hex_char (hex_digit n)" and "hex_value (hex_digit n) = n"
    by (auto simp: is_hex_char_def hex_digit_def hex_digits_def hex_value_def)
qed

lemma hex_char_facts:
  assumes "is_hex_char c"
  shows "hex_value c < 16" and "hex_digit (hex_value c) = c"
  using assms by (auto simp: is_hex_char_def hex_digit_def hex_digits_def hex_value_def)

lemma length_bytes_hex [simp]: "length (bytes_hex bs) = 2 * length bs"
  by (induction bs) auto

lemma unat_byte_less: "unat (b :: byte) < 256"
  using unsigned_less [of b] by simp

lemma bytes_hex_chars: "c \<in> set (bytes_hex bs) \<Longrightarrow> is_hex_char c"
proof (induction bs)
  case Nil
  then show ?case by simp
next
  case (Cons b bs)
  have "unat b div 16 < 16" "unat b mod 16 < 16" using unat_byte_less [of b] by auto
  with Cons show ?case by (auto simp: hex_digit_facts)
qed

lemma bytes_fromhex_hex [simp]: "bytes_fromhex (bytes_hex bs) = bs"
proof (induction bs)
  case Nil
  then show ?case by simp
next
  case (Cons b bs)
  have "unat b div 16 < 16" "unat b mod 16 < 16" using unat_byte_less [of b] by auto
  then have "16 * hex_value (hex_digit (unat b div 16)) + hex_value (hex_digit (unat b mod 16)) = unat b"
    by (simp add: hex_digit_facts)
  with Cons show ?case by (simp add: unat_byte_less)
qed

lemma bytes_hex_inj: "bytes_hex xs = bytes_hex ys \<longleftrightarrow> xs = ys"
  by (metis bytes_fromhex_hex)

lemma bytes_hex_fromhex:
  "list_all is_hex_char s \<Longrightarrow> even (length s) \<Longrightarrow> bytes_hex (bytes_fromhex s) = s"
proof (induction s rule: bytes_fromhex.induct)
  case (1 c d cs)
  let ?n = "16 * hex_value c + hex_value d"
  have cd: "hex_value c < 16" "hex_value d < 16"
    using 1 by (auto intro: hex_char_facts)
  then have "unat (of_nat ?n :: byte) = ?n" by (subst unat_of_nat) simp
  moreover have "?n div 16 = hex_value c" "?n mod 16 = hex_value d" using cd by auto
  ultimately show ?case using 1 by (simp add: hex_char_facts)
qed auto

subsection \<open>Decimal text\<close>

definition dec_digit :: "nat \<Rightarrow> char" where
  "dec_digit n = ''0123456789'' ! n"

fun str_of_nat :: "nat \<Rightarrow> string" where
  "str_of_nat n = (if n < 10 then [dec_digit n] else str_of_nat (n div 10) @ [dec_digit (n mod 10)])"

declare str_of_nat.simps [simp del]

text \<open>\<open>str(int)\<close>.\<close>

definition str_of_int :: "int \<Rightarrow> string" where
  "str_of_int v = (if v < 0 then CHR ''-'' # str_of_nat (nat (- v)) else str_of_nat (nat v))"

text \<open>\<open>int(text)\<close> on a text of decimal digits.\<close>

definition int_of_dec :: "string \<Rightarrow> int" where
  "int_of_dec s = foldl (\<lambda>a c. 10 * a + int (hex_value c)) 0 s"

text \<open>\<open>int(text, 16)\<close> on a text of lowercase hexadecimal digits.\<close>

definition int_of_hex :: "string \<Rightarrow> int" where
  "int_of_hex s = foldl (\<lambda>a c. 16 * a + int (hex_value c)) 0 s"

text \<open>The text matched by \<open>^(?:0|[1-9][0-9]*)$\<close>.\<close>

definition is_canonical_decimal :: "string \<Rightarrow> bool" where
  "is_canonical_decimal s \<longleftrightarrow> s \<noteq> [] \<and> list_all is_digit_char s \<and> (hd s = CHR ''0'' \<longrightarrow> s = ''0'')"

lemma dec_digit_facts:
  assumes "n < 10"
  shows "is_digit_char (dec_digit n)" and "hex_value (dec_digit n) = n"
    and "dec_digit n = CHR ''0'' \<longleftrightarrow> n = 0"
proof -
  from assms have "n \<in> set [0..<10]" by simp
  also have "[0..<10] = [0,1,2,3,4,5,6,7,8,9]" by (simp add: upt_rec)
  finally have "n \<in> {0,1,2,3,4,5,6,7,8,9}" by simp
  then show "is_digit_char (dec_digit n)" and "hex_value (dec_digit n) = n"
    and "dec_digit n = CHR ''0'' \<longleftrightarrow> n = 0"
    by (auto simp: is_digit_char_def dec_digit_def hex_value_def)
qed

lemma digit_char_facts:
  assumes "is_digit_char c"
  shows "hex_value c < 10" and "dec_digit (hex_value c) = c" and "hex_value c = 0 \<longleftrightarrow> c = CHR ''0''"
  using assms by (auto simp: is_digit_char_def dec_digit_def hex_value_def)

lemma str_of_nat_not_Nil [simp]: "str_of_nat n \<noteq> []"
  by (simp add: str_of_nat.simps [of n])

lemma str_of_nat_digits: "list_all is_digit_char (str_of_nat n)"
proof (induction n rule: str_of_nat.induct)
  case (1 n)
  then show ?case by (simp add: str_of_nat.simps [of n] dec_digit_facts)
qed

lemma hd_str_of_nat: "hd (str_of_nat n) = CHR ''0'' \<longleftrightarrow> n = 0"
proof (induction n rule: str_of_nat.induct)
  case (1 n)
  then show ?case by (auto simp: str_of_nat.simps [of n] dec_digit_facts)
qed

lemma canonical_str_of_nat: "is_canonical_decimal (str_of_nat n)"
  by (auto simp: is_canonical_decimal_def str_of_nat_digits hd_str_of_nat)
     (simp add: str_of_nat.simps dec_digit_def)

lemma int_of_dec_str_of_nat [simp]: "int_of_dec (str_of_nat n) = int n"
proof (induction n rule: str_of_nat.induct)
  case (1 n)
  show ?case
  proof (cases "n < 10")
    case True
    then show ?thesis by (simp add: str_of_nat.simps [of n] int_of_dec_def dec_digit_facts)
  next
    case False
    with 1 have "int_of_dec (str_of_nat (n div 10)) = int (n div 10)" by simp
    moreover have "10 * int (n div 10) + int (n mod 10) = int n"
      by (metis mult_div_mod_eq of_nat_add of_nat_mult of_nat_numeral)
    ultimately show ?thesis
      using False by (simp add: str_of_nat.simps [of n] int_of_dec_def dec_digit_facts)
  qed
qed

lemma int_of_dec_str_of_int: "0 \<le> v \<Longrightarrow> int_of_dec (str_of_int v) = v"
  by (simp add: str_of_int_def)

lemma str_of_int_canonical: "0 \<le> v \<Longrightarrow> is_canonical_decimal (str_of_int v)"
  by (simp add: str_of_int_def canonical_str_of_nat)

lemma str_of_nat_inj: "str_of_nat m = str_of_nat n \<longleftrightarrow> m = n"
  by (metis int_of_dec_str_of_nat nat_int)

lemma length_str_of_nat: "n < 10 ^ k \<Longrightarrow> 0 < k \<Longrightarrow> length (str_of_nat n) \<le> k"
proof (induction n arbitrary: k rule: str_of_nat.induct)
  case (1 n)
  show ?case
  proof (cases "n < 10")
    case True
    with "1.prems" show ?thesis by (simp add: str_of_nat.simps [of n])
  next
    case False
    with "1.prems" obtain j where k: "k = Suc j" by (cases k) auto
    with False "1.prems" have "0 < j" by (cases j) auto
    note k = k this
    with "1.prems" have "n div 10 < 10 ^ j" by auto
    with "1.IH" [OF False] k have "length (str_of_nat (n div 10)) \<le> j" by simp
    with False k show ?thesis by (simp add: str_of_nat.simps [of n])
  qed
qed

subsection \<open>Text\<close>

text \<open>\<open>len(text)\<close>: code points of the UTF-8 encoding.\<close>

definition is_continuation :: "char \<Rightarrow> bool" where
  "is_continuation c \<longleftrightarrow> 128 \<le> (of_char c :: nat) \<and> (of_char c :: nat) < 192"

definition py_len :: "string \<Rightarrow> nat" where
  "py_len s = length (filter (\<lambda>c. \<not> is_continuation c) s)"

text \<open>\<open>text.encode("utf-8")\<close>: the bytes of the representation.\<close>

definition utf8_bytes :: "string \<Rightarrow> bytes" where
  "utf8_bytes s = map (\<lambda>c. of_nat (of_char c)) s"

lemma py_len_le: "py_len s \<le> length s"
  by (simp add: py_len_def)

lemma length_utf8_bytes [simp]: "length (utf8_bytes s) = length s"
  by (simp add: utf8_bytes_def)

lemma utf8_bytes_append [simp]: "utf8_bytes (s @ t) = utf8_bytes s @ utf8_bytes t"
  by (simp add: utf8_bytes_def)

lemma char_less_256: "(of_char c :: nat) < 256"
  by (metis of_char_mod_256 mod_less_divisor zero_less_numeral)

lemma unat_of_nat_byte: "n < 256 \<Longrightarrow> unat (of_nat n :: byte) = n"
  by (simp add: unat_of_nat)

lemma utf8_bytes_inj: "utf8_bytes s = utf8_bytes t \<Longrightarrow> s = t"
proof -
  have "c = d" if "(of_nat (of_char c) :: byte) = of_nat (of_char d)" for c d :: char
  proof -
    have "(of_char c :: nat) = of_char d"
      using that char_less_256 [of c] char_less_256 [of d]
      by (metis unat_of_nat_byte)
    then show ?thesis by simp
  qed
  then show "utf8_bytes s = utf8_bytes t \<Longrightarrow> s = t"
    unfolding utf8_bytes_def by (metis (no_types, lifting) inj_map_eq_map injI)
qed

end
