(* ===== verification/Hashes.thy ===== *)
theory Hashes
  imports Pybytes
begin

text \<open>
  The two hash functions the package relies on. \<open>keccak256\<close> models
  \<open>src/aladdin_mev_engine/keccak.py\<close> line by line: 64-bit lanes are \<open>64 word\<close>, so the
  code's \<open>& MASK_64\<close> is the type. \<open>sha256\<close> is the standard library's
  \<open>hashlib.sha256\<close> (FIPS 180-4). The locale \<open>digest_function\<close> is the interface the
  other components use: a function from byte strings to 32 bytes, and what follows for its
  hexadecimal text.
\<close>

unbundle bit_operations_syntax

subsection \<open>The digest interface\<close>

text \<open>\<open>^[0-9a-f]{64}$\<close>, the shape of a digest in hexadecimal.\<close>

definition is_sha256_text :: "string \<Rightarrow> bool" where
  "is_sha256_text s \<longleftrightarrow> length s = 64 \<and> list_all is_hex_char s"

locale digest_function =
  fixes H :: "bytes \<Rightarrow> bytes"
  assumes digest_length: "length (H m) = 32"
begin

lemma digest_not_Nil: "H m \<noteq> []"
  using digest_length [of m] by auto

lemma digest_hex_text: "is_sha256_text (bytes_hex (H m))"
  by (auto simp: is_sha256_text_def digest_length list_all_iff bytes_hex_chars)

lemma digest_hex_eq: "bytes_hex (H m) = bytes_hex (H n) \<longleftrightarrow> H m = H n"
  by (rule bytes_hex_inj)

end

subsection \<open>Keccak-f[1600]\<close>

type_synonym lane = "64 word"

definition KECCAK_256_RATE_BYTES :: nat where
  "KECCAK_256_RATE_BYTES = 136"

definition ROUND_CONSTANTS :: "lane list" where
  "ROUND_CONSTANTS =
    [0x0000000000000001, 0x0000000000008082, 0x800000000000808A, 0x8000000080008000,
     0x000000000000808B, 0x0000000080000001, 0x8000000080008081, 0x8000000000008009,
     0x000000000000008A, 0x0000000000000088, 0x0000000080008009, 0x000000008000000A,
     0x000000008000808B, 0x800000000000008B, 0x8000000000008089, 0x8000000000008003,
     0x8000000000008002, 0x8000000000000080, 0x000000000000800A, 0x800000008000000A,
     0x8000000080008081, 0x8000000000008080, 0x0000000080000001, 0x8000000080008008]"

definition ROTATION_OFFSETS :: "nat list list" where
  "ROTATION_OFFSETS =
    [[0, 36, 3, 41, 18],
     [1, 44, 10, 45, 2],
     [62, 6, 43, 15, 61],
     [28, 55, 25, 21, 56],
     [27, 20, 39, 8, 14]]"

definition rotate_left_64 :: "lane \<Rightarrow> nat \<Rightarrow> lane" where
  "rotate_left_64 value shift =
    (if shift = 0 then value
     else push_bit shift value OR drop_bit (64 - shift) value)"

definition column_parity :: "lane list \<Rightarrow> lane list" where
  "column_parity state =
    map (\<lambda>x. state ! x XOR state ! (x + 5) XOR state ! (x + 10) XOR state ! (x + 15)
              XOR state ! (x + 20)) [0..<5]"

definition theta_row :: "lane list \<Rightarrow> lane list" where
  "theta_row parity =
    map (\<lambda>x. parity ! ((x + 4) mod 5) XOR rotate_left_64 (parity ! ((x + 1) mod 5)) 1) [0..<5]"

definition theta_step :: "lane list \<Rightarrow> lane list" where
  "theta_step state =
    (let theta = theta_row (column_parity state)
     in map (\<lambda>i. state ! i XOR theta ! (i mod 5)) [0..<25])"

definition rho_pi_step :: "lane list \<Rightarrow> lane list" where
  "rho_pi_step state =
    foldl (\<lambda>rotated (y, x).
        rotated [y + 5 * ((2 * x + 3 * y) mod 5) :=
                 rotate_left_64 (state ! (x + 5 * y)) (ROTATION_OFFSETS ! x ! y)])
      (replicate 25 0) [(y, x). y \<leftarrow> [0..<5], x \<leftarrow> [0..<5]]"

definition chi_step :: "lane list \<Rightarrow> lane list" where
  "chi_step rotated =
    map (\<lambda>i. let y = i div 5; x = i mod 5 in
          rotated ! (x + 5 * y)
          XOR (NOT (rotated ! ((x + 1) mod 5 + 5 * y)) AND rotated ! ((x + 2) mod 5 + 5 * y)))
      [0..<25]"

definition keccak_round :: "lane list \<Rightarrow> lane \<Rightarrow> lane list" where
  "keccak_round state round_constant =
    (let chi = chi_step (rho_pi_step (theta_step state))
     in chi [0 := chi ! 0 XOR round_constant])"

definition keccak_f1600 :: "lane list \<Rightarrow> lane list" where
  "keccak_f1600 state = foldl keccak_round state ROUND_CONSTANTS"

subsection \<open>The sponge\<close>

text \<open>\<open>state[lane_index] ^= lane\<close> for the 17 lanes of a block.\<close>

definition xor_block :: "lane list \<Rightarrow> bytes \<Rightarrow> lane list" where
  "xor_block state block =
    map (\<lambda>i. if i < KECCAK_256_RATE_BYTES div 8
              then state ! i XOR word_of_int (from_bytes_le (take 8 (drop (i * 8) block)))
              else state ! i) [0..<25]"

function keccak_absorb :: "lane list \<Rightarrow> bytes \<Rightarrow> lane list \<times> bytes" where
  "keccak_absorb state payload =
    (if KECCAK_256_RATE_BYTES \<le> length payload
     then keccak_absorb (keccak_f1600 (xor_block state (take KECCAK_256_RATE_BYTES payload)))
            (drop KECCAK_256_RATE_BYTES payload)
     else (state, payload))"
  by pat_completeness auto
termination
  by (relation "measure (\<lambda>(s, p). length p)") (auto simp: KECCAK_256_RATE_BYTES_def)

declare keccak_absorb.simps [simp del]

definition final_block :: "bytes \<Rightarrow> bytes" where
  "final_block remainder =
    (let block = remainder @ replicate (KECCAK_256_RATE_BYTES - length remainder) 0;
         block = block [length remainder := block ! length remainder XOR 0x01]
     in block [KECCAK_256_RATE_BYTES - 1 := block ! (KECCAK_256_RATE_BYTES - 1) XOR 0x80])"

fun squeeze :: "bytes \<Rightarrow> lane list \<Rightarrow> bytes" where
  "squeeze output [] = take 32 output"
| "squeeze output (l # lanes) =
    (let output = output @ to_bytes_le 8 (uint l)
     in if 32 \<le> length output then take 32 output else squeeze output lanes)"

definition keccak256 :: "bytes \<Rightarrow> bytes" where
  "keccak256 payload =
    (case keccak_absorb (replicate 25 0) payload of
       (state, remainder) \<Rightarrow>
         squeeze [] (take (KECCAK_256_RATE_BYTES div 8)
           (keccak_f1600 (xor_block state (final_block remainder)))))"

definition keccak256_hex :: "bytes \<Rightarrow> string" where
  "keccak256_hex payload = bytes_hex (keccak256 payload)"

lemma rotate_left_64_rotl:
  assumes s: "shift < 64"
  shows "rotate_left_64 value shift = word_rotl shift value"
proof (rule bit_word_eqI)
  fix n
  assume "n < LENGTH(64)"
  then have n: "n < 64" by simp
  have rotl: "bit (word_rotl shift value) n = bit value ((n + (64 - shift)) mod 64)"
    using s n by (simp add: bit_word_rotl_iff)
  show "bit (rotate_left_64 value shift) n = bit (word_rotl shift value) n"
  proof (cases "shift = 0")
    case True
    then show ?thesis unfolding rotl using n by (simp add: rotate_left_64_def)
  next
    case shift: False
    have m: "(n + (64 - shift)) mod 64 = (if shift \<le> n then n - shift else 64 - shift + n)"
      using s n shift by (auto simp: mod_if)
    have far: "\<not> bit value (64 - shift + n)" if "shift \<le> n"
      using that s bit_imp_le_length [of "value" "64 - shift + n"] by auto
    have "bit (rotate_left_64 value shift) n
        \<longleftrightarrow> (shift \<le> n \<and> bit value (n - shift)) \<or> bit value (64 - shift + n)"
      using n shift
      by (simp only: rotate_left_64_def bit_or_iff bit_push_bit_iff bit_drop_bit_eq comp_apply
          if_False) (auto simp: possible_bit_def)
    then show ?thesis unfolding rotl m using far by auto
  qed
qed

lemma length_keccak_round [simp]: "length (keccak_round state c) = 25"
  by (simp add: keccak_round_def chi_step_def Let_def)

lemma length_foldl_keccak: "length state = 25 \<Longrightarrow> length (foldl keccak_round state cs) = 25"
  by (induction cs arbitrary: state) auto

lemma length_keccak_f1600: "length state = 25 \<Longrightarrow> length (keccak_f1600 state) = 25"
  by (simp add: keccak_f1600_def length_foldl_keccak)

lemma length_xor_block [simp]: "length (xor_block state block) = 25"
  by (simp add: xor_block_def)

lemma keccak_absorb_remainder:
  "keccak_absorb state payload = (state', remainder) \<Longrightarrow> length remainder < KECCAK_256_RATE_BYTES"
proof (induction state payload rule: keccak_absorb.induct)
  case (1 state payload)
  then show ?case
    by (simp add: keccak_absorb.simps [of state payload] split: if_splits)
qed

lemma length_squeeze: "32 \<le> length out + 8 * length lanes \<Longrightarrow> length (squeeze out lanes) = 32"
  by (induction out lanes rule: squeeze.induct) (auto simp: Let_def)

lemma length_keccak256 [simp]: "length (keccak256 payload) = 32"
  by (simp add: keccak256_def KECCAK_256_RATE_BYTES_def length_squeeze length_keccak_f1600
      split: prod.split)

interpretation keccak: digest_function keccak256
  by unfold_locales simp

subsection \<open>SHA-256\<close>

type_synonym w32 = "32 word"

definition SHA256_K :: "w32 list" where
  "SHA256_K =
    [0x428A2F98, 0x71374491, 0xB5C0FBCF, 0xE9B5DBA5, 0x3956C25B, 0x59F111F1, 0x923F82A4, 0xAB1C5ED5,
     0xD807AA98, 0x12835B01, 0x243185BE, 0x550C7DC3, 0x72BE5D74, 0x80DEB1FE, 0x9BDC06A7, 0xC19BF174,
     0xE49B69C1, 0xEFBE4786, 0x0FC19DC6, 0x240CA1CC, 0x2DE92C6F, 0x4A7484AA, 0x5CB0A9DC, 0x76F988DA,
     0x983E5152, 0xA831C66D, 0xB00327C8, 0xBF597FC7, 0xC6E00BF3, 0xD5A79147, 0x06CA6351, 0x14292967,
     0x27B70A85, 0x2E1B2138, 0x4D2C6DFC, 0x53380D13, 0x650A7354, 0x766A0ABB, 0x81C2C92E, 0x92722C85,
     0xA2BFE8A1, 0xA81A664B, 0xC24B8B70, 0xC76C51A3, 0xD192E819, 0xD6990624, 0xF40E3585, 0x106AA070,
     0x19A4C116, 0x1E376C08, 0x2748774C, 0x34B0BCB5, 0x391C0CB3, 0x4ED8AA4A, 0x5B9CCA4F, 0x682E6FF3,
     0x748F82EE, 0x78A5636F, 0x84C87814, 0x8CC70208, 0x90BEFFFA, 0xA4506CEB, 0xBEF9A3F7, 0xC67178F2]"

definition SHA256_INIT :: "w32 list" where
  "SHA256_INIT =
    [0x6A09E667, 0xBB67AE85, 0x3C6EF372, 0xA54FF53A, 0x510E527F, 0x9B05688C, 0x1F83D9AB, 0x5BE0CD19]"

definition sha256_pad :: "bytes \<Rightarrow> bytes" where
  "sha256_pad m =
    (let n = length m
     in m @ 0x80 # replicate ((119 - n mod 64) mod 64) 0 @ to_bytes_be 8 (8 * int n))"

definition word32_be :: "bytes \<Rightarrow> w32" where
  "word32_be bs = word_of_int (from_bytes_be bs)"

fun sha256_schedule :: "nat \<Rightarrow> w32 list \<Rightarrow> w32 list" where
  "sha256_schedule 0 ws = ws"
| "sha256_schedule (Suc n) ws =
    (let i = length ws; x = ws ! (i - 15); y = ws ! (i - 2);
         s0 = word_rotr 7 x XOR word_rotr 18 x XOR drop_bit 3 x;
         s1 = word_rotr 17 y XOR word_rotr 19 y XOR drop_bit 10 y
     in sha256_schedule n (ws @ [ws ! (i - 16) + s0 + ws ! (i - 7) + s1]))"

fun sha256_round :: "w32 list \<Rightarrow> w32 \<times> w32 \<Rightarrow> w32 list" where
  "sha256_round [a, b, c, d, e, f, g, h] (k, w) =
    (let S1 = word_rotr 6 e XOR word_rotr 11 e XOR word_rotr 25 e;
         ch = (e AND f) XOR (NOT e AND g);
         t1 = h + S1 + ch + k + w;
         S0 = word_rotr 2 a XOR word_rotr 13 a XOR word_rotr 22 a;
         maj = (a AND b) XOR (a AND c) XOR (b AND c);
         t2 = S0 + maj
     in [t1 + t2, a, b, c, d + t1, e, f, g])"
| "sha256_round s _ = s"

definition sha256_compress :: "w32 list \<Rightarrow> bytes \<Rightarrow> w32 list" where
  "sha256_compress state block =
    (let ws = sha256_schedule 48 (map (\<lambda>i. word32_be (take 4 (drop (4 * i) block))) [0..<16])
     in map2 (+) state (foldl sha256_round state (zip SHA256_K ws)))"

function sha256_blocks :: "w32 list \<Rightarrow> bytes \<Rightarrow> w32 list" where
  "sha256_blocks state m =
    (if m = [] then state else sha256_blocks (sha256_compress state (take 64 m)) (drop 64 m))"
  by pat_completeness auto
termination by (relation "measure (\<lambda>(s, m). length m)") auto

declare sha256_blocks.simps [simp del]

definition sha256 :: "bytes \<Rightarrow> bytes" where
  "sha256 m = concat (map (\<lambda>w. to_bytes_be 4 (uint w)) (sha256_blocks SHA256_INIT (sha256_pad m)))"

lemma length_sha256_round [simp]: "length (sha256_round s kw) = length s"
  by (induction s kw rule: sha256_round.induct) (auto simp: Let_def)

lemma length_sha256_compress [simp]: "length (sha256_compress s b) = length s"
proof -
  have "length (foldl sha256_round s kws) = length s" for kws
    by (induction kws arbitrary: s) auto
  then show ?thesis by (simp add: sha256_compress_def Let_def)
qed

lemma length_sha256_blocks: "length (sha256_blocks s m) = length s"
proof (induction s m rule: sha256_blocks.induct)
  case (1 s m)
  then show ?case by (simp add: sha256_blocks.simps [of s m])
qed

lemma length_sha256 [simp]: "length (sha256 m) = 32"
  by (simp add: sha256_def length_concat comp_def sum_list_triv length_sha256_blocks SHA256_INIT_def)

interpretation sha256: digest_function sha256
  by unfold_locales simp

end
