(* ===== verification/Canonical.thy ===== *)
theory Canonical
  imports Hashes "HOL-Library.Multiset"
begin

text \<open>
  \<open>src/aladdin_mev_engine/canonical.py\<close>: the JSON values that take part in evidence, the
  limits every value is checked against, the canonical encoding (sorted keys, no white
  space, UTF-8), its SHA-256 digest, and the strict parser.

  A JSON object is the list of its key/value pairs in insertion order, as a Python \<open>dict\<close>
  keeps them; the encoder sorts the keys. The standard library's \<open>json.dumps\<close> and
  \<open>json.loads\<close> are modelled for the options the code passes. Every failure of the parser
  is a \<open>CanonicalJsonError\<close> in the code, so the parser itself only says that it failed.
\<close>

datatype json =
    JNull
  | JBool bool
  | JInt int
  | JStr string
  | JArr "json list"
  | JObj "(string \<times> json) list"

definition DEFAULT_MAX_JSON_BYTES :: nat where "DEFAULT_MAX_JSON_BYTES = 1048576"
definition DEFAULT_MAX_DEPTH :: nat where "DEFAULT_MAX_DEPTH = 32"
definition DEFAULT_MAX_ITEMS :: nat where "DEFAULT_MAX_ITEMS = 100000"

definition require_governed_limit :: "string \<Rightarrow> int \<Rightarrow> nat \<Rightarrow> unit result" where
  "require_governed_limit name v maximum =
    (if v < 0 then Inl (CanonicalJsonError (name @ '' must be a non-negative integer''))
     else if int maximum < v then Inl (CanonicalJsonError (name @ '' exceeds the governed maximum''))
     else Inr ())"

subsection \<open>Limits\<close>

text \<open>\<open>_validate_tree\<close>; the item counter, a shared list cell in the code, is passed along.\<close>

fun validate_tree :: "nat \<Rightarrow> nat \<Rightarrow> nat \<Rightarrow> nat \<Rightarrow> json \<Rightarrow> nat result" where
  "validate_tree depth max_depth max_items counter v =
    (if max_depth < depth then Inl (CanonicalJsonError ''maximum JSON nesting depth exceeded'')
     else if max_items < Suc counter then Inl (CanonicalJsonError ''maximum JSON item count exceeded'')
     else (case v of
         JObj kvs \<Rightarrow> rfold (\<lambda>c kv. validate_tree (Suc depth) max_depth max_items c (snd kv)) (Suc counter) kvs
       | JArr vs \<Rightarrow> rfold (\<lambda>c x. validate_tree (Suc depth) max_depth max_items c x) (Suc counter) vs
       | _ \<Rightarrow> Inr (Suc counter)))"

declare validate_tree.simps [simp del]

text \<open>What the walk measures: the nesting depth and the number of values of a tree.\<close>

fun json_depth :: "json \<Rightarrow> nat" where
  "json_depth (JArr vs) = fold max (map (\<lambda>x. Suc (json_depth x)) vs) 0"
| "json_depth (JObj kvs) = fold max (map (\<lambda>kv. Suc (json_depth (snd kv))) kvs) 0"
| "json_depth _ = 0"

fun json_items :: "json \<Rightarrow> nat" where
  "json_items (JArr vs) = Suc (sum_list (map json_items vs))"
| "json_items (JObj kvs) = Suc (sum_list (map (\<lambda>kv. json_items (snd kv)) kvs))"
| "json_items _ = 1"

subsection \<open>Encoding\<close>

definition hex4 :: "nat \<Rightarrow> string" where
  "hex4 n = [CHR ''0'', CHR ''0'', hex_digit (n div 16), hex_digit (n mod 16)]"

text \<open>String escapes of \<open>json.dumps(ensure_ascii=False)\<close>.\<close>

definition json_escape_char :: "char \<Rightarrow> string" where
  "json_escape_char c =
    (if c = CHR 0x22 then [CHR 0x5C, CHR 0x22]
     else if c = CHR 0x5C then [CHR 0x5C, CHR 0x5C]
     else if c = CHR 0x0A then [CHR 0x5C, CHR ''n'']
     else if c = CHR 0x0D then [CHR 0x5C, CHR ''r'']
     else if c = CHR 0x09 then [CHR 0x5C, CHR ''t'']
     else if c = CHR 0x0C then [CHR 0x5C, CHR ''f'']
     else if c = CHR 0x08 then [CHR 0x5C, CHR ''b'']
     else if (of_char c :: nat) < 32 then [CHR 0x5C, CHR ''u''] @ hex4 (of_char c)
     else [c])"

definition json_quote :: "string \<Rightarrow> string" where
  "json_quote s = CHR 0x22 # concat (map json_escape_char s) @ [CHR 0x22]"

fun join :: "string \<Rightarrow> string list \<Rightarrow> string" where
  "join sep [] = []"
| "join sep [x] = x"
| "join sep (x # y # xs) = x @ sep @ join sep (y # xs)"

text \<open>\<open>json.dumps(value, ensure_ascii=False, sort_keys=True, separators=(",", ":"))\<close>.\<close>

fun json_dump :: "json \<Rightarrow> string" where
  "json_dump JNull = ''null''"
| "json_dump (JBool b) = (if b then ''true'' else ''false'')"
| "json_dump (JInt v) = str_of_int v"
| "json_dump (JStr s) = json_quote s"
| "json_dump (JArr vs) = ''['' @ join '','' (map json_dump vs) @ '']''"
| "json_dump (JObj kvs) =
    ''{'' @ join '','' (map (\<lambda>(k, t). json_quote k @ '':'' @ t)
               (sort_key fst (map (\<lambda>(k, x). (k, json_dump x)) kvs))) @ ''}''"

text \<open>CPython refuses to print an integer of more than 4300 digits.\<close>

definition max_str_digits_bound :: int where
  "max_str_digits_bound = 10 ^ 4300"

fun has_huge_int :: "json \<Rightarrow> bool" where
  "has_huge_int (JInt v) = (max_str_digits_bound \<le> \<bar>v\<bar>)"
| "has_huge_int (JArr vs) = list_ex has_huge_int vs"
| "has_huge_int (JObj kvs) = list_ex (\<lambda>kv. has_huge_int (snd kv)) kvs"
| "has_huge_int _ = False"

definition canonical_json_bytes :: "json \<Rightarrow> bytes result" where
  "canonical_json_bytes v =
    rbind (validate_tree 0 DEFAULT_MAX_DEPTH DEFAULT_MAX_ITEMS 0 v) (\<lambda>_.
     if has_huge_int v then Inl (CanonicalJsonError ''value cannot be encoded as canonical JSON'')
     else let encoded = utf8_bytes (json_dump v)
          in if DEFAULT_MAX_JSON_BYTES < length encoded
             then Inl (CanonicalJsonError ''canonical JSON byte limit exceeded'')
             else Inr encoded)"

definition json_sha256 :: "json \<Rightarrow> string" where
  "json_sha256 v = bytes_hex (sha256 (utf8_bytes (json_dump v)))"

definition canonical_sha256 :: "json \<Rightarrow> string result" where
  "canonical_sha256 v = rbind (canonical_json_bytes v) (\<lambda>b. Inr (bytes_hex (sha256 b)))"

subsection \<open>Strict parsing\<close>

fun utf8_valid :: "string \<Rightarrow> bool" where
  "utf8_valid [] = True"
| "utf8_valid (c # cs) =
    (let n = (of_char c :: nat) in
     if n < 128 then utf8_valid cs
     else if 194 \<le> n \<and> n < 224 then
       (case cs of d # ds \<Rightarrow> is_continuation d \<and> utf8_valid ds | _ \<Rightarrow> False)
     else if 224 \<le> n \<and> n < 240 then
       (case cs of d # e # ds \<Rightarrow>
          is_continuation d \<and> is_continuation e \<and>
          (n = 224 \<longrightarrow> 160 \<le> (of_char d :: nat)) \<and> (n = 237 \<longrightarrow> (of_char d :: nat) < 160) \<and> utf8_valid ds
        | _ \<Rightarrow> False)
     else if 240 \<le> n \<and> n < 245 then
       (case cs of d # e # f # ds \<Rightarrow>
          is_continuation d \<and> is_continuation e \<and> is_continuation f \<and>
          (n = 240 \<longrightarrow> 144 \<le> (of_char d :: nat)) \<and> (n = 244 \<longrightarrow> (of_char d :: nat) < 144) \<and> utf8_valid ds
        | _ \<Rightarrow> False)
     else False)"

text \<open>The UTF-8 encoding of one code point, for a \<open>\u\<close> escape.\<close>

definition utf8_char :: "nat \<Rightarrow> string" where
  "utf8_char n =
    (if n < 128 then [char_of n]
     else if n < 2048 then [char_of (192 + n div 64), char_of (128 + n mod 64)]
     else if n < 65536 then
       [char_of (224 + n div 4096), char_of (128 + n div 64 mod 64), char_of (128 + n mod 64)]
     else [char_of (240 + n div 262144), char_of (128 + n div 4096 mod 64),
           char_of (128 + n div 64 mod 64), char_of (128 + n mod 64)])"

definition is_json_space :: "char \<Rightarrow> bool" where
  "is_json_space c \<longleftrightarrow> c \<in> {CHR '' '', CHR 0x09, CHR 0x0A, CHR 0x0D}"

definition skip_ws :: "string \<Rightarrow> string" where
  "skip_ws s = dropWhile is_json_space s"

definition is_any_hex :: "char \<Rightarrow> bool" where
  "is_any_hex c \<longleftrightarrow> is_hex_char c \<or> c \<in> set ''ABCDEF''"

definition any_hex_value :: "char \<Rightarrow> nat" where
  "any_hex_value c =
    (let n = of_char c in if n < 58 then n - 48 else if n < 71 then n - 55 else n - 87)"

fun parse_hex4 :: "string \<Rightarrow> (nat \<times> string) option" where
  "parse_hex4 (a # b # c # d # r) =
    (if list_all is_any_hex [a, b, c, d]
     then Some (4096 * any_hex_value a + 256 * any_hex_value b + 16 * any_hex_value c + any_hex_value d, r)
     else None)"
| "parse_hex4 _ = None"

text \<open>\<open>py_scanstring\<close> after the opening quote; a lone surrogate has no UTF-8 form and fails.\<close>

function parse_string :: "string \<Rightarrow> (string \<times> string) option" where
  "parse_string s =
    (case s of
       [] \<Rightarrow> None
     | c # r \<Rightarrow>
       if c = CHR 0x22 then Some ([], r)
       else if (of_char c :: nat) < 32 then None
       else if c \<noteq> CHR 0x5C then map_option (\<lambda>(t, q). (c # t, q)) (parse_string r)
       else (case r of
          [] \<Rightarrow> None
        | e # r' \<Rightarrow>
          (case map_of [(CHR 0x22, CHR 0x22), (CHR 0x5C, CHR 0x5C), (CHR ''/'', CHR ''/''),
                        (CHR ''b'', CHR 0x08), (CHR ''f'', CHR 0x0C), (CHR ''n'', CHR 0x0A),
                        (CHR ''r'', CHR 0x0D), (CHR ''t'', CHR 0x09)] e of
             Some x \<Rightarrow> map_option (\<lambda>(t, q). (x # t, q)) (parse_string r')
           | None \<Rightarrow>
             if e \<noteq> CHR ''u'' then None
             else (case parse_hex4 r' of
                None \<Rightarrow> None
              | Some (n, q1) \<Rightarrow>
                if 55296 \<le> n \<and> n < 56320 then
                  (case q1 of
                     x # y # q2 \<Rightarrow>
                       if x = CHR 0x5C \<and> y = CHR ''u'' then
                         (case parse_hex4 q2 of
                            Some (m, q3) \<Rightarrow>
                              if 56320 \<le> m \<and> m < 57344
                              then map_option (\<lambda>(t, q). (utf8_char (65536 + (n - 55296) * 1024 + (m - 56320)) @ t, q))
                                     (parse_string q3)
                              else None
                          | None \<Rightarrow> None)
                       else None
                   | _ \<Rightarrow> None)
                else if 56320 \<le> n \<and> n < 57344 then None
                else map_option (\<lambda>(t, q). (utf8_char n @ t, q)) (parse_string q1)))))"
  by pat_completeness auto

lemma parse_hex4_length: "parse_hex4 s = Some (n, r) \<Longrightarrow> length r < length s"
  by (induction s rule: parse_hex4.induct) (auto split: if_splits)

termination parse_string
  by (relation "measure length") (auto dest!: parse_hex4_length)

declare parse_string.simps [simp del]

text \<open>\<open>NUMBER_RE\<close> without a fraction or exponent, which the code rejects.\<close>

definition parse_number :: "string \<Rightarrow> (json \<times> string) option" where
  "parse_number s =
    (let neg = (s \<noteq> [] \<and> hd s = CHR ''-'');
         body = (if neg then tl s else s);
         digits = takeWhile is_digit_char body;
         digits = (if digits \<noteq> [] \<and> hd digits = CHR ''0'' then [CHR ''0''] else digits);
         rest = drop (length digits) body;
         n = int_of_dec digits
     in if digits = [] \<or> 4300 < length digits then None
        else if (case rest of c # d # r \<Rightarrow> c = CHR ''.'' \<and> is_digit_char d | _ \<Rightarrow> False) then None
        else if (case rest of c # d # r \<Rightarrow> c \<in> {CHR ''e'', CHR ''E''} \<and>
                    (is_digit_char d \<or> (d \<in> {CHR ''+'', CHR ''-''} \<and> r \<noteq> [] \<and> is_digit_char (hd r)))
                  | _ \<Rightarrow> False) then None
        else Some (JInt (if neg then - n else n), rest))"

text \<open>\<open>scan_once\<close> with \<open>object_pairs_hook=_unique_object\<close>. The fuel bounds the nesting of
  calls; \<open>2 * length + 2\<close> is more than a text of that length can use.\<close>

fun parse_value :: "nat \<Rightarrow> string \<Rightarrow> (json \<times> string) option"
  and parse_elements :: "nat \<Rightarrow> string \<Rightarrow> (json list \<times> string) option"
  and parse_members :: "nat \<Rightarrow> string \<Rightarrow> ((string \<times> json) list \<times> string) option"
where
  "parse_value 0 s = None"
| "parse_value (Suc fuel) s =
    (case s of
       [] \<Rightarrow> None
     | c # r \<Rightarrow>
       if c = CHR 0x22 then map_option (\<lambda>(t, q). (JStr t, q)) (parse_string r)
       else if c = CHR ''{'' then
         (case skip_ws r of
            [] \<Rightarrow> None
          | d # q \<Rightarrow> if d = CHR ''}'' then Some (JObj [], q)
                    else (case parse_members fuel (d # q) of
                        None \<Rightarrow> None
                      | Some (kvs, q') \<Rightarrow>
                          if has_duplicate (map fst kvs) then None else Some (JObj kvs, q')))
       else if c = CHR ''['' then
         (case skip_ws r of
            [] \<Rightarrow> None
          | d # q \<Rightarrow> if d = CHR '']'' then Some (JArr [], q)
                    else map_option (\<lambda>(vs, q'). (JArr vs, q')) (parse_elements fuel (d # q)))
       else if take 4 s = ''null'' then Some (JNull, drop 4 s)
       else if take 4 s = ''true'' then Some (JBool True, drop 4 s)
       else if take 5 s = ''false'' then Some (JBool False, drop 5 s)
       else parse_number s)"
| "parse_elements 0 s = None"
| "parse_elements (Suc fuel) s =
    (case parse_value fuel s of
       None \<Rightarrow> None
     | Some (v, q) \<Rightarrow>
       (case skip_ws q of
          [] \<Rightarrow> None
        | c # r \<Rightarrow> if c = CHR '']'' then Some ([v], r)
                  else if c = CHR '','' then
                    map_option (\<lambda>(vs, q'). (v # vs, q')) (parse_elements fuel (skip_ws r))
                  else None))"
| "parse_members 0 s = None"
| "parse_members (Suc fuel) s =
    (case s of
       [] \<Rightarrow> None
     | c # r \<Rightarrow>
       if c \<noteq> CHR 0x22 then None
       else (case parse_string r of
          None \<Rightarrow> None
        | Some (k, q) \<Rightarrow>
          (case skip_ws q of
             [] \<Rightarrow> None
           | d # q1 \<Rightarrow>
             if d \<noteq> CHR '':'' then None
             else (case parse_value fuel (skip_ws q1) of
                None \<Rightarrow> None
              | Some (v, q2) \<Rightarrow>
                (case skip_ws q2 of
                   [] \<Rightarrow> None
                 | e # q3 \<Rightarrow>
                   if e = CHR ''}'' then Some ([(k, v)], q3)
                   else if e = CHR '','' then
                     map_option (\<lambda>(kvs, q'). ((k, v) # kvs, q')) (parse_members fuel (skip_ws q3))
                   else None)))))"

definition json_loads :: "string \<Rightarrow> json option" where
  "json_loads text =
    (case parse_value (2 * length text + 2) (skip_ws text) of
       Some (v, rest) \<Rightarrow> if skip_ws rest = [] then Some v else None
     | None \<Rightarrow> None)"

definition decode_utf8 :: "bytes \<Rightarrow> string" where
  "decode_utf8 b = map (\<lambda>w. char_of (unat w)) b"

definition strict_json_loads_with :: "bytes \<Rightarrow> nat \<Rightarrow> nat \<Rightarrow> nat \<Rightarrow> json result" where
  "strict_json_loads_with payload max_bytes max_depth max_items =
    rbind (require_governed_limit ''max_bytes'' (int max_bytes) DEFAULT_MAX_JSON_BYTES) (\<lambda>_.
    rbind (require_governed_limit ''max_depth'' (int max_depth) DEFAULT_MAX_DEPTH) (\<lambda>_.
    rbind (require_governed_limit ''max_items'' (int max_items) DEFAULT_MAX_ITEMS) (\<lambda>_.
     if max_bytes < length payload then Inl (CanonicalJsonError ''JSON byte limit exceeded'')
     else let text = decode_utf8 payload in
     if \<not> utf8_valid text then Inl (CanonicalJsonError ''JSON is not valid UTF-8'')
     else if take 3 payload = [0xEF, 0xBB, 0xBF] then Inl (CanonicalJsonError ''UTF-8 BOM is forbidden'')
     else (case json_loads text of
         None \<Rightarrow> Inl (CanonicalJsonError ''invalid JSON'')
       | Some v \<Rightarrow> rbind (validate_tree 0 max_depth max_items 0 v) (\<lambda>_. Inr v)))))"

definition strict_json_loads :: "bytes \<Rightarrow> json result" where
  "strict_json_loads payload =
    strict_json_loads_with payload DEFAULT_MAX_JSON_BYTES DEFAULT_MAX_DEPTH DEFAULT_MAX_ITEMS"

subsection \<open>The limits as measures of the tree\<close>

lemma fold_max_le_iff: "fold max xs (a :: nat) \<le> n \<longleftrightarrow> a \<le> n \<and> (\<forall>x \<in> set xs. x \<le> n)"
  by (induction xs arbitrary: a) auto

lemma add_fold_max_le_iff:
  "d + fold max xs 0 \<le> n \<longleftrightarrow> d \<le> n \<and> (\<forall>x \<in> set xs. d + x \<le> (n :: nat))"
  using fold_max_le_iff [of xs 0 "n - d"] by (cases "d \<le> n") (auto simp: le_diff_conv2 add.commute)

lemma rfold_counter:
  assumes "\<And>x c c'. x \<in> set xs \<Longrightarrow> f c x = Inr c' \<longleftrightarrow> Q x \<and> c + w x \<le> m \<and> c' = c + w x"
    and "c \<le> (m :: nat)"
  shows "rfold f c xs = Inr c' \<longleftrightarrow>
    (\<forall>x \<in> set xs. Q x) \<and> c + sum_list (map w xs) \<le> m \<and> c' = c + sum_list (map w (xs :: 'a list)) "
  using assms
proof (induction xs arbitrary: c)
  case Nil
  then show ?case by auto
next
  case (Cons x xs)
  have step: "f c x = Inr d \<longleftrightarrow> Q x \<and> c + w x \<le> m \<and> d = c + w x" for d
    by (rule Cons.prems(1)) simp
  have rest: "rfold f d xs = Inr c' \<longleftrightarrow>
      (\<forall>x \<in> set xs. Q x) \<and> d + sum_list (map w xs) \<le> m \<and> c' = d + sum_list (map w xs)"
    if "d \<le> m" for d
    by (rule Cons.IH [OF _ that]) (rule Cons.prems(1), simp)
  have mono: "c + w x \<le> m" if "c + (w x + sum_list (map w xs)) \<le> m"
    using that by linarith
  show ?case
    using rest [of "c + w x"] mono by (auto simp: step add.assoc)
qed

lemma json_items_pos: "0 < json_items v"
  by (cases v) auto

lemma validate_tree_iff:
  "validate_tree depth max_depth max_items counter v = Inr c' \<longleftrightarrow>
    depth + json_depth v \<le> max_depth \<and> counter + json_items v \<le> max_items
      \<and> c' = counter + json_items v"
proof (induction v arbitrary: depth counter c')
  case (JArr vs)
  have "rfold (\<lambda>c x. validate_tree (Suc depth) max_depth max_items c x) (Suc counter) vs = Inr c' \<longleftrightarrow>
      (\<forall>x \<in> set vs. Suc depth + json_depth x \<le> max_depth)
      \<and> Suc counter + sum_list (map json_items vs) \<le> max_items
      \<and> c' = Suc counter + sum_list (map json_items vs)" if "Suc counter \<le> max_items"
    using JArr that by (intro rfold_counter) auto
  then show ?case
    by (auto simp: validate_tree.simps [of depth] add_fold_max_le_iff)
next
  case (JObj kvs)
  have "rfold (\<lambda>c kv. validate_tree (Suc depth) max_depth max_items c (snd kv)) (Suc counter) kvs = Inr c' \<longleftrightarrow>
      (\<forall>kv \<in> set kvs. Suc depth + json_depth (snd kv) \<le> max_depth)
      \<and> Suc counter + sum_list (map (\<lambda>kv. json_items (snd kv)) kvs) \<le> max_items
      \<and> c' = Suc counter + sum_list (map (\<lambda>kv. json_items (snd kv)) kvs)" if "Suc counter \<le> max_items"
    using that by (intro rfold_counter) (simp_all add: JObj.IH snds.intros prod_set_simps)
  then show ?case
    by (auto simp: validate_tree.simps [of depth] add_fold_max_le_iff)
qed (auto simp: validate_tree.simps)

subsection \<open>The size of an encoding\<close>

fun json_size :: "json \<Rightarrow> nat" where
  "json_size (JArr vs) = 2 + sum_list (map json_size vs) + (length vs - 1)"
| "json_size (JObj kvs) =
    2 + sum_list (map (\<lambda>kv. length (json_quote (fst kv)) + 1 + json_size (snd kv)) kvs) + (length kvs - 1)"
| "json_size v = length (json_dump v)"

lemma length_join: "length (join sep xs) = sum_list (map length xs) + (length xs - 1) * length sep"
  by (induction sep xs rule: join.induct) auto

lemma sum_list_sort_key: "sum_list (map f (sort_key k xs)) = sum_list (map f xs)"
  for f :: "'a \<Rightarrow> nat"
proof -
  have "mset (map f (sort_key k xs)) = mset (map f xs)" by simp
  then show ?thesis by (metis sum_mset_sum_list)
qed

lemma length_json_dump: "length (json_dump v) = json_size v"
proof (induction v)
  case (JArr vs)
  then have "map (length \<circ> json_dump) vs = map json_size vs" by simp
  then have "sum_list (map (length \<circ> json_dump) vs) = sum_list (map json_size vs)"
    by (rule arg_cong)
  then show ?case by (simp add: length_join)
next
  case (JObj kvs)
  let ?f = "\<lambda>(k, t). length (json_quote k) + 1 + length t"
  have "map ?f (map (\<lambda>(k, x). (k, json_dump x)) kvs)
      = map (\<lambda>kv. length (json_quote (fst kv)) + 1 + json_size (snd kv)) kvs"
    using JObj by (force simp: prod_set_simps)
  then have "sum_list (map ?f (sort_key fst (map (\<lambda>(k, x). (k, json_dump x)) kvs)))
      = sum_list (map (\<lambda>kv. length (json_quote (fst kv)) + 1 + json_size (snd kv)) kvs)"
    by (simp only: sum_list_sort_key)
  then show ?case
    by (simp add: length_join comp_def split_def)
qed simp_all

lemma canonical_json_bytes_iff:
  "canonical_json_bytes v = Inr b \<longleftrightarrow>
    json_depth v \<le> DEFAULT_MAX_DEPTH \<and> json_items v \<le> DEFAULT_MAX_ITEMS \<and> \<not> has_huge_int v
    \<and> json_size v \<le> DEFAULT_MAX_JSON_BYTES \<and> b = utf8_bytes (json_dump v)"
  by (auto simp: canonical_json_bytes_def validate_tree_iff Let_def length_json_dump)

text \<open>A bound on the size that needs only the lengths of the texts.\<close>

fun json_bound :: "json \<Rightarrow> nat" where
  "json_bound JNull = 4"
| "json_bound (JBool _) = 5"
| "json_bound (JInt v) = length (str_of_int v)"
| "json_bound (JStr s) = 6 * length s + 2"
| "json_bound (JArr vs) = 2 + sum_list (map (\<lambda>v. json_bound v + 1) vs)"
| "json_bound (JObj kvs) = 2 + sum_list (map (\<lambda>kv. 6 * length (fst kv) + 4 + json_bound (snd kv)) kvs)"

lemma length_json_quote: "length (json_quote s) \<le> 6 * length s + 2"
proof -
  have "length (json_escape_char c) \<le> 6" for c by (simp add: json_escape_char_def hex4_def)
  then have "sum_list (map (length \<circ> json_escape_char) s) \<le> sum_list (map (\<lambda>_. 6) s)"
    by (intro sum_list_mono) simp
  then show ?thesis by (simp add: json_quote_def length_concat sum_list_triv)
qed

lemma json_size_le_bound: "json_size v \<le> json_bound v"
proof (induction v)
  case (JArr vs)
  have "sum_list (map json_size vs) \<le> sum_list (map json_bound vs)"
    using JArr by (intro sum_list_mono) simp
  moreover have "sum_list (map (\<lambda>v. json_bound v + 1) vs) = sum_list (map json_bound vs) + length vs"
    by (induction vs) simp_all
  ultimately show ?case by simp
next
  case (JObj kvs)
  let ?f = "\<lambda>kv. length (json_quote (fst kv)) + 1 + json_size (snd kv)"
  let ?g = "\<lambda>kv. 6 * length (fst kv) + 3 + json_bound (snd kv)"
  have "?f kv \<le> ?g kv" if "kv \<in> set kvs" for kv
  proof -
    have "json_size (snd kv) \<le> json_bound (snd kv)"
      using JObj [of kv "snd kv"] that by (simp add: snds.intros prod_set_simps)
    then show ?thesis using length_json_quote [of "fst kv"] by simp
  qed
  then have "sum_list (map ?f kvs) \<le> sum_list (map ?g kvs)" by (rule sum_list_mono)
  moreover have "sum_list (map (\<lambda>kv. 6 * length (fst kv) + 4 + json_bound (snd kv)) kvs)
      = sum_list (map ?g kvs) + length kvs" by (induction kvs) simp_all
  ultimately show ?case by simp
qed (auto intro: order_trans [OF length_json_quote])

lemma canonical_json_okI:
  assumes "json_depth v \<le> DEFAULT_MAX_DEPTH" "json_items v \<le> DEFAULT_MAX_ITEMS" "\<not> has_huge_int v"
    and "json_bound v \<le> DEFAULT_MAX_JSON_BYTES"
  shows "canonical_json_bytes v = Inr (utf8_bytes (json_dump v))"
  using assms json_size_le_bound [of v] by (simp add: canonical_json_bytes_iff)

lemma canonical_sha256_iff:
  "canonical_sha256 v = Inr d \<longleftrightarrow>
    is_ok (canonical_json_bytes v) \<and> d = json_sha256 v"
  by (auto simp: canonical_sha256_def is_ok_iff json_sha256_def canonical_json_bytes_iff)

lemma json_sha256_text: "is_sha256_text (json_sha256 v)"
  by (simp add: json_sha256_def sha256.digest_hex_text)

end
