(* ===== verification/Domain.thy ===== *)
theory Domain
  imports Canonical
begin

text \<open>
  \<open>src/aladdin_mev_engine/domain.py\<close> and \<open>policy.py\<close>: the governed enumerations, the
  field checks every record of the package makes on construction, the reference to an
  observed state, and the policy that decides which strategies may run in which mode.

  A frozen dataclass is a record together with its \<open>__post_init__\<close>, a function that
  returns the record unchanged or raises; the constructor of the code is that function
  applied to the record. Checks of the exact Python type of a field are the types of the
  model.
\<close>

subsection \<open>Enumerations\<close>

datatype chain = ETHEREUM | BASE | ARBITRUM | BNB_SMART_CHAIN | SOLANA

fun chain_value :: "chain \<Rightarrow> string" where
  "chain_value ETHEREUM = ''ethereum''"
| "chain_value BASE = ''base''"
| "chain_value ARBITRUM = ''arbitrum''"
| "chain_value BNB_SMART_CHAIN = ''bnb-smart-chain''"
| "chain_value SOLANA = ''solana''"

definition all_chains :: "chain list" where
  "all_chains = [ETHEREUM, BASE, ARBITRUM, BNB_SMART_CHAIN, SOLANA]"

datatype strategy =
    ATOMIC_DEX_ARBITRAGE
  | CONSENSUAL_BACKRUN
  | LIQUIDATION
  | INVENTORY_ASSISTED_ARBITRAGE
  | CROSS_CHAIN_INVENTORY_REBALANCING

fun strategy_value :: "strategy \<Rightarrow> string" where
  "strategy_value ATOMIC_DEX_ARBITRAGE = ''atomic-dex-arbitrage''"
| "strategy_value CONSENSUAL_BACKRUN = ''consensual-backrun''"
| "strategy_value LIQUIDATION = ''liquidation''"
| "strategy_value INVENTORY_ASSISTED_ARBITRAGE = ''inventory-assisted-arbitrage''"
| "strategy_value CROSS_CHAIN_INVENTORY_REBALANCING = ''cross-chain-inventory-rebalancing''"

definition all_strategies :: "strategy list" where
  "all_strategies =
    [ATOMIC_DEX_ARBITRAGE, CONSENSUAL_BACKRUN, LIQUIDATION, INVENTORY_ASSISTED_ARBITRAGE,
     CROSS_CHAIN_INVENTORY_REBALANCING]"

datatype operating_mode = STOPPED | SHADOW | CANARY | LIVE | DEGRADED | HALTED

datatype chain_health = HEALTHY | DEGRADED_HEALTH | UNKNOWN_HEALTH

text \<open>\<open>Enum(text)\<close>: the member with that value, or \<open>ValueError\<close>.\<close>

definition enum_of :: "('e \<Rightarrow> string) \<Rightarrow> 'e list \<Rightarrow> string \<Rightarrow> 'e result" where
  "enum_of value_of members s =
    (case find (\<lambda>e. value_of e = s) members of
       None \<Rightarrow> Inl (ValueError ''not a valid member'')
     | Some e \<Rightarrow> Inr e)"

lemma enum_of_Inr: "enum_of f es s = Inr e \<Longrightarrow> f e = s \<and> e \<in> set es"
  by (auto simp: enum_of_def find_Some_iff split: option.splits)

lemma enum_of_value:
  "e \<in> set es \<Longrightarrow> (\<And>x. x \<in> set es \<Longrightarrow> f x = f e \<Longrightarrow> x = e) \<Longrightarrow> enum_of f es (f e) = Inr e"
proof (induction es)
  case Nil
  then show ?case by simp
next
  case (Cons x xs)
  show ?case
  proof (cases "x = e")
    case True
    then show ?thesis by (simp add: enum_of_def)
  next
    case False
    then have "f x \<noteq> f e" and "e \<in> set xs" using Cons.prems by auto
    then show ?thesis using Cons by (simp add: enum_of_def)
  qed
qed

lemma chain_value_inj: "chain_value c = chain_value d \<longleftrightarrow> c = d"
  by (cases c; cases d) simp_all

lemma enum_of_chain [simp]: "enum_of chain_value all_chains (chain_value c) = Inr c"
  by (rule enum_of_value) (cases c, auto simp: all_chains_def chain_value_inj)

subsection \<open>Field checks\<close>

definition require_non_negative_int :: "string \<Rightarrow> int \<Rightarrow> unit result" where
  "require_non_negative_int name v =
    (if v < 0 then Inl (ValueError (name @ '' must be a non-negative integer'')) else Inr ())"

definition require_bounded_text :: "string \<Rightarrow> string \<Rightarrow> nat \<Rightarrow> unit result" where
  "require_bounded_text name v maximum =
    (if v = [] \<or> maximum < py_len v then Inl (ValueError (name @ '' must be non-empty bounded text''))
     else if list_ex (\<lambda>c. (of_char c :: nat) < 32) v
     then Inl (ValueError (name @ '' contains a control character''))
     else Inr ())"

definition require_sha256 :: "string \<Rightarrow> string \<Rightarrow> unit result" where
  "require_sha256 name v =
    (if is_sha256_text v then Inr ()
     else Inl (ValueError (name @ '' must be a lowercase SHA-256 hex digest'')))"

lemma require_non_negative_int_Inr [simp]: "require_non_negative_int n v = Inr u \<longleftrightarrow> 0 \<le> v"
  by (simp add: require_non_negative_int_def)

lemma require_sha256_Inr [simp]: "require_sha256 n v = Inr u \<longleftrightarrow> is_sha256_text v"
  by (simp add: require_sha256_def)

lemma require_sha256_digest [simp]: "require_sha256 n (json_sha256 v) = Inr ()"
  by (simp add: json_sha256_text)

subsection \<open>References to an observed state\<close>

record state_reference =
  sr_chain :: chain
  sr_sequence_number :: int
  sr_sequence_hash :: string
  sr_observed_at_unix_ms :: int
  sr_state_digest :: string

definition StateReference_post_init :: "state_reference \<Rightarrow> state_reference result" where
  "StateReference_post_init self =
    rbind (require_non_negative_int ''sequence_number'' (sr_sequence_number self)) (\<lambda>_.
    rbind (require_non_negative_int ''observed_at_unix_ms'' (sr_observed_at_unix_ms self)) (\<lambda>_.
    rbind (require_bounded_text ''sequence_hash'' (sr_sequence_hash self) 130) (\<lambda>_.
    rbind (require_sha256 ''state_digest'' (sr_state_digest self)) (\<lambda>_. Inr self))))"

definition StateReference_to_json :: "state_reference \<Rightarrow> json" where
  "StateReference_to_json self = JObj
    [(''chain'', JStr (chain_value (sr_chain self))),
     (''sequence_number'', JStr (str_of_int (sr_sequence_number self))),
     (''sequence_hash'', JStr (sr_sequence_hash self)),
     (''observed_at_unix_ms'', JStr (str_of_int (sr_observed_at_unix_ms self))),
     (''state_digest'', JStr (sr_state_digest self))]"

subsection \<open>Strategy policy\<close>

datatype policy_reason =
    ALLOWED_SHADOW_STRATEGY
  | UNKNOWN_STRATEGY
  | PROHIBITED_STRATEGY
  | OPERATING_MODE_NOT_ACTIVE
  | F0_EXECUTION_DISABLED

definition PROHIBITED_STRATEGIES :: "string list" where
  "PROHIBITED_STRATEGIES =
    [''sandwich'', ''harmful-frontrun'', ''oracle-manipulation'', ''protocol-exploit'',
     ''mempool-spam'', ''malicious-token'', ''stolen-key-use'']"

record policy_decision =
  pd_allowed :: bool
  pd_reason :: policy_reason
  pd_normalized_strategy :: string

definition StrategyPolicy_evaluate :: "string \<Rightarrow> operating_mode \<Rightarrow> policy_decision" where
  "StrategyPolicy_evaluate strategy_id mode =
    (let normalized = strategy_id in
     if normalized \<in> set PROHIBITED_STRATEGIES then
       \<lparr>pd_allowed = False, pd_reason = PROHIBITED_STRATEGY, pd_normalized_strategy = normalized\<rparr>
     else (case enum_of strategy_value all_strategies normalized of
       Inl _ \<Rightarrow>
         \<lparr>pd_allowed = False, pd_reason = UNKNOWN_STRATEGY, pd_normalized_strategy = normalized\<rparr>
     | Inr _ \<Rightarrow>
         if mode = SHADOW then
           \<lparr>pd_allowed = True, pd_reason = ALLOWED_SHADOW_STRATEGY, pd_normalized_strategy = normalized\<rparr>
         else if mode \<in> {CANARY, LIVE} then
           \<lparr>pd_allowed = False, pd_reason = F0_EXECUTION_DISABLED, pd_normalized_strategy = normalized\<rparr>
         else
           \<lparr>pd_allowed = False, pd_reason = OPERATING_MODE_NOT_ACTIVE, pd_normalized_strategy = normalized\<rparr>))"

lemma strategy_value_not_prohibited: "strategy_value s \<notin> set PROHIBITED_STRATEGIES"
  by (cases s) (simp_all add: PROHIBITED_STRATEGIES_def)

lemma enum_of_strategy: "is_ok (enum_of strategy_value all_strategies s) \<longleftrightarrow> (\<exists>x. s = strategy_value x)"
proof
  assume "is_ok (enum_of strategy_value all_strategies s)"
  then show "\<exists>x. s = strategy_value x" by (auto simp: is_ok_iff dest: enum_of_Inr)
next
  assume "\<exists>x. s = strategy_value x"
  then obtain x where "s = strategy_value x" by blast
  moreover have "enum_of strategy_value all_strategies (strategy_value x) = Inr x"
    by (cases x) (simp_all add: enum_of_def all_strategies_def)
  ultimately show "is_ok (enum_of strategy_value all_strategies s)" by simp
qed

text \<open>
  A strategy is allowed exactly when it is one of the governed strategies and the engine
  is in shadow mode: no mode that could execute admits anything.
\<close>

lemma policy_allowed_iff:
  "pd_allowed (StrategyPolicy_evaluate s mode) \<longleftrightarrow> mode = SHADOW \<and> (\<exists>x. s = strategy_value x)"
  using enum_of_strategy [of s] strategy_value_not_prohibited
  by (auto simp: StrategyPolicy_evaluate_def Let_def split: sum.splits)

end
