(* ===== verification/Source_Contracts.thy ===== *)
theory Source_Contracts
  imports Domain
begin

text \<open>
  \<open>src/aladdin_mev_engine/source_contracts.py\<close>: which observation sources exist, the events
  each may emit, and the limits on their payloads. The table of contracts is the code's.
\<close>

datatype source_kind =
    EVM_JSON_RPC | FLASHBOTS_MEV_SHARE | BASE_FLASHBLOCKS | ARBITRUM_SEQUENCER_FEED
  | ARBITRUM_TIMEBOOST_AUCTION | BSC_PBS_METADATA

fun source_kind_value :: "source_kind \<Rightarrow> string" where
  "source_kind_value EVM_JSON_RPC = ''evm-json-rpc''"
| "source_kind_value FLASHBOTS_MEV_SHARE = ''flashbots-mev-share''"
| "source_kind_value BASE_FLASHBLOCKS = ''base-flashblocks''"
| "source_kind_value ARBITRUM_SEQUENCER_FEED = ''arbitrum-sequencer-feed''"
| "source_kind_value ARBITRUM_TIMEBOOST_AUCTION = ''arbitrum-timeboost-auction''"
| "source_kind_value BSC_PBS_METADATA = ''bsc-pbs-metadata''"

definition all_source_kinds :: "source_kind list" where
  "all_source_kinds =
    [EVM_JSON_RPC, FLASHBOTS_MEV_SHARE, BASE_FLASHBLOCKS, ARBITRUM_SEQUENCER_FEED,
     ARBITRUM_TIMEBOOST_AUCTION, BSC_PBS_METADATA]"

datatype transport =
    JSON_RPC_HTTP | JSON_RPC_WEBSOCKET | SERVER_SENT_EVENTS | SEQUENCER_FEED | OFFCHAIN_AUCTION
  | BUILDER_METADATA

fun transport_value :: "transport \<Rightarrow> string" where
  "transport_value JSON_RPC_HTTP = ''json-rpc-http''"
| "transport_value JSON_RPC_WEBSOCKET = ''json-rpc-websocket''"
| "transport_value SERVER_SENT_EVENTS = ''server-sent-events''"
| "transport_value SEQUENCER_FEED = ''sequencer-feed''"
| "transport_value OFFCHAIN_AUCTION = ''offchain-auction''"
| "transport_value BUILDER_METADATA = ''builder-metadata''"

datatype observation_kind =
    BLOCK_HEAD | EVM_BLOCK_STATE | EVM_STATE_PROOF | PENDING_TRANSACTION | TRANSACTION_HINT
  | PRECONFIRMED_BLOCK | PRECONFIRMED_TRANSACTION | PENDING_LOG | SEQUENCER_BATCH
  | TIMEBOOST_ROUND | PBS_BUILDER_STATUS | SOURCE_GAP | SOURCE_HEARTBEAT

fun observation_kind_value :: "observation_kind \<Rightarrow> string" where
  "observation_kind_value BLOCK_HEAD = ''block-head''"
| "observation_kind_value EVM_BLOCK_STATE = ''evm-block-state''"
| "observation_kind_value EVM_STATE_PROOF = ''evm-state-proof''"
| "observation_kind_value PENDING_TRANSACTION = ''pending-transaction''"
| "observation_kind_value TRANSACTION_HINT = ''transaction-hint''"
| "observation_kind_value PRECONFIRMED_BLOCK = ''preconfirmed-block''"
| "observation_kind_value PRECONFIRMED_TRANSACTION = ''preconfirmed-transaction''"
| "observation_kind_value PENDING_LOG = ''pending-log''"
| "observation_kind_value SEQUENCER_BATCH = ''sequencer-batch''"
| "observation_kind_value TIMEBOOST_ROUND = ''timeboost-round''"
| "observation_kind_value PBS_BUILDER_STATUS = ''pbs-builder-status''"
| "observation_kind_value SOURCE_GAP = ''source-gap''"
| "observation_kind_value SOURCE_HEARTBEAT = ''source-heartbeat''"

definition all_observation_kinds :: "observation_kind list" where
  "all_observation_kinds =
    [BLOCK_HEAD, EVM_BLOCK_STATE, EVM_STATE_PROOF, PENDING_TRANSACTION, TRANSACTION_HINT,
     PRECONFIRMED_BLOCK, PRECONFIRMED_TRANSACTION, PENDING_LOG, SEQUENCER_BATCH,
     TIMEBOOST_ROUND, PBS_BUILDER_STATUS, SOURCE_GAP, SOURCE_HEARTBEAT]"

datatype finality = PENDING | PRECONFIRMED | CONFIRMED | FINALIZED | METADATA_FINALITY

fun finality_value :: "finality \<Rightarrow> string" where
  "finality_value PENDING = ''pending''"
| "finality_value PRECONFIRMED = ''preconfirmed''"
| "finality_value CONFIRMED = ''confirmed''"
| "finality_value FINALIZED = ''finalized''"
| "finality_value METADATA_FINALITY = ''metadata''"

definition all_finalities :: "finality list" where
  "all_finalities = [PENDING, PRECONFIRMED, CONFIRMED, FINALIZED, METADATA_FINALITY]"

datatype visibility = FULL | PARTIAL | HASH_ONLY | METADATA_VISIBILITY

fun visibility_value :: "visibility \<Rightarrow> string" where
  "visibility_value FULL = ''full''"
| "visibility_value PARTIAL = ''partial''"
| "visibility_value HASH_ONLY = ''hash-only''"
| "visibility_value METADATA_VISIBILITY = ''metadata''"

definition all_visibilities :: "visibility list" where
  "all_visibilities = [FULL, PARTIAL, HASH_ONLY, METADATA_VISIBILITY]"

definition MAX_SOURCE_CONTRACT_EVENTS :: nat where "MAX_SOURCE_CONTRACT_EVENTS = 16"

definition control_kinds :: "observation_kind list" where
  "control_kinds = [SOURCE_GAP, SOURCE_HEARTBEAT]"

subsection \<open>Event shapes\<close>

record event_shape =
  es_kind :: observation_kind
  es_finality :: finality
  es_visibility :: visibility

definition EventShape_post_init :: "event_shape \<Rightarrow> event_shape result" where
  "EventShape_post_init self =
    (let metadata_pair = (es_finality self = METADATA_FINALITY \<and> es_visibility self = METADATA_VISIBILITY) in
     if (es_finality self = METADATA_FINALITY) \<noteq> (es_visibility self = METADATA_VISIBILITY)
     then Inl (ValueError ''metadata finality and visibility must be paired'')
     else if es_kind self \<in> set control_kinds then
       (if \<not> metadata_pair
        then Inl (ValueError ''source control event shapes must use metadata semantics'')
        else Inr self)
     else if metadata_pair \<and> es_kind self \<notin> {TIMEBOOST_ROUND, PBS_BUILDER_STATUS}
     then Inl (ValueError ''metadata semantics are restricted to governed metadata event kinds'')
     else Inr self)"

definition event_sort_key :: "event_shape \<Rightarrow> string \<times> string \<times> string" where
  "event_sort_key self =
    (observation_kind_value (es_kind self), finality_value (es_finality self),
     visibility_value (es_visibility self))"

definition EventShape_to_json :: "event_shape \<Rightarrow> json" where
  "EventShape_to_json self = JObj
    [(''kind'', JStr (observation_kind_value (es_kind self))),
     (''finality'', JStr (finality_value (es_finality self))),
     (''visibility'', JStr (visibility_value (es_visibility self)))]"

definition shape :: "observation_kind \<Rightarrow> finality \<Rightarrow> visibility \<Rightarrow> event_shape" where
  "shape k f v = \<lparr>es_kind = k, es_finality = f, es_visibility = v\<rparr>"

subsection \<open>Contracts\<close>

record source_contract =
  sc_source_id :: string
  sc_chain :: chain
  sc_source_kind :: source_kind
  sc_transport :: transport
  sc_allowed_events :: "event_shape list"
  sc_max_payload_bytes :: nat
  sc_max_future_clock_skew_ms :: int
  sc_partial_payload_expected :: bool
  sc_official_reference :: string

definition is_lower_alnum :: "char \<Rightarrow> bool" where
  "is_lower_alnum c \<longleftrightarrow> c \<in> set ''abcdefghijklmnopqrstuvwxyz0123456789''"

text \<open>\<open>^[a-z0-9](?:[a-z0-9.-]{0,78}[a-z0-9])?$\<close>\<close>

definition is_source_id :: "string \<Rightarrow> bool" where
  "is_source_id s \<longleftrightarrow>
    s \<noteq> [] \<and> length s \<le> 80 \<and> is_lower_alnum (hd s) \<and> is_lower_alnum (last s)
    \<and> list_all (\<lambda>c. is_lower_alnum c \<or> c \<in> set ''.-'') s"

definition SourceContract_post_init :: "source_contract \<Rightarrow> source_contract result" where
  "SourceContract_post_init self =
    (if \<not> is_source_id (sc_source_id self)
     then Inl (ValueError ''source_id must be a canonical lowercase source identifier'')
     else if sc_chain self = SOLANA then Inl (ValueError ''Solana observation is not enabled by F2'')
     else if sc_allowed_events self = []
     then Inl (TypeError ''allowed_events must be a non-empty exact tuple'')
     else if MAX_SOURCE_CONTRACT_EVENTS < length (sc_allowed_events self)
     then Inl (ValueError ''allowed_events exceeds the governed schema ceiling'')
     else if has_duplicate (sc_allowed_events self)
     then Inl (ValueError ''allowed_events contains a duplicate'')
     else if sort_key event_sort_key (sc_allowed_events self) \<noteq> sc_allowed_events self
     then Inl (ValueError ''allowed_events must be sorted canonically'')
     else if \<not> (1 \<le> sc_max_payload_bytes self \<and> sc_max_payload_bytes self \<le> DEFAULT_MAX_JSON_BYTES)
     then Inl (ValueError ''max_payload_bytes is outside the governed range'')
     else if \<not> (0 \<le> sc_max_future_clock_skew_ms self \<and> sc_max_future_clock_skew_ms self \<le> 60000)
     then Inl (ValueError ''max_future_clock_skew_ms is outside the governed range'')
     else if sc_partial_payload_expected self \<noteq>
             list_ex (\<lambda>e. es_visibility e = PARTIAL) (sc_allowed_events self)
     then Inl (ValueError ''partial_payload_expected must exactly match the allowed event shapes'')
     else rbind (require_bounded_text ''official_reference'' (sc_official_reference self) 512) (\<lambda>_.
       if take 8 (sc_official_reference self) \<noteq> ''https://''
       then Inl (ValueError ''official_reference must use HTTPS'')
       else if \<not> list_all (\<lambda>k. k \<in> set (map es_kind (sc_allowed_events self))) control_kinds
       then Inl (ValueError ''every source contract must support both governed control events'')
       else Inr self))"

definition permits :: "source_contract \<Rightarrow> observation_kind \<Rightarrow> finality \<Rightarrow> visibility \<Rightarrow> bool result" where
  "permits self k f v =
    rbind (EventShape_post_init (shape k f v)) (\<lambda>e. Inr (e \<in> set (sc_allowed_events self)))"

definition SourceContract_to_json :: "source_contract \<Rightarrow> json" where
  "SourceContract_to_json self = JObj
    [(''schema'', JStr ''aladdin-mev-source-contract/v1''),
     (''source_id'', JStr (sc_source_id self)),
     (''chain'', JStr (chain_value (sc_chain self))),
     (''source_kind'', JStr (source_kind_value (sc_source_kind self))),
     (''transport'', JStr (transport_value (sc_transport self))),
     (''allowed_events'', JArr (map EventShape_to_json (sc_allowed_events self))),
     (''max_payload_bytes'', JStr (str_of_int (int (sc_max_payload_bytes self)))),
     (''max_future_clock_skew_ms'', JStr (str_of_int (sc_max_future_clock_skew_ms self))),
     (''partial_payload_expected'', JBool (sc_partial_payload_expected self)),
     (''official_reference'', JStr (sc_official_reference self)),
     (''network_authority'', JStr ''none-recorded-input-only'')]"

definition SourceContract_digest :: "source_contract \<Rightarrow> string result" where
  "SourceContract_digest self = canonical_sha256 (SourceContract_to_json self)"

subsection \<open>The governed table\<close>

definition events :: "event_shape list \<Rightarrow> event_shape list" where
  "events vals =
    sort_key event_sort_key
      (vals @ [shape SOURCE_GAP METADATA_FINALITY METADATA_VISIBILITY,
               shape SOURCE_HEARTBEAT METADATA_FINALITY METADATA_VISIBILITY])"

definition evm_rpc_events :: "bool \<Rightarrow> bool \<Rightarrow> event_shape list" where
  "evm_rpc_events pending_transactions authenticated_state_proofs =
    events
      ([shape BLOCK_HEAD CONFIRMED FULL, shape BLOCK_HEAD FINALIZED FULL,
        shape EVM_BLOCK_STATE CONFIRMED FULL, shape EVM_BLOCK_STATE FINALIZED FULL]
       @ (if authenticated_state_proofs
          then [shape EVM_STATE_PROOF CONFIRMED FULL, shape EVM_STATE_PROOF FINALIZED FULL] else [])
       @ (if pending_transactions
          then [shape PENDING_TRANSACTION PENDING FULL, shape PENDING_TRANSACTION PENDING HASH_ONLY] else []))"

definition contract ::
  "string \<Rightarrow> chain \<Rightarrow> source_kind \<Rightarrow> transport \<Rightarrow> event_shape list \<Rightarrow> nat \<Rightarrow> int \<Rightarrow> bool \<Rightarrow> string
    \<Rightarrow> source_contract" where
  "contract sid ch sk tr evs mx skew partial_expected ref =
    \<lparr>sc_source_id = sid, sc_chain = ch, sc_source_kind = sk, sc_transport = tr,
     sc_allowed_events = evs, sc_max_payload_bytes = mx, sc_max_future_clock_skew_ms = skew,
     sc_partial_payload_expected = partial_expected, sc_official_reference = ref\<rparr>"

definition CONTRACTS :: "source_contract list" where
  "CONTRACTS =
    [contract ''ethereum-json-rpc'' ETHEREUM EVM_JSON_RPC JSON_RPC_WEBSOCKET
       (evm_rpc_events True True) 524288 5000 False
       ''https://ethereum.org/en/developers/apis/json-rpc/'',
     contract ''ethereum-mev-share'' ETHEREUM FLASHBOTS_MEV_SHARE SERVER_SENT_EVENTS
       (events [shape TRANSACTION_HINT PENDING FULL, shape TRANSACTION_HINT PENDING HASH_ONLY,
                shape TRANSACTION_HINT PENDING PARTIAL]) 300000 5000 True
       ''https://docs.flashbots.net/flashbots-mev-share/searchers/getting-started'',
     contract ''base-json-rpc'' BASE EVM_JSON_RPC JSON_RPC_WEBSOCKET
       (evm_rpc_events True True) 524288 5000 False
       ''https://docs.base.org/base-chain/api-reference/ethereum-json-rpc-api/eth_subscribe'',
     contract ''base-flashblocks'' BASE BASE_FLASHBLOCKS JSON_RPC_WEBSOCKET
       (events [shape PENDING_LOG PRECONFIRMED FULL, shape PRECONFIRMED_BLOCK PRECONFIRMED FULL,
                shape PRECONFIRMED_TRANSACTION PRECONFIRMED FULL,
                shape PRECONFIRMED_TRANSACTION PRECONFIRMED HASH_ONLY]) 786432 2000 False
       ''https://docs.base.org/base-chain/api-reference/flashblocks-api/flashblocks-api-overview'',
     contract ''arbitrum-json-rpc'' ARBITRUM EVM_JSON_RPC JSON_RPC_HTTP
       (evm_rpc_events False False) 524288 5000 False
       ''https://docs.arbitrum.io/for-devs/dev-tools-and-resources/chain-info'',
     contract ''arbitrum-sequencer-feed'' ARBITRUM ARBITRUM_SEQUENCER_FEED SEQUENCER_FEED
       (events [shape SEQUENCER_BATCH PRECONFIRMED FULL]) 786432 2000 False
       ''https://docs.arbitrum.io/run-arbitrum-node/run-feed-relay'',
     contract ''arbitrum-timeboost-auction'' ARBITRUM ARBITRUM_TIMEBOOST_AUCTION OFFCHAIN_AUCTION
       (events [shape TIMEBOOST_ROUND METADATA_FINALITY METADATA_VISIBILITY]) 131072 5000 False
       ''https://docs.arbitrum.io/how-arbitrum-works/timeboost/gentle-introduction'',
     contract ''bnb-json-rpc'' BNB_SMART_CHAIN EVM_JSON_RPC JSON_RPC_WEBSOCKET
       (evm_rpc_events True False) 524288 3000 False
       ''https://docs.bnbchain.org/bnb-smart-chain/developers/json_rpc/json-rpc-endpoint/'',
     contract ''bnb-pbs-metadata'' BNB_SMART_CHAIN BSC_PBS_METADATA BUILDER_METADATA
       (events [shape PBS_BUILDER_STATUS METADATA_FINALITY METADATA_VISIBILITY]) 131072 5000 False
       ''https://docs.bnbchain.org/bnb-smart-chain/validator/mev/builder-integration/'']"

definition get_source_contract :: "string \<Rightarrow> source_contract result" where
  "get_source_contract source_id =
    (case find (\<lambda>c. sc_source_id c = source_id) CONTRACTS of
       None \<Rightarrow> Inl (ValueError ''unknown source contract'')
     | Some c \<Rightarrow> Inr c)"

definition source_contract_set_digest :: "string result" where
  "source_contract_set_digest =
    canonical_sha256 (JArr (map SourceContract_to_json (sort_key sc_source_id CONTRACTS)))"

lemma get_source_contract_Inr:
  "get_source_contract s = Inr c \<Longrightarrow> c \<in> set CONTRACTS \<and> sc_source_id c = s"
  by (auto simp: get_source_contract_def find_Some_iff split: option.splits)

text \<open>The table passes its own checks: importing the module does not raise.\<close>

lemma events_facts [simp]:
  "sort_key event_sort_key (events vs) = events vs"
  "length (events vs) = length vs + 2"
  "set (events vs) = set vs \<union> {shape SOURCE_GAP METADATA_FINALITY METADATA_VISIBILITY,
                               shape SOURCE_HEARTBEAT METADATA_FINALITY METADATA_VISIBILITY}"
  "distinct (events vs) \<longleftrightarrow> distinct (vs @ [shape SOURCE_GAP METADATA_FINALITY METADATA_VISIBILITY,
                               shape SOURCE_HEARTBEAT METADATA_FINALITY METADATA_VISIBILITY])"
  "events vs \<noteq> []"
proof -
  show "sort_key event_sort_key (events vs) = events vs"
    unfolding events_def by (rule sort_key_id_if_sorted) simp
  have len: "length (events vs) = length vs + 2" by (simp add: events_def)
  then show "length (events vs) = length vs + 2" .
  from len show "events vs \<noteq> []" by (metis add_2_eq_Suc' list.size(3) nat.distinct(1))
  show "set (events vs) = set vs \<union> {shape SOURCE_GAP METADATA_FINALITY METADATA_VISIBILITY,
                               shape SOURCE_HEARTBEAT METADATA_FINALITY METADATA_VISIBILITY}"
    by (simp add: events_def)
  show "distinct (events vs) \<longleftrightarrow> distinct (vs @ [shape SOURCE_GAP METADATA_FINALITY METADATA_VISIBILITY,
                               shape SOURCE_HEARTBEAT METADATA_FINALITY METADATA_VISIBILITY])"
    unfolding events_def by (rule distinct_sort)
qed

lemma events_list_ex: "list_ex P (events vs) \<longleftrightarrow> (\<exists>e \<in> set (events vs). P e)"
  by (simp add: list_ex_iff)

lemma require_bounded_textI:
  "v \<noteq> [] \<Longrightarrow> length v \<le> m \<Longrightarrow> list_all (\<lambda>c. 32 \<le> (of_char c :: nat)) v \<Longrightarrow>
    require_bounded_text n v m = Inr ()"
  using py_len_le [of v] by (auto simp: require_bounded_text_def list_ex_iff list_all_iff)

lemma contract_valid:
  assumes "is_source_id sid" and "ch \<noteq> SOLANA" and "length vs \<le> 14"
    and "distinct (vs @ [shape SOURCE_GAP METADATA_FINALITY METADATA_VISIBILITY,
                         shape SOURCE_HEARTBEAT METADATA_FINALITY METADATA_VISIBILITY])"
    and "1 \<le> mx" and "mx \<le> 1048576" and "0 \<le> skew" and "skew \<le> 60000"
    and "pe = list_ex (\<lambda>e. es_visibility e = PARTIAL) vs"
    and "take 8 ref = ''https://''" and "length ref \<le> 512"
    and "list_all (\<lambda>c. 32 \<le> (of_char c :: nat)) ref"
  shows "SourceContract_post_init (contract sid ch sk tr (events vs) mx skew pe ref)
    = Inr (contract sid ch sk tr (events vs) mx skew pe ref)"
proof -
  have "ref \<noteq> []" using assms(10) by auto
  then have "require_bounded_text n ref 512 = Inr ()" for n
    using assms(11,12) by (rule require_bounded_textI)
  moreover have "list_ex (\<lambda>e. es_visibility e = PARTIAL) (events vs) = pe"
    using assms(9) by (auto simp: list_ex_iff shape_def)
  moreover have "list_all (\<lambda>k. k \<in> set (map es_kind (events vs))) control_kinds"
    by (auto simp: control_kinds_def shape_def)
  ultimately show ?thesis
    using assms(1-8,10)
    by (simp add: SourceContract_post_init_def contract_def MAX_SOURCE_CONTRACT_EVENTS_def
        DEFAULT_MAX_JSON_BYTES_def)
qed

lemmas contract_table = CONTRACTS_def evm_rpc_events_def

lemma CONTRACTS_valid: "list_all (\<lambda>c. SourceContract_post_init c = Inr c) CONTRACTS"
  unfolding contract_table list.pred_inject if_True if_False append_Nil2 append_Cons append_Nil
  by (intro conjI contract_valid)
     (simp_all add: is_source_id_def is_lower_alnum_def shape_def)

lemma CONTRACTS_ids: "distinct (map sc_source_id CONTRACTS)"
  by (simp add: CONTRACTS_def contract_def)

text \<open>Every shape a contract allows is itself a governed shape.\<close>

lemma CONTRACTS_shapes:
  "list_all (\<lambda>c. list_all (\<lambda>e. EventShape_post_init e = Inr e) (sc_allowed_events c)) CONTRACTS"
  by (simp add: contract_table contract_def list_all_iff EventShape_post_init_def shape_def
      control_kinds_def)

lemma CONTRACTS_not_solana: "list_all (\<lambda>c. sc_chain c \<noteq> SOLANA) CONTRACTS"
  by (simp add: CONTRACTS_def contract_def)

lemma source_contract_facts:
  assumes "get_source_contract s = Inr c"
  shows "SourceContract_post_init c = Inr c" and "sc_chain c \<noteq> SOLANA" and "sc_source_id c = s"
  using get_source_contract_Inr [OF assms] CONTRACTS_valid CONTRACTS_not_solana
  by (auto simp: list_all_iff)

end
