(* ===== verification/Observation.thy ===== *)
theory Observation
  imports Source_Contracts
begin

text \<open>
  \<open>src/aladdin_mev_engine/observation.py\<close>: a recorded observation of a source, checked
  against the source's contract, with its canonical payload and its JSON form.
\<close>

definition MAX_U64 :: int where "MAX_U64 = 2 ^ 64 - 1"

definition require_u64 :: "string \<Rightarrow> int \<Rightarrow> unit result" where
  "require_u64 name v =
    (if 0 \<le> v \<and> v \<le> MAX_U64 then Inr ()
     else Inl (ValueError (name @ '' must be an unsigned 64-bit integer'')))"

definition parse_decimal :: "string \<Rightarrow> json \<Rightarrow> int \<Rightarrow> int result" where
  "parse_decimal name v maximum =
    (if \<not> (0 \<le> maximum \<and> maximum \<le> MAX_U64)
     then Inl (ValueError ''maximum must be a governed unsigned 64-bit integer'')
     else (case v of
         JStr s \<Rightarrow>
           if \<not> is_canonical_decimal s
           then Inl (ValueError (name @ '' must be a canonical non-negative decimal string''))
           else if 20 < length s then Inl (ValueError (name @ '' exceeds the governed integer width''))
           else let parsed = int_of_dec s in
             if maximum < parsed then Inl (ValueError (name @ '' exceeds the governed maximum''))
             else Inr parsed
       | _ \<Rightarrow> Inl (ValueError (name @ '' must be a canonical non-negative decimal string''))))"

text \<open>\<open>set(value) != expected\<close> on the keys of an object.\<close>

definition require_exact_keys :: "string \<Rightarrow> (string \<times> json) list \<Rightarrow> string list \<Rightarrow> unit result" where
  "require_exact_keys name kvs expected =
    (if set (map fst kvs) = set expected then Inr ()
     else Inl (ValueError (name @ '' keys mismatch'')))"

text \<open>\<open>value[key]\<close> after the keys have been checked.\<close>

definition jfield :: "(string \<times> json) list \<Rightarrow> string \<Rightarrow> json" where
  "jfield kvs k = (case map_of kvs k of Some v \<Rightarrow> v | None \<Rightarrow> JNull)"

definition require_bounded_text_json :: "string \<Rightarrow> json \<Rightarrow> nat \<Rightarrow> string result" where
  "require_bounded_text_json name v maximum =
    (case v of
       JStr s \<Rightarrow> rbind (require_bounded_text name s maximum) (\<lambda>_. Inr s)
     | _ \<Rightarrow> Inl (ValueError (name @ '' must be non-empty bounded text'')))"

definition require_sha256_json :: "string \<Rightarrow> json \<Rightarrow> string result" where
  "require_sha256_json name v =
    (case v of
       JStr s \<Rightarrow> rbind (require_sha256 name s) (\<lambda>_. Inr s)
     | _ \<Rightarrow> Inl (ValueError (name @ '' must be a lowercase SHA-256 hex digest'')))"

definition exact_str :: "string \<Rightarrow> json \<Rightarrow> string result" where
  "exact_str message v = (case v of JStr s \<Rightarrow> Inr s | _ \<Rightarrow> Inl (ValueError message))"

definition exact_dict :: "string \<Rightarrow> json \<Rightarrow> (string \<times> json) list result" where
  "exact_dict message v = (case v of JObj kvs \<Rightarrow> Inr kvs | _ \<Rightarrow> Inl (ValueError message))"

subsection \<open>Envelopes\<close>

record envelope =
  oe_source_id :: string
  oe_chain :: chain
  oe_source_kind :: source_kind
  oe_source_sequence :: int
  oe_source_event_id :: string
  oe_observed_at_unix_ms :: int
  oe_emitted_at_unix_ms :: "int option"
  oe_kind :: observation_kind
  oe_finality :: finality
  oe_visibility :: visibility
  oe_payload_bytes :: bytes

definition ENVELOPE_SCHEMA :: string where
  "ENVELOPE_SCHEMA = ''aladdin-mev-observation-envelope/v1''"

definition validate_control_event :: "envelope \<Rightarrow> (string \<times> json) list \<Rightarrow> unit result" where
  "validate_control_event self payload =
    rbind
      (if oe_kind self \<in> {SOURCE_GAP, SOURCE_HEARTBEAT}
          \<and> (oe_finality self \<noteq> METADATA_FINALITY \<or> oe_visibility self \<noteq> METADATA_VISIBILITY)
       then Inl (ValueError ''source control observations must use metadata finality and visibility'')
       else Inr ()) (\<lambda>_.
    if oe_kind self = SOURCE_GAP then
      rbind (require_exact_keys ''source-gap payload'' payload
               [''first_missing_cursor'', ''last_missing_cursor'', ''reason'']) (\<lambda>_.
      rall (\<lambda>field. rbind (require_bounded_text_json field (jfield payload field) 256) (\<lambda>_. Inr ()))
        [''first_missing_cursor'', ''last_missing_cursor'', ''reason''])
    else if oe_kind self = SOURCE_HEARTBEAT then
      rbind (require_exact_keys ''source-heartbeat payload'' payload [''upstream_cursor'']) (\<lambda>_.
      rbind (require_bounded_text_json ''upstream_cursor'' (jfield payload ''upstream_cursor'') 256) (\<lambda>_.
      Inr ()))
    else if oe_finality self = METADATA_FINALITY \<and> oe_visibility self \<noteq> METADATA_VISIBILITY
    then Inl (ValueError ''metadata finality requires metadata visibility'')
    else if oe_visibility self = METADATA_VISIBILITY \<and> oe_finality self \<noteq> METADATA_FINALITY
    then Inl (ValueError ''metadata visibility requires metadata finality'')
    else Inr ())"

definition ObservationEnvelope_post_init :: "envelope \<Rightarrow> envelope result" where
  "ObservationEnvelope_post_init self =
    rbind (get_source_contract (oe_source_id self)) (\<lambda>contract.
    if oe_chain self \<noteq> sc_chain contract
    then Inl (ValueError ''observation chain does not match its source contract'')
    else if oe_source_kind self \<noteq> sc_source_kind contract
    then Inl (ValueError ''observation source kind does not match its source contract'')
    else
    rbind (permits contract (oe_kind self) (oe_finality self) (oe_visibility self)) (\<lambda>permitted.
    if \<not> permitted
    then Inl (ValueError ''observation kind/finality/visibility is not permitted by its source contract'')
    else
    rbind (require_u64 ''source_sequence'' (oe_source_sequence self)) (\<lambda>_.
    rbind (require_bounded_text ''source_event_id'' (oe_source_event_id self) 256) (\<lambda>_.
    rbind (require_u64 ''observed_at_unix_ms'' (oe_observed_at_unix_ms self)) (\<lambda>_.
    rbind (case oe_emitted_at_unix_ms self of
        None \<Rightarrow> Inr ()
      | Some emitted \<Rightarrow>
          rbind (require_u64 ''emitted_at_unix_ms'' emitted) (\<lambda>_.
          if oe_observed_at_unix_ms self + sc_max_future_clock_skew_ms contract < emitted
          then Inl (ValueError ''source emission time exceeds the governed future-clock allowance'')
          else Inr ())) (\<lambda>_.
    if sc_max_payload_bytes contract < length (oe_payload_bytes self)
    then Inl (ValueError ''observation payload exceeds its source contract ceiling'')
    else
    rbind (strict_json_loads_with (oe_payload_bytes self) (sc_max_payload_bytes contract)
             DEFAULT_MAX_DEPTH DEFAULT_MAX_ITEMS) (\<lambda>payload.
    rbind (exact_dict ''observation payload must be a JSON object'' payload) (\<lambda>kvs.
    rbind (canonical_json_bytes payload) (\<lambda>canonical.
    if canonical \<noteq> oe_payload_bytes self
    then Inl (ValueError ''observation payload is not canonical JSON'')
    else rbind (validate_control_event self kvs) (\<lambda>_. Inr self))))))))))"

definition ObservationEnvelope_create ::
  "string \<Rightarrow> int \<Rightarrow> string \<Rightarrow> int \<Rightarrow> int option \<Rightarrow> observation_kind \<Rightarrow> finality \<Rightarrow> visibility \<Rightarrow> json
    \<Rightarrow> envelope result" where
  "ObservationEnvelope_create source_id source_sequence source_event_id observed_at emitted_at
      k f v payload =
    rbind (get_source_contract source_id) (\<lambda>contract.
    rbind (canonical_json_bytes payload) (\<lambda>payload_bytes.
    if sc_max_payload_bytes contract < length payload_bytes
    then Inl (ValueError ''observation payload exceeds its source contract ceiling'')
    else ObservationEnvelope_post_init
      \<lparr>oe_source_id = source_id, oe_chain = sc_chain contract,
       oe_source_kind = sc_source_kind contract, oe_source_sequence = source_sequence,
       oe_source_event_id = source_event_id, oe_observed_at_unix_ms = observed_at,
       oe_emitted_at_unix_ms = emitted_at, oe_kind = k, oe_finality = f, oe_visibility = v,
       oe_payload_bytes = payload_bytes\<rparr>))"

definition envelope_payload :: "envelope \<Rightarrow> (string \<times> json) list result" where
  "envelope_payload self =
    rbind (strict_json_loads (oe_payload_bytes self)) (\<lambda>v.
    (case v of JObj kvs \<Rightarrow> Inr kvs | _ \<Rightarrow> Inl (RuntimeError ''payload authority corrupted'')))"

definition payload_sha256 :: "envelope \<Rightarrow> string" where
  "payload_sha256 self = bytes_hex (sha256 (oe_payload_bytes self))"

definition source_contract_sha256 :: "envelope \<Rightarrow> string result" where
  "source_contract_sha256 self = rbind (get_source_contract (oe_source_id self)) SourceContract_digest"

definition ObservationEnvelope_to_json :: "envelope \<Rightarrow> json result" where
  "ObservationEnvelope_to_json self =
    rbind (envelope_payload self) (\<lambda>payload.
    rbind (source_contract_sha256 self) (\<lambda>contract_sha256.
    Inr (JObj
      [(''schema'', JStr ENVELOPE_SCHEMA),
       (''source_id'', JStr (oe_source_id self)),
       (''chain'', JStr (chain_value (oe_chain self))),
       (''source_kind'', JStr (source_kind_value (oe_source_kind self))),
       (''source_sequence'', JStr (str_of_int (oe_source_sequence self))),
       (''source_event_id'', JStr (oe_source_event_id self)),
       (''observed_at_unix_ms'', JStr (str_of_int (oe_observed_at_unix_ms self))),
       (''emitted_at_unix_ms'',
          (case oe_emitted_at_unix_ms self of None \<Rightarrow> JNull | Some t \<Rightarrow> JStr (str_of_int t))),
       (''kind'', JStr (observation_kind_value (oe_kind self))),
       (''finality'', JStr (finality_value (oe_finality self))),
       (''visibility'', JStr (visibility_value (oe_visibility self))),
       (''payload'', JObj payload),
       (''payload_sha256'', JStr (payload_sha256 self)),
       (''source_contract_sha256'', JStr contract_sha256)])))"

definition envelope_digest :: "envelope \<Rightarrow> string result" where
  "envelope_digest self = rbind (ObservationEnvelope_to_json self) canonical_sha256"

definition ENVELOPE_KEYS :: "string list" where
  "ENVELOPE_KEYS =
    [''schema'', ''source_id'', ''chain'', ''source_kind'', ''source_sequence'', ''source_event_id'',
     ''observed_at_unix_ms'', ''emitted_at_unix_ms'', ''kind'', ''finality'', ''visibility'',
     ''payload'', ''payload_sha256'', ''source_contract_sha256'']"

definition ObservationEnvelope_from_json :: "json \<Rightarrow> envelope result" where
  "ObservationEnvelope_from_json v =
    rbind (exact_dict ''observation envelope must be an exact JSON object'' v) (\<lambda>d.
    rbind (require_exact_keys ''observation envelope'' d ENVELOPE_KEYS) (\<lambda>_.
    if jfield d ''schema'' \<noteq> JStr ENVELOPE_SCHEMA
    then Inl (ValueError ''unknown observation envelope schema'')
    else
    let enum_message = ''observation governed enums must be exact JSON strings'' in
    rbind (rmap (\<lambda>f. exact_str enum_message (jfield d f))
             [''chain'', ''source_kind'', ''kind'', ''finality'', ''visibility'']) (\<lambda>enums.
    rbind (enum_of chain_value all_chains (enums ! 0)) (\<lambda>ch.
    rbind (enum_of source_kind_value all_source_kinds (enums ! 1)) (\<lambda>sk.
    rbind (enum_of observation_kind_value all_observation_kinds (enums ! 2)) (\<lambda>k.
    rbind (enum_of finality_value all_finalities (enums ! 3)) (\<lambda>f.
    rbind (enum_of visibility_value all_visibilities (enums ! 4)) (\<lambda>vis.
    rbind (case jfield d ''emitted_at_unix_ms'' of
        JNull \<Rightarrow> Inr None
      | raw \<Rightarrow> rbind (parse_decimal ''emitted_at_unix_ms'' raw MAX_U64) (\<lambda>t. Inr (Some t))) (\<lambda>emitted.
    rbind (canonical_json_bytes (jfield d ''payload'')) (\<lambda>payload_bytes.
    rbind (parse_decimal ''source_sequence'' (jfield d ''source_sequence'') MAX_U64) (\<lambda>sequence.
    rbind (parse_decimal ''observed_at_unix_ms'' (jfield d ''observed_at_unix_ms'') MAX_U64) (\<lambda>observed.
    rbind (case jfield d ''source_id'' of JStr t \<Rightarrow> Inr t
      | _ \<Rightarrow> Inl (TypeError ''source_id must be an exact string'')) (\<lambda>source_id.
    rbind (exact_str ''source_event_id must be non-empty text'' (jfield d ''source_event_id'')) (\<lambda>event_id.
    rbind (ObservationEnvelope_post_init
      \<lparr>oe_source_id = source_id, oe_chain = ch, oe_source_kind = sk,
       oe_source_sequence = sequence, oe_source_event_id = event_id,
       oe_observed_at_unix_ms = observed, oe_emitted_at_unix_ms = emitted, oe_kind = k,
       oe_finality = f, oe_visibility = vis, oe_payload_bytes = payload_bytes\<rparr>) (\<lambda>envelope.
    rbind (require_sha256_json ''payload_sha256'' (jfield d ''payload_sha256'')) (\<lambda>declared_payload.
    rbind (require_sha256_json ''source_contract_sha256'' (jfield d ''source_contract_sha256'')) (\<lambda>declared_contract.
    if declared_payload \<noteq> payload_sha256 envelope
    then Inl (ValueError ''observation payload digest mismatch'')
    else rbind (source_contract_sha256 envelope) (\<lambda>contract_sha256.
    if declared_contract \<noteq> contract_sha256
    then Inl (ValueError ''observation source-contract digest mismatch'')
    else Inr envelope))))))))))))))))))"

subsection \<open>Lemmas\<close>

lemma require_u64_Inr [simp]: "require_u64 n v = Inr u \<longleftrightarrow> 0 \<le> v \<and> v \<le> MAX_U64"
  by (simp add: require_u64_def)

definition envelope_ok :: "envelope \<Rightarrow> bool" where
  "envelope_ok e \<longleftrightarrow> ObservationEnvelope_post_init e = Inr e"

lemma ObservationEnvelope_post_init_Inr:
  "ObservationEnvelope_post_init e = Inr e' \<Longrightarrow> e' = e \<and> envelope_ok e"
  by (auto simp: envelope_ok_def ObservationEnvelope_post_init_def split: if_splits)

text \<open>What the rest of the package relies on: a governed envelope agrees with its contract.\<close>

lemma envelope_ok_contract:
  assumes "envelope_ok e"
  obtains c where "get_source_contract (oe_source_id e) = Inr c" and "oe_chain e = sc_chain c"
    and "permits c (oe_kind e) (oe_finality e) (oe_visibility e) = Inr True"
    and "0 \<le> oe_source_sequence e" "oe_source_sequence e \<le> MAX_U64"
    and "0 \<le> oe_observed_at_unix_ms e" "oe_observed_at_unix_ms e \<le> MAX_U64"
  using assms by (auto simp: envelope_ok_def ObservationEnvelope_post_init_def split: if_splits)

lemma envelope_digest_text: "envelope_digest e = Inr d \<Longrightarrow> is_sha256_text d"
  by (auto simp: envelope_digest_def canonical_sha256_iff json_sha256_text)

lemma parse_decimal_str_of_int:
  "0 \<le> v \<Longrightarrow> v \<le> maximum \<Longrightarrow> maximum \<le> MAX_U64 \<Longrightarrow>
    parse_decimal n (JStr (str_of_int v)) maximum = Inr v"
proof -
  assume v: "0 \<le> v" "v \<le> maximum" "maximum \<le> MAX_U64"
  have "MAX_U64 < 10 ^ 20" by (simp add: MAX_U64_def)
  then have "nat v < 10 ^ 20" using v by (simp add: nat_less_iff)
  then have "length (str_of_nat (nat v)) \<le> 20" by (rule length_str_of_nat) simp
  then have "length (str_of_int v) \<le> 20" using v by (simp add: str_of_int_def)
  with v show ?thesis
    by (simp add: parse_decimal_def str_of_int_canonical int_of_dec_str_of_int Let_def)
qed

lemma parse_decimal_bounds:
  "parse_decimal n v maximum = Inr x \<Longrightarrow> 0 \<le> x \<and> x \<le> maximum"
proof -
  have "0 \<le> foldl (\<lambda>a c. 10 * a + int (hex_value c)) a s" if "0 \<le> a" for a s
    using that by (induction s arbitrary: a) auto
  then have "0 \<le> int_of_dec s" for s by (simp add: int_of_dec_def)
  then show "parse_decimal n v maximum = Inr x \<Longrightarrow> 0 \<le> x \<and> x \<le> maximum"
    by (auto simp: parse_decimal_def Let_def split: if_splits json.splits)
qed

end
