(* ===== verification/Pydict.thy ===== *)
theory Pydict
  imports Prelude "HOL-Library.AList"
begin

text \<open>
  Python dictionaries: association lists in insertion order with one entry per key. The
  locale \<open>dictionary\<close> states what the stateful components rely on (a lookup after a store,
  the keys, the number of entries); it is interpreted on the association lists used by the
  models of the head tracker and the observation ledger.
\<close>

type_synonym ('k, 'v) dict = "('k \<times> 'v) list"

definition dict_get :: "('k, 'v) dict \<Rightarrow> 'k \<Rightarrow> 'v option" where
  "dict_get d k = map_of d k"

definition dict_set :: "'k \<Rightarrow> 'v \<Rightarrow> ('k, 'v) dict \<Rightarrow> ('k, 'v) dict" where
  "dict_set k v d = AList.update k v d"

definition dict_keys :: "('k, 'v) dict \<Rightarrow> 'k list" where
  "dict_keys d = map fst d"

definition dict_wf :: "('k, 'v) dict \<Rightarrow> bool" where
  "dict_wf d \<longleftrightarrow> distinct (map fst d)"

locale dictionary =
  fixes get :: "'d \<Rightarrow> 'k \<Rightarrow> 'v option"
    and put :: "'k \<Rightarrow> 'v \<Rightarrow> 'd \<Rightarrow> 'd"
    and keys :: "'d \<Rightarrow> 'k list"
    and wf :: "'d \<Rightarrow> bool"
  assumes get_put: "get (put k v d) = (get d)(k \<mapsto> v)"
    and set_keys: "set (keys d) = dom (get d)"
    and wf_put: "wf d \<Longrightarrow> wf (put k v d)"
    and wf_keys: "wf d \<Longrightarrow> distinct (keys d)"
begin

lemma keys_put: "set (keys (put k v d)) = insert k (set (keys d))"
  by (simp add: set_keys get_put)

lemma get_put_same: "get (put k v d) k = Some v"
  by (simp add: get_put)

lemma get_put_other: "k' \<noteq> k \<Longrightarrow> get (put k v d) k' = get d k'"
  by (simp add: get_put)

lemma put_overwrites: "get (put k v (put k w d)) = get (put k v d)"
  by (simp add: get_put)

text \<open>The number of entries grows by one exactly when the key is new.\<close>

lemma length_keys_put:
  assumes "wf d"
  shows "length (keys (put k v d)) = (if get d k = None then Suc (length (keys d)) else length (keys d))"
proof -
  have "length (keys (put k v d)) = card (set (keys (put k v d)))"
    using assms by (simp add: distinct_card wf_keys wf_put)
  also have "\<dots> = card (insert k (set (keys d)))" by (simp add: keys_put)
  also have "\<dots> = (if k \<in> set (keys d) then card (set (keys d)) else Suc (card (set (keys d))))"
    by (simp add: card_insert_if)
  also have "card (set (keys d)) = length (keys d)"
    using assms by (simp add: distinct_card wf_keys)
  finally show ?thesis by (auto simp: set_keys domIff)
qed

end

interpretation dict: dictionary dict_get dict_set dict_keys dict_wf
  by unfold_locales
     (auto simp: dict_get_def [abs_def] dict_set_def dict_keys_def dict_wf_def update_conv' distinct_update
       dom_map_of_conv_image_fst simp del: map_of_eq_None_iff)

lemma dict_get_Nil [simp]: "dict_get [] k = None"
  by (simp add: dict_get_def)

lemma dict_wf_Nil [simp]: "dict_wf []"
  by (simp add: dict_wf_def)

lemma dict_get_set [simp]: "dict_get (dict_set k v d) k' = (if k' = k then Some v else dict_get d k')"
  by (simp add: dict.get_put)

lemma dict_wf_set [simp]: "dict_wf d \<Longrightarrow> dict_wf (dict_set k v d)"
  by (rule dict.wf_put)

lemma length_dict: "length d = length (dict_keys d)"
  by (simp add: dict_keys_def)

lemma length_dict_set:
  "dict_wf d \<Longrightarrow> length (dict_set k v d) = (if dict_get d k = None then Suc (length d) else length d)"
  unfolding length_dict by (rule dict.length_keys_put)

end
