(* ===== verification/Head_Tracker.thy ===== *)
theory Head_Tracker
  imports Observation Pydict
begin

text \<open>
  \<open>src/aladdin_mev_engine/head_tracker.py\<close>: block heads, the transitions between them, and
  the tracker that turns a stream of head observations into bootstrap, extend, reorg,
  duplicate and orphan transitions.

  The tracker's mutable attributes are the record \<open>head_tracker\<close>; \<open>apply\<close> returns the
  transition and the new tracker. The code assigns its attributes only after the
  transition object has been built, so an exception leaves the tracker as it was: an
  error result carries no state.
\<close>

definition ZERO_BLOCK_HASH :: string where
  "ZERO_BLOCK_HASH = ''0x'' @ replicate 64 (CHR ''0'')"

definition MAX_TRACKED_HEADS :: nat where "MAX_TRACKED_HEADS = 100000"

datatype head_transition_kind = BOOTSTRAP | EXTEND | REORG | DUPLICATE | ORPHAN

fun head_transition_kind_value :: "head_transition_kind \<Rightarrow> string" where
  "head_transition_kind_value BOOTSTRAP = ''bootstrap''"
| "head_transition_kind_value EXTEND = ''extend''"
| "head_transition_kind_value REORG = ''reorg''"
| "head_transition_kind_value DUPLICATE = ''duplicate''"
| "head_transition_kind_value ORPHAN = ''orphan''"

definition all_head_transition_kinds :: "head_transition_kind list" where
  "all_head_transition_kinds = [BOOTSTRAP, EXTEND, REORG, DUPLICATE, ORPHAN]"

text \<open>\<open>^0x[0-9a-f]{64}$\<close>\<close>

definition is_hex_hash :: "string \<Rightarrow> bool" where
  "is_hex_hash s \<longleftrightarrow> take 2 s = ''0x'' \<and> is_sha256_text (drop 2 s)"

definition require_hash_or_none :: "string \<Rightarrow> string option \<Rightarrow> bool \<Rightarrow> unit result" where
  "require_hash_or_none name v allow_zero =
    (case v of
       None \<Rightarrow> Inr ()
     | Some h \<Rightarrow>
         if \<not> is_hex_hash h then Inl (ValueError (name @ '' must be a canonical block hash or null''))
         else if \<not> allow_zero \<and> h = ZERO_BLOCK_HASH
         then Inl (ValueError (name @ '' cannot be the zero block hash''))
         else Inr ())"

subsection \<open>Heads\<close>

record evm_head =
  eh_chain :: chain
  eh_source_id :: string
  eh_source_sequence :: int
  eh_number :: int
  eh_block_hash :: string
  eh_parent_hash :: string
  eh_block_timestamp_unix_s :: int

definition EvmHead_post_init :: "evm_head \<Rightarrow> evm_head result" where
  "EvmHead_post_init self =
    (if eh_chain self = SOLANA then Inl (ValueError ''EvmHead requires a governed EVM chain'')
     else rbind (get_source_contract (eh_source_id self)) (\<lambda>contract.
     if sc_chain contract \<noteq> eh_chain self
     then Inl (ValueError ''EvmHead source contract does not match its chain'')
     else
     rbind (require_u64 ''source_sequence'' (eh_source_sequence self)) (\<lambda>_.
     rbind (require_u64 ''number'' (eh_number self)) (\<lambda>_.
     rbind (require_u64 ''block_timestamp_unix_s'' (eh_block_timestamp_unix_s self)) (\<lambda>_.
     if \<not> is_hex_hash (eh_block_hash self)
     then Inl (ValueError ''block_hash must be canonical lowercase 32-byte hex'')
     else if \<not> is_hex_hash (eh_parent_hash self)
     then Inl (ValueError ''parent_hash must be canonical lowercase 32-byte hex'')
     else if eh_block_hash self = ZERO_BLOCK_HASH then Inl (ValueError ''block_hash cannot be zero'')
     else if eh_number self = 0 then
       (if eh_parent_hash self \<noteq> ZERO_BLOCK_HASH
        then Inl (ValueError ''genesis block must have the zero parent hash'') else Inr self)
     else if eh_parent_hash self = ZERO_BLOCK_HASH
     then Inl (ValueError ''non-genesis block cannot have the zero parent hash'')
     else Inr self)))))"

definition HEAD_PAYLOAD_KEYS :: "string list" where
  "HEAD_PAYLOAD_KEYS = [''block_number'', ''block_hash'', ''parent_hash'', ''block_timestamp_unix_s'']"

definition EvmHead_from_observation :: "envelope \<Rightarrow> evm_head result" where
  "EvmHead_from_observation envelope =
    (if oe_kind envelope \<notin> {BLOCK_HEAD, PRECONFIRMED_BLOCK}
     then Inl (ValueError ''observation is not a governed block-head event'')
     else if oe_visibility envelope \<noteq> FULL
     then Inl (ValueError ''head observations require full visibility'')
     else rbind (envelope_payload envelope) (\<lambda>payload.
     if set (map fst payload) \<noteq> set HEAD_PAYLOAD_KEYS
     then Inl (ValueError ''block-head payload fields do not match the governed contract'')
     else
     rbind (parse_decimal ''block_number'' (jfield payload ''block_number'') MAX_U64) (\<lambda>number.
     rbind (parse_decimal ''block_timestamp_unix_s'' (jfield payload ''block_timestamp_unix_s'') MAX_U64) (\<lambda>timestamp.
     rbind (exact_str ''block_hash must be canonical lowercase 32-byte hex'' (jfield payload ''block_hash'')) (\<lambda>block_hash.
     rbind (exact_str ''parent_hash must be canonical lowercase 32-byte hex'' (jfield payload ''parent_hash'')) (\<lambda>parent_hash.
     EvmHead_post_init
       \<lparr>eh_chain = oe_chain envelope, eh_source_id = oe_source_id envelope,
        eh_source_sequence = oe_source_sequence envelope, eh_number = number,
        eh_block_hash = block_hash, eh_parent_hash = parent_hash,
        eh_block_timestamp_unix_s = timestamp\<rparr>))))))"

definition same_block_metadata :: "evm_head \<Rightarrow> evm_head \<Rightarrow> bool" where
  "same_block_metadata self other \<longleftrightarrow>
    eh_chain self = eh_chain other \<and> eh_source_id self = eh_source_id other
    \<and> eh_number self = eh_number other \<and> eh_block_hash self = eh_block_hash other
    \<and> eh_parent_hash self = eh_parent_hash other
    \<and> eh_block_timestamp_unix_s self = eh_block_timestamp_unix_s other"

subsection \<open>Transitions\<close>

record head_transition =
  tr_chain :: chain
  tr_source_id :: string
  tr_source_sequence :: int
  tr_observation_kind :: observation_kind
  tr_finality :: finality
  tr_observation_sha256 :: string
  tr_kind :: head_transition_kind
  tr_old_head :: "string option"
  tr_new_head :: "string option"
  tr_common_ancestor :: "string option"
  tr_removed :: "string list"
  tr_added :: "string list"

definition HEAD_TRANSITION_SCHEMA :: string where
  "HEAD_TRANSITION_SCHEMA = ''aladdin-mev-head-transition/v1''"

text \<open>The shape of each kind of transition (the final cases of \<open>__post_init__\<close>).\<close>

definition transition_shape_valid :: "head_transition \<Rightarrow> bool" where
  "transition_shape_valid self =
    (case tr_kind self of
       BOOTSTRAP \<Rightarrow>
         tr_old_head self = None \<and> tr_new_head self \<noteq> None \<and> tr_common_ancestor self = None
         \<and> tr_removed self = [] \<and> map Some (tr_added self) = [tr_new_head self]
     | EXTEND \<Rightarrow>
         tr_old_head self \<noteq> None \<and> tr_new_head self \<noteq> None \<and> tr_old_head self \<noteq> tr_new_head self
         \<and> tr_common_ancestor self = tr_old_head self \<and> tr_removed self = []
         \<and> map Some (tr_added self) = [tr_new_head self]
     | REORG \<Rightarrow>
         (tr_old_head self \<noteq> None \<and> tr_new_head self \<noteq> None \<and> tr_old_head self \<noteq> tr_new_head self
          \<and> tr_common_ancestor self \<noteq> None \<and> tr_removed self \<noteq> []
          \<and> Some (hd (tr_removed self)) = tr_old_head self)
         \<and> ((tr_added self \<noteq> [] \<and> Some (last (tr_added self)) = tr_new_head self
             \<and> tr_new_head self \<noteq> tr_common_ancestor self)
            \<or> (tr_added self = [] \<and> tr_new_head self = tr_common_ancestor self))
     | DUPLICATE \<Rightarrow>
         tr_old_head self = tr_new_head self \<and> tr_new_head self = tr_common_ancestor self
         \<and> tr_old_head self \<noteq> None \<and> tr_removed self = [] \<and> tr_added self = []
     | ORPHAN \<Rightarrow>
         tr_old_head self = tr_new_head self \<and> tr_old_head self \<noteq> None
         \<and> tr_common_ancestor self = None \<and> tr_removed self = [] \<and> tr_added self = [])"

definition is_path_hash :: "string \<Rightarrow> bool" where
  "is_path_hash h \<longleftrightarrow> is_hex_hash h \<and> h \<noteq> ZERO_BLOCK_HASH"

definition require_path :: "string \<Rightarrow> string list \<Rightarrow> unit result" where
  "require_path name vals =
    (if \<not> list_all is_path_hash vals
     then Inl (TypeError (name @ '' must be an exact tuple of non-zero canonical block hashes''))
     else if has_duplicate vals then Inl (ValueError (name @ '' contains a duplicate block hash''))
     else Inr ())"

definition HeadTransition_post_init :: "head_transition \<Rightarrow> head_transition result" where
  "HeadTransition_post_init self =
    (if tr_chain self = SOLANA then Inl (ValueError ''head transition requires a governed EVM chain'')
     else rbind (get_source_contract (tr_source_id self)) (\<lambda>contract.
     if sc_chain contract \<noteq> tr_chain self
     then Inl (ValueError ''head transition source contract does not match its chain'')
     else
     rbind (require_u64 ''source_sequence'' (tr_source_sequence self)) (\<lambda>_.
     if tr_observation_kind self \<notin> {BLOCK_HEAD, PRECONFIRMED_BLOCK}
     then Inl (ValueError ''head transition observation_kind is not a governed head kind'')
     else
     rbind (permits contract (tr_observation_kind self) (tr_finality self) FULL) (\<lambda>permitted.
     if \<not> permitted
     then Inl (ValueError ''head transition stream is not permitted by its source contract'')
     else
     rbind (require_sha256 ''observation_sha256'' (tr_observation_sha256 self)) (\<lambda>_.
     rbind (require_hash_or_none ''old_head'' (tr_old_head self) False) (\<lambda>_.
     rbind (require_hash_or_none ''new_head'' (tr_new_head self) False) (\<lambda>_.
     rbind (require_hash_or_none ''common_ancestor'' (tr_common_ancestor self) True) (\<lambda>_.
     rbind (require_path ''removed'' (tr_removed self)) (\<lambda>_.
     rbind (require_path ''added'' (tr_added self)) (\<lambda>_.
     if list_ex (\<lambda>h. h \<in> set (tr_added self)) (tr_removed self)
     then Inl (ValueError ''removed and added paths must be disjoint'')
     else if tr_common_ancestor self \<in> Some ` (set (tr_removed self) \<union> set (tr_added self))
     then Inl (ValueError ''common ancestor cannot appear in a transition path'')
     else if \<not> transition_shape_valid self
     then Inl (ValueError (head_transition_kind_value (tr_kind self) @ '' transition shape is invalid''))
     else Inr self))))))))))"

definition json_opt_str :: "string option \<Rightarrow> json" where
  "json_opt_str v = (case v of None \<Rightarrow> JNull | Some s \<Rightarrow> JStr s)"

definition HeadTransition_to_json :: "head_transition \<Rightarrow> json" where
  "HeadTransition_to_json self = JObj
    [(''schema'', JStr HEAD_TRANSITION_SCHEMA),
     (''chain'', JStr (chain_value (tr_chain self))),
     (''source_id'', JStr (tr_source_id self)),
     (''source_sequence'', JStr (str_of_int (tr_source_sequence self))),
     (''observation_kind'', JStr (observation_kind_value (tr_observation_kind self))),
     (''finality'', JStr (finality_value (tr_finality self))),
     (''observation_sha256'', JStr (tr_observation_sha256 self)),
     (''kind'', JStr (head_transition_kind_value (tr_kind self))),
     (''old_head'', json_opt_str (tr_old_head self)),
     (''new_head'', json_opt_str (tr_new_head self)),
     (''common_ancestor'', json_opt_str (tr_common_ancestor self)),
     (''removed'', JArr (map JStr (tr_removed self))),
     (''added'', JArr (map JStr (tr_added self)))]"

definition HEAD_TRANSITION_KEYS :: "string list" where
  "HEAD_TRANSITION_KEYS =
    [''schema'', ''chain'', ''source_id'', ''source_sequence'', ''observation_kind'', ''finality'',
     ''observation_sha256'', ''kind'', ''old_head'', ''new_head'', ''common_ancestor'', ''removed'', ''added'']"

definition opt_str_of_json :: "string \<Rightarrow> json \<Rightarrow> string option result" where
  "opt_str_of_json name v =
    (case v of JNull \<Rightarrow> Inr None | JStr s \<Rightarrow> Inr (Some s)
     | _ \<Rightarrow> Inl (ValueError (name @ '' must be a canonical block hash or null'')))"

definition path_of_json :: "string \<Rightarrow> json \<Rightarrow> string list result" where
  "path_of_json name v =
    (case v of
       JArr vs \<Rightarrow> rmap (\<lambda>x. case x of JStr s \<Rightarrow> Inr s
         | _ \<Rightarrow> Inl (TypeError (name @ '' must be an exact tuple of non-zero canonical block hashes''))) vs
     | _ \<Rightarrow> Inl (ValueError ''head transition paths must be JSON arrays''))"

definition HeadTransition_from_json :: "json \<Rightarrow> head_transition result" where
  "HeadTransition_from_json v =
    rbind (exact_dict ''head transition must be an exact JSON object'' v) (\<lambda>d.
    rbind (require_exact_keys ''head transition'' d HEAD_TRANSITION_KEYS) (\<lambda>_.
    if jfield d ''schema'' \<noteq> JStr HEAD_TRANSITION_SCHEMA
    then Inl (ValueError ''unknown head transition schema'')
    else
    rbind (rmap (\<lambda>f. exact_str ''head transition governed enums must be exact JSON strings'' (jfield d f))
             [''chain'', ''observation_kind'', ''finality'', ''kind'']) (\<lambda>enums.
    rbind (enum_of chain_value all_chains (enums ! 0)) (\<lambda>ch.
    rbind (enum_of observation_kind_value all_observation_kinds (enums ! 1)) (\<lambda>k.
    rbind (enum_of finality_value all_finalities (enums ! 2)) (\<lambda>f.
    rbind (enum_of head_transition_kind_value all_head_transition_kinds (enums ! 3)) (\<lambda>kind.
    rbind (parse_decimal ''source_sequence'' (jfield d ''source_sequence'') MAX_U64) (\<lambda>sequence.
    rbind (path_of_json ''removed'' (jfield d ''removed'')) (\<lambda>removed.
    rbind (path_of_json ''added'' (jfield d ''added'')) (\<lambda>added.
    rbind (exact_str ''source_id must be an exact string'' (jfield d ''source_id'')) (\<lambda>source_id.
    rbind (exact_str ''observation_sha256 must be a lowercase SHA-256 hex digest''
             (jfield d ''observation_sha256'')) (\<lambda>digest.
    rbind (opt_str_of_json ''old_head'' (jfield d ''old_head'')) (\<lambda>old_head.
    rbind (opt_str_of_json ''new_head'' (jfield d ''new_head'')) (\<lambda>new_head.
    rbind (opt_str_of_json ''common_ancestor'' (jfield d ''common_ancestor'')) (\<lambda>ancestor.
    HeadTransition_post_init
      \<lparr>tr_chain = ch, tr_source_id = source_id, tr_source_sequence = sequence,
       tr_observation_kind = k, tr_finality = f, tr_observation_sha256 = digest, tr_kind = kind,
       tr_old_head = old_head, tr_new_head = new_head, tr_common_ancestor = ancestor,
       tr_removed = removed, tr_added = added\<rparr>)))))))))))))))"

definition HeadTransition_verify_observation :: "head_transition \<Rightarrow> envelope \<Rightarrow> unit result" where
  "HeadTransition_verify_observation self envelope =
    (if oe_chain envelope \<noteq> tr_chain self \<or> oe_source_id envelope \<noteq> tr_source_id self
        \<or> oe_source_sequence envelope \<noteq> tr_source_sequence self
        \<or> oe_kind envelope \<noteq> tr_observation_kind self \<or> oe_finality envelope \<noteq> tr_finality self
        \<or> oe_visibility envelope \<noteq> FULL
     then Inl (ValueError ''head transition does not match its triggering observation'')
     else rbind (envelope_digest envelope) (\<lambda>digest.
       if digest \<noteq> tr_observation_sha256 self
       then Inl (ValueError ''head transition does not match its triggering observation'')
       else Inr ()))"

subsection \<open>The tracker\<close>

type_synonym head_nodes = "(string, evm_head) dict"

record head_tracker =
  ht_chain :: chain
  ht_source_id :: string
  ht_observation_kind :: observation_kind
  ht_finality :: finality
  ht_nodes :: head_nodes
  ht_current_hash :: "string option"
  ht_last_sequence :: "int option"

definition HeadTracker_init :: "chain \<Rightarrow> string \<Rightarrow> observation_kind \<Rightarrow> finality \<Rightarrow> head_tracker result" where
  "HeadTracker_init ch source_id k f =
    (if ch = SOLANA then Inl (ValueError ''HeadTracker requires a governed EVM chain'')
     else if k \<notin> {BLOCK_HEAD, PRECONFIRMED_BLOCK}
     then Inl (ValueError ''HeadTracker requires a governed block-head observation kind'')
     else rbind (get_source_contract source_id) (\<lambda>contract.
     if sc_chain contract \<noteq> ch
     then Inl (ValueError ''head tracker source contract does not match its chain'')
     else rbind (permits contract k f FULL) (\<lambda>permitted.
     if \<not> permitted
     then Inl (ValueError ''source contract does not provide the governed full head stream'')
     else Inr \<lparr>ht_chain = ch, ht_source_id = source_id, ht_observation_kind = k, ht_finality = f,
               ht_nodes = [], ht_current_hash = None, ht_last_sequence = None\<rparr>)))"

definition current_head :: "head_tracker \<Rightarrow> evm_head option" where
  "current_head self = Option.bind (ht_current_hash self) (dict_get (ht_nodes self))"

definition tracked_head_count :: "head_tracker \<Rightarrow> nat" where
  "tracked_head_count self = length (ht_nodes self)"

text \<open>\<open>_transition\<close>: the transition of this stream for an observation.\<close>

definition tracker_transition ::
  "head_tracker \<Rightarrow> envelope \<Rightarrow> head_transition_kind \<Rightarrow> string option \<Rightarrow> string option \<Rightarrow> string option
    \<Rightarrow> string list \<Rightarrow> string list \<Rightarrow> head_transition result" where
  "tracker_transition self envelope kind old_head new_head ancestor removed added =
    rbind (envelope_digest envelope) (\<lambda>digest.
    HeadTransition_post_init
      \<lparr>tr_chain = ht_chain self, tr_source_id = ht_source_id self,
       tr_source_sequence = oe_source_sequence envelope,
       tr_observation_kind = ht_observation_kind self, tr_finality = ht_finality self,
       tr_observation_sha256 = digest, tr_kind = kind, tr_old_head = old_head,
       tr_new_head = new_head, tr_common_ancestor = ancestor, tr_removed = removed,
       tr_added = added\<rparr>)"

text \<open>
  The first loop of \<open>_paths_to_common_ancestor\<close>: the path from the old head through known
  parents, with the position of each hash on it. Each turn adds a known hash to the
  positions, so the loop stops.
\<close>

function walk_old :: "head_nodes \<Rightarrow> string \<Rightarrow> string list \<Rightarrow> (string, nat) dict
    \<Rightarrow> string list \<times> (string, nat) dict" where
  "walk_old nodes cursor old_path positions =
    (case dict_get nodes cursor of
       None \<Rightarrow> (old_path, positions)
     | Some node \<Rightarrow>
       if dict_get positions cursor \<noteq> None then (old_path, positions)
       else
         let positions = dict_set cursor (length old_path) positions;
             old_path = old_path @ [cursor];
             parent = eh_parent_hash node
         in if parent = ZERO_BLOCK_HASH
            then (old_path, dict_set parent (length old_path) positions)
            else walk_old nodes parent old_path positions)"
  by pat_completeness auto
termination
proof (relation "measure (\<lambda>(nodes, cursor, old_path, positions).
    card (set (dict_keys nodes) - set (dict_keys positions)))", goal_cases)
  case 1
  show ?case by simp
next
  case (2 nodes cursor old_path positions node x xa xb)
  have known: "cursor \<in> set (dict_keys nodes) - set (dict_keys positions)"
    using 2 by (auto simp: dict.set_keys domIff)
  have "set (dict_keys nodes) - set (dict_keys (dict_set cursor (length old_path) positions))
      = set (dict_keys nodes) - set (dict_keys positions) - {cursor}"
    by (auto simp: dict.set_keys domIff split: if_splits)
  then have "card (set (dict_keys nodes) - set (dict_keys (dict_set cursor (length old_path) positions)))
      < card (set (dict_keys nodes) - set (dict_keys positions))"
    using card_Diff1_less [OF _ known] by simp
  with 2 show ?case by simp
qed

declare walk_old.simps [simp del]

definition node_for_candidate :: "head_nodes \<Rightarrow> string \<Rightarrow> evm_head \<Rightarrow> evm_head option" where
  "node_for_candidate nodes block_hash candidate =
    (if block_hash = eh_block_hash candidate then Some candidate else dict_get nodes block_hash)"

text \<open>The second loop: the path from the new head back to a hash of the old path.\<close>

function walk_new :: "head_nodes \<Rightarrow> evm_head \<Rightarrow> string list \<Rightarrow> (string, nat) dict \<Rightarrow> string
    \<Rightarrow> string list \<Rightarrow> string list \<Rightarrow> (string \<times> string list \<times> string list) option" where
  "walk_new nodes candidate old_path positions cursor new_path visited =
    (if cursor \<in> set visited then None
     else (case dict_get positions cursor of
         Some n \<Rightarrow> Some (cursor, take n old_path, rev new_path)
       | None \<Rightarrow>
         (case node_for_candidate nodes cursor candidate of
            None \<Rightarrow> None
          | Some node \<Rightarrow>
            if eh_parent_hash node = ZERO_BLOCK_HASH then
              (if dict_get positions ZERO_BLOCK_HASH \<noteq> None
               then Some (ZERO_BLOCK_HASH, old_path, rev (new_path @ [cursor]))
               else None)
            else walk_new nodes candidate old_path positions (eh_parent_hash node)
                   (new_path @ [cursor]) (cursor # visited))))"
  by pat_completeness auto
termination
proof (relation "measure (\<lambda>(nodes, candidate, old_path, positions, cursor, new_path, visited).
    card (insert (eh_block_hash candidate) (set (dict_keys nodes)) - set visited))", goal_cases)
  case 1
  show ?case by simp
next
  case (2 nodes candidate old_path positions cursor new_path visited node)
  have known: "cursor \<in> insert (eh_block_hash candidate) (set (dict_keys nodes)) - set visited"
    using 2 by (auto simp: node_for_candidate_def dict.set_keys domIff split: if_splits)
  have "insert (eh_block_hash candidate) (set (dict_keys nodes)) - set (cursor # visited)
      = insert (eh_block_hash candidate) (set (dict_keys nodes)) - set visited - {cursor}"
    by auto
  then show ?case
    using card_Diff1_less [OF _ known] by simp
qed

declare walk_new.simps [simp del]

definition paths_to_common_ancestor ::
  "head_nodes \<Rightarrow> string \<Rightarrow> evm_head \<Rightarrow> (string \<times> string list \<times> string list) option" where
  "paths_to_common_ancestor nodes old_hash candidate =
    (case walk_old nodes old_hash [] [] of
       (old_path, positions) \<Rightarrow>
         walk_new nodes candidate old_path positions (eh_block_hash candidate) [] [])"

text \<open>
  \<open>HeadTracker.apply\<close>: \<open>apply_head\<close> is its body once the head has been read from the
  observation. The tracker is returned changed only with the transition.
\<close>

definition apply_head :: "head_tracker \<Rightarrow> envelope \<Rightarrow> evm_head \<Rightarrow> (head_transition \<times> head_tracker) result" where
  "apply_head self envelope head =
    (let h = eh_block_hash head; sequence = eh_source_sequence head;
         stored = self\<lparr>ht_nodes := dict_set h head (ht_nodes self),
                       ht_last_sequence := Some sequence\<rparr>;
         existing = dict_get (ht_nodes self) h in
     if (case ht_last_sequence self of None \<Rightarrow> False | Some last_sequence \<Rightarrow> sequence \<le> last_sequence)
     then Inl (ValueError ''head observation source sequence did not advance'')
     else if (case existing of None \<Rightarrow> False | Some e \<Rightarrow> \<not> same_block_metadata e head)
     then Inl (ValueError ''duplicate block hash carries conflicting block metadata'')
     else (case ht_current_hash self of
       None \<Rightarrow>
         if existing \<noteq> None \<or> ht_nodes self \<noteq> []
         then Inl (RuntimeError ''head tracker authority is internally inconsistent'')
         else rbind (tracker_transition self envelope BOOTSTRAP None (Some h) None [] [h]) (\<lambda>t.
           Inr (t, stored\<lparr>ht_current_hash := Some h\<rparr>))
     | Some old_hash \<Rightarrow>
       if existing \<noteq> None \<and> h = old_hash then
         rbind (tracker_transition self envelope DUPLICATE (Some old_hash) (Some old_hash) (Some old_hash) [] [])
           (\<lambda>t. Inr (t, stored))
       else if existing = None \<and> MAX_TRACKED_HEADS \<le> length (ht_nodes self)
       then Inl (ValueError ''head tracker node ceiling exceeded'')
       else
       let parent = (if 0 < eh_number head then dict_get (ht_nodes self) (eh_parent_hash head) else None) in
       if (case parent of None \<Rightarrow> False | Some p \<Rightarrow> eh_number p + 1 \<noteq> eh_number head)
       then Inl (ValueError ''head number is inconsistent with its known parent'')
       else if (case parent of None \<Rightarrow> False
                | Some p \<Rightarrow> eh_block_timestamp_unix_s head < eh_block_timestamp_unix_s p)
       then Inl (ValueError ''head timestamp moved backwards from its known parent'')
       else if eh_parent_hash head = old_hash then
         (case dict_get (ht_nodes self) old_hash of
            None \<Rightarrow> Inl (RuntimeError ''KeyError'')
          | Some current \<Rightarrow>
            if eh_number head \<noteq> eh_number current + 1
            then Inl (ValueError ''head extension number is not contiguous'')
            else if eh_block_timestamp_unix_s head < eh_block_timestamp_unix_s current
            then Inl (ValueError ''head extension timestamp moved backwards'')
            else rbind (tracker_transition self envelope EXTEND (Some old_hash) (Some h) (Some old_hash) [] [h])
              (\<lambda>t. Inr (t, stored\<lparr>ht_current_hash := Some h\<rparr>)))
       else (case paths_to_common_ancestor (ht_nodes self) old_hash head of
           None \<Rightarrow>
             rbind (tracker_transition self envelope ORPHAN (Some old_hash) (Some old_hash) None [] [])
               (\<lambda>t. Inr (t, self\<lparr>ht_last_sequence := Some sequence\<rparr>))
         | Some (ancestor, removed, added) \<Rightarrow>
             rbind (tracker_transition self envelope REORG (Some old_hash) (Some h) (Some ancestor) removed added)
               (\<lambda>t. Inr (t, stored\<lparr>ht_current_hash := Some h\<rparr>)))))"

definition HeadTracker_apply :: "head_tracker \<Rightarrow> envelope \<Rightarrow> (head_transition \<times> head_tracker) result" where
  "HeadTracker_apply self envelope =
    (if oe_chain envelope \<noteq> ht_chain self \<or> oe_source_id envelope \<noteq> ht_source_id self
        \<or> oe_kind envelope \<noteq> ht_observation_kind self \<or> oe_finality envelope \<noteq> ht_finality self
        \<or> oe_visibility envelope \<noteq> FULL
     then Inl (ValueError ''head observation does not belong to this exact tracker stream'')
     else rbind (EvmHead_from_observation envelope) (apply_head self envelope))"

subsection \<open>Parent-linked paths\<close>

text \<open>
  \<open>descends nodes tip path base\<close>: \<open>path\<close> starts at \<open>tip\<close>, every hash on it is a known block
  whose parent is the next one, and the parent of the last is \<open>base\<close>.
\<close>

fun descends :: "head_nodes \<Rightarrow> string \<Rightarrow> string list \<Rightarrow> string \<Rightarrow> bool" where
  "descends nodes tip [] base \<longleftrightarrow> tip = base"
| "descends nodes tip (h # hs) base \<longleftrightarrow>
    h = tip \<and> (case dict_get nodes h of None \<Rightarrow> False
               | Some node \<Rightarrow> descends nodes (eh_parent_hash node) hs base)"

lemma descends_append:
  "descends nodes tip (xs @ ys) base \<longleftrightarrow> (\<exists>mid. descends nodes tip xs mid \<and> descends nodes mid ys base)"
  by (induction xs arbitrary: tip) (auto split: option.splits)

lemma descends_snoc:
  "descends nodes tip (xs @ [h]) base \<longleftrightarrow>
    descends nodes tip xs h \<and> (\<exists>node. dict_get nodes h = Some node \<and> eh_parent_hash node = base)"
  by (auto simp: descends_append split: option.splits)

lemma descends_take:
  "descends nodes tip xs base \<Longrightarrow> i < length xs \<Longrightarrow> descends nodes tip (take i xs) (xs ! i)"
proof (induction xs arbitrary: tip i)
  case (Cons h hs)
  then show ?case by (cases i) (auto split: option.splits)
qed simp

lemma descends_known: "descends nodes tip xs base \<Longrightarrow> h \<in> set xs \<Longrightarrow> dict_get nodes h \<noteq> None"
  by (induction xs arbitrary: tip) (auto split: option.splits)

lemma descends_hd: "descends nodes tip xs base \<Longrightarrow> xs \<noteq> [] \<Longrightarrow> hd xs = tip"
  by (cases xs) auto

text \<open>Storing a head whose hash is new, or known with the same parent, keeps every path.\<close>

lemma descends_store:
  assumes "descends nodes tip xs base"
    and "\<And>node. dict_get nodes h = Some node \<Longrightarrow> eh_parent_hash node = eh_parent_hash head"
  shows "descends (dict_set h head nodes) tip xs base"
  using assms(1) by (induction xs arbitrary: tip) (auto split: option.splits dest: assms(2))

lemma node_for_candidate_store:
  "node_for_candidate nodes h candidate = dict_get (dict_set (eh_block_hash candidate) candidate nodes) h"
  by (simp add: node_for_candidate_def)

text \<open>What the first loop returns: a path from the old head and positions on it.\<close>

definition old_path_ok :: "head_nodes \<Rightarrow> string \<Rightarrow> string list \<Rightarrow> (string, nat) dict \<Rightarrow> bool" where
  "old_path_ok nodes tip path positions \<longleftrightarrow>
    distinct path \<and> set path \<subseteq> dom (dict_get positions)
    \<and> (\<forall>h n. dict_get positions h = Some n \<longrightarrow>
         n \<le> length path \<and> descends nodes tip (take n path) h \<and> h \<notin> set (take n path)
         \<and> (h = ZERO_BLOCK_HASH \<longrightarrow> n = length path))"

definition positions_of :: "(string, nat) dict \<Rightarrow> string list \<Rightarrow> bool" where
  "positions_of positions path \<longleftrightarrow>
    (\<forall>h n. dict_get positions h = Some n \<longleftrightarrow> n < length path \<and> path ! n = h)"

lemma positions_ofD:
  "positions_of positions path \<Longrightarrow> dict_get positions h = Some n \<longleftrightarrow> n < length path \<and> path ! n = h"
  by (simp add: positions_of_def)

lemma positions_of_dom: "positions_of positions path \<Longrightarrow> dom (dict_get positions) = set path"
  by (auto simp: positions_of_def dom_def in_set_conv_nth)

lemma positions_of_snoc:
  assumes "positions_of positions path" "cursor \<notin> set path"
  shows "positions_of (dict_set cursor (length path) positions) (path @ [cursor])"
  using assms by (auto simp: positions_of_def nth_append in_set_conv_nth less_Suc_eq)

lemma nth_notin_take: "distinct xs \<Longrightarrow> n < length xs \<Longrightarrow> xs ! n \<notin> set (take n xs)"
  by (simp add: in_set_conv_nth nth_eq_iff_index_eq)

lemma old_path_ok_end:
  assumes "dict_get nodes ZERO_BLOCK_HASH = None" "descends nodes tip path base" "distinct path"
    and pos: "positions_of positions path"
  shows "old_path_ok nodes tip path positions"
  unfolding old_path_ok_def
proof (intro conjI allI impI)
  show "distinct path" by fact
  show "set path \<subseteq> dom (dict_get positions)" using positions_of_dom [OF pos] by simp
  fix h n assume get: "dict_get positions h = Some n"
  then have n: "n < length path" and h: "path ! n = h" using positions_ofD [OF pos, of h n] by simp_all
  then show "n \<le> length path" by simp
  show "descends nodes tip (take n path) h" using descends_take [OF assms(2) n] h by simp
  show "h \<notin> set (take n path)" using nth_notin_take [OF assms(3) n] h by simp
  assume "h = ZERO_BLOCK_HASH"
  then have "ZERO_BLOCK_HASH \<in> set path" using nth_mem [OF n] h by simp
  then show "n = length path" using descends_known [OF assms(2)] assms(1) by blast
qed

lemma old_path_ok_zero:
  assumes "dict_get nodes ZERO_BLOCK_HASH = None" "descends nodes tip path ZERO_BLOCK_HASH"
    and "old_path_ok nodes tip path positions"
  shows "old_path_ok nodes tip path (dict_set ZERO_BLOCK_HASH (length path) positions)"
proof -
  have "ZERO_BLOCK_HASH \<notin> set path" using descends_known [OF assms(2)] assms(1) by blast
  then show ?thesis using assms(2,3) unfolding old_path_ok_def by auto
qed

lemma walk_old_ok:
  assumes "dict_get nodes ZERO_BLOCK_HASH = None"
    and "descends nodes tip path cursor" "distinct path" "positions_of positions path"
    and "walk_old nodes cursor path positions = (p, ps)"
  shows "old_path_ok nodes tip p ps"
  using assms
proof (induction nodes cursor path positions rule: walk_old.induct)
  case (1 nodes cursor path positions)
  note at_end = old_path_ok_end [OF "1.prems"(1-4)]
  show ?case
  proof (cases "dict_get nodes cursor")
    case None
    then show ?thesis using at_end "1.prems"(5) by (simp add: walk_old.simps [of nodes cursor])
  next
    case (Some node)
    show ?thesis
    proof (cases "dict_get positions cursor = None")
      case False
      then show ?thesis using at_end "1.prems"(5) Some by (auto simp: walk_old.simps [of nodes cursor])
    next
      case True
      have fresh: "cursor \<notin> set path" using True positions_of_dom [OF "1.prems"(4)] by blast
      have tip': "descends nodes tip (path @ [cursor]) (eh_parent_hash node)"
        using "1.prems"(2) Some by (simp add: descends_snoc)
      have dist': "distinct (path @ [cursor])" using "1.prems"(3) fresh by simp
      note pos' = positions_of_snoc [OF "1.prems"(4) fresh]
      note ok' = old_path_ok_end [OF "1.prems"(1) tip' dist' pos']
      show ?thesis
      proof (cases "eh_parent_hash node = ZERO_BLOCK_HASH")
        case nonzero: False
        have "walk_old nodes (eh_parent_hash node) (path @ [cursor]) (dict_set cursor (length path) positions) = (p, ps)"
          using "1.prems"(5) nonzero True Some by (simp add: walk_old.simps [of nodes cursor] Let_def)
        then show ?thesis
          by (intro "1.IH" [OF Some _ refl refl refl nonzero "1.prems"(1) tip' dist' pos']) (simp_all add: True)
      next
        case zero: True
        have "p = path @ [cursor]"
            "ps = dict_set ZERO_BLOCK_HASH (length (path @ [cursor])) (dict_set cursor (length path) positions)"
          using "1.prems"(5) zero True Some by (auto simp: walk_old.simps [of nodes cursor] Let_def)
        then show ?thesis using old_path_ok_zero [OF "1.prems"(1) tip' [unfolded zero] ok'] by simp
      qed
    qed
  qed
qed

text \<open>What the second loop returns: the two paths down to the common ancestor.\<close>

definition fork_ok ::
  "head_nodes \<Rightarrow> string \<Rightarrow> evm_head \<Rightarrow> string \<Rightarrow> string list \<Rightarrow> string list \<Rightarrow> bool" where
  "fork_ok nodes old_hash candidate ancestor removed added \<longleftrightarrow>
    descends nodes old_hash removed ancestor
    \<and> descends (dict_set (eh_block_hash candidate) candidate nodes) (eh_block_hash candidate) (rev added) ancestor
    \<and> distinct removed \<and> distinct added \<and> set removed \<inter> set added = {}
    \<and> ancestor \<notin> set removed \<and> ancestor \<notin> set added"

lemma fork_ok_found:
  assumes "old_path_ok nodes tip path positions" "dict_get positions cursor = Some n"
    and "descends (dict_set (eh_block_hash candidate) candidate nodes) (eh_block_hash candidate) new cursor"
    and "distinct new" "set new \<inter> dom (dict_get positions) = {}"
  shows "fork_ok nodes tip candidate cursor (take n path) (rev new)"
proof -
  have "set (take n path) \<subseteq> dom (dict_get positions)"
    using assms(1) set_take_subset [of n path] by (auto simp: old_path_ok_def)
  moreover have "distinct (take n path)" "descends nodes tip (take n path) cursor" "cursor \<notin> set (take n path)"
    using assms(1,2) by (auto simp: old_path_ok_def)
  moreover have "cursor \<notin> set new" using assms(2,5) by auto
  ultimately show ?thesis using assms(3-5) by (auto simp: fork_ok_def)
qed

lemma walk_new_ok:
  assumes "old_path_ok nodes tip path positions"
    and "descends (dict_set (eh_block_hash candidate) candidate nodes) (eh_block_hash candidate) new cursor"
    and "distinct new" "set visited = set new" "set new \<inter> dom (dict_get positions) = {}"
    and "ZERO_BLOCK_HASH \<notin> set new" "cursor \<noteq> ZERO_BLOCK_HASH"
    and "walk_new nodes candidate path positions cursor new visited = Some (ancestor, removed, added)"
  shows "fork_ok nodes tip candidate ancestor removed added"
  using assms
proof (induction nodes candidate path positions cursor new visited rule: walk_new.induct)
  case (1 nodes candidate path positions cursor new visited)
  note eqn = "1.prems"(8) [unfolded walk_new.simps [of nodes candidate path positions cursor]]
  have unvisited: "cursor \<notin> set visited" using eqn by (auto split: if_splits)
  show ?case
  proof (cases "dict_get positions cursor")
    case (Some n)
    then have "ancestor = cursor" "removed = take n path" "added = rev new"
      using eqn unvisited by auto
    then show ?thesis using fork_ok_found [OF "1.prems"(1) Some "1.prems"(2,3,5)] by simp
  next
    case None
    then obtain node where node: "node_for_candidate nodes cursor candidate = Some node"
      using eqn unvisited by (auto split: option.splits)
    have new': "descends (dict_set (eh_block_hash candidate) candidate nodes) (eh_block_hash candidate)
        (new @ [cursor]) (eh_parent_hash node)"
      using "1.prems"(2) node unfolding node_for_candidate_store by (simp add: descends_snoc)
    have dist': "distinct (new @ [cursor])" using "1.prems"(3,4) unvisited by auto
    have dom': "set (new @ [cursor]) \<inter> dom (dict_get positions) = {}"
      using "1.prems"(5) None by auto
    have zero': "ZERO_BLOCK_HASH \<notin> set (new @ [cursor])" using "1.prems"(6,7) by auto
    show ?thesis
    proof (cases "eh_parent_hash node = ZERO_BLOCK_HASH")
      case True
      then obtain n where n: "dict_get positions ZERO_BLOCK_HASH = Some n"
        and res: "ancestor = ZERO_BLOCK_HASH" "removed = path" "added = rev (new @ [cursor])"
        using eqn unvisited None node by (auto split: if_splits)
      have "take n path = path" using "1.prems"(1) n by (auto simp: old_path_ok_def)
      then show ?thesis
        using fork_ok_found [OF "1.prems"(1) n new' [unfolded True] dist' dom'] res by simp
    next
      case False
      have "walk_new nodes candidate path positions (eh_parent_hash node) (new @ [cursor]) (cursor # visited)
          = Some (ancestor, removed, added)"
        using eqn unvisited None node False by simp
      then show ?thesis
        by (intro "1.IH" [OF unvisited None node False "1.prems"(1) new' dist' _ dom' zero' False])
           (simp_all add: "1.prems"(4))
    qed
  qed
qed

lemma paths_to_common_ancestor_ok:
  assumes "dict_get nodes ZERO_BLOCK_HASH = None" "eh_block_hash candidate \<noteq> ZERO_BLOCK_HASH"
    and "paths_to_common_ancestor nodes old_hash candidate = Some (ancestor, removed, added)"
  shows "fork_ok nodes old_hash candidate ancestor removed added"
proof -
  obtain path positions where old: "walk_old nodes old_hash [] [] = (path, positions)"
    by (cases "walk_old nodes old_hash [] []")
  have "old_path_ok nodes old_hash path positions"
    by (rule walk_old_ok [OF assms(1) _ _ _ old]) (simp_all add: positions_of_def)
  then show ?thesis
    using assms(2,3) old by (auto simp: paths_to_common_ancestor_def elim!: walk_new_ok [rotated -1])
qed

subsection \<open>The cases of \<open>apply\<close>\<close>

definition store_head :: "head_tracker \<Rightarrow> evm_head \<Rightarrow> string \<Rightarrow> head_tracker" where
  "store_head tr head current =
    tr\<lparr>ht_nodes := dict_set (eh_block_hash head) head (ht_nodes tr),
       ht_current_hash := Some current, ht_last_sequence := Some (eh_source_sequence head)\<rparr>"

lemma apply_head_cases:
  assumes "apply_head tr env head = Inr (t, tr')"
  obtains
    (bootstrap) "ht_current_hash tr = None" "ht_nodes tr = []"
      "tracker_transition tr env BOOTSTRAP None (Some (eh_block_hash head)) None [] [eh_block_hash head] = Inr t"
      "tr' = store_head tr head (eh_block_hash head)"
  | (duplicate) "ht_current_hash tr = Some (eh_block_hash head)"
      "tracker_transition tr env DUPLICATE (Some (eh_block_hash head)) (Some (eh_block_hash head))
         (Some (eh_block_hash head)) [] [] = Inr t"
      "tr' = store_head tr head (eh_block_hash head)" "dict_get (ht_nodes tr) (eh_block_hash head) \<noteq> None"
  | (extend) old where "ht_current_hash tr = Some old" "eh_parent_hash head = old"
      "tracker_transition tr env EXTEND (Some old) (Some (eh_block_hash head)) (Some old) []
         [eh_block_hash head] = Inr t"
      "tr' = store_head tr head (eh_block_hash head)"
      "dict_get (ht_nodes tr) (eh_block_hash head) = None \<Longrightarrow> length (ht_nodes tr) < MAX_TRACKED_HEADS"
  | (orphan) old where "ht_current_hash tr = Some old"
      "paths_to_common_ancestor (ht_nodes tr) old head = None"
      "tracker_transition tr env ORPHAN (Some old) (Some old) None [] [] = Inr t"
      "tr' = tr\<lparr>ht_last_sequence := Some (eh_source_sequence head)\<rparr>"
  | (reorg) old ancestor removed added where "ht_current_hash tr = Some old"
      "paths_to_common_ancestor (ht_nodes tr) old head = Some (ancestor, removed, added)"
      "tracker_transition tr env REORG (Some old) (Some (eh_block_hash head)) (Some ancestor) removed added = Inr t"
      "tr' = store_head tr head (eh_block_hash head)"
      "dict_get (ht_nodes tr) (eh_block_hash head) = None \<Longrightarrow> length (ht_nodes tr) < MAX_TRACKED_HEADS"
proof (cases "ht_current_hash tr")
  case None
  show thesis
    using assms None by (intro bootstrap) (auto simp: apply_head_def Let_def store_head_def split: if_splits)
next
  case (Some old)
  show thesis
  proof (cases "dict_get (ht_nodes tr) (eh_block_hash head) \<noteq> None \<and> eh_block_hash head = old")
    case True
    then show thesis
      using assms Some by (intro duplicate) (auto simp: apply_head_def Let_def store_head_def split: if_splits)
  next
    case False
    have room: "dict_get (ht_nodes tr) (eh_block_hash head) = None \<Longrightarrow> length (ht_nodes tr) < MAX_TRACKED_HEADS"
      using assms Some False by (auto simp: apply_head_def Let_def split: if_splits)
    note step = assms [unfolded apply_head_def Let_def]
    show thesis
    proof (cases "eh_parent_hash head = old")
      case True
      then show thesis
        using step Some False room
        by (intro extend [of old]) (auto simp: store_head_def split: if_splits option.splits)
    next
      case nonparent: False
      show thesis
      proof (cases "paths_to_common_ancestor (ht_nodes tr) old head")
        case None
        then show thesis
          using step Some False nonparent
          by (intro orphan [of old]) (auto split: if_splits option.splits)
      next
        case (Some p)
        obtain ancestor removed added where p: "p = (ancestor, removed, added)" by (cases p)
        show thesis
          using step \<open>ht_current_hash tr = Some old\<close> False nonparent room Some [unfolded p]
          by (intro reorg [of old ancestor removed added])
             (auto simp: store_head_def split: if_splits option.splits)
      qed
    qed
  qed
qed

subsection \<open>Reachable trackers\<close>

definition head_ok :: "evm_head \<Rightarrow> bool" where
  "head_ok head \<longleftrightarrow> EvmHead_post_init head = Inr head"

lemma EvmHead_post_init_Inr: "EvmHead_post_init h = Inr h' \<Longrightarrow> h' = h \<and> head_ok h"
  by (auto simp: head_ok_def EvmHead_post_init_def split: if_splits)

lemma head_ok_hash: "head_ok h \<Longrightarrow> is_path_hash (eh_block_hash h)"
  by (auto simp: head_ok_def EvmHead_post_init_def is_path_hash_def split: if_splits)

lemma head_ok_sequence:
  "head_ok h \<Longrightarrow> 0 \<le> eh_source_sequence h \<and> eh_source_sequence h \<le> MAX_U64"
  by (auto simp: head_ok_def EvmHead_post_init_def split: if_splits)

lemma EvmHead_from_observation_Inr:
  assumes "EvmHead_from_observation env = Inr h"
  shows "head_ok h \<and> eh_chain h = oe_chain env \<and> eh_source_id h = oe_source_id env
    \<and> eh_source_sequence h = oe_source_sequence env"
  using assms
  by (auto simp: EvmHead_from_observation_def split: if_splits dest!: EvmHead_post_init_Inr)

definition stream_ok :: "head_tracker \<Rightarrow> bool" where
  "stream_ok tr \<longleftrightarrow>
    ht_chain tr \<noteq> SOLANA \<and> ht_observation_kind tr \<in> {BLOCK_HEAD, PRECONFIRMED_BLOCK}
    \<and> (\<exists>c. get_source_contract (ht_source_id tr) = Inr c \<and> sc_chain c = ht_chain tr
        \<and> permits c (ht_observation_kind tr) (ht_finality tr) FULL = Inr True)"

text \<open>The invariant: every stored head is a governed head of this stream under its own hash.\<close>

definition tracker_inv :: "head_tracker \<Rightarrow> bool" where
  "tracker_inv tr \<longleftrightarrow>
    stream_ok tr \<and> dict_wf (ht_nodes tr) \<and> length (ht_nodes tr) \<le> MAX_TRACKED_HEADS
    \<and> (\<forall>h e. dict_get (ht_nodes tr) h = Some e \<longrightarrow>
         head_ok e \<and> eh_block_hash e = h \<and> eh_chain e = ht_chain tr \<and> eh_source_id e = ht_source_id tr
         \<and> (\<exists>q. ht_last_sequence tr = Some q \<and> eh_source_sequence e \<le> q))
    \<and> (case ht_current_hash tr of None \<Rightarrow> ht_nodes tr = [] \<and> ht_last_sequence tr = None
       | Some h \<Rightarrow> dict_get (ht_nodes tr) h \<noteq> None)"

inductive tracker_reachable :: "head_tracker \<Rightarrow> bool" where
  start: "HeadTracker_init ch source_id k f = Inr tr \<Longrightarrow> tracker_reachable tr"
| observe: "tracker_reachable tr \<Longrightarrow> HeadTracker_apply tr env = Inr (t, tr') \<Longrightarrow> tracker_reachable tr'"

lemma HeadTracker_init_inv: "HeadTracker_init ch source_id k f = Inr tr \<Longrightarrow> tracker_inv tr"
  by (auto simp: HeadTracker_init_def tracker_inv_def stream_ok_def split: if_splits)

lemma HeadTracker_apply_Inr:
  assumes "HeadTracker_apply tr env = Inr r"
  obtains head where "EvmHead_from_observation env = Inr head" "apply_head tr env head = Inr r"
    "head_ok head" "eh_chain head = ht_chain tr" "eh_source_id head = ht_source_id tr"
    "eh_source_sequence head = oe_source_sequence env"
  using assms EvmHead_from_observation_Inr by (auto simp: HeadTracker_apply_def split: if_splits)

lemma apply_head_guards:
  assumes "apply_head tr env head = Inr r"
  shows "(\<forall>q. ht_last_sequence tr = Some q \<longrightarrow> q < eh_source_sequence head)
    \<and> (\<forall>e. dict_get (ht_nodes tr) (eh_block_hash head) = Some e \<longrightarrow> same_block_metadata e head)"
  using assms by (auto simp: apply_head_def Let_def split: if_splits option.splits)

lemma store_head_inv:
  assumes "tracker_inv tr" "head_ok head" "eh_chain head = ht_chain tr" "eh_source_id head = ht_source_id tr"
    and "\<And>q. ht_last_sequence tr = Some q \<Longrightarrow> q < eh_source_sequence head"
    and "dict_get (ht_nodes tr) (eh_block_hash head) = None \<Longrightarrow> length (ht_nodes tr) < MAX_TRACKED_HEADS"
    and "current = eh_block_hash head"
  shows "tracker_inv (store_head tr head current)"
proof -
  have "q \<le> eh_source_sequence head" if "ht_last_sequence tr = Some q" for q
    using assms(5) [OF that] by simp
  moreover have "length (dict_set (eh_block_hash head) head (ht_nodes tr)) \<le> MAX_TRACKED_HEADS"
    using assms(1,6) by (auto simp: tracker_inv_def length_dict_set)
  ultimately show ?thesis
    using assms(1-4,7) unfolding tracker_inv_def store_head_def stream_ok_def by (force intro: order_trans)
qed

lemma apply_head_inv:
  assumes inv: "tracker_inv tr" and head: "head_ok head" "eh_chain head = ht_chain tr" "eh_source_id head = ht_source_id tr"
    and step: "apply_head tr env head = Inr (t, tr')"
  shows "tracker_inv tr'"
proof -
  note guards = apply_head_guards [OF step]
  have store: "tracker_inv (store_head tr head (eh_block_hash head))"
    if "dict_get (ht_nodes tr) (eh_block_hash head) = None \<Longrightarrow> length (ht_nodes tr) < MAX_TRACKED_HEADS"
    using that guards by (intro store_head_inv [OF inv head]) auto
  from step show ?thesis
  proof (cases rule: apply_head_cases)
    case bootstrap
    then show ?thesis using store by (simp add: MAX_TRACKED_HEADS_def)
  next
    case (orphan old)
    have "q \<le> eh_source_sequence head" if "ht_last_sequence tr = Some q" for q
      using guards that by (auto intro: less_imp_le)
    with inv orphan show ?thesis unfolding tracker_inv_def stream_ok_def by (force intro: order_trans)
  qed (use store in auto)
qed

lemma tracker_reachable_inv: "tracker_reachable tr \<Longrightarrow> tracker_inv tr"
proof (induction rule: tracker_reachable.induct)
  case (observe tr env t tr')
  obtain head where "apply_head tr env head = Inr (t, tr')" "head_ok head" "eh_chain head = ht_chain tr"
      "eh_source_id head = ht_source_id tr"
    using observe.hyps(2) by (rule HeadTracker_apply_Inr)
  then show ?case by (metis apply_head_inv observe.IH)
qed (rule HeadTracker_init_inv)

lemma tracker_inv_zero: "tracker_inv tr \<Longrightarrow> dict_get (ht_nodes tr) ZERO_BLOCK_HASH = None"
proof (rule ccontr)
  assume inv: "tracker_inv tr" and "dict_get (ht_nodes tr) ZERO_BLOCK_HASH \<noteq> None"
  then obtain e where "dict_get (ht_nodes tr) ZERO_BLOCK_HASH = Some e" by blast
  then have "head_ok e" "eh_block_hash e = ZERO_BLOCK_HASH" using inv by (auto simp: tracker_inv_def)
  then show False using head_ok_hash by (force simp: is_path_hash_def)
qed

text \<open>
  What a transition says of the trees before and after: the removed blocks lead from the old
  head down to the common ancestor, the added ones from there up to the new head.
\<close>

definition transition_sound :: "head_tracker \<Rightarrow> head_transition \<Rightarrow> head_tracker \<Rightarrow> bool" where
  "transition_sound tr t tr' \<longleftrightarrow>
    tr_old_head t = ht_current_hash tr \<and> tr_new_head t = ht_current_hash tr'
    \<and> set (tr_removed t) \<inter> set (tr_added t) = {}
    \<and> (case tr_common_ancestor t of
         None \<Rightarrow> tr_kind t \<in> {BOOTSTRAP, ORPHAN}
       | Some ancestor \<Rightarrow>
           \<exists>old new. tr_old_head t = Some old \<and> tr_new_head t = Some new
             \<and> descends (ht_nodes tr) old (tr_removed t) ancestor
             \<and> descends (ht_nodes tr') new (rev (tr_added t)) ancestor)
    \<and> (tr_kind t = ORPHAN \<longrightarrow> tr' = tr\<lparr>ht_last_sequence := ht_last_sequence tr'\<rparr>)"

lemma tracker_transition_Inr:
  "tracker_transition tr env kind old new anc removed added = Inr t \<Longrightarrow>
    tr_kind t = kind \<and> tr_old_head t = old \<and> tr_new_head t = new \<and> tr_common_ancestor t = anc
    \<and> tr_removed t = removed \<and> tr_added t = added \<and> transition_shape_valid t"
  by (auto simp: tracker_transition_def HeadTransition_post_init_def split: if_splits)

lemma apply_head_sound:
  assumes inv: "tracker_inv tr" and head: "head_ok head"
    and step: "apply_head tr env head = Inr (t, tr')"
  shows "transition_sound tr t tr'"
  using step
proof (cases rule: apply_head_cases)
  case (reorg old ancestor removed added)
  have "fork_ok (ht_nodes tr) old head ancestor removed added"
    using paths_to_common_ancestor_ok [OF tracker_inv_zero [OF inv] _ reorg(2)] head_ok_hash [OF head]
    by (auto simp: is_path_hash_def)
  then show ?thesis
    using tracker_transition_Inr [OF reorg(3)] reorg(1,4)
    by (auto simp: transition_sound_def fork_ok_def store_head_def)
qed (auto dest!: tracker_transition_Inr simp: transition_sound_def store_head_def)

subsection \<open>Which heads are accepted\<close>

definition head_acceptable :: "head_tracker \<Rightarrow> evm_head \<Rightarrow> bool" where
  "head_acceptable tr head \<longleftrightarrow>
    (case ht_last_sequence tr of None \<Rightarrow> True | Some q \<Rightarrow> q < eh_source_sequence head)
    \<and> (case dict_get (ht_nodes tr) (eh_block_hash head) of None \<Rightarrow> True | Some e \<Rightarrow> same_block_metadata e head)
    \<and> (case ht_current_hash tr of
         None \<Rightarrow> True
       | Some old \<Rightarrow>
           eh_block_hash head = old
           \<or> (dict_get (ht_nodes tr) (eh_block_hash head) \<noteq> None \<or> length (ht_nodes tr) < MAX_TRACKED_HEADS)
             \<and> (0 < eh_number head \<longrightarrow>
                 (case dict_get (ht_nodes tr) (eh_parent_hash head) of None \<Rightarrow> True
                  | Some p \<Rightarrow> eh_number p + 1 = eh_number head
                      \<and> eh_block_timestamp_unix_s p \<le> eh_block_timestamp_unix_s head))
             \<and> (eh_parent_hash head = old
                \<or> (case paths_to_common_ancestor (ht_nodes tr) old head of None \<Rightarrow> True
                   | Some (ancestor, removed, added) \<Rightarrow> removed \<noteq> [])))"

lemma is_path_hashI: "tracker_inv tr \<Longrightarrow> dict_get (ht_nodes tr) h = Some e \<Longrightarrow> is_path_hash h"
  by (metis head_ok_hash tracker_inv_def)

lemma is_path_hash_hex: "is_path_hash h \<Longrightarrow> is_hex_hash h \<and> h \<noteq> ZERO_BLOCK_HASH"
  by (simp add: is_path_hash_def)

lemma head_ok_parent: "head_ok h \<Longrightarrow> is_hex_hash (eh_parent_hash h)"
  by (auto simp: head_ok_def EvmHead_post_init_def split: if_splits)

lemma head_ok_genesis: "head_ok h \<Longrightarrow> eh_parent_hash h \<noteq> ZERO_BLOCK_HASH \<Longrightarrow> 0 < eh_number h"
  by (auto simp: head_ok_def EvmHead_post_init_def split: if_splits)

lemma descends_base_hex:
  assumes "tracker_inv tr" "descends (ht_nodes tr) tip path base" "is_hex_hash tip"
  shows "is_hex_hash base"
  using assms(2,3)
proof (induction path arbitrary: tip)
  case (Cons h hs)
  then obtain e where e: "dict_get (ht_nodes tr) h = Some e" "descends (ht_nodes tr) (eh_parent_hash e) hs base"
    by (auto split: option.splits)
  then have "head_ok e" using assms(1) by (auto simp: tracker_inv_def)
  then show ?case using Cons.IH [OF e(2)] head_ok_parent by blast
qed simp

definition endpoint_ok :: "string option \<Rightarrow> bool" where
  "endpoint_ok h \<longleftrightarrow> (case h of None \<Rightarrow> True | Some x \<Rightarrow> is_path_hash x)"

text \<open>When the paths and end points are proper, only the shape can fail.\<close>

lemma tracker_transition_ok:
  assumes "stream_ok tr" "0 \<le> oe_source_sequence env" "oe_source_sequence env \<le> MAX_U64"
    and digest: "envelope_digest env = Inr d"
    and "endpoint_ok old" "endpoint_ok new" "case anc of None \<Rightarrow> True | Some a \<Rightarrow> is_hex_hash a"
    and "list_all is_path_hash removed" "list_all is_path_hash added"
    and "distinct removed" "distinct added" "set removed \<inter> set added = {}"
    and "anc \<notin> Some ` (set removed \<union> set added)"
  shows "is_ok (tracker_transition tr env kind old new anc removed added) \<longleftrightarrow>
    transition_shape_valid
      \<lparr>tr_chain = ht_chain tr, tr_source_id = ht_source_id tr,
       tr_source_sequence = oe_source_sequence env,
       tr_observation_kind = ht_observation_kind tr, tr_finality = ht_finality tr,
       tr_observation_sha256 = d, tr_kind = kind, tr_old_head = old, tr_new_head = new,
       tr_common_ancestor = anc, tr_removed = removed, tr_added = added\<rparr>"
proof -
  have "is_sha256_text d" using digest by (rule envelope_digest_text)
  moreover have "require_hash_or_none n old False = Inr ()" "require_hash_or_none n new False = Inr ()" for n
    using assms(5,6) by (auto simp: endpoint_ok_def require_hash_or_none_def is_path_hash_def split: option.splits)
  moreover have "require_hash_or_none n anc True = Inr ()" for n
    using assms(7) by (auto simp: require_hash_or_none_def split: option.splits)
  moreover have "require_path n removed = Inr ()" "require_path n added = Inr ()" for n
    using assms(8-11) by (auto simp: require_path_def)
  moreover have "\<not> list_ex (\<lambda>h. h \<in> set added) removed"
    using assms(12) by (auto simp: list_ex_iff)
  ultimately show ?thesis
    using assms(1-4,13)
    by (auto simp: tracker_transition_def HeadTransition_post_init_def stream_ok_def require_u64_def
        require_sha256_def)
qed

lemma is_ok_rbind_Inr: "is_ok (rbind r (\<lambda>x. Inr (f x))) \<longleftrightarrow> is_ok r"
  by (cases r) simp_all

lemma reorg_transition_ok:
  assumes inv: "tracker_inv tr" and head: "head_ok head"
    and seq: "eh_source_sequence head = oe_source_sequence env"
    and digest: "envelope_digest env = Inr d"
    and old: "ht_current_hash tr = Some old" "eh_block_hash head \<noteq> old"
    and paths: "paths_to_common_ancestor (ht_nodes tr) old head = Some (ancestor, removed, added)"
  shows "is_ok (tracker_transition tr env REORG (Some old) (Some (eh_block_hash head)) (Some ancestor) removed added)
    \<longleftrightarrow> removed \<noteq> []"
proof -
  let ?h = "eh_block_hash head"
  have fork: "fork_ok (ht_nodes tr) old head ancestor removed added"
    using paths_to_common_ancestor_ok [OF tracker_inv_zero [OF inv] _ paths] head_ok_hash [OF head]
    by (auto simp: is_path_hash_def)
  have h: "is_path_hash ?h" by (rule head_ok_hash [OF head])
  obtain e where "dict_get (ht_nodes tr) old = Some e" using inv old(1) by (auto simp: tracker_inv_def)
  then have old_hash: "is_path_hash old" by (rule is_path_hashI [OF inv])
  have "is_path_hash x" if "x \<in> set removed" for x
    using that fork descends_known [of "ht_nodes tr" old removed ancestor x] is_path_hashI [OF inv, of x]
    by (auto simp: fork_ok_def)
  moreover have "is_path_hash x" if "x \<in> set added" for x
  proof -
    have "dict_get (dict_set ?h head (ht_nodes tr)) x \<noteq> None"
      using fork that by (intro descends_known [of _ ?h "rev added" ancestor]) (auto simp: fork_ok_def)
    then show ?thesis using is_path_hashI [OF inv, of x] h by (auto split: if_splits)
  qed
  moreover have "is_hex_hash ancestor"
    using fork is_path_hash_hex [OF old_hash] descends_base_hex [OF inv, of old removed ancestor]
    by (auto simp: fork_ok_def)
  moreover have "stream_ok tr" using inv by (simp add: tracker_inv_def)
  moreover have "0 \<le> oe_source_sequence env" "oe_source_sequence env \<le> MAX_U64"
    using head_ok_sequence [OF head] seq by simp_all
  ultimately have "is_ok (tracker_transition tr env REORG (Some old) (Some ?h) (Some ancestor) removed added)
    \<longleftrightarrow> transition_shape_valid
      \<lparr>tr_chain = ht_chain tr, tr_source_id = ht_source_id tr,
       tr_source_sequence = oe_source_sequence env,
       tr_observation_kind = ht_observation_kind tr, tr_finality = ht_finality tr,
       tr_observation_sha256 = d, tr_kind = REORG, tr_old_head = Some old, tr_new_head = Some ?h,
       tr_common_ancestor = Some ancestor, tr_removed = removed, tr_added = added\<rparr>"
    using fork h old_hash digest
    by (intro tracker_transition_ok) (auto simp: endpoint_ok_def list_all_iff fork_ok_def)
  moreover have "hd removed = old" if "removed \<noteq> []"
    using fork that descends_hd by (auto simp: fork_ok_def)
  moreover have "last added = ?h \<and> ?h \<in> set added" if "added \<noteq> []"
  proof -
    have "last added = ?h"
      using fork that descends_hd [of _ ?h "rev added" ancestor] by (auto simp: fork_ok_def hd_rev)
    then show ?thesis using last_in_set [OF that] by simp
  qed
  moreover have "?h = ancestor" if "added = []" using fork that by (simp add: fork_ok_def)
  moreover have "ancestor \<notin> set added" using fork by (simp add: fork_ok_def)
  ultimately show ?thesis using old(2) by (auto simp: transition_shape_valid_def)
qed

lemma same_tip_transition_ok:
  assumes inv: "tracker_inv tr" and head: "head_ok head"
    and seq: "eh_source_sequence head = oe_source_sequence env"
    and digest: "envelope_digest env = Inr d"
  shows "ht_current_hash tr = None \<Longrightarrow>
      is_ok (tracker_transition tr env BOOTSTRAP None (Some (eh_block_hash head)) None [] [eh_block_hash head])"
    and "ht_current_hash tr = Some old \<Longrightarrow>
      is_ok (tracker_transition tr env DUPLICATE (Some old) (Some old) (Some old) [] [])"
    and "ht_current_hash tr = Some old \<Longrightarrow>
      is_ok (tracker_transition tr env ORPHAN (Some old) (Some old) None [] [])"
    and "ht_current_hash tr = Some old \<Longrightarrow> eh_block_hash head \<noteq> old \<Longrightarrow>
      is_ok (tracker_transition tr env EXTEND (Some old) (Some (eh_block_hash head)) (Some old) [] [eh_block_hash head])"
proof -
  have h: "is_path_hash (eh_block_hash head)" by (rule head_ok_hash [OF head])
  have stream: "stream_ok tr" "0 \<le> oe_source_sequence env" "oe_source_sequence env \<le> MAX_U64"
    using inv head_ok_sequence [OF head] seq by (simp_all add: tracker_inv_def)
  have old: "is_path_hash old" "is_hex_hash old" if "ht_current_hash tr = Some old"
  proof -
    have "dict_get (ht_nodes tr) old \<noteq> None" using inv that by (simp add: tracker_inv_def)
    then show "is_path_hash old" using is_path_hashI [OF inv] by blast
    then show "is_hex_hash old" using is_path_hash_hex by blast
  qed
  note ok = tracker_transition_ok [OF stream digest]
  show "ht_current_hash tr = None \<Longrightarrow>
      is_ok (tracker_transition tr env BOOTSTRAP None (Some (eh_block_hash head)) None [] [eh_block_hash head])"
    using h by (subst ok) (simp_all add: endpoint_ok_def transition_shape_valid_def)
  show "ht_current_hash tr = Some old \<Longrightarrow>
      is_ok (tracker_transition tr env DUPLICATE (Some old) (Some old) (Some old) [] [])"
    using old by (subst ok) (simp_all add: endpoint_ok_def transition_shape_valid_def)
  show "ht_current_hash tr = Some old \<Longrightarrow>
      is_ok (tracker_transition tr env ORPHAN (Some old) (Some old) None [] [])"
    using old by (subst ok) (simp_all add: endpoint_ok_def transition_shape_valid_def)
  show "ht_current_hash tr = Some old \<Longrightarrow> eh_block_hash head \<noteq> old \<Longrightarrow>
      is_ok (tracker_transition tr env EXTEND (Some old) (Some (eh_block_hash head)) (Some old) [] [eh_block_hash head])"
    using h old by (subst ok) (auto simp: endpoint_ok_def transition_shape_valid_def)
qed

lemma apply_head_accepts:
  assumes inv: "tracker_inv tr" and head: "head_ok head"
    and seq: "eh_source_sequence head = oe_source_sequence env"
    and digest: "envelope_digest env = Inr d"
  shows "is_ok (apply_head tr env head) \<longleftrightarrow> head_acceptable tr head"
proof (cases "ht_current_hash tr")
  case None
  then have "ht_nodes tr = []" "ht_last_sequence tr = None" using inv by (simp_all add: tracker_inv_def)
  then show ?thesis
    using None same_tip_transition_ok(1) [OF inv head seq digest None]
    by (simp add: apply_head_def head_acceptable_def Let_def is_ok_rbind_Inr)
next
  case (Some old)
  obtain current where current: "dict_get (ht_nodes tr) old = Some current"
    using inv Some by (auto simp: tracker_inv_def)
  note ok = same_tip_transition_ok(2-4) [OF inv head seq digest Some]
  note reorg = reorg_transition_ok [OF inv head seq digest Some]
  have old: "old \<noteq> ZERO_BLOCK_HASH" using tracker_inv_zero [OF inv] current by auto
  show ?thesis
  proof (cases "eh_block_hash head = old")
    case True
    then show ?thesis
      using Some current ok(1)
      by (simp add: apply_head_def head_acceptable_def Let_def is_ok_rbind_Inr split: option.split)
  next
    case new: False
    show ?thesis
    proof (cases "eh_parent_hash head = old")
      case True
      then have "0 < eh_number head" using head_ok_genesis [OF head] old by simp
      with True show ?thesis
        using Some current new ok(3)
        by (auto simp: apply_head_def head_acceptable_def Let_def is_ok_rbind_Inr split: option.splits)
    next
      case False
      then show ?thesis
        using Some current new ok(2) reorg
        by (auto simp: apply_head_def head_acceptable_def Let_def is_ok_rbind_Inr split: option.splits prod.splits)
    qed
  qed
qed

end
