(* ===== verification/Canonical_Roundtrip.thy ===== *)
theory Canonical_Roundtrip
  imports Canonical
begin

text \<open>
  The strict parser reads back what the canonical encoder writes: every value that encodes is
  parsed to the same value with the keys of its objects sorted, and encoding that value again
  gives the same bytes.
\<close>

text \<open>The value a canonical text denotes: keys sorted at every level.\<close>

fun json_norm :: "json \<Rightarrow> json" where
  "json_norm (JArr vs) = JArr (map json_norm vs)"
| "json_norm (JObj kvs) = JObj (sort_key fst (map (\<lambda>(k, x). (k, json_norm x)) kvs))"
| "json_norm v = v"

text \<open>A Python dictionary holds a key once.\<close>

fun json_unique :: "json \<Rightarrow> bool" where
  "json_unique (JArr vs) = list_all json_unique vs"
| "json_unique (JObj kvs) = (distinct (map fst kvs) \<and> list_all (\<lambda>kv. json_unique (snd kv)) kvs)"
| "json_unique v = True"

subsection \<open>Strings\<close>

lemma hex4_parse:
  assumes "n < 32"
  shows "parse_hex4 (hex4 n @ t) = Some (n, t)"
proof -
  have "n div 16 < 16" "n mod 16 < 16" using assms by auto
  moreover have "any_hex_value (hex_digit d) = d \<and> is_any_hex (hex_digit d)" if "d < 16" for d
  proof -
    have "list_all (\<lambda>d. any_hex_value (hex_digit d) = d \<and> is_any_hex (hex_digit d)) [0..<16]" by code_simp
    then show ?thesis using that unfolding list_all_iff set_upt by (auto dest!: bspec)
  qed
  moreover have "any_hex_value (CHR ''0'') = 0" "is_any_hex (CHR ''0'')"
    by (simp_all add: any_hex_value_def is_any_hex_def is_hex_char_def hex_digits_def Let_def)
  ultimately show ?thesis by (simp add: hex4_def)
qed

lemma parse_string_escape:
  "parse_string (json_escape_char c @ t) = map_option (\<lambda>(s, q). (c # s, q)) (parse_string t)"
proof -
  consider "c \<in> {CHR 0x22, CHR 0x5C, CHR 0x0A, CHR 0x0D, CHR 0x09, CHR 0x0C, CHR 0x08}"
    | "c \<notin> {CHR 0x22, CHR 0x5C, CHR 0x0A, CHR 0x0D, CHR 0x09, CHR 0x0C, CHR 0x08}" "(of_char c :: nat) < 32"
    | "c \<notin> {CHR 0x22, CHR 0x5C, CHR 0x0A, CHR 0x0D, CHR 0x09, CHR 0x0C, CHR 0x08}" "\<not> (of_char c :: nat) < 32"
    by blast
  then show ?thesis
  proof cases
    case 1
    then show ?thesis
      by (elim insertE emptyE) (simp_all add: json_escape_char_def parse_string.simps [of "CHR 0x5C # _"])
  next
    case 2
    let ?n = "of_char c :: nat"
    have esc: "json_escape_char c @ t = CHR 0x5C # CHR ''u'' # hex4 ?n @ t"
      using 2 by (simp add: json_escape_char_def)
    have "utf8_char ?n = [c]" using 2(2) by (simp add: utf8_char_def)
    then show ?thesis
      unfolding esc using 2(2) by (subst parse_string.simps) (simp add: hex4_parse)
  next
    case 3
    then show ?thesis
      by (simp add: json_escape_char_def) (subst parse_string.simps, simp)
  qed
qed

lemma parse_string_quote:
  "parse_string (concat (map json_escape_char s) @ CHR 0x22 # rest) = Some (s, rest)"
proof (induction s)
  case Nil
  show ?case by (simp add: parse_string.simps [of "CHR 0x22 # _"])
next
  case (Cons c s)
  then show ?case by (simp add: parse_string_escape)
qed

subsection \<open>Numbers\<close>

text \<open>What follows a value in a canonical text.\<close>

definition ends_value :: "string \<Rightarrow> bool" where
  "ends_value rest \<longleftrightarrow> (case rest of [] \<Rightarrow> True | c # _ \<Rightarrow> c \<in> {CHR '','', CHR '']'', CHR ''}''})"

lemma ends_value_simps [simp]:
  "ends_value []" "ends_value (CHR '','' # r)" "ends_value (CHR '']'' # r)" "ends_value (CHR ''}'' # r)"
  by (simp_all add: ends_value_def)

lemma ends_value_not_digit: "ends_value rest \<Longrightarrow> takeWhile is_digit_char rest = []"
  by (cases rest) (auto simp: ends_value_def is_digit_char_def)

lemma takeWhile_digits:
  "ends_value rest \<Longrightarrow> takeWhile is_digit_char (str_of_nat n @ rest) = str_of_nat n"
  using str_of_nat_digits [of n] by (simp add: list_all_iff takeWhile_append ends_value_not_digit)

lemma str_of_nat_head: "\<exists>c r. str_of_nat n = c # r \<and> is_digit_char c"
  using str_of_nat_digits [of n] str_of_nat_not_Nil [of n] by (cases "str_of_nat n") auto

lemma length_str_of_abs:
  assumes "\<bar>v\<bar> < 10 ^ k" "0 < k"
  shows "length (str_of_nat (nat \<bar>v\<bar>)) \<le> k"
proof -
  have "int (nat \<bar>v\<bar>) < int (10 ^ k)" using assms(1) by simp
  then show ?thesis using assms(2) by (intro length_str_of_nat) (simp_all only: of_nat_less_iff)
qed

lemma parse_number_str_of_int:
  assumes "ends_value rest" "\<bar>v\<bar> < max_str_digits_bound"
  shows "parse_number (str_of_int v @ rest) = Some (JInt v, rest)"
proof -
  let ?n = "nat \<bar>v\<bar>"
  have len: "\<not> 4300 < length (str_of_nat ?n)"
    using length_str_of_abs [OF assms(2) [unfolded max_str_digits_bound_def]] by simp
  obtain c r where c: "str_of_nat ?n = c # r" "is_digit_char c" using str_of_nat_head by blast
  have no_fraction: "\<not> (case rest of c # d # r \<Rightarrow> c = CHR ''.'' \<and> is_digit_char d | _ \<Rightarrow> False)"
    "\<not> (case rest of c # d # r \<Rightarrow> c \<in> {CHR ''e'', CHR ''E''} \<and>
        (is_digit_char d \<or> (d \<in> {CHR ''+'', CHR ''-''} \<and> r \<noteq> [] \<and> is_digit_char (hd r))) | _ \<Rightarrow> False)"
    using assms(1) by (cases rest; cases "tl rest"; auto simp: ends_value_def)+
  note parse = parse_number_def Let_def takeWhile_digits [OF assms(1)] hd_str_of_nat
  show ?thesis
  proof (cases "v < 0")
    case True
    then have "str_of_int v = CHR ''-'' # str_of_nat ?n" by (simp add: str_of_int_def)
    then show ?thesis using True len no_fraction by (simp add: parse)
  next
    case False
    then have "str_of_int v = str_of_nat ?n" by (simp add: str_of_int_def)
    moreover have "\<not> (str_of_nat ?n @ rest \<noteq> [] \<and> hd (str_of_nat ?n @ rest) = CHR ''-'')"
      using c by (auto simp: is_digit_char_def)
    moreover have "str_of_nat 0 = ''0''" "int_of_dec ''0'' = 0" "is_digit_char (CHR ''0'')"
      using int_of_dec_str_of_nat [of 0] by (simp_all add: str_of_nat.simps dec_digit_def is_digit_char_def)
    ultimately show ?thesis
      using False len no_fraction by (cases "v = 0") (simp_all add: parse)
  qed
qed

subsection \<open>Values\<close>

lemma skip_ws_no_space: "\<not> is_json_space c \<Longrightarrow> skip_ws (c # r) = c # r"
  by (simp add: skip_ws_def)

lemma skip_ws_Nil [simp]: "skip_ws [] = []"
  by (simp add: skip_ws_def)

lemma json_dump_head:
  "\<exists>c r. json_dump v = c # r \<and> \<not> is_json_space c \<and> c \<noteq> CHR '']'' \<and> (of_char c :: nat) < 128"
proof (cases v)
  case (JInt n)
  obtain c r where c: "str_of_nat (nat \<bar>n\<bar>) = c # r" "is_digit_char c" using str_of_nat_head by blast
  then have "\<not> is_json_space c" "c \<noteq> CHR '']''" "(of_char c :: nat) < 128"
    by (auto simp: is_digit_char_def is_json_space_def)
  then show ?thesis using JInt c(1) by (cases "n < 0") (simp_all add: str_of_int_def is_json_space_def)
qed (auto simp: is_json_space_def json_quote_def)

lemma skip_ws_dump: "skip_ws (json_dump v @ rest) = json_dump v @ rest"
proof -
  obtain c r where c: "json_dump v = c # r" "\<not> is_json_space c" using json_dump_head by blast
  show ?thesis by (simp add: c skip_ws_no_space)
qed

lemma ends_value_skip: "ends_value rest \<Longrightarrow> skip_ws rest = rest"
  by (cases rest) (auto simp: ends_value_def intro: skip_ws_no_space simp: is_json_space_def)

lemma insort_key_map_pair:
  "insort_key fst (k, f a) (map (\<lambda>(k, x). (k, f x)) xs) = map (\<lambda>(k, x). (k, f x)) (insort_key fst (k, a) xs)"
  by (induction xs) auto

lemma sort_key_map_pair:
  "sort_key fst (map (\<lambda>(k, x). (k, f x)) xs) = map (\<lambda>(k, x). (k, f x)) (sort_key fst xs)"
  by (induction xs) (auto simp: insort_key_map_pair)

text \<open>The fuel a value needs, and what it is parsed to.\<close>

fun json_fuel :: "json \<Rightarrow> nat" where
  "json_fuel (JArr vs) = Suc (sum_list (map (\<lambda>v. Suc (json_fuel v)) vs))"
| "json_fuel (JObj kvs) = Suc (sum_list (map (\<lambda>kv. Suc (json_fuel (snd kv))) kvs))"
| "json_fuel v = 1"

definition parses :: "json \<Rightarrow> bool" where
  "parses v \<longleftrightarrow> (\<forall>fuel rest. json_fuel v \<le> fuel \<longrightarrow> ends_value rest \<longrightarrow>
    parse_value fuel (json_dump v @ rest) = Some (json_norm v, rest))"

lemma parse_elements_dump:
  assumes "\<forall>v \<in> set vs. parses v" "vs \<noteq> []"
  shows "sum_list (map (\<lambda>v. Suc (json_fuel v)) vs) \<le> fuel \<Longrightarrow>
    parse_elements fuel (join '','' (map json_dump vs) @ '']'' @ rest) = Some (map json_norm vs, rest)"
  using assms
proof (induction vs arbitrary: fuel)
  case (Cons v vs)
  then obtain fuel' where fuel: "fuel = Suc fuel'" by (cases fuel) auto
  have v: "parse_value fuel' (json_dump v @ r) = Some (json_norm v, r)" if "ends_value r" for r
    using Cons.prems fuel that by (auto simp: parses_def)
  show ?case
  proof (cases vs)
    case Nil
    then show ?thesis using v [of "'']'' @ rest"] by (simp add: fuel skip_ws_def is_json_space_def)
  next
    case (Cons w ws)
    have "parse_elements fuel' (join '','' (map json_dump vs) @ '']'' @ rest) = Some (map json_norm vs, rest)"
      using Cons.IH [of fuel'] Cons.prems fuel Cons by simp
    moreover have "skip_ws (join '','' (map json_dump vs) @ '']'' @ rest) = join '','' (map json_dump vs) @ '']'' @ rest"
      using Cons by (cases ws) (simp_all add: skip_ws_dump)
    ultimately show ?thesis
      using v [of "'','' @ join '','' (map json_dump vs) @ '']'' @ rest"] Cons
      by (simp add: fuel skip_ws_no_space is_json_space_def)
  qed
qed simp

abbreviation member :: "string \<times> json \<Rightarrow> string" where
  "member kv \<equiv> json_quote (fst kv) @ '':'' @ json_dump (snd kv)"

lemma parse_members_dump:
  assumes "\<forall>kv \<in> set kvs. parses (snd kv)" "kvs \<noteq> []"
  shows "sum_list (map (\<lambda>kv. Suc (json_fuel (snd kv))) kvs) \<le> fuel \<Longrightarrow>
    parse_members fuel (join '','' (map member kvs) @ ''}'' @ rest)
      = Some (map (\<lambda>(k, x). (k, json_norm x)) kvs, rest)"
  using assms
proof (induction kvs arbitrary: fuel)
  case (Cons kv kvs)
  obtain k v where kv: "kv = (k, v)" by (cases kv)
  from Cons.prems obtain fuel' where fuel: "fuel = Suc fuel'" by (cases fuel) auto
  have v: "parse_value fuel' (json_dump v @ r) = Some (json_norm v, r)" if "ends_value r" for r
    using Cons.prems fuel that by (auto simp: parses_def kv)
  have key: "parse_string (concat (map json_escape_char k) @ CHR 0x22 # r) = Some (k, r)" for r
    by (rule parse_string_quote)
  have quote: "\<exists>r. join '','' (map member (kv' # kvs')) @ ''}'' @ rest = CHR 0x22 # r" for kv' kvs'
    by (cases kvs') (simp_all add: json_quote_def)
  show ?case
  proof (cases kvs)
    case Nil
    then show ?thesis using v [of "''}'' @ rest"]
      by (simp add: fuel kv json_quote_def key skip_ws_no_space is_json_space_def skip_ws_dump)
  next
    case (Cons kv' kvs')
    have "parse_members fuel' (join '','' (map member kvs) @ ''}'' @ rest)
        = Some (map (\<lambda>(k, x). (k, json_norm x)) kvs, rest)"
      using Cons.IH [of fuel'] Cons.prems fuel Cons by simp
    moreover have "skip_ws (join '','' (map member kvs) @ ''}'' @ rest) = join '','' (map member kvs) @ ''}'' @ rest"
      using quote [of kv' kvs'] Cons by (auto simp: skip_ws_no_space is_json_space_def simp del: join.simps)
    ultimately show ?thesis
      using v [of "'','' @ join '','' (map member kvs) @ ''}'' @ rest"] Cons
      by (simp add: fuel kv json_quote_def key skip_ws_no_space is_json_space_def skip_ws_dump)
  qed
qed simp

lemma parse_value_keyword:
  "parse_value (Suc fuel) (''null'' @ rest) = Some (JNull, rest)"
  "parse_value (Suc fuel) (''true'' @ rest) = Some (JBool True, rest)"
  "parse_value (Suc fuel) (''false'' @ rest) = Some (JBool False, rest)"
  by simp_all

lemma parse_value_digit:
  assumes "is_digit_char c \<or> c = CHR ''-''"
  shows "parse_value (Suc fuel) (c # r) = parse_number (c # r)"
proof -
  have "c \<notin> {CHR 0x22, CHR ''{'', CHR ''['', CHR ''n'', CHR ''t'', CHR ''f''}"
    using assms by (auto simp: is_digit_char_def)
  then show ?thesis by simp
qed

lemma parses_int:
  assumes "\<bar>n\<bar> < max_str_digits_bound"
  shows "parses (JInt n)"
  unfolding parses_def
proof (intro allI impI)
  fix fuel rest
  assume "json_fuel (JInt n) \<le> fuel" and rest: "ends_value rest"
  then obtain fuel' where fuel: "fuel = Suc fuel'" by (cases fuel) auto
  obtain c r where c: "str_of_nat (nat \<bar>n\<bar>) = c # r" "is_digit_char c" using str_of_nat_head by blast
  have "\<exists>d t. str_of_int n = d # t \<and> (is_digit_char d \<or> d = CHR ''-'')"
    using c by (cases "n < 0") (auto simp: str_of_int_def)
  then obtain d t where "str_of_int n = d # t" "is_digit_char d \<or> d = CHR ''-''" by blast
  then show "parse_value fuel (json_dump (JInt n) @ rest) = Some (json_norm (JInt n), rest)"
    using parse_number_str_of_int [OF rest assms] by (simp add: fuel parse_value_digit del: parse_value.simps)
qed

lemma parse_value_dump: "json_unique v \<Longrightarrow> \<not> has_huge_int v \<Longrightarrow> parses v"
proof (induction v)
  case (JInt n)
  then show ?case by (simp add: parses_int)
next
  case (JStr s)
  show ?case unfolding parses_def
  proof (intro allI impI)
    fix fuel rest assume "json_fuel (JStr s) \<le> fuel"
    then obtain fuel' where "fuel = Suc fuel'" by (cases fuel) auto
    then show "parse_value fuel (json_dump (JStr s) @ rest) = Some (json_norm (JStr s), rest)"
      by (simp add: json_quote_def parse_string_quote)
  qed
next
  case (JArr vs)
  show ?case unfolding parses_def
  proof (intro allI impI)
    fix fuel rest assume "json_fuel (JArr vs) \<le> fuel"
    then obtain fuel' where fuel: "fuel = Suc fuel'" "sum_list (map (\<lambda>v. Suc (json_fuel v)) vs) \<le> fuel'"
      by (cases fuel) auto
    have all: "\<forall>v \<in> set vs. parses v"
      using JArr by (auto simp: list_all_iff list_ex_iff)
    show "parse_value fuel (json_dump (JArr vs) @ rest) = Some (json_norm (JArr vs), rest)"
    proof (cases vs)
      case Nil
      then show ?thesis by (simp add: fuel skip_ws_def is_json_space_def)
    next
      case (Cons w ws)
      obtain c r where c: "json_dump w = c # r" "\<not> is_json_space c" "c \<noteq> CHR '']''" using json_dump_head by blast
      have "\<exists>t. join '','' (map json_dump vs) @ '']'' @ rest = c # t" using c Cons by (cases ws) auto
      then obtain t where t: "join '','' (map json_dump vs) @ '']'' @ rest = c # t" by blast
      have "parse_elements fuel' (c # t) = Some (map json_norm vs, rest)"
        using parse_elements_dump [OF all _ fuel(2), of rest] Cons t by simp
      then show ?thesis using t c(2,3) by (simp add: fuel skip_ws_no_space)
    qed
  qed
next
  case (JObj kvs)
  let ?s = "sort_key fst kvs"
  have mset: "mset ?s = mset kvs" by simp
  have all: "\<forall>kv \<in> set ?s. parses (snd kv)"
    using JObj by (fastforce simp: list_all_iff list_ex_iff snds.simps)
  have fuel_eq: "sum_list (map (\<lambda>kv. Suc (json_fuel (snd kv))) ?s) = sum_list (map (\<lambda>kv. Suc (json_fuel (snd kv))) kvs)"
    by (rule sum_list_sort_key)
  have dump: "json_dump (JObj kvs) = ''{'' @ join '','' (map member ?s) @ ''}''"
    unfolding json_dump.simps sort_key_map_pair by (simp add: split_def comp_def)
  have norm: "json_norm (JObj kvs) = JObj (map (\<lambda>(k, x). (k, json_norm x)) ?s)"
    by (simp add: sort_key_map_pair)
  have "distinct (map fst ?s)"
    using JObj.prems(1) by (metis distinct_map distinct_sort json_unique.simps(2) set_sort)
  then have unique: "\<not> has_duplicate (map fst (map (\<lambda>(k, x). (k, json_norm x)) ?s))"
    by (simp add: has_duplicate_def comp_def split_def)
  show ?case unfolding parses_def
  proof (intro allI impI)
    fix fuel rest assume "json_fuel (JObj kvs) \<le> fuel"
    then obtain fuel' where fuel: "fuel = Suc fuel'" "sum_list (map (\<lambda>kv. Suc (json_fuel (snd kv))) ?s) \<le> fuel'"
      using fuel_eq by (cases fuel) auto
    show "parse_value fuel (json_dump (JObj kvs) @ rest) = Some (json_norm (JObj kvs), rest)"
      unfolding dump norm
    proof (cases ?s)
      case Nil
      then show "parse_value fuel ((''{'' @ join '','' (map member ?s) @ ''}'') @ rest)
          = Some (JObj (map (\<lambda>(k, x). (k, json_norm x)) ?s), rest)"
        by (simp add: fuel skip_ws_def is_json_space_def)
    next
      case (Cons kv ws)
      have "\<exists>t. join '','' (map member ?s) @ ''}'' @ rest = CHR 0x22 # t"
        unfolding Cons by (cases ws) (simp_all add: json_quote_def)
      then obtain t where t: "join '','' (map member ?s) @ ''}'' @ rest = CHR 0x22 # t" by blast
      have "parse_members fuel' (CHR 0x22 # t) = Some (map (\<lambda>(k, x). (k, json_norm x)) ?s, rest)"
        using parse_members_dump [OF all _ fuel(2), of rest] t Cons by simp
      then show "parse_value fuel ((''{'' @ join '','' (map member ?s) @ ''}'') @ rest)
          = Some (JObj (map (\<lambda>(k, x). (k, json_norm x)) ?s), rest)"
        using t unique by (simp add: fuel skip_ws_no_space is_json_space_def)
    qed
  qed
qed (auto simp: parses_def split: nat.splits dest!: Suc_le_D)

subsection \<open>The round trip\<close>

lemma json_fuel_le: "json_fuel v \<le> 2 * json_size v"
proof (induction v)
  case (JArr vs)
  have "sum_list (map (\<lambda>v. Suc (json_fuel v)) vs) \<le> sum_list (map (\<lambda>v. Suc (2 * json_size v)) vs)"
    using JArr by (intro sum_list_mono) simp
  moreover have "sum_list (map (\<lambda>v. Suc (2 * json_size v)) vs) = length vs + 2 * sum_list (map json_size vs)"
    by (induction vs) simp_all
  ultimately show ?case by simp
next
  case (JObj kvs)
  let ?g = "\<lambda>kv. length (json_quote (fst kv)) + 1 + json_size (snd kv)"
  have "Suc (json_fuel (snd kv)) \<le> 2 * ?g kv" if "kv \<in> set kvs" for kv
    using JObj [of kv "snd kv"] that by (simp add: snds.intros prod_set_simps)
  then have "sum_list (map (\<lambda>kv. Suc (json_fuel (snd kv))) kvs) \<le> sum_list (map (\<lambda>kv. 2 * ?g kv) kvs)"
    by (rule sum_list_mono)
  moreover have "sum_list (map (\<lambda>kv. 2 * ?g kv) kvs) = 2 * sum_list (map ?g kvs)" by (induction kvs) simp_all
  ultimately show ?case by simp
next
  case (JInt n)
  have "str_of_int n \<noteq> []" by (simp add: str_of_int_def)
  then show ?case by (cases "str_of_int n") simp_all
qed (simp_all add: json_quote_def)

lemma json_loads_dump:
  assumes "json_unique v" "\<not> has_huge_int v"
  shows "json_loads (json_dump v) = Some (json_norm v)"
proof -
  have "skip_ws (json_dump v) = json_dump v" using skip_ws_dump [of v "[]"] by simp
  moreover have "json_fuel v \<le> 2 * length (json_dump v) + 2"
    using json_fuel_le [of v] by (simp add: length_json_dump)
  then have "parse_value (2 * length (json_dump v) + 2) (json_dump v @ []) = Some (json_norm v, [])"
    using parse_value_dump [OF assms] unfolding parses_def by (meson ends_value_simps(1))
  ultimately show ?thesis by (simp add: json_loads_def)
qed

lemma decode_utf8_bytes [simp]: "decode_utf8 (utf8_bytes s) = s"
proof -
  have "char_of (unat (of_nat (of_char c) :: byte)) = c" for c
    using unat_of_nat_byte [of "of_char c"] char_less_256 [of c] by simp
  then show ?thesis by (simp add: decode_utf8_def utf8_bytes_def comp_def)
qed

text \<open>Normalising changes neither the text nor the measures the limits look at.\<close>

lemma json_dump_norm: "json_dump (json_norm v) = json_dump v"
proof (induction v)
  case (JArr vs)
  then show ?case by (simp cong: map_cong)
next
  case (JObj kvs)
  have "json_dump (json_norm (snd kv)) = json_dump (snd kv)" if "kv \<in> set kvs" for kv
    using JObj [of kv "snd kv"] that by (simp add: snds.intros prod_set_simps)
  then have "map (\<lambda>(k, x). (k, json_dump x)) (map (\<lambda>(k, x). (k, json_norm x)) (sort_key fst kvs))
      = map (\<lambda>(k, x). (k, json_dump x)) (sort_key fst kvs)"
    by auto
  moreover have "sort_key fst (sort_key fst kvs) = sort_key fst kvs" by (simp add: sort_key_id_if_sorted)
  ultimately show ?case by (simp only: json_norm.simps json_dump.simps sort_key_map_pair)
qed simp_all

lemma fold_max_mset: "mset xs = mset ys \<Longrightarrow> fold max xs (a :: nat) = fold max ys a"
proof -
  assume "mset xs = mset ys"
  then have same: "set xs = set ys" by (rule mset_eq_setD)
  have "fold max xs a \<le> fold max ys a" "fold max ys a \<le> fold max xs a"
    using fold_max_le_iff [of ys a "fold max ys a"] fold_max_le_iff [of xs a "fold max xs a"]
    by (simp_all add: fold_max_le_iff same)
  then show ?thesis by simp
qed

lemma json_measures_norm:
  "json_depth (json_norm v) = json_depth v" "json_items (json_norm v) = json_items v"
  "has_huge_int (json_norm v) = has_huge_int v"
proof (induction v)
  case (JArr vs)
  {
    case 1
    then show ?case using JArr by (simp add: comp_def cong: map_cong)
  next
    case 2
    then show ?case using JArr by (simp add: comp_def cong: map_cong)
  next
    case 3
    then show ?case using JArr by (simp add: list_ex_iff)
  }
next
  case (JObj kvs)
  have each: "json_depth (json_norm (snd kv)) = json_depth (snd kv)"
    "json_items (json_norm (snd kv)) = json_items (snd kv)"
    "has_huge_int (json_norm (snd kv)) = has_huge_int (snd kv)" if "kv \<in> set kvs" for kv
    using JObj [of kv "snd kv"] that by (simp_all add: snds.intros prod_set_simps)
  {
    case 1
    have "map (\<lambda>kv. Suc (json_depth (snd kv))) (map (\<lambda>(k, x). (k, json_norm x)) (sort_key fst kvs))
        = map (\<lambda>kv. Suc (json_depth (snd kv))) (sort_key fst kvs)"
      using each(1) by (auto simp: split_def)
    moreover have "fold max (map (\<lambda>kv. Suc (json_depth (snd kv))) (sort_key fst kvs)) 0
        = fold max (map (\<lambda>kv. Suc (json_depth (snd kv))) kvs) 0"
      by (rule fold_max_mset) simp
    ultimately show ?case by (simp only: json_norm.simps sort_key_map_pair json_depth.simps)
  next
    case 2
    have "map (\<lambda>kv. json_items (snd kv)) (map (\<lambda>(k, x). (k, json_norm x)) (sort_key fst kvs))
        = map (\<lambda>kv. json_items (snd kv)) (sort_key fst kvs)"
      using each(2) by (auto simp: split_def)
    then show ?case by (simp only: json_norm.simps sort_key_map_pair json_items.simps sum_list_sort_key)
  next
    case 3
    have "set (sort_key fst (map (\<lambda>(k, x). (k, json_norm x)) kvs)) = (\<lambda>(k, x). (k, json_norm x)) ` set kvs" by simp
    then show ?case using each(3) by (simp only: json_norm.simps has_huge_int.simps list_ex_iff) force
  }
qed simp_all

subsection \<open>Valid UTF-8\<close>

fun json_utf8 :: "json \<Rightarrow> bool" where
  "json_utf8 (JStr s) = utf8_valid s"
| "json_utf8 (JArr vs) = list_all json_utf8 vs"
| "json_utf8 (JObj kvs) = list_all (\<lambda>kv. utf8_valid (fst kv) \<and> json_utf8 (snd kv)) kvs"
| "json_utf8 v = True"

lemma utf8_valid_append: "utf8_valid s \<Longrightarrow> utf8_valid (s @ t) = utf8_valid t"
  by (induction s rule: utf8_valid.induct) (auto simp: Let_def split: if_splits list.splits)

lemma utf8_valid_ascii: "list_all (\<lambda>c. (of_char c :: nat) < 128) s \<Longrightarrow> utf8_valid s"
  by (induction s) simp_all

lemma utf8_valid_cases:
  assumes "utf8_valid (c # cs)" "\<not> (of_char c :: nat) < 128"
  obtains (two) d ds where "cs = d # ds" "is_continuation d" "utf8_valid ds"
      "194 \<le> (of_char c :: nat)" "(of_char c :: nat) < 224"
    | (three) d e ds where "cs = d # e # ds" "is_continuation d" "is_continuation e" "utf8_valid ds"
      "\<not> (of_char c :: nat) < 224" "(of_char c :: nat) < 240"
      "(of_char c :: nat) = 224 \<longrightarrow> 160 \<le> (of_char d :: nat)"
      "(of_char c :: nat) = 237 \<longrightarrow> (of_char d :: nat) < 160"
    | (four) d e f ds where "cs = d # e # f # ds" "is_continuation d" "is_continuation e" "is_continuation f"
      "utf8_valid ds" "\<not> (of_char c :: nat) < 240" "(of_char c :: nat) < 245"
      "(of_char c :: nat) = 240 \<longrightarrow> 144 \<le> (of_char d :: nat)"
      "(of_char c :: nat) = 244 \<longrightarrow> (of_char d :: nat) < 144"
proof -
  define n where "n = (of_char c :: nat)"
  note valid = assms(1) [unfolded utf8_valid.simps Let_def, folded n_def] and n = assms(2) [folded n_def]
  consider "194 \<le> n" "n < 224" | "\<not> n < 224" "n < 240" | "\<not> n < 240" "n < 245"
    using valid n by (fastforce split: if_splits)
  then show thesis
  proof cases
    case 1
    then obtain d ds where "cs = d # ds" "is_continuation d" "utf8_valid ds"
      using valid n by (cases cs) simp_all
    then show ?thesis using 1 two [of d ds] unfolding n_def by blast
  next
    case 2
    then obtain d e ds where "cs = d # e # ds" "is_continuation d" "is_continuation e" "utf8_valid ds"
      "n = 224 \<longrightarrow> 160 \<le> (of_char d :: nat)" "n = 237 \<longrightarrow> (of_char d :: nat) < 160"
      using valid n by (cases cs; cases "tl cs") simp_all
    then show ?thesis using 2 three [of d e ds] unfolding n_def by blast
  next
    case 3
    then obtain d e f ds where "cs = d # e # f # ds" "is_continuation d" "is_continuation e" "is_continuation f"
      "utf8_valid ds" "n = 240 \<longrightarrow> 144 \<le> (of_char d :: nat)" "n = 244 \<longrightarrow> (of_char d :: nat) < 144"
      using valid n by (cases cs; cases "tl cs"; cases "tl (tl cs)") simp_all
    then show ?thesis using 3 four [of d e f ds] unfolding n_def by blast
  qed
qed

lemma special_ascii:
  "c \<in> {CHR 0x22, CHR 0x5C, CHR 0x0A, CHR 0x0D, CHR 0x09, CHR 0x0C, CHR 0x08} \<Longrightarrow> (of_char c :: nat) < 128"
  by (elim insertE emptyE) simp_all

lemma digit_ascii: "is_digit_char c \<Longrightarrow> (of_char c :: nat) < 128"
  unfolding is_digit_char_def by simp (elim disjE; simp)

lemma utf8_valid_quote: "utf8_valid s \<Longrightarrow> utf8_valid (json_quote s)"
proof -
  have escape: "json_escape_char c = [c]" if "\<not> (of_char c :: nat) < 128" for c
  proof -
    have "c \<notin> {CHR 0x22, CHR 0x5C, CHR 0x0A, CHR 0x0D, CHR 0x09, CHR 0x0C, CHR 0x08}"
      using that special_ascii by blast
    then show ?thesis using that by (simp add: json_escape_char_def)
  qed
  have ascii: "utf8_valid (json_escape_char c)" if "(of_char c :: nat) < 128" for c
  proof -
    have "(of_char (hex_digit d) :: nat) < 128" if "d < 16" for d
    proof -
      have "list_all (\<lambda>d. (of_char (hex_digit d) :: nat) < 128) [0..<16]" by code_simp
      then show ?thesis using that unfolding list_all_iff set_upt by (auto dest!: bspec)
    qed
    moreover have "(of_char c :: nat) div 16 < 16" using char_less_256 [of c] by (simp add: less_mult_imp_div_less)
    ultimately have "list_all (\<lambda>c. (of_char c :: nat) < 128) (json_escape_char c)"
      using that by (simp add: json_escape_char_def hex4_def)
    then show ?thesis by (rule utf8_valid_ascii)
  qed
  assume "utf8_valid s"
  then have "utf8_valid (concat (map json_escape_char s))"
  proof (induction s rule: utf8_valid.induct)
    case (2 c cs)
    show ?case
    proof (cases "(of_char c :: nat) < 128")
      case True
      then show ?thesis using 2 ascii [of c] by (simp add: Let_def utf8_valid_append)
    next
      case False
      have cont: "json_escape_char d = [d]" if "is_continuation d" for d
        using that escape [of d] by (simp add: is_continuation_def)
      let ?n = "of_char c :: nat"
      from 2(5) False consider
          (two) d ds where "cs = d # ds" "is_continuation d" "utf8_valid ds" "194 \<le> ?n" "?n < 224"
        | (three) d e ds where "cs = d # e # ds" "is_continuation d" "is_continuation e" "utf8_valid ds"
            "\<not> ?n < 224" "?n < 240" "?n = 224 \<longrightarrow> 160 \<le> (of_char d :: nat)" "?n = 237 \<longrightarrow> (of_char d :: nat) < 160"
        | (four) d e f ds where "cs = d # e # f # ds" "is_continuation d" "is_continuation e" "is_continuation f"
            "utf8_valid ds" "\<not> ?n < 240" "?n < 245" "?n = 240 \<longrightarrow> 144 \<le> (of_char d :: nat)"
            "?n = 244 \<longrightarrow> (of_char d :: nat) < 144"
        by (rule utf8_valid_cases)
      then show ?thesis
      proof cases
        case two
        then have "utf8_valid (concat (map json_escape_char ds))" using 2(2) False by simp
        then show ?thesis using two False by (simp add: escape [OF False] cont Let_def)
      next
        case three
        then have "utf8_valid (concat (map json_escape_char ds))" using 2(3) False by simp
        then show ?thesis using three False by (simp add: escape [OF False] cont Let_def)
      next
        case four
        then have "utf8_valid (concat (map json_escape_char ds))" using 2(4) False by simp
        then show ?thesis using four False by (simp add: escape [OF False] cont Let_def)
      qed
    qed
  qed simp
  then show "utf8_valid (json_quote s)" by (simp add: json_quote_def utf8_valid_append)
qed

lemma utf8_valid_join: "\<forall>s \<in> set xs. utf8_valid s \<Longrightarrow> utf8_valid (join '','' xs)"
proof (induction xs)
  case (Cons x xs)
  then show ?case by (cases xs) (simp_all add: utf8_valid_append)
qed simp

lemma utf8_valid_digits: "utf8_valid (str_of_int v)"
proof -
  have "list_all (\<lambda>c. (of_char c :: nat) < 128) (str_of_nat n)" for n
    using str_of_nat_digits [of n] digit_ascii unfolding list_all_iff by blast
  then show ?thesis by (intro utf8_valid_ascii) (simp add: str_of_int_def)
qed

lemma utf8_valid_dump: "json_utf8 v \<Longrightarrow> utf8_valid (json_dump v)"
proof (induction v)
  case (JArr vs)
  have "utf8_valid (join '','' (map json_dump vs))"
    using JArr by (intro utf8_valid_join) (auto simp: list_all_iff)
  then show ?case by (simp add: utf8_valid_append)
next
  case (JObj kvs)
  have "utf8_valid (member kv)" if "kv \<in> set kvs" for kv
    using JObj.IH [of kv "snd kv"] JObj.prems that
    by (simp add: snds.intros prod_set_simps list_all_iff utf8_valid_append utf8_valid_quote)
  then have "utf8_valid (join '','' (map member (sort_key fst kvs)))"
    by (intro utf8_valid_join) auto
  moreover have "json_dump (JObj kvs) = ''{'' @ join '','' (map member (sort_key fst kvs)) @ ''}''"
    unfolding json_dump.simps sort_key_map_pair by (simp add: split_def comp_def)
  ultimately show ?case by (simp add: utf8_valid_append del: json_dump.simps)
qed (simp_all add: utf8_valid_digits utf8_valid_quote)

lemma no_bom: "take 3 (utf8_bytes (json_dump v)) \<noteq> [0xEF, 0xBB, 0xBF]"
proof -
  obtain c r where c: "json_dump v = c # r" "(of_char c :: nat) < 128" using json_dump_head by blast
  have "(of_nat (of_char c) :: byte) \<noteq> 0xEF"
  proof
    assume "(of_nat (of_char c) :: byte) = 0xEF"
    then have "unat (of_nat (of_char c) :: byte) = unat (0xEF :: byte)" by simp
    then show False using c(2) by (simp add: unat_of_nat_byte)
  qed
  then show ?thesis by (simp add: c utf8_bytes_def)
qed

text \<open>Parsing what was encoded gives the value with its keys sorted, under any limits it meets.\<close>

lemma strict_json_loads_with_canonical:
  assumes enc: "canonical_json_bytes v = Inr b" and v: "json_unique v" "json_utf8 v"
    and limits: "length b \<le> max_bytes" "max_bytes \<le> DEFAULT_MAX_JSON_BYTES"
  shows "strict_json_loads_with b max_bytes DEFAULT_MAX_DEPTH DEFAULT_MAX_ITEMS = Inr (json_norm v)"
proof -
  from enc have b: "b = utf8_bytes (json_dump v)" and ok: "json_depth v \<le> DEFAULT_MAX_DEPTH"
    "json_items v \<le> DEFAULT_MAX_ITEMS" "\<not> has_huge_int v"
    by (simp_all add: canonical_json_bytes_iff)
  have tree: "validate_tree 0 DEFAULT_MAX_DEPTH DEFAULT_MAX_ITEMS 0 (json_norm v) = Inr (json_items v)"
    using ok(1,2) by (simp add: validate_tree_iff json_measures_norm)
  show ?thesis
    using limits json_loads_dump [OF v(1) ok(3)] utf8_valid_dump [OF v(2)] no_bom [of v] tree
    by (simp add: strict_json_loads_with_def require_governed_limit_def b DEFAULT_MAX_DEPTH_def
        DEFAULT_MAX_ITEMS_def Let_def)
qed

lemma strict_json_loads_canonical:
  assumes enc: "canonical_json_bytes v = Inr b" and v: "json_unique v" "json_utf8 v"
  shows "strict_json_loads b = Inr (json_norm v)"
proof -
  have "length b \<le> DEFAULT_MAX_JSON_BYTES"
    using enc by (auto simp: canonical_json_bytes_iff length_json_dump)
  then show ?thesis
    unfolding strict_json_loads_def using strict_json_loads_with_canonical [OF enc v] by simp
qed

lemma canonical_json_bytes_norm:
  "canonical_json_bytes (json_norm v) = Inr b \<longleftrightarrow> canonical_json_bytes v = Inr b"
  using length_json_dump [of v] length_json_dump [of "json_norm v"]
  by (simp add: canonical_json_bytes_iff json_measures_norm json_dump_norm)

end
