(* ===== verification/Envelope_Roundtrip.thy ===== *)
theory Envelope_Roundtrip
  imports Observation Canonical_Roundtrip
begin

text \<open>
  Observation envelopes as JSON: the payload given to \<open>create\<close> is the payload read back, and
  \<open>from_json_value\<close> accepts exactly what \<open>to_json_value\<close> of a valid envelope writes.
\<close>

definition norm_fields :: "(string \<times> json) list \<Rightarrow> (string \<times> json) list" where
  "norm_fields kvs = sort_key fst (map (\<lambda>(k, x). (k, json_norm x)) kvs)"

lemma envelope_create_Inr:
  assumes "ObservationEnvelope_create sid seq ev obs em k f vis payload = Inr e"
  shows "envelope_ok e" and "canonical_json_bytes payload = Inr (oe_payload_bytes e)"
    and "oe_source_id e = sid" "oe_source_sequence e = seq" "oe_kind e = k"
  using assms
  by (auto simp: ObservationEnvelope_create_def split: if_splits dest!: ObservationEnvelope_post_init_Inr)

lemma envelope_created_payload:
  assumes "ObservationEnvelope_create sid seq ev obs em k f vis (JObj kvs) = Inr e"
    and "json_unique (JObj kvs)" "json_utf8 (JObj kvs)"
  shows "envelope_payload e = Inr (norm_fields kvs)"
  using strict_json_loads_canonical [OF envelope_create_Inr(2) [OF assms(1)] assms(2,3)]
  by (simp add: envelope_payload_def norm_fields_def)

lemma enum_of_source_kind [simp]: "enum_of source_kind_value all_source_kinds (source_kind_value x) = Inr x"
  by (cases x) (simp_all add: enum_of_def all_source_kinds_def)

lemma enum_of_observation_kind [simp]:
  "enum_of observation_kind_value all_observation_kinds (observation_kind_value x) = Inr x"
  by (cases x) (simp_all add: enum_of_def all_observation_kinds_def)

lemma enum_of_finality [simp]: "enum_of finality_value all_finalities (finality_value x) = Inr x"
  by (cases x) (simp_all add: enum_of_def all_finalities_def)

lemma enum_of_visibility [simp]: "enum_of visibility_value all_visibilities (visibility_value x) = Inr x"
  by (cases x) (simp_all add: enum_of_def all_visibilities_def)

lemma envelope_ok_facts:
  assumes "envelope_ok e"
  shows "0 \<le> oe_source_sequence e" "oe_source_sequence e \<le> MAX_U64"
    "0 \<le> oe_observed_at_unix_ms e" "oe_observed_at_unix_ms e \<le> MAX_U64"
    "oe_emitted_at_unix_ms e = Some t \<Longrightarrow> 0 \<le> t \<and> t \<le> MAX_U64"
    "\<exists>c. get_source_contract (oe_source_id e) = Inr c"
  using assms by (auto simp: envelope_ok_def ObservationEnvelope_post_init_def split: if_splits option.splits)

text \<open>The payload of a valid envelope, parsed under the default limits, encodes to its bytes.\<close>

lemma envelope_ok_payload:
  assumes "envelope_ok e" "envelope_payload e = Inr kvs"
  shows "canonical_json_bytes (JObj kvs) = Inr (oe_payload_bytes e)"
proof -
  obtain c v where c: "get_source_contract (oe_source_id e) = Inr c"
    and v: "strict_json_loads_with (oe_payload_bytes e) (sc_max_payload_bytes c) DEFAULT_MAX_DEPTH DEFAULT_MAX_ITEMS = Inr v"
      "canonical_json_bytes v = Inr (oe_payload_bytes e)"
    using assms(1) by (auto simp: envelope_ok_def ObservationEnvelope_post_init_def split: if_splits)
  have "strict_json_loads (oe_payload_bytes e) = Inr v"
    using v(1) unfolding strict_json_loads_def
    by (auto simp: strict_json_loads_with_def Let_def require_governed_limit_def DEFAULT_MAX_JSON_BYTES_def
        DEFAULT_MAX_DEPTH_def DEFAULT_MAX_ITEMS_def split: if_splits option.splits)
  then show ?thesis using assms(2) v(2) by (auto simp: envelope_payload_def split: json.splits)
qed

lemma envelope_json_roundtrip:
  assumes ok: "envelope_ok e" and json: "ObservationEnvelope_to_json e = Inr v"
  shows "ObservationEnvelope_from_json v = Inr e"
proof -
  obtain kvs s where p: "envelope_payload e = Inr kvs" and s: "source_contract_sha256 e = Inr s"
    using json by (auto simp: ObservationEnvelope_to_json_def)
  have sha: "is_sha256_text s" using s by (auto simp: source_contract_sha256_def SourceContract_digest_def canonical_sha256_iff json_sha256_text)
  have "is_sha256_text (payload_sha256 e)" by (simp add: payload_sha256_def sha256.digest_hex_text)
  note facts = envelope_ok_facts [OF ok]
  have post: "ObservationEnvelope_post_init
      \<lparr>oe_source_id = oe_source_id e, oe_chain = oe_chain e, oe_source_kind = oe_source_kind e,
       oe_source_sequence = oe_source_sequence e, oe_source_event_id = oe_source_event_id e,
       oe_observed_at_unix_ms = oe_observed_at_unix_ms e, oe_emitted_at_unix_ms = oe_emitted_at_unix_ms e,
       oe_kind = oe_kind e, oe_finality = oe_finality e, oe_visibility = oe_visibility e,
       oe_payload_bytes = oe_payload_bytes e\<rparr> = Inr e"
    using ok by (cases e) (simp add: envelope_ok_def)
  note payload = envelope_ok_payload [OF ok p]
  note defs = ObservationEnvelope_from_json_def exact_dict_def exact_str_def require_exact_keys_def ENVELOPE_KEYS_def
    jfield_def require_sha256_json_def Let_def
  define em where "em = (case oe_emitted_at_unix_ms e of None \<Rightarrow> JNull | Some t \<Rightarrow> JStr (str_of_int t))"
  have emitted: "(case em of JNull \<Rightarrow> Inr None
      | raw \<Rightarrow> rbind (parse_decimal ''emitted_at_unix_ms'' raw MAX_U64) (\<lambda>t. Inr (Some t)))
    = Inr (oe_emitted_at_unix_ms e)"
    using facts(5) by (cases "oe_emitted_at_unix_ms e") (simp_all add: em_def parse_decimal_str_of_int)
  have v: "v = JObj [(''schema'', JStr ENVELOPE_SCHEMA), (''source_id'', JStr (oe_source_id e)),
     (''chain'', JStr (chain_value (oe_chain e))), (''source_kind'', JStr (source_kind_value (oe_source_kind e))),
     (''source_sequence'', JStr (str_of_int (oe_source_sequence e))),
     (''source_event_id'', JStr (oe_source_event_id e)),
     (''observed_at_unix_ms'', JStr (str_of_int (oe_observed_at_unix_ms e))), (''emitted_at_unix_ms'', em),
     (''kind'', JStr (observation_kind_value (oe_kind e))), (''finality'', JStr (finality_value (oe_finality e))),
     (''visibility'', JStr (visibility_value (oe_visibility e))), (''payload'', JObj kvs),
     (''payload_sha256'', JStr (payload_sha256 e)), (''source_contract_sha256'', JStr s)]"
    using json p s by (simp add: ObservationEnvelope_to_json_def em_def)
  show ?thesis
    unfolding v using post payload s sha \<open>is_sha256_text (payload_sha256 e)\<close> facts(1-4) emitted
    by (simp add: defs parse_decimal_str_of_int)
qed

subsection \<open>Which envelopes have a digest\<close>

lemma CONTRACTS_lengths:
  "list_all (\<lambda>c. length (sc_source_id c) \<le> 80 \<and> length (sc_official_reference c) \<le> 512
    \<and> length (sc_allowed_events c) \<le> 16 \<and> sc_max_payload_bytes c \<le> 786432
    \<and> sc_max_future_clock_skew_ms c \<in> {0..60000}) CONTRACTS"
  by (simp add: CONTRACTS_def contract_def evm_rpc_events_def)

lemma length_str_of_u64: "0 \<le> v \<Longrightarrow> v \<le> MAX_U64 \<Longrightarrow> length (str_of_int v) \<le> 20"
  using length_str_of_nat [of "nat v" 20] by (simp add: str_of_int_def MAX_U64_def nat_less_iff)

lemma value_lengths:
  "length (chain_value c) \<le> 20" "length (source_kind_value sk) \<le> 30" "length (transport_value t) \<le> 30"
  "length (observation_kind_value k) \<le> 30" "length (finality_value f) \<le> 20" "length (visibility_value w) \<le> 20"
proof -
  show "length (chain_value c) \<le> 20" by (cases c) simp_all
  show "length (source_kind_value sk) \<le> 30" by (cases sk) simp_all
  show "length (transport_value t) \<le> 30" by (cases t) simp_all
  show "length (observation_kind_value k) \<le> 30" by (cases k) simp_all
  show "length (finality_value f) \<le> 20" by (cases f) simp_all
  show "length (visibility_value w) \<le> 20" by (cases w) simp_all
qed

lemma contract_json_measures:
  assumes "c \<in> set CONTRACTS"
  shows "json_bound (SourceContract_to_json c) \<le> 20000" "json_items (SourceContract_to_json c) \<le> 100"
    "json_depth (SourceContract_to_json c) \<le> 3" "\<not> has_huge_int (SourceContract_to_json c)"
proof -
  have c: "length (sc_source_id c) \<le> 80" "length (sc_official_reference c) \<le> 512"
    "length (sc_allowed_events c) \<le> 16" "sc_max_payload_bytes c \<le> 786432"
    "0 \<le> sc_max_future_clock_skew_ms c" "sc_max_future_clock_skew_ms c \<le> 60000"
    using assms CONTRACTS_lengths by (auto simp: list_all_iff)
  have nums: "length (str_of_int (int (sc_max_payload_bytes c))) \<le> 20"
    "length (str_of_int (sc_max_future_clock_skew_ms c)) \<le> 20"
    using c(4-6) by (intro length_str_of_u64; simp add: MAX_U64_def)+
  have event: "json_bound (EventShape_to_json e) \<le> 600" "json_items (EventShape_to_json e) = 4"
    "json_depth (EventShape_to_json e) = 1" "\<not> has_huge_int (EventShape_to_json e)" for e
    using value_lengths(4) [of "es_kind e"] value_lengths(5) [of "es_finality e"] value_lengths(6) [of "es_visibility e"]
    by (simp_all add: EventShape_to_json_def)
  have "(\<Sum>e \<leftarrow> sc_allowed_events c. Suc (json_bound (EventShape_to_json e))) \<le> (\<Sum>e \<leftarrow> sc_allowed_events c. 601)"
    using event(1) by (intro sum_list_mono) simp
  then have sum: "(\<Sum>e \<leftarrow> sc_allowed_events c. Suc (json_bound (EventShape_to_json e))) \<le> 9616"
    using c(3) by (simp add: sum_list_triv)
  show "json_bound (SourceContract_to_json c) \<le> 20000"
    using c(1,2) nums sum value_lengths(1) [of "sc_chain c"] value_lengths(2) [of "sc_source_kind c"]
      value_lengths(3) [of "sc_transport c"]
    by (simp add: SourceContract_to_json_def comp_def)
  show "json_items (SourceContract_to_json c) \<le> 100" "json_depth (SourceContract_to_json c) \<le> 3"
    "\<not> has_huge_int (SourceContract_to_json c)"
    using c(3) event
    by (simp_all add: SourceContract_to_json_def comp_def sum_list_triv fold_max_le_iff list_ex_iff)
qed

lemma contract_digest_ok:
  assumes "get_source_contract s = Inr c"
  shows "SourceContract_digest c = Inr (json_sha256 (SourceContract_to_json c))"
proof -
  have "c \<in> set CONTRACTS" using get_source_contract_Inr [OF assms] by blast
  note m = contract_json_measures [OF this]
  have "canonical_json_bytes (SourceContract_to_json c) = Inr (utf8_bytes (json_dump (SourceContract_to_json c)))"
    using m by (intro canonical_json_okI) (simp_all add: DEFAULT_MAX_DEPTH_def DEFAULT_MAX_ITEMS_def DEFAULT_MAX_JSON_BYTES_def)
  then show ?thesis by (simp add: SourceContract_digest_def canonical_sha256_iff)
qed

text \<open>The set of contracts, which segments of the ledger commit to, has a digest.\<close>

definition contract_set_json :: json where
  "contract_set_json = JArr (map SourceContract_to_json (sort_key sc_source_id CONTRACTS))"

lemma contract_set_digest: "source_contract_set_digest = Inr (json_sha256 contract_set_json)"
proof -
  define cs where "cs = sort_key sc_source_id CONTRACTS"
  have n: "length cs = 9" by (simp add: cs_def) (simp add: CONTRACTS_def)
  note m = contract_json_measures
  have in_cs: "c \<in> set CONTRACTS" if "c \<in> set cs" for c using that by (simp add: cs_def)
  have "(\<Sum>c \<leftarrow> cs. json_bound (SourceContract_to_json c) + 1) \<le> (\<Sum>c \<leftarrow> cs. 20001)"
    using m(1) in_cs by (intro sum_list_mono) simp
  then have 1: "json_bound contract_set_json \<le> DEFAULT_MAX_JSON_BYTES"
    using n by (simp add: contract_set_json_def cs_def [symmetric] comp_def sum_list_triv DEFAULT_MAX_JSON_BYTES_def)
  have "(\<Sum>c \<leftarrow> cs. json_items (SourceContract_to_json c)) \<le> (\<Sum>c \<leftarrow> cs. 100)"
    using m(2) in_cs by (intro sum_list_mono) simp
  then have 2: "json_items contract_set_json \<le> DEFAULT_MAX_ITEMS"
    using n by (simp add: contract_set_json_def cs_def [symmetric] comp_def sum_list_triv DEFAULT_MAX_ITEMS_def)
  have "json_depth (SourceContract_to_json c) \<le> 31" if "c \<in> set cs" for c
    using m(3) [OF in_cs [OF that]] by simp
  then have 3: "json_depth contract_set_json \<le> DEFAULT_MAX_DEPTH"
    by (simp add: contract_set_json_def cs_def [symmetric] fold_max_le_iff DEFAULT_MAX_DEPTH_def)
  have 4: "\<not> has_huge_int contract_set_json"
    using m(4) in_cs by (auto simp: contract_set_json_def cs_def [symmetric] list_ex_iff)
  show ?thesis
    using canonical_json_okI [OF 3 2 4 1]
    by (simp add: source_contract_set_digest_def contract_set_json_def canonical_sha256_iff)
qed

lemma digest_lengths: "length (payload_sha256 e) = 64" "length (json_sha256 v) = 64"
  using sha256.digest_hex_text json_sha256_text by (simp_all add: payload_sha256_def is_sha256_text_def)

lemma json_size_obj_le:
  "json_size (JObj kvs) \<le> 2 + (\<Sum>kv \<leftarrow> kvs. 6 * length (fst kv) + 4 + json_size (snd kv))"
proof -
  have "(\<Sum>kv \<leftarrow> kvs. length (json_quote (fst kv)) + 1 + json_size (snd kv)) + length kvs
      = (\<Sum>kv \<leftarrow> kvs. length (json_quote (fst kv)) + 2 + json_size (snd kv))"
    by (induction kvs) simp_all
  also have "\<dots> \<le> (\<Sum>kv \<leftarrow> kvs. 6 * length (fst kv) + 4 + json_size (snd kv))"
    using length_json_quote by (intro sum_list_mono) simp
  finally show ?thesis by simp
qed

lemma envelope_ok_source:
  assumes "envelope_ok e"
  obtains c where "get_source_contract (oe_source_id e) = Inr c"
    "length (oe_payload_bytes e) \<le> 786432" "length (oe_source_id e) \<le> 80"
proof -
  obtain c where c: "get_source_contract (oe_source_id e) = Inr c" "length (oe_payload_bytes e) \<le> sc_max_payload_bytes c"
    using assms by (auto simp: envelope_ok_def ObservationEnvelope_post_init_def split: if_splits)
  moreover have "sc_max_payload_bytes c \<le> 786432" "length (sc_source_id c) \<le> 80"
    using get_source_contract_Inr [OF c(1)] CONTRACTS_lengths by (auto simp: list_all_iff)
  ultimately show thesis using get_source_contract_Inr [OF c(1)] by (intro that [of c]) auto
qed

text \<open>
  The digest nests the payload one level deeper than the constructor checked it: a valid
  envelope has a digest exactly when its payload leaves that level (and fourteen values) free.
\<close>

lemma envelope_digest_ok_iff:
  assumes ok: "envelope_ok e" and p: "envelope_payload e = Inr kvs" and ev: "length (oe_source_event_id e) \<le> 1024"
  shows "is_ok (envelope_digest e) \<longleftrightarrow>
    json_depth (JObj kvs) < DEFAULT_MAX_DEPTH \<and> json_items (JObj kvs) + 14 \<le> DEFAULT_MAX_ITEMS"
proof -
  obtain c where c: "get_source_contract (oe_source_id e) = Inr c"
    and len: "length (oe_payload_bytes e) \<le> 786432" "length (oe_source_id e) \<le> 80"
    using ok by (rule envelope_ok_source)
  note facts = envelope_ok_facts [OF ok]
  have payload: "canonical_json_bytes (JObj kvs) = Inr (oe_payload_bytes e)" by (rule envelope_ok_payload [OF ok p])
  then have size: "json_size (JObj kvs) \<le> 786432" and huge: "\<not> has_huge_int (JObj kvs)"
    using len(1) unfolding canonical_json_bytes_iff by (metis length_json_dump length_utf8_bytes)+
  define em where "em = (case oe_emitted_at_unix_ms e of None \<Rightarrow> JNull | Some t \<Rightarrow> JStr (str_of_int t))"
  have em: "json_size em \<le> 122" "json_depth em = 0" "json_items em = 1" "\<not> has_huge_int em"
    using facts(5) length_str_of_u64 length_json_quote
    by (auto simp: em_def split: option.splits intro: order_trans [OF length_json_quote])
  define v where "v = JObj [(''schema'', JStr ENVELOPE_SCHEMA), (''source_id'', JStr (oe_source_id e)),
     (''chain'', JStr (chain_value (oe_chain e))), (''source_kind'', JStr (source_kind_value (oe_source_kind e))),
     (''source_sequence'', JStr (str_of_int (oe_source_sequence e))),
     (''source_event_id'', JStr (oe_source_event_id e)),
     (''observed_at_unix_ms'', JStr (str_of_int (oe_observed_at_unix_ms e))), (''emitted_at_unix_ms'', em),
     (''kind'', JStr (observation_kind_value (oe_kind e))), (''finality'', JStr (finality_value (oe_finality e))),
     (''visibility'', JStr (visibility_value (oe_visibility e))), (''payload'', JObj kvs),
     (''payload_sha256'', JStr (payload_sha256 e)),
     (''source_contract_sha256'', JStr (json_sha256 (SourceContract_to_json c)))]"
  have "ObservationEnvelope_to_json e = Inr v"
    using p c contract_digest_ok [OF c]
    by (simp add: ObservationEnvelope_to_json_def source_contract_sha256_def v_def em_def)
  then have digest: "is_ok (envelope_digest e) \<longleftrightarrow> is_ok (canonical_json_bytes v)"
    by (auto simp: envelope_digest_def canonical_sha256_iff is_ok_iff)
  have str: "json_size (JStr s) \<le> 6 * n + 2" if "length s \<le> n" for s n
    using length_json_quote [of s] that by simp
  have "json_size v \<le> DEFAULT_MAX_JSON_BYTES"
  proof -
    note sizes = str [OF len(2)] str [OF ev] str [OF length_str_of_u64 [OF facts(1,2)]] str [OF length_str_of_u64 [OF facts(3,4)]]
      str [OF value_lengths(1) [of "oe_chain e"]] str [OF value_lengths(2) [of "oe_source_kind e"]]
      str [OF value_lengths(4) [of "oe_kind e"]] str [OF value_lengths(5) [of "oe_finality e"]]
      str [OF value_lengths(6) [of "oe_visibility e"]] str [OF eq_imp_le [OF digest_lengths(1) [of e]]]
      str [OF eq_imp_le [OF digest_lengths(2) [of "SourceContract_to_json c"]]]
    have "json_size (JStr ENVELOPE_SCHEMA) \<le> 6 * 37 + 2" by (rule str) (simp add: ENVELOPE_SCHEMA_def)
    then show ?thesis
      using json_size_obj_le [of "[(''schema'', JStr ENVELOPE_SCHEMA), (''source_id'', JStr (oe_source_id e)),
     (''chain'', JStr (chain_value (oe_chain e))), (''source_kind'', JStr (source_kind_value (oe_source_kind e))),
     (''source_sequence'', JStr (str_of_int (oe_source_sequence e))),
     (''source_event_id'', JStr (oe_source_event_id e)),
     (''observed_at_unix_ms'', JStr (str_of_int (oe_observed_at_unix_ms e))), (''emitted_at_unix_ms'', em),
     (''kind'', JStr (observation_kind_value (oe_kind e))), (''finality'', JStr (finality_value (oe_finality e))),
     (''visibility'', JStr (visibility_value (oe_visibility e))), (''payload'', JObj kvs),
     (''payload_sha256'', JStr (payload_sha256 e)),
     (''source_contract_sha256'', JStr (json_sha256 (SourceContract_to_json c)))]", folded v_def]
        sizes size em(1)
      by (simp add: DEFAULT_MAX_JSON_BYTES_def del: json_size.simps)
  qed
  moreover have "\<not> has_huge_int v" using huge em(4) by (simp add: v_def del: has_huge_int.simps(3)) (simp add: has_huge_int.simps)
  moreover have "json_depth v = Suc (json_depth (JObj kvs))"
    using em(2) by (simp add: v_def)
  moreover have "json_items v = json_items (JObj kvs) + 14" using em(3) by (simp add: v_def)
  ultimately have "is_ok (canonical_json_bytes v) \<longleftrightarrow>
      json_depth (JObj kvs) < DEFAULT_MAX_DEPTH \<and> json_items (JObj kvs) + 14 \<le> DEFAULT_MAX_ITEMS"
    unfolding is_ok_iff canonical_json_bytes_iff by (auto simp only: less_eq_Suc_le)
  then show ?thesis using digest by blast
qed

end
