(* ===== verification/Risk.thy ===== *)
theory Risk
  imports Domain
begin

text \<open>
  \<open>src/aladdin_mev_engine/risk.py\<close>: the governor that moves the engine between operating
  modes, and the ledger that reserves execution cost against the risk limits.
\<close>

subsection \<open>The governor\<close>

datatype governor_event =
    BOOTSTRAP_TO_SHADOW
  | PROMOTE_TO_CANARY
  | PROMOTE_TO_LIVE
  | DATA_MISMATCH
  | SERVICE_DEGRADED
  | INVARIANT_BREACH
  | SIGNER_ANOMALY
  | DAILY_LOSS_LIMIT
  | RECOVER_TO_SHADOW
  | STOP

record transition_context =
  human_approved :: bool
  acceptance_evidence_valid :: bool
  incident_closed :: bool

definition require_transition :: "bool \<Rightarrow> string \<Rightarrow> unit result" where
  "require_transition condition message =
    (if condition then Inr () else Inl (TransitionRejected message))"

definition require_human_evidence :: "transition_context \<Rightarrow> unit result" where
  "require_human_evidence ctx =
    rbind (require_transition (human_approved ctx) ''transition requires explicit human approval'') (\<lambda>_.
    require_transition (acceptance_evidence_valid ctx) ''transition requires valid acceptance evidence'')"

text \<open>\<open>RiskGovernor.apply\<close>: the mode before, the mode after. A rejected event raises before
  the mode is assigned, so the mode stays as it was.\<close>

definition governor_apply ::
  "operating_mode \<Rightarrow> governor_event \<Rightarrow> transition_context \<Rightarrow> operating_mode result" where
  "governor_apply mode event ctx =
    (if event \<in> {INVARIANT_BREACH, SIGNER_ANOMALY, DAILY_LOSS_LIMIT} then Inr HALTED
     else if event \<in> {DATA_MISMATCH, SERVICE_DEGRADED} then
       Inr (if mode \<notin> {STOPPED, HALTED} then DEGRADED else mode)
     else if event = STOP then
       (if \<not> human_approved ctx
        then Inl (TransitionRejected ''stopping a governed mode requires human approval'')
        else rbind (if mode \<in> {DEGRADED, HALTED}
                    then rbind (require_human_evidence ctx) (\<lambda>_.
                         require_transition (incident_closed ctx)
                           ''stopping after an incident requires closed incident evidence'')
                    else Inr ()) (\<lambda>_. Inr STOPPED))
     else if event = BOOTSTRAP_TO_SHADOW then
       rbind (require_transition (mode = STOPPED) ''bootstrap requires stopped mode'') (\<lambda>_.
       rbind (require_human_evidence ctx) (\<lambda>_. Inr SHADOW))
     else if event = PROMOTE_TO_CANARY then
       rbind (require_transition (mode = SHADOW) ''canary promotion requires shadow mode'') (\<lambda>_.
       rbind (require_human_evidence ctx) (\<lambda>_. Inr CANARY))
     else if event = PROMOTE_TO_LIVE then
       rbind (require_transition (mode = CANARY) ''live promotion requires canary mode'') (\<lambda>_.
       rbind (require_human_evidence ctx) (\<lambda>_. Inr LIVE))
     else
       rbind (require_transition (mode \<in> {DEGRADED, HALTED}) ''recovery requires degraded or halted mode'') (\<lambda>_.
       rbind (require_human_evidence ctx) (\<lambda>_.
       rbind (require_transition (incident_closed ctx) ''recovery requires closed incident evidence'') (\<lambda>_.
       Inr SHADOW))))"

text \<open>A governor as the caller drives it: a rejected event leaves the mode alone.\<close>

definition governor_step :: "operating_mode \<Rightarrow> governor_event \<times> transition_context \<Rightarrow> operating_mode" where
  "governor_step mode ec = (case governor_apply mode (fst ec) (snd ec) of Inl _ \<Rightarrow> mode | Inr m \<Rightarrow> m)"

definition governor_run :: "operating_mode \<Rightarrow> (governor_event \<times> transition_context) list \<Rightarrow> operating_mode" where
  "governor_run = foldl governor_step"

text \<open>The modes a fresh governor reaches, with the last event that changed them.\<close>

inductive governor_reaches :: "operating_mode \<Rightarrow> (governor_event \<times> transition_context) list \<Rightarrow> bool" where
  start: "governor_reaches STOPPED []"
| event: "governor_reaches mode history \<Longrightarrow> governor_apply mode e ctx = Inr mode' \<Longrightarrow>
    governor_reaches mode' (history @ [(e, ctx)])"

lemmas governor_defs = governor_apply_def require_transition_def require_human_evidence_def

definition human_evidence :: "transition_context \<Rightarrow> bool" where
  "human_evidence ctx \<longleftrightarrow> human_approved ctx \<and> acceptance_evidence_valid ctx"

text \<open>The complete transition relation.\<close>

lemma governor_apply_Inr_iff:
  "governor_apply mode event ctx = Inr mode' \<longleftrightarrow>
    (event \<in> {INVARIANT_BREACH, SIGNER_ANOMALY, DAILY_LOSS_LIMIT} \<and> mode' = HALTED)
    \<or> (event \<in> {DATA_MISMATCH, SERVICE_DEGRADED} \<and>
         mode' = (if mode \<in> {STOPPED, HALTED} then mode else DEGRADED))
    \<or> (event = STOP \<and> human_approved ctx
         \<and> (mode \<in> {DEGRADED, HALTED} \<longrightarrow> human_evidence ctx \<and> incident_closed ctx) \<and> mode' = STOPPED)
    \<or> (event = BOOTSTRAP_TO_SHADOW \<and> mode = STOPPED \<and> human_evidence ctx \<and> mode' = SHADOW)
    \<or> (event = PROMOTE_TO_CANARY \<and> mode = SHADOW \<and> human_evidence ctx \<and> mode' = CANARY)
    \<or> (event = PROMOTE_TO_LIVE \<and> mode = CANARY \<and> human_evidence ctx \<and> mode' = LIVE)
    \<or> (event = RECOVER_TO_SHADOW \<and> mode \<in> {DEGRADED, HALTED} \<and> human_evidence ctx
         \<and> incident_closed ctx \<and> mode' = SHADOW)"
  by (cases event) (auto simp: governor_defs human_evidence_def)

lemma governor_never_faults:
  "governor_apply mode event ctx = Inl e \<Longrightarrow> \<exists>m. e = TransitionRejected m"
  by (auto simp: governor_defs result_simps split: if_splits)

text \<open>A safety order: an engine only gains capability with recorded human evidence.\<close>

fun capability :: "operating_mode \<Rightarrow> nat" where
  "capability HALTED = 0"
| "capability STOPPED = 0"
| "capability DEGRADED = 1"
| "capability SHADOW = 2"
| "capability CANARY = 3"
| "capability LIVE = 4"

lemma governor_capability:
  "governor_apply mode event ctx = Inr mode' \<Longrightarrow> capability mode < capability mode' \<Longrightarrow>
    human_evidence ctx \<and> capability mode' \<le> Suc (Suc (capability mode))"
  by (cases mode) (auto simp: governor_apply_Inr_iff split: if_splits)

lemma governor_entry:
  "governor_apply mode event ctx = Inr mode' \<Longrightarrow> mode' \<noteq> mode \<Longrightarrow>
    (mode' = LIVE \<longrightarrow> event = PROMOTE_TO_LIVE \<and> mode = CANARY \<and> human_evidence ctx)
    \<and> (mode' = CANARY \<longrightarrow> event = PROMOTE_TO_CANARY \<and> mode = SHADOW \<and> human_evidence ctx)"
  by (auto simp: governor_apply_Inr_iff split: if_splits)

text \<open>
  Every history that ends in live mode holds, in this order, an approved promotion to
  canary and an approved promotion to live, with nothing that changed the mode between.
\<close>

definition promoted_live :: "(governor_event \<times> transition_context) list \<Rightarrow> bool" where
  "promoted_live h \<longleftrightarrow> (\<exists>xs ys zs c d.
     h = xs @ (PROMOTE_TO_CANARY, c) # ys @ (PROMOTE_TO_LIVE, d) # zs
     \<and> human_evidence c \<and> human_evidence d)"

definition promoted_canary :: "(governor_event \<times> transition_context) list \<Rightarrow> bool" where
  "promoted_canary h \<longleftrightarrow> (\<exists>xs ys c. h = xs @ (PROMOTE_TO_CANARY, c) # ys \<and> human_evidence c)"

lemma promoted_append:
  "promoted_live h \<Longrightarrow> promoted_live (h @ t)"
  "promoted_canary h \<Longrightarrow> promoted_canary (h @ t)"
  "promoted_canary h \<Longrightarrow> human_evidence d \<Longrightarrow> promoted_live (h @ [(PROMOTE_TO_LIVE, d)])"
  "human_evidence c \<Longrightarrow> promoted_canary (h @ [(PROMOTE_TO_CANARY, c)])"
  unfolding promoted_live_def promoted_canary_def by (metis append.assoc append_Cons)+

lemma governor_reaches_promoted:
  "governor_reaches mode history \<Longrightarrow>
    (mode = LIVE \<longrightarrow> promoted_live history) \<and> (mode = CANARY \<longrightarrow> promoted_canary history)"
proof (induction rule: governor_reaches.induct)
  case start
  then show ?case by simp
next
  case (event mode history e ctx mode')
  then show ?case
    by (auto simp: governor_apply_Inr_iff promoted_append split: if_splits)
qed

subsection \<open>The reservation ledger\<close>

record risk_limits =
  maximum_daily_loss :: int
  maximum_single_execution_cost :: int
  maximum_pending_execution_cost :: int
  maximum_concurrent_candidates :: int
  maximum_notional :: int

definition RiskLimits_post_init :: "risk_limits \<Rightarrow> risk_limits result" where
  "RiskLimits_post_init self =
    rbind (require_non_negative_int ''maximum_daily_loss'' (maximum_daily_loss self)) (\<lambda>_.
    rbind (require_non_negative_int ''maximum_single_execution_cost'' (maximum_single_execution_cost self)) (\<lambda>_.
    rbind (require_non_negative_int ''maximum_pending_execution_cost'' (maximum_pending_execution_cost self)) (\<lambda>_.
    rbind (require_non_negative_int ''maximum_concurrent_candidates'' (maximum_concurrent_candidates self)) (\<lambda>_.
    rbind (require_non_negative_int ''maximum_notional'' (maximum_notional self)) (\<lambda>_. Inr self)))))"

text \<open>The ledger's dictionary of reservations, in insertion order, one entry per key.\<close>

record risk_ledger =
  rl_limits :: risk_limits
  rl_realized_net_profit :: int
  rl_reservations :: "(string \<times> int) list"

definition RiskLedger_init :: "risk_limits \<Rightarrow> risk_ledger" where
  "RiskLedger_init limits =
    \<lparr>rl_limits = limits, rl_realized_net_profit = 0, rl_reservations = []\<rparr>"

definition reserved_execution_cost :: "risk_ledger \<Rightarrow> int" where
  "reserved_execution_cost self = sum_list (map snd (rl_reservations self))"

definition concurrent_candidates :: "risk_ledger \<Rightarrow> int" where
  "concurrent_candidates self = int (length (rl_reservations self))"

definition realized_loss :: "risk_ledger \<Rightarrow> int" where
  "realized_loss self = max (- rl_realized_net_profit self) 0"

record risk_authorization =
  ra_allowed :: bool
  ra_reasons :: "string list"

definition RiskLedger_authorize :: "risk_ledger \<Rightarrow> int \<Rightarrow> int \<Rightarrow> risk_authorization result" where
  "RiskLedger_authorize self execution_cost notional =
    rbind (require_non_negative_int ''execution_cost'' execution_cost) (\<lambda>_.
    rbind (require_non_negative_int ''notional'' notional) (\<lambda>_.
    let limits = rl_limits self;
        reasons =
          (if maximum_single_execution_cost limits < execution_cost
           then [''single-execution-cost-limit''] else [])
          @ (if maximum_pending_execution_cost limits < reserved_execution_cost self + execution_cost
             then [''pending-execution-cost-limit''] else [])
          @ (if maximum_daily_loss limits < realized_loss self + reserved_execution_cost self + execution_cost
             then [''daily-loss-limit''] else [])
          @ (if maximum_concurrent_candidates limits < concurrent_candidates self + 1
             then [''concurrent-candidate-limit''] else [])
          @ (if maximum_notional limits < notional then [''notional-limit''] else [])
    in Inr \<lparr>ra_allowed = (reasons = []), ra_reasons = reasons\<rparr>))"

definition RiskLedger_reserve :: "risk_ledger \<Rightarrow> string \<Rightarrow> int \<Rightarrow> int \<Rightarrow> risk_ledger result" where
  "RiskLedger_reserve self reservation_id execution_cost notional =
    rbind (require_bounded_text ''reservation_id'' reservation_id 128) (\<lambda>_.
    if map_of (rl_reservations self) reservation_id \<noteq> None
    then Inl (ValueError ''reservation_id already exists'')
    else rbind (RiskLedger_authorize self execution_cost notional) (\<lambda>decision.
      if \<not> ra_allowed decision
      then Inl (RuntimeError (''risk reservation rejected: '' @ join '', '' (ra_reasons decision)))
      else Inr (self\<lparr>rl_reservations := rl_reservations self @ [(reservation_id, execution_cost)]\<rparr>)))"

definition RiskLedger_settle :: "risk_ledger \<Rightarrow> string \<Rightarrow> int \<Rightarrow> risk_ledger result" where
  "RiskLedger_settle self reservation_id realized_net_profit =
    rbind (require_bounded_text ''reservation_id'' reservation_id 128) (\<lambda>_.
    if map_of (rl_reservations self) reservation_id = None
    then Inl (ValueError ''unknown reservation_id'')
    else Inr (self\<lparr>rl_reservations := filter (\<lambda>kv. fst kv \<noteq> reservation_id) (rl_reservations self),
                   rl_realized_net_profit := rl_realized_net_profit self + realized_net_profit\<rparr>))"

text \<open>The operations that change a ledger, as steps.\<close>

datatype risk_operation =
    Reserve string int int
  | Settle string int

fun risk_apply :: "risk_ledger \<Rightarrow> risk_operation \<Rightarrow> risk_ledger result" where
  "risk_apply l (Reserve rid cost notional) = RiskLedger_reserve l rid cost notional"
| "risk_apply l (Settle rid profit) = RiskLedger_settle l rid profit"

definition limits_ok :: "risk_limits \<Rightarrow> bool" where
  "limits_ok l \<longleftrightarrow> is_ok (RiskLimits_post_init l)"

text \<open>What holds of every ledger: keys are unique, costs are non-negative and within the
  single-execution limit, the total is within the pending limit, and the number of
  reservations within the concurrency limit.\<close>

definition ledger_inv :: "risk_ledger \<Rightarrow> bool" where
  "ledger_inv l \<longleftrightarrow>
    limits_ok (rl_limits l)
    \<and> distinct (map fst (rl_reservations l))
    \<and> (\<forall>(k, c) \<in> set (rl_reservations l). 0 \<le> c \<and> c \<le> maximum_single_execution_cost (rl_limits l))
    \<and> reserved_execution_cost l \<le> maximum_pending_execution_cost (rl_limits l)
    \<and> concurrent_candidates l \<le> maximum_concurrent_candidates (rl_limits l)"

lemma limits_ok_iff:
  "limits_ok l \<longleftrightarrow> 0 \<le> maximum_daily_loss l \<and> 0 \<le> maximum_single_execution_cost l
    \<and> 0 \<le> maximum_pending_execution_cost l \<and> 0 \<le> maximum_concurrent_candidates l \<and> 0 \<le> maximum_notional l"
  by (auto simp: limits_ok_def is_ok_iff RiskLimits_post_init_def)

lemma authorize_allowed_iff:
  "RiskLedger_authorize l cost notional = Inr d \<Longrightarrow>
    ra_allowed d \<longleftrightarrow>
      cost \<le> maximum_single_execution_cost (rl_limits l)
      \<and> reserved_execution_cost l + cost \<le> maximum_pending_execution_cost (rl_limits l)
      \<and> realized_loss l + reserved_execution_cost l + cost \<le> maximum_daily_loss (rl_limits l)
      \<and> concurrent_candidates l + 1 \<le> maximum_concurrent_candidates (rl_limits l)
      \<and> notional \<le> maximum_notional (rl_limits l)"
  by (auto simp: RiskLedger_authorize_def Let_def split: if_splits)

lemma reserve_Inr:
  assumes "RiskLedger_reserve l rid cost notional = Inr l'"
  shows "l' = l\<lparr>rl_reservations := rl_reservations l @ [(rid, cost)]\<rparr>"
    and "rid \<notin> set (map fst (rl_reservations l))" and "0 \<le> cost"
    and "cost \<le> maximum_single_execution_cost (rl_limits l)"
    and "reserved_execution_cost l + cost \<le> maximum_pending_execution_cost (rl_limits l)"
    and "realized_loss l + reserved_execution_cost l + cost \<le> maximum_daily_loss (rl_limits l)"
    and "concurrent_candidates l + 1 \<le> maximum_concurrent_candidates (rl_limits l)"
proof -
  from assms obtain d where d: "RiskLedger_authorize l cost notional = Inr d" and "ra_allowed d"
    and "map_of (rl_reservations l) rid = None"
    and "l' = l\<lparr>rl_reservations := rl_reservations l @ [(rid, cost)]\<rparr>"
    by (auto simp: RiskLedger_reserve_def split: if_splits)
  moreover from d have "0 \<le> cost" by (auto simp: RiskLedger_authorize_def)
  ultimately show "l' = l\<lparr>rl_reservations := rl_reservations l @ [(rid, cost)]\<rparr>"
    and "rid \<notin> set (map fst (rl_reservations l))" and "0 \<le> cost"
    and "cost \<le> maximum_single_execution_cost (rl_limits l)"
    and "reserved_execution_cost l + cost \<le> maximum_pending_execution_cost (rl_limits l)"
    and "realized_loss l + reserved_execution_cost l + cost \<le> maximum_daily_loss (rl_limits l)"
    and "concurrent_candidates l + 1 \<le> maximum_concurrent_candidates (rl_limits l)"
    using authorize_allowed_iff [OF d] by (auto simp: map_of_eq_None_iff)
qed

lemma settle_Inr:
  assumes "RiskLedger_settle l rid profit = Inr l'"
  shows "l' = l\<lparr>rl_reservations := filter (\<lambda>kv. fst kv \<noteq> rid) (rl_reservations l),
               rl_realized_net_profit := rl_realized_net_profit l + profit\<rparr>"
    and "rid \<in> set (map fst (rl_reservations l))"
proof -
  from assms have "map_of (rl_reservations l) rid \<noteq> None"
    by (auto simp: RiskLedger_settle_def split: if_splits)
  then show "rid \<in> set (map fst (rl_reservations l))" by (auto simp: map_of_eq_None_iff)
qed (use assms in \<open>auto simp: RiskLedger_settle_def split: if_splits\<close>)

lemma sum_list_filter_le:
  "(\<And>x. x \<in> set xs \<Longrightarrow> 0 \<le> f x) \<Longrightarrow> sum_list (map f (filter P xs)) \<le> (sum_list (map f xs) :: int)"
  by (induction xs) (auto intro: add_increasing)

lemma ledger_inv_init: "limits_ok limits \<Longrightarrow> ledger_inv (RiskLedger_init limits)"
  by (simp add: ledger_inv_def RiskLedger_init_def reserved_execution_cost_def
      concurrent_candidates_def limits_ok_iff)

lemma ledger_inv_reserve:
  "ledger_inv l \<Longrightarrow> RiskLedger_reserve l rid cost notional = Inr l' \<Longrightarrow> ledger_inv l'"
  using reserve_Inr [of l rid cost notional l']
  by (auto simp: ledger_inv_def reserved_execution_cost_def concurrent_candidates_def)

lemma ledger_inv_settle:
  assumes "ledger_inv l" and s: "RiskLedger_settle l rid profit = Inr l'"
  shows "ledger_inv l'"
proof -
  let ?f = "filter (\<lambda>kv. fst kv \<noteq> rid) (rl_reservations l)"
  have "sum_list (map snd ?f) \<le> sum_list (map snd (rl_reservations l))"
    using assms(1) by (intro sum_list_filter_le) (auto simp: ledger_inv_def)
  moreover have "int (length ?f) \<le> maximum_concurrent_candidates (rl_limits l)"
    using assms(1) length_filter_le [of "\<lambda>kv. fst kv \<noteq> rid" "rl_reservations l"]
    unfolding ledger_inv_def concurrent_candidates_def by linarith
  ultimately show ?thesis
    using assms(1) settle_Inr [OF s]
    by (auto simp: ledger_inv_def reserved_execution_cost_def concurrent_candidates_def
        distinct_map_filter)
qed

inductive ledger_reachable :: "risk_limits \<Rightarrow> risk_ledger \<Rightarrow> bool" where
  start: "limits_ok limits \<Longrightarrow> ledger_reachable limits (RiskLedger_init limits)"
| step: "ledger_reachable limits l \<Longrightarrow> risk_apply l op = Inr l' \<Longrightarrow> ledger_reachable limits l'"

lemma ledger_reachable_inv:
  "ledger_reachable limits l \<Longrightarrow> ledger_inv l \<and> rl_limits l = limits"
proof (induction rule: ledger_reachable.induct)
  case (start limits)
  then show ?case by (simp add: ledger_inv_init) (simp add: RiskLedger_init_def)
next
  case (step limits l op l')
  then show ?case
    by (cases op) (auto intro: ledger_inv_reserve ledger_inv_settle dest: reserve_Inr(1) settle_Inr(1))
qed

text \<open>
  A settlement is covered when its loss is at most the cost that was reserved for it. While
  every settlement is covered, the daily-loss check of \<open>authorize\<close> bounds the loss of the
  day plus everything still at risk.
\<close>

fun covered :: "risk_ledger \<Rightarrow> risk_operation \<Rightarrow> bool" where
  "covered l (Reserve _ _ _) = True"
| "covered l (Settle rid profit) = (\<forall>c. map_of (rl_reservations l) rid = Some c \<longrightarrow> - c \<le> profit)"

definition exposure :: "risk_ledger \<Rightarrow> int" where
  "exposure l = realized_loss l + reserved_execution_cost l"

inductive covered_reachable :: "risk_limits \<Rightarrow> risk_ledger \<Rightarrow> bool" where
  start: "limits_ok limits \<Longrightarrow> covered_reachable limits (RiskLedger_init limits)"
| step: "covered_reachable limits l \<Longrightarrow> covered l op \<Longrightarrow> risk_apply l op = Inr l' \<Longrightarrow>
    covered_reachable limits l'"

lemma covered_reachable_reachable: "covered_reachable limits l \<Longrightarrow> ledger_reachable limits l"
  by (induction rule: covered_reachable.induct) (auto intro: ledger_reachable.intros)

lemma sum_list_remove_key:
  "distinct (map fst xs) \<Longrightarrow> map_of xs k = Some c \<Longrightarrow>
    sum_list (map snd (filter (\<lambda>kv. fst kv \<noteq> k) xs)) = sum_list (map snd xs) - (c :: int)"
proof (induction xs)
  case Nil
  then show ?case by simp
next
  case (Cons x xs)
  show ?case
  proof (cases "fst x = k")
    case True
    then have "k \<notin> fst ` set xs" using Cons.prems(1) by auto
    then have "filter (\<lambda>kv. fst kv \<noteq> k) xs = xs" by (intro filter_True) auto
    with True Cons.prems show ?thesis by (auto split: if_splits)
  next
    case False
    with Cons show ?thesis by (cases x) auto
  qed
qed

lemma exposure_settle:
  assumes "ledger_inv l" and "RiskLedger_settle l rid profit = Inr l'" and "covered l (Settle rid profit)"
  shows "exposure l' \<le> exposure l"
proof -
  from settle_Inr(2) [OF assms(2)] obtain c where c: "map_of (rl_reservations l) rid = Some c"
    by (metis (no_types) map_of_eq_None_iff not_None_eq set_map)
  then have "- c \<le> profit" and "0 \<le> c"
    using assms(1,3) by (auto simp: ledger_inv_def dest!: map_of_SomeD)
  moreover have "reserved_execution_cost l' = reserved_execution_cost l - c"
    using assms(1) c settle_Inr(1) [OF assms(2)]
    by (simp add: reserved_execution_cost_def sum_list_remove_key ledger_inv_def)
  moreover have "realized_loss l' \<le> realized_loss l + max (- profit) 0"
    using settle_Inr(1) [OF assms(2)] by (simp add: realized_loss_def)
  ultimately show ?thesis by (simp add: exposure_def)
qed

lemma covered_exposure:
  "covered_reachable limits l \<Longrightarrow> exposure l \<le> maximum_daily_loss limits"
proof (induction rule: covered_reachable.induct)
  case (start limits)
  then show ?case
    by (simp add: exposure_def realized_loss_def reserved_execution_cost_def RiskLedger_init_def limits_ok_iff)
next
  case (step limits l op l')
  have l: "ledger_inv l" "rl_limits l = limits"
    using ledger_reachable_inv covered_reachable_reachable step.hyps(1) by blast+
  show ?case
  proof (cases op)
    case (Reserve rid cost notional)
    with step.hyps(3) have r: "RiskLedger_reserve l rid cost notional = Inr l'" by simp
    from reserve_Inr(1,6) [OF r] l(2) show ?thesis
      by (simp add: exposure_def realized_loss_def reserved_execution_cost_def)
  next
    case (Settle rid profit)
    with step.hyps(2,3) l(1) have "exposure l' \<le> exposure l"
      by (intro exposure_settle) simp_all
    with step.IH show ?thesis by simp
  qed
qed

end
