(* ===== verification/Profit.thy ===== *)
theory Profit
  imports Domain
begin

text \<open>
  \<open>src/aladdin_mev_engine/profit.py\<close>: the cost breakdown of an opportunity, the profit
  policy, and the assessment that approves an opportunity or lists every reason against it.
  Amounts are exact Python integers.
\<close>

definition BASIS_POINTS :: int where "BASIS_POINTS = 10000"

datatype profit_reason =
    NON_POSITIVE_GROSS_PROFIT
  | SIMULATION_DISAGREEMENT
  | CHAIN_UNHEALTHY
  | STATE_TOO_OLD
  | RISK_BUDGET_UNAVAILABLE
  | BID_EXCEEDS_POLICY
  | BELOW_ABSOLUTE_MINIMUM
  | BELOW_REQUIRED_RETURN

fun profit_reason_value :: "profit_reason \<Rightarrow> string" where
  "profit_reason_value NON_POSITIVE_GROSS_PROFIT = ''non-positive-gross-profit''"
| "profit_reason_value SIMULATION_DISAGREEMENT = ''simulation-disagreement''"
| "profit_reason_value CHAIN_UNHEALTHY = ''chain-unhealthy''"
| "profit_reason_value STATE_TOO_OLD = ''state-too-old''"
| "profit_reason_value RISK_BUDGET_UNAVAILABLE = ''risk-budget-unavailable''"
| "profit_reason_value BID_EXCEEDS_POLICY = ''bid-exceeds-policy''"
| "profit_reason_value BELOW_ABSOLUTE_MINIMUM = ''below-absolute-minimum''"
| "profit_reason_value BELOW_REQUIRED_RETURN = ''below-required-return''"

record cost_breakdown =
  cb_gross_profit :: int
  cb_execution_gas_cost :: int
  cb_l1_data_fee :: int
  cb_operator_fee :: int
  cb_flash_loan_fee :: int
  cb_inclusion_bid :: int
  cb_slippage_reserve :: int
  cb_stale_state_reserve :: int
  cb_failure_risk_reserve :: int
  cb_infrastructure_cost :: int
  cb_inventory_hedge_cost :: int

text \<open>The dataclass fields in declaration order, as \<open>__dataclass_fields__\<close> lists them.\<close>

definition CostBreakdown_fields :: "cost_breakdown \<Rightarrow> (string \<times> int) list" where
  "CostBreakdown_fields self =
    [(''gross_profit'', cb_gross_profit self),
     (''execution_gas_cost'', cb_execution_gas_cost self),
     (''l1_data_fee'', cb_l1_data_fee self),
     (''operator_fee'', cb_operator_fee self),
     (''flash_loan_fee'', cb_flash_loan_fee self),
     (''inclusion_bid'', cb_inclusion_bid self),
     (''slippage_reserve'', cb_slippage_reserve self),
     (''stale_state_reserve'', cb_stale_state_reserve self),
     (''failure_risk_reserve'', cb_failure_risk_reserve self),
     (''infrastructure_cost'', cb_infrastructure_cost self),
     (''inventory_hedge_cost'', cb_inventory_hedge_cost self)]"

definition CostBreakdown_post_init :: "cost_breakdown \<Rightarrow> cost_breakdown result" where
  "CostBreakdown_post_init self =
    rbind (rall (\<lambda>(name, v). require_non_negative_int name v) (CostBreakdown_fields self)) (\<lambda>_. Inr self)"

definition cost_excluding_bid :: "cost_breakdown \<Rightarrow> int" where
  "cost_excluding_bid self =
    cb_execution_gas_cost self + cb_l1_data_fee self + cb_operator_fee self
    + cb_flash_loan_fee self + cb_slippage_reserve self + cb_stale_state_reserve self
    + cb_failure_risk_reserve self + cb_infrastructure_cost self + cb_inventory_hedge_cost self"

definition surplus_before_bid :: "cost_breakdown \<Rightarrow> int" where
  "surplus_before_bid self = cb_gross_profit self - cost_excluding_bid self"

definition total_cost :: "cost_breakdown \<Rightarrow> int" where
  "total_cost self = cost_excluding_bid self + cb_inclusion_bid self"

definition conservative_net_profit :: "cost_breakdown \<Rightarrow> int" where
  "conservative_net_profit self = cb_gross_profit self - total_cost self"

definition CostBreakdown_to_json :: "cost_breakdown \<Rightarrow> json" where
  "CostBreakdown_to_json self =
    JObj (map (\<lambda>(name, v). (name, JStr (str_of_int v))) (CostBreakdown_fields self))"

record profit_policy =
  pp_policy_id :: string
  pp_minimum_absolute_profit :: int
  pp_minimum_return_bps :: int
  pp_maximum_bid_fraction_bps :: int
  pp_maximum_state_age_ms :: int

definition ProfitPolicy_post_init :: "profit_policy \<Rightarrow> profit_policy result" where
  "ProfitPolicy_post_init self =
    (if pp_policy_id self = [] \<or> 128 < py_len (pp_policy_id self)
     then Inl (ValueError ''policy_id must be non-empty and at most 128 characters'')
     else
    rbind (require_non_negative_int ''minimum_absolute_profit'' (pp_minimum_absolute_profit self)) (\<lambda>_.
    rbind (require_non_negative_int ''minimum_return_bps'' (pp_minimum_return_bps self)) (\<lambda>_.
    rbind (require_non_negative_int ''maximum_bid_fraction_bps'' (pp_maximum_bid_fraction_bps self)) (\<lambda>_.
    rbind (require_non_negative_int ''maximum_state_age_ms'' (pp_maximum_state_age_ms self)) (\<lambda>_.
     if BASIS_POINTS < pp_maximum_bid_fraction_bps self
     then Inl (ValueError ''maximum_bid_fraction_bps cannot exceed 10000'')
     else Inr self)))))"

definition ProfitPolicy_to_json :: "profit_policy \<Rightarrow> json" where
  "ProfitPolicy_to_json self = JObj
    [(''policy_id'', JStr (pp_policy_id self)),
     (''minimum_absolute_profit'', JStr (str_of_int (pp_minimum_absolute_profit self))),
     (''minimum_return_bps'', JStr (str_of_int (pp_minimum_return_bps self))),
     (''maximum_bid_fraction_bps'', JStr (str_of_int (pp_maximum_bid_fraction_bps self))),
     (''maximum_state_age_ms'', JStr (str_of_int (pp_maximum_state_age_ms self)))]"

record profit_assessment =
  pa_approved :: bool
  pa_policy_id :: string
  pa_conservative_net_profit :: int
  pa_surplus_before_bid :: int
  pa_reasons :: "profit_reason list"

definition ProfitAssessment_post_init :: "profit_assessment \<Rightarrow> profit_assessment result" where
  "ProfitAssessment_post_init self =
    (if pa_policy_id self = [] \<or> 128 < py_len (pa_policy_id self)
     then Inl (ValueError ''policy_id must be non-empty and at most 128 characters'')
     else if pa_approved self \<and> pa_reasons self \<noteq> []
     then Inl (ValueError ''approved assessment cannot contain rejection reasons'')
     else if \<not> pa_approved self \<and> pa_reasons self = []
     then Inl (ValueError ''rejected assessment must contain at least one reason'')
     else if has_duplicate (pa_reasons self)
     then Inl (ValueError ''assessment reasons must be unique'')
     else Inr self)"

definition ProfitAssessment_to_json :: "profit_assessment \<Rightarrow> json" where
  "ProfitAssessment_to_json self = JObj
    [(''schema'', JStr ''aladdin-mev-execution-decision/v1''),
     (''approved'', JBool (pa_approved self)),
     (''policy_id'', JStr (pa_policy_id self)),
     (''conservative_net_profit'', JStr (str_of_int (pa_conservative_net_profit self))),
     (''surplus_before_bid'', JStr (str_of_int (pa_surplus_before_bid self))),
     (''reasons'', JArr (map (\<lambda>r. JStr (profit_reason_value r)) (pa_reasons self)))]"

definition assess_profit ::
  "cost_breakdown \<Rightarrow> profit_policy \<Rightarrow> int \<Rightarrow> int \<Rightarrow> bool \<Rightarrow> chain_health \<Rightarrow> bool \<Rightarrow> profit_assessment result" where
  "assess_profit costs policy capital_at_risk state_age_ms simulations_agree health risk_budget_available =
    rbind (require_non_negative_int ''capital_at_risk'' capital_at_risk) (\<lambda>_.
    rbind (require_non_negative_int ''state_age_ms'' state_age_ms) (\<lambda>_.
    let bid_capacity = max (surplus_before_bid costs) 0;
        reasons =
          (if cb_gross_profit costs \<le> 0 then [NON_POSITIVE_GROSS_PROFIT] else [])
          @ (if \<not> simulations_agree then [SIMULATION_DISAGREEMENT] else [])
          @ (if health \<noteq> HEALTHY then [CHAIN_UNHEALTHY] else [])
          @ (if pp_maximum_state_age_ms policy < state_age_ms then [STATE_TOO_OLD] else [])
          @ (if \<not> risk_budget_available then [RISK_BUDGET_UNAVAILABLE] else [])
          @ (if bid_capacity * pp_maximum_bid_fraction_bps policy < cb_inclusion_bid costs * BASIS_POINTS
             then [BID_EXCEEDS_POLICY] else [])
          @ (if conservative_net_profit costs < pp_minimum_absolute_profit policy
             then [BELOW_ABSOLUTE_MINIMUM] else [])
          @ (if 0 < capital_at_risk
                \<and> conservative_net_profit costs * BASIS_POINTS < capital_at_risk * pp_minimum_return_bps policy
             then [BELOW_REQUIRED_RETURN] else [])
    in ProfitAssessment_post_init
      \<lparr>pa_approved = (reasons = []),
       pa_policy_id = pp_policy_id policy,
       pa_conservative_net_profit = conservative_net_profit costs,
       pa_surplus_before_bid = surplus_before_bid costs,
       pa_reasons = reasons\<rparr>))"

definition policy_ok :: "profit_policy \<Rightarrow> bool" where
  "policy_ok p \<longleftrightarrow> is_ok (ProfitPolicy_post_init p)"

definition costs_ok :: "cost_breakdown \<Rightarrow> bool" where
  "costs_ok c \<longleftrightarrow> is_ok (CostBreakdown_post_init c)"

lemma costs_ok_iff:
  "costs_ok c \<longleftrightarrow> (\<forall>(name, v) \<in> set (CostBreakdown_fields c). 0 \<le> v)"
  by (auto simp: costs_ok_def is_ok_iff CostBreakdown_post_init_def rall_Inr_iff)

lemma policy_ok_facts:
  assumes "policy_ok p"
  shows "pp_policy_id p \<noteq> []" "py_len (pp_policy_id p) \<le> 128" "0 \<le> pp_minimum_absolute_profit p"
    "0 \<le> pp_minimum_return_bps p" "0 \<le> pp_maximum_bid_fraction_bps p"
    "pp_maximum_bid_fraction_bps p \<le> BASIS_POINTS" "0 \<le> pp_maximum_state_age_ms p"
  using assms by (auto simp: policy_ok_def is_ok_iff ProfitPolicy_post_init_def split: if_splits)

text \<open>The assessment is total on governed inputs: its own constructor accepts it.\<close>

lemma ProfitAssessment_post_init_Inr: "ProfitAssessment_post_init x = Inr a \<Longrightarrow> a = x"
  by (auto simp: ProfitAssessment_post_init_def split: if_splits)

lemma reason_Nil_iff [simp]: "((if c then [r] else []) = []) = (\<not> c)"
  by simp

lemma reason_set: "set (if c then [r] else []) = (if c then {r} else {})"
  by simp

lemma reason_distinct [simp]: "distinct (if c then [r] else [])"
  by simp

lemma assess_profit_total:
  assumes "policy_ok policy" and "0 \<le> capital" and "0 \<le> age"
  shows "is_ok (assess_profit costs policy capital age agree health budget)"
proof -
  note p = policy_ok_facts [OF assms(1)]
  show ?thesis
    using p(1,2) assms(2,3)
    by (simp add: assess_profit_def ProfitAssessment_post_init_def require_non_negative_int_def
        Let_def reason_set not_less del: if_split)
qed

lemma assess_profit_reasons:
  assumes "assess_profit costs policy capital age agree health budget = Inr a"
  shows "pa_approved a \<longleftrightarrow>
      0 < cb_gross_profit costs \<and> agree \<and> health = HEALTHY \<and> age \<le> pp_maximum_state_age_ms policy
      \<and> budget
      \<and> cb_inclusion_bid costs * BASIS_POINTS
          \<le> max (surplus_before_bid costs) 0 * pp_maximum_bid_fraction_bps policy
      \<and> pp_minimum_absolute_profit policy \<le> conservative_net_profit costs
      \<and> (0 < capital \<longrightarrow>
          capital * pp_minimum_return_bps policy \<le> conservative_net_profit costs * BASIS_POINTS)"
  using assms
  by (simp add: assess_profit_def Let_def del: if_split)
     (auto dest!: ProfitAssessment_post_init_Inr simp del: if_split simp: not_less not_le)

text \<open>An approved bid is never paid out of anything but surplus.\<close>

lemma approved_net_profit_nonneg:
  assumes "policy_ok policy" and "costs_ok costs"
    and "assess_profit costs policy capital age agree health budget = Inr a" and "pa_approved a"
  shows "cb_inclusion_bid costs \<le> max (surplus_before_bid costs) 0"
    and "0 \<le> conservative_net_profit costs"
proof -
  let ?s = "max (surplus_before_bid costs) 0"
  note p = policy_ok_facts [OF assms(1)]
  have r: "cb_inclusion_bid costs * BASIS_POINTS \<le> ?s * pp_maximum_bid_fraction_bps policy"
    "pp_minimum_absolute_profit policy \<le> conservative_net_profit costs"
    using assess_profit_reasons [OF assms(3)] assms(4) by auto
  have "?s * pp_maximum_bid_fraction_bps policy \<le> ?s * BASIS_POINTS"
    using p(6) by (intro mult_left_mono) auto
  with r(1) have "cb_inclusion_bid costs * BASIS_POINTS \<le> ?s * BASIS_POINTS" by linarith
  then show "cb_inclusion_bid costs \<le> ?s" by (simp add: BASIS_POINTS_def)
  from r(2) p(3) show "0 \<le> conservative_net_profit costs" by linarith
qed

end
