(* ===== verification/Rlp.thy ===== *)
theory Rlp
  imports Pybytes
begin

text \<open>
  \<open>src/aladdin_mev_engine/rlp.py\<close>: Recursive Length Prefix encoding and decoding with the
  package's depth, item and byte ceilings. The one-element list \<open>item_counter\<close> that the
  code mutates through the recursion is threaded as a number.

  Decoding is proved to be exactly the inverse of encoding: \<open>rlp_decode b\<close> returns \<open>v\<close> iff
  \<open>rlp_encode v\<close> returns \<open>b\<close>.
\<close>

datatype rlp_item = RBytes bytes | RList "rlp_item list"

definition MAX_RLP_BYTES :: nat where "MAX_RLP_BYTES = 1048576"
definition MAX_RLP_DEPTH :: nat where "MAX_RLP_DEPTH = 64"
definition MAX_RLP_ITEMS :: nat where "MAX_RLP_ITEMS = 100000"

definition length_bytes :: "nat \<Rightarrow> bytes result" where
  "length_bytes n =
    (if n = 0 then Inl (RlpError ''long-form RLP length must be positive'')
     else Inr (minimal_be (int n)))"

text \<open>The header of a payload: \<open>short\<close> is 0x80 for strings and 0xC0 for lists.\<close>

definition rlp_header :: "nat \<Rightarrow> nat \<Rightarrow> bytes result" where
  "rlp_header short n =
    (if n \<le> 55 then Inr [of_nat (short + n)]
     else rbind (length_bytes n) (\<lambda>encoded_length.
       Inr (of_nat (short + 55 + length encoded_length) # encoded_length)))"

fun rlp_encode_at :: "nat \<Rightarrow> nat \<Rightarrow> rlp_item \<Rightarrow> (bytes \<times> nat) result"
  and rlp_encode_items :: "nat \<Rightarrow> nat \<Rightarrow> nat \<Rightarrow> rlp_item list \<Rightarrow> (bytes \<times> nat) result"
where
  "rlp_encode_at depth counter (RBytes v) =
    (if MAX_RLP_DEPTH < depth then Inl (RlpError ''RLP maximum nesting depth exceeded'')
     else if MAX_RLP_ITEMS < Suc counter then Inl (RlpError ''RLP maximum item count exceeded'')
     else if MAX_RLP_BYTES < length v
     then Inl (RlpError ''RLP byte string exceeds the governed byte ceiling'')
     else if length v = 1 \<and> unat (hd v) < 0x80 then Inr (v, Suc counter)
     else rbind (rlp_header 0x80 (length v)) (\<lambda>header. Inr (header @ v, Suc counter)))"
| "rlp_encode_at depth counter (RList vs) =
    (if MAX_RLP_DEPTH < depth then Inl (RlpError ''RLP maximum nesting depth exceeded'')
     else if MAX_RLP_ITEMS < Suc counter then Inl (RlpError ''RLP maximum item count exceeded'')
     else rbind (rlp_encode_items depth (Suc counter) 0 vs) (\<lambda>(payload, counter').
       rbind (rlp_header 0xC0 (length payload)) (\<lambda>header. Inr (header @ payload, counter'))))"
| "rlp_encode_items depth counter payload_length [] = Inr ([], counter)"
| "rlp_encode_items depth counter payload_length (v # vs) =
    rbind (rlp_encode_at (Suc depth) counter v) (\<lambda>(encoded, counter').
      if MAX_RLP_BYTES < payload_length + length encoded
      then Inl (RlpError ''RLP list payload exceeds the governed byte ceiling'')
      else rbind (rlp_encode_items depth counter' (payload_length + length encoded) vs)
        (\<lambda>(rest, counter''). Inr (encoded @ rest, counter'')))"

definition rlp_encode :: "rlp_item \<Rightarrow> bytes result" where
  "rlp_encode v =
    rbind (rlp_encode_at 0 0 v) (\<lambda>(encoded, _).
      if MAX_RLP_BYTES < length encoded
      then Inl (RlpError ''RLP output exceeds the governed byte ceiling'') else Inr encoded)"

definition rlp_encode_uint :: "int \<Rightarrow> bytes result" where
  "rlp_encode_uint v =
    (if v < 0 then Inl (ValueError ''RLP integer must be a non-negative exact integer'')
     else rlp_encode (RBytes (if v = 0 then [] else minimal_be v)))"

definition read_long_length :: "bytes \<Rightarrow> nat \<Rightarrow> nat \<Rightarrow> (nat \<times> nat) result" where
  "read_long_length payload offset length_of_length =
    (let finish = offset + length_of_length in
     if length payload < finish then Inl (RlpError ''RLP length prefix exceeds input'')
     else let encoded = take length_of_length (drop offset payload) in
     if encoded = [] \<or> hd encoded = 0
     then Inl (RlpError ''RLP long length is not minimally encoded'')
     else let n = nat (from_bytes_be encoded) in
     if n < 56 then Inl (RlpError ''RLP long form used for a short payload'')
     else if MAX_RLP_BYTES < n
     then Inl (RlpError ''RLP declared payload exceeds the governed byte ceiling'')
     else Inr (n, finish))"

text \<open>
  The branches of \<open>_decode_at\<close> on the prefix byte: a string with its end, or the range of
  a list's payload. The loop over the children, which the code has twice, is
  \<open>rlp_decode_items\<close>. The fuel bounds the nesting of calls; every call and every turn of
  the loop moves the cursor, so twice the number of bytes left is enough.
\<close>

datatype rlp_head = HString bytes nat | HList nat nat

definition rlp_head_at :: "bytes \<Rightarrow> nat \<Rightarrow> rlp_head result" where
  "rlp_head_at payload offset =
    (let prefix = unat (payload ! offset) in
     if prefix \<le> 0x7F then Inr (HString [payload ! offset] (offset + 1))
     else if prefix \<le> 0xB7 then
       (let n = prefix - 0x80; start = offset + 1; finish = start + n in
        if length payload < finish then Inl (RlpError ''RLP short string is truncated'')
        else let v = take n (drop start payload) in
        if n = 1 \<and> unat (hd v) \<le> 0x7F
        then Inl (RlpError ''RLP single-byte string is not minimally encoded'')
        else Inr (HString v finish))
     else if prefix \<le> 0xBF then
       rbind (read_long_length payload (offset + 1) (prefix - 0xB7)) (\<lambda>(n, start).
         let finish = start + n in
         if length payload < finish then Inl (RlpError ''RLP long string is truncated'')
         else Inr (HString (take n (drop start payload)) finish))
     else if prefix \<le> 0xF7 then
       (let n = prefix - 0xC0; start = offset + 1; finish = start + n in
        if length payload < finish then Inl (RlpError ''RLP short list is truncated'')
        else Inr (HList start finish))
     else
       rbind (read_long_length payload (offset + 1) (prefix - 0xF7)) (\<lambda>(n, start).
         let finish = start + n in
         if length payload < finish then Inl (RlpError ''RLP long list is truncated'')
         else Inr (HList start finish)))"

fun rlp_decode_at :: "nat \<Rightarrow> bytes \<Rightarrow> nat \<Rightarrow> nat \<Rightarrow> nat \<Rightarrow> (rlp_item \<times> nat \<times> nat) result"
  and rlp_decode_items :: "nat \<Rightarrow> bytes \<Rightarrow> nat \<Rightarrow> nat \<Rightarrow> nat \<Rightarrow> nat \<Rightarrow> (rlp_item list \<times> nat) result"
where
  "rlp_decode_at 0 payload offset depth counter = Inl OutOfFuel"
| "rlp_decode_at (Suc fuel) payload offset depth counter =
    (if MAX_RLP_DEPTH < depth then Inl (RlpError ''RLP maximum nesting depth exceeded'')
     else if MAX_RLP_ITEMS < Suc counter then Inl (RlpError ''RLP maximum item count exceeded'')
     else if length payload \<le> offset then Inl (RlpError ''RLP item is truncated'')
     else rbind (rlp_head_at payload offset) (\<lambda>head.
       case head of
         HString v finish \<Rightarrow> Inr (RBytes v, finish, Suc counter)
       | HList start finish \<Rightarrow>
           rbind (rlp_decode_items fuel payload start finish depth (Suc counter))
             (\<lambda>(items, counter'). Inr (RList items, finish, counter'))))"
| "rlp_decode_items 0 payload cursor finish depth counter = Inl OutOfFuel"
| "rlp_decode_items (Suc fuel) payload cursor finish depth counter =
    (if cursor < finish then
       rbind (rlp_decode_at fuel payload cursor (Suc depth) counter) (\<lambda>(item, cursor', counter').
         if finish < cursor' then Inl (RlpError ''RLP list child exceeds its container'')
         else rbind (rlp_decode_items fuel payload cursor' finish depth counter')
           (\<lambda>(items, counter''). Inr (item # items, counter'')))
     else if cursor \<noteq> finish then Inl (RlpError ''RLP list framing is inconsistent'')
     else Inr ([], counter))"

definition rlp_decode :: "bytes \<Rightarrow> rlp_item result" where
  "rlp_decode payload =
    (if payload = [] then Inl (RlpError ''RLP payload must not be empty'')
     else if MAX_RLP_BYTES < length payload
     then Inl (RlpError ''RLP payload exceeds the governed byte ceiling'')
     else rbind (rlp_decode_at (2 * length payload + 1) payload 0 0 0) (\<lambda>(v, finish, _).
     if finish \<noteq> length payload then Inl (RlpError ''RLP payload contains trailing bytes'')
     else rbind (rlp_encode v) (\<lambda>encoded.
     if encoded \<noteq> payload then Inl (RlpError ''RLP payload is not canonical'')
     else Inr v)))"

definition rlp_decode_uint :: "bytes \<Rightarrow> nat \<Rightarrow> int result" where
  "rlp_decode_uint v maximum_bits =
    (if maximum_bits < 1 \<or> 4096 < maximum_bits
     then Inl (ValueError ''maximum_bits is outside the governed range'')
     else if v \<noteq> [] \<and> hd v = 0 then Inl (RlpError ''RLP integer has a leading zero'')
     else let parsed = (if v = [] then 0 else from_bytes_be v) in
     if maximum_bits < bit_length parsed
     then Inl (RlpError ''RLP integer exceeds the governed width'')
     else Inr parsed)"

definition require_rlp_bytes :: "string \<Rightarrow> rlp_item \<Rightarrow> bytes result" where
  "require_rlp_bytes name v =
    (case v of RBytes b \<Rightarrow> Inr b | RList _ \<Rightarrow> Inl (RlpError (name @ '' must be an RLP byte string'')))"

definition require_rlp_list :: "string \<Rightarrow> rlp_item \<Rightarrow> nat option \<Rightarrow> rlp_item list result" where
  "require_rlp_list name v expected =
    (case v of
       RBytes _ \<Rightarrow> Inl (RlpError (name @ '' must be an RLP list''))
     | RList vs \<Rightarrow>
         (case expected of
            None \<Rightarrow> Inr vs
          | Some n \<Rightarrow>
              if length vs \<noteq> n
              then Inl (RlpError (name @ '' must contain exactly '' @ str_of_nat n @ '' items''))
              else Inr vs))"

lemmas rlp_limits = MAX_RLP_BYTES_def MAX_RLP_DEPTH_def MAX_RLP_ITEMS_def

lemma require_rlp_bytes_Inr [simp]: "require_rlp_bytes n v = Inr b \<longleftrightarrow> v = RBytes b"
  by (cases v) (auto simp: require_rlp_bytes_def)

lemma require_rlp_list_Inr [simp]:
  "require_rlp_list n v e = Inr vs \<longleftrightarrow> v = RList vs \<and> (case e of None \<Rightarrow> True | Some k \<Rightarrow> length vs = k)"
  by (cases v) (auto simp: require_rlp_list_def split: option.splits)

subsection \<open>Headers\<close>

lemma length_minimal_be_le: "n \<le> MAX_RLP_BYTES \<Longrightarrow> length (minimal_be (int n)) \<le> 3"
proof -
  assume "n \<le> MAX_RLP_BYTES"
  then have "int n < 256 ^ 3" by (simp add: MAX_RLP_BYTES_def)
  then show ?thesis by (simp add: minimal_be_def byte_width_le_iff)
qed

lemma minimal_be_pos: "0 < n \<Longrightarrow> minimal_be (int n) \<noteq> [] \<and> hd (minimal_be (int n)) \<noteq> 0"
  using minimal_be_Nil_iff [of "int n"] hd_minimal_be [of "int n"] by auto

lemma drop_append_length:
  assumes "drop offset payload = xs @ ys" "xs \<noteq> []"
  shows "length payload = offset + length xs + length ys"
    and "drop (offset + length xs) payload = ys"
proof -
  have "offset < length payload" using assms by (metis append_is_Nil_conv drop_all not_less)
  moreover have "length payload - offset = length xs + length ys"
    using assms(1) by (metis length_append length_drop)
  ultimately show "length payload = offset + length xs + length ys" by simp
  have "drop (offset + length xs) payload = drop (length xs) (drop offset payload)"
    by (simp add: add.commute)
  then show "drop (offset + length xs) payload = ys" by (simp add: assms(1))
qed

lemma read_long_length_ok:
  assumes "drop offset payload = minimal_be (int n) @ rest" "56 \<le> n" "n \<le> MAX_RLP_BYTES"
  shows "read_long_length payload offset (length (minimal_be (int n)))
    = Inr (n, offset + length (minimal_be (int n)))"
proof -
  have pos: "minimal_be (int n) \<noteq> []" "hd (minimal_be (int n)) \<noteq> 0"
    using minimal_be_pos [of n] assms(2) by auto
  note len = drop_append_length(1) [OF assms(1) pos(1)]
  have "nat (from_bytes_be (minimal_be (int n))) = n" by (simp add: from_minimal_be)
  then show ?thesis
    using assms pos len by (simp add: read_long_length_def Let_def)
qed

lemma rlp_header_cases:
  assumes "rlp_header short n = Inr header"
  obtains (short) "n \<le> 55" "header = [of_nat (short + n)]"
  | (long) "55 < n" "header = of_nat (short + 55 + length (minimal_be (int n))) # minimal_be (int n)"
  using assms by (auto simp: rlp_header_def length_bytes_def split: if_splits)

lemma rlp_header_not_Nil: "rlp_header short n = Inr header \<Longrightarrow> header \<noteq> []"
  by (erule rlp_header_cases) auto

lemma nth_drop_Cons: "drop offset payload = x # xs \<Longrightarrow> payload ! offset = x"
  by (metis drop_eq_Nil list.discI nth_via_drop)

lemma drop_Suc_Cons: "drop offset payload = x # xs \<Longrightarrow> drop (offset + 1) payload = xs"
  by (metis Suc_eq_plus1 drop_Suc list.sel(3) tl_drop)

lemma rlp_head_at_string:
  assumes header: "rlp_header 0x80 (length v) = Inr header" and v: "length v \<le> MAX_RLP_BYTES"
    and long: "\<not> (length v = 1 \<and> unat (hd v) < 0x80)"
    and at: "drop offset payload = header @ v @ rest"
  shows "rlp_head_at payload offset = Inr (HString v (offset + length header + length v))"
  using header
proof (cases rule: rlp_header_cases)
  case short
  have x: "payload ! offset = of_nat (0x80 + length v)" and vs: "drop (offset + 1) payload = v @ rest"
    using at short by (auto dest: nth_drop_Cons drop_Suc_Cons)
  have "unat (payload ! offset) = 0x80 + length v"
    unfolding x using short by (intro unat_of_nat_byte) simp
  moreover have "offset + 1 + length v \<le> length payload"
    using drop_append_length(1) [OF at] short by simp
  ultimately show ?thesis
    using short long vs by (auto simp: rlp_head_at_def Let_def)
next
  case long
  let ?k = "length (minimal_be (int (length v)))"
  have k: "?k \<le> 3" "0 < ?k"
    using length_minimal_be_le [OF v] minimal_be_pos [of "length v"] long by force+
  have x: "payload ! offset = of_nat (0x80 + 55 + ?k)"
    and ms: "drop (offset + 1) payload = minimal_be (int (length v)) @ v @ rest"
    using at long by (auto dest: nth_drop_Cons drop_Suc_Cons)
  have prefix: "unat (payload ! offset) = 0x80 + 55 + ?k"
    unfolding x using k by (intro unat_of_nat_byte) simp
  have "read_long_length payload (offset + 1) ?k = Inr (length v, offset + 1 + ?k)"
    using long v by (intro read_long_length_ok [OF ms]) auto
  moreover have "drop (offset + 1 + ?k) payload = v @ rest"
    using drop_append_length(2) [OF ms] k by auto
  moreover have "offset + 1 + ?k + length v \<le> length payload"
    using drop_append_length(1) [OF at] long by simp
  ultimately show ?thesis
    using prefix k long by (simp add: rlp_head_at_def Let_def)
qed

lemma rlp_head_at_list:
  assumes header: "rlp_header 0xC0 (length p) = Inr header" and p: "length p \<le> MAX_RLP_BYTES"
    and at: "drop offset payload = header @ p @ rest"
  shows "rlp_head_at payload offset = Inr (HList (offset + length header) (offset + length header + length p))"
  using header
proof (cases rule: rlp_header_cases)
  case short
  have x: "payload ! offset = of_nat (0xC0 + length p)"
    using at short by (auto dest: nth_drop_Cons)
  have "unat (payload ! offset) = 0xC0 + length p"
    unfolding x using short by (intro unat_of_nat_byte) simp
  moreover have "offset + 1 + length p \<le> length payload"
    using drop_append_length(1) [OF at] short by simp
  ultimately show ?thesis
    using short by (auto simp: rlp_head_at_def Let_def)
next
  case long
  let ?k = "length (minimal_be (int (length p)))"
  have k: "?k \<le> 3" "0 < ?k"
    using length_minimal_be_le [OF p] minimal_be_pos [of "length p"] long by force+
  have x: "payload ! offset = of_nat (0xC0 + 55 + ?k)"
    and ms: "drop (offset + 1) payload = minimal_be (int (length p)) @ p @ rest"
    using at long by (auto dest: nth_drop_Cons drop_Suc_Cons)
  have prefix: "unat (payload ! offset) = 0xC0 + 55 + ?k"
    unfolding x using k by (intro unat_of_nat_byte) simp
  have "read_long_length payload (offset + 1) ?k = Inr (length p, offset + 1 + ?k)"
    using long p by (intro read_long_length_ok [OF ms]) auto
  moreover have "offset + 1 + ?k + length p \<le> length payload"
    using drop_append_length(1) [OF at] long by simp
  ultimately show ?thesis
    using prefix k long by (simp add: rlp_head_at_def Let_def)
qed

subsection \<open>Decoding inverts encoding\<close>

definition decodes_to :: "nat \<Rightarrow> nat \<Rightarrow> rlp_item \<Rightarrow> bytes \<Rightarrow> nat \<Rightarrow> bool" where
  "decodes_to depth counter v encoded counter' \<longleftrightarrow>
    encoded \<noteq> [] \<and>
    (\<forall>payload offset rest fuel. drop offset payload = encoded @ rest \<longrightarrow> 2 * length encoded \<le> fuel \<longrightarrow>
      rlp_decode_at fuel payload offset depth counter = Inr (v, offset + length encoded, counter'))"

definition items_decode_to :: "nat \<Rightarrow> nat \<Rightarrow> nat \<Rightarrow> rlp_item list \<Rightarrow> bytes \<Rightarrow> nat \<Rightarrow> bool" where
  "items_decode_to depth counter payload_length vs encoded counter' \<longleftrightarrow>
    (vs \<noteq> [] \<longrightarrow> payload_length + length encoded \<le> MAX_RLP_BYTES) \<and>
    (\<forall>payload cursor rest fuel. drop cursor payload = encoded @ rest \<longrightarrow> 2 * length encoded + 1 \<le> fuel \<longrightarrow>
      rlp_decode_items fuel payload cursor (cursor + length encoded) depth counter = Inr (vs, counter'))"

lemma decodes_to_bytes:
  assumes enc: "rlp_encode_at depth counter (RBytes v) = Inr (e, counter')"
  shows "decodes_to depth counter (RBytes v) e counter'"
proof -
  have ok: "\<not> MAX_RLP_DEPTH < depth" "\<not> MAX_RLP_ITEMS < Suc counter" "length v \<le> MAX_RLP_BYTES"
    "counter' = Suc counter"
    using enc by (auto split: if_splits)
  show ?thesis
  proof (cases "length v = 1 \<and> unat (hd v) < 0x80")
    case True
    then obtain b where v: "v = [b]" "unat b < 0x80" by (cases v) auto
    then have e: "e = [b]" using enc by (auto split: if_splits)
    have "rlp_decode_at fuel payload offset depth counter = Inr (RBytes v, offset + length e, counter')"
      if at: "drop offset payload = e @ rest" and fuel: "2 * length e \<le> fuel" for payload offset rest fuel
    proof -
      from fuel obtain f where f: "fuel = Suc f" by (cases fuel) (auto simp: e)
      have b: "payload ! offset = b" using at e by (auto dest: nth_drop_Cons)
      have "offset < length payload" using drop_append_length(1) [OF at] e by simp
      then show ?thesis using ok v b by (simp add: f e rlp_head_at_def Let_def)
    qed
    then show ?thesis using e by (simp add: decodes_to_def)
  next
    case False
    then obtain header where header: "rlp_header 0x80 (length v) = Inr header" and e: "e = header @ v"
      using enc by (auto split: if_splits)
    have ne: "header \<noteq> []" using header by (rule rlp_header_not_Nil)
    have "rlp_decode_at fuel payload offset depth counter = Inr (RBytes v, offset + length e, counter')"
      if at: "drop offset payload = e @ rest" and fuel: "2 * length e \<le> fuel" for payload offset rest fuel
    proof -
      from fuel obtain f where f: "fuel = Suc f" using ne by (cases fuel) (auto simp: e)
      have "rlp_head_at payload offset = Inr (HString v (offset + length header + length v))"
        using at by (intro rlp_head_at_string [OF header ok(3) False, where rest = rest]) (simp add: e)
      moreover have "offset < length payload" using drop_append_length(1) [OF at] e ne by simp
      ultimately show ?thesis using ok by (simp add: f e)
    qed
    then show ?thesis using e ne by (simp add: decodes_to_def)
  qed
qed

lemma decodes_to_list:
  assumes enc: "rlp_encode_at depth counter (RList vs) = Inr (e, counter')"
    and items: "\<And>p c. rlp_encode_items depth (Suc counter) 0 vs = Inr (p, c) \<Longrightarrow>
      items_decode_to depth (Suc counter) 0 vs p c"
  shows "decodes_to depth counter (RList vs) e counter'"
proof -
  have ok: "\<not> MAX_RLP_DEPTH < depth" "\<not> MAX_RLP_ITEMS < Suc counter"
    using enc by (auto split: if_splits)
  obtain p header where p: "rlp_encode_items depth (Suc counter) 0 vs = Inr (p, counter')"
    and header: "rlp_header 0xC0 (length p) = Inr header" and e: "e = header @ p"
    using enc by (auto split: if_splits)
  have ne: "header \<noteq> []" using header by (rule rlp_header_not_Nil)
  note sub = items [OF p, unfolded items_decode_to_def]
  have max: "length p \<le> MAX_RLP_BYTES" using sub p by (cases vs) auto
  have "rlp_decode_at fuel payload offset depth counter = Inr (RList vs, offset + length e, counter')"
    if at: "drop offset payload = e @ rest" and fuel: "2 * length e \<le> fuel" for payload offset rest fuel
  proof -
    from fuel obtain f where f: "fuel = Suc f" using ne by (cases fuel) (auto simp: e)
    have at': "drop offset payload = header @ p @ rest" using at by (simp add: e)
    have "rlp_head_at payload offset = Inr (HList (offset + length header) (offset + length header + length p))"
      by (rule rlp_head_at_list [OF header max at'])
    moreover have "2 * length p + 1 \<le> f" using fuel ne by (cases header) (auto simp: e f)
    then have "rlp_decode_items f payload (offset + length header) (offset + length header + length p)
        depth (Suc counter) = Inr (vs, counter')"
      using sub drop_append_length(2) [OF at' ne] by blast
    moreover have "offset < length payload" using drop_append_length(1) [OF at] e ne by simp
    ultimately show ?thesis using ok by (simp add: f e)
  qed
  then show ?thesis using e ne by (simp add: decodes_to_def)
qed

lemma items_decode_to_Cons:
  assumes v: "decodes_to (Suc depth) counter v e c" and max: "payload_length + length e \<le> MAX_RLP_BYTES"
    and vs: "items_decode_to depth c (payload_length + length e) vs r counter'"
    and nil: "vs = [] \<Longrightarrow> r = []"
  shows "items_decode_to depth counter payload_length (v # vs) (e @ r) counter'"
proof -
  have ne: "e \<noteq> []" using v by (simp add: decodes_to_def)
  have "payload_length + length (e @ r) \<le> MAX_RLP_BYTES"
    using vs max nil by (cases "vs = []") (auto simp: items_decode_to_def)
  moreover have "rlp_decode_items fuel payload cursor (cursor + length (e @ r)) depth counter = Inr (v # vs, counter')"
    if at: "drop cursor payload = (e @ r) @ rest" and fuel: "2 * length (e @ r) + 1 \<le> fuel"
    for payload cursor rest fuel
  proof -
    from fuel obtain f where f: "fuel = Suc f" by (cases fuel) auto
    have at': "drop cursor payload = e @ r @ rest" using at by simp
    have "rlp_decode_at f payload cursor (Suc depth) counter = Inr (v, cursor + length e, c)"
      using v at' fuel by (auto simp: decodes_to_def f)
    moreover have "2 * length r + 1 \<le> f" using fuel ne by (cases e) (auto simp: f)
    then have "rlp_decode_items f payload (cursor + length e) (cursor + length e + length r) depth c = Inr (vs, counter')"
      using vs drop_append_length(2) [OF at' ne] by (auto simp: items_decode_to_def)
    ultimately show ?thesis using ne by (simp add: f add.assoc)
  qed
  ultimately show ?thesis by (simp add: items_decode_to_def)
qed

lemma rlp_encode_decode:
  "rlp_encode_at depth counter v = Inr (e, counter') \<Longrightarrow> decodes_to depth counter v e counter'"
  "rlp_encode_items depth counter payload_length vs = Inr (e, counter') \<Longrightarrow>
    items_decode_to depth counter payload_length vs e counter'"
proof (induction depth counter v and depth counter payload_length vs arbitrary: e counter' and e counter'
    rule: rlp_encode_at_rlp_encode_items.induct)
  case (1 depth counter v)
  then show ?case by (rule decodes_to_bytes)
next
  case (2 depth counter vs)
  have ok: "\<not> MAX_RLP_DEPTH < depth" "\<not> MAX_RLP_ITEMS < Suc counter"
    using "2.prems" by (auto split: if_splits)
  show ?case
    by (rule decodes_to_list [OF "2.prems"]) (rule "2.IH" [OF ok])
next
  case (3 depth counter payload_length)
  have "rlp_decode_items fuel payload cursor cursor depth counter = Inr ([], counter)" if "1 \<le> fuel"
    for fuel payload cursor using that by (cases fuel) auto
  with 3 show ?case by (auto simp: items_decode_to_def)
next
  case (4 depth counter payload_length v vs)
  from "4.prems" obtain x c r where x: "rlp_encode_at (Suc depth) counter v = Inr (x, c)"
    and max: "\<not> MAX_RLP_BYTES < payload_length + length x"
    and r: "rlp_encode_items depth c (payload_length + length x) vs = Inr (r, counter')" and e: "e = x @ r"
    by (auto split: if_splits)
  have "decodes_to (Suc depth) counter v x c" by (rule "4.IH"(1) [OF x])
  moreover have "items_decode_to depth c (payload_length + length x) vs r counter'"
    by (rule "4.IH"(2) [OF x refl max r])
  moreover have "vs = [] \<Longrightarrow> r = []" using r by simp
  ultimately show ?case using max unfolding e by (intro items_decode_to_Cons) auto
qed

lemma rlp_encode_not_Nil: "rlp_encode v = Inr b \<Longrightarrow> b \<noteq> []"
  using rlp_encode_decode(1) by (fastforce simp: rlp_encode_def decodes_to_def split: if_splits)

lemma rlp_decode_encode:
  assumes "rlp_encode v = Inr b"
  shows "rlp_decode b = Inr v"
proof -
  from assms obtain c where c: "rlp_encode_at 0 0 v = Inr (b, c)" and max: "length b \<le> MAX_RLP_BYTES"
    by (auto simp: rlp_encode_def split: if_splits)
  have "drop 0 b = b @ []" by simp
  then have "rlp_decode_at (2 * length b + 1) b 0 0 0 = Inr (v, 0 + length b, c)"
    using rlp_encode_decode(1) [OF c] unfolding decodes_to_def by (metis le_add1)
  then show ?thesis using assms max rlp_encode_not_Nil [OF assms] by (simp add: rlp_decode_def)
qed

lemma rlp_decode_Inr: "rlp_decode b = Inr v \<longleftrightarrow> rlp_encode v = Inr b"
proof
  assume "rlp_decode b = Inr v"
  then show "rlp_encode v = Inr b" by (auto simp: rlp_decode_def split: if_splits)
qed (rule rlp_decode_encode)

interpretation rlp: codec rlp_encode rlp_decode
  by unfold_locales (rule rlp_decode_Inr)

subsection \<open>Integers\<close>

lemma rlp_decode_uint_Inr:
  assumes "1 \<le> bits" "bits \<le> 4096"
  shows "rlp_decode_uint b bits = Inr n \<longleftrightarrow> 0 \<le> n \<and> n < 2 ^ bits \<and> b = minimal_be n"
proof (cases "b = []")
  case True
  have "bit_length 0 = 0" by (simp add: bit_length.simps)
  with True assms show ?thesis
    using minimal_be_Nil_iff [of n] by (auto simp: rlp_decode_uint_def)
next
  case False
  have nonneg: "0 \<le> from_bytes_be b" using from_bytes_be_bounds by blast
  show ?thesis
  proof
    assume "rlp_decode_uint b bits = Inr n"
    with False assms nonneg show "0 \<le> n \<and> n < 2 ^ bits \<and> b = minimal_be n"
      by (auto simp: rlp_decode_uint_def Let_def bit_length_le_iff not_less minimal_from_be split: if_splits)
  next
    assume n: "0 \<le> n \<and> n < 2 ^ bits \<and> b = minimal_be n"
    then have "0 < n" using False by (cases "n = 0") auto
    with n False assms show "rlp_decode_uint b bits = Inr n"
      by (simp add: rlp_decode_uint_def Let_def from_minimal_be bit_length_le_iff hd_minimal_be not_less)
  qed
qed

subsection \<open>The decoder is total\<close>

definition only_rlp_errors :: "'a result \<Rightarrow> bool" where
  "only_rlp_errors r \<longleftrightarrow> (case r of Inl (RlpError _) \<Rightarrow> True | Inl _ \<Rightarrow> False | Inr _ \<Rightarrow> True)"

lemma only_rlp_errors_simps [simp]:
  "only_rlp_errors (Inr x)" "only_rlp_errors (Inl (RlpError m))" "\<not> only_rlp_errors (Inl OutOfFuel)"
  by (simp_all add: only_rlp_errors_def)

lemma only_rlp_errors_rbind:
  "only_rlp_errors m \<Longrightarrow> (\<And>x. m = Inr x \<Longrightarrow> only_rlp_errors (f x)) \<Longrightarrow> only_rlp_errors (rbind m f)"
  by (cases m) (auto simp: only_rlp_errors_def split: py_error.splits)

lemma rlp_header_errors: "only_rlp_errors (rlp_header short n)"
  by (auto simp: rlp_header_def length_bytes_def)

lemma rlp_encode_errors:
  "only_rlp_errors (rlp_encode_at depth counter v)"
  "only_rlp_errors (rlp_encode_items depth counter payload_length vs)"
proof (induction depth counter v and depth counter payload_length vs
    rule: rlp_encode_at_rlp_encode_items.induct)
  case (1 depth counter v)
  then show ?case by (auto intro!: only_rlp_errors_rbind rlp_header_errors)
next
  case (2 depth counter vs)
  then show ?case by (auto intro!: only_rlp_errors_rbind rlp_header_errors)
next
  case (4 depth counter payload_length v vs)
  then show ?case by (auto intro!: only_rlp_errors_rbind split: prod.splits)
qed simp

lemma read_long_length_errors: "only_rlp_errors (read_long_length payload offset k)"
  by (auto simp: read_long_length_def Let_def)

lemma rlp_head_at_errors: "only_rlp_errors (rlp_head_at payload offset)"
  by (auto simp: rlp_head_at_def Let_def intro!: only_rlp_errors_rbind read_long_length_errors)

definition head_bounds :: "bytes \<Rightarrow> nat \<Rightarrow> rlp_head \<Rightarrow> bool" where
  "head_bounds payload offset head \<longleftrightarrow>
    (case head of HString v finish \<Rightarrow> offset < finish \<and> finish \<le> length payload
     | HList start finish \<Rightarrow> offset < start \<and> start \<le> finish \<and> finish \<le> length payload)"

lemma rlp_head_at_bounds:
  assumes "rlp_head_at payload offset = Inr head" "offset < length payload"
  shows "head_bounds payload offset head"
proof -
  have "offset \<le> start" if "read_long_length payload offset k = Inr (n, start)" for offset k n start
    using that by (auto simp: read_long_length_def Let_def split: if_splits)
  then have "offset < start" if "read_long_length payload (Suc offset) k = Inr (n, start)" for k n start
    using that by (metis less_eq_Suc_le)
  then show ?thesis
    using assms by (auto simp: rlp_head_at_def head_bounds_def Let_def trans_less_add1 split: if_splits)
qed

lemma rlp_decode_at_moves:
  "rlp_decode_at fuel payload offset depth counter = Inr (v, finish, c) \<Longrightarrow> offset < finish"
proof (induction fuel)
  case (Suc fuel)
  then obtain head where head: "rlp_head_at payload offset = Inr head" "offset < length payload"
    by (auto split: if_splits)
  with Suc.prems rlp_head_at_bounds [OF head] show ?case
    by (auto simp: head_bounds_def split: if_splits rlp_head.splits)
qed simp

text \<open>Twice the bytes left is fuel enough, so the only errors are those of the code.\<close>

lemma rlp_decode_fuel:
  "2 * (length payload - offset) + 1 \<le> fuel \<Longrightarrow>
    only_rlp_errors (rlp_decode_at fuel payload offset depth counter)"
  "finish \<le> length payload \<Longrightarrow> 2 * (length payload - cursor) + 2 \<le> fuel \<Longrightarrow>
    only_rlp_errors (rlp_decode_items fuel payload cursor finish depth counter)"
proof (induction fuel payload offset depth counter and fuel payload cursor finish depth counter
    rule: rlp_decode_at_rlp_decode_items.induct)
  case (2 fuel payload offset depth counter)
  have sub: "only_rlp_errors (rlp_decode_items fuel payload start finish depth (Suc counter))"
    if ok: "\<not> MAX_RLP_DEPTH < depth" "\<not> MAX_RLP_ITEMS < Suc counter" "\<not> length payload \<le> offset"
      and head: "rlp_head_at payload offset = Inr (HList start finish)" for start finish
  proof -
    have "head_bounds payload offset (HList start finish)"
      using head ok(3) by (intro rlp_head_at_bounds) auto
    then show ?thesis
      using ok(3) "2.prems" by (intro "2.IH" [OF ok head refl]) (auto simp: head_bounds_def)
  qed
  then show ?case
    by (auto intro!: only_rlp_errors_rbind rlp_head_at_errors split: rlp_head.split)
next
  case (4 fuel payload cursor finish depth counter)
  show ?case
  proof (cases "cursor < finish")
    case True
    have "only_rlp_errors (rlp_decode_at fuel payload cursor (Suc depth) counter)"
      using "4.prems" True by (intro "4.IH"(1)) auto
    moreover have "only_rlp_errors (rlp_decode_items fuel payload cursor' finish depth counter')"
      if item: "rlp_decode_at fuel payload cursor (Suc depth) counter = Inr (x, cursor', counter')"
        and "\<not> finish < cursor'" for x cursor' counter'
      using "4.prems" True rlp_decode_at_moves [OF item] that
      by (intro "4.IH"(2) [OF True item refl refl]) auto
    ultimately show ?thesis
      using True by (auto intro!: only_rlp_errors_rbind)
  qed auto
qed auto

lemma rlp_decode_errors: "only_rlp_errors (rlp_decode b)"
proof -
  have "only_rlp_errors (rlp_decode_at (2 * length b + 1) b 0 0 0)" by (rule rlp_decode_fuel) simp
  moreover have "only_rlp_errors (rlp_encode v)" for v
    by (auto simp: rlp_encode_def intro!: only_rlp_errors_rbind rlp_encode_errors)
  ultimately show ?thesis
    unfolding rlp_decode_def by (auto simp del: rlp_decode_at.simps intro!: only_rlp_errors_rbind)
qed

end
