(* ===== verification/Mpt.thy ===== *)
theory Mpt
  imports Hashes Rlp Pydict
begin

text \<open>
  \<open>src/aladdin_mev_engine/mpt.py\<close>: verification of Merkle-Patricia-Trie proofs. Nibbles are
  naturals below 16. The local variables of \<open>verify_mpt_proof\<close> that its closure \<open>resolve\<close>
  mutates (\<open>used_hashes\<close>, \<open>visited_references\<close>) are passed and returned.
\<close>

definition MAX_PROOF_NODES :: nat where "MAX_PROOF_NODES = 256"
definition MAX_PROOF_NODE_BYTES :: nat where "MAX_PROOF_NODE_BYTES = 65536"
definition MAX_PROOF_TOTAL_BYTES :: nat where "MAX_PROOF_TOTAL_BYTES = 1048576"
definition MAX_MPT_KEY_BYTES :: nat where "MAX_MPT_KEY_BYTES = 64"
definition MAX_EMBEDDED_NODE_DEPTH :: nat where "MAX_EMBEDDED_NODE_DEPTH = 32"

text \<open>\<open>keccak256(rlp_encode(b""))\<close>; the encoding cannot fail: it is the byte 0x80.\<close>

definition EMPTY_TRIE_ROOT :: bytes where
  "EMPTY_TRIE_ROOT = (case rlp_encode (RBytes []) of Inr encoded \<Rightarrow> keccak256 encoded | Inl _ \<Rightarrow> [])"

lemma EMPTY_TRIE_ROOT_eq: "EMPTY_TRIE_ROOT = keccak256 [0x80]"
proof -
  have "rlp_encode (RBytes []) = Inr [0x80]" by (simp add: rlp_encode_def rlp_header_def rlp_limits)
  then show ?thesis by (simp add: EMPTY_TRIE_ROOT_def)
qed

datatype mpt_terminal =
    FOUND_LEAF | FOUND_BRANCH_VALUE | ABSENT_EMPTY_TRIE | ABSENT_BRANCH_CHILD
  | ABSENT_BRANCH_VALUE | ABSENT_PATH_DIVERGENCE | ABSENT_LEAF_REMAINDER

fun mpt_terminal_value :: "mpt_terminal \<Rightarrow> string" where
  "mpt_terminal_value FOUND_LEAF = ''found-leaf''"
| "mpt_terminal_value FOUND_BRANCH_VALUE = ''found-branch-value''"
| "mpt_terminal_value ABSENT_EMPTY_TRIE = ''absent-empty-trie''"
| "mpt_terminal_value ABSENT_BRANCH_CHILD = ''absent-branch-child''"
| "mpt_terminal_value ABSENT_BRANCH_VALUE = ''absent-branch-value''"
| "mpt_terminal_value ABSENT_PATH_DIVERGENCE = ''absent-path-divergence''"
| "mpt_terminal_value ABSENT_LEAF_REMAINDER = ''absent-leaf-remainder''"

definition FOUND_TERMINALS :: "mpt_terminal set" where
  "FOUND_TERMINALS = {FOUND_LEAF, FOUND_BRANCH_VALUE}"

record mpt_proof_result =
  mp_found :: bool
  mp_value :: "bytes option"
  mp_terminal :: mpt_terminal
  mp_used_node_hashes :: "string list"

definition MptProofResult_post_init :: "mpt_proof_result \<Rightarrow> mpt_proof_result result" where
  "MptProofResult_post_init self =
    (if mp_found self \<noteq> (mp_value self \<noteq> None) then Inl (ValueError ''found/value state is inconsistent'')
     else if mp_found self \<noteq> (mp_terminal self \<in> FOUND_TERMINALS)
     then Inl (ValueError ''found/terminal state is inconsistent'')
     else if \<not> list_all is_sha256_text (mp_used_node_hashes self)
     then Inl (ValueError ''used_node_hashes contains a non-canonical digest'')
     else if has_duplicate (mp_used_node_hashes self)
     then Inl (ValueError ''used_node_hashes contains a duplicate'')
     else if mp_terminal self = ABSENT_EMPTY_TRIE then
       (if mp_used_node_hashes self \<noteq> [] then Inl (ValueError ''empty-trie proof cannot use nodes'')
        else Inr self)
     else if mp_used_node_hashes self = []
     then Inl (ValueError ''non-empty trie proof must authenticate at least the root node'')
     else Inr self)"

subsection \<open>Nibbles and hex-prefix paths\<close>

fun bytes_to_nibbles :: "bytes \<Rightarrow> nat list" where
  "bytes_to_nibbles [] = []"
| "bytes_to_nibbles (b # bs) = unat b div 16 # unat b mod 16 # bytes_to_nibbles bs"

fun pair_nibbles :: "nat list \<Rightarrow> bytes" where
  "pair_nibbles (a # b # ns) = of_nat (16 * a + b) # pair_nibbles ns"
| "pair_nibbles _ = []"

definition nibbles_to_bytes :: "nat list \<Rightarrow> bytes result" where
  "nibbles_to_bytes nibbles =
    (if \<not> list_all (\<lambda>n. n \<le> 15) nibbles
     then Inl (ValueError ''nibbles must be an exact tuple of values in [0, 15]'')
     else if odd (length nibbles) then Inl (ValueError ''nibble sequence must have even length'')
     else Inr (pair_nibbles nibbles))"

definition hex_prefix_encode :: "nat list \<Rightarrow> bool \<Rightarrow> bytes result" where
  "hex_prefix_encode path is_leaf =
    (if \<not> list_all (\<lambda>n. n \<le> 15) path then Inl (ValueError ''path must be an exact tuple of nibbles'')
     else let flag = (if is_leaf then 2 else 0) + length path mod 2 in
     nibbles_to_bytes (if odd (length path) then flag # path else flag # 0 # path))"

definition hex_prefix_decode :: "bytes \<Rightarrow> (bool \<times> nat list) result" where
  "hex_prefix_decode encoded =
    (if encoded = [] then Inl (ValueError ''hex-prefix path must be non-empty exact bytes'')
     else let nibbles = bytes_to_nibbles encoded; flag = nibbles ! 0 in
     if flag \<notin> {0, 1, 2, 3} then Inl (ValueError ''hex-prefix path has an invalid flag nibble'')
     else let is_leaf = 2 \<le> flag in
     rbind
       (if odd flag then Inr (drop 1 nibbles)
        else if length nibbles < 2 \<or> nibbles ! 1 \<noteq> 0
        then Inl (ValueError ''even hex-prefix path lacks its zero padding nibble'')
        else Inr (drop 2 nibbles)) (\<lambda>path.
     rbind (hex_prefix_encode path is_leaf) (\<lambda>again.
     if again \<noteq> encoded then Inl (ValueError ''hex-prefix path is not canonical'')
     else Inr (is_leaf, path))))"

subsection \<open>Node shapes\<close>

function validate_child_reference :: "string \<Rightarrow> rlp_item \<Rightarrow> nat \<Rightarrow> unit result"
  and validate_decoded_node_shape :: "rlp_item \<Rightarrow> nat \<Rightarrow> rlp_item list result"
where
  "validate_child_reference name reference depth =
    (case reference of
       RBytes b \<Rightarrow>
         if length b \<in> {0, 32} then Inr ()
         else Inl (ValueError (name @ '' must be empty, a 32-byte hash, or an embedded RLP list''))
     | RList _ \<Rightarrow>
         rbind (rlp_encode reference) (\<lambda>encoded.
         if 32 \<le> length encoded then Inl (ValueError (name @ '' is an oversized embedded trie node''))
         else rbind (validate_decoded_node_shape reference (Suc depth)) (\<lambda>_. Inr ())))"
| "validate_decoded_node_shape node depth =
    (if MAX_EMBEDDED_NODE_DEPTH < depth
     then Inl (ValueError ''embedded trie-node depth exceeds the governed ceiling'')
     else (case node of
       RBytes _ \<Rightarrow> Inl (RlpError ''trie node must be an RLP list'')
     | RList vals \<Rightarrow>
         if length vals = 17 then
           rbind (rall (\<lambda>(index, child). validate_child_reference (''branch child '' @ str_of_nat index) child depth)
             (enumerate 0 (take 16 vals))) (\<lambda>_.
           rbind (require_rlp_bytes ''branch value'' (vals ! 16)) (\<lambda>_. Inr vals))
         else if length vals = 2 then
           rbind (require_rlp_bytes ''compact path'' (vals ! 0)) (\<lambda>encoded_path.
           rbind (hex_prefix_decode encoded_path) (\<lambda>(is_leaf, path).
           if is_leaf then rbind (require_rlp_bytes ''leaf value'' (vals ! 1)) (\<lambda>_. Inr vals)
           else if path = [] then Inl (ValueError ''extension path must not be empty'')
           else if vals ! 1 = RBytes []
           then Inl (ValueError ''extension child reference must not be empty'')
           else rbind (validate_child_reference ''extension child reference'' (vals ! 1) depth) (\<lambda>_. Inr vals)))
         else Inl (ValueError ''trie node must be a 17-item branch or 2-item leaf/extension'')))"
  by pat_completeness auto

lemma size_item_less: "x \<in> set vs \<Longrightarrow> size x < size (RList vs)"
  by (induction vs) auto

termination validate_child_reference
proof (relation "measure (case_sum (\<lambda>(_, r, _). 2 * size r + 1) (\<lambda>(n, _). 2 * size n))", goal_cases)
  case (3 node depth vals item index child)
  then have "size child < size (RList vals)"
    by (intro size_item_less) (auto simp: enumerate_eq_zip dest!: set_zip_rightD in_set_takeD)
  with 3 show ?case by simp
next
  case (4 node depth vals)
  then have "size (vals ! 1) < size (RList vals)" by (intro size_item_less) simp
  with 4 show ?case by simp
qed auto

declare validate_child_reference.simps [simp del] validate_decoded_node_shape.simps [simp del]

definition validate_node_shape :: "bytes \<Rightarrow> (rlp_item list) result" where
  "validate_node_shape encoded =
    (if encoded = [] then Inl (ValueError ''proof node must not be empty'')
     else if MAX_PROOF_NODE_BYTES < length encoded
     then Inl (ValueError ''proof node exceeds the governed byte ceiling'')
     else rbind (rlp_decode encoded) (\<lambda>node. validate_decoded_node_shape node 0))"

subsection \<open>The traversal\<close>

type_synonym node_store = "(bytes, bytes \<times> rlp_item list) dict"

text \<open>The loop that indexes the proof's nodes by their hash, in order.\<close>

definition index_node :: "node_store \<times> bytes list \<Rightarrow> bytes \<Rightarrow> (node_store \<times> bytes list) result" where
  "index_node state encoded =
    (case state of (by_hash, ordered_hashes) \<Rightarrow>
     rbind (validate_node_shape encoded) (\<lambda>decoded.
     let digest = keccak256 encoded in
     if dict_get by_hash digest \<noteq> None then Inl (ValueError ''proof contains a duplicate node hash'')
     else Inr (dict_set digest (encoded, decoded) by_hash, ordered_hashes @ [digest])))"

definition mpt_resolve ::
  "node_store \<Rightarrow> bytes list \<Rightarrow> bytes list \<Rightarrow> rlp_item \<Rightarrow> (rlp_item list \<times> bytes list \<times> bytes list) result" where
  "mpt_resolve by_hash used visited ref =
    (case ref of
       RList _ \<Rightarrow>
         rbind (rlp_encode ref) (\<lambda>encoded.
         if 32 \<le> length encoded then Inl (ValueError ''embedded trie reference is oversized'')
         else rbind (validate_decoded_node_shape ref 1) (\<lambda>values. Inr (values, used, visited)))
     | RBytes h \<Rightarrow>
         if h = [] then Inl (ValueError ''empty child reference cannot be resolved'')
         else if length h \<noteq> 32
         then Inl (ValueError ''trie byte-string reference must be empty or a 32-byte hash'')
         else if h \<in> set visited then Inl (ValueError ''proof contains a reference cycle'')
         else (case dict_get by_hash h of
             None \<Rightarrow> Inl (ValueError ''proof is missing a referenced node'')
           | Some (encoded, decoded) \<Rightarrow>
             if used \<noteq> [] \<and> length encoded < 32
             then Inl (ValueError ''hashed child trie node shorter than 32 bytes must be embedded'')
             else Inr (decoded, used @ [h], h # visited)))"

definition mpt_result ::
  "bytes option \<Rightarrow> mpt_terminal \<Rightarrow> bytes list \<Rightarrow> (mpt_proof_result \<times> bytes list) result" where
  "mpt_result v t used =
    rbind (MptProofResult_post_init
        \<lparr>mp_found = (v \<noteq> None), mp_value = v, mp_terminal = t, mp_used_node_hashes = map bytes_hex used\<rparr>)
      (\<lambda>r. Inr (r, used))"

fun common_prefix :: "nat list \<Rightarrow> nat list \<Rightarrow> nat" where
  "common_prefix (x # xs) (y # ys) = (if x = y then Suc (common_prefix xs ys) else 0)"
| "common_prefix _ _ = 0"

text \<open>
  The \<open>while terminal is None\<close> loop. Each turn that goes on consumes at least a nibble of
  the key, so the fuel of one more than the nibbles is enough.
\<close>

fun mpt_walk :: "nat \<Rightarrow> node_store \<Rightarrow> nat list \<Rightarrow> rlp_item \<Rightarrow> bytes list \<Rightarrow> bytes list
    \<Rightarrow> (mpt_proof_result \<times> bytes list) result" where
  "mpt_walk 0 by_hash remaining reference used visited = Inl OutOfFuel"
| "mpt_walk (Suc fuel) by_hash remaining reference used visited =
    rbind (mpt_resolve by_hash used visited reference) (\<lambda>(vals, used, visited).
    if length vals = 17 then
      (case remaining of
         [] \<Rightarrow>
           rbind (require_rlp_bytes ''branch value'' (vals ! 16)) (\<lambda>branch_value.
           if branch_value \<noteq> [] then mpt_result (Some branch_value) FOUND_BRANCH_VALUE used
           else mpt_result None ABSENT_BRANCH_VALUE used)
       | nibble # rest \<Rightarrow>
           if vals ! nibble = RBytes [] then mpt_result None ABSENT_BRANCH_CHILD used
           else mpt_walk fuel by_hash rest (vals ! nibble) used visited)
    else
      rbind (require_rlp_bytes ''compact path'' (vals ! 0)) (\<lambda>compact.
      rbind (hex_prefix_decode compact) (\<lambda>(is_leaf, path).
      let common = common_prefix path remaining in
      if common \<noteq> length path then mpt_result None ABSENT_PATH_DIVERGENCE used
      else let remaining = drop common remaining in
      if is_leaf then
        rbind (require_rlp_bytes ''leaf value'' (vals ! 1)) (\<lambda>payload.
        if remaining \<noteq> [] then mpt_result None ABSENT_LEAF_REMAINDER used
        else mpt_result (Some payload) FOUND_LEAF used)
      else mpt_walk fuel by_hash remaining (vals ! 1) used visited)))"

declare mpt_walk.simps [simp del]

definition verify_mpt_proof :: "bytes \<Rightarrow> bytes \<Rightarrow> bytes list \<Rightarrow> mpt_proof_result result" where
  "verify_mpt_proof root_hash key proof_nodes =
    (if length root_hash \<noteq> 32 then Inl (ValueError ''root_hash must be exact 32-byte data'')
     else if MAX_MPT_KEY_BYTES < length key
     then Inl (ValueError ''key exceeds the governed MPT key width'')
     else if MAX_PROOF_NODES < length proof_nodes
     then Inl (ValueError ''proof node count exceeds the governed ceiling'')
     else if MAX_PROOF_TOTAL_BYTES < sum_list (map length proof_nodes)
     then Inl (ValueError ''proof payload exceeds the governed byte ceiling'')
     else if root_hash = EMPTY_TRIE_ROOT then
       (if proof_nodes \<noteq> [] then Inl (ValueError ''empty-trie proof must not contain nodes'')
        else MptProofResult_post_init
          \<lparr>mp_found = False, mp_value = None, mp_terminal = ABSENT_EMPTY_TRIE, mp_used_node_hashes = []\<rparr>)
     else if proof_nodes = [] then Inl (ValueError ''non-empty trie root requires proof nodes'')
     else rbind (rfold index_node ([], []) proof_nodes) (\<lambda>(by_hash, ordered_hashes).
     let remaining = bytes_to_nibbles key in
     rbind (mpt_walk (length remaining + 1) by_hash remaining (RBytes root_hash) [] []) (\<lambda>(terminal, used).
     if used \<noteq> ordered_hashes
     then Inl (ValueError ''proof nodes are not the exact canonical traversal sequence'')
     else Inr terminal)))"

subsection \<open>Hex-prefix paths round trip\<close>

lemma bytes_to_nibbles_range: "list_all (\<lambda>n. n \<le> 15) (bytes_to_nibbles b)"
proof (induction b)
  case (Cons x xs)
  have "unat x div 16 < 16" using unat_byte_less [of x] by auto
  with Cons show ?case by auto
qed simp

lemma length_bytes_to_nibbles [simp]: "length (bytes_to_nibbles b) = 2 * length b"
  by (induction b) auto

lemma nibbles_of_pairs:
  "list_all (\<lambda>n. n \<le> 15) ns \<Longrightarrow> even (length ns) \<Longrightarrow> bytes_to_nibbles (pair_nibbles ns) = ns"
proof (induction ns rule: pair_nibbles.induct)
  case (1 a b ns)
  then have "unat (of_nat (16 * a + b) :: byte) = 16 * a + b" by (intro unat_of_nat_byte) auto
  with 1 show ?case by auto
qed auto

lemma pairs_of_nibbles: "pair_nibbles (bytes_to_nibbles b) = b"
proof (induction b)
  case (Cons x xs)
  have "16 * (unat x div 16) + unat x mod 16 = unat x" by simp
  with Cons show ?case by simp
qed simp

lemma hex_prefix_encode_Inr:
  "hex_prefix_encode path is_leaf = Inr e \<longleftrightarrow>
    list_all (\<lambda>n. n \<le> 15) path
    \<and> e = pair_nibbles (if odd (length path) then (if is_leaf then 3 else 1) # path
                        else (if is_leaf then 2 else 0) # 0 # path)"
  by (auto simp: hex_prefix_encode_def nibbles_to_bytes_def Let_def odd_iff_mod_2_eq_one)

lemma hex_prefix_decode_encode:
  assumes "hex_prefix_encode path is_leaf = Inr e"
  shows "hex_prefix_decode e = Inr (is_leaf, path)"
proof -
  let ?ns = "if odd (length path) then (if is_leaf then 3 else 1) # path
     else (if is_leaf then 2 else 0) # 0 # path"
  from assms have range: "list_all (\<lambda>n. n \<le> 15) path" and e: "e = pair_nibbles ?ns"
    by (simp_all add: hex_prefix_encode_Inr)
  have ns: "bytes_to_nibbles e = ?ns" unfolding e using range by (intro nibbles_of_pairs) auto
  have "length e \<noteq> 0"
  proof
    assume "length e = 0"
    then have "?ns = []" using ns by simp
    then show False by (simp split: if_splits)
  qed
  then show ?thesis
    using assms ns by (cases is_leaf; cases "odd (length path)") (simp_all add: hex_prefix_decode_def Let_def)
qed

lemma hex_prefix_decode_Inr:
  "hex_prefix_decode e = Inr (is_leaf, path) \<longleftrightarrow> hex_prefix_encode path is_leaf = Inr e"
proof
  assume "hex_prefix_decode e = Inr (is_leaf, path)"
  then show "hex_prefix_encode path is_leaf = Inr e"
    by (auto simp: hex_prefix_decode_def Let_def split: if_splits)
qed (rule hex_prefix_decode_encode)

interpretation hex_prefix: codec "\<lambda>(is_leaf, path). hex_prefix_encode path is_leaf" hex_prefix_decode
  by unfold_locales (auto simp: hex_prefix_decode_Inr)

subsection \<open>What an accepted proof is\<close>

definition extension_advances :: "rlp_item list \<Rightarrow> bool" where
  "extension_advances vals \<longleftrightarrow>
    length vals = 17
    \<or> (\<exists>compact is_leaf path. vals ! 0 = RBytes compact \<and> hex_prefix_decode compact = Inr (is_leaf, path)
         \<and> (\<not> is_leaf \<longrightarrow> path \<noteq> []))"

lemma validate_shape_Inr:
  assumes "validate_decoded_node_shape node depth = Inr vals"
  shows "node = RList vals \<and> extension_advances vals"
  using assms
  by (auto simp: validate_decoded_node_shape.simps [of node] extension_advances_def
      split: if_splits rlp_item.splits)

text \<open>Every entry of the index is a well-shaped node of the proof under its own hash.\<close>

definition store_ok :: "bytes list \<Rightarrow> node_store \<Rightarrow> bool" where
  "store_ok nodes by_hash \<longleftrightarrow>
    (\<forall>h e d. dict_get by_hash h = Some (e, d) \<longrightarrow>
      keccak256 e = h \<and> e \<in> set nodes \<and> rlp_decode e = Inr (RList d) \<and> extension_advances d)"

lemma index_node_Inr:
  "index_node (bh, oh) e = Inr s \<Longrightarrow>
    \<exists>d. validate_node_shape e = Inr d \<and> s = (dict_set (keccak256 e) (e, d) bh, oh @ [keccak256 e])"
  by (auto simp: index_node_def Let_def split: if_splits)

lemma index_nodes_Inr:
  "rfold index_node (bh, oh) nodes = Inr (by_hash, ordered) \<Longrightarrow> store_ok seen bh \<Longrightarrow>
    store_ok (seen @ nodes) by_hash \<and> ordered = oh @ map keccak256 nodes"
proof (induction nodes arbitrary: bh oh seen)
  case (Cons e nodes)
  from Cons.prems(1) obtain d where d: "validate_node_shape e = Inr d"
    and rest: "rfold index_node (dict_set (keccak256 e) (e, d) bh, oh @ [keccak256 e]) nodes = Inr (by_hash, ordered)"
    using index_node_Inr [of bh oh e] by auto
  from d have "rlp_decode e = Inr (RList d)" "extension_advances d"
    using validate_shape_Inr by (auto simp: validate_node_shape_def split: if_splits)
  with Cons.prems(2) have "store_ok (seen @ [e]) (dict_set (keccak256 e) (e, d) bh)"
    by (auto simp: store_ok_def)
  from Cons.IH [OF rest this] show ?case by simp
qed auto

lemma store_ok_start: "store_ok [] []"
  by (simp add: store_ok_def)

lemma mpt_resolve_Inr:
  assumes "mpt_resolve by_hash used visited ref = Inr (vals, used', visited')" "store_ok nodes by_hash"
  shows "extension_advances vals"
  using assms validate_shape_Inr
  by (auto simp: mpt_resolve_def store_ok_def split: rlp_item.splits if_splits option.splits)

text \<open>No collision of the hash between two lists of nodes.\<close>

definition collision_free :: "bytes list \<Rightarrow> bytes list \<Rightarrow> bool" where
  "collision_free ms ns \<longleftrightarrow> (\<forall>m \<in> set ms. \<forall>n \<in> set ns. keccak256 m = keccak256 n \<longrightarrow> m = n)"

lemma mpt_resolve_unique:
  assumes "mpt_resolve b1 used visited ref = Inr r1" "mpt_resolve b2 used visited ref = Inr r2"
    and "store_ok n1 b1" "store_ok n2 b2" "collision_free n1 n2"
  shows "r1 = r2"
proof (cases ref)
  case (RList vs)
  then show ?thesis using assms(1,2) by (auto simp: mpt_resolve_def)
next
  case (RBytes h)
  obtain e1 d1 e2 d2 where e: "dict_get b1 h = Some (e1, d1)" "dict_get b2 h = Some (e2, d2)"
    and r: "r1 = (d1, used @ [h], h # visited)" "r2 = (d2, used @ [h], h # visited)"
    using assms(1,2) RBytes by (auto simp: mpt_resolve_def split: if_splits option.splits)
  then have "e1 = e2" "rlp_decode e1 = Inr (RList d1)" "rlp_decode e2 = Inr (RList d2)"
    using assms(3-5) unfolding store_ok_def collision_free_def by metis+
  with r show ?thesis by simp
qed

lemma mpt_walk_unique:
  assumes "mpt_walk f1 b1 remaining ref used visited = Inr r1"
    and "mpt_walk f2 b2 remaining ref used visited = Inr r2"
    and "store_ok n1 b1" "store_ok n2 b2" "collision_free n1 n2"
  shows "r1 = r2"
  using assms(1,2)
proof (induction f1 arbitrary: f2 remaining ref used visited)
  case (Suc f1)
  from Suc.prems(2) obtain f where f2: "f2 = Suc f" by (cases f2) (auto simp: mpt_walk.simps)
  obtain vals used' visited' where res: "mpt_resolve b1 used visited ref = Inr (vals, used', visited')"
    "mpt_resolve b2 used visited ref = Inr (vals, used', visited')"
    using Suc.prems mpt_resolve_unique [OF _ _ assms(3-5)] unfolding f2 by (fastforce simp: mpt_walk.simps)
  note walks = Suc.prems [unfolded f2 mpt_walk.simps res rbind_simps prod.case Let_def]
  show ?case
  proof (cases "length vals = 17")
    case True
    show ?thesis
    proof (cases "remaining \<noteq> [] \<and> vals ! hd remaining \<noteq> RBytes []")
      case go: True
      then obtain n rest where "remaining = n # rest" by (cases remaining) auto
      with go True walks show ?thesis
        using Suc.IH [of rest "vals ! n" used' visited' f] by simp
    qed (use True walks in \<open>auto split: list.splits\<close>)
  next
    case False
    then obtain compact is_leaf path where p: "vals ! 0 = RBytes compact" "hex_prefix_decode compact = Inr (is_leaf, path)"
      using walks(1) by auto
    show ?thesis
    proof (cases "common_prefix path remaining = length path \<and> \<not> is_leaf")
      case True
      with False p walks show ?thesis
        using Suc.IH [of "drop (length path) remaining" "vals ! 1" used' visited' f]
        by (simp add: require_rlp_bytes_def)
    next
      case stop: False
      with False p walks show ?thesis by (auto simp: require_rlp_bytes_def split: if_splits)
    qed
  qed
qed (simp add: mpt_walk.simps)

lemma verify_mpt_proof_Inr:
  assumes "verify_mpt_proof root key nodes = Inr r" "root \<noteq> EMPTY_TRIE_ROOT"
  obtains by_hash where "store_ok nodes by_hash"
    "mpt_walk (2 * length key + 1) by_hash (bytes_to_nibbles key) (RBytes root) [] [] = Inr (r, map keccak256 nodes)"
proof -
  from assms obtain by_hash ordered where
    index: "rfold index_node ([], []) nodes = Inr (by_hash, ordered)"
    and walk: "mpt_walk (2 * length key + 1) by_hash (bytes_to_nibbles key) (RBytes root) [] [] = Inr (r, ordered)"
    by (auto simp: verify_mpt_proof_def Let_def split: if_splits)
  from index_nodes_Inr [OF index store_ok_start] walk show thesis by (intro that) auto
qed

lemma map_keccak_collision_free:
  "map keccak256 ms = map keccak256 ns \<Longrightarrow> collision_free ms ns \<Longrightarrow> ms = ns"
proof (induction ms arbitrary: ns)
  case (Cons m ms)
  then obtain n ns' where "ns = n # ns'" by (cases ns) auto
  with Cons show ?case by (auto simp: collision_free_def)
qed simp

text \<open>A root and a key admit one proof, unless two of the nodes collide.\<close>

lemma verify_mpt_proof_unique:
  assumes r1: "verify_mpt_proof root key p1 = Inr r1" and r2: "verify_mpt_proof root key p2 = Inr r2"
    and free: "collision_free p1 p2"
  shows "p1 = p2 \<and> r1 = r2"
proof (cases "root = EMPTY_TRIE_ROOT")
  case True
  then show ?thesis using r1 r2 by (auto simp: verify_mpt_proof_def split: if_splits)
next
  case False
  obtain b1 where b1: "store_ok p1 b1"
    "mpt_walk (2 * length key + 1) b1 (bytes_to_nibbles key) (RBytes root) [] [] = Inr (r1, map keccak256 p1)"
    using r1 False by (rule verify_mpt_proof_Inr)
  obtain b2 where b2: "store_ok p2 b2"
    "mpt_walk (2 * length key + 1) b2 (bytes_to_nibbles key) (RBytes root) [] [] = Inr (r2, map keccak256 p2)"
    using r2 False by (rule verify_mpt_proof_Inr)
  have "(r1, map keccak256 p1) = (r2, map keccak256 p2)"
    by (rule mpt_walk_unique [OF b1(2) b2(2) b1(1) b2(1) free])
  then show ?thesis using map_keccak_collision_free free by blast
qed

text \<open>A result is found with a value, or absent without one.\<close>

definition mpt_result_ok :: "mpt_proof_result \<Rightarrow> bool" where
  "mpt_result_ok r \<longleftrightarrow> MptProofResult_post_init r = Inr r"

lemma mpt_result_post_init_Inr:
  "MptProofResult_post_init x = Inr r \<Longrightarrow> r = x \<and> mpt_result_ok x"
  by (auto simp: mpt_result_ok_def MptProofResult_post_init_def split: if_splits)

lemma mpt_walk_result_ok: "mpt_walk fuel b remaining ref used visited = Inr (r, u) \<Longrightarrow> mpt_result_ok r"
proof (induction fuel arbitrary: remaining ref used visited)
  case (Suc fuel)
  then show ?case
    by (auto simp: mpt_walk.simps mpt_result_def Let_def dest!: mpt_result_post_init_Inr split: if_splits list.splits)
qed (simp add: mpt_walk.simps)

lemma verify_mpt_proof_result_ok: "verify_mpt_proof root key nodes = Inr r \<Longrightarrow> mpt_result_ok r"
  by (auto simp: verify_mpt_proof_def Let_def
      dest!: mpt_result_post_init_Inr mpt_walk_result_ok split: if_splits)

lemma mpt_result_ok_found:
  "mpt_result_ok r \<Longrightarrow> mp_found r \<longleftrightarrow> mp_value r \<noteq> None"
  "mpt_result_ok r \<Longrightarrow> mp_found r \<longleftrightarrow> mp_terminal r \<in> FOUND_TERMINALS"
  by (auto simp: mpt_result_ok_def MptProofResult_post_init_def split: if_splits)

subsection \<open>The traversal ends\<close>

lemma rlp_encode_in_fuel: "in_fuel (rlp_encode v)"
proof -
  have "only_rlp_errors (rlp_encode v)"
    by (auto simp: rlp_encode_def intro!: only_rlp_errors_rbind rlp_encode_errors)
  then show ?thesis by (auto simp: only_rlp_errors_def in_fuel_def)
qed

lemma rlp_decode_in_fuel: "in_fuel (rlp_decode b)"
  using rlp_decode_errors [of b] by (auto simp: only_rlp_errors_def in_fuel_def)

lemma require_rlp_bytes_in_fuel: "in_fuel (require_rlp_bytes n v)"
  by (cases v) (simp_all add: require_rlp_bytes_def)

lemma hex_prefix_decode_in_fuel: "in_fuel (hex_prefix_decode e)"
  by (auto simp: hex_prefix_decode_def hex_prefix_encode_def nibbles_to_bytes_def Let_def intro!: in_fuel_rbind)

lemma validate_in_fuel:
  "in_fuel (validate_child_reference name reference depth)"
  "in_fuel (validate_decoded_node_shape node depth)"
proof (induction name reference depth and node depth
    rule: validate_child_reference_validate_decoded_node_shape.induct)
  case (1 name reference depth)
  then show ?case
    by (auto simp: validate_child_reference.simps [of name reference] intro!: in_fuel_rbind rlp_encode_in_fuel
        split: rlp_item.split)
next
  case (2 node depth)
  then show ?case
    by (auto simp: validate_decoded_node_shape.simps [of node] require_rlp_bytes_in_fuel
        hex_prefix_decode_in_fuel intro!: in_fuel_rbind in_fuel_rall split: rlp_item.split)
qed

lemma mpt_resolve_in_fuel: "in_fuel (mpt_resolve b used visited ref)"
  by (auto simp: mpt_resolve_def rlp_encode_in_fuel validate_in_fuel intro!: in_fuel_rbind
      split: rlp_item.split option.split)

lemma mpt_result_in_fuel: "in_fuel (mpt_result v t used)"
  by (auto simp: mpt_result_def MptProofResult_post_init_def intro!: in_fuel_rbind)

lemma mpt_walk_in_fuel:
  assumes "store_ok nodes b"
  shows "length remaining < fuel \<Longrightarrow> in_fuel (mpt_walk fuel b remaining ref used visited)"
proof (induction fuel arbitrary: remaining ref used visited)
  case (Suc fuel)
  have "in_fuel (mpt_walk fuel b (drop (length path) remaining) (vals ! 1) used' visited')"
    if "mpt_resolve b used visited ref = Inr (vals, used', visited')" "length vals \<noteq> 17"
      "vals ! 0 = RBytes c" "hex_prefix_decode c = Inr (False, path)" "common_prefix path remaining = length path"
    for vals used' visited' c path
  proof -
    have "path \<noteq> []" using mpt_resolve_Inr [OF that(1) assms] that(2-4) by (auto simp: extension_advances_def)
    moreover have "common_prefix path remaining \<le> length remaining"
      by (induction path remaining rule: common_prefix.induct) auto
    ultimately have "length (drop (length path) remaining) < fuel"
      using that(5) Suc.prems by (cases path) auto
    then show ?thesis by (rule Suc.IH)
  qed
  moreover have "in_fuel (mpt_walk fuel b rest ref' used' visited')" if "remaining = n # rest" for n rest ref' used' visited'
    using Suc.prems that by (intro Suc.IH) simp
  ultimately show ?case
    by (auto simp: mpt_walk.simps Let_def mpt_resolve_in_fuel mpt_result_in_fuel require_rlp_bytes_in_fuel
        hex_prefix_decode_in_fuel intro!: in_fuel_rbind split: list.split)
qed simp

lemma verify_mpt_proof_in_fuel: "in_fuel (verify_mpt_proof root key nodes)"
proof -
  have "in_fuel (rfold index_node ([], []) nodes)"
    by (intro in_fuel_rfold)
       (auto simp: index_node_def validate_node_shape_def Let_def rlp_decode_in_fuel validate_in_fuel
         intro!: in_fuel_rbind)
  moreover have "in_fuel (mpt_walk (Suc (2 * length key)) b (bytes_to_nibbles key) ref [] [])"
    if "rfold index_node ([], []) nodes = Inr (b, oh)" for b oh ref
  proof -
    have "store_ok nodes b" using index_nodes_Inr [OF that store_ok_start] by simp
    then show ?thesis by (rule mpt_walk_in_fuel) simp
  qed
  ultimately show ?thesis
    by (auto simp: verify_mpt_proof_def Let_def MptProofResult_post_init_def intro!: in_fuel_rbind)
qed

end
