(* ===== verification/Evm_Hex.thy ===== *)
theory Evm_Hex
  imports Canonical
begin

text \<open>
  \<open>src/aladdin_mev_engine/evm_hex.py\<close>: the three textual forms of Ethereum values (hex data,
  hex quantities, decimal integers), their strict parsers and their printers, with the
  round trips. The \<open>value: object\<close> the parsers take comes out of a JSON document, so it is
  a \<open>json\<close>: anything but a string is refused like a string of the wrong form.
\<close>

definition MAX_HEX_BYTES :: nat where "MAX_HEX_BYTES = 1048576"

text \<open>\<open>^0x(?:[0-9a-f]{2})*$\<close>\<close>

definition is_hex_data :: "string \<Rightarrow> bool" where
  "is_hex_data s \<longleftrightarrow> take 2 s = ''0x'' \<and> even (length (drop 2 s)) \<and> list_all is_hex_char (drop 2 s)"

text \<open>\<open>^0x(?:0|[1-9a-f][0-9a-f]*)$\<close>\<close>

definition is_hex_quantity :: "string \<Rightarrow> bool" where
  "is_hex_quantity s \<longleftrightarrow>
    take 2 s = ''0x'' \<and> drop 2 s \<noteq> [] \<and> list_all is_hex_char (drop 2 s)
    \<and> (hd (drop 2 s) = CHR ''0'' \<longrightarrow> drop 2 s = ''0'')"

definition parse_hex_data :: "string \<Rightarrow> json \<Rightarrow> nat option \<Rightarrow> nat \<Rightarrow> bytes result" where
  "parse_hex_data name v exact_bytes maximum_bytes =
    (if MAX_HEX_BYTES < maximum_bytes
     then Inl (ValueError ''maximum_bytes is outside the governed range'')
     else if (case exact_bytes of None \<Rightarrow> False | Some n \<Rightarrow> maximum_bytes < n)
     then Inl (ValueError ''exact_bytes is outside the governed range'')
     else (case v of
         JStr s \<Rightarrow>
           if \<not> is_hex_data s
           then Inl (ValueError (name @ '' must be canonical lowercase even-length 0x data''))
           else let encoded_bytes = (length s - 2) div 2 in
           if maximum_bytes < encoded_bytes
           then Inl (ValueError (name @ '' exceeds the governed byte ceiling''))
           else if (case exact_bytes of None \<Rightarrow> False | Some n \<Rightarrow> encoded_bytes \<noteq> n)
           then Inl (ValueError (name @ '' must contain an exact number of bytes''))
           else Inr (bytes_fromhex (drop 2 s))
       | _ \<Rightarrow> Inl (ValueError (name @ '' must be canonical lowercase even-length 0x data''))))"

definition require_maximum_bits :: "nat \<Rightarrow> unit result" where
  "require_maximum_bits maximum_bits =
    (if maximum_bits < 1 \<or> 4096 < maximum_bits
     then Inl (ValueError ''maximum_bits is outside the governed range'') else Inr ())"

definition parse_hex_quantity :: "string \<Rightarrow> json \<Rightarrow> nat \<Rightarrow> int result" where
  "parse_hex_quantity name v maximum_bits =
    rbind (require_maximum_bits maximum_bits) (\<lambda>_.
    (case v of
       JStr s \<Rightarrow>
         if \<not> is_hex_quantity s
         then Inl (ValueError (name @ '' must be a canonical lowercase Ethereum quantity''))
         else if (maximum_bits + 3) div 4 < length s - 2
         then Inl (ValueError (name @ '' exceeds the governed integer width''))
         else let parsed = int_of_hex (drop 2 s) in
         if maximum_bits < bit_length parsed
         then Inl (ValueError (name @ '' exceeds the governed integer width''))
         else Inr parsed
     | _ \<Rightarrow> Inl (ValueError (name @ '' must be a canonical lowercase Ethereum quantity''))))"

definition parse_decimal_integer :: "string \<Rightarrow> json \<Rightarrow> nat \<Rightarrow> int result" where
  "parse_decimal_integer name v maximum_bits =
    rbind (require_maximum_bits maximum_bits) (\<lambda>_.
    (case v of
       JStr s \<Rightarrow>
         if \<not> is_canonical_decimal s
         then Inl (ValueError (name @ '' must be a canonical non-negative decimal string''))
         else if (maximum_bits * 30103 + 99999) div 100000 < length s
         then Inl (ValueError (name @ '' exceeds the governed integer width''))
         else let parsed = int_of_dec s in
         if maximum_bits < bit_length parsed
         then Inl (ValueError (name @ '' exceeds the governed integer width''))
         else Inr parsed
     | _ \<Rightarrow> Inl (ValueError (name @ '' must be a canonical non-negative decimal string''))))"

definition to_hex_data :: "bytes \<Rightarrow> string" where
  "to_hex_data v = ''0x'' @ bytes_hex v"

text \<open>The digits of \<open>hex(value)\<close>.\<close>

fun hex_of_nat :: "nat \<Rightarrow> string" where
  "hex_of_nat n = (if n < 16 then [hex_digit n] else hex_of_nat (n div 16) @ [hex_digit (n mod 16)])"

declare hex_of_nat.simps [simp del]

definition to_hex_quantity :: "int \<Rightarrow> string result" where
  "to_hex_quantity v =
    (if v < 0 then Inl (ValueError ''hex quantity value must be a non-negative integer'')
     else Inr (''0x'' @ hex_of_nat (nat v)))"

definition to_decimal :: "int \<Rightarrow> string result" where
  "to_decimal v =
    (if v < 0 then Inl (ValueError ''decimal value must be a non-negative integer'')
     else Inr (str_of_int v))"

subsection \<open>Hex data\<close>

lemma is_hex_data_to_hex_data [simp]: "is_hex_data (to_hex_data b)"
  by (auto simp: is_hex_data_def to_hex_data_def list_all_iff bytes_hex_chars)

lemma length_to_hex_data [simp]: "length (to_hex_data b) = 2 + 2 * length b"
  by (simp add: to_hex_data_def)

lemma drop_to_hex_data [simp]: "drop 2 (to_hex_data b) = bytes_hex b"
  by (simp add: to_hex_data_def)

lemma to_hex_data_inj: "to_hex_data a = to_hex_data b \<longleftrightarrow> a = b"
  by (simp add: to_hex_data_def bytes_hex_inj)

lemma parse_hex_data_to_hex_data:
  assumes "length b \<le> maximum" "maximum \<le> MAX_HEX_BYTES"
    and "case exact_bytes of None \<Rightarrow> True | Some n \<Rightarrow> n = length b"
  shows "parse_hex_data name (JStr (to_hex_data b)) exact_bytes maximum = Inr b"
  using assms by (auto simp: parse_hex_data_def Let_def split: option.splits)

lemma length_bytes_fromhex: "length (bytes_fromhex s) = length s div 2"
  by (induction s rule: bytes_fromhex.induct) auto

text \<open>The parser accepts exactly the printed forms of the byte strings within its limits.\<close>

lemma parse_hex_data_Inr:
  "parse_hex_data name v exact_bytes maximum = Inr b \<longleftrightarrow>
    v = JStr (to_hex_data b) \<and> length b \<le> maximum \<and> maximum \<le> MAX_HEX_BYTES
      \<and> (case exact_bytes of None \<Rightarrow> True | Some n \<Rightarrow> n = length b)"
proof
  assume ok: "parse_hex_data name v exact_bytes maximum = Inr b"
  then obtain s where v: "v = JStr s" by (cases v) (auto simp: parse_hex_data_def split: if_splits option.splits)
  have hex: "is_hex_data s" and b: "b = bytes_fromhex (drop 2 s)"
    using ok by (auto simp: parse_hex_data_def v Let_def split: if_splits option.splits)
  have "to_hex_data b = take 2 s @ drop 2 s"
    using hex by (simp add: b to_hex_data_def is_hex_data_def bytes_hex_fromhex)
  then have s: "s = to_hex_data b" by simp
  show "v = JStr (to_hex_data b) \<and> length b \<le> maximum \<and> maximum \<le> MAX_HEX_BYTES
      \<and> (case exact_bytes of None \<Rightarrow> True | Some n \<Rightarrow> n = length b)"
    using ok by (auto simp: parse_hex_data_def v s Let_def split: if_splits option.splits)
qed (auto intro: parse_hex_data_to_hex_data)

subsection \<open>Quantities and decimals\<close>

lemma hex_of_nat_not_Nil [simp]: "hex_of_nat n \<noteq> []"
  by (simp add: hex_of_nat.simps [of n])

lemma hex_of_nat_chars: "list_all is_hex_char (hex_of_nat n)"
proof (induction n rule: hex_of_nat.induct)
  case (1 n)
  then show ?case by (simp add: hex_of_nat.simps [of n] hex_digit_facts)
qed

lemma int_of_hex_snoc: "int_of_hex (s @ [c]) = 16 * int_of_hex s + int (hex_value c)"
  by (simp add: int_of_hex_def)

lemma int_of_hex_of_nat [simp]: "int_of_hex (hex_of_nat n) = int n"
proof (induction n rule: hex_of_nat.induct)
  case (1 n)
  show ?case
  proof (cases "n < 16")
    case True
    then show ?thesis by (simp add: hex_of_nat.simps [of n] int_of_hex_def hex_digit_facts)
  next
    case False
    with 1 have "int_of_hex (hex_of_nat (n div 16)) = int (n div 16)" by simp
    moreover have "16 * int (n div 16) + int (n mod 16) = int n"
      by (metis mult_div_mod_eq of_nat_add of_nat_mult of_nat_numeral)
    ultimately show ?thesis
      using False by (simp add: hex_of_nat.simps [of n] int_of_hex_snoc hex_digit_facts)
  qed
qed

lemma hex_digit_zero: "n < 16 \<Longrightarrow> hex_digit n = CHR ''0'' \<longleftrightarrow> n = 0"
proof -
  assume n: "n < 16"
  have "hex_value (CHR ''0'') = 0" by (simp add: hex_value_def)
  then show ?thesis using hex_digit_facts(2) [OF n] by (auto simp: hex_digit_def hex_digits_def)
qed

lemma hd_hex_of_nat: "hd (hex_of_nat n) = CHR ''0'' \<longleftrightarrow> n = 0"
proof (induction n rule: hex_of_nat.induct)
  case (1 n)
  then show ?case by (auto simp: hex_of_nat.simps [of n] hex_digit_zero)
qed

lemma is_hex_quantity_of_nat: "is_hex_quantity (''0x'' @ hex_of_nat n)"
proof -
  have "hex_of_nat 0 = ''0''" by (simp add: hex_of_nat.simps hex_digit_def hex_digits_def)
  then show ?thesis by (auto simp: is_hex_quantity_def hex_of_nat_chars hd_hex_of_nat)
qed

lemma length_hex_of_nat: "n < 16 ^ k \<Longrightarrow> 0 < k \<Longrightarrow> length (hex_of_nat n) \<le> k"
proof (induction n arbitrary: k rule: hex_of_nat.induct)
  case (1 n)
  show ?case
  proof (cases "n < 16")
    case True
    with "1.prems" show ?thesis by (simp add: hex_of_nat.simps [of n])
  next
    case False
    with "1.prems" obtain j where k: "k = Suc j" by (cases k) auto
    with False "1.prems" have j: "0 < j" by (cases j) auto
    from "1.prems" k have "n div 16 < 16 ^ j" by auto
    with "1.IH" [OF False _ j] have "length (hex_of_nat (n div 16)) \<le> j" by simp
    with False k show ?thesis by (simp add: hex_of_nat.simps [of n])
  qed
qed

lemma parse_hex_quantity_to_hex:
  assumes "0 \<le> v" "v < 2 ^ bits" "1 \<le> bits" "bits \<le> 4096"
  shows "\<exists>s. to_hex_quantity v = Inr s \<and> parse_hex_quantity name (JStr s) bits = Inr v"
proof -
  have "(2::int) ^ bits \<le> 2 ^ (4 * ((bits + 3) div 4))"
    by (rule power_increasing) simp_all
  also have "\<dots> = 16 ^ ((bits + 3) div 4)" by (simp add: power_mult)
  finally have "nat v < 16 ^ ((bits + 3) div 4)" using assms(1,2) by (simp add: nat_less_iff)
  then have "length (hex_of_nat (nat v)) \<le> (bits + 3) div 4"
    using assms(3) by (intro length_hex_of_nat) simp_all
  moreover have "bit_length v \<le> bits" using assms by (simp add: bit_length_le_iff)
  ultimately show ?thesis
    using assms is_hex_quantity_of_nat [of "nat v"]
    by (simp add: to_hex_quantity_def parse_hex_quantity_def require_maximum_bits_def Let_def)
qed

lemma parse_decimal_integer_to_decimal:
  assumes "0 \<le> v" "v < 2 ^ 256"
  shows "parse_decimal_integer name (JStr (str_of_int v)) 256 = Inr v"
proof -
  have "(2::int) ^ 256 < 10 ^ 78" by simp
  then have "nat v < 10 ^ 78" using assms by (simp add: nat_less_iff)
  then have "length (str_of_nat (nat v)) \<le> 78" by (rule length_str_of_nat) simp
  moreover have "bit_length v \<le> 256" using assms by (simp add: bit_length_le_iff)
  ultimately show ?thesis
    using assms
    by (simp add: parse_decimal_integer_def require_maximum_bits_def str_of_int_canonical
        int_of_dec_str_of_int Let_def) (simp add: str_of_int_def)
qed

lemma parse_decimal_integer_Inr:
  assumes "parse_decimal_integer name v bits = Inr n"
  shows "0 \<le> n \<and> n < 2 ^ bits"
proof -
  have nonneg: "0 \<le> foldl (\<lambda>a c. 10 * a + int (hex_value c)) a s" if "0 \<le> a" for a s
    using that by (induction s arbitrary: a) auto
  have "0 \<le> int_of_dec s" for s by (simp add: int_of_dec_def nonneg)
  with assms show ?thesis
    by (auto simp: parse_decimal_integer_def Let_def bit_length_le_iff not_less split: if_splits json.splits)
qed

end
