(* ===== verification/State_Proof.thy ===== *)
theory State_Proof
  imports Mpt Evm_Hex Head_Tracker
begin

text \<open>
  \<open>src/aladdin_mev_engine/state_proof_types.py\<close> and \<open>state_proof_evidence.py\<close>: the anchor that
  ties a block to its state root, EIP-1186 proofs as JSON payloads, their verification
  against the anchor, and snapshots of verified accounts. Fields the code computes in
  \<open>__post_init__\<close> are fields of the records; a constructor is a function into \<open>result\<close>.
\<close>

definition BLOCK_STATE_PAYLOAD_SCHEMA :: string where
  "BLOCK_STATE_PAYLOAD_SCHEMA = ''aladdin-mev-evm-block-state-payload/v1''"
definition STATE_PROOF_PAYLOAD_SCHEMA :: string where
  "STATE_PROOF_PAYLOAD_SCHEMA = ''aladdin-mev-evm-state-proof-payload/v1''"
definition STATE_PROOF_EVIDENCE_SCHEMA :: string where
  "STATE_PROOF_EVIDENCE_SCHEMA = ''aladdin-mev-evm-state-proof-evidence/v1''"
definition STATE_SNAPSHOT_SCHEMA :: string where
  "STATE_SNAPSHOT_SCHEMA = ''aladdin-mev-evm-state-snapshot/v1''"

definition EMPTY_CODE_HASH :: bytes where "EMPTY_CODE_HASH = keccak256 []"

definition MAX_STORAGE_PROOFS :: nat where "MAX_STORAGE_PROOFS = 128"
definition MAX_SNAPSHOT_ACCOUNTS :: nat where "MAX_SNAPSHOT_ACCOUNTS = 4096"
definition MAX_STATE_PROOF_TOTAL_NODE_BYTES :: nat where "MAX_STATE_PROOF_TOTAL_NODE_BYTES = 1048576"

definition require_nonzero_hash :: "string \<Rightarrow> bytes \<Rightarrow> unit result" where
  "require_nonzero_hash name v =
    (if length v \<noteq> 32 then Inl (ValueError (name @ '' must be exact 32-byte data''))
     else if v = zero_bytes 32 then Inl (ValueError (name @ '' cannot be zero''))
     else Inr ())"

definition parse_hash :: "string \<Rightarrow> json \<Rightarrow> bytes result" where
  "parse_hash name v =
    rbind (parse_hex_data name v (Some 32) 32) (\<lambda>parsed.
    if parsed = zero_bytes 32 then Inl (ValueError (name @ '' cannot be zero'')) else Inr parsed)"

definition parse_proof_nodes :: "string \<Rightarrow> json \<Rightarrow> bytes list result" where
  "parse_proof_nodes name v =
    (case v of
       JArr items \<Rightarrow>
         if MAX_PROOF_NODES < length items
         then Inl (ValueError (name @ '' exceeds the governed node-count ceiling''))
         else rbind (rmap (\<lambda>(index, item).
             parse_hex_data (name @ ''['' @ str_of_nat index @ '']'') item None MAX_PROOF_NODE_BYTES) (enumerate 0 items)) (\<lambda>nodes.
         if [] \<in> set nodes then Inl (ValueError (name @ '' contains an empty proof node''))
         else if MAX_PROOF_TOTAL_BYTES < sum_list (map length nodes)
         then Inl (ValueError (name @ '' exceeds the governed byte ceiling''))
         else Inr nodes)
     | _ \<Rightarrow> Inl (ValueError (name @ '' must be an exact JSON array'')))"

subsection \<open>Block-state anchors\<close>

definition validate_anchor_observations :: "envelope \<Rightarrow> envelope \<Rightarrow> (int \<times> bytes \<times> bytes) result" where
  "validate_anchor_observations head state =
    (if oe_kind head \<noteq> BLOCK_HEAD
     then Inl (ValueError ''head observation is not a governed confirmed block head'')
     else if oe_kind state \<noteq> EVM_BLOCK_STATE
     then Inl (ValueError ''state observation is not a governed EVM block-state event'')
     else if oe_visibility head \<noteq> FULL \<or> oe_visibility state \<noteq> FULL
     then Inl (ValueError ''block-state anchor observations require full visibility'')
     else if oe_finality head \<notin> {CONFIRMED, FINALIZED}
     then Inl (ValueError ''head finality is not eligible for a state anchor'')
     else if oe_finality state \<noteq> oe_finality head
     then Inl (ValueError ''head and state finality disagree'')
     else if oe_chain head = SOLANA \<or> oe_chain state = SOLANA
     then Inl (ValueError ''EVM block-state anchors cannot use Solana observations'')
     else if oe_chain head \<noteq> oe_chain state \<or> oe_source_id head \<noteq> oe_source_id state
     then Inl (ValueError ''head and state observations do not share one source stream'')
     else if oe_source_kind head \<noteq> EVM_JSON_RPC \<or> oe_source_kind state \<noteq> EVM_JSON_RPC
     then Inl (ValueError ''block-state anchors require an EVM JSON-RPC source'')
     else if oe_source_sequence state \<le> oe_source_sequence head
     then Inl (ValueError ''state observation must follow the head source sequence'')
     else if oe_observed_at_unix_ms state < oe_observed_at_unix_ms head
     then Inl (ValueError ''state observation time precedes its head'')
     else
     rbind (EvmHead_from_observation head) (\<lambda>head_value.
     rbind (envelope_payload state) (\<lambda>payload.
     rbind (require_exact_keys ''block-state payload'' payload
              [''schema'', ''block_number'', ''block_hash'', ''state_root'']) (\<lambda>_.
     if jfield payload ''schema'' \<noteq> JStr BLOCK_STATE_PAYLOAD_SCHEMA
     then Inl (ValueError ''unsupported block-state payload schema'')
     else
     rbind (parse_decimal ''state block_number'' (jfield payload ''block_number'') MAX_U64) (\<lambda>state_number.
     rbind (parse_hash ''head block_hash'' (JStr (eh_block_hash head_value))) (\<lambda>head_hash.
     rbind (parse_hash ''state block_hash'' (jfield payload ''block_hash'')) (\<lambda>state_hash.
     rbind (parse_hash ''state_root'' (jfield payload ''state_root'')) (\<lambda>state_root.
     if eh_number head_value \<noteq> state_number \<or> head_hash \<noteq> state_hash
     then Inl (ValueError ''block-state observation does not bind the recorded head'')
     else Inr (eh_number head_value, head_hash, state_root)))))))))"

record block_state_anchor =
  an_head_observation :: envelope
  an_state_observation :: envelope
  an_block_number :: int
  an_block_hash :: bytes
  an_state_root :: bytes

definition an_chain :: "block_state_anchor \<Rightarrow> chain" where
  "an_chain self = oe_chain (an_head_observation self)"
definition an_source_id :: "block_state_anchor \<Rightarrow> string" where
  "an_source_id self = oe_source_id (an_head_observation self)"
definition an_finality :: "block_state_anchor \<Rightarrow> finality" where
  "an_finality self = oe_finality (an_head_observation self)"
definition an_state_source_sequence :: "block_state_anchor \<Rightarrow> int" where
  "an_state_source_sequence self = oe_source_sequence (an_state_observation self)"
definition an_state_observed_at :: "block_state_anchor \<Rightarrow> int" where
  "an_state_observed_at self = oe_observed_at_unix_ms (an_state_observation self)"

definition EvmBlockStateAnchor_to_json :: "block_state_anchor \<Rightarrow> json result" where
  "EvmBlockStateAnchor_to_json self =
    rbind (envelope_digest (an_head_observation self)) (\<lambda>head_sha256.
    rbind (envelope_digest (an_state_observation self)) (\<lambda>state_sha256.
    Inr (JObj
      [(''chain'', JStr (chain_value (an_chain self))),
       (''source_id'', JStr (an_source_id self)),
       (''finality'', JStr (finality_value (an_finality self))),
       (''block_number'', JStr (str_of_int (an_block_number self))),
       (''block_hash'', JStr (to_hex_data (an_block_hash self))),
       (''state_root'', JStr (to_hex_data (an_state_root self))),
       (''head_source_sequence'', JStr (str_of_int (oe_source_sequence (an_head_observation self)))),
       (''state_source_sequence'', JStr (str_of_int (an_state_source_sequence self))),
       (''head_observed_at_unix_ms'', JStr (str_of_int (oe_observed_at_unix_ms (an_head_observation self)))),
       (''state_observed_at_unix_ms'', JStr (str_of_int (an_state_observed_at self))),
       (''head_observation_sha256'', JStr head_sha256),
       (''state_observation_sha256'', JStr state_sha256)])))"

definition EvmBlockStateAnchor_digest :: "block_state_anchor \<Rightarrow> string result" where
  "EvmBlockStateAnchor_digest self = rbind (EvmBlockStateAnchor_to_json self) canonical_sha256"

definition EvmBlockStateAnchor_from_observations ::
  "envelope \<Rightarrow> envelope \<Rightarrow> block_state_anchor result" where
  "EvmBlockStateAnchor_from_observations head state =
    rbind (validate_anchor_observations head state) (\<lambda>(number, block_hash, state_root).
    let self = \<lparr>an_head_observation = head, an_state_observation = state, an_block_number = number,
                an_block_hash = block_hash, an_state_root = state_root\<rparr> in
    rbind (EvmBlockStateAnchor_to_json self) (\<lambda>v.
    rbind (canonical_json_bytes v) (\<lambda>_. Inr self)))"

subsection \<open>EIP-1186 proofs\<close>

record storage_proof =
  sp_key :: bytes
  sp_value :: int
  sp_proof_nodes :: "bytes list"

definition CanonicalStorageProof_post_init :: "storage_proof \<Rightarrow> storage_proof result" where
  "CanonicalStorageProof_post_init self =
    (if length (sp_key self) \<noteq> 32 then Inl (ValueError ''storage proof key must be exact 32-byte data'')
     else if sp_value self < 0 \<or> 256 < bit_length (sp_value self)
     then Inl (ValueError ''storage proof value must be an unsigned 256-bit integer'')
     else if MAX_PROOF_NODES < length (sp_proof_nodes self)
     then Inl (ValueError ''storage proof node count exceeds the governed ceiling'')
     else if list_ex (\<lambda>n. n = [] \<or> MAX_PROOF_NODE_BYTES < length n) (sp_proof_nodes self)
     then Inl (ValueError ''storage proof contains an empty or oversized node'')
     else if MAX_PROOF_TOTAL_BYTES < sum_list (map length (sp_proof_nodes self))
     then Inl (ValueError ''storage proof exceeds the governed byte ceiling'')
     else Inr self)"

record state_proof =
  st_block_number :: int
  st_block_hash :: bytes
  st_state_root :: bytes
  st_address :: bytes
  st_nonce :: int
  st_balance :: int
  st_storage_root :: bytes
  st_code_hash :: bytes
  st_account_proof_nodes :: "bytes list"
  st_storage_proofs :: "storage_proof list"

definition CanonicalStateProof_post_init :: "state_proof \<Rightarrow> state_proof result" where
  "CanonicalStateProof_post_init self =
    rbind (require_u64 ''block_number'' (st_block_number self)) (\<lambda>_.
    rbind (require_nonzero_hash ''block_hash'' (st_block_hash self)) (\<lambda>_.
    rbind (require_nonzero_hash ''state_root'' (st_state_root self)) (\<lambda>_.
    if length (st_address self) \<noteq> 20 then Inl (ValueError ''address must be exact 20-byte data'')
    else
    rbind (rall (\<lambda>(name, v). if v < 0 \<or> 256 < bit_length v
             then Inl (ValueError (name @ '' must be an unsigned 256-bit integer'')) else Inr ())
           [(''nonce'', st_nonce self), (''balance'', st_balance self)]) (\<lambda>_.
    rbind (require_nonzero_hash ''storage_root'' (st_storage_root self)) (\<lambda>_.
    rbind (require_nonzero_hash ''code_hash'' (st_code_hash self)) (\<lambda>_.
    if MAX_PROOF_NODES < length (st_account_proof_nodes self)
    then Inl (ValueError ''account proof node count exceeds the governed ceiling'')
    else if list_ex (\<lambda>n. n = [] \<or> MAX_PROOF_NODE_BYTES < length n) (st_account_proof_nodes self)
    then Inl (ValueError ''account proof contains an empty or oversized node'')
    else if MAX_STORAGE_PROOFS < length (st_storage_proofs self)
    then Inl (ValueError ''storage_proofs exceeds the governed count ceiling'')
    else let keys = map sp_key (st_storage_proofs self) in
    if \<not> sorted keys \<or> has_duplicate keys
    then Inl (ValueError ''storage_proofs must be unique and sorted by key'')
    else if MAX_STATE_PROOF_TOTAL_NODE_BYTES
        < sum_list (map length (st_account_proof_nodes self))
          + sum_list (map length (concat (map sp_proof_nodes (st_storage_proofs self))))
    then Inl (ValueError ''state proof exceeds the aggregate governed byte ceiling'')
    else Inr self))))))"

definition STATE_PROOF_KEYS :: "string list" where
  "STATE_PROOF_KEYS =
    [''schema'', ''block_number'', ''block_hash'', ''state_root'', ''address'', ''nonce'', ''balance'',
     ''storage_root'', ''code_hash'', ''account_proof'', ''storage_proofs'']"

definition storage_proof_from_json :: "json \<Rightarrow> storage_proof result" where
  "storage_proof_from_json raw =
    rbind (exact_dict ''storage_proofs must hold exact JSON objects'' raw) (\<lambda>d.
    rbind (require_exact_keys ''storage_proofs'' d [''key'', ''value'', ''proof'']) (\<lambda>_.
    rbind (parse_hex_data ''storage_proofs.key'' (jfield d ''key'') (Some 32) 32) (\<lambda>key.
    rbind (parse_decimal_integer ''storage_proofs.value'' (jfield d ''value'') 256) (\<lambda>v.
    rbind (parse_proof_nodes ''storage_proofs.proof'' (jfield d ''proof'')) (\<lambda>nodes.
    CanonicalStorageProof_post_init \<lparr>sp_key = key, sp_value = v, sp_proof_nodes = nodes\<rparr>)))))"

definition CanonicalStateProof_from_payload :: "json \<Rightarrow> state_proof result" where
  "CanonicalStateProof_from_payload payload =
    rbind (exact_dict ''state-proof payload must be an exact JSON object'' payload) (\<lambda>d.
    rbind (require_exact_keys ''state-proof payload'' d STATE_PROOF_KEYS) (\<lambda>_.
    if jfield d ''schema'' \<noteq> JStr STATE_PROOF_PAYLOAD_SCHEMA
    then Inl (ValueError ''unsupported state-proof payload schema'')
    else (case jfield d ''storage_proofs'' of
      JArr storage_raw \<Rightarrow>
        if MAX_STORAGE_PROOFS < length storage_raw
        then Inl (ValueError ''storage_proofs exceeds the governed count ceiling'')
        else
        rbind (rmap storage_proof_from_json storage_raw) (\<lambda>storage.
        rbind (parse_decimal ''block_number'' (jfield d ''block_number'') MAX_U64) (\<lambda>number.
        rbind (parse_hash ''block_hash'' (jfield d ''block_hash'')) (\<lambda>block_hash.
        rbind (parse_hash ''state_root'' (jfield d ''state_root'')) (\<lambda>state_root.
        rbind (parse_hex_data ''address'' (jfield d ''address'') (Some 20) 20) (\<lambda>address.
        rbind (parse_decimal_integer ''nonce'' (jfield d ''nonce'') 256) (\<lambda>nonce.
        rbind (parse_decimal_integer ''balance'' (jfield d ''balance'') 256) (\<lambda>balance.
        rbind (parse_hash ''storage_root'' (jfield d ''storage_root'')) (\<lambda>storage_root.
        rbind (parse_hash ''code_hash'' (jfield d ''code_hash'')) (\<lambda>code_hash.
        rbind (parse_proof_nodes ''account_proof'' (jfield d ''account_proof'')) (\<lambda>account_nodes.
        CanonicalStateProof_post_init
          \<lparr>st_block_number = number, st_block_hash = block_hash, st_state_root = state_root,
           st_address = address, st_nonce = nonce, st_balance = balance,
           st_storage_root = storage_root, st_code_hash = code_hash,
           st_account_proof_nodes = account_nodes, st_storage_proofs = storage\<rparr>))))))))))
    | _ \<Rightarrow> Inl (ValueError ''storage_proofs must be an exact JSON array''))))"

subsection \<open>Verified evidence\<close>

record verified_storage_value =
  vs_key :: bytes
  vs_value :: int
  vs_included :: bool
  vs_terminal :: mpt_terminal
  vs_used_node_hashes :: "string list"

definition VerifiedStorageValue_post_init :: "verified_storage_value \<Rightarrow> verified_storage_value result" where
  "VerifiedStorageValue_post_init self =
    (if length (vs_key self) \<noteq> 32 then Inl (ValueError ''verified storage key must be exact 32-byte data'')
     else if vs_value self < 0 \<or> 256 < bit_length (vs_value self)
     then Inl (ValueError ''verified storage value must be an unsigned 256-bit integer'')
     else if vs_included self \<noteq> (vs_terminal self \<in> FOUND_TERMINALS)
     then Inl (ValueError ''included/terminal state is inconsistent'')
     else
     rbind (rall (require_sha256 ''used_node_hash'') (vs_used_node_hashes self)) (\<lambda>_.
     if has_duplicate (vs_used_node_hashes self)
     then Inl (ValueError ''used_node_hashes contains a duplicate'')
     else
     rbind (if vs_terminal self = ABSENT_EMPTY_TRIE
            then (if vs_used_node_hashes self \<noteq> []
                  then Inl (ValueError ''empty-trie storage evidence cannot use nodes'') else Inr ())
            else if vs_used_node_hashes self = []
            then Inl (ValueError ''non-empty storage proof must authenticate its root node'')
            else Inr ()) (\<lambda>_.
     if vs_included self \<and> vs_value self = 0
     then Inl (ValueError ''included Ethereum storage value cannot be zero'')
     else if \<not> vs_included self \<and> vs_value self \<noteq> 0
     then Inl (ValueError ''absent Ethereum storage value must be zero'')
     else Inr self)))"

definition VerifiedStorageValue_to_json :: "verified_storage_value \<Rightarrow> json" where
  "VerifiedStorageValue_to_json self = JObj
    [(''key'', JStr (to_hex_data (vs_key self))),
     (''value'', JStr (str_of_int (vs_value self))),
     (''included'', JBool (vs_included self)),
     (''terminal'', JStr (mpt_terminal_value (vs_terminal self))),
     (''used_node_hashes'', JArr (map JStr (vs_used_node_hashes self)))]"

record verified_proof_data =
  vp_proof :: state_proof
  vp_account_exists :: bool
  vp_account_terminal :: mpt_terminal
  vp_account_used_node_hashes :: "string list"
  vp_storage_values :: "verified_storage_value list"

text \<open>
  The account half of \<open>_verify_proof_data\<close>: the fields of the proof are those of the leaf
  under the hash of the address, or the empty account where the trie has no leaf.
\<close>

definition verify_account :: "bytes \<Rightarrow> state_proof \<Rightarrow> (bool \<times> mpt_proof_result) result" where
  "verify_account state_root proof =
    rbind (verify_mpt_proof state_root (keccak256 (st_address proof)) (st_account_proof_nodes proof)) (\<lambda>result.
    if mp_found result then
      (case mp_value result of
         None \<Rightarrow> Inl (RuntimeError ''account proof result lost its value'')
       | Some leaf \<Rightarrow>
         rbind (rlp_decode leaf) (\<lambda>item.
         rbind (require_rlp_list ''Ethereum account'' item (Some 4)) (\<lambda>account.
         rbind (require_rlp_bytes ''account nonce'' (account ! 0)) (\<lambda>encoded_nonce.
         rbind (require_rlp_bytes ''account balance'' (account ! 1)) (\<lambda>encoded_balance.
         rbind (require_rlp_bytes ''account storage root'' (account ! 2)) (\<lambda>encoded_storage_root.
         rbind (require_rlp_bytes ''account code hash'' (account ! 3)) (\<lambda>encoded_code_hash.
         rbind (rlp_decode_uint encoded_nonce 256) (\<lambda>nonce.
         rbind (rlp_decode_uint encoded_balance 256) (\<lambda>balance.
         rbind (require_nonzero_hash ''authenticated account storage root'' encoded_storage_root) (\<lambda>_.
         rbind (require_nonzero_hash ''authenticated account code hash'' encoded_code_hash) (\<lambda>_.
         if nonce \<noteq> st_nonce proof \<or> balance \<noteq> st_balance proof
            \<or> encoded_storage_root \<noteq> st_storage_root proof \<or> encoded_code_hash \<noteq> st_code_hash proof
         then Inl (ValueError ''EIP-1186 account fields disagree with the authenticated leaf'')
         else Inr (True, result))))))))))))
    else if st_nonce proof \<noteq> 0 \<or> st_balance proof \<noteq> 0 \<or> st_storage_root proof \<noteq> EMPTY_TRIE_ROOT
       \<or> st_code_hash proof \<noteq> EMPTY_CODE_HASH
    then Inl (ValueError ''absent account carries non-empty EIP-1186 fields'')
    else Inr (False, result))"

text \<open>One turn of the loop over the storage proofs.\<close>

definition verify_storage :: "bytes \<Rightarrow> storage_proof \<Rightarrow> verified_storage_value result" where
  "verify_storage storage_root storage =
    rbind (verify_mpt_proof storage_root (keccak256 (sp_key storage)) (sp_proof_nodes storage)) (\<lambda>result.
    rbind
      (if mp_found result then
         (case mp_value result of
            None \<Rightarrow> Inl (RuntimeError ''storage proof result lost its value'')
          | Some leaf \<Rightarrow>
            rbind (rlp_decode leaf) (\<lambda>item.
            rbind (require_rlp_bytes ''storage scalar'' item) (\<lambda>encoded_scalar.
            rbind (rlp_decode_uint encoded_scalar 256) (\<lambda>authenticated_value.
            if authenticated_value = 0
            then Inl (ValueError ''Ethereum storage trie must not include a zero scalar'')
            else if authenticated_value \<noteq> sp_value storage
            then Inl (ValueError ''storage value disagrees with its authenticated leaf'')
            else Inr (authenticated_value, True)))))
       else if sp_value storage \<noteq> 0
       then Inl (ValueError ''absent storage slot carries a non-zero value'')
       else Inr (0, False)) (\<lambda>(authenticated_value, included).
    VerifiedStorageValue_post_init
      \<lparr>vs_key = sp_key storage, vs_value = authenticated_value, vs_included = included,
       vs_terminal = mp_terminal result, vs_used_node_hashes = mp_used_node_hashes result\<rparr>))"

definition verify_proof_values :: "bytes \<Rightarrow> state_proof \<Rightarrow> verified_proof_data result" where
  "verify_proof_values state_root proof =
    rbind (verify_account state_root proof) (\<lambda>(account_exists, account_result).
    rbind (rmap (verify_storage (st_storage_root proof)) (st_storage_proofs proof)) (\<lambda>storage_values.
    Inr \<lparr>vp_proof = proof, vp_account_exists = account_exists,
         vp_account_terminal = mp_terminal account_result,
         vp_account_used_node_hashes = mp_used_node_hashes account_result,
         vp_storage_values = storage_values\<rparr>))"

definition verify_proof_data :: "block_state_anchor \<Rightarrow> envelope \<Rightarrow> verified_proof_data result" where
  "verify_proof_data anchor proof_observation =
    (if oe_kind proof_observation \<noteq> EVM_STATE_PROOF
     then Inl (ValueError ''observation is not a governed EVM state proof'')
     else if oe_visibility proof_observation \<noteq> FULL
     then Inl (ValueError ''state proof requires full visibility'')
     else if oe_chain proof_observation \<noteq> an_chain anchor
     then Inl (ValueError ''state proof chain does not match its anchor'')
     else if oe_source_id proof_observation \<noteq> an_source_id anchor
     then Inl (ValueError ''state proof source does not match its anchor'')
     else if oe_source_kind proof_observation \<noteq> EVM_JSON_RPC
     then Inl (ValueError ''state proof requires an EVM JSON-RPC source'')
     else if oe_finality proof_observation \<noteq> an_finality anchor
     then Inl (ValueError ''state proof finality does not match its anchor'')
     else if oe_source_sequence proof_observation \<le> an_state_source_sequence anchor
     then Inl (ValueError ''state proof must follow its block-state observation'')
     else if oe_observed_at_unix_ms proof_observation < an_state_observed_at anchor
     then Inl (ValueError ''state proof observation time precedes its block-state anchor'')
     else
     rbind (envelope_payload proof_observation) (\<lambda>payload.
     rbind (CanonicalStateProof_from_payload (JObj payload)) (\<lambda>proof.
     if st_block_number proof \<noteq> an_block_number anchor \<or> st_block_hash proof \<noteq> an_block_hash anchor
        \<or> st_state_root proof \<noteq> an_state_root anchor
     then Inl (ValueError ''state proof does not bind the exact block-state anchor'')
     else verify_proof_values (an_state_root anchor) proof)))"

record state_proof_evidence =
  ev_anchor :: block_state_anchor
  ev_proof_observation :: envelope
  ev_verified :: verified_proof_data

definition ev_address :: "state_proof_evidence \<Rightarrow> bytes" where
  "ev_address self = st_address (vp_proof (ev_verified self))"
definition ev_account_exists :: "state_proof_evidence \<Rightarrow> bool" where
  "ev_account_exists self = vp_account_exists (ev_verified self)"
definition ev_code_hash :: "state_proof_evidence \<Rightarrow> bytes" where
  "ev_code_hash self = st_code_hash (vp_proof (ev_verified self))"
definition ev_storage_values :: "state_proof_evidence \<Rightarrow> verified_storage_value list" where
  "ev_storage_values self = vp_storage_values (ev_verified self)"
definition ev_chain :: "state_proof_evidence \<Rightarrow> chain" where
  "ev_chain self = an_chain (ev_anchor self)"

definition EvmStateProofEvidence_to_json :: "state_proof_evidence \<Rightarrow> json result" where
  "EvmStateProofEvidence_to_json self =
    (let proof = vp_proof (ev_verified self) in
     rbind (to_decimal (st_nonce proof)) (\<lambda>nonce.
     rbind (to_decimal (st_balance proof)) (\<lambda>balance.
     rbind (EvmBlockStateAnchor_digest (ev_anchor self)) (\<lambda>anchor_sha256.
     rbind (envelope_digest (ev_proof_observation self)) (\<lambda>observation_sha256.
     Inr (JObj
      [(''schema'', JStr STATE_PROOF_EVIDENCE_SCHEMA),
       (''chain'', JStr (chain_value (ev_chain self))),
       (''source_id'', JStr (an_source_id (ev_anchor self))),
       (''finality'', JStr (finality_value (an_finality (ev_anchor self)))),
       (''block_number'', JStr (str_of_int (an_block_number (ev_anchor self)))),
       (''block_hash'', JStr (to_hex_data (an_block_hash (ev_anchor self)))),
       (''state_root'', JStr (to_hex_data (an_state_root (ev_anchor self)))),
       (''address'', JStr (to_hex_data (ev_address self))),
       (''account_exists'', JBool (ev_account_exists self)),
       (''nonce'', JStr nonce),
       (''balance'', JStr balance),
       (''storage_root'', JStr (to_hex_data (st_storage_root proof))),
       (''code_hash'', JStr (to_hex_data (ev_code_hash self))),
       (''account_terminal'', JStr (mpt_terminal_value (vp_account_terminal (ev_verified self)))),
       (''account_used_node_hashes'', JArr (map JStr (vp_account_used_node_hashes (ev_verified self)))),
       (''storage_values'', JArr (map VerifiedStorageValue_to_json (ev_storage_values self))),
       (''anchor_sha256'', JStr anchor_sha256),
       (''proof_observation_sha256'', JStr observation_sha256),
       (''proof_source_sequence'', JStr (str_of_int (oe_source_sequence (ev_proof_observation self)))),
       (''proof_observed_at_unix_ms'', JStr (str_of_int (oe_observed_at_unix_ms (ev_proof_observation self))))]))))))"

definition EvmStateProofEvidence_digest :: "state_proof_evidence \<Rightarrow> string result" where
  "EvmStateProofEvidence_digest self = rbind (EvmStateProofEvidence_to_json self) canonical_sha256"

definition EvmStateProofEvidence_verify ::
  "block_state_anchor \<Rightarrow> envelope \<Rightarrow> state_proof_evidence result" where
  "EvmStateProofEvidence_verify anchor proof_observation =
    rbind (verify_proof_data anchor proof_observation) (\<lambda>verified.
    let self = \<lparr>ev_anchor = anchor, ev_proof_observation = proof_observation, ev_verified = verified\<rparr> in
    rbind (EvmStateProofEvidence_to_json self) (\<lambda>v.
    rbind (canonical_json_bytes v) (\<lambda>_. Inr self)))"

subsection \<open>Snapshots\<close>

record state_snapshot =
  sn_anchor :: block_state_anchor
  sn_accounts :: "state_proof_evidence list"

definition EvmStateSnapshot_to_json :: "state_snapshot \<Rightarrow> json result" where
  "EvmStateSnapshot_to_json self =
    rbind (EvmBlockStateAnchor_to_json (sn_anchor self)) (\<lambda>anchor.
    rbind (EvmBlockStateAnchor_digest (sn_anchor self)) (\<lambda>anchor_sha256.
    rbind (rmap EvmStateProofEvidence_to_json (sn_accounts self)) (\<lambda>accounts.
    rbind (rmap EvmStateProofEvidence_digest (sn_accounts self)) (\<lambda>digests.
    Inr (JObj
      [(''schema'', JStr STATE_SNAPSHOT_SCHEMA), (''anchor'', anchor),
       (''anchor_sha256'', JStr anchor_sha256), (''accounts'', JArr accounts),
       (''account_evidence_sha256'', JArr (map JStr digests))])))))"

definition EvmStateSnapshot_digest :: "state_snapshot \<Rightarrow> string result" where
  "EvmStateSnapshot_digest self = rbind (EvmStateSnapshot_to_json self) canonical_sha256"

definition EvmStateSnapshot_post_init :: "state_snapshot \<Rightarrow> state_snapshot result" where
  "EvmStateSnapshot_post_init self =
    (if sn_accounts self = [] then Inl (TypeError ''accounts must be a non-empty exact tuple'')
     else if MAX_SNAPSHOT_ACCOUNTS < length (sn_accounts self)
     then Inl (ValueError ''state snapshot account count exceeds the governed ceiling'')
     else let addresses = map ev_address (sn_accounts self) in
     if \<not> sorted addresses \<or> has_duplicate addresses
     then Inl (ValueError ''snapshot accounts must be unique and sorted by address'')
     else
     rbind (rmap (\<lambda>a. envelope_digest (ev_proof_observation a)) (sn_accounts self)) (\<lambda>proof_ids.
     if has_duplicate proof_ids
     then Inl (ValueError ''snapshot accounts reuse a proof observation identity'')
     else
     rbind (rall (\<lambda>item.
         rbind (EvmBlockStateAnchor_digest (ev_anchor item)) (\<lambda>item_anchor.
         rbind (EvmBlockStateAnchor_digest (sn_anchor self)) (\<lambda>own_anchor.
         if item_anchor \<noteq> own_anchor
         then Inl (ValueError ''snapshot account evidence does not bind its exact anchor'')
         else Inr ()))) (sn_accounts self)) (\<lambda>_.
     rbind (EvmStateSnapshot_to_json self) (\<lambda>v.
     rbind (canonical_json_bytes v) (\<lambda>_. Inr self)))))"

subsection \<open>What verified values mean\<close>

text \<open>The value a trie holds under a key, as an accepted proof shows it.\<close>

definition proves :: "bytes \<Rightarrow> bytes \<Rightarrow> bytes list \<Rightarrow> bytes option \<Rightarrow> bool" where
  "proves root key nodes v \<longleftrightarrow>
    (\<exists>r. verify_mpt_proof root key nodes = Inr r \<and> mp_value r = v \<and> (mp_found r \<longleftrightarrow> v \<noteq> None))"

lemma provesI:
  assumes "verify_mpt_proof root key nodes = Inr r"
  shows "proves root key nodes (mp_value r)"
  using assms mpt_result_ok_found(1) [OF verify_mpt_proof_result_ok [OF assms]] by (auto simp: proves_def)

lemma proves_unique:
  "proves root key p1 v1 \<Longrightarrow> proves root key p2 v2 \<Longrightarrow> collision_free p1 p2 \<Longrightarrow> v1 = v2"
  using verify_mpt_proof_unique by (fastforce simp: proves_def)

definition account_leaf :: "state_proof \<Rightarrow> rlp_item" where
  "account_leaf proof = RList
    [RBytes (minimal_be (st_nonce proof)), RBytes (minimal_be (st_balance proof)),
     RBytes (st_storage_root proof), RBytes (st_code_hash proof)]"

text \<open>An existing account's fields are exactly its leaf; an absent one has the empty fields.\<close>

lemma length_4_conv: "length xs = 4 \<Longrightarrow> xs = [xs ! 0, xs ! 1, xs ! 2, xs ! 3]"
  by (cases xs; cases "tl xs"; cases "tl (tl xs)"; cases "tl (tl (tl xs))") auto

lemma verify_account_Inr:
  assumes "verify_account root proof = Inr (exists, r)"
  shows "\<exists>v. proves root (keccak256 (st_address proof)) (st_account_proof_nodes proof) v
    \<and> (if exists then \<exists>leaf. v = Some leaf \<and> rlp_encode (account_leaf proof) = Inr leaf
         \<and> 0 \<le> st_nonce proof \<and> 0 \<le> st_balance proof
       else v = None \<and> st_nonce proof = 0 \<and> st_balance proof = 0
         \<and> st_storage_root proof = EMPTY_TRIE_ROOT \<and> st_code_hash proof = EMPTY_CODE_HASH)"
proof -
  obtain q where q: "verify_mpt_proof root (keccak256 (st_address proof)) (st_account_proof_nodes proof) = Inr q"
    using assms by (auto simp: verify_account_def)
  note found = mpt_result_ok_found(1) [OF verify_mpt_proof_result_ok [OF q]]
  show ?thesis
  proof (cases "mp_found q")
    case False
    then show ?thesis using assms q found provesI [OF q] by (auto simp: verify_account_def split: if_splits)
  next
    case True
    then obtain leaf where leaf: "mp_value q = Some leaf" using found by auto
    from assms q True leaf obtain account where
      dec: "rlp_decode leaf = Inr (RList account)" and len: "length account = 4"
      and fields: "\<exists>n b. account ! 0 = RBytes n \<and> account ! 1 = RBytes b
        \<and> rlp_decode_uint n 256 = Inr (st_nonce proof) \<and> rlp_decode_uint b 256 = Inr (st_balance proof)"
        "account ! 2 = RBytes (st_storage_root proof)" "account ! 3 = RBytes (st_code_hash proof)"
      and exists: "exists"
      by (auto simp: verify_account_def split: if_splits)
    from fields len have "account = [RBytes (minimal_be (st_nonce proof)), RBytes (minimal_be (st_balance proof)),
        RBytes (st_storage_root proof), RBytes (st_code_hash proof)]"
      using length_4_conv [OF len] by (auto simp: rlp_decode_uint_Inr)
    with dec have "rlp_encode (account_leaf proof) = Inr leaf"
      by (simp add: account_leaf_def rlp_decode_Inr)
    moreover have "0 \<le> st_nonce proof" "0 \<le> st_balance proof"
      using fields(1) by (auto simp: rlp_decode_uint_Inr)
    ultimately show ?thesis using exists leaf provesI [OF q] by auto
  qed
qed

lemma verify_storage_Inr:
  assumes "verify_storage root storage = Inr s"
  shows "vs_key s = sp_key storage \<and> vs_value s = sp_value storage
    \<and> (\<exists>v. proves root (keccak256 (sp_key storage)) (sp_proof_nodes storage) v
        \<and> (if vs_included s then \<exists>leaf. v = Some leaf \<and> rlp_encode (RBytes (minimal_be (vs_value s))) = Inr leaf
             \<and> 0 < vs_value s \<and> vs_value s < 2 ^ 256
           else v = None \<and> vs_value s = 0))"
proof -
  obtain q where q: "verify_mpt_proof root (keccak256 (sp_key storage)) (sp_proof_nodes storage) = Inr q"
    using assms by (auto simp: verify_storage_def)
  note found = mpt_result_ok_found(1) [OF verify_mpt_proof_result_ok [OF q]]
  have post: "VerifiedStorageValue_post_init x = Inr y \<Longrightarrow> y = x" for x y
    by (auto simp: VerifiedStorageValue_post_init_def split: if_splits)
  show ?thesis
  proof (cases "mp_found q")
    case False
    then show ?thesis
      using assms q found provesI [OF q] by (auto simp: verify_storage_def dest!: post split: if_splits)
  next
    case True
    then obtain leaf where leaf: "mp_value q = Some leaf" using found by auto
    from assms q True leaf have "\<exists>b. rlp_decode leaf = Inr (RBytes b) \<and> rlp_decode_uint b 256 = Inr (sp_value storage)"
      and s: "sp_value storage \<noteq> 0" "vs_key s = sp_key storage" "vs_value s = sp_value storage" "vs_included s"
      by (auto simp: verify_storage_def dest!: post split: if_splits)
    then have "rlp_encode (RBytes (minimal_be (sp_value storage))) = Inr leaf"
      "0 \<le> sp_value storage" "sp_value storage < 2 ^ 256"
      by (auto simp: rlp_decode_uint_Inr rlp_decode_Inr)
    with s leaf provesI [OF q] show ?thesis by auto
  qed
qed

text \<open>Two accepted proofs for one state root cannot tell two stories.\<close>

lemma minimal_be_inj: "minimal_be v = minimal_be w \<Longrightarrow> 0 \<le> v \<Longrightarrow> 0 \<le> w \<Longrightarrow> v = w"
  by (metis from_minimal_be)

lemma account_leaf_inj:
  assumes "rlp_encode (account_leaf p) = Inr b" "rlp_encode (account_leaf q) = Inr b"
    and "0 \<le> st_nonce p" "0 \<le> st_nonce q" "0 \<le> st_balance p" "0 \<le> st_balance q"
  shows "st_nonce p = st_nonce q \<and> st_balance p = st_balance q
    \<and> st_storage_root p = st_storage_root q \<and> st_code_hash p = st_code_hash q"
proof -
  have "account_leaf p = account_leaf q" using assms(1,2) by (rule rlp.encode_inj)
  then show ?thesis using assms(3-6) by (auto simp: account_leaf_def intro: minimal_be_inj)
qed

lemma verify_account_agree:
  assumes v1: "verify_account root p = Inr (e1, r1)" and v2: "verify_account root q = Inr (e2, r2)"
    and same: "st_address p = st_address q"
    and free: "collision_free (st_account_proof_nodes p) (st_account_proof_nodes q)"
  shows "e1 = e2 \<and> st_nonce p = st_nonce q \<and> st_balance p = st_balance q
    \<and> st_storage_root p = st_storage_root q \<and> st_code_hash p = st_code_hash q"
proof -
  from verify_account_Inr [OF v1] obtain v where v:
    "proves root (keccak256 (st_address p)) (st_account_proof_nodes p) v"
    "if e1 then \<exists>leaf. v = Some leaf \<and> rlp_encode (account_leaf p) = Inr leaf
         \<and> 0 \<le> st_nonce p \<and> 0 \<le> st_balance p
       else v = None \<and> st_nonce p = 0 \<and> st_balance p = 0
         \<and> st_storage_root p = EMPTY_TRIE_ROOT \<and> st_code_hash p = EMPTY_CODE_HASH" by blast
  from verify_account_Inr [OF v2] obtain w where w:
    "proves root (keccak256 (st_address q)) (st_account_proof_nodes q) w"
    "if e2 then \<exists>leaf. w = Some leaf \<and> rlp_encode (account_leaf q) = Inr leaf
         \<and> 0 \<le> st_nonce q \<and> 0 \<le> st_balance q
       else w = None \<and> st_nonce q = 0 \<and> st_balance q = 0
         \<and> st_storage_root q = EMPTY_TRIE_ROOT \<and> st_code_hash q = EMPTY_CODE_HASH" by blast
  have "v = w" using proves_unique [OF v(1) _ free] w(1) by (simp add: same)
  with v(2) w(2) show ?thesis
    using account_leaf_inj [of p _ q] by (auto split: if_splits)
qed

lemma verify_storage_agree:
  assumes v1: "verify_storage root s1 = Inr x1" and v2: "verify_storage root s2 = Inr x2"
    and same: "sp_key s1 = sp_key s2"
    and free: "collision_free (sp_proof_nodes s1) (sp_proof_nodes s2)"
  shows "vs_value x1 = vs_value x2 \<and> vs_included x1 = vs_included x2"
proof -
  from verify_storage_Inr [OF v1] obtain v where v:
    "proves root (keccak256 (sp_key s1)) (sp_proof_nodes s1) v"
    "if vs_included x1 then \<exists>leaf. v = Some leaf \<and> rlp_encode (RBytes (minimal_be (vs_value x1))) = Inr leaf
       \<and> 0 < vs_value x1 \<and> vs_value x1 < 2 ^ 256 else v = None \<and> vs_value x1 = 0" by blast
  from verify_storage_Inr [OF v2] obtain w where w:
    "proves root (keccak256 (sp_key s2)) (sp_proof_nodes s2) w"
    "if vs_included x2 then \<exists>leaf. w = Some leaf \<and> rlp_encode (RBytes (minimal_be (vs_value x2))) = Inr leaf
       \<and> 0 < vs_value x2 \<and> vs_value x2 < 2 ^ 256 else w = None \<and> vs_value x2 = 0" by blast
  have "v = w" using proves_unique [OF v(1) _ free] w(1) by (simp add: same)
  moreover have "a = b" if "rlp_encode (RBytes (minimal_be a)) = Inr l" "rlp_encode (RBytes (minimal_be b)) = Inr l"
    "0 < a" "0 < b" for a b l
    using rlp.encode_inj [OF that(1,2)] that(3,4) by (intro minimal_be_inj) auto
  ultimately show ?thesis using v(2) w(2) by (auto split: if_splits)
qed

end
