(* ===== verification/Examples.thy ===== *)
theory Examples
  imports Head_Tracker Envelope_Roundtrip Risk Profit State_Proof
begin

text \<open>
  Concrete inputs at which the hypotheses of the properties hold: two confirmed block heads of
  the Ethereum JSON-RPC source, a genesis block and its child, and the tracker that has seen
  the first one. Payloads are read back with the round trip of the canonical encoding, digests
  stay symbolic.
\<close>

definition hash_a :: string where
  "hash_a = ''0xaaaaaaaaaaaaaaaaaaaaaaaaaaaaaaaaaaaaaaaaaaaaaaaaaaaaaaaaaaaaaaaa''"

definition hash_b :: string where
  "hash_b = ''0xbbbbbbbbbbbbbbbbbbbbbbbbbbbbbbbbbbbbbbbbbbbbbbbbbbbbbbbbbbbbbbbb''"

definition fields_of :: "string \<Rightarrow> string \<Rightarrow> string \<Rightarrow> (string \<times> json) list" where
  "fields_of h number parent =
    [(''block_hash'', JStr h), (''block_number'', JStr number),
     (''block_timestamp_unix_s'', JStr ''7''), (''parent_hash'', JStr parent)]"

definition head_envelope :: "int \<Rightarrow> (string \<times> json) list \<Rightarrow> envelope" where
  "head_envelope sequence payload =
    \<lparr>oe_source_id = ''ethereum-json-rpc'', oe_chain = ETHEREUM, oe_source_kind = EVM_JSON_RPC,
     oe_source_sequence = sequence, oe_source_event_id = ''event'', oe_observed_at_unix_ms = 9,
     oe_emitted_at_unix_ms = None, oe_kind = BLOCK_HEAD, oe_finality = CONFIRMED,
     oe_visibility = FULL, oe_payload_bytes = utf8_bytes (json_dump (JObj payload))\<rparr>"

definition genesis_envelope :: envelope where
  "genesis_envelope = head_envelope 1 (fields_of hash_a ''0'' ZERO_BLOCK_HASH)"

definition child_envelope :: envelope where
  "child_envelope = head_envelope 2 (fields_of hash_b ''1'' hash_a)"

definition head_of :: "int \<Rightarrow> int \<Rightarrow> string \<Rightarrow> string \<Rightarrow> evm_head" where
  "head_of sequence number h parent =
    \<lparr>eh_chain = ETHEREUM, eh_source_id = ''ethereum-json-rpc'', eh_source_sequence = sequence,
     eh_number = number, eh_block_hash = h, eh_parent_hash = parent, eh_block_timestamp_unix_s = 7\<rparr>"

lemmas example_defs = hash_a_def hash_b_def fields_of_def ZERO_BLOCK_HASH_def

text \<open>A short ASCII payload is parsed back as it is.\<close>

definition small_payload :: "(string \<times> json) list \<Rightarrow> bool" where
  "small_payload kvs \<longleftrightarrow>
    json_unique (JObj kvs) \<and> json_utf8 (JObj kvs) \<and> norm_fields kvs = kvs
    \<and> json_depth (JObj kvs) \<le> 32 \<and> json_items (JObj kvs) \<le> 1000 \<and> \<not> has_huge_int (JObj kvs)
    \<and> json_bound (JObj kvs) \<le> 10000"

lemma small_payload_bytes:
  assumes "small_payload kvs"
  shows "canonical_json_bytes (JObj kvs) = Inr (utf8_bytes (json_dump (JObj kvs)))"
  using assms
  by (intro canonical_json_okI) (simp_all add: small_payload_def DEFAULT_MAX_DEPTH_def DEFAULT_MAX_ITEMS_def DEFAULT_MAX_JSON_BYTES_def)

lemma small_payload_length:
  assumes "small_payload kvs"
  shows "length (utf8_bytes (json_dump (JObj kvs))) \<le> 10000"
  using assms json_size_le_bound [of "JObj kvs"] unfolding small_payload_def length_utf8_bytes length_json_dump by linarith

lemma head_envelope_payload:
  assumes "small_payload kvs"
  shows "envelope_payload (head_envelope n kvs) = Inr kvs"
  using strict_json_loads_canonical [OF small_payload_bytes [OF assms]] assms
  by (simp add: envelope_payload_def head_envelope_def norm_fields_def small_payload_def)

lemma example_envelope_simps [simp]:
  "oe_source_id genesis_envelope = ''ethereum-json-rpc''" "oe_source_id child_envelope = ''ethereum-json-rpc''"
  "oe_chain genesis_envelope = ETHEREUM" "oe_chain child_envelope = ETHEREUM"
  "oe_source_kind genesis_envelope = EVM_JSON_RPC" "oe_source_kind child_envelope = EVM_JSON_RPC"
  "oe_source_sequence genesis_envelope = 1" "oe_source_sequence child_envelope = 2"
  "oe_source_event_id genesis_envelope = ''event''" "oe_source_event_id child_envelope = ''event''"
  "oe_observed_at_unix_ms genesis_envelope = 9" "oe_observed_at_unix_ms child_envelope = 9"
  "oe_emitted_at_unix_ms genesis_envelope = None" "oe_emitted_at_unix_ms child_envelope = None"
  "oe_kind genesis_envelope = BLOCK_HEAD" "oe_kind child_envelope = BLOCK_HEAD"
  "oe_finality genesis_envelope = CONFIRMED" "oe_finality child_envelope = CONFIRMED"
  "oe_visibility genesis_envelope = FULL" "oe_visibility child_envelope = FULL"
  by (simp_all add: genesis_envelope_def child_envelope_def head_envelope_def)

lemma genesis_payload: "envelope_payload genesis_envelope = Inr (fields_of hash_a ''0'' ZERO_BLOCK_HASH)"
  unfolding genesis_envelope_def
  by (rule head_envelope_payload) code_simp

lemma child_payload: "envelope_payload child_envelope = Inr (fields_of hash_b ''1'' hash_a)"
  unfolding child_envelope_def
  by (rule head_envelope_payload) code_simp

definition ex_contract :: source_contract where
  "ex_contract =
    contract ''ethereum-json-rpc'' ETHEREUM EVM_JSON_RPC JSON_RPC_WEBSOCKET
       (evm_rpc_events True True) 524288 5000 False
       ''https://ethereum.org/en/developers/apis/json-rpc/''"

lemma ex_contract_get: "get_source_contract ''ethereum-json-rpc'' = Inr ex_contract"
  by (simp add: get_source_contract_def CONTRACTS_def contract_def ex_contract_def)

lemma ex_contract_fields:
  "sc_chain ex_contract = ETHEREUM" "sc_source_kind ex_contract = EVM_JSON_RPC"
  by (simp_all add: ex_contract_def contract_def)

lemma ex_contract_permits: "permits ex_contract BLOCK_HEAD CONFIRMED FULL = Inr True"
  by (simp add: permits_def EventShape_post_init_def shape_def ex_contract_def contract_def evm_rpc_events_def
      control_kinds_def)

lemma example_numbers:
  "parse_decimal ''block_number'' (JStr ''0'') MAX_U64 = Inr 0"
  "parse_decimal ''block_number'' (JStr ''1'') MAX_U64 = Inr 1"
  "parse_decimal ''block_timestamp_unix_s'' (JStr ''7'') MAX_U64 = Inr 7"
  using parse_decimal_str_of_int [of 0 MAX_U64] parse_decimal_str_of_int [of 1 MAX_U64]
    parse_decimal_str_of_int [of 7 MAX_U64]
  by (simp_all add: MAX_U64_def str_of_int_def str_of_nat.simps dec_digit_def)

lemma example_hashes:
  "is_hex_hash hash_a" "is_hex_hash hash_b" "is_hex_hash ZERO_BLOCK_HASH"
  by code_simp+

lemma example_distinct:
  "hash_a \<noteq> hash_b" "hash_a \<noteq> ZERO_BLOCK_HASH" "hash_b \<noteq> ZERO_BLOCK_HASH"
  by code_simp+

lemma head_of_ok:
  "EvmHead_post_init (head_of 1 0 hash_a ZERO_BLOCK_HASH) = Inr (head_of 1 0 hash_a ZERO_BLOCK_HASH)"
  "EvmHead_post_init (head_of 2 1 hash_b hash_a) = Inr (head_of 2 1 hash_b hash_a)"
  by (simp_all add: EvmHead_post_init_def head_of_def ex_contract_get ex_contract_fields example_hashes
      example_distinct MAX_U64_def)

lemma genesis_head:
  "EvmHead_from_observation genesis_envelope = Inr (head_of 1 0 hash_a ZERO_BLOCK_HASH)"
  using head_of_ok(1)
  by (simp add: EvmHead_from_observation_def genesis_payload fields_of_def jfield_def exact_str_def example_numbers
      head_of_def HEAD_PAYLOAD_KEYS_def insert_commute)

lemma child_head:
  "EvmHead_from_observation child_envelope = Inr (head_of 2 1 hash_b hash_a)"
  using head_of_ok(2)
  by (simp add: EvmHead_from_observation_def child_payload fields_of_def jfield_def exact_str_def example_numbers
      head_of_def HEAD_PAYLOAD_KEYS_def insert_commute)

lemma head_envelope_ok:
  assumes "small_payload kvs" "0 \<le> n" "n \<le> MAX_U64"
  shows "envelope_ok (head_envelope n kvs)"
proof -
  note bytes = small_payload_bytes [OF assms(1)]
  have "require_bounded_text ''source_event_id'' ''event'' 256 = Inr ()" by code_simp
  moreover have "strict_json_loads_with (utf8_bytes (json_dump (JObj kvs))) (sc_max_payload_bytes ex_contract)
      DEFAULT_MAX_DEPTH DEFAULT_MAX_ITEMS = Inr (JObj kvs)"
    using strict_json_loads_with_canonical [OF bytes] small_payload_length [OF assms(1)] assms(1)
    by (simp add: small_payload_def norm_fields_def ex_contract_def contract_def DEFAULT_MAX_JSON_BYTES_def)
  moreover have "\<not> sc_max_payload_bytes ex_contract < length (utf8_bytes (json_dump (JObj kvs)))"
    using small_payload_length [OF assms(1)] by (simp add: ex_contract_def contract_def)
  ultimately show ?thesis
    using bytes assms(2,3)
    by (simp add: envelope_ok_def ObservationEnvelope_post_init_def head_envelope_def ex_contract_get ex_contract_fields
        ex_contract_permits exact_dict_def validate_control_event_def MAX_U64_def)
qed

lemma example_envelopes_ok: "envelope_ok genesis_envelope" "envelope_ok child_envelope"
  unfolding genesis_envelope_def child_envelope_def by (rule head_envelope_ok; code_simp)+

lemma example_digests:
  "is_ok (envelope_digest genesis_envelope)" "is_ok (envelope_digest child_envelope)"
  using example_envelopes_ok genesis_payload child_payload
  by (simp_all add: envelope_digest_ok_iff fields_of_def DEFAULT_MAX_DEPTH_def DEFAULT_MAX_ITEMS_def)

definition fresh_tracker :: head_tracker where
  "fresh_tracker = \<lparr>ht_chain = ETHEREUM, ht_source_id = ''ethereum-json-rpc'', ht_observation_kind = BLOCK_HEAD,
     ht_finality = CONFIRMED, ht_nodes = [], ht_current_hash = None, ht_last_sequence = None\<rparr>"

lemma fresh_tracker_init: "HeadTracker_init ETHEREUM ''ethereum-json-rpc'' BLOCK_HEAD CONFIRMED = Inr fresh_tracker"
  by (simp add: HeadTracker_init_def ex_contract_get ex_contract_fields ex_contract_permits fresh_tracker_def)

definition genesis_tracker :: head_tracker where
  "genesis_tracker = store_head fresh_tracker (head_of 1 0 hash_a ZERO_BLOCK_HASH) hash_a"

lemma head_of_simps [simp]:
  "eh_chain (head_of n k h p) = ETHEREUM" "eh_source_id (head_of n k h p) = ''ethereum-json-rpc''"
  "eh_source_sequence (head_of n k h p) = n" "eh_number (head_of n k h p) = k"
  "eh_block_hash (head_of n k h p) = h" "eh_parent_hash (head_of n k h p) = p"
  "eh_block_timestamp_unix_s (head_of n k h p) = 7"
  by (simp_all add: head_of_def)

lemma genesis_applied: "\<exists>t. HeadTracker_apply fresh_tracker genesis_envelope = Inr (t, genesis_tracker)"
proof -
  have "is_ok (apply_head fresh_tracker genesis_envelope (head_of 1 0 hash_a ZERO_BLOCK_HASH))"
  proof -
    have inv: "tracker_inv fresh_tracker" using HeadTracker_init_inv [OF fresh_tracker_init] .
    obtain d where d: "envelope_digest genesis_envelope = Inr d" using example_digests(1) by (auto simp: is_ok_iff)
    have "head_ok (head_of 1 0 hash_a ZERO_BLOCK_HASH)" using head_of_ok(1) by (simp add: head_ok_def)
    from apply_head_accepts [OF inv this _ d] show ?thesis
      by (simp add: head_acceptable_def fresh_tracker_def)
  qed
  then obtain t tr where "apply_head fresh_tracker genesis_envelope (head_of 1 0 hash_a ZERO_BLOCK_HASH) = Inr (t, tr)"
    by (auto simp: is_ok_iff)
  moreover from this have "tr = genesis_tracker"
    by (elim apply_head_cases) (simp_all add: fresh_tracker_def genesis_tracker_def)
  ultimately show ?thesis
    by (simp add: HeadTracker_apply_def genesis_head) (simp add: fresh_tracker_def)
qed

lemma genesis_tracker_reachable: "tracker_reachable genesis_tracker"
  using tracker_reachable.start [OF fresh_tracker_init] genesis_applied tracker_reachable.observe by blast

lemma genesis_tracker_count: "tracked_head_count genesis_tracker = 1"
  by (simp add: tracked_head_count_def genesis_tracker_def store_head_def fresh_tracker_def dict_set_def)

lemma child_acceptable: "head_acceptable genesis_tracker (head_of 2 1 hash_b hash_a)"
  using example_distinct
  by (simp add: head_acceptable_def genesis_tracker_def store_head_def fresh_tracker_def length_dict_set MAX_TRACKED_HEADS_def)

lemma child_applied: "\<exists>t tr'. HeadTracker_apply genesis_tracker child_envelope = Inr (t, tr')"
proof -
  obtain d where d: "envelope_digest child_envelope = Inr d" using example_digests(2) by (auto simp: is_ok_iff)
  have "is_ok (apply_head genesis_tracker child_envelope (head_of 2 1 hash_b hash_a))"
    using apply_head_accepts [OF tracker_reachable_inv [OF genesis_tracker_reachable] _ _ d] head_of_ok(2)
      child_acceptable by (simp add: head_ok_def)
  then show ?thesis
    by (auto simp: is_ok_iff HeadTracker_apply_def child_head genesis_tracker_def store_head_def fresh_tracker_def)
qed

subsection \<open>Risk and profit\<close>

definition evidence_context :: transition_context where
  "evidence_context = \<lparr>human_approved = True, acceptance_evidence_valid = True, incident_closed = False\<rparr>"

lemma governor_reaches_live:
  "governor_reaches LIVE ((([] @ [(BOOTSTRAP_TO_SHADOW, evidence_context)]) @ [(PROMOTE_TO_CANARY, evidence_context)])
    @ [(PROMOTE_TO_LIVE, evidence_context)])"
proof -
  have "governor_reaches SHADOW ([] @ [(BOOTSTRAP_TO_SHADOW, evidence_context)])"
    by (rule governor_reaches.event [OF governor_reaches.start]) (simp add: governor_defs evidence_context_def)
  then have "governor_reaches CANARY (([] @ [(BOOTSTRAP_TO_SHADOW, evidence_context)]) @ [(PROMOTE_TO_CANARY, evidence_context)])"
    by (rule governor_reaches.event) (simp add: governor_defs evidence_context_def)
  then show ?thesis
    by (rule governor_reaches.event) (simp add: governor_defs evidence_context_def)
qed

definition sample_limits :: risk_limits where
  "sample_limits = \<lparr>maximum_daily_loss = 10, maximum_single_execution_cost = 5, maximum_pending_execution_cost = 5,
     maximum_concurrent_candidates = 2, maximum_notional = 100\<rparr>"

definition reserved_ledger :: risk_ledger where
  "reserved_ledger = \<lparr>rl_limits = sample_limits, rl_realized_net_profit = 0, rl_reservations = [(''r1'', 3)]\<rparr>"

lemma sample_limits_ok: "limits_ok sample_limits"
  by (simp add: limits_ok_iff sample_limits_def)

lemma reserved_ledger_step: "risk_apply (RiskLedger_init sample_limits) (Reserve ''r1'' 3 50) = Inr reserved_ledger"
  by code_simp

lemma reserved_ledger_reachable: "ledger_reachable sample_limits reserved_ledger"
  using ledger_reachable.step [OF ledger_reachable.start [OF sample_limits_ok] reserved_ledger_step] .

lemma reserved_ledger_covered: "covered_reachable sample_limits reserved_ledger"
  using covered_reachable.step [OF covered_reachable.start [OF sample_limits_ok] _ reserved_ledger_step] by simp

definition sample_policy :: profit_policy where
  "sample_policy = \<lparr>pp_policy_id = ''p'', pp_minimum_absolute_profit = 1, pp_minimum_return_bps = 10,
     pp_maximum_bid_fraction_bps = 5000, pp_maximum_state_age_ms = 100\<rparr>"

definition sample_costs :: cost_breakdown where
  "sample_costs = \<lparr>cb_gross_profit = 100, cb_execution_gas_cost = 10, cb_l1_data_fee = 1, cb_operator_fee = 0,
     cb_flash_loan_fee = 0, cb_inclusion_bid = 20, cb_slippage_reserve = 5, cb_stale_state_reserve = 0,
     cb_failure_risk_reserve = 0, cb_infrastructure_cost = 1, cb_inventory_hedge_cost = 0\<rparr>"

lemma sample_policy_ok: "policy_ok sample_policy"
  by code_simp

lemma sample_costs_ok: "costs_ok sample_costs"
  by code_simp

lemma sample_approved: "\<exists>a. assess_profit sample_costs sample_policy 100 5 True HEALTHY True = Inr a \<and> pa_approved a"
proof -
  have "is_ok (assess_profit sample_costs sample_policy 100 5 True HEALTHY True)"
    by (rule assess_profit_total [OF sample_policy_ok]) simp_all
  then obtain a where "assess_profit sample_costs sample_policy 100 5 True HEALTHY True = Inr a"
    unfolding is_ok_iff by blast
  then show ?thesis
    using assess_profit_reasons by (fastforce simp: sample_costs_def sample_policy_def surplus_before_bid_def
      cost_excluding_bid_def conservative_net_profit_def total_cost_def BASIS_POINTS_def)
qed

lemma sample_json_encodes:
  "canonical_json_bytes (JObj [(''b'', JInt 2), (''a'', JArr [JNull, JStr ''x''])])
    = Inr (utf8_bytes (json_dump (JObj [(''b'', JInt 2), (''a'', JArr [JNull, JStr ''x''])])))"
proof -
  have "\<not> max_str_digits_bound \<le> 2"
    unfolding max_str_digits_bound_def not_le by (rule less_le_trans [of _ "10 ^ 1"]) (simp, rule power_increasing, simp_all)
  moreover have "length (str_of_int 2) \<le> 20" by code_simp
  ultimately show ?thesis
    by (intro canonical_json_okI) (simp_all add: DEFAULT_MAX_DEPTH_def DEFAULT_MAX_ITEMS_def DEFAULT_MAX_JSON_BYTES_def)
qed

lemma sample_json_shape:
  "json_norm (JObj [(''b'', JInt 2), (''a'', JArr [JNull, JStr ''x''])])
    = JObj [(''a'', JArr [JNull, JStr ''x'']), (''b'', JInt 2)]"
  "json_unique (JObj [(''b'', JInt 2), (''a'', JArr [JNull, JStr ''x''])])"
  "json_utf8 (JObj [(''b'', JInt 2), (''a'', JArr [JNull, JStr ''x''])])"
  by code_simp+

lemma genesis_to_json: "\<exists>v. ObservationEnvelope_to_json genesis_envelope = Inr v"
  using genesis_payload contract_digest_ok [OF ex_contract_get]
  by (simp add: ObservationEnvelope_to_json_def source_contract_sha256_def ex_contract_get)

subsection \<open>Proofs under the empty trie\<close>

lemma empty_trie_proof:
  "length key \<le> MAX_MPT_KEY_BYTES \<Longrightarrow>
    verify_mpt_proof EMPTY_TRIE_ROOT key [] = Inr \<lparr>mp_found = False, mp_value = None,
      mp_terminal = ABSENT_EMPTY_TRIE, mp_used_node_hashes = []\<rparr>"
  by (simp add: verify_mpt_proof_def EMPTY_TRIE_ROOT_eq MptProofResult_post_init_def FOUND_TERMINALS_def)

definition absent_account :: state_proof where
  "absent_account =
    \<lparr>st_block_number = 1, st_block_hash = replicate 32 1, st_state_root = EMPTY_TRIE_ROOT,
     st_address = replicate 20 1, st_nonce = 0, st_balance = 0, st_storage_root = EMPTY_TRIE_ROOT,
     st_code_hash = EMPTY_CODE_HASH, st_account_proof_nodes = [], st_storage_proofs = []\<rparr>"

lemma absent_account_verified:
  "verify_account EMPTY_TRIE_ROOT absent_account
    = Inr (False, \<lparr>mp_found = False, mp_value = None, mp_terminal = ABSENT_EMPTY_TRIE, mp_used_node_hashes = []\<rparr>)"
  by (simp add: verify_account_def absent_account_def empty_trie_proof MAX_MPT_KEY_BYTES_def)

definition absent_slot :: storage_proof where
  "absent_slot = \<lparr>sp_key = replicate 32 0, sp_value = 0, sp_proof_nodes = []\<rparr>"

lemma absent_slot_verified: "\<exists>x. verify_storage EMPTY_TRIE_ROOT absent_slot = Inr x \<and> vs_value x = 0"
  by (simp add: verify_storage_def absent_slot_def empty_trie_proof MAX_MPT_KEY_BYTES_def
      VerifiedStorageValue_post_init_def FOUND_TERMINALS_def)

end
