(* ===== verification/Swap_Math.thy ===== *)
theory Swap_Math
  imports Prelude
begin

text \<open>
  The mathematics of constant-product swaps, apart from the code: the exact quotient of one
  swap, its continuous composition along a route as \<open>A x / (B + C x)\<close>, and the upper bounds
  of the continuous profit on an interval that the optimiser uses.
\<close>

subsection \<open>One swap\<close>

definition swap_out :: "int \<Rightarrow> int \<Rightarrow> int \<Rightarrow> int \<Rightarrow> int \<Rightarrow> int" where
  "swap_out fn fd rin rout x = (x * fn * rout) div (rin * fd + x * fn)"

definition swap_params :: "int \<Rightarrow> int \<Rightarrow> int \<Rightarrow> int \<Rightarrow> bool" where
  "swap_params fn fd rin rout \<longleftrightarrow> 0 < fn \<and> fn < fd \<and> 0 < rin \<and> 0 < rout"

lemma le_div_iff: "0 < b \<Longrightarrow> k \<le> a div b \<longleftrightarrow> k * b \<le> (a :: int)"
proof
  assume b: "0 < b" and "k \<le> a div b"
  then have "k * b \<le> (a div b) * b" by (simp add: mult_right_mono)
  also have "\<dots> \<le> a" using b by (metis add_le_same_cancel1 div_mult_mod_eq pos_mod_sign le_add_same_cancel1)
  finally show "k * b \<le> a" .
next
  assume b: "0 < b" and "k * b \<le> a"
  then have "k * b div b \<le> a div b" by (intro zdiv_mono1) simp_all
  then show "k \<le> a div b" using b by simp
qed

lemma div_less_iff: "0 < b \<Longrightarrow> a div b < k \<longleftrightarrow> a < k * (b :: int)"
  using le_div_iff [of b k a] by linarith

lemma swap_denominator_pos: "swap_params fn fd rin rout \<Longrightarrow> 0 \<le> x \<Longrightarrow> 0 < rin * fd + x * fn"
  by (simp add: swap_params_def add_pos_nonneg)

lemma swap_out_zero [simp]: "swap_out fn fd rin rout 0 = 0"
  by (simp add: swap_out_def)

lemma swap_out_nonneg: "swap_params fn fd rin rout \<Longrightarrow> 0 \<le> x \<Longrightarrow> 0 \<le> swap_out fn fd rin rout x"
  using swap_denominator_pos [of fn fd rin rout x]
  by (simp add: swap_out_def swap_params_def pos_imp_zdiv_nonneg_iff)

lemma swap_out_less:
  assumes p: "swap_params fn fd rin rout" and x: "0 \<le> x"
  shows "swap_out fn fd rin rout x < rout"
proof -
  have "0 < rout * (rin * fd)" using p by (simp add: swap_params_def)
  then have "x * fn * rout < rout * (rin * fd + x * fn)" by (simp add: algebra_simps)
  then show ?thesis
    using swap_denominator_pos [OF p x] by (simp add: swap_out_def div_less_iff)
qed

lemma swap_out_mono:
  assumes p: "swap_params fn fd rin rout" and x: "0 \<le> x" "x \<le> y"
  shows "swap_out fn fd rin rout x \<le> swap_out fn fd rin rout y"
proof -
  let ?q = "swap_out fn fd rin rout x"
  have dx: "0 < rin * fd + x * fn" and dy: "0 < rin * fd + y * fn"
    using swap_denominator_pos [OF p] x by simp_all
  have "?q \<le> ?q" ..
  then have q: "?q * (rin * fd + x * fn) \<le> x * fn * rout"
    unfolding swap_out_def [of fn fd rin rout x] using dx by (simp only: le_div_iff)
  have less: "?q \<le> rout" using swap_out_less [OF p x(1)] by simp
  have "?q * (rin * fd + y * fn) = ?q * (rin * fd + x * fn) + (y - x) * fn * ?q"
    by (simp add: algebra_simps)
  also have "\<dots> \<le> x * fn * rout + (y - x) * fn * rout"
    using q less x p by (intro add_mono mult_left_mono) (simp_all add: swap_params_def)
  also have "\<dots> = y * fn * rout" by (simp add: algebra_simps)
  finally show ?thesis using dy unfolding swap_out_def [of fn fd rin rout y] by (simp only: le_div_iff)
qed

text \<open>The product of the reserves never falls: the fee and the rounding stay in the pool.\<close>

lemma swap_product:
  assumes p: "swap_params fn fd rin rout" and x: "0 \<le> x"
  shows "rin * rout \<le> (rin + x) * (rout - swap_out fn fd rin rout x)"
proof -
  let ?q = "swap_out fn fd rin rout x"
  have d: "0 < rin * fd + x * fn" by (rule swap_denominator_pos [OF p x])
  have q: "?q * (rin * fd + x * fn) \<le> x * fn * rout"
    using d by (simp add: swap_out_def flip: le_div_iff)
  have "x * fn * (rin * fd) \<le> x * fd * (rin * fd)"
    using p x by (intro mult_right_mono mult_left_mono) (simp_all add: swap_params_def)
  then have "x * fn * (rin + x) * fd \<le> (rin * fd + x * fn) * (x * fd)"
    by (simp add: algebra_simps)
  then have step: "x * fn * rout * ((rin + x) * fd) \<le> (rin * fd + x * fn) * (x * rout * fd)"
    using p mult_right_mono [of "x * fn * (rin + x) * fd" "(rin * fd + x * fn) * (x * fd)" rout]
    by (simp add: swap_params_def algebra_simps)
  have "?q * (rin * fd + x * fn) * ((rin + x) * fd) \<le> x * fn * rout * ((rin + x) * fd)"
    using q p x by (intro mult_right_mono) (simp_all add: swap_params_def)
  also note step
  finally have "(rin * fd + x * fn) * (?q * ((rin + x) * fd)) \<le> (rin * fd + x * fn) * (x * rout * fd)"
    by (simp add: algebra_simps)
  then have "?q * ((rin + x) * fd) \<le> x * rout * fd" using d by (simp only: mult_le_cancel_left_pos)
  then have "fd * (?q * (rin + x)) \<le> fd * (x * rout)" by (simp add: algebra_simps)
  then have "?q * (rin + x) \<le> x * rout" using p by (simp add: swap_params_def)
  then show ?thesis by (simp add: algebra_simps)
qed

text \<open>Swapping there and back through one pool returns no more than was put in.\<close>

lemma swap_round_trip:
  assumes p: "swap_params fn fd rin rout" and x: "0 \<le> x"
  shows "swap_out fn fd (rout - swap_out fn fd rin rout x) (rin + x) (swap_out fn fd rin rout x) \<le> x"
proof -
  let ?y = "swap_out fn fd rin rout x"
  let ?z = "swap_out fn fd (rout - ?y) (rin + x) ?y"
  have y: "0 \<le> ?y" "?y < rout" using swap_out_nonneg [OF p x] swap_out_less [OF p x] by simp_all
  have "swap_params fn fd (rout - ?y) (rin + x)" using p x y by (simp add: swap_params_def)
  from swap_product [OF this y(1)] have "(rin + x) * (rout - ?y) \<le> rout * (rin + x - ?z)"
    by (simp add: algebra_simps)
  with swap_product [OF p x] have "rin * rout \<le> rout * (rin + x - ?z)" by simp
  then have "rin \<le> rin + x - ?z" using p by (simp add: swap_params_def mult.commute)
  then show ?thesis by simp
qed

subsection \<open>Integer square root\<close>

text \<open>\<open>math.isqrt\<close>.\<close>

function isqrt :: "int \<Rightarrow> int" where
  "isqrt n =
    (if n \<le> 0 then 0
     else let r = 2 * isqrt (n div 4) in if (r + 1) * (r + 1) \<le> n then r + 1 else r)"
  by pat_completeness auto
termination by (relation "measure nat") auto

declare isqrt.simps [simp del]

lemma isqrt_nonneg: "0 \<le> isqrt n"
proof (induction n rule: isqrt.induct)
  case (1 n)
  then show ?case by (simp add: isqrt.simps [of n] Let_def)
qed

lemma isqrt_spec: "0 \<le> n \<Longrightarrow> isqrt n * isqrt n \<le> n \<and> n < (isqrt n + 1) * (isqrt n + 1)"
proof (induction n rule: isqrt.induct)
  case (1 n)
  show ?case
  proof (cases "n = 0")
    case True
    then show ?thesis by (simp add: isqrt.simps)
  next
    case False
    let ?s = "isqrt (n div 4)"
    have ih: "?s * ?s \<le> n div 4" "n div 4 < (?s + 1) * (?s + 1)" using 1 False by simp_all
    have "4 * (n div 4) \<le> n" "n < 4 * (n div 4) + 4" by presburger+
    then have "(2 * ?s) * (2 * ?s) \<le> n" "n < (2 * ?s + 2) * (2 * ?s + 2)"
      using ih by (simp_all add: algebra_simps)
    then show ?thesis
      using 1 False by (simp add: isqrt.simps [of n] Let_def algebra_simps)
  qed
qed

subsection \<open>Continuous upper bounds\<close>

text \<open>
  \<open>a x / (b + c x) - x\<close> is the continuous profit of a route; \<open>profit_le a b c x p\<close> says that
  it is at most \<open>p\<close>, with the denominator cleared.
\<close>

definition profit_le :: "int \<Rightarrow> int \<Rightarrow> int \<Rightarrow> int \<Rightarrow> int \<Rightarrow> bool" where
  "profit_le a b c x p \<longleftrightarrow> a * x \<le> (p + x) * (b + c * x)"

lemma ceil_div_le: "0 < d \<Longrightarrow> n \<le> - ((- n) div d) * (d :: int)"
  using le_div_iff [of d "(- n) div d" "- n"] by simp

text \<open>Left of the maximum of the continuous profit, or right of it, an end point dominates.\<close>

lemma profit_le_endpoint:
  assumes b: "0 < b" and c: "0 < c" and v: "0 \<le> v" and x: "0 \<le> x"
    and p: "a * v - v * (b + c * v) \<le> p * (b + c * v)"
    and side: "a * b \<le> (b + c * v) * (b + c * v) \<and> v \<le> x \<or> (b + c * v) * (b + c * v) \<le> a * b \<and> x \<le> v"
  shows "profit_le a b c x p"
proof -
  let ?d = "b + c * v" and ?e = "b + c * x"
  have d: "0 < ?d" and e: "0 < ?e" using b c v x by (simp_all add: add_pos_nonneg)
  have side': "(a * b) * (x - v) \<le> (?d * ?e) * (x - v)"
  proof (cases "v \<le> x")
    case True
    show ?thesis
    proof (cases "x = v")
      case False
      with True side have "a * b \<le> ?d * ?d" by auto
      also have "\<dots> \<le> ?d * ?e" using True c d by (intro mult_left_mono) simp_all
      finally show ?thesis using True by (intro mult_right_mono) simp_all
    qed simp
  next
    case False
    with side have "?d * ?d \<le> a * b" by auto
    moreover have "?d * ?e \<le> ?d * ?d" using False c d by (intro mult_left_mono) simp_all
    ultimately have "?d * ?e \<le> a * b" by linarith
    then show ?thesis using False by (intro mult_right_mono_neg) simp_all
  qed
  have "a * x * ?d - x * ?e * ?d = (a * v - v * ?d) * ?e + ((a * b) * (x - v) - (?d * ?e) * (x - v))"
    by (simp add: algebra_simps)
  also have "\<dots> \<le> (p * ?d) * ?e" using mult_right_mono [OF p less_imp_le [OF e]] side' by linarith
  finally have "(a * x) * ?d \<le> ((p + x) * ?e) * ?d" by (simp add: algebra_simps)
  then show ?thesis unfolding profit_le_def using d by (simp only: mult_le_cancel_right_pos)
qed

text \<open>At the maximum \<open>(\<surd>a - \<surd>b)\<^sup>2 / c\<close>; rounding the root down only raises the bound.\<close>

lemma profit_le_interior:
  assumes b: "0 < b" and c: "0 < c" and x: "0 \<le> x"
    and r: "r * r \<le> a * b" and p: "a + b - 2 * r \<le> p * c"
  shows "profit_le a b c x p"
proof -
  let ?d = "b + c * x"
  have d: "0 < ?d" using b c x by (simp add: add_pos_nonneg)
  have "0 \<le> (?d - r) * (?d - r)" by simp
  then have "2 * (r * ?d) \<le> r * r + ?d * ?d" by (simp add: algebra_simps)
  then have root: "2 * (r * ?d) \<le> a * b + ?d * ?d" using r by linarith
  have "a * x * c - x * ?d * c = (a + b - 2 * r) * ?d - (a * b + ?d * ?d - 2 * (r * ?d))"
    by (simp add: algebra_simps)
  also have "\<dots> \<le> (p * c) * ?d" using mult_right_mono [OF p less_imp_le [OF d]] root by linarith
  finally have "(a * x) * c \<le> ((p + x) * ?d) * c" by (simp add: algebra_simps)
  then show ?thesis unfolding profit_le_def using c by (simp only: mult_le_cancel_right_pos)
qed

text \<open>An exact output below the continuous one has its profit below the bound.\<close>

lemma exact_profit_le:
  assumes "0 < b + c * x" "out * (b + c * x) \<le> a * x" "profit_le a b c x p"
  shows "out - x \<le> p"
proof -
  have "out * (b + c * x) \<le> (p + x) * (b + c * x)" using assms(2,3) by (simp add: profit_le_def)
  then have "out \<le> p + x" using assms(1) by (simp only: mult_le_cancel_right_pos)
  then show ?thesis by simp
qed

text \<open>Composing a route with one more swap (the step of \<open>continuous_coefficients\<close>).\<close>

lemma compose_swap:
  assumes p: "swap_params fn fd rin rout" and d: "0 < b + c * x" and y: "0 \<le> y" and x: "0 \<le> x" and a: "0 \<le> a"
    and out: "y * (b + c * x) \<le> a * x"
  shows "swap_out fn fd rin rout y * ((fd * rin) * b + ((fd * rin) * c + fn * a) * x) \<le> (fn * rout * a) * x"
proof -
  let ?D = "b + c * x" and ?q = "swap_out fn fd rin rout y"
  have dy: "0 < rin * fd + y * fn" by (rule swap_denominator_pos [OF p y])
  have q: "?q * (rin * fd + y * fn) \<le> y * fn * rout"
    unfolding swap_out_def using dy by (simp flip: le_div_iff)
  have less: "?q \<le> rout" using swap_out_less [OF p y] by simp
  have fn: "0 < fn" using p by (simp add: swap_params_def)
  have gap: "0 \<le> a * x - y * ?D" using out by simp
  have "?q * ((fd * rin) * b + ((fd * rin) * c + fn * a) * x)
      = ?q * (rin * fd + y * fn) * ?D + ?q * fn * (a * x - y * ?D)"
    by (simp add: algebra_simps)
  also have "\<dots> \<le> (y * fn * rout) * ?D + rout * fn * (a * x - y * ?D)"
    using q less d fn gap by (intro add_mono mult_right_mono) simp_all
  also have "\<dots> = (fn * rout * a) * x" by (simp add: algebra_simps)
  finally show ?thesis .
qed

end
