(* ===== verification/Constant_Product.thy ===== *)
theory Constant_Product
  imports State_Proof Swap_Math
begin

text \<open>
  \<open>src/aladdin_mev_engine/constant_product.py\<close>: constant-product pools whose reserves are read
  from authenticated storage words, the models of their implementations, exact-input
  quotes in checked 256-bit arithmetic, and the universe of pools of a snapshot.

  An object whose constructor has checked \<open>canonical_json_bytes(self.to_json_value())\<close> has
  a digest, so the digests of such objects are the total \<open>json_sha256\<close>; the digest of a
  pool goes through the digest of its evidence and is a \<open>result\<close>.
\<close>

unbundle bit_operations_syntax

definition MAX_UINT256 :: int where "MAX_UINT256 = 2 ^ 256 - 1"
definition MAX_FEE_DENOMINATOR :: int where "MAX_FEE_DENOMINATOR = 1000000000"
definition MAX_MODEL_REGISTRY_SIZE :: nat where "MAX_MODEL_REGISTRY_SIZE = 64"
definition MAX_POOL_UNIVERSE_SIZE :: nat where "MAX_POOL_UNIVERSE_SIZE = 256"

definition IMPLEMENTATION_SCHEMA :: string where
  "IMPLEMENTATION_SCHEMA = ''aladdin-mev-constant-product-implementation/v1''"
definition MODEL_REGISTRY_SCHEMA :: string where
  "MODEL_REGISTRY_SCHEMA = ''aladdin-mev-constant-product-model-registry/v1''"
definition POOL_SPEC_SCHEMA :: string where
  "POOL_SPEC_SCHEMA = ''aladdin-mev-constant-product-pool-spec/v1''"
definition AUTHENTICATED_POOL_SCHEMA :: string where
  "AUTHENTICATED_POOL_SCHEMA = ''aladdin-mev-authenticated-constant-product-pool/v1''"
definition POOL_UNIVERSE_SCHEMA :: string where
  "POOL_UNIVERSE_SCHEMA = ''aladdin-mev-constant-product-pool-universe/v1''"

definition require_uint256 :: "string \<Rightarrow> int \<Rightarrow> bool \<Rightarrow> unit result" where
  "require_uint256 name v positive =
    (if v < 0 \<or> MAX_UINT256 < v
     then Inl (ValueError (name @ '' must be an unsigned 256-bit exact integer''))
     else if positive \<and> v = 0 then Inl (ValueError (name @ '' must be positive''))
     else Inr ())"

definition require_bytes :: "string \<Rightarrow> bytes \<Rightarrow> nat \<Rightarrow> bool \<Rightarrow> unit result" where
  "require_bytes name v n nonzero =
    (if length v \<noteq> n then Inl (ValueError (name @ '' must be exact immutable data''))
     else if nonzero \<and> v = zero_bytes n then Inl (ValueError (name @ '' cannot be zero''))
     else Inr ())"

definition checked_mul :: "int \<Rightarrow> int \<Rightarrow> string \<Rightarrow> int result" where
  "checked_mul left right name =
    rbind (require_uint256 (name @ '' left'') left False) (\<lambda>_.
    rbind (require_uint256 (name @ '' right'') right False) (\<lambda>_.
    if left \<noteq> 0 \<and> MAX_UINT256 div left < right
    then Inl (ConstantProductArithmeticError (name @ '' exceeds checked uint256''))
    else Inr (left * right)))"

definition checked_add :: "int \<Rightarrow> int \<Rightarrow> string \<Rightarrow> int result" where
  "checked_add left right name =
    rbind (require_uint256 (name @ '' left'') left False) (\<lambda>_.
    rbind (require_uint256 (name @ '' right'') right False) (\<lambda>_.
    if MAX_UINT256 - left < right
    then Inl (ConstantProductArithmeticError (name @ '' exceeds checked uint256''))
    else Inr (left + right)))"

subsection \<open>Packed storage fields\<close>

record packed_field =
  pf_slot :: bytes
  pf_bit_offset :: int
  pf_bit_width :: int

definition PackedStorageField_post_init :: "packed_field \<Rightarrow> packed_field result" where
  "PackedStorageField_post_init self =
    rbind (require_bytes ''slot'' (pf_slot self) 32 False) (\<lambda>_.
    if \<not> (0 \<le> pf_bit_offset self \<and> pf_bit_offset self < 256)
    then Inl (ValueError ''bit_offset is outside the governed storage word'')
    else if \<not> (1 \<le> pf_bit_width self \<and> pf_bit_width self \<le> 256)
    then Inl (ValueError ''bit_width is outside the governed range'')
    else if 256 < pf_bit_offset self + pf_bit_width self
    then Inl (ValueError ''packed storage field exceeds one 256-bit word'')
    else Inr self)"

definition pf_mask :: "packed_field \<Rightarrow> int" where
  "pf_mask self = push_bit (nat (pf_bit_width self)) 1 - 1"

definition pf_capacity :: "packed_field \<Rightarrow> int" where
  "pf_capacity self = pf_mask self"

definition pf_extract :: "packed_field \<Rightarrow> int \<Rightarrow> int result" where
  "pf_extract self word =
    rbind (require_uint256 ''storage word'' word False) (\<lambda>_.
    Inr (drop_bit (nat (pf_bit_offset self)) word AND pf_mask self))"

definition pf_overlaps :: "packed_field \<Rightarrow> packed_field \<Rightarrow> bool" where
  "pf_overlaps self other \<longleftrightarrow>
    pf_slot self = pf_slot other
    \<and> max (pf_bit_offset self) (pf_bit_offset other)
      < min (pf_bit_offset self + pf_bit_width self) (pf_bit_offset other + pf_bit_width other)"

definition PackedStorageField_to_json :: "packed_field \<Rightarrow> json" where
  "PackedStorageField_to_json self = JObj
    [(''slot'', JStr (to_hex_data (pf_slot self))),
     (''bit_offset'', JStr (str_of_int (pf_bit_offset self))),
     (''bit_width'', JStr (str_of_int (pf_bit_width self)))]"

subsection \<open>Implementations and their registry\<close>

record implementation_spec =
  im_implementation_id :: string
  im_code_hash :: bytes
  im_token0_field :: packed_field
  im_token1_field :: packed_field
  im_reserve0_field :: packed_field
  im_reserve1_field :: packed_field
  im_fee_numerator :: int
  im_fee_denominator :: int

definition im_fields :: "implementation_spec \<Rightarrow> packed_field list" where
  "im_fields self =
    [im_token0_field self, im_token1_field self, im_reserve0_field self, im_reserve1_field self]"

definition ConstantProductImplementationSpec_to_json :: "implementation_spec \<Rightarrow> json" where
  "ConstantProductImplementationSpec_to_json self = JObj
    [(''schema'', JStr IMPLEMENTATION_SCHEMA),
     (''implementation_id'', JStr (im_implementation_id self)),
     (''code_hash'', JStr (to_hex_data (im_code_hash self))),
     (''token0_field'', PackedStorageField_to_json (im_token0_field self)),
     (''token1_field'', PackedStorageField_to_json (im_token1_field self)),
     (''reserve0_field'', PackedStorageField_to_json (im_reserve0_field self)),
     (''reserve1_field'', PackedStorageField_to_json (im_reserve1_field self)),
     (''fee_numerator'', JStr (str_of_int (im_fee_numerator self))),
     (''fee_denominator'', JStr (str_of_int (im_fee_denominator self))),
     (''arithmetic_semantics'', JStr ''checked-uint256''),
     (''code_identity_semantics'', JStr ''direct-runtime-code-hash-model-bound''),
     (''fee_semantics'', JStr ''static-exact-input-multiplier''),
     (''transfer_semantics'', JStr ''standard-no-transfer-tax-no-rebase-assumption''),
     (''model_authority'', JStr ''explicit-model-bound-shadow-only'')]"

text \<open>The two nested loops over the pairs of fields.\<close>

fun fields_overlap :: "packed_field list \<Rightarrow> bool" where
  "fields_overlap [] = False"
| "fields_overlap (left # rest) \<longleftrightarrow> list_ex (pf_overlaps left) rest \<or> fields_overlap rest"

definition ConstantProductImplementationSpec_post_init ::
  "implementation_spec \<Rightarrow> implementation_spec result" where
  "ConstantProductImplementationSpec_post_init self =
    rbind (require_bounded_text ''implementation_id'' (im_implementation_id self) 128) (\<lambda>_.
    rbind (require_bytes ''code_hash'' (im_code_hash self) 32 True) (\<lambda>_.
    if im_code_hash self = EMPTY_CODE_HASH
    then Inl (ValueError ''constant-product implementation code hash cannot be empty code'')
    else if pf_bit_width (im_token0_field self) \<noteq> 160 \<or> pf_bit_width (im_token1_field self) \<noteq> 160
    then Inl (ValueError ''token storage fields must be exact 160-bit addresses'')
    else if fields_overlap (im_fields self)
    then Inl (ValueError ''implementation storage fields overlap'')
    else
    rbind (require_uint256 ''fee_numerator'' (im_fee_numerator self) True) (\<lambda>_.
    rbind (require_uint256 ''fee_denominator'' (im_fee_denominator self) True) (\<lambda>_.
    if MAX_FEE_DENOMINATOR < im_fee_denominator self
    then Inl (ValueError ''fee_denominator exceeds the governed ceiling'')
    else if im_fee_denominator self \<le> im_fee_numerator self
    then Inl (ValueError ''fee_numerator must be smaller than fee_denominator'')
    else
    rbind (canonical_json_bytes (ConstantProductImplementationSpec_to_json self)) (\<lambda>_.
    Inr self)))))"

definition im_required_slots :: "implementation_spec \<Rightarrow> bytes list" where
  "im_required_slots self = sort (remdups (map pf_slot (im_fields self)))"

definition im_digest :: "implementation_spec \<Rightarrow> string" where
  "im_digest self = json_sha256 (ConstantProductImplementationSpec_to_json self)"

record model_registry =
  mr_registry_id :: string
  mr_implementations :: "implementation_spec list"

definition ConstantProductModelRegistry_to_json :: "model_registry \<Rightarrow> json" where
  "ConstantProductModelRegistry_to_json self = JObj
    [(''schema'', JStr MODEL_REGISTRY_SCHEMA),
     (''registry_id'', JStr (mr_registry_id self)),
     (''implementations'', JArr (map ConstantProductImplementationSpec_to_json (mr_implementations self))),
     (''implementation_sha256'', JArr (map (JStr \<circ> im_digest) (mr_implementations self)))]"

definition ConstantProductModelRegistry_post_init :: "model_registry \<Rightarrow> model_registry result" where
  "ConstantProductModelRegistry_post_init self =
    rbind (require_bounded_text ''registry_id'' (mr_registry_id self) 128) (\<lambda>_.
    if mr_implementations self = []
    then Inl (TypeError ''implementations must be a non-empty exact tuple'')
    else if MAX_MODEL_REGISTRY_SIZE < length (mr_implementations self)
    then Inl (ValueError ''model registry exceeds the governed size ceiling'')
    else
    let ordered = sort_key (\<lambda>i. (im_code_hash i, im_implementation_id i, im_digest i)) (mr_implementations self);
        self = self\<lparr>mr_implementations := ordered\<rparr> in
    if has_duplicate (map im_implementation_id ordered)
    then Inl (ValueError ''model registry contains a duplicate implementation_id'')
    else if has_duplicate (map im_digest ordered)
    then Inl (ValueError ''model registry contains a duplicate implementation'')
    else if has_duplicate (map im_code_hash ordered)
    then Inl (ValueError ''one runtime code hash cannot authorize conflicting constant-product models'')
    else rbind (canonical_json_bytes (ConstantProductModelRegistry_to_json self)) (\<lambda>_. Inr self))"

definition get_by_code_hash :: "model_registry \<Rightarrow> bytes \<Rightarrow> implementation_spec result" where
  "get_by_code_hash self code_hash =
    rbind (require_bytes ''code_hash'' code_hash 32 False) (\<lambda>_.
    (case find (\<lambda>i. im_code_hash i = code_hash) (mr_implementations self) of
       Some i \<Rightarrow> Inr i
     | None \<Rightarrow> Inl (ValueError ''runtime code hash is absent from the model registry'')))"

definition mr_digest :: "model_registry \<Rightarrow> string" where
  "mr_digest self = json_sha256 (ConstantProductModelRegistry_to_json self)"

subsection \<open>Pool specifications\<close>

record pool_spec =
  ps_spec_id :: string
  ps_chain :: chain
  ps_pool_address :: bytes
  ps_token0 :: bytes
  ps_token1 :: bytes
  ps_implementation :: implementation_spec

definition ConstantProductPoolSpec_to_json :: "pool_spec \<Rightarrow> json" where
  "ConstantProductPoolSpec_to_json self = JObj
    [(''schema'', JStr POOL_SPEC_SCHEMA),
     (''spec_id'', JStr (ps_spec_id self)),
     (''chain'', JStr (chain_value (ps_chain self))),
     (''pool_address'', JStr (to_hex_data (ps_pool_address self))),
     (''token0'', JStr (to_hex_data (ps_token0 self))),
     (''token1'', JStr (to_hex_data (ps_token1 self))),
     (''implementation'', ConstantProductImplementationSpec_to_json (ps_implementation self)),
     (''implementation_sha256'', JStr (im_digest (ps_implementation self)))]"

definition ConstantProductPoolSpec_post_init :: "pool_spec \<Rightarrow> pool_spec result" where
  "ConstantProductPoolSpec_post_init self =
    rbind (require_bounded_text ''spec_id'' (ps_spec_id self) 128) (\<lambda>_.
    if ps_chain self \<notin> {ETHEREUM, BASE}
    then Inl (ValueError ''F3 pool specs require an F2 proof-enabled EVM chain'')
    else
    rbind (require_bytes ''pool_address'' (ps_pool_address self) 20 True) (\<lambda>_.
    rbind (require_bytes ''token0'' (ps_token0 self) 20 True) (\<lambda>_.
    rbind (require_bytes ''token1'' (ps_token1 self) 20 True) (\<lambda>_.
    if ps_token0 self = ps_token1 self then Inl (ValueError ''pool tokens must be distinct'')
    else rbind (canonical_json_bytes (ConstantProductPoolSpec_to_json self)) (\<lambda>_. Inr self)))))"

definition ps_digest :: "pool_spec \<Rightarrow> string" where
  "ps_digest self = json_sha256 (ConstantProductPoolSpec_to_json self)"

subsection \<open>Quotes\<close>

record pool_swap_quote =
  q_pool_sha256 :: string
  q_implementation_sha256 :: string
  q_pool_address :: bytes
  q_token_in :: bytes
  q_token_out :: bytes
  q_amount_in :: int
  q_amount_out :: int
  q_reserve_in :: int
  q_reserve_out :: int
  q_reserve_in_capacity :: int
  q_post_reserve_in :: int
  q_post_reserve_out :: int
  q_fee_numerator :: int
  q_fee_denominator :: int

definition PoolSwapQuote_to_json :: "pool_swap_quote \<Rightarrow> json" where
  "PoolSwapQuote_to_json self = JObj
    [(''pool_sha256'', JStr (q_pool_sha256 self)),
     (''implementation_sha256'', JStr (q_implementation_sha256 self)),
     (''pool_address'', JStr (to_hex_data (q_pool_address self))),
     (''token_in'', JStr (to_hex_data (q_token_in self))),
     (''token_out'', JStr (to_hex_data (q_token_out self))),
     (''amount_in'', JStr (str_of_int (q_amount_in self))),
     (''amount_out'', JStr (str_of_int (q_amount_out self))),
     (''reserve_in'', JStr (str_of_int (q_reserve_in self))),
     (''reserve_out'', JStr (str_of_int (q_reserve_out self))),
     (''reserve_in_capacity'', JStr (str_of_int (q_reserve_in_capacity self))),
     (''post_reserve_in'', JStr (str_of_int (q_post_reserve_in self))),
     (''post_reserve_out'', JStr (str_of_int (q_post_reserve_out self))),
     (''fee_numerator'', JStr (str_of_int (q_fee_numerator self))),
     (''fee_denominator'', JStr (str_of_int (q_fee_denominator self)))]"

text \<open>The checked quotient the code computes twice, in the pool and in the quote.\<close>

definition checked_amount_out :: "int \<Rightarrow> int \<Rightarrow> int \<Rightarrow> int \<Rightarrow> int \<Rightarrow> int result" where
  "checked_amount_out amount_in fee_numerator fee_denominator reserve_in reserve_out =
    rbind (checked_mul amount_in fee_numerator ''amount_in_with_fee'') (\<lambda>amount_in_with_fee.
    rbind (checked_mul amount_in_with_fee reserve_out ''quote numerator'') (\<lambda>numerator.
    rbind (checked_mul reserve_in fee_denominator ''quote reserve denominator'') (\<lambda>reserve_term.
    rbind (checked_add reserve_term amount_in_with_fee ''quote denominator'') (\<lambda>denominator.
    Inr (numerator div denominator)))))"

definition PoolSwapQuote_post_init :: "pool_swap_quote \<Rightarrow> pool_swap_quote result" where
  "PoolSwapQuote_post_init self =
    rbind (require_sha256 ''pool_sha256'' (q_pool_sha256 self)) (\<lambda>_.
    rbind (require_sha256 ''implementation_sha256'' (q_implementation_sha256 self)) (\<lambda>_.
    rbind (require_bytes ''pool_address'' (q_pool_address self) 20 True) (\<lambda>_.
    rbind (require_bytes ''token_in'' (q_token_in self) 20 True) (\<lambda>_.
    rbind (require_bytes ''token_out'' (q_token_out self) 20 True) (\<lambda>_.
    if q_token_in self = q_token_out self then Inl (ValueError ''quote tokens must be distinct'')
    else
    rbind (rall (\<lambda>(name, v). require_uint256 name v False)
      [(''amount_in'', q_amount_in self), (''amount_out'', q_amount_out self),
       (''reserve_in'', q_reserve_in self), (''reserve_out'', q_reserve_out self),
       (''reserve_in_capacity'', q_reserve_in_capacity self),
       (''post_reserve_in'', q_post_reserve_in self), (''post_reserve_out'', q_post_reserve_out self),
       (''fee_numerator'', q_fee_numerator self), (''fee_denominator'', q_fee_denominator self)]) (\<lambda>_.
    if q_reserve_in self = 0 \<or> q_reserve_out self = 0
    then Inl (ValueError ''quote reserves must be positive'')
    else if q_fee_numerator self = 0 \<or> q_fee_denominator self = 0
    then Inl (ValueError ''quote fee values must be positive'')
    else if q_fee_denominator self \<le> q_fee_numerator self
    then Inl (ValueError ''quote fee multiplier is invalid'')
    else if MAX_FEE_DENOMINATOR < q_fee_denominator self
    then Inl (ValueError ''quote fee denominator exceeds the governed ceiling'')
    else if q_reserve_in_capacity self \<le> 0
       \<or> q_reserve_in_capacity self AND (q_reserve_in_capacity self + 1) \<noteq> 0
    then Inl (ValueError ''reserve_in_capacity must be an exact packed-field mask'')
    else if q_reserve_in_capacity self < q_reserve_in self
    then Inl (ValueError ''reserve_in exceeds its packed-field capacity'')
    else if q_post_reserve_in self \<noteq> q_reserve_in self + q_amount_in self
    then Inl (ValueError ''post_reserve_in does not reconcile'')
    else if q_reserve_in_capacity self < q_post_reserve_in self
    then Inl (ValueError ''post_reserve_in exceeds packed-field capacity'')
    else if q_reserve_out self \<le> q_amount_out self
    then Inl (ValueError ''amount_out must remain below reserve_out'')
    else if q_post_reserve_out self \<noteq> q_reserve_out self - q_amount_out self
    then Inl (ValueError ''post_reserve_out does not reconcile'')
    else
    rbind (checked_amount_out (q_amount_in self) (q_fee_numerator self) (q_fee_denominator self)
             (q_reserve_in self) (q_reserve_out self)) (\<lambda>amount_out.
    if q_amount_out self \<noteq> amount_out
    then Inl (ValueError ''quote amount_out does not match exact integer mathematics'')
    else rbind (canonical_json_bytes (PoolSwapQuote_to_json self)) (\<lambda>_. Inr self))))))))"

definition q_digest :: "pool_swap_quote \<Rightarrow> string" where
  "q_digest self = json_sha256 (PoolSwapQuote_to_json self)"

subsection \<open>Authenticated pools\<close>

record authenticated_pool =
  ap_spec :: pool_spec
  ap_evidence :: state_proof_evidence
  ap_reserve0 :: int
  ap_reserve1 :: int

definition AuthenticatedConstantProductPool_to_json :: "authenticated_pool \<Rightarrow> json result" where
  "AuthenticatedConstantProductPool_to_json self =
    rbind (EvmStateProofEvidence_digest (ap_evidence self)) (\<lambda>evidence_sha256.
    Inr (JObj
      [(''schema'', JStr AUTHENTICATED_POOL_SCHEMA),
       (''spec'', ConstantProductPoolSpec_to_json (ap_spec self)),
       (''spec_sha256'', JStr (ps_digest (ap_spec self))),
       (''evidence_sha256'', JStr evidence_sha256),
       (''reserve0'', JStr (str_of_int (ap_reserve0 self))),
       (''reserve1'', JStr (str_of_int (ap_reserve1 self)))]))"

definition ap_digest :: "authenticated_pool \<Rightarrow> string result" where
  "ap_digest self = rbind (AuthenticatedConstantProductPool_to_json self) canonical_sha256"

text \<open>\<open>field.extract(words[field.slot])\<close>\<close>

definition extract_word :: "(bytes \<times> int) list \<Rightarrow> packed_field \<Rightarrow> int result" where
  "extract_word words field =
    (case map_of words (pf_slot field) of
       None \<Rightarrow> Inl (RuntimeError ''KeyError'')
     | Some word \<Rightarrow> pf_extract field word)"

definition AuthenticatedConstantProductPool_create ::
  "pool_spec \<Rightarrow> state_proof_evidence \<Rightarrow> authenticated_pool result" where
  "AuthenticatedConstantProductPool_create spec evidence =
    (if \<not> ev_account_exists evidence
     then Inl (ValueError ''pool account must exist in authenticated state'')
     else if ev_chain evidence \<noteq> ps_chain spec
     then Inl (ValueError ''pool evidence chain does not match its specification'')
     else if ev_address evidence \<noteq> ps_pool_address spec
     then Inl (ValueError ''pool evidence address does not match its specification'')
     else if ev_code_hash evidence \<noteq> im_code_hash (ps_implementation spec)
     then Inl (ValueError ''pool runtime code hash does not match its model'')
     else
     let storage = ev_storage_values evidence; keys = map vs_key storage;
         implementation = ps_implementation spec in
     if has_duplicate keys then Inl (ValueError ''pool storage evidence contains duplicate slots'')
     else if sort keys \<noteq> im_required_slots implementation
     then Inl (ValueError ''pool storage evidence does not contain the exact model slot set'')
     else if list_ex (\<lambda>s. \<not> vs_included s) storage
     then Inl (ValueError ''all model storage slots require authenticated inclusion'')
     else
     let words = map (\<lambda>s. (vs_key s, vs_value s)) storage in
     rbind (extract_word words (im_token0_field implementation)) (\<lambda>token0_int.
     rbind (extract_word words (im_token1_field implementation)) (\<lambda>token1_int.
     let token0 = to_bytes_be 20 token0_int; token1 = to_bytes_be 20 token1_int in
     if token0 = zero_bytes 20 \<or> token1 = zero_bytes 20
     then Inl (ValueError ''authenticated pool token identity cannot be zero'')
     else if token0 \<noteq> ps_token0 spec \<or> token1 \<noteq> ps_token1 spec
     then Inl (ValueError ''authenticated pool token identity disagrees with its specification'')
     else
     rbind (extract_word words (im_reserve0_field implementation)) (\<lambda>reserve0.
     rbind (extract_word words (im_reserve1_field implementation)) (\<lambda>reserve1.
     if reserve0 = 0 \<or> reserve1 = 0
     then Inl (ValueError ''authenticated constant-product reserves must be positive'')
     else
     let self = \<lparr>ap_spec = spec, ap_evidence = evidence, ap_reserve0 = reserve0, ap_reserve1 = reserve1\<rparr> in
     rbind (AuthenticatedConstantProductPool_to_json self) (\<lambda>v.
     rbind (canonical_json_bytes v) (\<lambda>_. Inr self)))))))"

definition ap_token0 :: "authenticated_pool \<Rightarrow> bytes" where
  "ap_token0 self = ps_token0 (ap_spec self)"
definition ap_token1 :: "authenticated_pool \<Rightarrow> bytes" where
  "ap_token1 self = ps_token1 (ap_spec self)"
definition ap_pool_address :: "authenticated_pool \<Rightarrow> bytes" where
  "ap_pool_address self = ps_pool_address (ap_spec self)"
definition ap_implementation :: "authenticated_pool \<Rightarrow> implementation_spec" where
  "ap_implementation self = ps_implementation (ap_spec self)"

definition supports_token :: "authenticated_pool \<Rightarrow> bytes \<Rightarrow> bool" where
  "supports_token self token \<longleftrightarrow> token \<in> {ap_token0 self, ap_token1 self}"

definition other_token :: "authenticated_pool \<Rightarrow> bytes \<Rightarrow> bytes result" where
  "other_token self token =
    rbind (require_bytes ''token'' token 20 True) (\<lambda>_.
    if token = ap_token0 self then Inr (ap_token1 self)
    else if token = ap_token1 self then Inr (ap_token0 self)
    else Inl (ValueError ''token is not in the authenticated pool''))"

definition reserve_pair :: "authenticated_pool \<Rightarrow> bytes \<Rightarrow> (int \<times> int \<times> int) result" where
  "reserve_pair self token_in =
    rbind (require_bytes ''token_in'' token_in 20 True) (\<lambda>_.
    if token_in = ap_token0 self
    then Inr (ap_reserve0 self, ap_reserve1 self, pf_capacity (im_reserve0_field (ap_implementation self)))
    else if token_in = ap_token1 self
    then Inr (ap_reserve1 self, ap_reserve0 self, pf_capacity (im_reserve1_field (ap_implementation self)))
    else Inl (ValueError ''token_in is not in the authenticated pool''))"

definition pool_maximum_safe_input :: "authenticated_pool \<Rightarrow> bytes \<Rightarrow> int result" where
  "pool_maximum_safe_input self token_in =
    rbind (reserve_pair self token_in) (\<lambda>(reserve_in, reserve_out, capacity).
    let implementation = ap_implementation self in
    rbind (checked_mul reserve_in (im_fee_denominator implementation) ''reserve denominator'') (\<lambda>reserve_term.
    Inr (min (capacity - reserve_in)
        (min (MAX_UINT256 div im_fee_numerator implementation)
        (min ((MAX_UINT256 - reserve_term) div im_fee_numerator implementation)
             ((MAX_UINT256 div reserve_out) div im_fee_numerator implementation))))))"

definition pool_quote_exact_in :: "authenticated_pool \<Rightarrow> bytes \<Rightarrow> int \<Rightarrow> pool_swap_quote result" where
  "pool_quote_exact_in self token_in amount_in =
    rbind (require_uint256 ''amount_in'' amount_in False) (\<lambda>_.
    rbind (reserve_pair self token_in) (\<lambda>(reserve_in, reserve_out, capacity).
    rbind (pool_maximum_safe_input self token_in) (\<lambda>maximum.
    if maximum < amount_in
    then Inl (ConstantProductArithmeticError ''input exceeds checked arithmetic or packed reserve capacity'')
    else
    let implementation = ap_implementation self in
    rbind (checked_amount_out amount_in (im_fee_numerator implementation)
             (im_fee_denominator implementation) reserve_in reserve_out) (\<lambda>amount_out.
    rbind (other_token self token_in) (\<lambda>token_out.
    rbind (ap_digest self) (\<lambda>pool_sha256.
    PoolSwapQuote_post_init
      \<lparr>q_pool_sha256 = pool_sha256, q_implementation_sha256 = im_digest implementation,
       q_pool_address = ap_pool_address self, q_token_in = token_in, q_token_out = token_out,
       q_amount_in = amount_in, q_amount_out = amount_out, q_reserve_in = reserve_in,
       q_reserve_out = reserve_out, q_reserve_in_capacity = capacity,
       q_post_reserve_in = reserve_in + amount_in, q_post_reserve_out = reserve_out - amount_out,
       q_fee_numerator = im_fee_numerator implementation,
       q_fee_denominator = im_fee_denominator implementation\<rparr>))))))"

subsection \<open>The universe of pools of a snapshot\<close>

record pool_universe =
  pu_snapshot :: state_snapshot
  pu_model_registry :: model_registry
  pu_pools :: "authenticated_pool list"

definition PoolUniverse_to_json :: "pool_universe \<Rightarrow> json result" where
  "PoolUniverse_to_json self =
    rbind (EvmStateSnapshot_digest (pu_snapshot self)) (\<lambda>snapshot_sha256.
    rbind (rmap AuthenticatedConstantProductPool_to_json (pu_pools self)) (\<lambda>pools.
    rbind (rmap ap_digest (pu_pools self)) (\<lambda>digests.
    Inr (JObj
      [(''schema'', JStr POOL_UNIVERSE_SCHEMA),
       (''state_snapshot_sha256'', JStr snapshot_sha256),
       (''model_registry'', ConstantProductModelRegistry_to_json (pu_model_registry self)),
       (''model_registry_sha256'', JStr (mr_digest (pu_model_registry self))),
       (''pools'', JArr pools),
       (''pool_sha256'', JArr (map JStr digests)),
       (''opportunity_authority'', JStr ''authenticated-state-explicit-model-gross-shadow-only'')]))))"

text \<open>The checks of one pool against the snapshot and the registry.\<close>

definition universe_pool_ok :: "pool_universe \<Rightarrow> authenticated_pool \<Rightarrow> unit result" where
  "universe_pool_ok self pool =
    (if ps_chain (ap_spec pool) \<noteq> an_chain (sn_anchor (pu_snapshot self))
     then Inl (ValueError ''pool universe contains a cross-chain pool'')
     else (case map_of (rev (map (\<lambda>a. (ev_address a, a)) (sn_accounts (pu_snapshot self)))) (ap_pool_address pool) of
       None \<Rightarrow> Inl (RuntimeError ''KeyError'')
     | Some retained \<Rightarrow>
       rbind (EvmStateProofEvidence_digest retained) (\<lambda>retained_sha256.
       rbind (EvmStateProofEvidence_digest (ap_evidence pool)) (\<lambda>evidence_sha256.
       if retained_sha256 \<noteq> evidence_sha256
       then Inl (ValueError ''pool evidence is not the exact snapshot account evidence'')
       else
       rbind (EvmBlockStateAnchor_digest (ev_anchor (ap_evidence pool))) (\<lambda>pool_anchor.
       rbind (EvmBlockStateAnchor_digest (sn_anchor (pu_snapshot self))) (\<lambda>anchor.
       if pool_anchor \<noteq> anchor
       then Inl (ValueError ''pool evidence does not bind the exact snapshot anchor'')
       else
       rbind (get_by_code_hash (pu_model_registry self) (ev_code_hash (ap_evidence pool))) (\<lambda>registered.
       if im_digest registered \<noteq> im_digest (ap_implementation pool)
       then Inl (ValueError ''pool implementation is absent from the model registry'')
       else Inr ())))))))"

definition PoolUniverse_post_init :: "pool_universe \<Rightarrow> pool_universe result" where
  "PoolUniverse_post_init self =
    (if pu_pools self = [] then Inl (TypeError ''pools must be a non-empty exact tuple'')
     else if MAX_POOL_UNIVERSE_SIZE < length (pu_pools self)
     then Inl (ValueError ''pool universe exceeds the governed size ceiling'')
     else
     let ordered = sort_key ap_pool_address (pu_pools self);
         self = self\<lparr>pu_pools := ordered\<rparr>;
         addresses = map ap_pool_address ordered in
     if has_duplicate addresses then Inl (ValueError ''pool universe contains a duplicate pool address'')
     else if an_chain (sn_anchor (pu_snapshot self)) \<notin> {ETHEREUM, BASE}
     then Inl (ValueError ''F3 universe requires an F2 proof-enabled chain'')
     else if set addresses \<noteq> set (map ev_address (sn_accounts (pu_snapshot self)))
     then Inl (ValueError ''pool universe does not consume the exact snapshot account set'')
     else
     rbind (rall (universe_pool_ok self) ordered) (\<lambda>_.
     rbind (PoolUniverse_to_json self) (\<lambda>v.
     rbind (canonical_json_bytes v) (\<lambda>_. Inr self))))"

definition pu_chain :: "pool_universe \<Rightarrow> chain" where
  "pu_chain self = an_chain (sn_anchor (pu_snapshot self))"

definition pu_observed_at_unix_ms :: "pool_universe \<Rightarrow> int" where
  "pu_observed_at_unix_ms self = an_state_observed_at (sn_anchor (pu_snapshot self))"

definition pu_state_reference :: "pool_universe \<Rightarrow> state_reference result" where
  "pu_state_reference self =
    rbind (EvmStateSnapshot_digest (pu_snapshot self)) (\<lambda>digest.
    StateReference_post_init
      \<lparr>sr_chain = pu_chain self,
       sr_sequence_number = an_block_number (sn_anchor (pu_snapshot self)),
       sr_sequence_hash = to_hex_data (an_block_hash (sn_anchor (pu_snapshot self))),
       sr_observed_at_unix_ms = pu_observed_at_unix_ms self,
       sr_state_digest = digest\<rparr>)"

definition get_pool :: "pool_universe \<Rightarrow> bytes \<Rightarrow> authenticated_pool result" where
  "get_pool self pool_address =
    rbind (require_bytes ''pool_address'' pool_address 20 True) (\<lambda>_.
    (case find (\<lambda>p. ap_pool_address p = pool_address) (pu_pools self) of
       Some p \<Rightarrow> Inr p
     | None \<Rightarrow> Inl (ValueError ''unknown pool address in the authenticated universe'')))"

definition pu_digest :: "pool_universe \<Rightarrow> string result" where
  "pu_digest self = rbind (PoolUniverse_to_json self) canonical_sha256"

subsection \<open>Checked arithmetic\<close>

lemma require_uint256_Inr [simp]:
  "require_uint256 n v positive = Inr u \<longleftrightarrow> 0 \<le> v \<and> v \<le> MAX_UINT256 \<and> (positive \<longrightarrow> v \<noteq> 0)"
  by (auto simp: require_uint256_def)

lemma require_bytes_Inr [simp]:
  "require_bytes n v k nonzero = Inr u \<longleftrightarrow> length v = k \<and> (nonzero \<longrightarrow> v \<noteq> zero_bytes k)"
  by (auto simp: require_bytes_def)

lemma checked_mul_eq:
  assumes "0 \<le> a" "a \<le> MAX_UINT256" "0 \<le> b" "b \<le> MAX_UINT256"
  shows "checked_mul a b n =
    (if a * b \<le> MAX_UINT256 then Inr (a * b)
     else Inl (ConstantProductArithmeticError (n @ '' exceeds checked uint256'')))"
proof (cases "a = 0")
  case True
  then show ?thesis using assms by (simp add: checked_mul_def require_uint256_def)
next
  case False
  then have "MAX_UINT256 div a < b \<longleftrightarrow> \<not> a * b \<le> MAX_UINT256"
    using assms(1) by (simp add: div_less_iff not_le mult.commute)
  then show ?thesis using assms False by (simp add: checked_mul_def require_uint256_def)
qed

lemma checked_add_eq:
  assumes "0 \<le> a" "a \<le> MAX_UINT256" "0 \<le> b" "b \<le> MAX_UINT256"
  shows "checked_add a b n =
    (if a + b \<le> MAX_UINT256 then Inr (a + b)
     else Inl (ConstantProductArithmeticError (n @ '' exceeds checked uint256'')))"
  using assms by (auto simp: checked_add_def require_uint256_def)

text \<open>The checked quotient is the exact one, or an arithmetic error, and never anything else.\<close>

definition fits :: "int \<Rightarrow> int \<Rightarrow> int \<Rightarrow> int \<Rightarrow> int \<Rightarrow> bool" where
  "fits x fn fd rin rout \<longleftrightarrow> x * fn * rout \<le> MAX_UINT256 \<and> rin * fd + x * fn \<le> MAX_UINT256"

lemma checked_amount_out_eq:
  assumes p: "swap_params fn fd rin rout" and x: "0 \<le> x" "x \<le> MAX_UINT256"
    and max: "fd \<le> MAX_UINT256" "rin \<le> MAX_UINT256" "rout \<le> MAX_UINT256"
  shows "(fits x fn fd rin rout \<longrightarrow> checked_amount_out x fn fd rin rout = Inr (swap_out fn fd rin rout x))
    \<and> (\<not> fits x fn fd rin rout \<longrightarrow>
        (\<exists>m. checked_amount_out x fn fd rin rout = Inl (ConstantProductArithmeticError m)))"
proof -
  have pos: "0 < fn" "fn \<le> MAX_UINT256" "0 \<le> fd" "0 \<le> rin" "0 < rout" "0 \<le> x * fn" "0 \<le> rin * fd"
    using p x max by (auto simp: swap_params_def)
  have prod: "x * fn \<le> x * fn * rout"
    using mult_left_mono [of 1 rout "x * fn"] pos by simp
  show ?thesis
  proof (cases "x * fn \<le> MAX_UINT256 \<and> x * fn * rout \<le> MAX_UINT256 \<and> rin * fd \<le> MAX_UINT256")
    case True
    then show ?thesis
      using pos x max by (simp add: checked_amount_out_def checked_mul_eq checked_add_eq fits_def swap_out_def)
  next
    case False
    then have "\<not> fits x fn fd rin rout" using prod pos by (auto simp: fits_def)
    moreover have "\<exists>m. checked_amount_out x fn fd rin rout = Inl (ConstantProductArithmeticError m)"
      using False pos x max by (auto simp: checked_amount_out_def checked_mul_eq)
    ultimately show ?thesis by blast
  qed
qed

subsection \<open>Packed fields\<close>

lemma pf_mask_eq: "pf_mask f = mask (nat (pf_bit_width f))"
  by (simp add: pf_mask_def mask_eq_exp_minus_1 push_bit_eq_mult)

lemma pf_capacity_eq: "pf_capacity f = 2 ^ nat (pf_bit_width f) - 1"
  by (simp add: pf_capacity_def pf_mask_eq mask_eq_exp_minus_1)

text \<open>Extraction reads the bits of the field as a number.\<close>

lemma pf_extract_Inr:
  "pf_extract f word = Inr v \<longleftrightarrow>
    0 \<le> word \<and> word \<le> MAX_UINT256
    \<and> v = word div 2 ^ nat (pf_bit_offset f) mod 2 ^ nat (pf_bit_width f)"
  by (auto simp: pf_extract_def pf_mask_eq drop_bit_eq_div simp flip: take_bit_eq_mask take_bit_eq_mod)

lemma pf_extract_bounds: "pf_extract f word = Inr v \<Longrightarrow> 0 \<le> v \<and> v \<le> pf_capacity f"
  by (simp add: pf_extract_Inr pf_capacity_eq)

lemma pf_capacity_mask: "pf_capacity f AND (pf_capacity f + 1) = 0"
proof -
  have "pf_capacity f + 1 = 2 ^ nat (pf_bit_width f)" by (simp add: pf_capacity_eq)
  then have "pf_capacity f AND (pf_capacity f + 1) = take_bit (nat (pf_bit_width f)) (2 ^ nat (pf_bit_width f))"
    by (simp add: pf_capacity_def pf_mask_eq take_bit_eq_mask and.commute)
  then show ?thesis by (simp add: take_bit_eq_mod)
qed

lemma pf_capacity_le: "pf_bit_width f \<le> 256 \<Longrightarrow> pf_capacity f \<le> MAX_UINT256"
proof -
  assume "pf_bit_width f \<le> 256"
  then have "nat (pf_bit_width f) \<le> 256" by simp
  then have "(2::int) ^ nat (pf_bit_width f) \<le> 2 ^ 256" by (rule power_increasing) simp
  then show ?thesis by (simp add: pf_capacity_eq MAX_UINT256_def)
qed

subsection \<open>Well-formed pools\<close>

definition address_ok :: "bytes \<Rightarrow> bool" where
  "address_ok a \<longleftrightarrow> length a = 20 \<and> a \<noteq> zero_bytes 20"

definition pool_ok :: "authenticated_pool \<Rightarrow> bool" where
  "pool_ok p \<longleftrightarrow>
    (let i = ap_implementation p in
     address_ok (ap_pool_address p) \<and> address_ok (ap_token0 p) \<and> address_ok (ap_token1 p)
     \<and> ap_token0 p \<noteq> ap_token1 p
     \<and> 0 < im_fee_numerator i \<and> im_fee_numerator i < im_fee_denominator i
     \<and> im_fee_denominator i \<le> MAX_FEE_DENOMINATOR
     \<and> pf_bit_width (im_reserve0_field i) \<le> 256 \<and> pf_bit_width (im_reserve1_field i) \<le> 256
     \<and> 0 < ap_reserve0 p \<and> ap_reserve0 p \<le> pf_capacity (im_reserve0_field i)
     \<and> 0 < ap_reserve1 p \<and> ap_reserve1 p \<le> pf_capacity (im_reserve1_field i)
     \<and> is_ok (ap_digest p))"

text \<open>The constructors establish it.\<close>

definition implementation_ok :: "implementation_spec \<Rightarrow> bool" where
  "implementation_ok i \<longleftrightarrow>
    ConstantProductImplementationSpec_post_init i = Inr i
    \<and> list_all (\<lambda>f. PackedStorageField_post_init f = Inr f) (im_fields i)"

definition pool_spec_ok :: "pool_spec \<Rightarrow> bool" where
  "pool_spec_ok s \<longleftrightarrow> ConstantProductPoolSpec_post_init s = Inr s \<and> implementation_ok (ps_implementation s)"

lemma extract_word_bounds: "extract_word words f = Inr v \<Longrightarrow> 0 \<le> v \<and> v \<le> pf_capacity f"
  by (auto simp: extract_word_def dest: pf_extract_bounds split: option.splits)

lemma implementation_ok_facts:
  assumes "implementation_ok i"
  shows "0 < im_fee_numerator i \<and> im_fee_numerator i < im_fee_denominator i
    \<and> im_fee_denominator i \<le> MAX_FEE_DENOMINATOR"
    and "pf_bit_width (im_reserve0_field i) \<le> 256 \<and> pf_bit_width (im_reserve1_field i) \<le> 256"
proof -
  have post: "ConstantProductImplementationSpec_post_init i = Inr i"
    and fields: "PackedStorageField_post_init (im_reserve0_field i) = Inr (im_reserve0_field i)"
      "PackedStorageField_post_init (im_reserve1_field i) = Inr (im_reserve1_field i)"
    using assms by (simp_all add: implementation_ok_def im_fields_def)
  show "0 < im_fee_numerator i \<and> im_fee_numerator i < im_fee_denominator i
    \<and> im_fee_denominator i \<le> MAX_FEE_DENOMINATOR"
    using post by (auto simp: ConstantProductImplementationSpec_post_init_def split: if_splits)
  show "pf_bit_width (im_reserve0_field i) \<le> 256 \<and> pf_bit_width (im_reserve1_field i) \<le> 256"
    using fields by (auto simp: PackedStorageField_post_init_def split: if_splits)
qed

lemma pool_spec_ok_facts:
  assumes "pool_spec_ok s"
  shows "address_ok (ps_pool_address s) \<and> address_ok (ps_token0 s) \<and> address_ok (ps_token1 s)
    \<and> ps_token0 s \<noteq> ps_token1 s"
proof -
  have "ConstantProductPoolSpec_post_init s = Inr s" using assms by (simp add: pool_spec_ok_def)
  then show ?thesis by (auto simp: ConstantProductPoolSpec_post_init_def address_ok_def split: if_splits)
qed

lemma create_pool_ok:
  assumes "AuthenticatedConstantProductPool_create spec evidence = Inr p" "pool_spec_ok spec"
  shows "pool_ok p"
proof -
  have p: "ap_spec p = spec" and r: "ap_reserve0 p \<noteq> 0" "ap_reserve1 p \<noteq> 0"
    and r0: "\<exists>w. extract_word w (im_reserve0_field (ps_implementation spec)) = Inr (ap_reserve0 p)"
    and r1: "\<exists>w. extract_word w (im_reserve1_field (ps_implementation spec)) = Inr (ap_reserve1 p)"
    and json: "\<exists>v. AuthenticatedConstantProductPool_to_json p = Inr v \<and> is_ok (canonical_json_bytes v)"
    using assms(1)
    by (auto simp: AuthenticatedConstantProductPool_create_def Let_def is_ok_iff split: if_splits)
  have "0 \<le> ap_reserve0 p \<and> ap_reserve0 p \<le> pf_capacity (im_reserve0_field (ps_implementation spec))"
    "0 \<le> ap_reserve1 p \<and> ap_reserve1 p \<le> pf_capacity (im_reserve1_field (ps_implementation spec))"
    using r0 r1 extract_word_bounds by blast+
  moreover have "is_ok (ap_digest p)" using json by (auto simp: ap_digest_def is_ok_iff canonical_sha256_iff)
  moreover have "implementation_ok (ps_implementation spec)" using assms(2) by (simp add: pool_spec_ok_def)
  ultimately show ?thesis
    using implementation_ok_facts pool_spec_ok_facts [OF assms(2)] r
    by (simp add: pool_ok_def p Let_def ap_implementation_def ap_token0_def ap_token1_def ap_pool_address_def)
qed

subsection \<open>Quotes of a well-formed pool\<close>

lemma length_str_of_uint256: "0 \<le> v \<Longrightarrow> v \<le> MAX_UINT256 \<Longrightarrow> length (str_of_int v) \<le> 78"
proof -
  assume v: "0 \<le> v" "v \<le> MAX_UINT256"
  have "MAX_UINT256 < 10 ^ 78" by (simp add: MAX_UINT256_def)
  then have "nat v < 10 ^ 78" using v by (simp add: nat_less_iff)
  then have "length (str_of_nat (nat v)) \<le> 78" by (rule length_str_of_nat) simp
  then show ?thesis using v by (simp add: str_of_int_def)
qed

lemma quote_json_ok:
  assumes "is_sha256_text (q_pool_sha256 q)" "is_sha256_text (q_implementation_sha256 q)"
    and "length (q_pool_address q) = 20" "length (q_token_in q) = 20" "length (q_token_out q) = 20"
    and "\<forall>v \<in> {q_amount_in q, q_amount_out q, q_reserve_in q, q_reserve_out q, q_reserve_in_capacity q,
        q_post_reserve_in q, q_post_reserve_out q, q_fee_numerator q, q_fee_denominator q}.
      0 \<le> v \<and> v \<le> MAX_UINT256"
  shows "\<exists>b. canonical_json_bytes (PoolSwapQuote_to_json q) = Inr b"
proof -
  have len: "length (str_of_int v) \<le> 78" if "v \<in> {q_amount_in q, q_amount_out q, q_reserve_in q,
      q_reserve_out q, q_reserve_in_capacity q, q_post_reserve_in q, q_post_reserve_out q,
      q_fee_numerator q, q_fee_denominator q}" for v
    using assms(6) that by (intro length_str_of_uint256) auto
  have lens: "length (str_of_int (q_amount_in q)) \<le> 78" "length (str_of_int (q_amount_out q)) \<le> 78"
    "length (str_of_int (q_reserve_in q)) \<le> 78" "length (str_of_int (q_reserve_out q)) \<le> 78"
    "length (str_of_int (q_reserve_in_capacity q)) \<le> 78" "length (str_of_int (q_post_reserve_in q)) \<le> 78"
    "length (str_of_int (q_post_reserve_out q)) \<le> 78" "length (str_of_int (q_fee_numerator q)) \<le> 78"
    "length (str_of_int (q_fee_denominator q)) \<le> 78"
    by (rule len, simp)+
  have "json_bound (PoolSwapQuote_to_json q) \<le> DEFAULT_MAX_JSON_BYTES"
    using assms(1-5) lens by (simp add: PoolSwapQuote_to_json_def is_sha256_text_def DEFAULT_MAX_JSON_BYTES_def)
  then show ?thesis
    by (subst canonical_json_okI)
       (simp_all add: PoolSwapQuote_to_json_def DEFAULT_MAX_DEPTH_def DEFAULT_MAX_ITEMS_def)
qed

text \<open>What a side of a well-formed pool provides.\<close>

lemma reserve_pair_ok:
  assumes "pool_ok p" "reserve_pair p t = Inr (rin, rout, cap)"
  defines "i \<equiv> ap_implementation p"
  shows "swap_params (im_fee_numerator i) (im_fee_denominator i) rin rout"
    and "rin \<le> cap" and "cap \<le> MAX_UINT256" and "rout \<le> MAX_UINT256"
    and "im_fee_denominator i \<le> MAX_FEE_DENOMINATOR" and "cap AND (cap + 1) = 0" and "address_ok t"
    and "\<exists>u. other_token p t = Inr u \<and> address_ok u \<and> u \<noteq> t"
proof -
  have "pf_capacity (im_reserve0_field i) \<le> MAX_UINT256" "pf_capacity (im_reserve1_field i) \<le> MAX_UINT256"
    using assms(1) by (auto simp: pool_ok_def Let_def i_def intro: pf_capacity_le)
  then show "swap_params (im_fee_numerator i) (im_fee_denominator i) rin rout"
    "rin \<le> cap" "cap \<le> MAX_UINT256" "rout \<le> MAX_UINT256"
    "im_fee_denominator i \<le> MAX_FEE_DENOMINATOR" "cap AND (cap + 1) = 0" "address_ok t"
    "\<exists>u. other_token p t = Inr u \<and> address_ok u \<and> u \<noteq> t"
    using assms(1,2)
    by (auto simp: pool_ok_def reserve_pair_def other_token_def swap_params_def address_ok_def i_def Let_def
        pf_capacity_mask split: if_splits)
qed

definition expected_quote :: "authenticated_pool \<Rightarrow> bytes \<Rightarrow> int \<Rightarrow> int \<Rightarrow> int \<Rightarrow> int \<Rightarrow> pool_swap_quote" where
  "expected_quote p t rin rout cap x =
    (let i = ap_implementation p; fn = im_fee_numerator i; fd = im_fee_denominator i in
     \<lparr>q_pool_sha256 = (case ap_digest p of Inr d \<Rightarrow> d | Inl _ \<Rightarrow> []), q_implementation_sha256 = im_digest i,
      q_pool_address = ap_pool_address p, q_token_in = t,
      q_token_out = (case other_token p t of Inr u \<Rightarrow> u | Inl _ \<Rightarrow> []),
      q_amount_in = x, q_amount_out = swap_out fn fd rin rout x, q_reserve_in = rin, q_reserve_out = rout,
      q_reserve_in_capacity = cap, q_post_reserve_in = rin + x,
      q_post_reserve_out = rout - swap_out fn fd rin rout x, q_fee_numerator = fn, q_fee_denominator = fd\<rparr>)"

lemma pool_digest_ok: "pool_ok p \<Longrightarrow> \<exists>d. ap_digest p = Inr d \<and> is_sha256_text d"
  by (auto simp: pool_ok_def Let_def is_ok_iff) (auto simp: ap_digest_def canonical_sha256_iff json_sha256_text)

text \<open>The expected quote passes every check of the constructor of quotes.\<close>

lemma expected_quote_ok:
  assumes ok: "pool_ok p" "reserve_pair p t = Inr (rin, rout, cap)" and x: "0 \<le> x" "rin + x \<le> cap"
    and fits: "fits x (im_fee_numerator (ap_implementation p)) (im_fee_denominator (ap_implementation p)) rin rout"
  shows "PoolSwapQuote_post_init (expected_quote p t rin rout cap x) = Inr (expected_quote p t rin rout cap x)"
proof -
  let ?i = "ap_implementation p" and ?q = "expected_quote p t rin rout cap x"
  let ?fn = "im_fee_numerator ?i" and ?fd = "im_fee_denominator ?i"
  note side = reserve_pair_ok [OF ok]
  obtain d where d: "ap_digest p = Inr d" "is_sha256_text d" using pool_digest_ok [OF ok(1)] by blast
  obtain u where u: "other_token p t = Inr u" "address_ok u" "u \<noteq> t" using side(8) by blast
  have params: "0 < ?fn" "?fn < ?fd" "0 < rin" "0 < rout" using side(1) by (auto simp: swap_params_def)
  have big: "?fd \<le> MAX_UINT256" using side(5) by (simp add: MAX_FEE_DENOMINATOR_def MAX_UINT256_def)
  have out: "0 \<le> swap_out ?fn ?fd rin rout x" "swap_out ?fn ?fd rin rout x < rout"
    using swap_out_nonneg [OF side(1) x(1)] swap_out_less [OF side(1) x(1)] by simp_all
  have checked: "checked_amount_out x ?fn ?fd rin rout = Inr (swap_out ?fn ?fd rin rout x)"
    using checked_amount_out_eq [OF side(1) x(1) _ big _ side(4)] fits x side(2,3) params by auto
  have fields: "q_pool_sha256 ?q = d" "q_implementation_sha256 ?q = im_digest ?i"
    "q_pool_address ?q = ap_pool_address p" "q_token_in ?q = t" "q_token_out ?q = u"
    "q_amount_in ?q = x" "q_amount_out ?q = swap_out ?fn ?fd rin rout x" "q_reserve_in ?q = rin"
    "q_reserve_out ?q = rout" "q_reserve_in_capacity ?q = cap" "q_post_reserve_in ?q = rin + x"
    "q_post_reserve_out ?q = rout - swap_out ?fn ?fd rin rout x" "q_fee_numerator ?q = ?fn"
    "q_fee_denominator ?q = ?fd"
    by (simp_all add: expected_quote_def Let_def d u)
  have sha: "is_sha256_text (im_digest ?i)" by (simp add: im_digest_def json_sha256_text)
  have address: "address_ok (ap_pool_address p)" using ok(1) by (simp add: pool_ok_def Let_def)
  have "\<exists>b. canonical_json_bytes (PoolSwapQuote_to_json ?q) = Inr b"
    by (rule quote_json_ok)
       (use d u sha address side(7) x side(2-4) params big out in \<open>auto simp: fields address_ok_def\<close>)
  then show ?thesis
    using d u sha address side x params big out checked
    by (simp add: PoolSwapQuote_post_init_def fields address_ok_def)
qed

text \<open>An input the pool can take: the reserve field holds it and no product overflows.\<close>

definition pool_accepts :: "authenticated_pool \<Rightarrow> int \<Rightarrow> int \<Rightarrow> int \<Rightarrow> int \<Rightarrow> bool" where
  "pool_accepts p rin rout cap x \<longleftrightarrow>
    rin + x \<le> cap
    \<and> fits x (im_fee_numerator (ap_implementation p)) (im_fee_denominator (ap_implementation p)) rin rout"

lemma pool_accepts_iff:
  assumes "swap_params fn fd rin rout" "0 \<le> x"
    and "fn = im_fee_numerator (ap_implementation p)" "fd = im_fee_denominator (ap_implementation p)"
  shows "pool_accepts p rin rout cap x \<longleftrightarrow>
    x \<le> min (cap - rin) (min (MAX_UINT256 div fn)
        (min ((MAX_UINT256 - rin * fd) div fn) ((MAX_UINT256 div rout) div fn)))"
proof -
  have pos: "0 < fn" "0 < rout" using assms(1) by (simp_all add: swap_params_def)
  have "0 \<le> x * fn" using assms(2) pos by simp
  then have "x * fn \<le> x * fn * rout" using mult_left_mono [of 1 rout "x * fn"] pos by simp
  moreover have "x \<le> MAX_UINT256 div fn \<longleftrightarrow> x * fn \<le> MAX_UINT256"
    "x \<le> (MAX_UINT256 - rin * fd) div fn \<longleftrightarrow> x * fn \<le> MAX_UINT256 - rin * fd"
    "x \<le> MAX_UINT256 div rout div fn \<longleftrightarrow> x * fn * rout \<le> MAX_UINT256"
    using pos by (simp_all only: le_div_iff)
  ultimately show ?thesis
    unfolding pool_accepts_def fits_def assms(3,4) [symmetric] min.bounded_iff by linarith
qed

lemma pool_maximum_eq:
  assumes ok: "pool_ok p" "reserve_pair p t = Inr (rin, rout, cap)"
  shows "(\<exists>m. pool_maximum_safe_input p t = Inr m \<and> (\<forall>x \<ge> 0. x \<le> m \<longleftrightarrow> pool_accepts p rin rout cap x))
    \<or> (\<exists>e. pool_maximum_safe_input p t = Inl (ConstantProductArithmeticError e))
      \<and> (\<forall>x \<ge> 0. \<not> pool_accepts p rin rout cap x)"
proof -
  let ?fn = "im_fee_numerator (ap_implementation p)" and ?fd = "im_fee_denominator (ap_implementation p)"
  note side = reserve_pair_ok [OF ok]
  have params: "0 < ?fn" "0 < ?fd" "0 < rin" "0 < rout" "rin \<le> MAX_UINT256" "?fd \<le> MAX_UINT256"
    using side by (auto simp: swap_params_def MAX_FEE_DENOMINATOR_def MAX_UINT256_def)
  have prod: "checked_mul rin ?fd n = (if rin * ?fd \<le> MAX_UINT256 then Inr (rin * ?fd)
      else Inl (ConstantProductArithmeticError (n @ '' exceeds checked uint256'')))" for n
    using params by (intro checked_mul_eq) simp_all
  show ?thesis
  proof (cases "rin * ?fd \<le> MAX_UINT256")
    case True
    then have "pool_maximum_safe_input p t = Inr (min (cap - rin) (min (MAX_UINT256 div ?fn)
        (min ((MAX_UINT256 - rin * ?fd) div ?fn) ((MAX_UINT256 div rout) div ?fn))))"
      by (simp only: pool_maximum_safe_input_def ok(2) rbind_simps prod.case Let_def prod if_True)
    then show ?thesis using pool_accepts_iff [OF side(1) _ refl refl, where cap = cap] by blast
  next
    case False
    then have "pool_maximum_safe_input p t
        = Inl (ConstantProductArithmeticError (''reserve denominator'' @ '' exceeds checked uint256''))"
      by (simp only: pool_maximum_safe_input_def ok(2) rbind_simps prod.case Let_def prod if_False)
    moreover have "\<not> pool_accepts p rin rout cap x" if "0 \<le> x" for x
    proof -
      have "0 \<le> x * ?fn" using params that by simp
      then show ?thesis using False unfolding pool_accepts_def fits_def by linarith
    qed
    ultimately show ?thesis by blast
  qed
qed

lemma pool_quote_eq:
  assumes ok: "pool_ok p" "reserve_pair p t = Inr (rin, rout, cap)" and x: "0 \<le> x" "x \<le> MAX_UINT256"
  shows "(pool_accepts p rin rout cap x \<longrightarrow> pool_quote_exact_in p t x = Inr (expected_quote p t rin rout cap x))
    \<and> (\<not> pool_accepts p rin rout cap x \<longrightarrow>
        (\<exists>e. pool_quote_exact_in p t x = Inl (ConstantProductArithmeticError e)))"
proof -
  let ?fn = "im_fee_numerator (ap_implementation p)" and ?fd = "im_fee_denominator (ap_implementation p)"
  note side = reserve_pair_ok [OF ok]
  obtain d where d: "ap_digest p = Inr d" using pool_digest_ok [OF ok(1)] by blast
  obtain u where u: "other_token p t = Inr u" using side(8) by blast
  have u256: "require_uint256 n x False = Inr ()" for n using x by simp
  show ?thesis
  proof (cases "pool_accepts p rin rout cap x")
    case True
    then obtain m where m: "pool_maximum_safe_input p t = Inr m" "x \<le> m"
      using pool_maximum_eq [OF ok] x(1) by blast
    have fits: "fits x ?fn ?fd rin rout" "rin + x \<le> cap" using True by (simp_all add: pool_accepts_def)
    have "checked_amount_out x ?fn ?fd rin rout = Inr (swap_out ?fn ?fd rin rout x)"
      using checked_amount_out_eq [OF side(1) x _ _ side(4)] fits(1) side(2,3,5)
      by (auto simp: MAX_FEE_DENOMINATOR_def MAX_UINT256_def)
    then have "pool_quote_exact_in p t x = PoolSwapQuote_post_init (expected_quote p t rin rout cap x)"
      using ok(2) m by (simp add: pool_quote_exact_in_def expected_quote_def d u Let_def u256 del: require_uint256_Inr)
    then show ?thesis using True expected_quote_ok [OF ok x(1) fits(2,1)] by simp
  next
    case False
    then show ?thesis
      using pool_maximum_eq [OF ok] x(1) ok(2)
      by (auto simp: pool_quote_exact_in_def u256 simp del: require_uint256_Inr)
  qed
qed

lemma pool_accepts_mono:
  assumes ok: "pool_ok p" "reserve_pair p t = Inr (rin, rout, cap)"
    and "0 \<le> x" "x \<le> y" "pool_accepts p rin rout cap y"
  shows "pool_accepts p rin rout cap x"
  using pool_maximum_eq [OF ok] assms(3-5) by (meson order_trans)

lemma reserve_pair_total:
  assumes "pool_ok p" "supports_token p t"
  shows "\<exists>rin rout cap. reserve_pair p t = Inr (rin, rout, cap)"
  using assms by (auto simp: pool_ok_def supports_token_def reserve_pair_def address_ok_def Let_def require_bytes_def)

lemma expected_quote_simps [simp]:
  "q_amount_in (expected_quote p t rin rout cap x) = x"
  "q_amount_out (expected_quote p t rin rout cap x) =
    swap_out (im_fee_numerator (ap_implementation p)) (im_fee_denominator (ap_implementation p)) rin rout x"
  "q_pool_address (expected_quote p t rin rout cap x) = ap_pool_address p"
  "q_token_in (expected_quote p t rin rout cap x) = t"
  "q_reserve_in (expected_quote p t rin rout cap x) = rin"
  "q_reserve_out (expected_quote p t rin rout cap x) = rout"
  "q_post_reserve_in (expected_quote p t rin rout cap x) = rin + x"
  "q_post_reserve_out (expected_quote p t rin rout cap x) =
    rout - swap_out (im_fee_numerator (ap_implementation p)) (im_fee_denominator (ap_implementation p)) rin rout x"
  by (simp_all add: expected_quote_def Let_def)

end
