(* ===== verification/Opportunity_Graph.thy ===== *)
theory Opportunity_Graph
  imports Constant_Product
begin

text \<open>
  \<open>src/aladdin_mev_engine/opportunity_graph.py\<close>: cyclic routes through the pools of a universe,
  their exact quotes, the greatest input a route can take (a binary search), the
  coefficients of its continuous composition, and the enumeration of the simple cycles.
\<close>

definition MIN_ROUTE_HOPS :: nat where "MIN_ROUTE_HOPS = 2"
definition MAX_ROUTE_HOPS :: nat where "MAX_ROUTE_HOPS = 4"
definition MAX_ENUMERATED_ROUTES :: nat where "MAX_ENUMERATED_ROUTES = 4096"
definition MAX_ENUMERATION_STEPS :: nat where "MAX_ENUMERATION_STEPS = 100000"
definition ROUTE_SCHEMA :: string where "ROUTE_SCHEMA = ''aladdin-mev-constant-product-route/v1''"

definition require_address :: "string \<Rightarrow> bytes \<Rightarrow> unit result" where
  "require_address name v =
    (if length v \<noteq> 20 \<or> v = zero_bytes 20
     then Inl (ValueError (name @ '' must be a non-zero exact 20-byte address'')) else Inr ())"

subsection \<open>Legs and routes\<close>

record route_leg =
  rl_pool_address :: bytes
  rl_token_in :: bytes
  rl_token_out :: bytes

definition RouteLeg_post_init :: "route_leg \<Rightarrow> route_leg result" where
  "RouteLeg_post_init self =
    rbind (require_address ''pool_address'' (rl_pool_address self)) (\<lambda>_.
    rbind (require_address ''token_in'' (rl_token_in self)) (\<lambda>_.
    rbind (require_address ''token_out'' (rl_token_out self)) (\<lambda>_.
    if rl_token_in self = rl_token_out self then Inl (ValueError ''route leg tokens must be distinct'')
    else Inr self)))"

definition RouteLeg_to_json :: "route_leg \<Rightarrow> json" where
  "RouteLeg_to_json self = JObj
    [(''pool_address'', JStr (to_hex_data (rl_pool_address self))),
     (''token_in'', JStr (to_hex_data (rl_token_in self))),
     (''token_out'', JStr (to_hex_data (rl_token_out self)))]"

record route_quote =
  rq_route_sha256 :: string
  rq_amount_in :: int
  rq_amount_out :: int
  rq_gross_profit :: int
  rq_legs :: "pool_swap_quote list"

definition RouteQuote_to_json :: "route_quote \<Rightarrow> json" where
  "RouteQuote_to_json self = JObj
    [(''route_sha256'', JStr (rq_route_sha256 self)),
     (''amount_in'', JStr (str_of_int (rq_amount_in self))),
     (''amount_out'', JStr (str_of_int (rq_amount_out self))),
     (''gross_profit'', JStr (str_of_int (rq_gross_profit self))),
     (''legs'', JArr (map PoolSwapQuote_to_json (rq_legs self))),
     (''leg_sha256'', JArr (map (JStr \<circ> q_digest) (rq_legs self)))]"

definition RouteQuote_post_init :: "route_quote \<Rightarrow> route_quote result" where
  "RouteQuote_post_init self =
    rbind (require_sha256 ''route_sha256'' (rq_route_sha256 self)) (\<lambda>_.
    if rq_amount_in self \<le> 0
    then Inl (ValueError ''route quote amount_in must be a positive exact integer'')
    else if rq_amount_out self < 0
    then Inl (ValueError ''route quote amount_out must be a non-negative exact integer'')
    else if rq_gross_profit self \<noteq> rq_amount_out self - rq_amount_in self
    then Inl (ValueError ''route quote gross profit does not reconcile'')
    else if \<not> (MIN_ROUTE_HOPS \<le> length (rq_legs self) \<and> length (rq_legs self) \<le> MAX_ROUTE_HOPS)
    then Inl (ValueError ''route quote hop count is outside the governed range'')
    else if q_amount_in (hd (rq_legs self)) \<noteq> rq_amount_in self
    then Inl (ValueError ''route quote first leg amount does not match route input'')
    else if q_amount_out (last (rq_legs self)) \<noteq> rq_amount_out self
    then Inl (ValueError ''route quote final leg amount does not match route output'')
    else if has_duplicate (map q_pool_address (rq_legs self))
    then Inl (ValueError ''route quote cannot reuse a pool'')
    else
    rbind (rall (\<lambda>(previous, current).
        if q_token_out previous \<noteq> q_token_in current
        then Inl (ValueError ''route quote token path is disconnected'')
        else if q_amount_out previous \<noteq> q_amount_in current
        then Inl (ValueError ''route quote amount path is disconnected'')
        else Inr ()) (neighbours (rq_legs self))) (\<lambda>_.
    if q_token_out (last (rq_legs self)) \<noteq> q_token_in (hd (rq_legs self))
    then Inl (ValueError ''route quote must return to its input token'')
    else rbind (canonical_json_bytes (RouteQuote_to_json self)) (\<lambda>_. Inr self)))"

record cp_route =
  rt_universe_sha256 :: string
  rt_legs :: "route_leg list"

definition ConstantProductRoute_to_json :: "cp_route \<Rightarrow> json" where
  "ConstantProductRoute_to_json self = JObj
    [(''schema'', JStr ROUTE_SCHEMA),
     (''universe_sha256'', JStr (rt_universe_sha256 self)),
     (''legs'', JArr (map RouteLeg_to_json (rt_legs self)))]"

definition ConstantProductRoute_post_init :: "cp_route \<Rightarrow> cp_route result" where
  "ConstantProductRoute_post_init self =
    rbind (require_sha256 ''universe_sha256'' (rt_universe_sha256 self)) (\<lambda>_.
    let legs = rt_legs self in
    if \<not> (MIN_ROUTE_HOPS \<le> length legs \<and> length legs \<le> MAX_ROUTE_HOPS)
    then Inl (ValueError ''route hop count is outside the governed range'')
    else if has_duplicate (map rl_pool_address legs) then Inl (ValueError ''route cannot reuse a pool'')
    else
    rbind (rall (\<lambda>(previous, current).
        if rl_token_out previous \<noteq> rl_token_in current
        then Inl (ValueError ''route token path is disconnected'') else Inr ()) (neighbours legs)) (\<lambda>_.
    let base = rl_token_in (hd legs); intermediate = map rl_token_out (butlast legs) in
    if rl_token_out (last legs) \<noteq> base then Inl (ValueError ''route must return to its base token'')
    else if base \<in> set intermediate
    then Inl (ValueError ''route returns to its base token before the final leg'')
    else if has_duplicate intermediate then Inl (ValueError ''route repeats an intermediate token'')
    else rbind (canonical_json_bytes (ConstantProductRoute_to_json self)) (\<lambda>_. Inr self)))"

definition rt_base_token :: "cp_route \<Rightarrow> bytes" where
  "rt_base_token self = rl_token_in (hd (rt_legs self))"

definition rt_digest :: "cp_route \<Rightarrow> string" where
  "rt_digest self = json_sha256 (ConstantProductRoute_to_json self)"

text \<open>The checks of one leg in \<open>validate_against\<close>.\<close>

definition validate_leg :: "pool_universe \<Rightarrow> route_leg \<Rightarrow> unit result" where
  "validate_leg universe leg =
    rbind (get_pool universe (rl_pool_address leg)) (\<lambda>pool.
    if \<not> supports_token pool (rl_token_in leg)
    then Inl (ValueError ''route leg token_in is absent from its pool'')
    else rbind (other_token pool (rl_token_in leg)) (\<lambda>token_out.
    if token_out \<noteq> rl_token_out leg
    then Inl (ValueError ''route leg token direction disagrees with its pool'') else Inr ()))"

definition route_validate_against :: "cp_route \<Rightarrow> pool_universe \<Rightarrow> unit result" where
  "route_validate_against self universe =
    rbind (pu_digest universe) (\<lambda>digest.
    if digest \<noteq> rt_universe_sha256 self
    then Inl (ValueError ''route does not bind the exact pool universe'')
    else rall (validate_leg universe) (rt_legs self))"

text \<open>The body of the loop of \<open>quote_exact_in\<close> over \<open>(quotes, current)\<close>.\<close>

definition quote_leg ::
  "pool_universe \<Rightarrow> pool_swap_quote list \<times> int \<Rightarrow> route_leg \<Rightarrow> (pool_swap_quote list \<times> int) result" where
  "quote_leg universe state leg =
    (case state of (quotes, current) \<Rightarrow>
     rbind (get_pool universe (rl_pool_address leg)) (\<lambda>pool.
     rbind (pool_quote_exact_in pool (rl_token_in leg) current) (\<lambda>q.
     if q_token_out q \<noteq> rl_token_out leg
     then Inl (RuntimeError ''authenticated pool quote changed its governed direction'')
     else Inr (quotes @ [q], q_amount_out q))))"

definition route_quote_exact_in :: "cp_route \<Rightarrow> pool_universe \<Rightarrow> int \<Rightarrow> route_quote result" where
  "route_quote_exact_in self universe amount_in =
    rbind (route_validate_against self universe) (\<lambda>_.
    if amount_in \<le> 0 then Inl (ValueError ''route amount_in must be a positive exact integer'')
    else
    rbind (rfold (quote_leg universe) ([], amount_in) (rt_legs self)) (\<lambda>(quotes, current).
    RouteQuote_post_init
      \<lparr>rq_route_sha256 = rt_digest self, rq_amount_in = amount_in, rq_amount_out = current,
       rq_gross_profit = current - amount_in, rq_legs = quotes\<rparr>))"

text \<open>\<open>_try_amount_out_bound\<close>: only an arithmetic error means that the input is too large.\<close>

definition try_amount_out_bound :: "cp_route \<Rightarrow> pool_universe \<Rightarrow> int \<Rightarrow> int option result" where
  "try_amount_out_bound self universe amount_in =
    (case route_quote_exact_in self universe amount_in of
       Inr q \<Rightarrow> Inr (Some (rq_amount_out q))
     | Inl e \<Rightarrow> if is_arith_error e then Inr None else Inl e)"

function safe_input_search :: "cp_route \<Rightarrow> pool_universe \<Rightarrow> int \<Rightarrow> int \<Rightarrow> int result" where
  "safe_input_search self universe lower upper =
    (if lower < upper then
       let middle = (lower + upper + 1) div 2 in
       rbind (try_amount_out_bound self universe middle) (\<lambda>bound.
       if bound = None then safe_input_search self universe lower (middle - 1)
       else safe_input_search self universe middle upper)
     else Inr lower)"
  by pat_completeness auto
termination by (relation "measure (\<lambda>(_, _, lower, upper). nat (upper - lower))") auto

declare safe_input_search.simps [simp del]

definition route_maximum_safe_input :: "cp_route \<Rightarrow> pool_universe \<Rightarrow> int \<Rightarrow> int result" where
  "route_maximum_safe_input self universe requested_maximum =
    rbind (route_validate_against self universe) (\<lambda>_.
    if requested_maximum < 0 \<or> MAX_UINT256 < requested_maximum
    then Inl (ValueError ''requested_maximum must be a non-negative uint256 exact integer'')
    else if requested_maximum = 0 then Inr 0
    else rbind (try_amount_out_bound self universe 1) (\<lambda>bound.
    if bound = None then Inr 0 else safe_input_search self universe 1 requested_maximum))"

text \<open>The body of the loop of \<open>continuous_coefficients\<close> over \<open>(A, B, C)\<close>.\<close>

definition compose_leg :: "pool_universe \<Rightarrow> int \<times> int \<times> int \<Rightarrow> route_leg \<Rightarrow> (int \<times> int \<times> int) result" where
  "compose_leg universe state leg =
    (case state of (aggregate_a, aggregate_b, aggregate_c) \<Rightarrow>
     rbind (get_pool universe (rl_pool_address leg)) (\<lambda>pool.
     rbind (reserve_pair pool (rl_token_in leg)) (\<lambda>(reserve_in, reserve_out, capacity).
     let implementation = ap_implementation pool;
         leg_a = im_fee_numerator implementation * reserve_out;
         leg_b = im_fee_denominator implementation * reserve_in;
         leg_c = im_fee_numerator implementation in
     Inr (leg_a * aggregate_a, leg_b * aggregate_b, leg_b * aggregate_c + leg_c * aggregate_a))))"

definition continuous_coefficients :: "cp_route \<Rightarrow> pool_universe \<Rightarrow> (int \<times> int \<times> int) result" where
  "continuous_coefficients self universe =
    rbind (route_validate_against self universe) (\<lambda>_.
    rfold (compose_leg universe) (1, 1, 0) (rt_legs self))"

subsection \<open>Enumeration of the simple cycles\<close>

definition directional_legs :: "authenticated_pool \<Rightarrow> route_leg list result" where
  "directional_legs pool =
    rbind (RouteLeg_post_init
      \<lparr>rl_pool_address = ap_pool_address pool, rl_token_in = ap_token0 pool, rl_token_out = ap_token1 pool\<rparr>) (\<lambda>l0.
    rbind (RouteLeg_post_init
      \<lparr>rl_pool_address = ap_pool_address pool, rl_token_in = ap_token1 pool, rl_token_out = ap_token0 pool\<rparr>) (\<lambda>l1.
    Inr [l0, l1]))"

type_synonym adjacency = "(bytes, route_leg list) dict"

text \<open>\<open>adjacency.setdefault(leg.token_in, []).append(leg)\<close> over the legs of all pools.\<close>

definition add_leg :: "adjacency \<Rightarrow> route_leg \<Rightarrow> adjacency" where
  "add_leg adj leg =
    dict_set (rl_token_in leg)
      ((case dict_get adj (rl_token_in leg) of None \<Rightarrow> [] | Some legs \<Rightarrow> legs) @ [leg]) adj"

definition build_adjacency :: "pool_universe \<Rightarrow> adjacency result" where
  "build_adjacency universe =
    rbind (rmap directional_legs (pu_pools universe)) (\<lambda>legs.
    Inr (map (\<lambda>(token, ls). (token, sort_key (\<lambda>l. (rl_pool_address l, rl_token_out l, rl_token_in l)) ls))
           (foldl add_leg [] (concat legs))))"

text \<open>The variables the closure \<open>visit\<close> mutates.\<close>

record enumeration =
  en_steps :: nat
  en_digests :: "string list"
  en_routes :: "cp_route list"

definition record_route :: "cp_route \<Rightarrow> enumeration \<Rightarrow> enumeration result" where
  "record_route route state =
    (if rt_digest route \<in> set (en_digests state) then Inr state
     else let state = state\<lparr>en_digests := rt_digest route # en_digests state,
                            en_routes := en_routes state @ [route]\<rparr> in
     if MAX_ENUMERATED_ROUTES < length (en_routes state)
     then Inl (ValueError ''route count exceeds the governed ceiling'') else Inr state)"

function visit :: "pool_universe \<Rightarrow> adjacency \<Rightarrow> bytes \<Rightarrow> nat \<Rightarrow> bytes \<Rightarrow> route_leg list \<Rightarrow> bytes list
    \<Rightarrow> bytes list \<Rightarrow> enumeration \<Rightarrow> enumeration result" where
  "visit universe adj base maximum_hops token legs used_pools visited_tokens state =
    (if maximum_hops \<le> length legs then Inr state
     else rfold (\<lambda>state leg.
       let state = state\<lparr>en_steps := Suc (en_steps state)\<rparr>; next_legs = legs @ [leg];
           next_token = rl_token_out leg in
       if MAX_ENUMERATION_STEPS < en_steps state
       then Inl (ValueError ''route enumeration work exceeds the governed ceiling'')
       else if rl_pool_address leg \<in> set used_pools then Inr state
       else if next_token = base then
         (if length next_legs < MIN_ROUTE_HOPS then Inr state
          else rbind (pu_digest universe) (\<lambda>digest.
            rbind (ConstantProductRoute_post_init \<lparr>rt_universe_sha256 = digest, rt_legs = next_legs\<rparr>) (\<lambda>route.
            record_route route state)))
       else if next_token \<in> set visited_tokens then Inr state
       else visit universe adj base maximum_hops next_token next_legs
              (rl_pool_address leg # used_pools) (next_token # visited_tokens) state)
      state (case dict_get adj token of None \<Rightarrow> [] | Some ls \<Rightarrow> ls))"
  by pat_completeness auto
termination
  by (relation "measure (\<lambda>(_, _, _, maximum_hops, _, legs, _). maximum_hops - length legs)") auto

declare visit.simps [simp del]

definition enumerate_simple_cycles :: "pool_universe \<Rightarrow> bytes \<Rightarrow> nat \<Rightarrow> cp_route list result" where
  "enumerate_simple_cycles universe base_token maximum_hops =
    rbind (require_address ''base_token'' base_token) (\<lambda>_.
    if \<not> (MIN_ROUTE_HOPS \<le> maximum_hops \<and> maximum_hops \<le> MAX_ROUTE_HOPS)
    then Inl (ValueError ''maximum_hops is outside the governed range'')
    else
    rbind (build_adjacency universe) (\<lambda>adj.
    rbind (visit universe adj base_token maximum_hops base_token [] [] [base_token]
             \<lparr>en_steps = 0, en_digests = [], en_routes = []\<rparr>) (\<lambda>state.
    Inr (sort_key rt_digest (en_routes state)))))"

subsection \<open>Routes over well-formed universes\<close>

definition universe_ok :: "pool_universe \<Rightarrow> bool" where
  "universe_ok u \<longleftrightarrow> list_all pool_ok (pu_pools u)"

definition route_ok :: "cp_route \<Rightarrow> bool" where
  "route_ok r \<longleftrightarrow> ConstantProductRoute_post_init r = Inr r"

text \<open>A hop of a route: the pool and the side of it that the leg uses.\<close>

type_synonym hop = "authenticated_pool \<times> int \<times> int \<times> int"

definition leg_hop :: "pool_universe \<Rightarrow> route_leg \<Rightarrow> hop \<Rightarrow> bool" where
  "leg_hop u leg h \<longleftrightarrow>
    (case h of (p, rin, rout, cap) \<Rightarrow>
      get_pool u (rl_pool_address leg) = Inr p \<and> pool_ok p \<and> ap_pool_address p = rl_pool_address leg
      \<and> reserve_pair p (rl_token_in leg) = Inr (rin, rout, cap)
      \<and> other_token p (rl_token_in leg) = Inr (rl_token_out leg))"

fun hop_out :: "hop \<Rightarrow> int \<Rightarrow> int" where
  "hop_out (p, rin, rout, cap) x =
    swap_out (im_fee_numerator (ap_implementation p)) (im_fee_denominator (ap_implementation p)) rin rout x"

fun hop_accepts :: "hop \<Rightarrow> int \<Rightarrow> bool" where
  "hop_accepts (p, rin, rout, cap) x \<longleftrightarrow> pool_accepts p rin rout cap x"

fun run_out :: "hop list \<Rightarrow> int \<Rightarrow> int" where
  "run_out [] x = x"
| "run_out (h # hs) x = run_out hs (hop_out h x)"

fun run_accepts :: "hop list \<Rightarrow> int \<Rightarrow> bool" where
  "run_accepts [] x \<longleftrightarrow> True"
| "run_accepts (h # hs) x \<longleftrightarrow> hop_accepts h x \<and> run_accepts hs (hop_out h x)"

definition route_hops :: "pool_universe \<Rightarrow> route_leg list \<Rightarrow> hop list \<Rightarrow> bool" where
  "route_hops u legs hops \<longleftrightarrow> list_all2 (leg_hop u) legs hops"

lemma get_pool_Inr:
  "get_pool u a = Inr p \<Longrightarrow> p \<in> set (pu_pools u) \<and> ap_pool_address p = a"
  by (auto simp: get_pool_def find_Some_iff split: option.splits)

lemma validate_leg_Inr:
  assumes "universe_ok u" "validate_leg u leg = Inr ()"
  shows "\<exists>h. leg_hop u leg h"
proof -
  from assms(2) obtain p where p: "get_pool u (rl_pool_address leg) = Inr p"
    and tokens: "supports_token p (rl_token_in leg)" "other_token p (rl_token_in leg) = Inr (rl_token_out leg)"
    by (auto simp: validate_leg_def split: if_splits)
  have ok: "pool_ok p" using get_pool_Inr [OF p] assms(1) by (auto simp: universe_ok_def list_all_iff)
  obtain rin rout cap where "reserve_pair p (rl_token_in leg) = Inr (rin, rout, cap)"
    using reserve_pair_total [OF ok tokens(1)] by blast
  then have "leg_hop u leg (p, rin, rout, cap)" using p tokens ok get_pool_Inr [OF p] by (simp add: leg_hop_def)
  then show ?thesis ..
qed

lemma validated_hops:
  assumes "universe_ok u" "route_validate_against r u = Inr ()"
  shows "\<exists>hops. route_hops u (rt_legs r) hops"
proof -
  have "\<forall>leg \<in> set (rt_legs r). \<exists>h. leg_hop u leg h"
    using assms validate_leg_Inr by (auto simp: route_validate_against_def rall_Inr_iff split: if_splits)
  then show ?thesis
    unfolding route_hops_def by (intro exI [of _ "map (\<lambda>leg. SOME h. leg_hop u leg h) (rt_legs r)"])
      (auto simp: list_all2_map2 list_all2_same intro: someI_ex)
qed

lemma leg_hop_params:
  "leg_hop u leg (p, rin, rout, cap) \<Longrightarrow>
    swap_params (im_fee_numerator (ap_implementation p)) (im_fee_denominator (ap_implementation p)) rin rout
    \<and> rout \<le> MAX_UINT256"
  using reserve_pair_ok(1,4) by (auto simp: leg_hop_def)

lemma hop_out_range:
  assumes "leg_hop u leg h" "0 \<le> x"
  shows "0 \<le> hop_out h x \<and> hop_out h x \<le> MAX_UINT256"
proof -
  obtain p rin rout cap where h: "h = (p, rin, rout, cap)" by (cases h)
  note params = leg_hop_params [OF assms(1) [unfolded h]]
  show ?thesis
    using swap_out_nonneg [OF conjunct1 [OF params] assms(2)] swap_out_less [OF conjunct1 [OF params] assms(2)] params
    by (simp add: h)
qed

lemma hop_out_mono: "leg_hop u leg h \<Longrightarrow> 0 \<le> x \<Longrightarrow> x \<le> y \<Longrightarrow> hop_out h x \<le> hop_out h y"
  by (cases h) (auto dest!: leg_hop_params intro: swap_out_mono)

lemma hop_accepts_mono:
  "leg_hop u leg h \<Longrightarrow> 0 \<le> x \<Longrightarrow> x \<le> y \<Longrightarrow> hop_accepts h y \<Longrightarrow> hop_accepts h x"
  by (cases h) (auto simp: leg_hop_def intro: pool_accepts_mono)

lemma run_out_mono: "route_hops u legs hops \<Longrightarrow> 0 \<le> x \<Longrightarrow> x \<le> y \<Longrightarrow> run_out hops x \<le> run_out hops y"
  unfolding route_hops_def
proof (induction legs hops arbitrary: x y rule: list_all2_induct)
  case (Cons leg legs h hops)
  then show ?case using hop_out_mono hop_out_range by simp
qed simp

lemma run_out_range:
  "route_hops u legs hops \<Longrightarrow> 0 \<le> x \<Longrightarrow> x \<le> MAX_UINT256 \<Longrightarrow> 0 \<le> run_out hops x \<and> run_out hops x \<le> MAX_UINT256"
  unfolding route_hops_def
proof (induction legs hops arbitrary: x rule: list_all2_induct)
  case (Cons leg legs h hops)
  then show ?case using hop_out_range by simp
qed simp

text \<open>An input below an accepted one is accepted: the search may bisect.\<close>

lemma run_accepts_mono:
  "route_hops u legs hops \<Longrightarrow> 0 \<le> x \<Longrightarrow> x \<le> y \<Longrightarrow> run_accepts hops y \<Longrightarrow> run_accepts hops x"
  unfolding route_hops_def
proof (induction legs hops arbitrary: x y rule: list_all2_induct)
  case (Cons leg legs h hops)
  have "hop_accepts h x" using Cons.prems Cons.hyps hop_accepts_mono by auto
  moreover have "run_accepts hops (hop_out h x)"
    using Cons.IH [of "hop_out h x" "hop_out h y"] Cons.prems Cons.hyps hop_out_mono hop_out_range by simp
  ultimately show ?case by simp
qed simp

subsection \<open>Quotes of routes\<close>

fun quotes_chain :: "route_leg list \<Rightarrow> pool_swap_quote list \<Rightarrow> int \<Rightarrow> int \<Rightarrow> bool" where
  "quotes_chain [] [] x y \<longleftrightarrow> x = y"
| "quotes_chain (l # ls) (q # qs) x y \<longleftrightarrow>
    q_amount_in q = x \<and> q_token_in q = rl_token_in l \<and> q_token_out q = rl_token_out l
    \<and> q_pool_address q = rl_pool_address l \<and> PoolSwapQuote_post_init q = Inr q
    \<and> quotes_chain ls qs (q_amount_out q) y"
| "quotes_chain _ _ x y \<longleftrightarrow> False"

lemma expected_quote_token_out:
  "other_token p t = Inr u \<Longrightarrow> q_token_out (expected_quote p t rin rout cap x) = u"
  by (simp add: expected_quote_def Let_def)

lemma quote_legs:
  assumes "route_hops u legs hops" "0 \<le> x" "x \<le> MAX_UINT256"
  shows "(run_accepts hops x \<longrightarrow>
      (\<exists>qs'. rfold (quote_leg u) (qs, x) legs = Inr (qs @ qs', run_out hops x)
        \<and> quotes_chain legs qs' x (run_out hops x)))
    \<and> (\<not> run_accepts hops x \<longrightarrow>
      (\<exists>e. rfold (quote_leg u) (qs, x) legs = Inl (ConstantProductArithmeticError e)))"
  using assms unfolding route_hops_def
proof (induction legs hops arbitrary: x qs rule: list_all2_induct)
  case Nil
  have "quotes_chain [] [] x x" by simp
  then show ?case by (auto intro!: exI [of _ "[]"])
next
  case (Cons leg legs h hops)
  obtain p rin rout cap where h: "h = (p, rin, rout, cap)" by (cases h)
  then have leg: "get_pool u (rl_pool_address leg) = Inr p" "pool_ok p" "ap_pool_address p = rl_pool_address leg"
    "reserve_pair p (rl_token_in leg) = Inr (rin, rout, cap)"
    "other_token p (rl_token_in leg) = Inr (rl_token_out leg)"
    using Cons.hyps(1) by (auto simp: leg_hop_def)
  let ?q = "expected_quote p (rl_token_in leg) rin rout cap x"
  note quote = pool_quote_eq [OF leg(2,4) Cons.prems]
  show ?case
  proof (cases "pool_accepts p rin rout cap x")
    case True
    then have q: "quote_leg u (qs, x) leg = Inr (qs @ [?q], hop_out h x)"
      using quote leg by (simp add: quote_leg_def expected_quote_token_out h)
    have fits: "fits x (im_fee_numerator (ap_implementation p)) (im_fee_denominator (ap_implementation p)) rin rout"
      "rin + x \<le> cap" using True by (simp_all add: pool_accepts_def)
    have "PoolSwapQuote_post_init ?q = Inr ?q" by (rule expected_quote_ok [OF leg(2,4) Cons.prems(1) fits(2,1)])
    then have chain: "quotes_chain (leg # legs) (?q # qs') x y \<longleftrightarrow> quotes_chain legs qs' (hop_out h x) y" for qs' y
      using leg by (simp add: expected_quote_token_out h)
    have "0 \<le> hop_out h x" "hop_out h x \<le> MAX_UINT256"
      using hop_out_range [OF Cons.hyps(1) Cons.prems(1)] by simp_all
    note ih = Cons.IH [OF this, of "qs @ [?q]"]
    show ?thesis
    proof (cases "run_accepts hops (hop_out h x)")
      case True
      then obtain qs' where "rfold (quote_leg u) (qs @ [?q], hop_out h x) legs
          = Inr ((qs @ [?q]) @ qs', run_out hops (hop_out h x))"
        "quotes_chain legs qs' (hop_out h x) (run_out hops (hop_out h x))" using ih by blast
      then show ?thesis using q chain True \<open>pool_accepts p rin rout cap x\<close>
        by (auto simp: h simp del: quotes_chain.simps intro!: exI [of _ "?q # qs'"])
    next
      case False
      then show ?thesis using q ih by simp
    qed
  next
    case False
    then have "\<exists>e. quote_leg u (qs, x) leg = Inl (ConstantProductArithmeticError e)"
      using quote leg by (auto simp: quote_leg_def)
    with False show ?thesis by (auto simp: h)
  qed
qed

lemma neighbours_map: "neighbours (map f xs) = map (map_prod f f) (neighbours xs)"
  by (simp add: neighbours_def zip_map_map map_tl [symmetric] map_prod_def)

lemma set_neighbours_map: "(a, b) \<in> set (neighbours xs) \<Longrightarrow> (f a, f b) \<in> set (neighbours (map f xs))"
  by (force simp: neighbours_map)

lemma quotes_chain_facts:
  "quotes_chain legs qs x y \<Longrightarrow>
    map (\<lambda>q. (q_pool_address q, q_token_in q, q_token_out q)) qs
      = map (\<lambda>l. (rl_pool_address l, rl_token_in l, rl_token_out l)) legs
    \<and> (\<forall>q \<in> set qs. PoolSwapQuote_post_init q = Inr q)
    \<and> (qs \<noteq> [] \<longrightarrow> q_amount_in (hd qs) = x \<and> q_amount_out (last qs) = y)
    \<and> (\<forall>(a, b) \<in> set (neighbours qs). q_amount_out a = q_amount_in b)"
proof (induction legs qs x y rule: quotes_chain.induct)
  case (2 l ls q qs x y)
  then show ?case by (cases qs; cases ls) auto
qed auto

lemma quotes_chain_length: "quotes_chain legs qs x y \<Longrightarrow> length qs = length legs"
  by (induction legs qs x y rule: quotes_chain.induct) auto

lemma route_ok_facts:
  assumes "route_ok r"
  shows "MIN_ROUTE_HOPS \<le> length (rt_legs r)" "length (rt_legs r) \<le> MAX_ROUTE_HOPS"
    "distinct (map rl_pool_address (rt_legs r))"
    "\<forall>(a, b) \<in> set (neighbours (rt_legs r)). rl_token_out a = rl_token_in b"
    "rl_token_out (last (rt_legs r)) = rl_token_in (hd (rt_legs r))"
    "is_ok (canonical_json_bytes (ConstantProductRoute_to_json r))"
  using assms
  by (auto simp: route_ok_def ConstantProductRoute_post_init_def rall_Inr_iff is_ok_iff Let_def split: if_splits)

text \<open>A valid quote is small enough for canonical JSON, and so are four of them.\<close>

lemma quote_json_bound:
  assumes "PoolSwapQuote_post_init q = Inr q"
  shows "json_bound (PoolSwapQuote_to_json q) \<le> 10000"
    and "json_depth (PoolSwapQuote_to_json q) = 1" and "json_items (PoolSwapQuote_to_json q) = 15"
    and "\<not> has_huge_int (PoolSwapQuote_to_json q)" and "q_amount_out q \<le> MAX_UINT256"
proof -
  have ranges: "0 \<le> q_amount_in q \<and> q_amount_in q \<le> MAX_UINT256" "0 \<le> q_amount_out q \<and> q_amount_out q \<le> MAX_UINT256"
    "0 \<le> q_reserve_in q \<and> q_reserve_in q \<le> MAX_UINT256" "0 \<le> q_reserve_out q \<and> q_reserve_out q \<le> MAX_UINT256"
    "0 \<le> q_reserve_in_capacity q \<and> q_reserve_in_capacity q \<le> MAX_UINT256"
    "0 \<le> q_post_reserve_in q \<and> q_post_reserve_in q \<le> MAX_UINT256"
    "0 \<le> q_post_reserve_out q \<and> q_post_reserve_out q \<le> MAX_UINT256"
    "0 \<le> q_fee_numerator q \<and> q_fee_numerator q \<le> MAX_UINT256"
    "0 \<le> q_fee_denominator q \<and> q_fee_denominator q \<le> MAX_UINT256"
    and lens: "length (q_pool_sha256 q) = 64" "length (q_implementation_sha256 q) = 64"
      "length (q_pool_address q) = 20" "length (q_token_in q) = 20" "length (q_token_out q) = 20"
    using assms by (auto simp: PoolSwapQuote_post_init_def is_sha256_text_def split: if_splits)
  have "length (str_of_int (q_amount_in q)) \<le> 78" "length (str_of_int (q_amount_out q)) \<le> 78"
    "length (str_of_int (q_reserve_in q)) \<le> 78" "length (str_of_int (q_reserve_out q)) \<le> 78"
    "length (str_of_int (q_reserve_in_capacity q)) \<le> 78" "length (str_of_int (q_post_reserve_in q)) \<le> 78"
    "length (str_of_int (q_post_reserve_out q)) \<le> 78" "length (str_of_int (q_fee_numerator q)) \<le> 78"
    "length (str_of_int (q_fee_denominator q)) \<le> 78"
    using ranges by (simp_all add: length_str_of_uint256)
  with lens show "json_bound (PoolSwapQuote_to_json q) \<le> 10000"
    by (simp add: PoolSwapQuote_to_json_def)
  show "json_depth (PoolSwapQuote_to_json q) = 1" "json_items (PoolSwapQuote_to_json q) = 15"
    "\<not> has_huge_int (PoolSwapQuote_to_json q)" "q_amount_out q \<le> MAX_UINT256"
    using ranges by (simp_all add: PoolSwapQuote_to_json_def)
qed

lemma length_str_of_int_signed:
  "- MAX_UINT256 \<le> v \<Longrightarrow> v \<le> MAX_UINT256 \<Longrightarrow> length (str_of_int v) \<le> 79"
  using length_str_of_uint256 [of v] length_str_of_uint256 [of "- v"]
  by (cases "v < 0") (auto simp: str_of_int_def)

lemma q_digest_text: "length (q_digest q) = 64"
  using json_sha256_text [of "PoolSwapQuote_to_json q"] by (simp add: q_digest_def is_sha256_text_def)

lemma route_quote_json_ok:
  assumes legs: "\<forall>q \<in> set (rq_legs r). PoolSwapQuote_post_init q = Inr q" and few: "length (rq_legs r) \<le> 4"
    and sha: "is_sha256_text (rq_route_sha256 r)"
    and ranges: "0 \<le> rq_amount_in r" "rq_amount_in r \<le> MAX_UINT256" "0 \<le> rq_amount_out r"
      "rq_amount_out r \<le> MAX_UINT256" "rq_gross_profit r = rq_amount_out r - rq_amount_in r"
  shows "\<exists>b. canonical_json_bytes (RouteQuote_to_json r) = Inr b"
proof -
  let ?qs = "rq_legs r"
  have lens: "length (str_of_int (rq_amount_in r)) \<le> 78" "length (str_of_int (rq_amount_out r)) \<le> 78"
    "length (str_of_int (rq_gross_profit r)) \<le> 79"
    using ranges by (simp_all add: length_str_of_uint256 length_str_of_int_signed)
  have "(\<Sum>q \<leftarrow> ?qs. Suc (json_bound (PoolSwapQuote_to_json q))) \<le> (\<Sum>q \<leftarrow> ?qs. 10001)"
    using legs quote_json_bound(1) by (intro sum_list_mono) simp
  then have sum: "(\<Sum>q \<leftarrow> ?qs. Suc (json_bound (PoolSwapQuote_to_json q))) \<le> 40004"
    using few by (simp add: sum_list_triv)
  have sum2: "(\<Sum>q \<leftarrow> ?qs. Suc (Suc (Suc (6 * length (q_digest q))))) \<le> 1548"
    using few by (simp add: q_digest_text sum_list_triv)
  have bound: "json_bound (RouteQuote_to_json r) \<le> DEFAULT_MAX_JSON_BYTES"
    using lens sum sum2 sha
    by (simp add: RouteQuote_to_json_def comp_def is_sha256_text_def DEFAULT_MAX_JSON_BYTES_def)
  have "(\<Sum>q \<leftarrow> ?qs. json_items (PoolSwapQuote_to_json q)) \<le> (\<Sum>q \<leftarrow> ?qs. 15)"
    using legs quote_json_bound(3) by (intro sum_list_mono) simp
  then have items: "json_items (RouteQuote_to_json r) \<le> DEFAULT_MAX_ITEMS"
    using few by (simp add: RouteQuote_to_json_def comp_def DEFAULT_MAX_ITEMS_def sum_list_triv)
  have depth: "json_depth (RouteQuote_to_json r) \<le> DEFAULT_MAX_DEPTH"
    using legs quote_json_bound(2)
    by (simp add: RouteQuote_to_json_def comp_def DEFAULT_MAX_DEPTH_def fold_max_le_iff)
  have "\<not> has_huge_int (RouteQuote_to_json r)"
    using legs quote_json_bound(4) by (auto simp: RouteQuote_to_json_def list_ex_iff)
  then show ?thesis using bound items depth by (subst canonical_json_okI) auto
qed

text \<open>The reconciliation checks of a route quote, in the form the quotes of a route satisfy them.\<close>

lemma rall_neighboursI:
  assumes "\<And>a b. (a, b) \<in> set (neighbours xs) \<Longrightarrow> f (a, b) = Inr ()"
  shows "rall f (neighbours xs) = Inr ()"
  using assms by (auto simp: rall_Inr_iff)

lemma RouteQuote_post_initI:
  assumes "is_sha256_text (rq_route_sha256 q)" "0 < rq_amount_in q" "0 \<le> rq_amount_out q"
    "rq_gross_profit q = rq_amount_out q - rq_amount_in q"
    "MIN_ROUTE_HOPS \<le> length (rq_legs q)" "length (rq_legs q) \<le> MAX_ROUTE_HOPS"
    "q_amount_in (hd (rq_legs q)) = rq_amount_in q" "q_amount_out (last (rq_legs q)) = rq_amount_out q"
    "distinct (map q_pool_address (rq_legs q))"
    and path: "\<And>a b. (a, b) \<in> set (neighbours (rq_legs q)) \<Longrightarrow>
      q_token_out a = q_token_in b \<and> q_amount_out a = q_amount_in b"
    and cyclic: "q_token_out (last (rq_legs q)) = q_token_in (hd (rq_legs q))"
    and json: "canonical_json_bytes (RouteQuote_to_json q) = Inr b"
  shows "RouteQuote_post_init q = Inr q"
proof -
  have "rall (\<lambda>(previous, current).
      if q_token_out previous \<noteq> q_token_in current
      then Inl (ValueError ''route quote token path is disconnected'')
      else if q_amount_out previous \<noteq> q_amount_in current
      then Inl (ValueError ''route quote amount path is disconnected'')
      else Inr ()) (neighbours (rq_legs q)) = Inr ()"
    by (rule rall_neighboursI) (simp add: path)
  then show ?thesis using assms(1-9) cyclic json by (simp add: RouteQuote_post_init_def)
qed

abbreviation quote_side :: "pool_swap_quote \<Rightarrow> bytes \<times> bytes \<times> bytes" where
  "quote_side q \<equiv> (q_pool_address q, q_token_in q, q_token_out q)"

abbreviation leg_side :: "route_leg \<Rightarrow> bytes \<times> bytes \<times> bytes" where
  "leg_side l \<equiv> (rl_pool_address l, rl_token_in l, rl_token_out l)"

lemma same_sides:
  assumes sides: "map quote_side qs = map leg_side legs" and ne: "legs \<noteq> []"
  shows "map q_pool_address qs = map rl_pool_address legs"
    and "quote_side (hd qs) = leg_side (hd legs)" and "quote_side (last qs) = leg_side (last legs)"
    and "(a, b) \<in> set (neighbours qs) \<Longrightarrow>
      \<exists>c d. (c, d) \<in> set (neighbours legs) \<and> quote_side a = leg_side c \<and> quote_side b = leg_side d"
proof -
  have "length qs = length legs" using arg_cong [OF sides, of length] by simp
  then have nq: "qs \<noteq> []" using ne by auto
  show "map q_pool_address qs = map rl_pool_address legs"
    using arg_cong [OF sides, of "map fst"] by (simp only: map_map comp_def fst_conv)
  have "hd (map quote_side qs) = hd (map leg_side legs)" by (simp only: sides)
  then show "quote_side (hd qs) = leg_side (hd legs)" by (simp only: hd_map [OF nq] hd_map [OF ne])
  have "last (map quote_side qs) = last (map leg_side legs)" by (simp only: sides)
  then show "quote_side (last qs) = leg_side (last legs)" by (simp only: last_map [OF nq] last_map [OF ne])
  assume "(a, b) \<in> set (neighbours qs)"
  then have "(quote_side a, quote_side b) \<in> set (neighbours (map leg_side legs))"
    using set_neighbours_map [of a b qs quote_side] unfolding sides by blast
  then have "(quote_side a, quote_side b) \<in> map_prod leg_side leg_side ` set (neighbours legs)"
    by (simp only: neighbours_map set_map)
  then obtain p where p: "p \<in> set (neighbours legs)" "(quote_side a, quote_side b) = map_prod leg_side leg_side p"
    by (rule imageE)
  obtain c d where cd: "p = (c, d)" by (cases p)
  have "quote_side a = leg_side c \<and> quote_side b = leg_side d"
    using p(2) unfolding cd map_prod_simp by (rule prod.inject [THEN iffD1])
  then show "\<exists>c d. (c, d) \<in> set (neighbours legs) \<and> quote_side a = leg_side c \<and> quote_side b = leg_side d"
    using p(1) unfolding cd by blast
qed

lemma chain_quote_ok:
  assumes route: "route_ok r" and chain: "quotes_chain (rt_legs r) qs x y"
    and x: "0 < x" "x \<le> MAX_UINT256" and y: "0 \<le> y" "y \<le> MAX_UINT256"
  defines "q \<equiv> \<lparr>rq_route_sha256 = rt_digest r, rq_amount_in = x, rq_amount_out = y,
      rq_gross_profit = y - x, rq_legs = qs\<rparr>"
  shows "RouteQuote_post_init q = Inr q"
proof -
  note legs = route_ok_facts [OF route] and facts = quotes_chain_facts [OF chain]
  have len: "length qs = length (rt_legs r)" by (rule quotes_chain_length [OF chain])
  have ne: "rt_legs r \<noteq> []" using legs(1) by (auto simp: MIN_ROUTE_HOPS_def)
  then have nq: "qs \<noteq> []" using len by auto
  note sides = same_sides [OF conjunct1 [OF facts] ne]
  have ends: "q_amount_in (hd qs) = x \<and> q_amount_out (last qs) = y" using facts nq by blast
  have posts: "\<forall>q \<in> set qs. PoolSwapQuote_post_init q = Inr q" using facts by blast
  have sha: "is_sha256_text (rt_digest r)" by (simp add: rt_digest_def json_sha256_text)
  have "\<exists>b. canonical_json_bytes (RouteQuote_to_json q) = Inr b"
    using posts sha x y legs(2) len unfolding q_def
    by (intro route_quote_json_ok) (auto simp: MAX_ROUTE_HOPS_def)
  then obtain b where json: "canonical_json_bytes (RouteQuote_to_json q) = Inr b" ..
  show ?thesis
  proof (rule RouteQuote_post_initI [OF _ _ _ _ _ _ _ _ _ _ _ json])
    fix a b assume "(a, b) \<in> set (neighbours (rq_legs q))"
    then have ab: "(a, b) \<in> set (neighbours qs)" by (simp add: q_def)
    obtain c d where cd: "(c, d) \<in> set (neighbours (rt_legs r))" "quote_side a = leg_side c" "quote_side b = leg_side d"
      using sides(4) [OF ab] by blast
    have "rl_token_out c = rl_token_in d" using legs(4) cd(1) by blast
    moreover have "q_amount_out a = q_amount_in b" using facts ab by blast
    ultimately show "q_token_out a = q_token_in b \<and> q_amount_out a = q_amount_in b" using cd(2,3) by simp
  qed (use sha x y ends len legs(1,2,3,5) sides(1,2,3) in \<open>simp_all add: q_def\<close>)
qed

text \<open>A quote of a valid route is the composition of the exact swaps, or an arithmetic error.\<close>

lemma route_quote_eq:
  assumes route: "route_ok r" "route_validate_against r u = Inr ()" "route_hops u (rt_legs r) hops"
    and x: "0 < x" "x \<le> MAX_UINT256"
  shows "(run_accepts hops x \<longrightarrow> (\<exists>q. route_quote_exact_in r u x = Inr q \<and> rq_amount_in q = x
        \<and> rq_amount_out q = run_out hops x \<and> rq_gross_profit q = run_out hops x - x
        \<and> quotes_chain (rt_legs r) (rq_legs q) x (run_out hops x)))
    \<and> (\<not> run_accepts hops x \<longrightarrow> (\<exists>e. route_quote_exact_in r u x = Inl (ConstantProductArithmeticError e)))"
proof (cases "run_accepts hops x")
  case False
  then obtain e where "rfold (quote_leg u) ([], x) (rt_legs r) = Inl (ConstantProductArithmeticError e)"
    using quote_legs [OF route(3)] x by force
  then show ?thesis using False route(2) x by (simp add: route_quote_exact_in_def)
next
  case True
  then obtain qs where qs: "rfold (quote_leg u) ([], x) (rt_legs r) = Inr (qs, run_out hops x)"
    and chain: "quotes_chain (rt_legs r) qs x (run_out hops x)"
    using quote_legs [OF route(3), of x "[]"] x by auto
  have "0 \<le> run_out hops x" "run_out hops x \<le> MAX_UINT256" using run_out_range [OF route(3)] x by simp_all
  note ok = chain_quote_ok [OF route(1) chain x this]
  then show ?thesis using True qs route(2) x chain by (simp add: route_quote_exact_in_def)
qed

text \<open>What the probe of the binary search answers.\<close>

lemma try_amount_eq:
  assumes "route_ok r" "route_validate_against r u = Inr ()" "route_hops u (rt_legs r) hops" "0 < x" "x \<le> MAX_UINT256"
  shows "try_amount_out_bound r u x = Inr (if run_accepts hops x then Some (run_out hops x) else None)"
proof (cases "run_accepts hops x")
  case True
  then obtain q where "route_quote_exact_in r u x = Inr q" "rq_amount_out q = run_out hops x"
    using route_quote_eq [OF assms] by blast
  then show ?thesis using True by (simp add: try_amount_out_bound_def)
next
  case False
  then obtain e where "route_quote_exact_in r u x = Inl (ConstantProductArithmeticError e)"
    using route_quote_eq [OF assms] by blast
  then show ?thesis using False by (simp add: try_amount_out_bound_def)
qed

end
