(* ===== verification/Route_Enumeration.thy ===== *)
theory Route_Enumeration
  imports Opportunity_Graph
begin

text \<open>
  \<open>enumerate_simple_cycles\<close> returns exactly the routes a universe has: the depth-first search over
  the directed legs of the pools finds every cyclic route that the constructor of routes accepts
  and the universe validates, and nothing else.
\<close>

subsection \<open>The legs of a universe\<close>

definition universe_wf :: "pool_universe \<Rightarrow> bool" where
  "universe_wf u \<longleftrightarrow> universe_ok u \<and> distinct (map ap_pool_address (pu_pools u))"

definition pool_legs :: "authenticated_pool \<Rightarrow> route_leg list" where
  "pool_legs p =
    [\<lparr>rl_pool_address = ap_pool_address p, rl_token_in = ap_token0 p, rl_token_out = ap_token1 p\<rparr>,
     \<lparr>rl_pool_address = ap_pool_address p, rl_token_in = ap_token1 p, rl_token_out = ap_token0 p\<rparr>]"

lemma directional_legs_ok: "pool_ok p \<Longrightarrow> directional_legs p = Inr (pool_legs p)"
  by (auto simp: directional_legs_def pool_legs_def RouteLeg_post_init_def require_address_def pool_ok_def
      address_ok_def Let_def)

lemma get_pool_wf:
  assumes "universe_wf u"
  shows "get_pool u a = Inr p \<longleftrightarrow> p \<in> set (pu_pools u) \<and> ap_pool_address p = a"
proof
  show "get_pool u a = Inr p \<Longrightarrow> p \<in> set (pu_pools u) \<and> ap_pool_address p = a" by (rule get_pool_Inr)
next
  assume p: "p \<in> set (pu_pools u) \<and> ap_pool_address p = a"
  have ok: "pool_ok p" using p assms by (auto simp: universe_wf_def universe_ok_def list_all_iff)
  then have addr: "length a = 20" "a \<noteq> zero_bytes 20"
    using p by (auto simp: pool_ok_def address_ok_def Let_def)
  have inj: "inj_on ap_pool_address (set (pu_pools u))" using assms by (simp add: universe_wf_def distinct_map)
  have "find (\<lambda>p. ap_pool_address p = a) (pu_pools u) = Some p"
  proof (cases "find (\<lambda>p. ap_pool_address p = a) (pu_pools u)")
    case None
    then show ?thesis using p by (auto simp: find_None_iff)
  next
    case (Some q)
    then have "q \<in> set (pu_pools u)" "ap_pool_address q = a" by (auto simp: find_Some_iff)
    then have "q = p" using inj p by (auto dest: inj_onD)
    then show ?thesis using Some by simp
  qed
  then show "get_pool u a = Inr p" using addr by (simp add: get_pool_def)
qed

lemma validate_leg_iff:
  assumes "universe_wf u"
  shows "validate_leg u leg = Inr () \<longleftrightarrow> (\<exists>p \<in> set (pu_pools u). leg \<in> set (pool_legs p))"
proof -
  have "validate_leg u leg = Inr () \<longleftrightarrow>
    (\<exists>p. get_pool u (rl_pool_address leg) = Inr p \<and> supports_token p (rl_token_in leg)
      \<and> other_token p (rl_token_in leg) = Inr (rl_token_out leg))"
    by (auto simp: validate_leg_def)
  also have "\<dots> \<longleftrightarrow> (\<exists>p \<in> set (pu_pools u). ap_pool_address p = rl_pool_address leg
      \<and> supports_token p (rl_token_in leg) \<and> other_token p (rl_token_in leg) = Inr (rl_token_out leg))"
    by (auto simp: get_pool_wf [OF assms])
  also have "\<dots> \<longleftrightarrow> (\<exists>p \<in> set (pu_pools u). leg \<in> set (pool_legs p))"
  proof (intro bex_cong refl)
    fix p assume "p \<in> set (pu_pools u)"
    then have "pool_ok p" using assms by (auto simp: universe_wf_def universe_ok_def list_all_iff)
    then have "ap_token0 p \<noteq> ap_token1 p" "address_ok (ap_token0 p)" "address_ok (ap_token1 p)"
      by (auto simp: pool_ok_def Let_def)
    then show "(ap_pool_address p = rl_pool_address leg \<and> supports_token p (rl_token_in leg)
        \<and> other_token p (rl_token_in leg) = Inr (rl_token_out leg)) \<longleftrightarrow> leg \<in> set (pool_legs p)"
      by (cases leg) (auto simp: pool_legs_def supports_token_def other_token_def address_ok_def)
  qed
  finally show ?thesis .
qed

definition legs_from :: "adjacency \<Rightarrow> bytes \<Rightarrow> route_leg list" where
  "legs_from adj token = (case dict_get adj token of None \<Rightarrow> [] | Some ls \<Rightarrow> ls)"

lemma legs_from_add:
  "set (legs_from (add_leg adj leg) t) = set (legs_from adj t) \<union> (if rl_token_in leg = t then {leg} else {})"
  by (auto simp: legs_from_def add_leg_def split: option.splits)

lemma legs_from_foldl:
  "set (legs_from (foldl add_leg adj legs) t) = set (legs_from adj t) \<union> {l \<in> set legs. rl_token_in l = t}"
  by (induction legs arbitrary: adj) (auto simp: legs_from_add)

lemma dict_get_map_values: "dict_get (map (\<lambda>(k, v). (k, f v)) d) k = map_option f (dict_get d k)"
  by (simp add: dict_get_def map_of_map)

lemma adjacency_legs:
  assumes "universe_wf u" "build_adjacency u = Inr adj"
  shows "set (legs_from adj t) = {l. rl_token_in l = t \<and> validate_leg u l = Inr ()}"
proof -
  have "rmap directional_legs (pu_pools u) = Inr (map pool_legs (pu_pools u))"
    using assms(1) directional_legs_ok by (intro rmap_InrI) (auto simp: universe_wf_def universe_ok_def list_all_iff)
  then have adj: "adj = map (\<lambda>(token, ls). (token, sort_key (\<lambda>l. (rl_pool_address l, rl_token_out l, rl_token_in l)) ls))
      (foldl add_leg [] (concat (map pool_legs (pu_pools u))))"
    using assms(2) by (simp add: build_adjacency_def)
  have "set (legs_from adj t) = set (legs_from (foldl add_leg [] (concat (map pool_legs (pu_pools u)))) t)"
    unfolding adj legs_from_def dict_get_map_values by (auto split: option.splits)
  also have "\<dots> = {l \<in> set (concat (map pool_legs (pu_pools u))). rl_token_in l = t}"
    unfolding legs_from_foldl by (simp add: legs_from_def)
  also have "\<dots> = {l. rl_token_in l = t \<and> validate_leg u l = Inr ()}"
    by (auto simp: validate_leg_iff [OF assms(1)])
  finally show ?thesis .
qed

lemma build_adjacency_total: "universe_wf u \<Longrightarrow> \<exists>adj. build_adjacency u = Inr adj"
  using rmap_InrI [of "pu_pools u" directional_legs pool_legs] directional_legs_ok
  by (auto simp: build_adjacency_def universe_wf_def universe_ok_def list_all_iff)

subsection \<open>Ways back to the base token\<close>

text \<open>
  \<open>completes u base token used visited rest\<close>: the legs \<open>rest\<close> lead from \<open>token\<close> back to the base
  through pools that are not used and tokens that are not visited.
\<close>

fun completes :: "pool_universe \<Rightarrow> bytes \<Rightarrow> bytes \<Rightarrow> bytes set \<Rightarrow> bytes set \<Rightarrow> route_leg list \<Rightarrow> bool" where
  "completes u base token used visited [] \<longleftrightarrow> False"
| "completes u base token used visited (l # rest) \<longleftrightarrow>
    rl_token_in l = token \<and> validate_leg u l = Inr () \<and> rl_pool_address l \<notin> used
    \<and> (if rl_token_out l = base then rest = []
       else rl_token_out l \<notin> visited
         \<and> completes u base (rl_token_out l) (insert (rl_pool_address l) used) (insert (rl_token_out l) visited) rest)"

lemma neighbours_Cons: "neighbours (x # y # xs) = (x, y) # neighbours (y # xs)"
  by (simp add: neighbours_def)

lemma completes_iff:
  "base \<in> visited \<Longrightarrow> completes u base token used visited rest \<longleftrightarrow>
    rest \<noteq> [] \<and> rl_token_in (hd rest) = token \<and> (\<forall>l \<in> set rest. validate_leg u l = Inr ())
    \<and> distinct (map rl_pool_address rest) \<and> set (map rl_pool_address rest) \<inter> used = {}
    \<and> (\<forall>(a, b) \<in> set (neighbours rest). rl_token_out a = rl_token_in b)
    \<and> rl_token_out (last rest) = base
    \<and> distinct (map rl_token_out (butlast rest)) \<and> set (map rl_token_out (butlast rest)) \<inter> visited = {}"
proof (induction rest arbitrary: token used visited)
  case (Cons l rest)
  show ?case
  proof (cases rest)
    case Nil
    then show ?thesis using Cons.prems by (auto simp: neighbours_def)
  next
    case (Cons m ms)
    let ?vis = "insert (rl_token_out l) visited" and ?used = "insert (rl_pool_address l) used"
    have ih: "completes u base (rl_token_out l) ?used ?vis rest \<longleftrightarrow>
      rest \<noteq> [] \<and> rl_token_in (hd rest) = rl_token_out l \<and> (\<forall>l \<in> set rest. validate_leg u l = Inr ())
      \<and> distinct (map rl_pool_address rest) \<and> set (map rl_pool_address rest) \<inter> ?used = {}
      \<and> (\<forall>(a, b) \<in> set (neighbours rest). rl_token_out a = rl_token_in b)
      \<and> rl_token_out (last rest) = base
      \<and> distinct (map rl_token_out (butlast rest)) \<and> set (map rl_token_out (butlast rest)) \<inter> ?vis = {}"
      using Cons.IH [of ?vis "rl_token_out l" ?used] Cons.prems by simp
    have path: "(\<forall>(a, b) \<in> set (neighbours (l # rest)). rl_token_out a = rl_token_in b)
      \<longleftrightarrow> rl_token_out l = rl_token_in (hd rest) \<and> (\<forall>(a, b) \<in> set (neighbours rest). rl_token_out a = rl_token_in b)"
      unfolding Cons neighbours_Cons by simp
    have tail: "butlast (l # rest) = l # butlast rest" "last (l # rest) = last rest" "rest \<noteq> []"
      using Cons by simp_all
    show ?thesis
      unfolding completes.simps ih path tail
      using Cons.prems tail(3) by auto
  qed
qed simp

subsection \<open>Routes\<close>

lemma route_json_ok:
  assumes "is_sha256_text d" "length legs \<le> MAX_ROUTE_HOPS"
    and "\<forall>l \<in> set legs. length (rl_pool_address l) = 20 \<and> length (rl_token_in l) = 20 \<and> length (rl_token_out l) = 20"
  shows "\<exists>b. canonical_json_bytes (ConstantProductRoute_to_json \<lparr>rt_universe_sha256 = d, rt_legs = legs\<rparr>) = Inr b"
proof -
  have leg: "json_bound (RouteLeg_to_json l) \<le> 1200" "json_items (RouteLeg_to_json l) = 4"
    "json_depth (RouteLeg_to_json l) = 1" "\<not> has_huge_int (RouteLeg_to_json l)" if "l \<in> set legs" for l
    using assms(3) that by (simp_all add: RouteLeg_to_json_def)
  have "(\<Sum>l \<leftarrow> legs. Suc (json_bound (RouteLeg_to_json l))) \<le> (\<Sum>l \<leftarrow> legs. 1201)"
    using leg(1) by (intro sum_list_mono) simp
  also have "\<dots> \<le> 4804" using assms(2) by (simp add: sum_list_triv MAX_ROUTE_HOPS_def)
  finally have sum: "(\<Sum>l \<leftarrow> legs. Suc (json_bound (RouteLeg_to_json l))) \<le> 4804" .
  have "(\<Sum>l \<leftarrow> legs. json_items (RouteLeg_to_json l)) \<le> (\<Sum>l \<leftarrow> legs. 4)"
    using leg(2) by (intro sum_list_mono) simp
  also have "\<dots> \<le> 16" using assms(2) by (simp add: sum_list_triv MAX_ROUTE_HOPS_def)
  finally have items: "(\<Sum>l \<leftarrow> legs. json_items (RouteLeg_to_json l)) \<le> 16" .
  let ?v = "ConstantProductRoute_to_json \<lparr>rt_universe_sha256 = d, rt_legs = legs\<rparr>"
  have "json_bound ?v \<le> DEFAULT_MAX_JSON_BYTES"
    using sum assms(1)
    by (simp add: ConstantProductRoute_to_json_def comp_def DEFAULT_MAX_JSON_BYTES_def is_sha256_text_def ROUTE_SCHEMA_def)
  moreover have "json_items ?v \<le> DEFAULT_MAX_ITEMS" "json_depth ?v \<le> DEFAULT_MAX_DEPTH" "\<not> has_huge_int ?v"
    using items leg
    by (simp_all add: ConstantProductRoute_to_json_def comp_def DEFAULT_MAX_ITEMS_def DEFAULT_MAX_DEPTH_def
        fold_max_le_iff list_ex_iff)
  ultimately show ?thesis by (subst canonical_json_okI) auto
qed

lemma valid_leg_lengths:
  assumes "universe_wf u" "validate_leg u l = Inr ()"
  shows "length (rl_pool_address l) = 20 \<and> length (rl_token_in l) = 20 \<and> length (rl_token_out l) = 20"
proof -
  obtain p where p: "p \<in> set (pu_pools u)" "l \<in> set (pool_legs p)" using assms validate_leg_iff by blast
  then have "pool_ok p" using assms(1) by (auto simp: universe_wf_def universe_ok_def list_all_iff)
  then show ?thesis using p(2) by (auto simp: pool_legs_def pool_ok_def address_ok_def Let_def)
qed

lemma cyclic_route_iff:
  assumes wf: "universe_wf u" and d: "pu_digest u = Inr d"
  shows "route_ok r \<and> route_validate_against r u = Inr () \<and> rt_base_token r = base \<longleftrightarrow>
    rt_universe_sha256 r = d \<and> completes u base base {} {base} (rt_legs r)
    \<and> MIN_ROUTE_HOPS \<le> length (rt_legs r) \<and> length (rt_legs r) \<le> MAX_ROUTE_HOPS"
proof -
  have sha: "is_sha256_text d" using d by (auto simp: pu_digest_def canonical_sha256_iff json_sha256_text)
  define legs where "legs = rt_legs r"
  have r: "r = \<lparr>rt_universe_sha256 = rt_universe_sha256 r, rt_legs = legs\<rparr>" by (cases r) (simp add: legs_def)
  have valid: "route_validate_against r u = Inr () \<longleftrightarrow>
      rt_universe_sha256 r = d \<and> (\<forall>l \<in> set legs. validate_leg u l = Inr ())"
    using d by (auto simp: route_validate_against_def rall_Inr_iff legs_def)
  have json: "\<exists>b. canonical_json_bytes (ConstantProductRoute_to_json r) = Inr b"
    if "rt_universe_sha256 r = d" "\<forall>l \<in> set legs. validate_leg u l = Inr ()" "length legs \<le> MAX_ROUTE_HOPS"
    using route_json_ok [OF sha that(3)] valid_leg_lengths [OF wf] that(1,2) r by metis
  have ok: "route_ok r \<longleftrightarrow>
    is_sha256_text (rt_universe_sha256 r) \<and> MIN_ROUTE_HOPS \<le> length legs \<and> length legs \<le> MAX_ROUTE_HOPS
    \<and> distinct (map rl_pool_address legs) \<and> (\<forall>(a, b) \<in> set (neighbours legs). rl_token_out a = rl_token_in b)
    \<and> rl_token_out (last legs) = rl_token_in (hd legs) \<and> rl_token_in (hd legs) \<notin> set (map rl_token_out (butlast legs))
    \<and> distinct (map rl_token_out (butlast legs)) \<and> (\<exists>b. canonical_json_bytes (ConstantProductRoute_to_json r) = Inr b)"
    by (auto simp: route_ok_def ConstantProductRoute_post_init_def Let_def legs_def [symmetric] rall_Inr_iff
        split: if_splits)
  show ?thesis
    unfolding valid ok rt_base_token_def legs_def [symmetric] using sha json
    by (auto simp: completes_iff MIN_ROUTE_HOPS_def)
qed

subsection \<open>The depth-first search\<close>

text \<open>What the search has recorded: valid routes, each once, with their digests.\<close>

definition cycle_of :: "pool_universe \<Rightarrow> string \<Rightarrow> bytes \<Rightarrow> nat \<Rightarrow> cp_route \<Rightarrow> bool" where
  "cycle_of u d base h r \<longleftrightarrow>
    rt_universe_sha256 r = d \<and> completes u base base {} {base} (rt_legs r)
    \<and> MIN_ROUTE_HOPS \<le> length (rt_legs r) \<and> length (rt_legs r) \<le> h"

definition recorded_ok :: "pool_universe \<Rightarrow> string \<Rightarrow> bytes \<Rightarrow> nat \<Rightarrow> enumeration \<Rightarrow> bool" where
  "recorded_ok u d base h s \<longleftrightarrow>
    set (en_digests s) = rt_digest ` set (en_routes s) \<and> distinct (map rt_digest (en_routes s))
    \<and> length (en_routes s) \<le> MAX_ENUMERATED_ROUTES \<and> (\<forall>r \<in> set (en_routes s). cycle_of u d base h r)"

lemma record_route_ok:
  assumes "recorded_ok u d base h s" "cycle_of u d base h r" "record_route r s = Inr s'"
  shows "recorded_ok u d base h s' \<and> set (en_digests s') = insert (rt_digest r) (set (en_digests s))"
  using assms by (auto simp: record_route_def recorded_ok_def Let_def split: if_splits)

lemma route_post_init_Inr: "ConstantProductRoute_post_init r = Inr r' \<Longrightarrow> r' = r"
  by (auto simp: ConstantProductRoute_post_init_def Let_def split: if_splits)

text \<open>The turn of the loop for one leg.\<close>

definition visit_leg :: "pool_universe \<Rightarrow> adjacency \<Rightarrow> bytes \<Rightarrow> nat \<Rightarrow> route_leg list \<Rightarrow> bytes list
    \<Rightarrow> bytes list \<Rightarrow> enumeration \<Rightarrow> route_leg \<Rightarrow> enumeration result" where
  "visit_leg universe adj base maximum_hops legs used_pools visited_tokens state leg =
    (let state = state\<lparr>en_steps := Suc (en_steps state)\<rparr>; next_legs = legs @ [leg];
         next_token = rl_token_out leg in
     if MAX_ENUMERATION_STEPS < en_steps state
     then Inl (ValueError ''route enumeration work exceeds the governed ceiling'')
     else if rl_pool_address leg \<in> set used_pools then Inr state
     else if next_token = base then
       (if length next_legs < MIN_ROUTE_HOPS then Inr state
        else rbind (pu_digest universe) (\<lambda>digest.
          rbind (ConstantProductRoute_post_init \<lparr>rt_universe_sha256 = digest, rt_legs = next_legs\<rparr>) (\<lambda>route.
          record_route route state)))
     else if next_token \<in> set visited_tokens then Inr state
     else visit universe adj base maximum_hops next_token next_legs
            (rl_pool_address leg # used_pools) (next_token # visited_tokens) state)"

lemma visit_unfold:
  "visit u adj base h token legs used visited s =
    (if h \<le> length legs then Inr s else rfold (visit_leg u adj base h legs used visited) s (legs_from adj token))"
  by (simp add: visit.simps [of u adj base h token] visit_leg_def [abs_def] legs_from_def)

text \<open>Each turn keeps what is recorded and adds every route that starts with its leg.\<close>

lemma rfold_collects:
  assumes step: "\<And>s x s'. x \<in> set xs \<Longrightarrow> P s \<Longrightarrow> f s x = Inr s' \<Longrightarrow> P s' \<and> D s \<union> A x \<subseteq> D s'"
  shows "rfold f s xs = Inr s' \<Longrightarrow> P s \<Longrightarrow> P s' \<and> D s \<union> (\<Union>x \<in> set xs. A x) \<subseteq> D s'"
  using step
proof (induction xs arbitrary: s)
  case (Cons x xs)
  from Cons.prems(1) obtain t where t: "f s x = Inr t" "rfold f t xs = Inr s'" by auto
  have "P t \<and> D s \<union> A x \<subseteq> D t" using Cons.prems(3) [of x s t] Cons.prems(2) t(1) by simp
  moreover have "P s' \<and> D t \<union> (\<Union>x \<in> set xs. A x) \<subseteq> D s'"
  proof (rule Cons.IH [OF t(2)])
    show "P t" using calculation by blast
    show "P s' \<and> D s \<union> A y \<subseteq> D s'" if "y \<in> set xs" "P s" "f s y = Inr s'" for s y s'
      using Cons.prems(3) [of y s s'] that by simp
  qed
  ultimately show ?case by auto
qed simp

definition extends_path :: "pool_universe \<Rightarrow> bytes \<Rightarrow> route_leg list \<Rightarrow> bytes \<Rightarrow> bytes set \<Rightarrow> bytes set \<Rightarrow> bool" where
  "extends_path u base legs token used visited \<longleftrightarrow>
    base \<in> visited \<and>
    (\<forall>rest. completes u base token used visited rest \<longrightarrow> completes u base base {} {base} (legs @ rest))"

lemma extends_path_leg:
  assumes "extends_path u base legs token (set used) (set visited)" "rl_token_in l = token" "validate_leg u l = Inr ()"
    and "rl_token_out l \<noteq> base" "rl_pool_address l \<notin> set used" "rl_token_out l \<notin> set visited"
  shows "extends_path u base (legs @ [l]) (rl_token_out l) (set (rl_pool_address l # used)) (set (rl_token_out l # visited))"
  unfolding extends_path_def
proof (intro conjI allI impI)
  fix rest
  assume "completes u base (rl_token_out l) (set (rl_pool_address l # used)) (set (rl_token_out l # visited)) rest"
  then have "completes u base token (set used) (set visited) (l # rest)" using assms(2-) by simp
  then have "completes u base base {} {base} (legs @ l # rest)" using assms(1) unfolding extends_path_def by blast
  then show "completes u base base {} {base} ((legs @ [l]) @ rest)" by simp
qed (use assms(1) in \<open>simp add: extends_path_def\<close>)

definition digests_from :: "pool_universe \<Rightarrow> string \<Rightarrow> bytes \<Rightarrow> nat \<Rightarrow> route_leg list \<Rightarrow> bytes \<Rightarrow> bytes set
    \<Rightarrow> bytes set \<Rightarrow> string set" where
  "digests_from u d base h legs token used visited =
    {rt_digest \<lparr>rt_universe_sha256 = d, rt_legs = legs @ rest\<rparr> | rest.
      completes u base token used visited rest \<and> MIN_ROUTE_HOPS \<le> length (legs @ rest) \<and> length (legs @ rest) \<le> h}"

lemma turn_records: "P \<and> S' = insert a S \<Longrightarrow> X \<subseteq> {a} \<Longrightarrow> P \<and> S \<union> X \<subseteq> S'" by blast
lemma turn_descends: "P \<and> S \<union> D \<subseteq> S' \<Longrightarrow> X \<subseteq> D \<Longrightarrow> P \<and> S \<union> X \<subseteq> S'" by blast

lemma visit_ok:
  assumes adj: "\<And>t. set (legs_from adj t) = {l. rl_token_in l = t \<and> validate_leg u l = Inr ()}"
    and d: "pu_digest u = Inr d"
  shows "recorded_ok u d base h s \<Longrightarrow> extends_path u base legs token (set used) (set visited) \<Longrightarrow>
    visit u adj base h token legs used visited s = Inr s' \<Longrightarrow>
    recorded_ok u d base h s'
      \<and> set (en_digests s) \<union> digests_from u d base h legs token (set used) (set visited) \<subseteq> set (en_digests s')"
proof (induction "h - length legs" arbitrary: token legs used visited s s' rule: less_induct)
  case less
  show ?case
  proof (cases "h \<le> length legs")
    case True
    have "h < length (legs @ rest)" if "completes u base token (set used) (set visited) rest" for rest
      using that True by (cases rest) auto
    then have "digests_from u d base h legs token (set used) (set visited) = {}"
      unfolding digests_from_def using not_le by blast
    then show ?thesis using less.prems True by (simp add: visit_unfold)
  next
    case False
    let ?A = "\<lambda>l. {rt_digest \<lparr>rt_universe_sha256 = d, rt_legs = legs @ l # rest\<rparr> | rest.
      completes u base token (set used) (set visited) (l # rest) \<and> MIN_ROUTE_HOPS \<le> length (legs @ l # rest)
      \<and> length (legs @ l # rest) \<le> h}"
    have turn: "recorded_ok u d base h t' \<and> set (en_digests t) \<union> ?A l \<subseteq> set (en_digests t')"
      if l: "l \<in> set (legs_from adj token)" and t: "recorded_ok u d base h t"
        and t': "visit_leg u adj base h legs used visited t l = Inr t'" for t l t'
    proof -
      let ?t = "t\<lparr>en_steps := Suc (en_steps t)\<rparr>" and ?next = "rl_token_out l"
      have valid: "rl_token_in l = token" "validate_leg u l = Inr ()" using l by (simp_all add: adj)
      have tick: "recorded_ok u d base h ?t" using t by (simp add: recorded_ok_def)
      consider (skip) "t' = ?t" "?A l = {}"
        | (close) r where "?next = base" "rl_pool_address l \<notin> set used" "MIN_ROUTE_HOPS \<le> length (legs @ [l])"
            "ConstantProductRoute_post_init \<lparr>rt_universe_sha256 = d, rt_legs = legs @ [l]\<rparr> = Inr r"
            "record_route r ?t = Inr t'"
        | (deeper) "?next \<noteq> base" "rl_pool_address l \<notin> set used" "?next \<notin> set visited"
            "visit u adj base h ?next (legs @ [l]) (rl_pool_address l # used) (?next # visited) ?t = Inr t'"
        using t' d by (auto simp: visit_leg_def Let_def split: if_splits)
      then show ?thesis
      proof cases
        case skip
        show ?thesis unfolding skip(2) using tick by (simp add: skip(1))
      next
        case close
        have r: "r = \<lparr>rt_universe_sha256 = d, rt_legs = legs @ [l]\<rparr>" by (rule route_post_init_Inr [OF close(4)])
        have "completes u base token (set used) (set visited) [l]" using valid close by simp
        then have "completes u base base {} {base} (legs @ [l])" using less.prems(2) unfolding extends_path_def by blast
        then have cycle: "cycle_of u d base h r" using close(3) False by (simp add: cycle_of_def r)
        have "recorded_ok u d base h t' \<and> set (en_digests t') = insert (rt_digest r) (set (en_digests t))"
          using record_route_ok [OF tick cycle close(5)] by simp
        moreover have "?A l \<subseteq> {rt_digest r}" using close(1) by (auto simp: r)
        ultimately show ?thesis by (rule turn_records)
      next
        case deeper
        have "extends_path u base (legs @ [l]) ?next (set (rl_pool_address l # used)) (set (?next # visited))"
          by (rule extends_path_leg [OF less.prems(2) valid]) (use deeper in simp_all)
        then have "recorded_ok u d base h t' \<and> set (en_digests t)
            \<union> digests_from u d base h (legs @ [l]) ?next (set (rl_pool_address l # used)) (set (?next # visited))
          \<subseteq> set (en_digests t')"
          using less.hyps [OF _ tick _ deeper(4)] False by simp
        moreover have "?A l
          \<subseteq> digests_from u d base h (legs @ [l]) ?next (set (rl_pool_address l # used)) (set (?next # visited))"
          using deeper(1) by (auto simp: digests_from_def)
        ultimately show ?thesis by (rule turn_descends)
      qed
    qed
    have fold: "rfold (visit_leg u adj base h legs used visited) s (legs_from adj token) = Inr s'"
      using less.prems(3) False by (simp add: visit_unfold)
    have all: "recorded_ok u d base h s'
        \<and> set (en_digests s) \<union> (\<Union>l \<in> set (legs_from adj token). ?A l) \<subseteq> set (en_digests s')"
      by (rule rfold_collects [where D = "\<lambda>s. set (en_digests s)" and A = ?A, OF turn fold less.prems(1)])
    have "digests_from u d base h legs token (set used) (set visited) \<subseteq> (\<Union>l \<in> set (legs_from adj token). ?A l)"
    proof
      fix x assume "x \<in> digests_from u d base h legs token (set used) (set visited)"
      then obtain rest where x: "x = rt_digest \<lparr>rt_universe_sha256 = d, rt_legs = legs @ rest\<rparr>"
        and rest: "completes u base token (set used) (set visited) rest" "MIN_ROUTE_HOPS \<le> length (legs @ rest)"
          "length (legs @ rest) \<le> h" by (auto simp: digests_from_def)
      obtain l ls where ls: "rest = l # ls" using rest(1) by (cases rest) auto
      then have "l \<in> set (legs_from adj token)" using rest(1) by (simp add: adj)
      then show "x \<in> (\<Union>l \<in> set (legs_from adj token). ?A l)" using x rest ls by blast
    qed
    then show ?thesis by (rule turn_descends [OF all])
  qed
qed


text \<open>The routes of a universe from a base token, at most \<open>h\<close> hops long.\<close>

definition cyclic_routes :: "pool_universe \<Rightarrow> bytes \<Rightarrow> nat \<Rightarrow> cp_route set" where
  "cyclic_routes u base h =
    {r. route_ok r \<and> route_validate_against r u = Inr () \<and> rt_base_token r = base \<and> length (rt_legs r) \<le> h}"

lemma cyclic_routes_eq:
  assumes "universe_wf u" "pu_digest u = Inr d" "h \<le> MAX_ROUTE_HOPS"
  shows "cyclic_routes u base h = {r. cycle_of u d base h r}"
proof -
  have "r \<in> cyclic_routes u base h \<longleftrightarrow> cycle_of u d base h r" for r
    unfolding cyclic_routes_def cycle_of_def mem_Collect_eq
    using cyclic_route_iff [OF assms(1,2), of r base] assms(3) by linarith
  then show ?thesis by blast
qed

lemma distinct_map_sort_key: "distinct (map f (sort_key g xs)) \<longleftrightarrow> distinct (map f xs)"
  using mset_eq_imp_distinct_iff [of "map f (sort_key g xs)" "map f xs"] by simp

lemma enumerate_simple_cycles_exact:
  assumes wf: "universe_wf u" and d: "pu_digest u = Inr d"
    and run: "enumerate_simple_cycles u base h = Inr routes"
  shows "set routes \<subseteq> cyclic_routes u base h \<and> rt_digest ` set routes = rt_digest ` cyclic_routes u base h
    \<and> sorted_wrt (<) (map rt_digest routes) \<and> length routes \<le> MAX_ENUMERATED_ROUTES"
proof -
  from run obtain adj state where h: "h \<le> MAX_ROUTE_HOPS" and adj: "build_adjacency u = Inr adj"
    and visit: "visit u adj base h base [] [] [base] \<lparr>en_steps = 0, en_digests = [], en_routes = []\<rparr> = Inr state"
    and routes: "routes = sort_key rt_digest (en_routes state)"
    by (auto simp: enumerate_simple_cycles_def split: if_splits)
  note eq = cyclic_routes_eq [OF wf d h]
  have "recorded_ok u d base h state \<and>
      set (en_digests \<lparr>en_steps = 0, en_digests = [], en_routes = []\<rparr>)
        \<union> digests_from u d base h [] base (set []) (set [base]) \<subseteq> set (en_digests state)"
    by (rule visit_ok [OF adjacency_legs [OF wf adj] d _ _ visit]) (simp_all add: recorded_ok_def extends_path_def)
  then have rec: "recorded_ok u d base h state" and all: "digests_from u d base h [] base {} {base} \<subseteq> set (en_digests state)"
    by simp_all
  have sub: "set routes \<subseteq> cyclic_routes u base h" using rec by (auto simp: eq routes recorded_ok_def)
  have "rt_digest ` cyclic_routes u base h \<subseteq> rt_digest ` set routes"
  proof
    fix x assume "x \<in> rt_digest ` cyclic_routes u base h"
    then obtain r where r: "x = rt_digest r" "cycle_of u d base h r" by (auto simp: eq)
    have "r = \<lparr>rt_universe_sha256 = d, rt_legs = [] @ rt_legs r\<rparr>" using r(2) by (cases r) (simp add: cycle_of_def)
    then have x: "x = rt_digest \<lparr>rt_universe_sha256 = d, rt_legs = [] @ rt_legs r\<rparr>" using r(1) by metis
    then have "x \<in> digests_from u d base h [] base {} {base}"
      unfolding digests_from_def mem_Collect_eq using r(2)
      by (intro exI [of _ "rt_legs r"] conjI x) (auto simp: cycle_of_def)
    then have "x \<in> set (en_digests state)" using all by blast
    then show "x \<in> rt_digest ` set routes" using rec by (simp add: recorded_ok_def routes)
  qed
  then have "rt_digest ` set routes = rt_digest ` cyclic_routes u base h" using sub by blast
  moreover have "sorted_wrt (<) (map rt_digest routes)"
    unfolding routes strict_sorted_iff using rec by (simp add: recorded_ok_def distinct_map_sort_key)
  moreover have "length routes \<le> MAX_ENUMERATED_ROUTES" using rec by (simp add: recorded_ok_def routes)
  ultimately show ?thesis using sub by blast
qed

subsection \<open>The enumeration fails only at its ceilings\<close>

definition STEPS_CEILING :: py_error where
  "STEPS_CEILING = ValueError ''route enumeration work exceeds the governed ceiling''"
definition ROUTES_CEILING :: py_error where
  "ROUTES_CEILING = ValueError ''route count exceeds the governed ceiling''"

lemma rfold_InlD: "rfold f s xs = Inl e \<Longrightarrow> \<exists>t. \<exists>x \<in> set xs. f t x = Inl e"
proof (induction xs arbitrary: s)
  case (Cons x xs)
  then show ?case by (auto simp: rbind_eq_Inl) metis
qed simp

lemma visit_Inl:
  assumes wf: "universe_wf u" and d: "pu_digest u = Inr d" and h: "h \<le> MAX_ROUTE_HOPS"
    and adj: "\<And>t. set (legs_from adj t) = {l. rl_token_in l = t \<and> validate_leg u l = Inr ()}"
  shows "extends_path u base legs token (set used) (set visited) \<Longrightarrow>
    visit u adj base h token legs used visited s = Inl e \<Longrightarrow> e = STEPS_CEILING \<or> e = ROUTES_CEILING"
proof (induction "h - length legs" arbitrary: token legs used visited s rule: less_induct)
  case less
  from less.prems(2) have deep: "length legs < h"
    and fold: "rfold (visit_leg u adj base h legs used visited) s (legs_from adj token) = Inl e"
    by (auto simp: visit_unfold split: if_splits)
  obtain t l where l: "l \<in> set (legs_from adj token)" and t: "visit_leg u adj base h legs used visited t l = Inl e"
    using rfold_InlD [OF fold] by blast
  have valid: "rl_token_in l = token" "validate_leg u l = Inr ()" using l by (simp_all add: adj)
  let ?t = "t\<lparr>en_steps := Suc (en_steps t)\<rparr>" and ?next = "rl_token_out l"
  let ?r = "\<lparr>rt_universe_sha256 = d, rt_legs = legs @ [l]\<rparr>"
  consider (steps) "e = STEPS_CEILING"
    | (close) "?next = base" "rl_pool_address l \<notin> set used" "MIN_ROUTE_HOPS \<le> length (legs @ [l])"
        "rbind (ConstantProductRoute_post_init ?r) (\<lambda>r. record_route r ?t) = Inl e"
    | (deeper) "?next \<noteq> base" "rl_pool_address l \<notin> set used" "?next \<notin> set visited"
        "visit u adj base h ?next (legs @ [l]) (rl_pool_address l # used) (?next # visited) ?t = Inl e"
    using t d by (auto simp: visit_leg_def Let_def STEPS_CEILING_def split: if_splits)
  then show ?case
  proof cases
    case close
    have "completes u base token (set used) (set visited) [l]" using valid close by simp
    then have path: "completes u base base {} {base} (legs @ [l])"
      using less.prems(1) unfolding extends_path_def by blast
    have "cycle_of u d base h ?r" using path close(3) deep by (simp add: cycle_of_def)
    then have "route_ok ?r" using cyclic_routes_eq [OF wf d h, of base] by (auto simp: cyclic_routes_def)
    then have "record_route ?r ?t = Inl e" using close(4) by (simp add: route_ok_def)
    then show ?thesis by (auto simp: record_route_def ROUTES_CEILING_def Let_def split: if_splits)
  next
    case deeper
    have "extends_path u base (legs @ [l]) ?next (set (rl_pool_address l # used)) (set (?next # visited))"
      by (rule extends_path_leg [OF less.prems(1) valid]) (use deeper in simp_all)
    then show ?thesis using less.hyps [OF _ _ deeper(4)] deep by simp
  qed simp
qed

lemma enumerate_simple_cycles_errors:
  assumes wf: "universe_wf u" and d: "pu_digest u = Inr d" and base: "length base = 20" "base \<noteq> zero_bytes 20"
    and h: "MIN_ROUTE_HOPS \<le> h" "h \<le> MAX_ROUTE_HOPS"
    and fails: "enumerate_simple_cycles u base h = Inl e"
  shows "e = STEPS_CEILING \<or> e = ROUTES_CEILING"
proof -
  obtain adj where adj: "build_adjacency u = Inr adj" using build_adjacency_total [OF wf] by blast
  then have "visit u adj base h base [] [] [base] \<lparr>en_steps = 0, en_digests = [], en_routes = []\<rparr> = Inl e"
    using fails base h by (simp add: enumerate_simple_cycles_def require_address_def rbind_eq_Inl)
  then show ?thesis
    by (rule visit_Inl [OF wf d h(2) adjacency_legs [OF wf adj], rotated]) (simp add: extends_path_def)
qed

end
