(* ===== verification/Heapq.thy ===== *)
theory Heapq
  imports Prelude
begin

text \<open>
  Python's \<open>heapq\<close> as its users see it: \<open>heappush\<close> adds an item and \<open>heappop\<close> removes the
  smallest one. The heap is kept as an ascending list, so the items come out in the order the
  library documents. The locale \<open>min_queue\<close> states what the optimiser relies on.
\<close>

definition heappush :: "'a::linorder \<Rightarrow> 'a list \<Rightarrow> 'a list" where
  "heappush item heap = insort item heap"

fun heappop :: "'a list \<Rightarrow> ('a \<times> 'a list) option" where
  "heappop [] = None"
| "heappop (item # heap) = Some (item, heap)"

locale min_queue =
  fixes push :: "'a::linorder \<Rightarrow> 'q \<Rightarrow> 'q"
    and pop :: "'q \<Rightarrow> ('a \<times> 'q) option"
    and items :: "'q \<Rightarrow> 'a set"
    and wf :: "'q \<Rightarrow> bool"
  assumes items_push: "items (push x q) = insert x (items q)"
    and items_pop: "pop q = Some (x, q') \<Longrightarrow> items q = insert x (items q')"
    and pop_min: "wf q \<Longrightarrow> pop q = Some (x, q') \<Longrightarrow> y \<in> items q \<Longrightarrow> x \<le> y"
    and pop_None: "pop q = None \<longleftrightarrow> items q = {}"
    and wf_push: "wf q \<Longrightarrow> wf (push x q)"
    and wf_pop: "wf q \<Longrightarrow> pop q = Some (x, q') \<Longrightarrow> wf q'"
begin

lemma popped_items: "pop q = Some (x, q') \<Longrightarrow> x \<in> items q \<and> items q' \<subseteq> items q"
  by (auto dest: items_pop)

text \<open>Items leave in ascending order: what is popped next is no smaller.\<close>

lemma pops_ascend: "wf q \<Longrightarrow> pop q = Some (x, q') \<Longrightarrow> pop q' = Some (y, q'') \<Longrightarrow> x \<le> y"
  using pop_min popped_items by blast

text \<open>What is pushed between two pops comes next if it is smaller than all that waits.\<close>

lemma pop_push: "wf q \<Longrightarrow> pop (push x q) = Some (y, q') \<Longrightarrow> y \<le> x"
  using pop_min [of "push x q" y q' x] by (simp add: items_push wf_push)

end

interpretation heap: min_queue heappush heappop set sorted
proof
  show "heappop q = Some (x, q') \<Longrightarrow> set q = insert x (set q')" for q q' :: "'a list" and x
    by (cases q) auto
  show "sorted q \<Longrightarrow> heappop q = Some (x, q') \<Longrightarrow> y \<in> set q \<Longrightarrow> x \<le> y" for q q' :: "'a list" and x y
    by (cases q) auto
  show "heappop q = None \<longleftrightarrow> set q = {}" for q :: "'a list"
    by (cases q) auto
  show "sorted q \<Longrightarrow> heappop q = Some (x, q') \<Longrightarrow> sorted q'" for q q' :: "'a list" and x
    by (cases q) auto
qed (simp_all add: heappush_def set_insort_key sorted_insort)

end
