(* ===== verification/Optimizer.thy ===== *)
theory Optimizer
  imports Route_Search Heapq
begin

text \<open>
  \<open>src/aladdin_mev_engine/optimizer.py\<close>: the governed limits, the result record with its
  consistency checks, the continuous bound of an interval, and the branch-and-bound search
  \<open>optimize_route\<close> over a priority queue of intervals.
\<close>

definition MAX_OPTIMIZER_INTERVALS :: int where "MAX_OPTIMIZER_INTERVALS = 1000000"
definition MAX_EXHAUSTIVE_THRESHOLD :: int where "MAX_EXHAUSTIVE_THRESHOLD = 4096"
definition MAX_OPTIMIZER_WORK_UNITS :: int where "MAX_OPTIMIZER_WORK_UNITS = 1000000"
definition OPTIMIZATION_SCHEMA :: string where
  "OPTIMIZATION_SCHEMA = ''aladdin-mev-route-optimization/v1''"

datatype optimization_status =
    COMPLETE
  | NO_VALID_INPUT
  | NO_POSITIVE_CONTINUOUS_EDGE
  | NO_POSITIVE_EXACT_PROFIT
  | BUDGET_EXHAUSTED

fun optimization_status_value :: "optimization_status \<Rightarrow> string" where
  "optimization_status_value COMPLETE = ''complete''"
| "optimization_status_value NO_VALID_INPUT = ''no-valid-input''"
| "optimization_status_value NO_POSITIVE_CONTINUOUS_EDGE = ''no-positive-continuous-edge''"
| "optimization_status_value NO_POSITIVE_EXACT_PROFIT = ''no-positive-exact-profit''"
| "optimization_status_value BUDGET_EXHAUSTED = ''budget-exhausted''"

subsection \<open>Limits\<close>

record optimization_limits =
  ol_maximum_input :: int
  ol_maximum_intervals :: int
  ol_exhaustive_threshold :: int

definition maximum_work_units :: "optimization_limits \<Rightarrow> int" where
  "maximum_work_units self = ol_maximum_intervals self * (ol_exhaustive_threshold self + 1)"

definition OptimizationLimits_to_json :: "optimization_limits \<Rightarrow> json" where
  "OptimizationLimits_to_json self = JObj
    [(''maximum_input'', JStr (str_of_int (ol_maximum_input self))),
     (''maximum_intervals'', JStr (str_of_int (ol_maximum_intervals self))),
     (''exhaustive_threshold'', JStr (str_of_int (ol_exhaustive_threshold self)))]"

definition OptimizationLimits_post_init :: "optimization_limits \<Rightarrow> optimization_limits result" where
  "OptimizationLimits_post_init self =
    (if ol_maximum_input self \<le> 0 \<or> MAX_UINT256 < ol_maximum_input self
     then Inl (ValueError ''maximum_input must be a positive uint256 exact integer'')
     else if \<not> (1 \<le> ol_maximum_intervals self \<and> ol_maximum_intervals self \<le> MAX_OPTIMIZER_INTERVALS)
     then Inl (ValueError ''maximum_intervals is outside the governed range'')
     else if \<not> (1 \<le> ol_exhaustive_threshold self \<and> ol_exhaustive_threshold self \<le> MAX_EXHAUSTIVE_THRESHOLD)
     then Inl (ValueError ''exhaustive_threshold is outside the governed range'')
     else if MAX_OPTIMIZER_WORK_UNITS < maximum_work_units self
     then Inl (ValueError ''optimizer work budget exceeds the governed ceiling'')
     else rbind (canonical_json_bytes (OptimizationLimits_to_json self)) (\<lambda>_. Inr self))"

definition ol_digest :: "optimization_limits \<Rightarrow> string" where
  "ol_digest self = json_sha256 (OptimizationLimits_to_json self)"

subsection \<open>Results\<close>

record optimization_result =
  or_route_sha256 :: string
  or_status :: optimization_status
  or_complete :: bool
  or_effective_maximum_input :: int
  or_amount_in :: int
  or_amount_out :: int
  or_gross_profit :: int
  or_evaluated_inputs :: int
  or_explored_intervals :: int
  or_pruned_intervals :: int
  or_continuous_upper_bound :: int
  or_limits :: optimization_limits
  or_schema :: string

definition OptimizationResult_to_json :: "optimization_result \<Rightarrow> json" where
  "OptimizationResult_to_json self = JObj
    [(''schema'', JStr (or_schema self)),
     (''route_sha256'', JStr (or_route_sha256 self)),
     (''status'', JStr (optimization_status_value (or_status self))),
     (''complete'', JBool (or_complete self)),
     (''effective_maximum_input'', JStr (str_of_int (or_effective_maximum_input self))),
     (''amount_in'', JStr (str_of_int (or_amount_in self))),
     (''amount_out'', JStr (str_of_int (or_amount_out self))),
     (''gross_profit'', JStr (str_of_int (or_gross_profit self))),
     (''evaluated_inputs'', JStr (str_of_int (or_evaluated_inputs self))),
     (''explored_intervals'', JStr (str_of_int (or_explored_intervals self))),
     (''pruned_intervals'', JStr (str_of_int (or_pruned_intervals self))),
     (''continuous_upper_bound'', JStr (str_of_int (or_continuous_upper_bound self))),
     (''limits'', OptimizationLimits_to_json (or_limits self))]"

text \<open>The checks of \<open>__post_init__\<close> that depend on the status.\<close>

definition optimization_authority :: "optimization_result \<Rightarrow> unit result" where
  "optimization_authority self =
    (case or_status self of
       COMPLETE \<Rightarrow>
         if \<not> or_complete self \<or> or_amount_in self \<le> 0 \<or> or_gross_profit self \<le> 0
         then Inl (ValueError ''complete optimization requires a positive exact winner'') else Inr ()
     | BUDGET_EXHAUSTED \<Rightarrow>
         if or_complete self \<or> or_effective_maximum_input self = 0 \<or> or_amount_in self \<noteq> 0
           \<or> or_amount_out self \<noteq> 0 \<or> or_gross_profit self \<noteq> 0
           \<or> or_explored_intervals self \<noteq> ol_maximum_intervals (or_limits self)
           \<or> or_continuous_upper_bound self = 0
         then Inl (ValueError ''budget-exhausted optimization has inconsistent authority'') else Inr ()
     | status \<Rightarrow>
         if \<not> or_complete self
         then Inl (ValueError ''only budget-exhausted optimization may be incomplete'')
         else if or_amount_in self \<noteq> 0 \<or> or_amount_out self \<noteq> 0 \<or> or_gross_profit self \<noteq> 0
         then Inl (ValueError ''no-winner optimization status cannot carry a winner'')
         else if status = NO_VALID_INPUT then
           (if or_effective_maximum_input self \<noteq> 0 \<or> or_evaluated_inputs self \<noteq> 0
              \<or> or_explored_intervals self \<noteq> 0 \<or> or_pruned_intervals self \<noteq> 0
              \<or> or_continuous_upper_bound self \<noteq> 0
            then Inl (ValueError ''no-valid-input result has inconsistent authority'') else Inr ())
         else if status = NO_POSITIVE_CONTINUOUS_EDGE then
           (if or_effective_maximum_input self = 0 \<or> or_evaluated_inputs self \<noteq> 0
              \<or> or_explored_intervals self \<noteq> 0 \<or> or_pruned_intervals self \<noteq> 0
              \<or> or_continuous_upper_bound self \<noteq> 0
            then Inl (ValueError ''no-positive-continuous-edge result has inconsistent authority'') else Inr ())
         else
           (if or_effective_maximum_input self = 0 \<or> or_evaluated_inputs self = 0
              \<or> or_explored_intervals self = 0 \<or> or_continuous_upper_bound self = 0
            then Inl (ValueError ''no-positive-exact-profit result has inconsistent authority'') else Inr ()))"

definition OptimizationResult_post_init :: "optimization_result \<Rightarrow> optimization_result result" where
  "OptimizationResult_post_init self =
    (if or_schema self \<noteq> OPTIMIZATION_SCHEMA then Inl (ValueError ''unsupported route-optimization schema'')
     else if length (or_route_sha256 self) \<noteq> 64
       \<or> list_ex (\<lambda>char. char \<notin> set ''0123456789abcdef'') (or_route_sha256 self)
     then Inl (ValueError ''route_sha256 must be a canonical SHA-256 digest'')
     else
     rbind (rall (\<lambda>(name, value).
         if value < 0 then Inl (ValueError (name @ '' must be a non-negative exact integer'')) else Inr ())
       [(''effective_maximum_input'', or_effective_maximum_input self), (''amount_in'', or_amount_in self),
        (''amount_out'', or_amount_out self), (''evaluated_inputs'', or_evaluated_inputs self),
        (''explored_intervals'', or_explored_intervals self), (''pruned_intervals'', or_pruned_intervals self),
        (''continuous_upper_bound'', or_continuous_upper_bound self)]) (\<lambda>_.
     rbind (rall (\<lambda>(name, value).
         if MAX_UINT256 < value then Inl (ValueError (name @ '' exceeds uint256'')) else Inr ())
       [(''effective_maximum_input'', or_effective_maximum_input self), (''amount_in'', or_amount_in self),
        (''amount_out'', or_amount_out self)]) (\<lambda>_.
     if \<not> (- MAX_UINT256 \<le> or_gross_profit self \<and> or_gross_profit self \<le> MAX_UINT256)
     then Inl (ValueError ''gross_profit exceeds the governed signed uint256 range'')
     else if MAX_UINT256 < or_continuous_upper_bound self
     then Inl (ValueError ''continuous_upper_bound exceeds uint256'')
     else if ol_maximum_input (or_limits self) < or_effective_maximum_input self
     then Inl (ValueError ''effective maximum exceeds the requested maximum'')
     else if ol_maximum_intervals (or_limits self) < or_explored_intervals self
     then Inl (ValueError ''explored_intervals exceeds the governed interval budget'')
     else if maximum_work_units (or_limits self) < or_evaluated_inputs self
     then Inl (ValueError ''evaluated_inputs exceeds the governed work budget'')
     else if or_explored_intervals self * ol_exhaustive_threshold (or_limits self) < or_evaluated_inputs self
     then Inl (ValueError ''evaluated_inputs exceeds explored exhaustive work'')
     else if 2 * or_explored_intervals self + 1 < or_pruned_intervals self
     then Inl (ValueError ''pruned_intervals exceeds the governed tree bound'')
     else if or_effective_maximum_input self < or_amount_in self
     then Inl (ValueError ''winning amount exceeds the effective maximum'')
     else if or_continuous_upper_bound self < max (or_gross_profit self) 0
     then Inl (ValueError ''continuous_upper_bound understates claimed exact profit'')
     else if or_amount_in self = 0 \<and> (or_amount_out self \<noteq> 0 \<or> or_gross_profit self \<noteq> 0)
     then Inl (ValueError ''zero-input optimization result must have zero output/profit'')
     else if or_amount_in self \<noteq> 0 \<and> or_gross_profit self \<noteq> or_amount_out self - or_amount_in self
     then Inl (ValueError ''optimization profit does not reconcile'')
     else
     rbind (optimization_authority self) (\<lambda>_.
     rbind (canonical_json_bytes (OptimizationResult_to_json self)) (\<lambda>_. Inr self)))))"

definition or_digest :: "optimization_result \<Rightarrow> string" where
  "or_digest self = json_sha256 (OptimizationResult_to_json self)"

subsection \<open>The continuous bound of an interval\<close>

definition ceil_div :: "int \<Rightarrow> int \<Rightarrow> int result" where
  "ceil_div numerator denominator =
    (if denominator \<le> 0 then Inl (ValueError ''denominator must be positive'')
     else Inr (- ((- numerator) div denominator)))"

definition endpoint_upper :: "int \<Rightarrow> int \<Rightarrow> int \<Rightarrow> int \<Rightarrow> int result" where
  "endpoint_upper a b c v =
    (let denominator = b + c * v; numerator = a * v - v * denominator in ceil_div numerator denominator)"

definition interval_continuous_upper :: "int \<Rightarrow> int \<Rightarrow> int \<Rightarrow> int \<Rightarrow> int \<Rightarrow> int result" where
  "interval_continuous_upper a b c lower upper =
    (if a \<le> 0 \<or> b \<le> 0 \<or> c \<le> 0 \<or> lower \<le> 0 \<or> upper < lower
     then Inl (ValueError ''continuous-bound inputs are outside the governed domain'')
     else
       let ab = a * b; lower_denominator = b + c * lower; upper_denominator = b + c * upper in
       if ab \<le> lower_denominator * lower_denominator then endpoint_upper a b c lower
       else if upper_denominator * upper_denominator \<le> ab then endpoint_upper a b c upper
       else
         let root_floor = isqrt ab; numerator_upper = a + b - 2 * root_floor in
         ceil_div numerator_upper c)"

definition governed_interval_continuous_upper :: "int \<Rightarrow> int \<Rightarrow> int \<Rightarrow> int \<Rightarrow> int \<Rightarrow> int result" where
  "governed_interval_continuous_upper a b c lower upper =
    rbind (interval_continuous_upper a b c lower upper) (\<lambda>bound. Inr (min bound MAX_UINT256))"

definition can_interval_beat :: "int \<Rightarrow> int \<Rightarrow> int \<Rightarrow> int \<Rightarrow> bool" where
  "can_interval_beat bound lower best_profit best_input =
    (if best_profit < bound then True
     else if bound < best_profit then False
     else if best_profit \<le> 0 \<or> best_input = 0 then 0 < bound
     else lower < best_input)"

subsection \<open>The search\<close>

definition empty_result :: "cp_route \<Rightarrow> optimization_limits \<Rightarrow> optimization_status \<Rightarrow> int \<Rightarrow> int \<Rightarrow> int \<Rightarrow> int
    \<Rightarrow> int \<Rightarrow> bool \<Rightarrow> optimization_result result" where
  "empty_result route limits status effective_maximum_input evaluated_inputs explored_intervals
      pruned_intervals continuous_upper_bound complete =
    OptimizationResult_post_init
      \<lparr>or_route_sha256 = rt_digest route, or_status = status, or_complete = complete,
       or_effective_maximum_input = effective_maximum_input, or_amount_in = 0, or_amount_out = 0,
       or_gross_profit = 0, or_evaluated_inputs = evaluated_inputs,
       or_explored_intervals = explored_intervals, or_pruned_intervals = pruned_intervals,
       or_continuous_upper_bound = max continuous_upper_bound 0, or_limits = limits,
       or_schema = OPTIMIZATION_SCHEMA\<rparr>"

text \<open>The variables of the loop; the queue holds \<open>(-bound, lower, upper)\<close>.\<close>

type_synonym interval = "int \<times> int \<times> int"

record search =
  se_queue :: "interval list"
  se_best_profit :: int
  se_best_input :: int
  se_best_output :: int
  se_evaluated_inputs :: int
  se_explored_intervals :: int
  se_pruned_intervals :: int

text \<open>One amount of an interval that is searched exhaustively.\<close>

definition evaluate_amount :: "pool_universe \<Rightarrow> cp_route \<Rightarrow> search \<Rightarrow> int \<Rightarrow> search result" where
  "evaluate_amount universe route state amount =
    rbind (route_quote_exact_in route universe amount) (\<lambda>quote.
    let state = state\<lparr>se_evaluated_inputs := se_evaluated_inputs state + 1\<rparr>;
        profit = rq_gross_profit quote in
    if se_best_profit state < profit
      \<or> profit = se_best_profit state \<and> 0 < profit \<and> (se_best_input state = 0 \<or> amount < se_best_input state)
    then Inr (state\<lparr>se_best_profit := profit, se_best_input := amount, se_best_output := rq_amount_out quote\<rparr>)
    else Inr state)"

text \<open>One half of an interval that is split.\<close>

definition push_child :: "int \<times> int \<times> int \<Rightarrow> search \<Rightarrow> int \<times> int \<Rightarrow> search result" where
  "push_child abc state child =
    (case (abc, child) of ((a, b, c), (child_lower, child_upper)) \<Rightarrow>
     rbind (governed_interval_continuous_upper a b c child_lower child_upper) (\<lambda>child_bound.
     if can_interval_beat child_bound child_lower (se_best_profit state) (se_best_input state)
     then Inr (state\<lparr>se_queue := heappush (- child_bound, child_lower, child_upper) (se_queue state)\<rparr>)
     else Inr (state\<lparr>se_pruned_intervals := se_pruned_intervals state + 1\<rparr>)))"

text \<open>The turn of the loop for the interval that was popped.\<close>

definition explore :: "pool_universe \<Rightarrow> cp_route \<Rightarrow> optimization_limits \<Rightarrow> int \<times> int \<times> int \<Rightarrow> interval \<Rightarrow> search
    \<Rightarrow> search result" where
  "explore universe route limits abc interval state =
    (case interval of (negative_bound, lower, upper) \<Rightarrow>
     let bound = - negative_bound;
         state = state\<lparr>se_explored_intervals := se_explored_intervals state + 1\<rparr> in
     if \<not> can_interval_beat bound lower (se_best_profit state) (se_best_input state)
     then Inr (state\<lparr>se_pruned_intervals := se_pruned_intervals state + 1\<rparr>)
     else if upper - lower + 1 \<le> ol_exhaustive_threshold limits
     then rfold (evaluate_amount universe route) state [lower..upper]
     else let middle = (lower + upper) div 2 in
       rfold (push_child abc) state [(lower, middle), (middle + 1, upper)])"

lemma evaluate_explored: "evaluate_amount u r s x = Inr s' \<Longrightarrow> se_explored_intervals s' = se_explored_intervals s"
  by (auto simp: evaluate_amount_def Let_def split: if_splits)

lemma evaluate_all_explored:
  "rfold (evaluate_amount u r) s xs = Inr s' \<Longrightarrow> se_explored_intervals s' = se_explored_intervals s"
  by (induction xs arbitrary: s) (auto dest: evaluate_explored)

lemma push_explored: "push_child abc s iv = Inr s' \<Longrightarrow> se_explored_intervals s' = se_explored_intervals s"
  by (auto simp: push_child_def split: if_splits prod.splits)

lemma explore_explored:
  "explore u r limits abc iv s = Inr s' \<Longrightarrow> se_explored_intervals s' = se_explored_intervals s + 1"
  by (auto simp: explore_def Let_def dest!: evaluate_all_explored push_explored split: if_splits prod.splits)

text \<open>
  The \<open>while queue\<close> loop: \<open>True\<close> with the final variables when the queue is empty, \<open>False\<close> when
  the budget of intervals is exhausted first.
\<close>

function search_intervals :: "pool_universe \<Rightarrow> cp_route \<Rightarrow> optimization_limits \<Rightarrow> int \<times> int \<times> int \<Rightarrow> search
    \<Rightarrow> (bool \<times> search) result" where
  "search_intervals universe route limits abc state =
    (case heappop (se_queue state) of
       None \<Rightarrow> Inr (True, state)
     | Some (interval, rest) \<Rightarrow>
         if ol_maximum_intervals limits \<le> se_explored_intervals state then Inr (False, state)
         else rbind (explore universe route limits abc interval (state\<lparr>se_queue := rest\<rparr>)) (\<lambda>state'.
              search_intervals universe route limits abc state'))"
  by pat_completeness auto
termination search_intervals
proof (relation "measure (\<lambda>(_, _, limits, _, state). nat (ol_maximum_intervals limits - se_explored_intervals state))")
  fix u r limits abc state pop interval rest state'
  assume less: "\<not> ol_maximum_intervals limits \<le> se_explored_intervals state"
    and step: "explore u r limits abc interval (state\<lparr>se_queue := rest\<rparr>) = Inr state'"
  have "se_explored_intervals state' = se_explored_intervals state + 1"
    using explore_explored [OF step] by simp
  then show "((u, r, limits, abc, state'), u, r, limits, abc, state)
      \<in> measure (\<lambda>(_, _, limits, _, state). nat (ol_maximum_intervals limits - se_explored_intervals state))"
    using less by simp
qed simp

declare search_intervals.simps [simp del]

definition optimize_route :: "pool_universe \<Rightarrow> cp_route \<Rightarrow> optimization_limits \<Rightarrow> optimization_result result" where
  "optimize_route universe route limits =
    rbind (route_validate_against route universe) (\<lambda>_.
    rbind (route_maximum_safe_input route universe (ol_maximum_input limits)) (\<lambda>effective_maximum.
    if effective_maximum = 0 then empty_result route limits NO_VALID_INPUT 0 0 0 0 0 True
    else
    rbind (continuous_coefficients route universe) (\<lambda>(a, b, c).
    if a \<le> b then empty_result route limits NO_POSITIVE_CONTINUOUS_EDGE effective_maximum 0 0 0 0 True
    else
    rbind (governed_interval_continuous_upper a b c 1 effective_maximum) (\<lambda>full_bound.
    if full_bound \<le> 0
    then empty_result route limits NO_POSITIVE_CONTINUOUS_EDGE effective_maximum 0 0 0 full_bound True
    else
    rbind (search_intervals universe route limits (a, b, c)
        \<lparr>se_queue = [(- full_bound, 1, effective_maximum)], se_best_profit = 0, se_best_input = 0,
         se_best_output = 0, se_evaluated_inputs = 0, se_explored_intervals = 0, se_pruned_intervals = 0\<rparr>)
      (\<lambda>(finished, state).
    if \<not> finished
    then empty_result route limits BUDGET_EXHAUSTED effective_maximum (se_evaluated_inputs state)
           (se_explored_intervals state) (se_pruned_intervals state) full_bound False
    else if se_best_profit state \<le> 0
    then empty_result route limits NO_POSITIVE_EXACT_PROFIT effective_maximum (se_evaluated_inputs state)
           (se_explored_intervals state) (se_pruned_intervals state) full_bound True
    else OptimizationResult_post_init
      \<lparr>or_route_sha256 = rt_digest route, or_status = COMPLETE, or_complete = True,
       or_effective_maximum_input = effective_maximum, or_amount_in = se_best_input state,
       or_amount_out = se_best_output state, or_gross_profit = se_best_profit state,
       or_evaluated_inputs = se_evaluated_inputs state, or_explored_intervals = se_explored_intervals state,
       or_pruned_intervals = se_pruned_intervals state, or_continuous_upper_bound = full_bound,
       or_limits = limits, or_schema = OPTIMIZATION_SCHEMA\<rparr>)))))"

end
