(* ===== verification/Branch_Bound.thy ===== *)
theory Branch_Bound
  imports Optimizer
begin

text \<open>
  The branch-and-bound search of optimizer.py finds the best input. The locale
  \<open>bounded_search\<close> states what the search needs of a problem (a bound that no exact profit
  exceeds, and a positive bound of every interval that starts at 1) and proves that skipping
  an interval that cannot beat the best input, splitting one and evaluating one lose nothing.
\<close>

subsection \<open>What may be ignored\<close>

text \<open>An amount is dominated when it would not replace the best input found so far.\<close>

definition dominated :: "(int \<Rightarrow> int) \<Rightarrow> int \<Rightarrow> int \<Rightarrow> int \<Rightarrow> bool" where
  "dominated p best_profit best_input x \<longleftrightarrow>
    p x \<le> 0 \<or> p x < best_profit \<or> p x = best_profit \<and> best_input \<le> x"

definition best_ok :: "(int \<Rightarrow> int) \<Rightarrow> int \<Rightarrow> int \<Rightarrow> int \<Rightarrow> bool" where
  "best_ok p most best_profit best_input \<longleftrightarrow>
    best_profit = 0 \<and> best_input = 0
    \<or> 1 \<le> best_input \<and> best_input \<le> most \<and> best_profit = p best_input \<and> 0 < best_profit"

text \<open>The update of the best input for one evaluated amount.\<close>

definition improves :: "int \<Rightarrow> int \<Rightarrow> int \<Rightarrow> int \<Rightarrow> bool" where
  "improves best_profit best_input profit amount \<longleftrightarrow>
    best_profit < profit \<or> profit = best_profit \<and> 0 < profit \<and> (best_input = 0 \<or> amount < best_input)"

lemma improve_ok:
  assumes "best_ok p most bp bi" "1 \<le> x" "x \<le> most" "improves bp bi (p x) x"
  shows "best_ok p most (p x) x" and "dominated p bp bi y \<Longrightarrow> dominated p (p x) x y" and "dominated p (p x) x x"
  using assms by (auto simp: best_ok_def improves_def dominated_def)

lemma not_improves: "best_ok p most bp bi \<Longrightarrow> \<not> improves bp bi (p x) x \<Longrightarrow> dominated p bp bi x"
  by (auto simp: best_ok_def improves_def dominated_def)

locale bounded_search =
  fixes valid :: "'c \<Rightarrow> bool"
    and profit :: "'c \<Rightarrow> int \<Rightarrow> int"
    and bound :: "'c \<Rightarrow> int \<Rightarrow> int \<Rightarrow> int"
    and most :: "'c \<Rightarrow> int"
  assumes bound_safe: "valid c \<Longrightarrow> 1 \<le> lo \<Longrightarrow> lo \<le> x \<Longrightarrow> x \<le> hi \<Longrightarrow> hi \<le> most c \<Longrightarrow> profit c x \<le> bound c lo hi"
    and first_bound: "valid c \<Longrightarrow> 1 \<le> hi \<Longrightarrow> hi \<le> most c \<Longrightarrow> 0 < bound c 1 hi"
begin

definition interval_ok :: "'c \<Rightarrow> interval \<Rightarrow> bool" where
  "interval_ok c iv \<longleftrightarrow>
    (case iv of (negative, lo, hi) \<Rightarrow> 1 \<le> lo \<and> lo \<le> hi \<and> hi \<le> most c \<and> negative = - bound c lo hi)"

definition covered :: "interval set \<Rightarrow> int \<Rightarrow> bool" where
  "covered Q x \<longleftrightarrow> (\<exists>(negative, lo, hi) \<in> Q. lo \<le> x \<and> x \<le> hi)"

definition frontier :: "'c \<Rightarrow> interval set \<Rightarrow> int \<Rightarrow> int \<Rightarrow> bool" where
  "frontier c Q bp bi \<longleftrightarrow>
    (\<forall>iv \<in> Q. interval_ok c iv) \<and> best_ok (profit c) (most c) bp bi
    \<and> (\<forall>x. 1 \<le> x \<longrightarrow> x \<le> most c \<longrightarrow> dominated (profit c) bp bi x \<or> covered Q x)"

lemma unbeaten_dominated:
  assumes "valid c" "interval_ok c (- b, lo, hi)" "best_ok (profit c) (most c) bp bi"
    and "\<not> can_interval_beat b lo bp bi" "lo \<le> x" "x \<le> hi"
  shows "dominated (profit c) bp bi x"
proof -
  have "profit c x \<le> b" using bound_safe [of c lo x hi] assms(1,2,5,6) by (auto simp: interval_ok_def)
  then show ?thesis
    using assms(3-5) by (auto simp: can_interval_beat_def dominated_def best_ok_def split: if_splits)
qed

lemma frontier_start:
  assumes "1 \<le> most c"
  shows "frontier c {(- bound c 1 (most c), 1, most c)} 0 0"
  using assms by (auto simp: frontier_def interval_ok_def covered_def best_ok_def)

lemma frontier_skip:
  assumes v: "valid c" and f: "frontier c (insert (- b, lo, hi) Q) bp bi" and no: "\<not> can_interval_beat b lo bp bi"
  shows "frontier c Q bp bi"
proof -
  have ok: "interval_ok c (- b, lo, hi)" "best_ok (profit c) (most c) bp bi" using f by (simp_all add: frontier_def)
  note dom = unbeaten_dominated [OF v ok no]
  have "dominated (profit c) bp bi x \<or> covered Q x" if "1 \<le> x" "x \<le> most c" for x
  proof -
    have "dominated (profit c) bp bi x \<or> covered (insert (- b, lo, hi) Q) x" using f that by (simp add: frontier_def)
    then show ?thesis using dom [of x] by (auto simp: covered_def)
  qed
  then show ?thesis using f by (simp add: frontier_def)
qed

lemma frontier_split:
  assumes f: "frontier c (insert (n, lo, hi) Q) bp bi" and m: "lo \<le> m" "m < hi"
  shows "frontier c (insert (- bound c lo m, lo, m) (insert (- bound c (m + 1) hi, m + 1, hi) Q)) bp bi"
proof -
  have "interval_ok c (n, lo, hi)" using f by (simp add: frontier_def)
  then have "interval_ok c (- bound c lo m, lo, m)" "interval_ok c (- bound c (m + 1) hi, m + 1, hi)"
    using m by (simp_all add: interval_ok_def)
  moreover have "covered (insert (- bound c lo m, lo, m) (insert (- bound c (m + 1) hi, m + 1, hi) Q)) x"
    if "covered (insert (n, lo, hi) Q) x" for x
    using that m by (cases "x \<le> m") (auto simp: covered_def)
  ultimately show ?thesis using f by (auto simp: frontier_def)
qed

text \<open>Once every amount of an interval is dominated the interval may go.\<close>

lemma frontier_done:
  assumes f: "frontier c (insert (n, lo, hi) Q) bp bi" and ok: "best_ok (profit c) (most c) bp' bi'"
    and old: "\<And>x. dominated (profit c) bp bi x \<Longrightarrow> dominated (profit c) bp' bi' x"
    and all: "\<And>x. lo \<le> x \<Longrightarrow> x \<le> hi \<Longrightarrow> dominated (profit c) bp' bi' x"
  shows "frontier c Q bp' bi'"
proof -
  have "dominated (profit c) bp' bi' x \<or> covered Q x" if x: "1 \<le> x" "x \<le> most c" for x
  proof -
    have "dominated (profit c) bp bi x \<or> covered (insert (n, lo, hi) Q) x" using f x by (simp add: frontier_def)
    then show ?thesis using old [of x] all [of x] by (auto simp: covered_def)
  qed
  then show ?thesis using f ok by (simp add: frontier_def)
qed

lemma frontier_empty:
  assumes "frontier c {} bp bi" "1 \<le> x" "x \<le> most c"
  shows "dominated (profit c) bp bi x"
  using assms by (auto simp: frontier_def covered_def)

lemma first_beats: "valid c \<Longrightarrow> 1 \<le> hi \<Longrightarrow> hi \<le> most c \<Longrightarrow> can_interval_beat (bound c 1 hi) 1 0 0"
  using first_bound [of c hi] by (simp add: can_interval_beat_def)

end

subsection \<open>The bound of a route\<close>

text \<open>A problem: the hops of a route, its coefficients and the greatest input.\<close>

type_synonym problem = "hop list \<times> (int \<times> int \<times> int) \<times> int"

definition problem_profit :: "problem \<Rightarrow> int \<Rightarrow> int" where
  "problem_profit pr x = run_out (fst pr) x - x"

definition problem_bound :: "problem \<Rightarrow> int \<Rightarrow> int \<Rightarrow> int" where
  "problem_bound pr lo hi =
    (case fst (snd pr) of (a, b, c) \<Rightarrow>
     case governed_interval_continuous_upper a b c lo hi of Inr bound \<Rightarrow> bound | Inl _ \<Rightarrow> 0)"

definition problem_top :: "problem \<Rightarrow> int" where
  "problem_top pr = snd (snd pr)"

definition problem_ok :: "problem \<Rightarrow> bool" where
  "problem_ok pr \<longleftrightarrow>
    (case pr of (hops, (a, b, c), most) \<Rightarrow>
      b < a \<and> 0 < b \<and> 0 < c \<and> 1 \<le> most \<and> most \<le> MAX_UINT256
      \<and> (\<forall>x. 0 \<le> x \<longrightarrow> run_out hops x * (b + c * x) \<le> a * x)
      \<and> (\<forall>x. 0 \<le> x \<longrightarrow> x \<le> MAX_UINT256 \<longrightarrow> run_out hops x \<le> MAX_UINT256)
      \<and> 0 < problem_bound pr 1 most)"

lemma interval_upper_Inr:
  assumes "0 < a" "0 < b" "0 < c" "1 \<le> lo" "lo \<le> hi"
  shows "interval_continuous_upper a b c lo hi = Inr
    (if a * b \<le> (b + c * lo) * (b + c * lo) then - ((- (a * lo - lo * (b + c * lo))) div (b + c * lo))
     else if (b + c * hi) * (b + c * hi) \<le> a * b then - ((- (a * hi - hi * (b + c * hi))) div (b + c * hi))
     else - ((- (a + b - 2 * isqrt (a * b))) div c))"
proof -
  have "0 < b + c * lo" "0 < b + c * hi" using assms by (simp_all add: add_pos_pos)
  then show ?thesis
    using assms by (simp add: interval_continuous_upper_def endpoint_upper_def ceil_div_def Let_def)
qed

lemma interval_upper_safe:
  assumes pos: "0 < a" "0 < b" "0 < c" "1 \<le> lo" and x: "lo \<le> x" "x \<le> hi"
    and up: "interval_continuous_upper a b c lo hi = Inr p"
  shows "profit_le a b c x p"
proof -
  have d: "0 < b + c * lo" "0 < b + c * hi" using assms by (simp_all add: add_pos_pos)
  consider (lower) "a * b \<le> (b + c * lo) * (b + c * lo)" "p = - ((- (a * lo - lo * (b + c * lo))) div (b + c * lo))"
    | (upper) "(b + c * hi) * (b + c * hi) \<le> a * b" "p = - ((- (a * hi - hi * (b + c * hi))) div (b + c * hi))"
    | (interior) "p = - ((- (a + b - 2 * isqrt (a * b))) div c)"
    using up interval_upper_Inr [OF pos(1-4), of hi] x by (auto split: if_splits)
  then show ?thesis
  proof cases
    case lower
    show ?thesis
      by (rule profit_le_endpoint [OF pos(2,3), of lo])
        (use lower pos x ceil_div_le [OF d(1), of "a * lo - lo * (b + c * lo)"] in simp_all)
  next
    case upper
    show ?thesis
      by (rule profit_le_endpoint [OF pos(2,3), of hi])
        (use upper pos x ceil_div_le [OF d(2), of "a * hi - hi * (b + c * hi)"] in simp_all)
  next
    case interior
    show ?thesis
      by (rule profit_le_interior [OF pos(2,3), of _ "isqrt (a * b)"])
        (use interior pos x isqrt_spec [of "a * b"] ceil_div_le [OF pos(3), of "a + b - 2 * isqrt (a * b)"] in simp_all)
  qed
qed

lemma ceil_pos_iff: "0 < d \<Longrightarrow> 0 < - ((- n) div d) \<longleftrightarrow> 0 < (n :: int)"
  using div_less_iff [of d "- n" 0] by simp

text \<open>The bound of an interval that starts at 1 is positive exactly when the input 1 gains.\<close>

lemma first_upper_pos_iff:
  assumes pos: "b < a" "0 < b" "0 < c" "1 \<le> hi" and up: "interval_continuous_upper a b c 1 hi = Inr p"
  shows "0 < p \<longleftrightarrow> b + c < a"
proof -
  have d: "0 < b + c" "0 < b + c * hi" using pos by (simp_all add: add_pos_pos)
  consider (lower) "a * b \<le> (b + c) * (b + c)" "p = - ((- (a - (b + c))) div (b + c))"
    | (upper) "(b + c) * (b + c) < a * b" "(b + c * hi) * (b + c * hi) \<le> a * b"
        "p = - ((- (a * hi - hi * (b + c * hi))) div (b + c * hi))"
    | (interior) "(b + c) * (b + c) < a * b" "p = - ((- (a + b - 2 * isqrt (a * b))) div c)"
    using up interval_upper_Inr [of a b c 1 hi] pos by (auto split: if_splits)
  moreover have gains: "b + c < a" if "(b + c) * (b + c) < a * b"
  proof (rule ccontr)
    assume "\<not> b + c < a"
    then have "a * b \<le> (b + c) * b" using pos by (intro mult_right_mono) simp_all
    also have "\<dots> \<le> (b + c) * (b + c)" using pos by (intro mult_left_mono) simp_all
    finally show False using that by simp
  qed
  ultimately show ?thesis
  proof cases
    case lower
    then show ?thesis using ceil_pos_iff [OF d(1), of "a - (b + c)"] by linarith
  next
    case upper
    have "b + c * hi < a"
    proof (rule ccontr)
      assume "\<not> b + c * hi < a"
      then have "a * b \<le> (b + c * hi) * b" using pos by (intro mult_right_mono) simp_all
      also have "\<dots> < (b + c * hi) * (b + c * hi)" using pos d by (intro mult_strict_left_mono) (simp_all add: mult_pos_pos)
      finally show False using upper(2) by simp
    qed
    then have "hi * (b + c * hi) < hi * a" using pos by (intro mult_strict_left_mono) simp_all
    then have "0 < a * hi - hi * (b + c * hi)" by (simp add: mult.commute)
    then show ?thesis using ceil_pos_iff [OF d(2)] upper(3) gains [OF upper(1)] by blast
  next
    case interior
    let ?r = "isqrt (a * b)"
    have "0 < (a - b) * (a - b)" using pos by simp
    then have "4 * (a * b) < (a + b) * (a + b)" by (simp add: algebra_simps)
    moreover have "?r * ?r \<le> a * b" using isqrt_spec [of "a * b"] pos by simp
    ultimately have "(2 * ?r) * (2 * ?r) < (a + b) * (a + b)" by simp
    then have "\<not> a + b \<le> 2 * ?r" using pos mult_mono [of "a + b" "2 * ?r" "a + b" "2 * ?r"] by auto
    then have "0 < a + b - 2 * ?r" by simp
    then show ?thesis using ceil_pos_iff [OF pos(3), of "a + b - 2 * ?r"] interior(2) gains [OF interior(1)] by blast
  qed
qed

lemma governed_upper:
  assumes "0 < a" "0 < b" "0 < c" "1 \<le> lo" "lo \<le> hi"
  shows "\<exists>p. interval_continuous_upper a b c lo hi = Inr p
    \<and> governed_interval_continuous_upper a b c lo hi = Inr (min p MAX_UINT256)"
  using interval_upper_Inr [OF assms] by (simp add: governed_interval_continuous_upper_def)

interpretation route_search: bounded_search problem_ok problem_profit problem_bound problem_top
proof
  fix pr lo x hi
  assume ok: "problem_ok pr" and x: "1 \<le> lo" "lo \<le> x" "x \<le> hi" "hi \<le> problem_top pr"
  obtain hops a b c most where pr: "pr = (hops, (a, b, c), most)" by (cases pr) auto
  have pos: "0 < a" "0 < b" "0 < c" using ok by (auto simp: pr problem_ok_def)
  obtain p where p: "interval_continuous_upper a b c lo hi = Inr p" "problem_bound pr lo hi = min p MAX_UINT256"
    using governed_upper [OF pos x(1), of hi] x by (auto simp: pr problem_bound_def)
  have "run_out hops x - x \<le> p"
    using exact_profit_le [OF _ _ interval_upper_safe [OF pos x(1-3) p(1)], of "run_out hops x"] ok pos x
    by (simp add: pr problem_ok_def add_pos_pos)
  moreover have "run_out hops x \<le> MAX_UINT256" using ok x by (simp add: pr problem_ok_def problem_top_def)
  ultimately show "problem_profit pr x \<le> problem_bound pr lo hi" unfolding p(2) using x
    by (simp add: problem_profit_def pr)
next
  fix pr hi
  assume ok: "problem_ok pr" and hi: "1 \<le> hi" "hi \<le> problem_top pr"
  obtain hops a b c most where pr: "pr = (hops, (a, b, c), most)" by (cases pr) auto
  have pos: "b < a" "0 < a" "0 < b" "0 < c" "1 \<le> most" using ok by (auto simp: pr problem_ok_def)
  have M: "0 < MAX_UINT256" by (simp add: MAX_UINT256_def)
  obtain p where p: "interval_continuous_upper a b c 1 most = Inr p" "problem_bound pr 1 most = min p MAX_UINT256"
    using governed_upper [OF pos(2-4), of 1 most] pos by (auto simp: pr problem_bound_def)
  obtain q where q: "interval_continuous_upper a b c 1 hi = Inr q" "problem_bound pr 1 hi = min q MAX_UINT256"
    using governed_upper [OF pos(2-4), of 1 hi] hi by (auto simp: pr problem_bound_def)
  have "0 < p" using ok p(2) by (simp add: pr problem_ok_def)
  then have "b + c < a" using first_upper_pos_iff [OF pos(1,3-5) p(1)] by simp
  then have "0 < q" using first_upper_pos_iff [OF pos(1,3,4) hi(1) q(1)] by simp
  then show "0 < problem_bound pr 1 hi" using q(2) M by simp
qed

end
