(* ===== verification/Optimizer_Correct.thy ===== *)
theory Optimizer_Correct
  imports Branch_Bound
begin

text \<open>
  The loop of \<open>optimize_route\<close> keeps its invariant, it ends, the result passes every check of its
  constructor, and each status means what it says about the exact profits of the route.
\<close>

subsection \<open>The invariant of the loop\<close>

text \<open>Every amount up to the greatest safe input has the quote of the composed swaps.\<close>

definition quotes_of :: "pool_universe \<Rightarrow> cp_route \<Rightarrow> problem \<Rightarrow> bool" where
  "quotes_of u r pr \<longleftrightarrow> (\<forall>x. 1 \<le> x \<longrightarrow> x \<le> problem_top pr \<longrightarrow>
    (\<exists>q. route_quote_exact_in r u x = Inr q \<and> rq_amount_out q = run_out (fst pr) x
      \<and> rq_gross_profit q = problem_profit pr x))"

definition best_inv :: "problem \<Rightarrow> search \<Rightarrow> bool" where
  "best_inv pr s \<longleftrightarrow>
    best_ok (problem_profit pr) (problem_top pr) (se_best_profit s) (se_best_input s)
    \<and> se_best_output s = (if se_best_input s = 0 then 0 else run_out (fst pr) (se_best_input s))"

definition search_inv :: "optimization_limits \<Rightarrow> problem \<Rightarrow> search \<Rightarrow> bool" where
  "search_inv lim pr s \<longleftrightarrow>
    route_search.frontier pr (set (se_queue s)) (se_best_profit s) (se_best_input s) \<and> best_inv pr s
    \<and> 0 \<le> se_explored_intervals s \<and> se_explored_intervals s \<le> ol_maximum_intervals lim
    \<and> 0 \<le> se_evaluated_inputs s
    \<and> se_evaluated_inputs s \<le> se_explored_intervals s * ol_exhaustive_threshold lim
    \<and> 0 \<le> se_pruned_intervals s \<and> se_pruned_intervals s \<le> 2 * se_explored_intervals s
    \<and> (se_evaluated_inputs s = 0 \<longrightarrow>
        se_best_input s = 0 \<and> se_best_profit s = 0 \<and> (\<exists>n hi. (n, 1, hi) \<in> set (se_queue s)))"

abbreviation dominated_in :: "problem \<Rightarrow> search \<Rightarrow> int \<Rightarrow> bool" where
  "dominated_in pr s \<equiv> dominated (problem_profit pr) (se_best_profit s) (se_best_input s)"

lemma evaluate_amount_eq:
  assumes "quotes_of u r pr" "1 \<le> x" "x \<le> problem_top pr"
  shows "evaluate_amount u r s x = Inr
    (if improves (se_best_profit s) (se_best_input s) (problem_profit pr x) x
     then s\<lparr>se_evaluated_inputs := se_evaluated_inputs s + 1, se_best_profit := problem_profit pr x,
            se_best_input := x, se_best_output := run_out (fst pr) x\<rparr>
     else s\<lparr>se_evaluated_inputs := se_evaluated_inputs s + 1\<rparr>)"
proof -
  obtain q where "route_quote_exact_in r u x = Inr q" "rq_amount_out q = run_out (fst pr) x"
    "rq_gross_profit q = problem_profit pr x" using assms unfolding quotes_of_def by blast
  then show ?thesis by (auto simp: evaluate_amount_def improves_def Let_def)
qed

lemma evaluate_amount_step:
  assumes q: "quotes_of u r pr" and x: "1 \<le> x" "x \<le> problem_top pr" and best: "best_inv pr s"
  shows "\<exists>s'. evaluate_amount u r s x = Inr s' \<and> best_inv pr s' \<and> se_queue s' = se_queue s
    \<and> se_explored_intervals s' = se_explored_intervals s \<and> se_pruned_intervals s' = se_pruned_intervals s
    \<and> se_evaluated_inputs s' = se_evaluated_inputs s + 1
    \<and> (\<forall>y. dominated_in pr s y \<longrightarrow> dominated_in pr s' y) \<and> dominated_in pr s' x"
proof (cases "improves (se_best_profit s) (se_best_input s) (problem_profit pr x) x")
  case True
  note ok = improve_ok [OF conjunct1 [OF best [unfolded best_inv_def]] x True]
  then show ?thesis using evaluate_amount_eq [OF q x, of s] True x by (simp add: best_inv_def)
next
  case False
  note dom = not_improves [OF conjunct1 [OF best [unfolded best_inv_def]] False]
  then show ?thesis using evaluate_amount_eq [OF q x, of s] False best by (simp add: best_inv_def)
qed

lemma evaluate_amounts:
  assumes q: "quotes_of u r pr"
  shows "\<forall>x \<in> set xs. 1 \<le> x \<and> x \<le> problem_top pr \<Longrightarrow> best_inv pr s \<Longrightarrow>
    \<exists>s'. rfold (evaluate_amount u r) s xs = Inr s' \<and> best_inv pr s' \<and> se_queue s' = se_queue s
    \<and> se_explored_intervals s' = se_explored_intervals s \<and> se_pruned_intervals s' = se_pruned_intervals s
    \<and> se_evaluated_inputs s' = se_evaluated_inputs s + int (length xs)
    \<and> (\<forall>y. dominated_in pr s y \<longrightarrow> dominated_in pr s' y) \<and> (\<forall>x \<in> set xs. dominated_in pr s' x)"
proof (induction xs arbitrary: s)
  case (Cons x xs)
  have x: "1 \<le> x" "x \<le> problem_top pr" using Cons.prems(1) by simp_all
  obtain t where t: "evaluate_amount u r s x = Inr t" "best_inv pr t" "se_queue t = se_queue s"
    "se_explored_intervals t = se_explored_intervals s" "se_pruned_intervals t = se_pruned_intervals s"
    "se_evaluated_inputs t = se_evaluated_inputs s + 1"
    "\<forall>y. dominated_in pr s y \<longrightarrow> dominated_in pr t y" "dominated_in pr t x"
    using evaluate_amount_step [OF q x Cons.prems(2)] by blast
  obtain s' where s': "rfold (evaluate_amount u r) t xs = Inr s'" "best_inv pr s'" "se_queue s' = se_queue t"
    "se_explored_intervals s' = se_explored_intervals t" "se_pruned_intervals s' = se_pruned_intervals t"
    "se_evaluated_inputs s' = se_evaluated_inputs t + int (length xs)"
    "\<forall>y. dominated_in pr t y \<longrightarrow> dominated_in pr s' y" "\<forall>x \<in> set xs. dominated_in pr s' x"
    using Cons.IH [OF _ t(2)] Cons.prems(1) by auto
  show ?case using t s' by (intro exI [of _ s']) auto
qed simp

lemma push_child_eq:
  assumes pr: "pr = (hops, (a, b, c), most)" and pos: "0 < a" "0 < b" "0 < c" and iv: "1 \<le> lo" "lo \<le> hi"
  shows "push_child (a, b, c) s (lo, hi) = Inr
    (if can_interval_beat (problem_bound pr lo hi) lo (se_best_profit s) (se_best_input s)
     then s\<lparr>se_queue := heappush (- problem_bound pr lo hi, lo, hi) (se_queue s)\<rparr>
     else s\<lparr>se_pruned_intervals := se_pruned_intervals s + 1\<rparr>)"
  using governed_upper [OF pos iv] by (auto simp: push_child_def problem_bound_def pr)

text \<open>A child is pushed or pruned; the frontier keeps covering every amount that matters.\<close>

lemma push_child_step:
  assumes ok: "problem_ok pr" and pr: "pr = (hops, (a, b, c), most)" and iv: "1 \<le> lo" "lo \<le> hi"
    and f: "route_search.frontier pr (insert (- problem_bound pr lo hi, lo, hi) (set (se_queue s) \<union> Q))
      (se_best_profit s) (se_best_input s)"
  shows "\<exists>s'. push_child (a, b, c) s (lo, hi) = Inr s'
    \<and> route_search.frontier pr (set (se_queue s') \<union> Q) (se_best_profit s') (se_best_input s')
    \<and> se_best_profit s' = se_best_profit s \<and> se_best_input s' = se_best_input s
    \<and> se_best_output s' = se_best_output s \<and> se_evaluated_inputs s' = se_evaluated_inputs s
    \<and> se_explored_intervals s' = se_explored_intervals s
    \<and> se_pruned_intervals s \<le> se_pruned_intervals s' \<and> se_pruned_intervals s' \<le> se_pruned_intervals s + 1
    \<and> set (se_queue s) \<subseteq> set (se_queue s')
    \<and> (can_interval_beat (problem_bound pr lo hi) lo (se_best_profit s) (se_best_input s) \<longrightarrow>
        (- problem_bound pr lo hi, lo, hi) \<in> set (se_queue s'))"
proof -
  have pos: "0 < a" "0 < b" "0 < c" using ok by (auto simp: pr problem_ok_def)
  note eq = push_child_eq [OF pr pos iv, of s]
  show ?thesis
  proof (cases "can_interval_beat (problem_bound pr lo hi) lo (se_best_profit s) (se_best_input s)")
    case True
    then show ?thesis using eq f by (auto simp: heap.items_push)
  next
    case False
    then show ?thesis using eq route_search.frontier_skip [OF ok f False] by simp
  qed
qed

lemma explore_inv:
  assumes ok: "problem_ok pr" and pr: "pr = (hops, (a, b, c), most)" and q: "quotes_of u r pr"
    and thr: "1 \<le> ol_exhaustive_threshold lim"
    and inv: "search_inv lim pr s" and pop: "heappop (se_queue s) = Some (iv, rest)"
    and budget: "se_explored_intervals s < ol_maximum_intervals lim"
  shows "\<exists>s'. explore u r lim (a, b, c) iv (s\<lparr>se_queue := rest\<rparr>) = Inr s' \<and> search_inv lim pr s'"
proof -
  obtain n lo hi where iv: "iv = (n, lo, hi)" by (cases iv)
  have items: "set (se_queue s) = insert (n, lo, hi) (set rest)" using heap.items_pop [OF pop] by (simp add: iv)
  let ?bp = "se_best_profit s" and ?bi = "se_best_input s"
  have f: "route_search.frontier pr (insert (n, lo, hi) (set rest)) ?bp ?bi" and best: "best_inv pr s"
    using inv by (simp_all add: search_inv_def items)
  have iv_ok: "1 \<le> lo" "lo \<le> hi" "hi \<le> problem_top pr" "n = - problem_bound pr lo hi"
    using f by (simp_all add: route_search.frontier_def route_search.interval_ok_def)
  let ?s = "s\<lparr>se_queue := rest, se_explored_intervals := se_explored_intervals s + 1\<rparr>"
  have counts: "0 \<le> se_explored_intervals s" "0 \<le> se_evaluated_inputs s" "0 \<le> se_pruned_intervals s"
    "se_evaluated_inputs s \<le> se_explored_intervals s * ol_exhaustive_threshold lim"
    "se_pruned_intervals s \<le> 2 * se_explored_intervals s"
    and fresh: "se_evaluated_inputs s = 0 \<Longrightarrow> ?bi = 0 \<and> ?bp = 0 \<and> (\<exists>n hi. (n, 1, hi) \<in> set (se_queue s))"
    using inv by (simp_all add: search_inv_def)
  have work: "se_evaluated_inputs s + k \<le> (se_explored_intervals s + 1) * ol_exhaustive_threshold lim"
    if "k \<le> ol_exhaustive_threshold lim" for k using counts(4) that by (simp add: algebra_simps)
  show ?thesis
  proof (cases "can_interval_beat (- n) lo ?bp ?bi")
    case False
    have "route_search.frontier pr (set rest) ?bp ?bi"
      using route_search.frontier_skip [OF ok, of "- n" lo hi "set rest"] f False by simp
    moreover have "(\<exists>n hi. (n, 1, hi) \<in> set rest)" if zero: "se_evaluated_inputs s = 0"
    proof -
      have "lo \<noteq> 1" using route_search.first_beats [OF ok, of hi] False iv_ok fresh [OF zero] by auto
      then show ?thesis using fresh [OF zero] items by auto
    qed
    ultimately show ?thesis
      using False counts budget best fresh work [of 0] thr
      by (simp add: explore_def iv search_inv_def best_inv_def Let_def)
  next
    case beats: True
    show ?thesis
    proof (cases "hi - lo + 1 \<le> ol_exhaustive_threshold lim")
      case True
      have range: "\<forall>x \<in> set [lo..hi]. 1 \<le> x \<and> x \<le> problem_top pr" using iv_ok by simp
      have start: "best_inv pr ?s" using best by (simp add: best_inv_def)
      obtain t where t: "rfold (evaluate_amount u r) ?s [lo..hi] = Inr t" "best_inv pr t" "se_queue t = rest"
        "se_explored_intervals t = se_explored_intervals s + 1" "se_pruned_intervals t = se_pruned_intervals s"
        "se_evaluated_inputs t = se_evaluated_inputs s + int (length [lo..hi])"
        "\<forall>y. dominated_in pr s y \<longrightarrow> dominated_in pr t y" "\<forall>x \<in> set [lo..hi]. dominated_in pr t x"
        using evaluate_amounts [OF q range start] by auto
      have "route_search.frontier pr (set rest) (se_best_profit t) (se_best_input t)"
        using route_search.frontier_done [OF f, of "se_best_profit t" "se_best_input t"] t by (simp add: best_inv_def)
      moreover have "0 < int (length [lo..hi])" "int (length [lo..hi]) \<le> ol_exhaustive_threshold lim"
        using iv_ok True by simp_all
      ultimately have "search_inv lim pr t"
        using t(2-6) counts budget work by (simp add: search_inv_def)
      then show ?thesis using t(1) beats True by (simp add: explore_def iv Let_def)
    next
      case False
      let ?m = "(lo + hi) div 2"
      have m: "lo \<le> ?m" "?m < hi" using False thr by simp_all
      let ?left = "(- problem_bound pr lo ?m, lo, ?m)" and ?right = "(- problem_bound pr (?m + 1) hi, ?m + 1, hi)"
      have "route_search.frontier pr (insert ?left (set (se_queue ?s) \<union> {?right})) (se_best_profit ?s) (se_best_input ?s)"
        using route_search.frontier_split [OF f m] by (simp add: insert_commute)
      from push_child_step [OF ok pr iv_ok(1) m(1) this] obtain t where
        t: "push_child (a, b, c) ?s (lo, ?m) = Inr t"
          "route_search.frontier pr (set (se_queue t) \<union> {?right}) (se_best_profit t) (se_best_input t)"
          "se_best_profit t = ?bp" "se_best_input t = ?bi" "se_best_output t = se_best_output s"
          "se_evaluated_inputs t = se_evaluated_inputs s" "se_explored_intervals t = se_explored_intervals s + 1"
          "se_pruned_intervals s \<le> se_pruned_intervals t" "se_pruned_intervals t \<le> se_pruned_intervals s + 1"
          "set rest \<subseteq> set (se_queue t)"
          "can_interval_beat (problem_bound pr lo ?m) lo ?bp ?bi \<longrightarrow> ?left \<in> set (se_queue t)" by auto
      have "route_search.frontier pr (insert ?right (set (se_queue t) \<union> {})) (se_best_profit t) (se_best_input t)"
        using t(2) by simp
      from push_child_step [OF ok pr _ _ this] obtain s' where
        s': "push_child (a, b, c) t (?m + 1, hi) = Inr s'"
          "route_search.frontier pr (set (se_queue s') \<union> {}) (se_best_profit s') (se_best_input s')"
          "se_best_profit s' = ?bp" "se_best_input s' = ?bi" "se_best_output s' = se_best_output s"
          "se_evaluated_inputs s' = se_evaluated_inputs s" "se_explored_intervals s' = se_explored_intervals s + 1"
          "se_pruned_intervals t \<le> se_pruned_intervals s'" "se_pruned_intervals s' \<le> se_pruned_intervals t + 1"
          "set (se_queue t) \<subseteq> set (se_queue s')" using t(3-7) m iv_ok by auto
      have "(\<exists>n hi. (n, 1, hi) \<in> set (se_queue s'))" if zero: "se_evaluated_inputs s = 0"
      proof (cases "lo = 1")
        case True
        then have "can_interval_beat (problem_bound pr lo ?m) lo ?bp ?bi"
          using route_search.first_beats [OF ok, of ?m] fresh [OF zero] m iv_ok by simp
        then show ?thesis using t(11) s'(10) True by blast
      next
        case False
        then obtain n' hi' where "(n', 1, hi') \<in> set rest" using fresh [OF zero] items by auto
        then show ?thesis using t(10) s'(10) by blast
      qed
      then have "search_inv lim pr s'"
        using s'(2-9) t(8,9) counts budget best fresh work [of 0] thr by (simp add: search_inv_def best_inv_def)
      then show ?thesis using t(1) s'(1) beats False by (simp add: explore_def iv Let_def)
    qed
  qed
qed

lemma search_intervals_ok:
  assumes ok: "problem_ok pr" and pr: "pr = (hops, (a, b, c), most)" and q: "quotes_of u r pr"
    and thr: "1 \<le> ol_exhaustive_threshold lim"
  shows "search_inv lim pr s \<Longrightarrow> \<exists>finished s'. search_intervals u r lim (a, b, c) s = Inr (finished, s')
    \<and> search_inv lim pr s' \<and> (finished \<longrightarrow> se_queue s' = [])
    \<and> (\<not> finished \<longrightarrow> se_explored_intervals s' = ol_maximum_intervals lim)"
proof (induction "nat (ol_maximum_intervals lim - se_explored_intervals s)" arbitrary: s rule: less_induct)
  case less
  show ?case
  proof (cases "heappop (se_queue s)")
    case None
    then have "se_queue s = []" by (cases "se_queue s") auto
    then have "search_intervals u r lim (a, b, c) s = Inr (True, s)" by (simp add: search_intervals.simps [of u r lim])
    then show ?thesis using less.prems \<open>se_queue s = []\<close> by blast
  next
    case (Some p)
    obtain iv rest where pop: "heappop (se_queue s) = Some (iv, rest)" using Some by (cases p) auto
    show ?thesis
    proof (cases "ol_maximum_intervals lim \<le> se_explored_intervals s")
      case True
      then have "search_intervals u r lim (a, b, c) s = Inr (False, s)"
        using pop by (simp add: search_intervals.simps [of u r lim "(a, b, c)" s])
      moreover have "se_explored_intervals s = ol_maximum_intervals lim"
        using True less.prems by (simp add: search_inv_def)
      ultimately show ?thesis using less.prems by blast
    next
      case False
      then have budget: "se_explored_intervals s < ol_maximum_intervals lim" by simp
      obtain t where t: "explore u r lim (a, b, c) iv (s\<lparr>se_queue := rest\<rparr>) = Inr t" "search_inv lim pr t"
        using explore_inv [OF ok pr q thr less.prems pop budget] by blast
      have "se_explored_intervals t = se_explored_intervals s + 1" using explore_explored [OF t(1)] by simp
      moreover have "search_intervals u r lim (a, b, c) s = search_intervals u r lim (a, b, c) t"
        using pop t(1) False by (simp add: search_intervals.simps [of u r lim "(a, b, c)" s])
      ultimately show ?thesis using less.hyps [OF _ t(2)] budget by simp
    qed
  qed
qed

subsection \<open>The results\<close>

definition optimizer_limits_ok :: "optimization_limits \<Rightarrow> bool" where
  "optimizer_limits_ok lim \<longleftrightarrow> OptimizationLimits_post_init lim = Inr lim"

lemma limits_facts:
  assumes "optimizer_limits_ok lim"
  shows "0 < ol_maximum_input lim" "ol_maximum_input lim \<le> MAX_UINT256" "1 \<le> ol_maximum_intervals lim"
    "ol_maximum_intervals lim \<le> 1000000" "1 \<le> ol_exhaustive_threshold lim" "ol_exhaustive_threshold lim \<le> 4096"
  using assms
  by (auto simp: optimizer_limits_ok_def OptimizationLimits_post_init_def MAX_OPTIMIZER_INTERVALS_def
      MAX_EXHAUSTIVE_THRESHOLD_def split: if_splits)

text \<open>The ranges that make a result small enough for canonical JSON.\<close>

lemma length_small: "0 \<le> v \<Longrightarrow> v \<le> MAX_UINT256 \<Longrightarrow> length (str_of_int v) \<le> 79"
  using length_str_of_int_signed [of v] by simp

lemma result_json_ok:
  assumes lim: "optimizer_limits_ok (or_limits x)"
    and sha: "length (or_route_sha256 x) = 64" "or_schema x = OPTIMIZATION_SCHEMA"
    and ranges: "\<forall>v \<in> {or_effective_maximum_input x, or_amount_in x, or_amount_out x, or_gross_profit x,
      or_evaluated_inputs x, or_explored_intervals x, or_pruned_intervals x, or_continuous_upper_bound x}.
      0 \<le> v \<and> v \<le> MAX_UINT256"
  shows "\<exists>b. canonical_json_bytes (OptimizationResult_to_json x) = Inr b"
proof -
  have small: "length (str_of_int (or_effective_maximum_input x)) \<le> 79" "length (str_of_int (or_amount_in x)) \<le> 79"
    "length (str_of_int (or_amount_out x)) \<le> 79" "length (str_of_int (or_gross_profit x)) \<le> 79"
    "length (str_of_int (or_evaluated_inputs x)) \<le> 79" "length (str_of_int (or_explored_intervals x)) \<le> 79"
    "length (str_of_int (or_pruned_intervals x)) \<le> 79" "length (str_of_int (or_continuous_upper_bound x)) \<le> 79"
    using ranges by (simp_all add: length_small)
  have M: "1000000 \<le> MAX_UINT256" by (simp add: MAX_UINT256_def)
  have lims: "length (str_of_int (ol_maximum_input (or_limits x))) \<le> 79"
    "length (str_of_int (ol_maximum_intervals (or_limits x))) \<le> 79"
    "length (str_of_int (ol_exhaustive_threshold (or_limits x))) \<le> 79"
    using limits_facts [OF lim] M by (simp_all add: length_small)
  have status: "length (optimization_status_value (or_status x)) \<le> 27" by (cases "or_status x") simp_all
  have "json_bound (OptimizationResult_to_json x) \<le> DEFAULT_MAX_JSON_BYTES"
    using small lims status sha
    by (simp add: OptimizationResult_to_json_def OptimizationLimits_to_json_def OPTIMIZATION_SCHEMA_def
        DEFAULT_MAX_JSON_BYTES_def)
  moreover have "json_items (OptimizationResult_to_json x) \<le> DEFAULT_MAX_ITEMS"
    "json_depth (OptimizationResult_to_json x) \<le> DEFAULT_MAX_DEPTH" "\<not> has_huge_int (OptimizationResult_to_json x)"
    by (simp_all add: OptimizationResult_to_json_def OptimizationLimits_to_json_def DEFAULT_MAX_ITEMS_def
        DEFAULT_MAX_DEPTH_def)
  ultimately show ?thesis by (subst canonical_json_okI) auto
qed

text \<open>A result with consistent counts and a consistent status passes its constructor.\<close>

lemma result_ok:
  assumes lim: "optimizer_limits_ok (or_limits x)" and sha: "is_sha256_text (or_route_sha256 x)" "or_schema x = OPTIMIZATION_SCHEMA"
    and amounts: "0 \<le> or_effective_maximum_input x" "or_effective_maximum_input x \<le> ol_maximum_input (or_limits x)"
      "0 \<le> or_amount_in x" "or_amount_in x \<le> or_effective_maximum_input x"
      "0 \<le> or_amount_out x" "or_amount_out x \<le> MAX_UINT256"
      "or_gross_profit x = or_amount_out x - or_amount_in x" "or_amount_in x = 0 \<Longrightarrow> or_amount_out x = 0"
    and bound: "0 \<le> or_gross_profit x" "or_gross_profit x \<le> or_continuous_upper_bound x"
      "or_continuous_upper_bound x \<le> MAX_UINT256"
    and counts: "0 \<le> or_explored_intervals x" "or_explored_intervals x \<le> ol_maximum_intervals (or_limits x)"
      "0 \<le> or_evaluated_inputs x"
      "or_evaluated_inputs x \<le> or_explored_intervals x * ol_exhaustive_threshold (or_limits x)"
      "0 \<le> or_pruned_intervals x" "or_pruned_intervals x \<le> 2 * or_explored_intervals x"
    and authority: "optimization_authority x = Inr ()"
  shows "OptimizationResult_post_init x = Inr x"
proof -
  note lf = limits_facts [OF lim]
  have M: "4096000000 \<le> MAX_UINT256" by (simp add: MAX_UINT256_def)
  have "or_explored_intervals x * ol_exhaustive_threshold (or_limits x) \<le> 1000000 * 4096"
    using counts lf by (intro mult_mono) simp_all
  then have evals: "or_evaluated_inputs x \<le> MAX_UINT256" using counts M by linarith
  have "or_explored_intervals x * ol_exhaustive_threshold (or_limits x)
      \<le> ol_maximum_intervals (or_limits x) * (ol_exhaustive_threshold (or_limits x) + 1)"
    using counts lf by (intro mult_mono) simp_all
  then have work: "or_evaluated_inputs x \<le> maximum_work_units (or_limits x)"
    using counts by (simp add: maximum_work_units_def)
  have hex: "length (or_route_sha256 x) = 64" "\<not> list_ex (\<lambda>c. c \<notin> set ''0123456789abcdef'') (or_route_sha256 x)"
    using sha(1) by (auto simp: is_sha256_text_def list_ex_iff list_all_iff is_hex_char_def hex_digits_def)
  have "\<exists>b. canonical_json_bytes (OptimizationResult_to_json x) = Inr b"
    using lim hex(1) sha(2) amounts bound counts evals lf M by (intro result_json_ok) auto
  then show ?thesis
    using hex sha(2) amounts bound counts evals work lf authority
    by (auto simp: OptimizationResult_post_init_def)
qed

subsection \<open>What the statuses mean\<close>

definition exact_profit :: "pool_universe \<Rightarrow> cp_route \<Rightarrow> int \<Rightarrow> int option" where
  "exact_profit u r x =
    (case route_quote_exact_in r u x of Inr q \<Rightarrow> Some (rq_gross_profit q) | Inl _ \<Rightarrow> None)"

text \<open>Every exact profit up to the greatest input of the limits is at most \<open>p\<close>.\<close>

definition no_profit_above :: "pool_universe \<Rightarrow> cp_route \<Rightarrow> optimization_limits \<Rightarrow> int \<Rightarrow> bool" where
  "no_profit_above u r lim p \<longleftrightarrow>
    (\<forall>x \<in> {1..ol_maximum_input lim}. case exact_profit u r x of None \<Rightarrow> True | Some profit \<Rightarrow> profit \<le> p)"

definition optimization_spec :: "pool_universe \<Rightarrow> cp_route \<Rightarrow> optimization_limits \<Rightarrow> optimization_result \<Rightarrow> bool" where
  "optimization_spec u r lim res \<longleftrightarrow>
    (case or_status res of
       COMPLETE \<Rightarrow>
         0 < or_gross_profit res \<and> 1 \<le> or_amount_in res \<and> or_amount_in res \<le> ol_maximum_input lim
         \<and> exact_profit u r (or_amount_in res) = Some (or_gross_profit res)
         \<and> or_amount_out res = or_amount_in res + or_gross_profit res
         \<and> no_profit_above u r lim (or_gross_profit res)
         \<and> (\<forall>x \<in> {1..<or_amount_in res}. exact_profit u r x \<noteq> Some (or_gross_profit res))
     | NO_VALID_INPUT \<Rightarrow> \<forall>x \<in> {1..ol_maximum_input lim}. exact_profit u r x = None
     | NO_POSITIVE_CONTINUOUS_EDGE \<Rightarrow> no_profit_above u r lim 0
     | NO_POSITIVE_EXACT_PROFIT \<Rightarrow> no_profit_above u r lim 0
     | BUDGET_EXHAUSTED \<Rightarrow> no_profit_above u r lim (or_continuous_upper_bound res))"

text \<open>What the proof needs of a route: its exact profits are those of a problem up to its greatest input.\<close>

definition solves :: "pool_universe \<Rightarrow> cp_route \<Rightarrow> optimization_limits \<Rightarrow> hop list \<Rightarrow> int \<Rightarrow> bool" where
  "solves u r lim hops most \<longleftrightarrow> 0 \<le> most \<and> most \<le> ol_maximum_input lim \<and>
    (\<forall>x \<in> {1..ol_maximum_input lim}. exact_profit u r x = (if x \<le> most then Some (run_out hops x - x) else None))"

lemma route_solves:
  assumes route: "route_ok r" "route_validate_against r u = Inr ()" "route_hops u (rt_legs r) hops" and lim: "optimizer_limits_ok lim"
  shows "\<exists>most. route_maximum_safe_input r u (ol_maximum_input lim) = Inr most \<and> solves u r lim hops most
    \<and> quotes_of u r (hops, abc, most)"
proof -
  note lf = limits_facts(1,2) [OF lim]
  obtain most where m: "route_maximum_safe_input r u (ol_maximum_input lim) = Inr most" "0 \<le> most" "most \<le> ol_maximum_input lim"
    "\<forall>x. 0 < x \<and> x \<le> ol_maximum_input lim \<longrightarrow> (run_accepts hops x \<longleftrightarrow> x \<le> most)"
    using route_maximum_eq [OF route, of "ol_maximum_input lim"] lf by auto
  have quote: "(x \<le> most \<longrightarrow> (\<exists>q. route_quote_exact_in r u x = Inr q \<and> rq_amount_out q = run_out hops x
      \<and> rq_gross_profit q = run_out hops x - x))
    \<and> (\<not> x \<le> most \<longrightarrow> (\<exists>e. route_quote_exact_in r u x = Inl (ConstantProductArithmeticError e)))"
    if "1 \<le> x" "x \<le> ol_maximum_input lim" for x
    using route_quote_eq [OF route, of x] m(4) that lf by auto
  have "solves u r lim hops most"
    unfolding solves_def
  proof (intro conjI ballI)
    fix x assume "x \<in> {1..ol_maximum_input lim}"
    then show "exact_profit u r x = (if x \<le> most then Some (run_out hops x - x) else None)"
      using quote [of x] by (auto simp: exact_profit_def)
  qed (use m in simp_all)
  moreover have "quotes_of u r (hops, abc, most)"
    using quote m(3) by (auto simp: quotes_of_def problem_top_def problem_profit_def)
  ultimately show ?thesis using m(1) by blast
qed

lemma no_profit_aboveI:
  assumes "solves u r lim hops most" "\<And>x. 1 \<le> x \<Longrightarrow> x \<le> most \<Longrightarrow> run_out hops x - x \<le> p"
  shows "no_profit_above u r lim p"
  using assms by (auto simp: no_profit_above_def solves_def)

lemma route_coefficients:
  assumes "route_ok r" "route_validate_against r u = Inr ()" "route_hops u (rt_legs r) hops"
  shows "\<exists>a b c. continuous_coefficients r u = Inr (a, b, c) \<and> 0 < a \<and> 0 < b \<and> 0 < c
    \<and> (\<forall>x. 0 \<le> x \<longrightarrow> run_out hops x * (b + c * x) \<le> a * x)"
proof -
  have "rt_legs r \<noteq> []" using route_ok_facts(1) [OF assms(1)] by (auto simp: MIN_ROUTE_HOPS_def)
  then show ?thesis
    using compose_legs [OF assms(3), of 1 1 0] assms(2) by (auto simp: continuous_coefficients_def)
qed

lemma no_edge:
  assumes "0 < b" "0 < c" "a \<le> b" "out * (b + c * x) \<le> a * x" "1 \<le> (x :: int)"
  shows "out - x \<le> 0"
proof (rule ccontr)
  assume "\<not> out - x \<le> 0"
  then have "x * (b + c * x) < out * (b + c * x)" using assms by (intro mult_strict_right_mono) (simp_all add: add_pos_pos)
  moreover have "a * x \<le> x * b" using assms by (simp add: mult.commute)
  moreover have "x * b \<le> x * (b + c * x)" using assms by simp
  ultimately show False using assms(4) by linarith
qed

lemma empty_result_ok:
  assumes lim: "optimizer_limits_ok lim" and m: "0 \<le> most" "most \<le> ol_maximum_input lim" "bound \<le> MAX_UINT256"
    and counts: "0 \<le> explored" "explored \<le> ol_maximum_intervals lim" "0 \<le> evaluated"
      "evaluated \<le> explored * ol_exhaustive_threshold lim" "0 \<le> pruned" "pruned \<le> 2 * explored"
    and authority: "optimization_authority
      \<lparr>or_route_sha256 = rt_digest r, or_status = status, or_complete = complete,
       or_effective_maximum_input = most, or_amount_in = 0, or_amount_out = 0,
       or_gross_profit = 0, or_evaluated_inputs = evaluated,
       or_explored_intervals = explored, or_pruned_intervals = pruned,
       or_continuous_upper_bound = max bound 0, or_limits = lim,
       or_schema = OPTIMIZATION_SCHEMA\<rparr> = Inr ()"
  shows "\<exists>res. empty_result r lim status most evaluated explored pruned bound complete = Inr res
    \<and> or_status res = status \<and> or_continuous_upper_bound res = max bound 0"
proof -
  have "is_sha256_text (rt_digest r)" by (simp add: rt_digest_def json_sha256_text)
  moreover have "0 \<le> MAX_UINT256" by (simp add: MAX_UINT256_def)
  ultimately show ?thesis
    unfolding empty_result_def
    by (subst result_ok) (use assms in auto)
qed

lemma searched_result:
  assumes ok: "problem_ok pr" and pr: "pr = (hops, (a, b, c), most)" and lim: "optimizer_limits_ok lim"
    and sol: "solves u r lim hops most" and inv: "search_inv lim pr s"
    and full: "problem_bound pr 1 most = full" and empty: "se_queue s = []" and won: "0 < se_best_profit s"
  defines "res \<equiv> \<lparr>or_route_sha256 = rt_digest r, or_status = COMPLETE, or_complete = True,
       or_effective_maximum_input = most, or_amount_in = se_best_input s,
       or_amount_out = se_best_output s, or_gross_profit = se_best_profit s,
       or_evaluated_inputs = se_evaluated_inputs s, or_explored_intervals = se_explored_intervals s,
       or_pruned_intervals = se_pruned_intervals s, or_continuous_upper_bound = full,
       or_limits = lim, or_schema = OPTIMIZATION_SCHEMA\<rparr>"
  shows "OptimizationResult_post_init res = Inr res \<and> optimization_spec u r lim res"
proof -
  let ?x = "se_best_input s" and ?p = "se_best_profit s"
  have x: "1 \<le> ?x" "?x \<le> most" "?p = run_out hops ?x - ?x" "se_best_output s = run_out hops ?x"
    using inv won by (auto simp: search_inv_def best_inv_def best_ok_def pr problem_top_def problem_profit_def)
  have most: "most \<le> ol_maximum_input lim" "1 \<le> most" using sol x by (auto simp: solves_def)
  have dom: "dominated (problem_profit pr) ?p ?x y" if "1 \<le> y" "y \<le> most" for y
    using route_search.frontier_empty [of pr ?p ?x y] inv that by (simp add: search_inv_def empty pr problem_top_def)
  have "?p \<le> full" using route_search.bound_safe [OF ok, of 1 ?x most] x full by (simp add: pr problem_profit_def problem_top_def)
  moreover have "full \<le> MAX_UINT256"
    using governed_upper [of a b c 1 most] ok x full by (auto simp: pr problem_ok_def problem_bound_def)
  moreover have "run_out hops ?x \<le> MAX_UINT256"
    using ok x limits_facts(2) [OF lim] most by (simp add: pr problem_ok_def)
  moreover have "is_sha256_text (rt_digest r)" by (simp add: rt_digest_def json_sha256_text)
  moreover have "optimization_authority res = Inr ()" using x won by (simp add: optimization_authority_def res_def)
  ultimately have "OptimizationResult_post_init res = Inr res"
    using lim most x won inv by (intro result_ok) (auto simp: res_def search_inv_def)
  moreover have "no_profit_above u r lim ?p"
    by (rule no_profit_aboveI [OF sol]) (use dom won in \<open>fastforce simp: dominated_def problem_profit_def pr\<close>)
  moreover have "exact_profit u r y \<noteq> Some ?p" if "y \<in> {1..<?x}" for y
    using dom [of y] sol that x most won by (auto simp: solves_def dominated_def problem_profit_def pr)
  moreover have "exact_profit u r ?x = Some ?p" using sol x most by (simp add: solves_def)
  ultimately show ?thesis using x won most by (simp add: optimization_spec_def res_def)
qed

lemma exhausted_result:
  assumes ok: "problem_ok pr" and pr: "pr = (hops, (a, b, c), most)" and lim: "optimizer_limits_ok lim"
    and sol: "solves u r lim hops most" and inv: "search_inv lim pr s"
    and full: "problem_bound pr 1 most = full" "0 < full" "full \<le> MAX_UINT256"
    and spent: "se_explored_intervals s = ol_maximum_intervals lim"
  shows "\<exists>res. empty_result r lim BUDGET_EXHAUSTED most (se_evaluated_inputs s) (se_explored_intervals s)
      (se_pruned_intervals s) full False = Inr res \<and> optimization_spec u r lim res"
proof -
  have range: "0 \<le> most" "most \<le> ol_maximum_input lim" using sol by (simp_all add: solves_def)
  have most: "most \<noteq> 0" using ok by (auto simp: pr problem_ok_def)
  have "\<exists>res. empty_result r lim BUDGET_EXHAUSTED most (se_evaluated_inputs s) (se_explored_intervals s)
      (se_pruned_intervals s) full False = Inr res \<and> or_status res = BUDGET_EXHAUSTED
      \<and> or_continuous_upper_bound res = max full 0"
  proof (rule empty_result_ok [OF lim range full(3)])
    show "optimization_authority
      \<lparr>or_route_sha256 = rt_digest r, or_status = BUDGET_EXHAUSTED, or_complete = False,
       or_effective_maximum_input = most, or_amount_in = 0, or_amount_out = 0,
       or_gross_profit = 0, or_evaluated_inputs = se_evaluated_inputs s,
       or_explored_intervals = se_explored_intervals s, or_pruned_intervals = se_pruned_intervals s,
       or_continuous_upper_bound = max full 0, or_limits = lim,
       or_schema = OPTIMIZATION_SCHEMA\<rparr> = Inr ()"
      using most full(2) spent by (simp add: optimization_authority_def max_def)
  qed (use inv in \<open>simp_all add: search_inv_def\<close>)
  moreover have "no_profit_above u r lim full"
  proof (rule no_profit_aboveI [OF sol])
    fix x assume "1 \<le> x" "x \<le> most"
    then show "run_out hops x - x \<le> full"
      using route_search.bound_safe [OF ok, of 1 x most] full by (simp add: pr problem_profit_def problem_top_def)
  qed
  ultimately show ?thesis using full(2) by (auto simp: optimization_spec_def max_def)
qed

lemma unprofitable_result:
  assumes ok: "problem_ok pr" and pr: "pr = (hops, (a, b, c), most)" and lim: "optimizer_limits_ok lim"
    and sol: "solves u r lim hops most" and inv: "search_inv lim pr s"
    and full: "0 < full" "full \<le> MAX_UINT256" and empty: "se_queue s = []" and none: "se_best_profit s \<le> 0"
  shows "\<exists>res. empty_result r lim NO_POSITIVE_EXACT_PROFIT most (se_evaluated_inputs s) (se_explored_intervals s)
      (se_pruned_intervals s) full True = Inr res \<and> optimization_spec u r lim res"
proof -
  have range: "0 \<le> most" "most \<le> ol_maximum_input lim" using sol by (simp_all add: solves_def)
  have most: "most \<noteq> 0" using ok by (auto simp: pr problem_ok_def)
  have evaluated: "se_evaluated_inputs s \<noteq> 0" using inv empty by (auto simp: search_inv_def)
  then have explored: "se_explored_intervals s \<noteq> 0" using inv by (auto simp: search_inv_def)
  have "\<exists>res. empty_result r lim NO_POSITIVE_EXACT_PROFIT most (se_evaluated_inputs s) (se_explored_intervals s)
      (se_pruned_intervals s) full True = Inr res \<and> or_status res = NO_POSITIVE_EXACT_PROFIT
      \<and> or_continuous_upper_bound res = max full 0"
  proof (rule empty_result_ok [OF lim range full(2)])
    show "optimization_authority
      \<lparr>or_route_sha256 = rt_digest r, or_status = NO_POSITIVE_EXACT_PROFIT, or_complete = True,
       or_effective_maximum_input = most, or_amount_in = 0, or_amount_out = 0,
       or_gross_profit = 0, or_evaluated_inputs = se_evaluated_inputs s,
       or_explored_intervals = se_explored_intervals s, or_pruned_intervals = se_pruned_intervals s,
       or_continuous_upper_bound = max full 0, or_limits = lim,
       or_schema = OPTIMIZATION_SCHEMA\<rparr> = Inr ()"
      using most full(1) evaluated explored by (simp add: optimization_authority_def max_def)
  qed (use inv in \<open>simp_all add: search_inv_def\<close>)
  moreover have "no_profit_above u r lim 0"
  proof (rule no_profit_aboveI [OF sol])
    fix x assume x: "1 \<le> x" "x \<le> most"
    have "dominated (problem_profit pr) (se_best_profit s) (se_best_input s) x"
      using route_search.frontier_empty [of pr "se_best_profit s" "se_best_input s" x] inv x
      by (simp add: search_inv_def empty pr problem_top_def)
    then show "run_out hops x - x \<le> 0" using none by (auto simp: dominated_def problem_profit_def pr)
  qed
  ultimately show ?thesis by (auto simp: optimization_spec_def)
qed

text \<open>Without a continuous edge no input gains.\<close>

lemma edgeless_profit:
  assumes pos: "0 < a" "0 < b" "0 < c" and out: "run_out hops x * (b + c * x) \<le> a * x"
    and up: "interval_continuous_upper a b c 1 most = Inr p" and flat: "a \<le> b \<or> p \<le> 0" and x: "1 \<le> x" "x \<le> most"
  shows "run_out hops x - x \<le> 0"
proof (cases "a \<le> b")
  case True
  then show ?thesis by (rule no_edge [OF pos(2,3) _ out x(1)])
next
  case False
  have d: "0 < b + c * x" using pos x by (simp add: add_pos_pos)
  have "run_out hops x - x \<le> p"
    by (rule exact_profit_le [OF d out interval_upper_safe [OF pos order_refl x up]])
  then show ?thesis using flat False by linarith
qed

lemma edgeless_result:
  assumes lim: "optimizer_limits_ok lim" and sol: "solves u r lim hops most" and most: "1 \<le> most" and p: "p \<le> 0"
    and flat: "\<And>x. 1 \<le> x \<Longrightarrow> x \<le> most \<Longrightarrow> run_out hops x - x \<le> 0"
  shows "\<exists>res. empty_result r lim NO_POSITIVE_CONTINUOUS_EDGE most 0 0 0 p True = Inr res \<and> optimization_spec u r lim res"
proof -
  have range: "0 \<le> most" "most \<le> ol_maximum_input lim" using sol by (simp_all add: solves_def)
  have M: "p \<le> MAX_UINT256" using p by (simp add: MAX_UINT256_def)
  have "\<exists>res. empty_result r lim NO_POSITIVE_CONTINUOUS_EDGE most 0 0 0 p True = Inr res
      \<and> or_status res = NO_POSITIVE_CONTINUOUS_EDGE \<and> or_continuous_upper_bound res = max p 0"
    by (rule empty_result_ok [OF lim range M])
      (use limits_facts [OF lim] most p in \<open>simp_all add: optimization_authority_def\<close>)
  then obtain res where "empty_result r lim NO_POSITIVE_CONTINUOUS_EDGE most 0 0 0 p True = Inr res"
    "or_status res = NO_POSITIVE_CONTINUOUS_EDGE" by blast
  moreover have "no_profit_above u r lim 0" using flat by (rule no_profit_aboveI [OF sol])
  ultimately show ?thesis by (simp add: optimization_spec_def)
qed

lemma invalid_result:
  assumes lim: "optimizer_limits_ok lim" and sol: "solves u r lim hops 0"
  shows "\<exists>res. empty_result r lim NO_VALID_INPUT 0 0 0 0 0 True = Inr res \<and> optimization_spec u r lim res"
proof -
  have range: "0 \<le> (0 :: int)" "0 \<le> ol_maximum_input lim" "0 \<le> MAX_UINT256"
    using limits_facts [OF lim] by (simp_all add: MAX_UINT256_def)
  have "\<exists>res. empty_result r lim NO_VALID_INPUT 0 0 0 0 0 True = Inr res
      \<and> or_status res = NO_VALID_INPUT \<and> or_continuous_upper_bound res = max 0 0"
    by (rule empty_result_ok [OF lim range])
      (use limits_facts [OF lim] in \<open>simp_all add: optimization_authority_def\<close>)
  then show ?thesis using sol by (auto simp: optimization_spec_def solves_def)
qed

text \<open>
  The optimiser always returns a result, and the result says what holds: the least input of
  the greatest exact profit, that no input gains, or a bound of every exact profit.
\<close>

lemma optimize_route_ok:
  assumes u: "universe_ok u" and route: "route_ok r" "route_validate_against r u = Inr ()" and lim: "optimizer_limits_ok lim"
  shows "\<exists>res. optimize_route u r lim = Inr res \<and> optimization_spec u r lim res"
proof -
  obtain hops where hops: "route_hops u (rt_legs r) hops" using validated_hops [OF u route(2)] by blast
  obtain a b c where abc: "continuous_coefficients r u = Inr (a, b, c)" and pos: "0 < a" "0 < b" "0 < c"
    and out: "\<forall>x. 0 \<le> x \<longrightarrow> run_out hops x * (b + c * x) \<le> a * x" using route_coefficients [OF route hops] by blast
  obtain most where most: "route_maximum_safe_input r u (ol_maximum_input lim) = Inr most"
    and sol: "solves u r lim hops most" and quotes: "quotes_of u r (hops, (a, b, c), most)"
    using route_solves [OF route hops lim] by blast
  note lf = limits_facts [OF lim] and start = optimize_route_def route(2) most
  show ?thesis
  proof (cases "most = 0")
    case True
    have "optimize_route u r lim = empty_result r lim NO_VALID_INPUT 0 0 0 0 0 True" by (simp add: start True)
    then show ?thesis using invalid_result [OF lim sol [unfolded True]] by simp
  next
    case False
    then have one: "1 \<le> most" and range: "most \<le> MAX_UINT256" using sol lf by (auto simp: solves_def)
    obtain p where up: "interval_continuous_upper a b c 1 most = Inr p"
      and p: "governed_interval_continuous_upper a b c 1 most = Inr (min p MAX_UINT256)"
      using governed_upper [OF pos order_refl one] by blast
    let ?full = "min p MAX_UINT256"
    have full_iff: "?full \<le> 0 \<longleftrightarrow> p \<le> 0" by (auto simp: min_def MAX_UINT256_def)
    show ?thesis
    proof (cases "a \<le> b \<or> p \<le> 0")
      case True
      have flat: "run_out hops x - x \<le> 0" if "1 \<le> x" "x \<le> most" for x
        by (rule edgeless_profit [OF pos _ up True that]) (use out that in simp)
      have "optimize_route u r lim
          = empty_result r lim NO_POSITIVE_CONTINUOUS_EDGE most 0 0 0 (if a \<le> b then 0 else ?full) True"
        using True False abc p full_iff by (cases "a \<le> b") (simp_all add: start)
      moreover have "(if a \<le> b then 0 else ?full) \<le> 0" using True full_iff by auto
      ultimately show ?thesis using edgeless_result [OF lim sol one _ flat] by simp
    next
      case gain: False
      let ?pr = "(hops, (a, b, c), most)"
      have full: "problem_bound ?pr 1 most = ?full" "0 < ?full" "?full \<le> MAX_UINT256"
        using p full_iff gain by (simp_all add: problem_bound_def)
      have ok: "problem_ok ?pr"
        using gain pos out one range full run_out_range [OF hops] by (simp add: problem_ok_def)
      let ?s = "\<lparr>se_queue = [(- ?full, 1, most)], se_best_profit = 0, se_best_input = 0, se_best_output = 0,
        se_evaluated_inputs = 0, se_explored_intervals = 0, se_pruned_intervals = 0\<rparr>"
      have "search_inv lim ?pr ?s"
        using route_search.frontier_start [of ?pr] one full(1) lf
        by (simp add: search_inv_def best_inv_def best_ok_def problem_top_def)
      then obtain finished s where s: "search_intervals u r lim (a, b, c) ?s = Inr (finished, s)"
        and inv: "search_inv lim ?pr s" and fin: "finished \<Longrightarrow> se_queue s = []"
        and spent: "\<not> finished \<Longrightarrow> se_explored_intervals s = ol_maximum_intervals lim"
        using search_intervals_ok [OF ok refl quotes lf(5)] by blast
      have "(?full \<le> 0) = False" using full_iff gain by simp
      note run = start False gain abc p s this
      consider "\<not> finished" | "finished" "se_best_profit s \<le> 0" | "finished" "0 < se_best_profit s"
        by linarith
      then show ?thesis
      proof cases
        case 1
        then show ?thesis using exhausted_result [OF ok refl lim sol inv full spent] run by simp
      next
        case 2
        then show ?thesis using unprofitable_result [OF ok refl lim sol inv full(2,3) fin] run by simp
      next
        case 3
        then show ?thesis using searched_result [OF ok refl lim sol inv full(1) fin] run by simp
      qed
    qed
  qed
qed

end
