(* ===== verification/Examples_Pools.thy ===== *)
theory Examples_Pools
  imports Examples Route_Enumeration Optimizer_Correct
begin

text \<open>
  Two constant-product pools of the same two tokens, their universe, the route through both of
  them and limits for the optimiser: inputs at which the hypotheses of the properties about
  pools, routes and the optimiser hold. Digests stay symbolic.
\<close>

definition small_json :: "json \<Rightarrow> bool" where
  "small_json v \<longleftrightarrow> json_bound v \<le> 50000 \<and> json_depth v \<le> 8 \<and> json_items v \<le> 1000 \<and> \<not> has_huge_int v"

lemma small_json_digest:
  assumes "small_json v"
  shows "is_ok (canonical_json_bytes v)" "canonical_sha256 v = Inr (json_sha256 v)"
    "length (json_sha256 v) = 64"
proof -
  have "canonical_json_bytes v = Inr (utf8_bytes (json_dump v))"
    using assms by (intro canonical_json_okI)
      (simp_all add: small_json_def DEFAULT_MAX_DEPTH_def DEFAULT_MAX_ITEMS_def DEFAULT_MAX_JSON_BYTES_def)
  then show "is_ok (canonical_json_bytes v)" "canonical_sha256 v = Inr (json_sha256 v)"
    by (simp_all add: is_ok_iff canonical_sha256_iff)
  show "length (json_sha256 v) = 64" using json_sha256_text [of v] by (simp add: is_sha256_text_def)
qed

lemma small_json_digested: "small_json v \<Longrightarrow> \<exists>d. rbind (Inr v) canonical_sha256 = Inr d \<and> length d = 64"
  using small_json_digest by simp

definition ex_anchor :: block_state_anchor where
  "ex_anchor = \<lparr>an_head_observation = genesis_envelope, an_state_observation = genesis_envelope,
     an_block_number = 0, an_block_hash = replicate 32 1, an_state_root = EMPTY_TRIE_ROOT\<rparr>"

definition ex_evidence :: "bytes \<Rightarrow> state_proof_evidence" where
  "ex_evidence address = \<lparr>ev_anchor = ex_anchor, ev_proof_observation = child_envelope,
     ev_verified = \<lparr>vp_proof = absent_account\<lparr>st_address := address\<rparr>, vp_account_exists = True,
       vp_account_terminal = ABSENT_EMPTY_TRIE, vp_account_used_node_hashes = [], vp_storage_values = []\<rparr>\<rparr>"

definition ex_field :: "int \<Rightarrow> int \<Rightarrow> int \<Rightarrow> packed_field" where
  "ex_field slot offset width =
    \<lparr>pf_slot = to_bytes_be 32 slot, pf_bit_offset = offset, pf_bit_width = width\<rparr>"

definition ex_implementation :: implementation_spec where
  "ex_implementation = \<lparr>im_implementation_id = ''pair'', im_code_hash = replicate 32 2,
     im_token0_field = ex_field 6 0 160, im_token1_field = ex_field 7 0 160,
     im_reserve0_field = ex_field 8 0 112, im_reserve1_field = ex_field 8 112 112,
     im_fee_numerator = 997, im_fee_denominator = 1000\<rparr>"

definition ex_pool :: "bytes \<Rightarrow> int \<Rightarrow> int \<Rightarrow> authenticated_pool" where
  "ex_pool address r0 r1 =
    \<lparr>ap_spec = \<lparr>ps_spec_id = ''pool'', ps_chain = ETHEREUM, ps_pool_address = address,
       ps_token0 = replicate 20 3, ps_token1 = replicate 20 4, ps_implementation = ex_implementation\<rparr>,
     ap_evidence = ex_evidence address, ap_reserve0 = r0, ap_reserve1 = r1\<rparr>"

definition pool_one :: authenticated_pool where "pool_one = ex_pool (replicate 20 5) 1000 3000"
definition pool_two :: authenticated_pool where "pool_two = ex_pool (replicate 20 6) 1000 1000"

definition ex_universe :: pool_universe where
  "ex_universe = \<lparr>pu_snapshot = \<lparr>sn_anchor = ex_anchor, sn_accounts = [ex_evidence (replicate 20 5), ex_evidence (replicate 20 6)]\<rparr>,
     pu_model_registry = \<lparr>mr_registry_id = ''models'', mr_implementations = [ex_implementation]\<rparr>,
     pu_pools = [pool_one, pool_two]\<rparr>"

definition ex_legs :: "route_leg list" where
  "ex_legs = [\<lparr>rl_pool_address = replicate 20 5, rl_token_in = replicate 20 3, rl_token_out = replicate 20 4\<rparr>,
              \<lparr>rl_pool_address = replicate 20 6, rl_token_in = replicate 20 4, rl_token_out = replicate 20 3\<rparr>]"

definition ex_route :: cp_route where
  "ex_route = \<lparr>rt_universe_sha256 = (case pu_digest ex_universe of Inr d \<Rightarrow> d | Inl _ \<Rightarrow> ''''), rt_legs = ex_legs\<rparr>"

definition ex_limits :: optimization_limits where
  "ex_limits = \<lparr>ol_maximum_input = 500, ol_maximum_intervals = 100, ol_exhaustive_threshold = 32\<rparr>"

lemma ex_numbers:
  "length (str_of_int 0) = 1" "length (str_of_int 1) = 1" "length (str_of_int 2) = 1" "length (str_of_int 7) = 1"
  "length (str_of_int 9) = 1" "length (str_of_int 32) = 2"
  "length (str_of_int 100) = 3" "length (str_of_int 112) = 3" "length (str_of_int 160) = 3"
  "length (str_of_int 500) = 3" "length (str_of_int 997) = 3" "length (str_of_int 1000) = 4" "length (str_of_int 3000) = 4"
  by (simp_all add: str_of_int_def str_of_nat.simps dec_digit_def)

lemma ex_envelope_digest: "\<exists>d. envelope_digest genesis_envelope = Inr d \<and> length d = 64"
  "\<exists>d. envelope_digest child_envelope = Inr d \<and> length d = 64"
  using example_digests by (auto simp: is_ok_iff envelope_digest_def canonical_sha256_iff digest_lengths)

lemma ex_lengths:
  "length EMPTY_TRIE_ROOT = 32" "length EMPTY_CODE_HASH = 32"
  by (simp_all add: EMPTY_TRIE_ROOT_eq EMPTY_CODE_HASH_def)

lemma ex_anchor_json:
  "\<exists>v. EvmBlockStateAnchor_to_json ex_anchor = Inr v \<and> small_json v \<and> json_bound v \<le> 4500
    \<and> json_depth v \<le> 1 \<and> json_items v \<le> 20"
proof -
  obtain d where "envelope_digest genesis_envelope = Inr d" "length d = 64" using ex_envelope_digest(1) by blast
  then show ?thesis
    by (simp add: EvmBlockStateAnchor_to_json_def ex_anchor_def an_chain_def an_source_id_def an_finality_def
        an_state_source_sequence_def an_state_observed_at_def small_json_def ex_numbers ex_lengths)
qed

lemma ex_anchor_digest: "\<exists>d. EvmBlockStateAnchor_digest ex_anchor = Inr d \<and> length d = 64"
  using ex_anchor_json small_json_digest by (auto simp: EvmBlockStateAnchor_digest_def)

lemma ex_evidence_json:
  assumes "length address = 20"
  shows "\<exists>v. EvmStateProofEvidence_to_json (ex_evidence address) = Inr v \<and> small_json v \<and> json_bound v \<le> 8000
    \<and> json_depth v \<le> 2 \<and> json_items v \<le> 30"
proof -
  obtain d where d: "EvmBlockStateAnchor_digest ex_anchor = Inr d" "length d = 64" using ex_anchor_digest by blast
  obtain c where c: "envelope_digest child_envelope = Inr c" "length c = 64" using ex_envelope_digest(2) by blast
  have zero: "to_decimal 0 = Inr ''0''" by code_simp
  show ?thesis
    using assms d c
    by (simp add: EvmStateProofEvidence_to_json_def ex_evidence_def ex_anchor_def [symmetric] zero absent_account_def
        ev_chain_def an_chain_def ev_address_def ev_account_exists_def ev_code_hash_def ev_storage_values_def
        an_source_id_def an_finality_def small_json_def ex_numbers ex_lengths STATE_PROOF_EVIDENCE_SCHEMA_def)
      (simp add: ex_anchor_def ex_numbers ex_lengths)
qed

lemma ex_evidence_digest:
  "length address = 20 \<Longrightarrow> \<exists>d. EvmStateProofEvidence_digest (ex_evidence address) = Inr d \<and> length d = 64"
  using ex_evidence_json small_json_digest by (fastforce simp: EvmStateProofEvidence_digest_def)

lemma ex_implementation_json:
  "json_bound (ConstantProductImplementationSpec_to_json ex_implementation) \<le> 8000"
  "json_depth (ConstantProductImplementationSpec_to_json ex_implementation) \<le> 2"
  "json_items (ConstantProductImplementationSpec_to_json ex_implementation) \<le> 50"
  "\<not> has_huge_int (ConstantProductImplementationSpec_to_json ex_implementation)"
  by (simp_all add: ConstantProductImplementationSpec_to_json_def ex_implementation_def ex_field_def
      PackedStorageField_to_json_def ex_numbers IMPLEMENTATION_SCHEMA_def)

lemma ex_pool_json:
  assumes "length address = 20" "r0 \<in> {1000, 3000}" "r1 \<in> {1000, 3000}"
  shows "\<exists>v. AuthenticatedConstantProductPool_to_json (ex_pool address r0 r1) = Inr v \<and> small_json v
    \<and> json_bound v \<le> 15000 \<and> json_depth v \<le> 4 \<and> json_items v \<le> 100"
proof -
  obtain d where d: "EvmStateProofEvidence_digest (ex_evidence address) = Inr d" "length d = 64"
    using ex_evidence_digest [OF assms(1)] by blast
  have r: "length (str_of_int r0) = 4" "length (str_of_int r1) = 4" using assms ex_numbers by auto
  have s: "length (im_digest i) = 64" "length (ps_digest s) = 64" for i s
    by (simp_all add: im_digest_def ps_digest_def digest_lengths)
  show ?thesis
    using assms(1) d r s ex_implementation_json
    by (simp add: AuthenticatedConstantProductPool_to_json_def ex_pool_def ConstantProductPoolSpec_to_json_def
        small_json_def AUTHENTICATED_POOL_SCHEMA_def POOL_SPEC_SCHEMA_def)
qed

lemma ex_pool_digest:
  assumes "length address = 20" "r0 \<in> {1000, 3000}" "r1 \<in> {1000, 3000}"
  shows "\<exists>d. ap_digest (ex_pool address r0 r1) = Inr d \<and> length d = 64"
proof -
  obtain v where "AuthenticatedConstantProductPool_to_json (ex_pool address r0 r1) = Inr v" "small_json v"
    using ex_pool_json [OF assms] by blast
  then show ?thesis using small_json_digested by (simp add: ap_digest_def)
qed

lemma ex_capacity: "pf_capacity (ex_field 8 0 112) = 2 ^ 112 - 1" "pf_capacity (ex_field 8 112 112) = 2 ^ 112 - 1"
  by (simp_all add: pf_capacity_eq ex_field_def)

lemma ex_pool_ok:
  assumes "length address = 20" "address \<noteq> zero_bytes 20" "r0 \<in> {1000, 3000}" "r1 \<in> {1000, 3000}"
  shows "pool_ok (ex_pool address r0 r1)"
proof -
  have "is_ok (ap_digest (ex_pool address r0 r1))" using ex_pool_digest [of address r0 r1] assms by (auto simp: is_ok_iff)
  moreover have "replicate 20 3 \<noteq> zero_bytes 20" "replicate 20 4 \<noteq> zero_bytes 20" "replicate 20 3 \<noteq> (replicate 20 4 :: bytes)"
    by code_simp+
  moreover have "pf_bit_width (ex_field 8 0 112) = 112" "pf_bit_width (ex_field 8 112 112) = 112"
    by (simp_all add: ex_field_def)
  ultimately show ?thesis
    using assms
    by (auto simp: pool_ok_def Let_def ex_pool_def ap_implementation_def ap_pool_address_def ap_token0_def ap_token1_def
        address_ok_def ex_implementation_def ex_capacity MAX_FEE_DENOMINATOR_def)
qed

lemma ex_addresses:
  "replicate 20 5 \<noteq> zero_bytes 20" "replicate 20 6 \<noteq> zero_bytes 20" "replicate 20 5 \<noteq> (replicate 20 6 :: bytes)"
  by code_simp+

lemma ex_universe_wf: "universe_wf ex_universe"
  using ex_pool_ok ex_addresses
  by (simp add: universe_wf_def universe_ok_def ex_universe_def pool_one_def pool_two_def)
    (simp add: ex_pool_def ap_pool_address_def)

lemma ex_snapshot_digest: "\<exists>d. EvmStateSnapshot_digest (pu_snapshot ex_universe) = Inr d \<and> length d = 64"
proof -
  obtain a where a: "EvmBlockStateAnchor_to_json ex_anchor = Inr a" "json_bound a \<le> 4500" "json_depth a \<le> 1"
    "json_items a \<le> 20" "\<not> has_huge_int a" using ex_anchor_json by (auto simp: small_json_def)
  obtain ad where ad: "EvmBlockStateAnchor_digest ex_anchor = Inr ad" "length ad = 64" using ex_anchor_digest by blast
  obtain e5 where e5: "EvmStateProofEvidence_to_json (ex_evidence (replicate 20 5)) = Inr e5" "json_bound e5 \<le> 8000"
    "json_depth e5 \<le> 2" "json_items e5 \<le> 30" "\<not> has_huge_int e5"
    using ex_evidence_json [of "replicate 20 5"] by (auto simp: small_json_def)
  obtain e6 where e6: "EvmStateProofEvidence_to_json (ex_evidence (replicate 20 6)) = Inr e6" "json_bound e6 \<le> 8000"
    "json_depth e6 \<le> 2" "json_items e6 \<le> 30" "\<not> has_huge_int e6"
    using ex_evidence_json [of "replicate 20 6"] by (auto simp: small_json_def)
  obtain d5 where d5: "EvmStateProofEvidence_digest (ex_evidence (replicate 20 5)) = Inr d5" "length d5 = 64"
    using ex_evidence_digest [of "replicate 20 5"] by auto
  obtain d6 where d6: "EvmStateProofEvidence_digest (ex_evidence (replicate 20 6)) = Inr d6" "length d6 = 64"
    using ex_evidence_digest [of "replicate 20 6"] by auto
  let ?v = "JObj [(''schema'', JStr STATE_SNAPSHOT_SCHEMA), (''anchor'', a), (''anchor_sha256'', JStr ad),
    (''accounts'', JArr [e5, e6]), (''account_evidence_sha256'', JArr [JStr d5, JStr d6])]"
  have json: "EvmStateSnapshot_to_json (pu_snapshot ex_universe) = Inr ?v"
    using a(1) ad(1) e5(1) e6(1) d5(1) d6(1) by (simp add: EvmStateSnapshot_to_json_def ex_universe_def)
  have "small_json ?v"
    using a(2-) ad(2) e5(2-) e6(2-) d5(2) d6(2) by (simp add: small_json_def STATE_SNAPSHOT_SCHEMA_def)
  then show ?thesis unfolding EvmStateSnapshot_digest_def json by (rule small_json_digested)
qed

lemma ex_universe_digest: "\<exists>d. pu_digest ex_universe = Inr d"
proof -
  obtain sd where sd: "EvmStateSnapshot_digest (pu_snapshot ex_universe) = Inr sd" "length sd = 64"
    using ex_snapshot_digest by blast
  obtain p1 where p1: "AuthenticatedConstantProductPool_to_json pool_one = Inr p1" "json_bound p1 \<le> 15000"
    "json_depth p1 \<le> 4" "json_items p1 \<le> 100" "\<not> has_huge_int p1"
    using ex_pool_json [of "replicate 20 5" 1000 3000] by (auto simp: small_json_def pool_one_def)
  obtain p2 where p2: "AuthenticatedConstantProductPool_to_json pool_two = Inr p2" "json_bound p2 \<le> 15000"
    "json_depth p2 \<le> 4" "json_items p2 \<le> 100" "\<not> has_huge_int p2"
    using ex_pool_json [of "replicate 20 6" 1000 1000] by (auto simp: small_json_def pool_two_def)
  obtain q1 where q1: "ap_digest pool_one = Inr q1" "length q1 = 64"
    using ex_pool_digest [of "replicate 20 5" 1000 3000] by (auto simp: pool_one_def)
  obtain q2 where q2: "ap_digest pool_two = Inr q2" "length q2 = 64"
    using ex_pool_digest [of "replicate 20 6" 1000 1000] by (auto simp: pool_two_def)
  have s: "length (im_digest i) = 64" "length (mr_digest m) = 64" for i m
    by (simp_all add: im_digest_def mr_digest_def digest_lengths)
  let ?m = "\<lparr>mr_registry_id = ''models'', mr_implementations = [ex_implementation]\<rparr>"
  let ?v = "JObj [(''schema'', JStr POOL_UNIVERSE_SCHEMA), (''state_snapshot_sha256'', JStr sd),
      (''model_registry'', ConstantProductModelRegistry_to_json ?m), (''model_registry_sha256'', JStr (mr_digest ?m)),
      (''pools'', JArr [p1, p2]), (''pool_sha256'', JArr [JStr q1, JStr q2]),
      (''opportunity_authority'', JStr ''authenticated-state-explicit-model-gross-shadow-only'')]"
  have "pu_pools ex_universe = [pool_one, pool_two]" "pu_model_registry ex_universe = ?m"
    by (simp_all add: ex_universe_def)
  then have json: "PoolUniverse_to_json ex_universe = Inr ?v"
    using sd(1) p1(1) p2(1) q1(1) q2(1) by (simp add: PoolUniverse_to_json_def)
  have "small_json ?v"
    using sd(2) p1(2-) p2(2-) q1(2) q2(2) s ex_implementation_json
    by (simp add: small_json_def ConstantProductModelRegistry_to_json_def POOL_UNIVERSE_SCHEMA_def MODEL_REGISTRY_SCHEMA_def)
  from small_json_digested [OF this] show ?thesis unfolding pu_digest_def json by blast
qed

lemma ex_route_cyclic:
  "route_ok ex_route" "route_validate_against ex_route ex_universe = Inr ()" "rt_base_token ex_route = replicate 20 3"
proof -
  obtain d where d: "pu_digest ex_universe = Inr d" using ex_universe_digest by blast
  have valid: "validate_leg ex_universe l = Inr ()" if "l \<in> set ex_legs" for l
    using that unfolding validate_leg_iff [OF ex_universe_wf]
    by (auto simp: ex_legs_def ex_universe_def pool_legs_def pool_one_def pool_two_def
        ex_pool_def ap_pool_address_def ap_token0_def ap_token1_def)
  have "completes ex_universe (replicate 20 3) (replicate 20 3) {} {replicate 20 3} ex_legs"
  proof -
    have "replicate 20 4 \<noteq> (replicate 20 3 :: bytes)" by code_simp
    then show ?thesis using valid ex_addresses by (simp add: ex_legs_def)
  qed
  then have "route_ok ex_route \<and> route_validate_against ex_route ex_universe = Inr () \<and> rt_base_token ex_route = replicate 20 3"
    unfolding cyclic_route_iff [OF ex_universe_wf d]
    using d by (simp add: ex_route_def ex_legs_def MIN_ROUTE_HOPS_def MAX_ROUTE_HOPS_def)
  then show "route_ok ex_route" "route_validate_against ex_route ex_universe = Inr ()"
    "rt_base_token ex_route = replicate 20 3" by blast+
qed

lemma ex_limits_ok: "optimizer_limits_ok ex_limits"
proof -
  have "is_ok (canonical_json_bytes (OptimizationLimits_to_json ex_limits))"
    by (rule small_json_digest) (simp add: small_json_def OptimizationLimits_to_json_def ex_limits_def ex_numbers)
  then show ?thesis
    by (auto simp: optimizer_limits_ok_def OptimizationLimits_post_init_def ex_limits_def is_ok_iff MAX_UINT256_def
        MAX_OPTIMIZER_INTERVALS_def MAX_EXHAUSTIVE_THRESHOLD_def maximum_work_units_def MAX_OPTIMIZER_WORK_UNITS_def)
qed

subsection \<open>Quotes of the example\<close>

lemma ex_universe_ok: "universe_ok ex_universe"
  using ex_universe_wf by (simp add: universe_wf_def)

lemma pool_one_ok: "pool_ok pool_one"
  using ex_pool_ok [of "replicate 20 5" 1000 3000] ex_addresses by (simp add: pool_one_def)

lemma pool_two_ok: "pool_ok pool_two"
  using ex_pool_ok [of "replicate 20 6" 1000 1000] ex_addresses by (simp add: pool_two_def)

lemma pool_one_supports: "supports_token pool_one (replicate 20 3)"
  by (simp add: supports_token_def pool_one_def ex_pool_def ap_token0_def)

definition ex_hops :: "hop list" where
  "ex_hops = [(pool_one, 1000, 3000, 2 ^ 112 - 1), (pool_two, 1000, 1000, 2 ^ 112 - 1)]"

lemma ex_sides:
  "reserve_pair pool_one (replicate 20 3) = Inr (1000, 3000, 2 ^ 112 - 1)"
  "reserve_pair pool_two (replicate 20 4) = Inr (1000, 1000, 2 ^ 112 - 1)"
  "other_token pool_one (replicate 20 3) = Inr (replicate 20 4)"
  "other_token pool_two (replicate 20 4) = Inr (replicate 20 3)"
proof -
  have "replicate 20 3 \<noteq> zero_bytes 20" "replicate 20 4 \<noteq> zero_bytes 20" "replicate 20 4 \<noteq> (replicate 20 3 :: bytes)"
    by code_simp+
  then show "reserve_pair pool_one (replicate 20 3) = Inr (1000, 3000, 2 ^ 112 - 1)"
    "reserve_pair pool_two (replicate 20 4) = Inr (1000, 1000, 2 ^ 112 - 1)"
    "other_token pool_one (replicate 20 3) = Inr (replicate 20 4)"
    "other_token pool_two (replicate 20 4) = Inr (replicate 20 3)"
    by (simp_all add: reserve_pair_def other_token_def require_bytes_def pool_one_def pool_two_def ex_pool_def
        ap_token0_def ap_token1_def ap_implementation_def ex_implementation_def ex_capacity)
qed

lemma ex_hops_ok: "route_hops ex_universe (rt_legs ex_route) ex_hops"
proof -
  have "get_pool ex_universe (replicate 20 5) = Inr pool_one" "get_pool ex_universe (replicate 20 6) = Inr pool_two"
    unfolding get_pool_wf [OF ex_universe_wf]
    by (simp_all add: ex_universe_def pool_one_def pool_two_def ex_pool_def ap_pool_address_def)
  moreover have "ap_pool_address pool_one = replicate 20 5" "ap_pool_address pool_two = replicate 20 6"
    by (simp_all add: pool_one_def pool_two_def ex_pool_def ap_pool_address_def)
  ultimately show ?thesis
    using pool_one_ok pool_two_ok ex_sides
    by (simp add: route_hops_def ex_hops_def ex_route_def ex_legs_def leg_hop_def)
qed

lemma ex_fees: "ap_implementation pool_one = ex_implementation" "ap_implementation pool_two = ex_implementation"
  "im_fee_numerator ex_implementation = 997" "im_fee_denominator ex_implementation = 1000"
  by (simp_all add: ap_implementation_def pool_one_def pool_two_def ex_pool_def ex_implementation_def)

lemma ex_hops_run: "run_accepts ex_hops 100" "run_out ex_hops 100 = 212"
  by (simp_all add: ex_hops_def pool_accepts_def fits_def swap_out_def ex_fees MAX_UINT256_def)

lemma ex_route_quote: "\<exists>q. route_quote_exact_in ex_route ex_universe 100 = Inr q"
  using route_quote_eq [OF ex_route_cyclic(1,2) ex_hops_ok, of 100] ex_hops_run by (auto simp: MAX_UINT256_def)

lemma pool_one_quote: "\<exists>q. pool_quote_exact_in pool_one (replicate 20 3) 100 = Inr q"
  using pool_quote_eq [OF pool_one_ok ex_sides(1), of 100]
  by (simp add: pool_accepts_def fits_def ex_fees MAX_UINT256_def)

text \<open>The enumeration over the two pools, turn by turn.\<close>

definition ex_leg :: "bytes \<Rightarrow> bytes \<Rightarrow> bytes \<Rightarrow> route_leg" where
  "ex_leg p t t' = \<lparr>rl_pool_address = p, rl_token_in = t, rl_token_out = t'\<rparr>"

lemma ex_enumeration: "\<exists>routes. enumerate_simple_cycles ex_universe (replicate 20 3) 2 = Inr routes"
proof -
  obtain d where d: "pu_digest ex_universe = Inr d" using ex_universe_digest by blast
  define a b p q where "a = (replicate 20 3 :: bytes)" and "b = (replicate 20 4 :: bytes)"
    and "p = (replicate 20 5 :: bytes)" and "q = (replicate 20 6 :: bytes)"
  note names = this
  have diff: "a \<noteq> b" "b \<noteq> a" "p \<noteq> q" "q \<noteq> p" "p < q" "\<not> q < p" "\<not> q \<le> p" "p \<le> q" unfolding names by code_simp+
  have zero: "a \<noteq> zero_bytes 20" "length a = 20" unfolding names by code_simp+
  let ?adj = "[(a, [ex_leg p a b, ex_leg q a b]), (b, [ex_leg p b a, ex_leg q b a])]"
  have legs: "pool_legs pool_one = [ex_leg p a b, ex_leg p b a]" "pool_legs pool_two = [ex_leg q a b, ex_leg q b a]"
    by (simp_all add: pool_legs_def pool_one_def pool_two_def ex_pool_def ap_pool_address_def ap_token0_def ap_token1_def
        ex_leg_def names)
  have pools: "pu_pools ex_universe = [pool_one, pool_two]" by (simp add: ex_universe_def)
  have adj: "build_adjacency ex_universe = Inr ?adj"
    using diff
    by (simp add: build_adjacency_def pools directional_legs_ok pool_one_ok pool_two_ok legs add_leg_def dict_get_def
        dict_set_def) (simp add: ex_leg_def)
  have valid: "validate_leg ex_universe l = Inr ()" if "l \<in> {ex_leg p a b, ex_leg p b a, ex_leg q a b, ex_leg q b a}" for l
    using that unfolding validate_leg_iff [OF ex_universe_wf] pools by (auto simp: legs)
  have route: "ConstantProductRoute_post_init \<lparr>rt_universe_sha256 = d, rt_legs = [ex_leg x a b, ex_leg y b a]\<rparr>
      = Inr \<lparr>rt_universe_sha256 = d, rt_legs = [ex_leg x a b, ex_leg y b a]\<rparr>" if "(x, y) \<in> {(p, q), (q, p)}" for x y
  proof -
    let ?r = "\<lparr>rt_universe_sha256 = d, rt_legs = [ex_leg x a b, ex_leg y b a]\<rparr>"
    have "completes ex_universe a a {} {a} (rt_legs ?r)" using that diff valid by (auto simp: ex_leg_def)
    moreover have "rt_universe_sha256 ?r = d" "MIN_ROUTE_HOPS \<le> length (rt_legs ?r)" "length (rt_legs ?r) \<le> MAX_ROUTE_HOPS"
      by (simp_all add: MIN_ROUTE_HOPS_def MAX_ROUTE_HOPS_def)
    ultimately have "route_ok ?r" using cyclic_route_iff [OF ex_universe_wf d, of ?r a] by blast
    then show ?thesis by (simp add: route_ok_def)
  qed
  have adjacent: "legs_from ?adj a = [ex_leg p a b, ex_leg q a b]" "legs_from ?adj b = [ex_leg p b a, ex_leg q b a]"
    using diff by (simp_all add: legs_from_def dict_get_def)
  have sides: "rl_token_out (ex_leg x t t') = t'" "rl_pool_address (ex_leg x t t') = x" for x t t'
    by (simp_all add: ex_leg_def)
  have "\<exists>s. visit ex_universe ?adj a 2 a [] [] [a] \<lparr>en_steps = 0, en_digests = [], en_routes = []\<rparr> = Inr s"
    using diff
    by (simp add: visit_unfold adjacent visit_leg_def Let_def sides d route record_route_def MIN_ROUTE_HOPS_def
        MAX_ENUMERATION_STEPS_def MAX_ENUMERATED_ROUTES_def)
  then have "\<exists>routes. enumerate_simple_cycles ex_universe a 2 = Inr routes"
    using zero by (auto simp: enumerate_simple_cycles_def require_address_def MIN_ROUTE_HOPS_def MAX_ROUTE_HOPS_def adj)
  then show ?thesis by (simp add: names)
qed

end
