(* ===== verification/Ledger.thy ===== *)
theory Ledger
  imports Observation Pydict
begin

text \<open>
  \<open>src/aladdin_mev_engine/ledger.py\<close>: the append-only ledger of observations. A segment is a
  hash-chained list of records followed by a manifest that commits to them; the builder
  appends envelopes and seals a segment, \<open>validate_segment\<close> checks one on its own,
  \<open>validate_segment_chain\<close> a sequence of them, and a segment is written and read as lines of
  canonical JSON.
\<close>

definition ZERO_SHA256 :: string where "ZERO_SHA256 = replicate 64 (CHR ''0'')"
definition MAX_SEGMENT_RECORDS :: nat where "MAX_SEGMENT_RECORDS = 10000"
definition MAX_SEGMENT_BYTES :: nat where "MAX_SEGMENT_BYTES = 16 * 1048576"

text \<open>\<open>^[a-z0-9](?:[a-z0-9._-]{0,126}[a-z0-9])?$\<close>\<close>

definition is_segment_id :: "string \<Rightarrow> bool" where
  "is_segment_id s \<longleftrightarrow>
    s \<noteq> [] \<and> length s \<le> 128 \<and> is_lower_alnum (hd s) \<and> is_lower_alnum (last s)
    \<and> list_all (\<lambda>c. is_lower_alnum c \<or> c \<in> set ''._-'') s"

definition require_segment_id :: "string \<Rightarrow> string result" where
  "require_segment_id v =
    (if is_segment_id v then Inr v
     else Inl (ValueError ''segment_id must be a canonical lowercase identifier''))"

subsection \<open>Checkpoints\<close>

record source_checkpoint =
  cp_source_id :: string
  cp_source_sequence :: int
  cp_observed_at_unix_ms :: int

definition SourceCheckpoint_post_init :: "source_checkpoint \<Rightarrow> source_checkpoint result" where
  "SourceCheckpoint_post_init self =
    rbind (get_source_contract (cp_source_id self)) (\<lambda>_.
    rbind (require_u64 ''source_sequence'' (cp_source_sequence self)) (\<lambda>_.
    rbind (require_u64 ''observed_at_unix_ms'' (cp_observed_at_unix_ms self)) (\<lambda>_. Inr self)))"

definition SourceCheckpoint_to_json :: "source_checkpoint \<Rightarrow> json" where
  "SourceCheckpoint_to_json self = JObj
    [(''source_sequence'', JStr (str_of_int (cp_source_sequence self))),
     (''observed_at_unix_ms'', JStr (str_of_int (cp_observed_at_unix_ms self)))]"

definition SourceCheckpoint_from_json :: "string \<Rightarrow> json \<Rightarrow> source_checkpoint result" where
  "SourceCheckpoint_from_json source_id v =
    rbind (exact_dict ''source checkpoint must be an exact JSON object'' v) (\<lambda>d.
    rbind (require_exact_keys ''source checkpoint'' d [''source_sequence'', ''observed_at_unix_ms'']) (\<lambda>_.
    rbind (parse_decimal ''source_sequence'' (jfield d ''source_sequence'') MAX_U64) (\<lambda>sequence.
    rbind (parse_decimal ''observed_at_unix_ms'' (jfield d ''observed_at_unix_ms'') MAX_U64) (\<lambda>observed.
    SourceCheckpoint_post_init
      \<lparr>cp_source_id = source_id, cp_source_sequence = sequence, cp_observed_at_unix_ms = observed\<rparr>))))"

definition require_checkpoints ::
  "string \<Rightarrow> source_checkpoint list \<Rightarrow> bool \<Rightarrow> source_checkpoint list result" where
  "require_checkpoints name v allow_empty =
    (if v = [] \<and> \<not> allow_empty then Inl (ValueError (name @ '' must not be empty''))
     else let source_ids = map cp_source_id v in
       if source_ids \<noteq> sort source_ids \<or> has_duplicate source_ids
       then Inl (ValueError (name @ '' must be unique and sorted by source_id''))
       else Inr v)"

definition checkpoint_map :: "source_checkpoint list \<Rightarrow> (string, source_checkpoint) dict" where
  "checkpoint_map checkpoints = foldl (\<lambda>d c. dict_set (cp_source_id c) c d) [] checkpoints"

definition checkpoints_from_maps ::
  "(string, int) dict \<Rightarrow> (string, int) dict \<Rightarrow> source_checkpoint list result" where
  "checkpoints_from_maps sequences observed_times =
    (if set (dict_keys sequences) \<noteq> set (dict_keys observed_times)
     then Inl (RuntimeError ''checkpoint authority maps disagree'')
     else rmap (\<lambda>source_id. SourceCheckpoint_post_init
           \<lparr>cp_source_id = source_id,
            cp_source_sequence = the (dict_get sequences source_id),
            cp_observed_at_unix_ms = the (dict_get observed_times source_id)\<rparr>)
        (sort (dict_keys sequences)))"

definition latest_observed :: "source_checkpoint list \<Rightarrow> int" where
  "latest_observed checkpoints = Max (set (map cp_observed_at_unix_ms checkpoints))"

subsection \<open>Records\<close>

record ledger_record =
  lr_segment_id :: string
  lr_ordinal :: int
  lr_previous_record_sha256 :: string
  lr_envelope :: envelope

definition RECORD_SCHEMA :: string where
  "RECORD_SCHEMA = ''aladdin-mev-observation-ledger-record/v1''"

definition LedgerRecord_post_init :: "ledger_record \<Rightarrow> ledger_record result" where
  "LedgerRecord_post_init self =
    rbind (require_segment_id (lr_segment_id self)) (\<lambda>_.
    if \<not> (0 \<le> lr_ordinal self \<and> lr_ordinal self < int MAX_SEGMENT_RECORDS)
    then Inl (ValueError ''ordinal is outside the governed range'')
    else rbind (require_sha256 ''previous_record_sha256'' (lr_previous_record_sha256 self)) (\<lambda>_.
      Inr self))"

definition LedgerRecord_unsigned_json :: "ledger_record \<Rightarrow> (string \<times> json) list result" where
  "LedgerRecord_unsigned_json self =
    rbind (envelope_digest (lr_envelope self)) (\<lambda>envelope_sha256.
    rbind (ObservationEnvelope_to_json (lr_envelope self)) (\<lambda>envelope_json.
    Inr [(''schema'', JStr RECORD_SCHEMA),
         (''segment_id'', JStr (lr_segment_id self)),
         (''ordinal'', JStr (str_of_int (lr_ordinal self))),
         (''previous_record_sha256'', JStr (lr_previous_record_sha256 self)),
         (''envelope_sha256'', JStr envelope_sha256),
         (''envelope'', envelope_json)]))"

definition record_sha256 :: "ledger_record \<Rightarrow> string result" where
  "record_sha256 self = rbind (LedgerRecord_unsigned_json self) (\<lambda>kvs. canonical_sha256 (JObj kvs))"

definition LedgerRecord_to_json :: "ledger_record \<Rightarrow> json result" where
  "LedgerRecord_to_json self =
    rbind (LedgerRecord_unsigned_json self) (\<lambda>kvs.
    rbind (record_sha256 self) (\<lambda>digest. Inr (JObj (kvs @ [(''record_sha256'', JStr digest)]))))"

definition RECORD_KEYS :: "string list" where
  "RECORD_KEYS =
    [''schema'', ''segment_id'', ''ordinal'', ''previous_record_sha256'', ''envelope_sha256'',
     ''envelope'', ''record_sha256'']"

definition require_segment_id_json :: "json \<Rightarrow> string result" where
  "require_segment_id_json v = exact_str ''segment_id must be a canonical lowercase identifier'' v"

definition LedgerRecord_from_json :: "json \<Rightarrow> ledger_record result" where
  "LedgerRecord_from_json v =
    rbind (exact_dict ''ledger record must be an exact JSON object'' v) (\<lambda>d.
    rbind (require_exact_keys ''ledger record'' d RECORD_KEYS) (\<lambda>_.
    if jfield d ''schema'' \<noteq> JStr RECORD_SCHEMA
    then Inl (ValueError ''unknown ledger record schema'')
    else
    rbind (require_sha256_json ''previous_record_sha256'' (jfield d ''previous_record_sha256'')) (\<lambda>previous.
    rbind (require_sha256_json ''envelope_sha256'' (jfield d ''envelope_sha256'')) (\<lambda>declared_envelope.
    rbind (require_sha256_json ''record_sha256'' (jfield d ''record_sha256'')) (\<lambda>declared_record.
    rbind (ObservationEnvelope_from_json (jfield d ''envelope'')) (\<lambda>envelope.
    rbind (parse_decimal ''ordinal'' (jfield d ''ordinal'') (int MAX_SEGMENT_RECORDS - 1)) (\<lambda>ordinal.
    rbind (require_segment_id_json (jfield d ''segment_id'')) (\<lambda>segment_id.
    rbind (LedgerRecord_post_init
      \<lparr>lr_segment_id = segment_id, lr_ordinal = ordinal, lr_previous_record_sha256 = previous,
       lr_envelope = envelope\<rparr>) (\<lambda>rec.
    rbind (envelope_digest envelope) (\<lambda>envelope_sha256.
    if declared_envelope \<noteq> envelope_sha256
    then Inl (ValueError ''ledger envelope digest mismatch'')
    else rbind (record_sha256 rec) (\<lambda>digest.
    if declared_record \<noteq> digest then Inl (ValueError ''ledger record digest mismatch'')
    else Inr rec)))))))))))"

subsection \<open>Manifests\<close>

record segment_manifest =
  sm_segment_id :: string
  sm_created_at_unix_ms :: int
  sm_previous_segment_sha256 :: string
  sm_record_count :: int
  sm_first_record_sha256 :: string
  sm_last_record_sha256 :: string
  sm_records_root_sha256 :: string
  sm_source_contract_set_sha256 :: string
  sm_starting_source_checkpoints :: "source_checkpoint list"
  sm_ending_source_checkpoints :: "source_checkpoint list"

definition MANIFEST_SCHEMA :: string where
  "MANIFEST_SCHEMA = ''aladdin-mev-observation-segment-manifest/v1''"

definition SegmentManifest_post_init :: "segment_manifest \<Rightarrow> segment_manifest result" where
  "SegmentManifest_post_init self =
    rbind (require_segment_id (sm_segment_id self)) (\<lambda>_.
    rbind (require_u64 ''created_at_unix_ms'' (sm_created_at_unix_ms self)) (\<lambda>_.
    rbind (require_sha256 ''previous_segment_sha256'' (sm_previous_segment_sha256 self)) (\<lambda>_.
    if \<not> (1 \<le> sm_record_count self \<and> sm_record_count self \<le> int MAX_SEGMENT_RECORDS)
    then Inl (ValueError ''record_count is outside the governed range'')
    else
    rbind (rall (\<lambda>(name, digest). require_sha256 name digest)
      [(''first_record_sha256'', sm_first_record_sha256 self),
       (''last_record_sha256'', sm_last_record_sha256 self),
       (''records_root_sha256'', sm_records_root_sha256 self),
       (''source_contract_set_sha256'', sm_source_contract_set_sha256 self)]) (\<lambda>_.
    rbind (require_checkpoints ''starting_source_checkpoints'' (sm_starting_source_checkpoints self) True) (\<lambda>_.
    rbind (require_checkpoints ''ending_source_checkpoints'' (sm_ending_source_checkpoints self) False) (\<lambda>_.
    if (sm_previous_segment_sha256 self = ZERO_SHA256) \<noteq> (sm_starting_source_checkpoints self = [])
    then Inl (ValueError ''genesis segment identity and starting checkpoints are inconsistent'')
    else
    let starting = checkpoint_map (sm_starting_source_checkpoints self);
        ending = checkpoint_map (sm_ending_source_checkpoints self) in
    if \<not> set (dict_keys starting) \<subseteq> set (dict_keys ending)
    then Inl (ValueError ''ending checkpoints cannot drop a previously observed source'')
    else
    rbind (rall (\<lambda>(source_id, checkpoint).
        let final = the (dict_get ending source_id) in
        if cp_source_sequence final < cp_source_sequence checkpoint
        then Inl (ValueError ''ending source sequence moved backwards'')
        else if cp_observed_at_unix_ms final < cp_observed_at_unix_ms checkpoint
        then Inl (ValueError ''ending source observation time moved backwards'')
        else Inr ()) starting) (\<lambda>_.
    if sm_created_at_unix_ms self < latest_observed (sm_ending_source_checkpoints self)
    then Inl (ValueError ''segment creation time precedes its ending source checkpoint'')
    else Inr self)))))))"

definition checkpoints_json :: "source_checkpoint list \<Rightarrow> json" where
  "checkpoints_json checkpoints =
    JObj (foldl (\<lambda>d c. dict_set (cp_source_id c) (SourceCheckpoint_to_json c) d) [] checkpoints)"

definition parse_checkpoints :: "string \<Rightarrow> json \<Rightarrow> source_checkpoint list result" where
  "parse_checkpoints name v =
    rbind (exact_dict (name @ '' must be an exact JSON object'') v) (\<lambda>d.
    rmap (\<lambda>(source_id, checkpoint). SourceCheckpoint_from_json source_id checkpoint) (sort_key fst d))"

definition SegmentManifest_unsigned_json :: "segment_manifest \<Rightarrow> (string \<times> json) list" where
  "SegmentManifest_unsigned_json self =
    [(''schema'', JStr MANIFEST_SCHEMA),
     (''segment_id'', JStr (sm_segment_id self)),
     (''created_at_unix_ms'', JStr (str_of_int (sm_created_at_unix_ms self))),
     (''previous_segment_sha256'', JStr (sm_previous_segment_sha256 self)),
     (''record_count'', JStr (str_of_int (sm_record_count self))),
     (''first_record_sha256'', JStr (sm_first_record_sha256 self)),
     (''last_record_sha256'', JStr (sm_last_record_sha256 self)),
     (''records_root_sha256'', JStr (sm_records_root_sha256 self)),
     (''source_contract_set_sha256'', JStr (sm_source_contract_set_sha256 self)),
     (''starting_source_checkpoints'', checkpoints_json (sm_starting_source_checkpoints self)),
     (''ending_source_checkpoints'', checkpoints_json (sm_ending_source_checkpoints self))]"

definition segment_sha256 :: "segment_manifest \<Rightarrow> string result" where
  "segment_sha256 self = canonical_sha256 (JObj (SegmentManifest_unsigned_json self))"

definition SegmentManifest_to_json :: "segment_manifest \<Rightarrow> json result" where
  "SegmentManifest_to_json self =
    rbind (segment_sha256 self) (\<lambda>digest.
    Inr (JObj (SegmentManifest_unsigned_json self @ [(''segment_sha256'', JStr digest)])))"

definition MANIFEST_KEYS :: "string list" where
  "MANIFEST_KEYS =
    [''schema'', ''segment_id'', ''created_at_unix_ms'', ''previous_segment_sha256'', ''record_count'',
     ''first_record_sha256'', ''last_record_sha256'', ''records_root_sha256'',
     ''source_contract_set_sha256'', ''starting_source_checkpoints'', ''ending_source_checkpoints'',
     ''segment_sha256'']"

definition SegmentManifest_from_json :: "json \<Rightarrow> segment_manifest result" where
  "SegmentManifest_from_json v =
    rbind (exact_dict ''segment manifest must be an exact JSON object'' v) (\<lambda>d.
    rbind (require_exact_keys ''segment manifest'' d MANIFEST_KEYS) (\<lambda>_.
    if jfield d ''schema'' \<noteq> JStr MANIFEST_SCHEMA
    then Inl (ValueError ''unknown segment manifest schema'')
    else
    rbind (rmap (\<lambda>name. require_sha256_json name (jfield d name))
      [''previous_segment_sha256'', ''first_record_sha256'', ''last_record_sha256'',
       ''records_root_sha256'', ''source_contract_set_sha256'', ''segment_sha256'']) (\<lambda>digests.
    rbind (parse_decimal ''created_at_unix_ms'' (jfield d ''created_at_unix_ms'') MAX_U64) (\<lambda>created.
    rbind (parse_decimal ''record_count'' (jfield d ''record_count'') (int MAX_SEGMENT_RECORDS)) (\<lambda>count.
    rbind (parse_checkpoints ''starting_source_checkpoints'' (jfield d ''starting_source_checkpoints'')) (\<lambda>starting.
    rbind (parse_checkpoints ''ending_source_checkpoints'' (jfield d ''ending_source_checkpoints'')) (\<lambda>ending.
    rbind (require_segment_id_json (jfield d ''segment_id'')) (\<lambda>segment_id.
    rbind (SegmentManifest_post_init
      \<lparr>sm_segment_id = segment_id, sm_created_at_unix_ms = created,
       sm_previous_segment_sha256 = digests ! 0, sm_record_count = count,
       sm_first_record_sha256 = digests ! 1, sm_last_record_sha256 = digests ! 2,
       sm_records_root_sha256 = digests ! 3, sm_source_contract_set_sha256 = digests ! 4,
       sm_starting_source_checkpoints = starting, sm_ending_source_checkpoints = ending\<rparr>) (\<lambda>manifest.
    rbind (segment_sha256 manifest) (\<lambda>digest.
    if digests ! 5 \<noteq> digest then Inl (ValueError ''segment manifest digest mismatch'')
    else Inr manifest))))))))))"

subsection \<open>Validation of a segment\<close>

text \<open>The locals of the loop of \<open>validate_segment\<close>.\<close>

record walk_state =
  vw_ordinal :: int
  vw_expected_previous :: string
  vw_last_sequence :: "(string, int) dict"
  vw_last_observed :: "(string, int) dict"
  vw_event_ids :: "(string \<times> string) list"
  vw_digests :: "string list"

definition expected_sequence :: "(string, int) dict \<Rightarrow> string \<Rightarrow> int" where
  "expected_sequence last_sequence source_id =
    (case dict_get last_sequence source_id of None \<Rightarrow> 0 | Some previous \<Rightarrow> previous + 1)"

definition observed_backwards :: "(string, int) dict \<Rightarrow> envelope \<Rightarrow> bool" where
  "observed_backwards last_observed e =
    (case dict_get last_observed (oe_source_id e) of
       None \<Rightarrow> False | Some previous \<Rightarrow> oe_observed_at_unix_ms e < previous)"

definition validate_record :: "segment_manifest \<Rightarrow> walk_state \<Rightarrow> ledger_record \<Rightarrow> walk_state result" where
  "validate_record manifest st rec =
    (let e = lr_envelope rec; identity = (oe_source_id e, oe_source_event_id e) in
     if lr_segment_id rec \<noteq> sm_segment_id manifest
     then Inl (ValueError ''record segment identity mismatch'')
     else if lr_ordinal rec \<noteq> vw_ordinal st then Inl (ValueError ''record ordinal mismatch'')
     else if lr_previous_record_sha256 rec \<noteq> vw_expected_previous st
     then Inl (ValueError ''record hash-chain mismatch'')
     else if oe_source_sequence e \<noteq> expected_sequence (vw_last_sequence st) (oe_source_id e)
     then Inl (ValueError ''source sequence continuity mismatch'')
     else if observed_backwards (vw_last_observed st) e
     then Inl (ValueError ''source observation time moved backwards'')
     else if identity \<in> set (vw_event_ids st)
     then Inl (ValueError ''duplicate source event identity within segment'')
     else rbind (record_sha256 rec) (\<lambda>digest.
       Inr \<lparr>vw_ordinal = vw_ordinal st + 1, vw_expected_previous = digest,
            vw_last_sequence = dict_set (oe_source_id e) (oe_source_sequence e) (vw_last_sequence st),
            vw_last_observed = dict_set (oe_source_id e) (oe_observed_at_unix_ms e) (vw_last_observed st),
            vw_event_ids = identity # vw_event_ids st,
            vw_digests = vw_digests st @ [digest]\<rparr>))"

definition sequences_of :: "source_checkpoint list \<Rightarrow> (string, int) dict" where
  "sequences_of checkpoints = foldl (\<lambda>d c. dict_set (cp_source_id c) (cp_source_sequence c) d) [] checkpoints"

definition observed_of :: "source_checkpoint list \<Rightarrow> (string, int) dict" where
  "observed_of checkpoints = foldl (\<lambda>d c. dict_set (cp_source_id c) (cp_observed_at_unix_ms c) d) [] checkpoints"

definition walk_start :: "segment_manifest \<Rightarrow> walk_state" where
  "walk_start manifest =
    \<lparr>vw_ordinal = 0, vw_expected_previous = ZERO_SHA256,
     vw_last_sequence = map (\<lambda>(k, c). (k, cp_source_sequence c)) (checkpoint_map (sm_starting_source_checkpoints manifest)),
     vw_last_observed = map (\<lambda>(k, c). (k, cp_observed_at_unix_ms c)) (checkpoint_map (sm_starting_source_checkpoints manifest)),
     vw_event_ids = [], vw_digests = []\<rparr>"

definition validate_segment :: "ledger_record list \<Rightarrow> segment_manifest \<Rightarrow> unit result" where
  "validate_segment records manifest =
    (if int (length records) \<noteq> sm_record_count manifest
     then Inl (ValueError ''segment record count mismatch'')
     else if records = [] \<or> MAX_SEGMENT_RECORDS < length records
     then Inl (ValueError ''segment record ceiling exceeded'')
     else
     rbind (rfold (validate_record manifest) (walk_start manifest) records) (\<lambda>st.
     rbind (checkpoints_from_maps (vw_last_sequence st) (vw_last_observed st)) (\<lambda>ending.
     if sm_created_at_unix_ms manifest < latest_observed ending
     then Inl (ValueError ''segment creation time precedes an observation'')
     else if sm_first_record_sha256 manifest \<noteq> hd (vw_digests st)
     then Inl (ValueError ''first record digest mismatch'')
     else if sm_last_record_sha256 manifest \<noteq> last (vw_digests st)
     then Inl (ValueError ''last record digest mismatch'')
     else rbind (canonical_sha256 (JArr (map JStr (vw_digests st)))) (\<lambda>root.
     if sm_records_root_sha256 manifest \<noteq> root
     then Inl (ValueError ''records root digest mismatch'')
     else rbind source_contract_set_digest (\<lambda>contract_set.
     if sm_source_contract_set_sha256 manifest \<noteq> contract_set
     then Inl (ValueError ''source-contract set digest mismatch'')
     else if sm_ending_source_checkpoints manifest \<noteq> ending
     then Inl (ValueError ''ending source checkpoint manifest mismatch'')
     else Inr ())))))"

record observation_segment =
  os_records :: "ledger_record list"
  os_manifest :: segment_manifest

definition ObservationSegment_post_init :: "observation_segment \<Rightarrow> observation_segment result" where
  "ObservationSegment_post_init self =
    (if os_records self = [] then Inl (TypeError ''records must be a non-empty exact tuple'')
     else rbind (validate_segment (os_records self) (os_manifest self)) (\<lambda>_. Inr self))"

subsection \<open>The builder\<close>

record ledger_builder =
  lb_segment_id :: string
  lb_created_at_unix_ms :: int
  lb_previous_segment_sha256 :: string
  lb_starting_checkpoints :: "source_checkpoint list"
  lb_records :: "ledger_record list"
  lb_last_sequence :: "(string, int) dict"
  lb_last_observed_at :: "(string, int) dict"
  lb_event_ids :: "(string \<times> string) list"
  lb_sealed :: bool

definition LedgerBuilder_init :: "string \<Rightarrow> int \<Rightarrow> segment_manifest option \<Rightarrow> ledger_builder result" where
  "LedgerBuilder_init segment_id created_at previous_manifest =
    rbind (require_segment_id segment_id) (\<lambda>_.
    rbind (require_u64 ''created_at_unix_ms'' created_at) (\<lambda>_.
    rbind (case previous_manifest of
        None \<Rightarrow> Inr ([], ZERO_SHA256)
      | Some previous \<Rightarrow>
          rbind source_contract_set_digest (\<lambda>contract_set.
          if sm_source_contract_set_sha256 previous \<noteq> contract_set
          then Inl (ValueError ''previous segment uses a different source-contract authority'')
          else if created_at < sm_created_at_unix_ms previous
          then Inl (ValueError ''segment creation time moved backwards'')
          else rbind (segment_sha256 previous) (\<lambda>digest.
            Inr (sm_ending_source_checkpoints previous, digest)))) (\<lambda>(starting, previous_segment_sha256).
    Inr \<lparr>lb_segment_id = segment_id, lb_created_at_unix_ms = created_at,
         lb_previous_segment_sha256 = previous_segment_sha256, lb_starting_checkpoints = starting,
         lb_records = [], lb_last_sequence = sequences_of starting,
         lb_last_observed_at = observed_of starting, lb_event_ids = [], lb_sealed = False\<rparr>)))"

definition LedgerBuilder_append :: "envelope \<Rightarrow> ledger_builder \<Rightarrow> (ledger_builder \<times> ledger_record) result" where
  "LedgerBuilder_append e self =
    (if lb_sealed self then Inl (RuntimeError ''ledger builder is already sealed'')
     else if MAX_SEGMENT_RECORDS \<le> length (lb_records self)
     then Inl (ValueError ''segment record ceiling exceeded'')
     else if oe_source_sequence e \<noteq> expected_sequence (lb_last_sequence self) (oe_source_id e)
     then Inl (ValueError ''non-contiguous source sequence'')
     else if observed_backwards (lb_last_observed_at self) e
     then Inl (ValueError ''source observation time moved backwards'')
     else let identity = (oe_source_id e, oe_source_event_id e) in
     if identity \<in> set (lb_event_ids self)
     then Inl (ValueError ''duplicate source event identity within segment'')
     else
     rbind (if lb_records self = [] then Inr ZERO_SHA256 else record_sha256 (last (lb_records self))) (\<lambda>previous.
     rbind (LedgerRecord_post_init
       \<lparr>lr_segment_id = lb_segment_id self, lr_ordinal = int (length (lb_records self)),
        lr_previous_record_sha256 = previous, lr_envelope = e\<rparr>) (\<lambda>rec.
     Inr (self\<lparr>lb_records := lb_records self @ [rec],
               lb_last_sequence := dict_set (oe_source_id e) (oe_source_sequence e) (lb_last_sequence self),
               lb_last_observed_at := dict_set (oe_source_id e) (oe_observed_at_unix_ms e) (lb_last_observed_at self),
               lb_event_ids := identity # lb_event_ids self\<rparr>, rec))))"

definition LedgerBuilder_seal :: "ledger_builder \<Rightarrow> (ledger_builder \<times> observation_segment) result" where
  "LedgerBuilder_seal self =
    (if lb_sealed self then Inl (RuntimeError ''ledger builder is already sealed'')
     else if lb_records self = [] then Inl (ValueError ''cannot seal an empty observation segment'')
     else
     rbind (checkpoints_from_maps (lb_last_sequence self) (lb_last_observed_at self)) (\<lambda>ending.
     if lb_created_at_unix_ms self < latest_observed ending
     then Inl (ValueError ''segment creation time precedes an observation'')
     else
     rbind (rmap record_sha256 (lb_records self)) (\<lambda>digests.
     rbind (canonical_sha256 (JArr (map JStr digests))) (\<lambda>root.
     rbind source_contract_set_digest (\<lambda>contract_set.
     rbind (SegmentManifest_post_init
       \<lparr>sm_segment_id = lb_segment_id self, sm_created_at_unix_ms = lb_created_at_unix_ms self,
        sm_previous_segment_sha256 = lb_previous_segment_sha256 self,
        sm_record_count = int (length (lb_records self)),
        sm_first_record_sha256 = hd digests, sm_last_record_sha256 = last digests,
        sm_records_root_sha256 = root, sm_source_contract_set_sha256 = contract_set,
        sm_starting_source_checkpoints = lb_starting_checkpoints self,
        sm_ending_source_checkpoints = ending\<rparr>) (\<lambda>manifest.
     rbind (ObservationSegment_post_init \<lparr>os_records = lb_records self, os_manifest = manifest\<rparr>) (\<lambda>segment.
     Inr (self\<lparr>lb_sealed := True\<rparr>, segment))))))))"

subsection \<open>Chains of segments\<close>

definition validate_chain_step ::
  "string list \<times> observation_segment option \<Rightarrow> observation_segment
    \<Rightarrow> (string list \<times> observation_segment option) result" where
  "validate_chain_step st segment =
    (case st of (seen_ids, previous) \<Rightarrow>
     let m = os_manifest segment in
     if sm_segment_id m \<in> set seen_ids
     then Inl (ValueError ''segment chain contains a duplicate segment_id'')
     else
     rbind (case previous of None \<Rightarrow> Inr ZERO_SHA256 | Some p \<Rightarrow> segment_sha256 (os_manifest p)) (\<lambda>expected_previous.
     let expected_starting =
       (case previous of None \<Rightarrow> [] | Some p \<Rightarrow> sm_ending_source_checkpoints (os_manifest p)) in
     if sm_previous_segment_sha256 m \<noteq> expected_previous
     then Inl (ValueError ''segment chain previous-segment digest mismatch'')
     else if sm_starting_source_checkpoints m \<noteq> expected_starting
     then Inl (ValueError ''segment chain starting checkpoint mismatch'')
     else if (case previous of None \<Rightarrow> False
              | Some p \<Rightarrow> sm_created_at_unix_ms m < sm_created_at_unix_ms (os_manifest p))
     then Inl (ValueError ''segment chain creation time moved backwards'')
     else if (case previous of None \<Rightarrow> False
              | Some p \<Rightarrow> sm_source_contract_set_sha256 m \<noteq> sm_source_contract_set_sha256 (os_manifest p))
     then Inl (ValueError ''segment chain source-contract authority changed'')
     else Inr (sm_segment_id m # seen_ids, Some segment)))"

definition validate_segment_chain :: "observation_segment list \<Rightarrow> unit result" where
  "validate_segment_chain segments =
    (if segments = [] then Inl (TypeError ''segments must be a non-empty exact tuple'')
     else rbind (rfold validate_chain_step ([], None) segments) (\<lambda>_. Inr ()))"

subsection \<open>Segments as lines of canonical JSON\<close>

definition serialize_segment :: "observation_segment \<Rightarrow> bytes result" where
  "serialize_segment segment =
    rbind (rmap (\<lambda>rec. rbind (LedgerRecord_to_json rec) canonical_json_bytes) (os_records segment)) (\<lambda>lines.
    rbind (rbind (SegmentManifest_to_json (os_manifest segment)) canonical_json_bytes) (\<lambda>manifest_line.
    let payload = concat (map (\<lambda>l. l @ [0x0A]) (lines @ [manifest_line])) in
    if MAX_SEGMENT_BYTES < length payload
    then Inl (ValueError ''serialized segment exceeds the governed byte ceiling'')
    else Inr payload))"

text \<open>\<open>payload.split(b"\n")\<close>\<close>

fun split_lines :: "bytes \<Rightarrow> bytes list" where
  "split_lines [] = [[]]"
| "split_lines (b # bs) =
    (if b = 0x0A then [] # split_lines bs
     else (case split_lines bs of [] \<Rightarrow> [[b]] | l # ls \<Rightarrow> (b # l) # ls))"

definition parse_line :: "bytes \<Rightarrow> json result" where
  "parse_line line =
    rbind (strict_json_loads line) (\<lambda>v.
    rbind (canonical_json_bytes v) (\<lambda>canonical.
    if canonical \<noteq> line then Inl (ValueError ''segment line is not canonical JSON'') else Inr v))"

definition parse_segment :: "bytes \<Rightarrow> observation_segment result" where
  "parse_segment payload =
    (if payload = [] then Inl (ValueError ''segment payload is empty'')
     else if MAX_SEGMENT_BYTES < length payload
     then Inl (ValueError ''segment payload exceeds the governed byte ceiling'')
     else if take 3 payload = [0xEF, 0xBB, 0xBF] then Inl (ValueError ''segment UTF-8 BOM is forbidden'')
     else if 0x0D \<in> set payload then Inl (ValueError ''segment must use canonical LF line endings'')
     else if last payload \<noteq> 0x0A then Inl (ValueError ''segment must end with a newline'')
     else let raw_lines = split_lines (butlast payload) in
     if length raw_lines < 2 \<or> [] \<in> set raw_lines
     then Inl (ValueError ''segment requires records followed by exactly one manifest'')
     else if MAX_SEGMENT_RECORDS + 1 < length raw_lines
     then Inl (ValueError ''segment contains more than the governed record ceiling'')
     else if list_ex (\<lambda>line. DEFAULT_MAX_JSON_BYTES < length line) raw_lines
     then Inl (ValueError ''segment line exceeds the governed JSON byte ceiling'')
     else
     rbind (rmap parse_line raw_lines) (\<lambda>vals.
     rbind (SegmentManifest_from_json (last vals)) (\<lambda>manifest.
     rbind (rmap LedgerRecord_from_json (butlast vals)) (\<lambda>records.
     ObservationSegment_post_init \<lparr>os_records = records, os_manifest = manifest\<rparr>))))"

end
