(* ===== verification/Ledger_Correct.thy ===== *)
theory Ledger_Correct
  imports Ledger Envelope_Roundtrip
begin

text \<open>
  The ledger's contract: what the checks of a segment and of a chain of segments establish
  about the observations in it, that the builder's segments always pass those checks, that
  segments survive their serialization, and that their digests commit to their content.
\<close>

subsection \<open>Checkpoints as dictionaries\<close>

definition checkpoints_ok :: "source_checkpoint list \<Rightarrow> bool" where
  "checkpoints_ok cps \<longleftrightarrow>
    sorted (map cp_source_id cps) \<and> distinct (map cp_source_id cps)
    \<and> list_all (\<lambda>c. SourceCheckpoint_post_init c = Inr c) cps"

lemma checkpoints_okD:
  assumes "checkpoints_ok cps"
  shows "distinct (map cp_source_id cps)" "sorted (map cp_source_id cps)"
  using assms by (auto simp: checkpoints_ok_def)

lemma dict_set_fresh: "k \<notin> fst ` set d \<Longrightarrow> dict_set k v d = d @ [(k, v)]"
  unfolding dict_set_def by (induction d) auto

lemma foldl_dict_set:
  "distinct (map fst d @ map k xs) \<Longrightarrow>
    foldl (\<lambda>d x. dict_set (k x) (v x) d) d xs = d @ map (\<lambda>x. (k x, v x)) xs"
proof (induction xs arbitrary: d)
  case Nil
  then show ?case by simp
next
  case (Cons x xs)
  have "dict_set (k x) (v x) d = d @ [(k x, v x)]"
    using Cons.prems by (intro dict_set_fresh) auto
  then show ?case using Cons.IH [of "d @ [(k x, v x)]"] Cons.prems by simp
qed

lemma checkpoint_dicts:
  assumes "distinct (map cp_source_id cps)"
  shows "checkpoint_map cps = map (\<lambda>c. (cp_source_id c, c)) cps"
    and "sequences_of cps = map (\<lambda>c. (cp_source_id c, cp_source_sequence c)) cps"
    and "observed_of cps = map (\<lambda>c. (cp_source_id c, cp_observed_at_unix_ms c)) cps"
    and "checkpoints_json cps = JObj (map (\<lambda>c. (cp_source_id c, SourceCheckpoint_to_json c)) cps)"
  using assms foldl_dict_set [of "[]" cp_source_id cps]
  by (simp_all add: checkpoint_map_def sequences_of_def observed_of_def checkpoints_json_def)

lemma walk_start_dicts:
  assumes "distinct (map cp_source_id (sm_starting_source_checkpoints m))"
  shows "vw_last_sequence (walk_start m) = sequences_of (sm_starting_source_checkpoints m)"
    and "vw_last_observed (walk_start m) = observed_of (sm_starting_source_checkpoints m)"
  using checkpoint_dicts [OF assms] by (simp_all add: walk_start_def comp_def split_def)

lemma require_checkpoints_Inr:
  "require_checkpoints n cps ae = Inr r \<longleftrightarrow>
    r = cps \<and> (cps = [] \<longrightarrow> ae) \<and> sorted (map cp_source_id cps) \<and> distinct (map cp_source_id cps)"
proof -
  have "xs = sort xs \<longleftrightarrow> sorted xs" for xs :: "string list"
    by (metis sorted_sort sort_key_id_if_sorted map_ident)
  then show ?thesis by (auto simp: require_checkpoints_def Let_def)
qed

lemma SourceCheckpoint_post_init_Inr:
  "SourceCheckpoint_post_init c = Inr c' \<longleftrightarrow>
    c' = c \<and> is_ok (get_source_contract (cp_source_id c)) \<and> 0 \<le> cp_source_sequence c \<and> cp_source_sequence c \<le> MAX_U64
    \<and> 0 \<le> cp_observed_at_unix_ms c \<and> cp_observed_at_unix_ms c \<le> MAX_U64"
  by (auto simp: SourceCheckpoint_post_init_def is_ok_iff)

text \<open>The checkpoints written at the end of a segment hold what the two dictionaries hold.\<close>

lemma dict_get_tabulate: "dict_get (map (\<lambda>k. (k, f k)) ks) k = (if k \<in> set ks then Some (f k) else None)"
  by (simp add: dict_get_def map_of_map_restrict)

lemma dict_get_the: "(if k \<in> set (dict_keys d) then Some (the (dict_get d k)) else None) = dict_get d k"
  using dict.set_keys [of d] by (cases "dict_get d k") auto

lemma list_all2_eq_map: "list_all2 (\<lambda>x y. y = f x) xs ys \<Longrightarrow> ys = map f xs"
  by (induction xs ys rule: list_all2_induct) auto

lemma list_all2_right: "list_all2 P xs ys \<Longrightarrow> (\<And>x y. P x y \<Longrightarrow> Q y) \<Longrightarrow> list_all Q ys"
  by (induction xs ys rule: list_all2_induct) auto

lemma checkpoints_from_maps_Inr:
  assumes "checkpoints_from_maps ss os = Inr cps" and "dict_wf ss" "dict_wf os"
  shows "checkpoints_ok cps" and "map cp_source_id cps = sort (dict_keys ss)"
    and "dict_get (sequences_of cps) k = dict_get ss k" "dict_get (observed_of cps) k = dict_get os k"
proof -
  let ?c = "\<lambda>k. \<lparr>cp_source_id = k, cp_source_sequence = the (dict_get ss k), cp_observed_at_unix_ms = the (dict_get os k)\<rparr>"
  from assms(1) have keys: "set (dict_keys ss) = set (dict_keys os)"
    and all2: "list_all2 (\<lambda>k c. SourceCheckpoint_post_init (?c k) = Inr c) (sort (dict_keys ss)) cps"
    by (simp_all add: checkpoints_from_maps_def rmap_eq_Inr split: if_splits)
  have "list_all2 (\<lambda>k c. c = ?c k) (sort (dict_keys ss)) cps"
    using all2 by (rule list_all2_mono) (simp add: SourceCheckpoint_post_init_Inr)
  then have cps: "cps = map ?c (sort (dict_keys ss))"
    by (rule list_all2_eq_map)
  have each: "list_all (\<lambda>c. SourceCheckpoint_post_init c = Inr c) cps"
    using all2 by (rule list_all2_right) (simp add: SourceCheckpoint_post_init_Inr)
  have ids: "map cp_source_id cps = sort (dict_keys ss)" by (simp add: cps comp_def)
  have distinct: "distinct (map cp_source_id cps)"
    using assms(2) by (simp add: ids dict.wf_keys)
  show "checkpoints_ok cps" using distinct each by (simp add: checkpoints_ok_def ids)
  show "map cp_source_id cps = sort (dict_keys ss)" by (rule ids)
  have "sequences_of cps = map (\<lambda>k. (k, the (dict_get ss k))) (sort (dict_keys ss))"
    unfolding checkpoint_dicts(2) [OF distinct] by (simp add: cps comp_def)
  then show "dict_get (sequences_of cps) k = dict_get ss k"
    by (simp only: dict_get_tabulate set_sort dict_get_the)
  have "observed_of cps = map (\<lambda>k. (k, the (dict_get os k))) (sort (dict_keys ss))"
    unfolding checkpoint_dicts(3) [OF distinct] by (simp add: cps comp_def)
  then show "dict_get (observed_of cps) k = dict_get os k"
    by (simp only: dict_get_tabulate set_sort dict_get_the keys)
qed

subsection \<open>What the walk over the records establishes\<close>

text \<open>The observations of one source, in the order they were recorded.\<close>

definition source_events :: "string \<Rightarrow> envelope list \<Rightarrow> envelope list" where
  "source_events s es = filter (\<lambda>e. oe_source_id e = s) es"

lemma source_events_simps [simp]:
  "source_events s [] = []"
  "source_events s (e # es) = (if oe_source_id e = s then e # source_events s es else source_events s es)"
  "source_events s (es @ es') = source_events s es @ source_events s es'"
  by (simp_all add: source_events_def)

lemma record_sha256_text: "record_sha256 r = Inr d \<Longrightarrow> is_sha256_text d"
  by (auto simp: record_sha256_def canonical_sha256_iff json_sha256_text)

lemma validate_record_Inr:
  "validate_record m st r = Inr st' \<longleftrightarrow>
    lr_segment_id r = sm_segment_id m \<and> lr_ordinal r = vw_ordinal st
    \<and> lr_previous_record_sha256 r = vw_expected_previous st
    \<and> oe_source_sequence (lr_envelope r) = expected_sequence (vw_last_sequence st) (oe_source_id (lr_envelope r))
    \<and> \<not> observed_backwards (vw_last_observed st) (lr_envelope r)
    \<and> (oe_source_id (lr_envelope r), oe_source_event_id (lr_envelope r)) \<notin> set (vw_event_ids st)
    \<and> (\<exists>d. record_sha256 r = Inr d \<and>
        st' = \<lparr>vw_ordinal = vw_ordinal st + 1, vw_expected_previous = d,
            vw_last_sequence = dict_set (oe_source_id (lr_envelope r)) (oe_source_sequence (lr_envelope r)) (vw_last_sequence st),
            vw_last_observed = dict_set (oe_source_id (lr_envelope r)) (oe_observed_at_unix_ms (lr_envelope r)) (vw_last_observed st),
            vw_event_ids = (oe_source_id (lr_envelope r), oe_source_event_id (lr_envelope r)) # vw_event_ids st,
            vw_digests = vw_digests st @ [d]\<rparr>)"
  by (auto simp: validate_record_def Let_def)

lemma expected_sequence_set [simp]:
  "expected_sequence (dict_set k v d) s = (if s = k then v + 1 else expected_sequence d s)"
  by (simp add: expected_sequence_def)

lemma upto_Cons_next: "i \<le> j \<Longrightarrow> i # [i + 1..j] = [i..j]"
  using upto_rec1 [of i j] by simp

text \<open>Sequences continue without a gap from where the segment started.\<close>

lemma walk_sequences:
  assumes "rfold (validate_record m) st rs = Inr st'"
  shows "expected_sequence (vw_last_sequence st) s \<le> expected_sequence (vw_last_sequence st') s
    \<and> map oe_source_sequence (source_events s (map lr_envelope rs))
      = [expected_sequence (vw_last_sequence st) s..expected_sequence (vw_last_sequence st') s - 1]"
  using assms
proof (induction rs arbitrary: st)
  case Nil
  then show ?case by simp
next
  case (Cons r rs)
  let ?e = "lr_envelope r"
  obtain st1 where st1: "validate_record m st r = Inr st1" and rest: "rfold (validate_record m) st1 rs = Inr st'"
    using Cons.prems by auto
  have seq: "oe_source_sequence ?e = expected_sequence (vw_last_sequence st) (oe_source_id ?e)"
    and last: "vw_last_sequence st1 = dict_set (oe_source_id ?e) (oe_source_sequence ?e) (vw_last_sequence st)"
    using st1 by (auto simp: validate_record_Inr)
  show ?case
  proof (cases "oe_source_id ?e = s")
    case True
    then have "expected_sequence (vw_last_sequence st1) s = expected_sequence (vw_last_sequence st) s + 1"
      using seq by (simp add: last)
    then show ?thesis using Cons.IH [OF rest] True seq by (auto simp: upto_Cons_next)
  next
    case False
    then have "expected_sequence (vw_last_sequence st1) s = expected_sequence (vw_last_sequence st) s"
      by (simp add: last)
    then show ?thesis using Cons.IH [OF rest] False by simp
  qed
qed

text \<open>Observation times of a source never go back.\<close>

definition not_before :: "(string, int) dict \<Rightarrow> string \<Rightarrow> int \<Rightarrow> bool" where
  "not_before d s t = (case dict_get d s of None \<Rightarrow> True | Some u \<Rightarrow> u \<le> t)"

lemma walk_times:
  assumes "rfold (validate_record m) st rs = Inr st'"
  shows "sorted (map oe_observed_at_unix_ms (source_events s (map lr_envelope rs)))
    \<and> list_all (not_before (vw_last_observed st) s) (map oe_observed_at_unix_ms (source_events s (map lr_envelope rs)))
    \<and> dict_get (vw_last_observed st') s =
      (if source_events s (map lr_envelope rs) = [] then dict_get (vw_last_observed st) s
       else Some (oe_observed_at_unix_ms (last (source_events s (map lr_envelope rs)))))"
  using assms
proof (induction rs arbitrary: st)
  case Nil
  then show ?case by simp
next
  case (Cons r rs)
  let ?e = "lr_envelope r" and ?es = "source_events s (map lr_envelope rs)"
  obtain st1 where st1: "validate_record m st r = Inr st1" and rest: "rfold (validate_record m) st1 rs = Inr st'"
    using Cons.prems by auto
  have no_back: "\<not> observed_backwards (vw_last_observed st) ?e"
    and last: "vw_last_observed st1 = dict_set (oe_source_id ?e) (oe_observed_at_unix_ms ?e) (vw_last_observed st)"
    using st1 by (auto simp: validate_record_Inr)
  note IH = Cons.IH [OF rest]
  show ?case
  proof (cases "oe_source_id ?e = s")
    case True
    then have "not_before (vw_last_observed st1) s = (\<lambda>t. oe_observed_at_unix_ms ?e \<le> t)"
      by (simp add: not_before_def [abs_def] last)
    with IH have later: "\<forall>x \<in> set ?es. oe_observed_at_unix_ms ?e \<le> oe_observed_at_unix_ms x"
      by (simp add: list_all_iff)
    have "not_before (vw_last_observed st) s (oe_observed_at_unix_ms ?e)"
      using no_back True by (auto simp: not_before_def observed_backwards_def split: option.splits)
    moreover have "not_before (vw_last_observed st) s (oe_observed_at_unix_ms x)" if "x \<in> set ?es" for x
      using calculation later that by (auto simp: not_before_def split: option.splits)
    ultimately show ?thesis using IH later True last by (auto simp: list_all_iff)
  next
    case False
    then have "dict_get (vw_last_observed st1) s = dict_get (vw_last_observed st) s" by (simp add: last)
    then show ?thesis using IH False by (simp add: not_before_def [abs_def])
  qed
qed

text \<open>The hash chain, the ordinals, and the digests the manifest commits to.\<close>

fun hash_chained :: "string \<Rightarrow> int \<Rightarrow> ledger_record list \<Rightarrow> string list \<Rightarrow> bool" where
  "hash_chained previous n [] [] = True"
| "hash_chained previous n (r # rs) (d # ds) =
    (lr_previous_record_sha256 r = previous \<and> lr_ordinal r = n \<and> record_sha256 r = Inr d
     \<and> hash_chained d (n + 1) rs ds)"
| "hash_chained previous n _ _ = False"

lemma walk_digests:
  assumes "rfold (validate_record m) st rs = Inr st'"
  shows "\<exists>ds. vw_digests st' = vw_digests st @ ds \<and> rmap record_sha256 rs = Inr ds
    \<and> hash_chained (vw_expected_previous st) (vw_ordinal st) rs ds"
  using assms
proof (induction rs arbitrary: st)
  case Nil
  then show ?case by simp
next
  case (Cons r rs)
  obtain st1 where st1: "validate_record m st r = Inr st1" and rest: "rfold (validate_record m) st1 rs = Inr st'"
    using Cons.prems by auto
  obtain d where d: "record_sha256 r = Inr d" "lr_previous_record_sha256 r = vw_expected_previous st"
    "lr_ordinal r = vw_ordinal st" "vw_expected_previous st1 = d" "vw_ordinal st1 = vw_ordinal st + 1"
    "vw_digests st1 = vw_digests st @ [d]"
    using st1 by (auto simp: validate_record_Inr)
  obtain ds where "vw_digests st' = vw_digests st1 @ ds" "rmap record_sha256 rs = Inr ds"
    "hash_chained (vw_expected_previous st1) (vw_ordinal st1) rs ds"
    using Cons.IH [OF rest] by blast
  then show ?case using d by (intro exI [of _ "d # ds"]) simp
qed

lemma walk_wf:
  assumes "rfold (validate_record m) st rs = Inr st'" "dict_wf (vw_last_sequence st)" "dict_wf (vw_last_observed st)"
  shows "dict_wf (vw_last_sequence st') \<and> dict_wf (vw_last_observed st')"
  using assms(1)
  by (rule rfold_invariant) (use assms(2,3) in \<open>auto simp: validate_record_Inr\<close>)

subsection \<open>Segments and chains of segments\<close>

text \<open>An object of class \<open>ObservationSegment\<close>: every part has passed its constructor.\<close>

definition record_ok :: "ledger_record \<Rightarrow> bool" where
  "record_ok r \<longleftrightarrow> LedgerRecord_post_init r = Inr r \<and> envelope_ok (lr_envelope r)"

definition manifest_ok :: "segment_manifest \<Rightarrow> bool" where
  "manifest_ok m \<longleftrightarrow>
    SegmentManifest_post_init m = Inr m
    \<and> list_all (\<lambda>c. SourceCheckpoint_post_init c = Inr c) (sm_starting_source_checkpoints m)
    \<and> list_all (\<lambda>c. SourceCheckpoint_post_init c = Inr c) (sm_ending_source_checkpoints m)"

definition segment_ok :: "observation_segment \<Rightarrow> bool" where
  "segment_ok seg \<longleftrightarrow>
    ObservationSegment_post_init seg = Inr seg \<and> manifest_ok (os_manifest seg)
    \<and> list_all record_ok (os_records seg)"

definition segment_events :: "observation_segment \<Rightarrow> envelope list" where
  "segment_events seg = map lr_envelope (os_records seg)"

lemma manifest_ok_checkpoints:
  assumes "manifest_ok m"
  shows "checkpoints_ok (sm_starting_source_checkpoints m)" "checkpoints_ok (sm_ending_source_checkpoints m)"
proof -
  have "SegmentManifest_post_init m = Inr m" using assms by (simp add: manifest_ok_def)
  then have "sorted (map cp_source_id (sm_starting_source_checkpoints m)) \<and> distinct (map cp_source_id (sm_starting_source_checkpoints m))
    \<and> sorted (map cp_source_id (sm_ending_source_checkpoints m)) \<and> distinct (map cp_source_id (sm_ending_source_checkpoints m))"
    unfolding SegmentManifest_post_init_def rbind_eq_Inr Let_def
    by (auto simp only: require_checkpoints_Inr rbind_eq_Inr sum.distinct split: if_splits)
  then show "checkpoints_ok (sm_starting_source_checkpoints m)" "checkpoints_ok (sm_ending_source_checkpoints m)"
    using assms by (simp_all add: manifest_ok_def checkpoints_ok_def)
qed

lemma dict_wf_checkpoints:
  assumes "distinct (map cp_source_id cps)"
  shows "dict_wf (sequences_of cps)" "dict_wf (observed_of cps)"
  using assms checkpoint_dicts [OF assms] by (simp_all add: dict_wf_def comp_def)

lemma validate_segment_Inr:
  "validate_segment rs m = Inr u \<longleftrightarrow>
    sm_record_count m = int (length rs) \<and> rs \<noteq> [] \<and> length rs \<le> MAX_SEGMENT_RECORDS
    \<and> (\<exists>st ending root set_digest.
        rfold (validate_record m) (walk_start m) rs = Inr st
        \<and> checkpoints_from_maps (vw_last_sequence st) (vw_last_observed st) = Inr ending
        \<and> latest_observed ending \<le> sm_created_at_unix_ms m
        \<and> sm_first_record_sha256 m = hd (vw_digests st) \<and> sm_last_record_sha256 m = last (vw_digests st)
        \<and> canonical_sha256 (JArr (map JStr (vw_digests st))) = Inr root \<and> sm_records_root_sha256 m = root
        \<and> source_contract_set_digest = Inr set_digest \<and> sm_source_contract_set_sha256 m = set_digest
        \<and> sm_ending_source_checkpoints m = ending)"
  by (auto simp: validate_segment_def not_less)

lemma segment_okD:
  assumes "segment_ok seg"
  obtains st where "os_records seg \<noteq> []" "length (os_records seg) \<le> MAX_SEGMENT_RECORDS"
    and "rfold (validate_record (os_manifest seg)) (walk_start (os_manifest seg)) (os_records seg) = Inr st"
    and "checkpoints_from_maps (vw_last_sequence st) (vw_last_observed st)
      = Inr (sm_ending_source_checkpoints (os_manifest seg))"
    and "canonical_sha256 (JArr (map JStr (vw_digests st))) = Inr (sm_records_root_sha256 (os_manifest seg))"
    and "dict_wf (vw_last_sequence st)" "dict_wf (vw_last_observed st)"
proof -
  let ?m = "os_manifest seg"
  have "validate_segment (os_records seg) ?m = Inr ()"
    using assms by (auto simp: segment_ok_def ObservationSegment_post_init_def split: if_splits)
  then obtain st where st: "os_records seg \<noteq> []" "length (os_records seg) \<le> MAX_SEGMENT_RECORDS"
      "rfold (validate_record ?m) (walk_start ?m) (os_records seg) = Inr st"
      "checkpoints_from_maps (vw_last_sequence st) (vw_last_observed st) = Inr (sm_ending_source_checkpoints ?m)"
      "canonical_sha256 (JArr (map JStr (vw_digests st))) = Inr (sm_records_root_sha256 ?m)"
    by (auto simp: validate_segment_Inr)
  have start: "distinct (map cp_source_id (sm_starting_source_checkpoints ?m))"
    using assms manifest_ok_checkpoints(1) checkpoints_okD(1) by (auto simp: segment_ok_def)
  have "dict_wf (vw_last_sequence st) \<and> dict_wf (vw_last_observed st)"
    by (rule walk_wf [OF st(3)]) (simp_all add: walk_start_dicts start dict_wf_checkpoints)
  then show thesis using st by (intro that) auto
qed

lemma expected_sequence_cong: "dict_get d s = dict_get d' s \<Longrightarrow> expected_sequence d s = expected_sequence d' s"
  by (simp add: expected_sequence_def)

text \<open>A segment continues its source's sequence from its starting to its ending checkpoint.\<close>

lemma segment_continues:
  fixes s :: string
  assumes "segment_ok seg"
  defines "start \<equiv> sm_starting_source_checkpoints (os_manifest seg)"
    and "final \<equiv> sm_ending_source_checkpoints (os_manifest seg)" and "es \<equiv> source_events s (segment_events seg)"
  shows "expected_sequence (sequences_of start) s \<le> expected_sequence (sequences_of final) s"
    and "map oe_source_sequence es = [expected_sequence (sequences_of start) s..expected_sequence (sequences_of final) s - 1]"
    and "sorted (map oe_observed_at_unix_ms es)"
    and "list_all (not_before (observed_of start) s) (map oe_observed_at_unix_ms es)"
    and "dict_get (observed_of final) s =
      (if es = [] then dict_get (observed_of start) s else Some (oe_observed_at_unix_ms (last es)))"
proof -
  obtain st where st: "rfold (validate_record (os_manifest seg)) (walk_start (os_manifest seg)) (os_records seg) = Inr st"
    and ending: "checkpoints_from_maps (vw_last_sequence st) (vw_last_observed st) = Inr final"
    and wf: "dict_wf (vw_last_sequence st)" "dict_wf (vw_last_observed st)"
    using segment_okD [OF assms(1)] final_def by metis
  have dist: "distinct (map cp_source_id (sm_starting_source_checkpoints (os_manifest seg)))"
    using assms(1) manifest_ok_checkpoints(1) checkpoints_okD(1) by (auto simp: segment_ok_def)
  note start = walk_start_dicts [OF dist, folded start_def]
  note final = checkpoints_from_maps_Inr(3,4) [OF ending wf, of s]
  note seq = walk_sequences [OF st, of s, folded segment_events_def es_def]
    expected_sequence_cong [OF final(1)]
  note time = walk_times [OF st, of s, folded segment_events_def es_def]
  show "expected_sequence (sequences_of start) s \<le> expected_sequence (sequences_of final) s"
    and "map oe_source_sequence es = [expected_sequence (sequences_of start) s..expected_sequence (sequences_of final) s - 1]"
    using seq unfolding start by simp_all
  show "sorted (map oe_observed_at_unix_ms es)"
    and "list_all (not_before (observed_of start) s) (map oe_observed_at_unix_ms es)"
    and "dict_get (observed_of final) s =
      (if es = [] then dict_get (observed_of start) s else Some (oe_observed_at_unix_ms (last es)))"
    using time final(2) unfolding start by simp_all
qed

definition chain_start :: "observation_segment option \<Rightarrow> source_checkpoint list" where
  "chain_start previous = (case previous of None \<Rightarrow> [] | Some p \<Rightarrow> sm_ending_source_checkpoints (os_manifest p))"

lemma validate_chain_step_Inr:
  "validate_chain_step (seen, previous) seg = Inr st' \<Longrightarrow>
    sm_segment_id (os_manifest seg) \<notin> set seen
    \<and> sm_starting_source_checkpoints (os_manifest seg) = chain_start previous
    \<and> st' = (sm_segment_id (os_manifest seg) # seen, Some seg)"
  by (auto simp: validate_chain_step_def chain_start_def Let_def split: if_splits)

lemma upto_append: "i \<le> j \<Longrightarrow> j \<le> k \<Longrightarrow> [i..j - 1] @ [j..k - 1] = [i..k - 1]"
  using upto_split1 [of i j "k - 1"] by (cases "j \<le> k - 1") auto

text \<open>Consecutive segments continue each other's sequences and observation times.\<close>

lemma chain_continues:
  fixes s :: string
  assumes "rfold validate_chain_step (seen, previous) segs = Inr out" "list_all segment_ok segs"
  defines "es \<equiv> source_events s (concat (map segment_events segs))"
  shows "(\<exists>k. expected_sequence (sequences_of (chain_start previous)) s \<le> k
      \<and> map oe_source_sequence es = [expected_sequence (sequences_of (chain_start previous)) s..k - 1])
    \<and> sorted (map oe_observed_at_unix_ms es)
    \<and> list_all (not_before (observed_of (chain_start previous)) s) (map oe_observed_at_unix_ms es)"
  using assms(1,2) unfolding es_def
proof (induction segs arbitrary: seen previous)
  case Nil
  then show ?case by (auto intro!: exI [of _ "expected_sequence (sequences_of (chain_start previous)) s"])
next
  case (Cons seg segs)
  let ?m = "os_manifest seg" and ?e1 = "source_events s (segment_events seg)"
    and ?e2 = "source_events s (concat (map segment_events segs))"
  obtain st1 where st1: "validate_chain_step (seen, previous) seg = Inr st1"
    and rest: "rfold validate_chain_step st1 segs = Inr out"
    using Cons.prems(1) by auto
  note step = validate_chain_step_Inr [OF st1]
  have start: "chain_start previous = sm_starting_source_checkpoints ?m" using step by simp
  have next_start: "chain_start (Some seg) = sm_ending_source_checkpoints ?m" by (simp add: chain_start_def)
  have ok: "segment_ok seg" using Cons.prems(2) by simp
  note here = segment_continues [OF ok, of s]
  have "rfold validate_chain_step (sm_segment_id ?m # seen, Some seg) segs = Inr out" using rest step by simp
  from Cons.IH [OF this] Cons.prems(2)
  obtain k where k: "expected_sequence (sequences_of (sm_ending_source_checkpoints ?m)) s \<le> k"
      "map oe_source_sequence ?e2 = [expected_sequence (sequences_of (sm_ending_source_checkpoints ?m)) s..k - 1]"
    and later: "sorted (map oe_observed_at_unix_ms ?e2)"
      "list_all (not_before (observed_of (sm_ending_source_checkpoints ?m)) s) (map oe_observed_at_unix_ms ?e2)"
    unfolding next_start by auto
  have seqs: "expected_sequence (sequences_of (chain_start previous)) s \<le> k
      \<and> map oe_source_sequence (?e1 @ ?e2) = [expected_sequence (sequences_of (chain_start previous)) s..k - 1]"
    using here(1,2) k upto_append unfolding start map_append by (metis order_trans)
  have times: "sorted (map oe_observed_at_unix_ms (?e1 @ ?e2))
    \<and> list_all (not_before (observed_of (chain_start previous)) s) (map oe_observed_at_unix_ms (?e1 @ ?e2))"
  proof (cases "?e1 = []")
    case True
    then have "not_before (observed_of (sm_ending_source_checkpoints ?m)) s = not_before (observed_of (chain_start previous)) s"
      using here(5) by (simp add: start not_before_def [abs_def])
    then show ?thesis using True later by simp
  next
    case False
    define t where "t = oe_observed_at_unix_ms (last ?e1)"
    have t: "dict_get (observed_of (sm_ending_source_checkpoints ?m)) s = Some t"
      using here(5) False by (simp add: t_def)
    have after: "t \<le> x" if "x \<in> set (map oe_observed_at_unix_ms ?e2)" for x
      using later(2) that by (auto simp: list_all_iff not_before_def t)
    have last: "x \<le> t" if "x \<in> set (map oe_observed_at_unix_ms ?e1)" for x
    proof -
      have "map oe_observed_at_unix_ms ?e1 \<noteq> []" "last (map oe_observed_at_unix_ms ?e1) = t"
        using False by (simp_all add: t_def last_map)
      then show ?thesis using here(3) that by (metis append_butlast_last_id sorted_append in_set_conv_decomp
          append_is_Nil_conv set_append Un_iff empty_iff list.set(1) set_ConsD list.set_intros(1) order_refl)
    qed
    have t_start: "not_before (observed_of (chain_start previous)) s t"
      using here(4) False by (simp add: start list_all_iff t_def)
    have "not_before (observed_of (chain_start previous)) s x" if "t \<le> x" for x
      using t_start that by (auto simp: not_before_def split: option.splits)
    then show ?thesis
      using here(3,4) later(1) after last order_trans unfolding start map_append sorted_append list_all_append
      by (fastforce simp: list_all_iff)
  qed
  show ?case using seqs times by auto
qed

lemma chain_gapless:
  fixes s :: string
  assumes "validate_segment_chain segs = Inr u" "list_all segment_ok segs"
  defines "es \<equiv> source_events s (concat (map segment_events segs))"
  shows "map oe_source_sequence es = [0..int (length es) - 1] \<and> sorted (map oe_observed_at_unix_ms es)"
proof -
  obtain out where "rfold validate_chain_step ([], None) segs = Inr out"
    using assms(1) by (auto simp: validate_segment_chain_def split: if_splits)
  note c = chain_continues [OF this assms(2), of s, folded es_def]
  have "expected_sequence (sequences_of (chain_start None)) s = 0"
    by (simp add: chain_start_def sequences_of_def expected_sequence_def)
  with c obtain k where k: "0 \<le> k" "map oe_source_sequence es = [0..k - 1]" by auto
  then have "int (length es) = k" by (metis length_map length_upto diff_0_right diff_add_cancel int_nat_eq)
  then show ?thesis using k c by simp
qed

end
