(* ===== verification/Ledger_Builder.thy ===== *)
theory Ledger_Builder
  imports Ledger_Correct
begin

text \<open>
  The builder of ledger segments: its reachable states, the invariant that ties its
  dictionaries to the walk the validator makes, and exactly when a segment can be sealed.
\<close>

inductive builder_reachable :: "ledger_builder \<Rightarrow> bool" where
  init: "(case previous of None \<Rightarrow> True | Some m \<Rightarrow> manifest_ok m) \<Longrightarrow>
    LedgerBuilder_init segment_id created previous = Inr b \<Longrightarrow> builder_reachable b"
| append: "builder_reachable b \<Longrightarrow> envelope_ok e \<Longrightarrow> LedgerBuilder_append e b = Inr (b', r) \<Longrightarrow>
    builder_reachable b'"
| seal: "builder_reachable b \<Longrightarrow> LedgerBuilder_seal b = Inr (b', seg) \<Longrightarrow> builder_reachable b'"

text \<open>The state of the validator after the records of a builder.\<close>

definition walk_of :: "ledger_builder \<Rightarrow> string list \<Rightarrow> walk_state" where
  "walk_of b ds =
    \<lparr>vw_ordinal = int (length (lb_records b)),
     vw_expected_previous = (if ds = [] then ZERO_SHA256 else last ds),
     vw_last_sequence = lb_last_sequence b, vw_last_observed = lb_last_observed_at b,
     vw_event_ids = lb_event_ids b, vw_digests = ds\<rparr>"

definition walks_along :: "ledger_builder \<Rightarrow> bool" where
  "walks_along b \<longleftrightarrow> (\<forall>m ds.
    sm_segment_id m = lb_segment_id b \<longrightarrow> sm_starting_source_checkpoints m = lb_starting_checkpoints b \<longrightarrow>
    rmap record_sha256 (lb_records b) = Inr ds \<longrightarrow>
    rfold (validate_record m) (walk_start m) (lb_records b) = Inr (walk_of b ds))"

text \<open>Every entry of the dictionaries is a checkpoint or an observation of a governed source.\<close>

definition entry_ok :: "string \<Rightarrow> int \<Rightarrow> bool" where
  "entry_ok s v \<longleftrightarrow> is_ok (get_source_contract s) \<and> 0 \<le> v \<and> v \<le> MAX_U64"

definition entries_ok :: "ledger_builder \<Rightarrow> bool" where
  "entries_ok b \<longleftrightarrow>
    dict_wf (lb_last_sequence b) \<and> dict_wf (lb_last_observed_at b)
    \<and> set (dict_keys (lb_last_sequence b)) = set (dict_keys (lb_last_observed_at b))
    \<and> (\<forall>s v. dict_get (lb_last_sequence b) s = Some v \<longrightarrow> entry_ok s v)
    \<and> (\<forall>s v. dict_get (lb_last_observed_at b) s = Some v \<longrightarrow> entry_ok s v)
    \<and> (\<forall>s v. dict_get (lb_last_observed_at b) s = Some v \<longrightarrow>
        v \<le> lb_created_at_unix_ms b \<or> v \<in> set (map (oe_observed_at_unix_ms \<circ> lr_envelope) (lb_records b)))
    \<and> (\<forall>r \<in> set (lb_records b). oe_source_id (lr_envelope r) \<in> set (dict_keys (lb_last_observed_at b)))"

definition builder_inv :: "ledger_builder \<Rightarrow> bool" where
  "builder_inv b \<longleftrightarrow>
    is_segment_id (lb_segment_id b) \<and> 0 \<le> lb_created_at_unix_ms b \<and> lb_created_at_unix_ms b \<le> MAX_U64
    \<and> is_sha256_text (lb_previous_segment_sha256 b) \<and> checkpoints_ok (lb_starting_checkpoints b)
    \<and> (lb_starting_checkpoints b = [] \<longrightarrow> lb_previous_segment_sha256 b = ZERO_SHA256)
    \<and> length (lb_records b) \<le> MAX_SEGMENT_RECORDS \<and> list_all record_ok (lb_records b)
    \<and> walks_along b \<and> entries_ok b"

lemma ZERO_SHA256_text [simp]: "is_sha256_text ZERO_SHA256"
  by (simp add: is_sha256_text_def ZERO_SHA256_def list_all_iff is_hex_char_def hex_digits_def)

lemma require_segment_id_Inr [simp]: "require_segment_id s = Inr r \<longleftrightarrow> r = s \<and> is_segment_id s"
  by (auto simp: require_segment_id_def)

lemma LedgerRecord_post_init_Inr:
  "LedgerRecord_post_init r = Inr r' \<longleftrightarrow>
    r' = r \<and> is_segment_id (lr_segment_id r) \<and> 0 \<le> lr_ordinal r \<and> lr_ordinal r < int MAX_SEGMENT_RECORDS
    \<and> is_sha256_text (lr_previous_record_sha256 r)"
  by (auto simp: LedgerRecord_post_init_def)

lemma SegmentManifest_post_init_same: "SegmentManifest_post_init m = Inr m' \<Longrightarrow> m' = m"
  by (auto simp: SegmentManifest_post_init_def Let_def simp del: rall.simps split: if_splits)

text \<open>What is known of a valid manifest.\<close>

lemma SegmentManifest_post_init_Inr:
  assumes "distinct (map cp_source_id (sm_starting_source_checkpoints m))"
    "distinct (map cp_source_id (sm_ending_source_checkpoints m))"
  shows "SegmentManifest_post_init m = Inr m \<longleftrightarrow>
    is_segment_id (sm_segment_id m) \<and> 0 \<le> sm_created_at_unix_ms m \<and> sm_created_at_unix_ms m \<le> MAX_U64
    \<and> is_sha256_text (sm_previous_segment_sha256 m)
    \<and> 1 \<le> sm_record_count m \<and> sm_record_count m \<le> int MAX_SEGMENT_RECORDS
    \<and> is_sha256_text (sm_first_record_sha256 m) \<and> is_sha256_text (sm_last_record_sha256 m)
    \<and> is_sha256_text (sm_records_root_sha256 m) \<and> is_sha256_text (sm_source_contract_set_sha256 m)
    \<and> sorted (map cp_source_id (sm_starting_source_checkpoints m))
    \<and> sm_ending_source_checkpoints m \<noteq> [] \<and> sorted (map cp_source_id (sm_ending_source_checkpoints m))
    \<and> (sm_previous_segment_sha256 m = ZERO_SHA256 \<longleftrightarrow> sm_starting_source_checkpoints m = [])
    \<and> (\<forall>c \<in> set (sm_starting_source_checkpoints m). \<exists>d \<in> set (sm_ending_source_checkpoints m).
        cp_source_id d = cp_source_id c \<and> cp_source_sequence c \<le> cp_source_sequence d
        \<and> cp_observed_at_unix_ms c \<le> cp_observed_at_unix_ms d)
    \<and> latest_observed (sm_ending_source_checkpoints m) \<le> sm_created_at_unix_ms m"
proof -
  let ?s = "sm_starting_source_checkpoints m" and ?e = "sm_ending_source_checkpoints m"
  define st where "st = checkpoint_map ?s"
  define en where "en = checkpoint_map ?e"
  have maps: "st = map (\<lambda>c. (cp_source_id c, c)) ?s" "en = map (\<lambda>c. (cp_source_id c, c)) ?e"
    using checkpoint_dicts(1) [OF assms(1)] checkpoint_dicts(1) [OF assms(2)] by (simp_all add: st_def en_def)
  have get: "dict_get en k = Some d \<longleftrightarrow> d \<in> set ?e \<and> cp_source_id d = k" for k d
  proof -
    have "distinct (map fst en)" using assms(2) by (simp add: maps comp_def)
    then have "dict_get en k = Some d \<longleftrightarrow> (k, d) \<in> set en" by (simp add: dict_get_def)
    then show ?thesis by (auto simp: maps)
  qed
  have keys: "set (dict_keys st) = cp_source_id ` set ?s" "set (dict_keys en) = cp_source_id ` set ?e"
    by (simp_all add: maps dict_keys_def comp_def)
  define body where "body = (\<lambda>(source_id :: string, checkpoint :: source_checkpoint).
        let final = the (dict_get en source_id) in
        if cp_source_sequence final < cp_source_sequence checkpoint
        then Inl (ValueError ''ending source sequence moved backwards'')
        else if cp_observed_at_unix_ms final < cp_observed_at_unix_ms checkpoint
        then Inl (ValueError ''ending source observation time moved backwards'')
        else (Inr () :: unit result))"
  have loop: "set (dict_keys st) \<subseteq> set (dict_keys en) \<and> rall body st = Inr () \<longleftrightarrow>
    (\<forall>c \<in> set ?s. \<exists>d \<in> set ?e. cp_source_id d = cp_source_id c \<and> cp_source_sequence c \<le> cp_source_sequence d
        \<and> cp_observed_at_unix_ms c \<le> cp_observed_at_unix_ms d)" (is "?l \<longleftrightarrow> ?r")
  proof -
    have each: "(cp_source_id c \<in> cp_source_id ` set ?e \<and> body (cp_source_id c, c) = Inr ()) \<longleftrightarrow>
      (\<exists>d \<in> set ?e. cp_source_id d = cp_source_id c \<and> cp_source_sequence c \<le> cp_source_sequence d
        \<and> cp_observed_at_unix_ms c \<le> cp_observed_at_unix_ms d)" for c
    proof (cases "dict_get en (cp_source_id c)")
      case None
      have "cp_source_id d \<noteq> cp_source_id c" if "d \<in> set ?e" for d
        using get [of "cp_source_id c" d] None that by auto
      then show ?thesis by (metis imageE)
    next
      case (Some d)
      then have d: "d \<in> set ?e" "cp_source_id d = cp_source_id c" using get by auto
      have uniq: "d' = d" if "d' \<in> set ?e" "cp_source_id d' = cp_source_id c" for d'
        using that get [of "cp_source_id c" d'] Some by simp
      have "body (cp_source_id c, c) = Inr () \<longleftrightarrow> cp_source_sequence c \<le> cp_source_sequence d
        \<and> cp_observed_at_unix_ms c \<le> cp_observed_at_unix_ms d"
        by (auto simp: body_def Some Let_def)
      then show ?thesis using d uniq by (metis imageI)
    qed
    have "?l \<longleftrightarrow> (\<forall>c \<in> set ?s. cp_source_id c \<in> cp_source_id ` set ?e) \<and> (\<forall>c \<in> set ?s. body (cp_source_id c, c) = Inr ())"
      unfolding keys rall_Inr_iff by (auto simp: maps)
    then show ?thesis using each by (metis (no_types, lifting))
  qed
  have "SegmentManifest_post_init m = Inr m \<longleftrightarrow>
    is_segment_id (sm_segment_id m) \<and> 0 \<le> sm_created_at_unix_ms m \<and> sm_created_at_unix_ms m \<le> MAX_U64
    \<and> is_sha256_text (sm_previous_segment_sha256 m)
    \<and> 1 \<le> sm_record_count m \<and> sm_record_count m \<le> int MAX_SEGMENT_RECORDS
    \<and> is_sha256_text (sm_first_record_sha256 m) \<and> is_sha256_text (sm_last_record_sha256 m)
    \<and> is_sha256_text (sm_records_root_sha256 m) \<and> is_sha256_text (sm_source_contract_set_sha256 m)
    \<and> sorted (map cp_source_id ?s) \<and> ?e \<noteq> [] \<and> sorted (map cp_source_id ?e)
    \<and> (sm_previous_segment_sha256 m = ZERO_SHA256 \<longleftrightarrow> ?s = [])
    \<and> (set (dict_keys st) \<subseteq> set (dict_keys en) \<and> rall body st = Inr ())
    \<and> latest_observed ?e \<le> sm_created_at_unix_ms m"
    using assms
    by (auto simp: SegmentManifest_post_init_def st_def [symmetric] en_def [symmetric] body_def
        require_checkpoints_Inr Let_def not_less rall_Inr_iff simp del: rall.simps)
  then show ?thesis by (simp only: loop)
qed

subsection \<open>The invariant of the builder\<close>

lemma latest_observed_le: "cps \<noteq> [] \<Longrightarrow> latest_observed cps \<le> t \<longleftrightarrow> (\<forall>c \<in> set cps. cp_observed_at_unix_ms c \<le> t)"
  by (simp add: latest_observed_def)

lemma dict_get_checkpoints:
  assumes "distinct (map cp_source_id cps)"
  shows "dict_get (sequences_of cps) k = Some v \<longleftrightarrow> (\<exists>c \<in> set cps. cp_source_id c = k \<and> cp_source_sequence c = v)"
    "dict_get (observed_of cps) k = Some v \<longleftrightarrow> (\<exists>c \<in> set cps. cp_source_id c = k \<and> cp_observed_at_unix_ms c = v)"
  using assms checkpoint_dicts [OF assms] by (auto simp: dict_get_def comp_def)

lemma LedgerBuilder_init_Inr:
  assumes "LedgerBuilder_init sid created previous = Inr b"
  obtains starting psha where
    "b = \<lparr>lb_segment_id = sid, lb_created_at_unix_ms = created, lb_previous_segment_sha256 = psha,
         lb_starting_checkpoints = starting, lb_records = [], lb_last_sequence = sequences_of starting,
         lb_last_observed_at = observed_of starting, lb_event_ids = [], lb_sealed = False\<rparr>"
    "is_segment_id sid" "0 \<le> created" "created \<le> MAX_U64"
    "case previous of None \<Rightarrow> starting = [] \<and> psha = ZERO_SHA256
      | Some m \<Rightarrow> starting = sm_ending_source_checkpoints m \<and> sm_created_at_unix_ms m \<le> created
          \<and> segment_sha256 m = Inr psha"
  using assms by (auto simp: LedgerBuilder_init_def split: option.splits if_splits)

lemma builder_inv_init:
  assumes prev: "case previous of None \<Rightarrow> True | Some m \<Rightarrow> manifest_ok m"
    and "LedgerBuilder_init sid created previous = Inr b"
  shows "builder_inv b"
proof -
  obtain starting psha where b: "b = \<lparr>lb_segment_id = sid, lb_created_at_unix_ms = created, lb_previous_segment_sha256 = psha,
         lb_starting_checkpoints = starting, lb_records = [], lb_last_sequence = sequences_of starting,
         lb_last_observed_at = observed_of starting, lb_event_ids = [], lb_sealed = False\<rparr>"
    and ok: "is_segment_id sid" "0 \<le> created" "created \<le> MAX_U64"
    and src: "case previous of None \<Rightarrow> starting = [] \<and> psha = ZERO_SHA256
      | Some m \<Rightarrow> starting = sm_ending_source_checkpoints m \<and> sm_created_at_unix_ms m \<le> created
          \<and> segment_sha256 m = Inr psha"
    by (rule LedgerBuilder_init_Inr [OF assms(2)])
  have start: "checkpoints_ok starting \<and> is_sha256_text psha \<and> (starting = [] \<longrightarrow> psha = ZERO_SHA256)
    \<and> (\<forall>c \<in> set starting. cp_observed_at_unix_ms c \<le> created)"
  proof (cases previous)
    case None
    then show ?thesis using src by (simp add: checkpoints_ok_def)
  next
    case (Some m)
    then have m: "manifest_ok m" and s: "starting = sm_ending_source_checkpoints m" "sm_created_at_unix_ms m \<le> created"
      "segment_sha256 m = Inr psha" using prev src by auto
    note cps = manifest_ok_checkpoints [OF m]
    have "SegmentManifest_post_init m = Inr m" using m by (simp add: manifest_ok_def)
    then have "sm_ending_source_checkpoints m \<noteq> []" "latest_observed (sm_ending_source_checkpoints m) \<le> sm_created_at_unix_ms m"
      using SegmentManifest_post_init_Inr [OF checkpoints_okD(1) [OF cps(1)] checkpoints_okD(1) [OF cps(2)]] by auto
    then have "starting \<noteq> []" "\<forall>c \<in> set starting. cp_observed_at_unix_ms c \<le> created"
      using s latest_observed_le by (auto intro: order_trans)
    moreover have "is_sha256_text psha" using s(3) by (auto simp: segment_sha256_def canonical_sha256_iff json_sha256_text)
    ultimately show ?thesis using cps(2) s(1) by auto
  qed
  then have dist: "distinct (map cp_source_id starting)" by (auto dest: checkpoints_okD)
  have valid: "SourceCheckpoint_post_init c = Inr c" if "c \<in> set starting" for c
    using start that by (auto simp: checkpoints_ok_def list_all_iff)
  have keys: "dict_keys (sequences_of starting) = dict_keys (observed_of starting)"
    using checkpoint_dicts [OF dist] by (simp add: dict_keys_def comp_def)
  have "entries_ok b"
    unfolding entries_ok_def b using dict_wf_checkpoints [OF dist] keys valid start
    by (auto simp: dict_get_checkpoints [OF dist] entry_ok_def SourceCheckpoint_post_init_Inr)
  moreover have "walks_along b"
    unfolding walks_along_def b using walk_start_dicts dist
    by (auto simp: walk_of_def) (simp add: walk_start_def)
  ultimately show ?thesis using ok start by (simp add: builder_inv_def b)
qed

lemma LedgerBuilder_append_Inr:
  "LedgerBuilder_append e b = Inr (b', r) \<longleftrightarrow>
    \<not> lb_sealed b \<and> length (lb_records b) < MAX_SEGMENT_RECORDS
    \<and> oe_source_sequence e = expected_sequence (lb_last_sequence b) (oe_source_id e)
    \<and> \<not> observed_backwards (lb_last_observed_at b) e
    \<and> (oe_source_id e, oe_source_event_id e) \<notin> set (lb_event_ids b)
    \<and> (\<exists>p. (if lb_records b = [] then Inr ZERO_SHA256 else record_sha256 (last (lb_records b))) = Inr p
        \<and> r = \<lparr>lr_segment_id = lb_segment_id b, lr_ordinal = int (length (lb_records b)),
                lr_previous_record_sha256 = p, lr_envelope = e\<rparr>
        \<and> LedgerRecord_post_init r = Inr r)
    \<and> b' = b\<lparr>lb_records := lb_records b @ [r],
               lb_last_sequence := dict_set (oe_source_id e) (oe_source_sequence e) (lb_last_sequence b),
               lb_last_observed_at := dict_set (oe_source_id e) (oe_observed_at_unix_ms e) (lb_last_observed_at b),
               lb_event_ids := (oe_source_id e, oe_source_event_id e) # lb_event_ids b\<rparr>"
  unfolding LedgerBuilder_append_def Let_def
  by (cases "if lb_records b = [] then Inr ZERO_SHA256 else record_sha256 (last (lb_records b))")
     (auto simp: LedgerRecord_post_init_Inr not_le simp del: if_split_asm)

lemma rmap_snoc: "rmap f (xs @ [x]) = rbind (rmap f xs) (\<lambda>ys. rbind (f x) (\<lambda>y. Inr (ys @ [y])))"
  by (induction xs) (auto simp: rbind_assoc)

lemma walks_along_append:
  assumes walks: "walks_along b" and app: "LedgerBuilder_append e b = Inr (b', r)"
  shows "walks_along b'"
  unfolding walks_along_def
proof (intro allI impI)
  fix m :: segment_manifest and ds
  assume m: "sm_segment_id m = lb_segment_id b'" "sm_starting_source_checkpoints m = lb_starting_checkpoints b'"
    and ds: "rmap record_sha256 (lb_records b') = Inr ds"
  note a = app [unfolded LedgerBuilder_append_Inr]
  obtain p where p: "(if lb_records b = [] then Inr ZERO_SHA256 else record_sha256 (last (lb_records b))) = Inr p"
    and r: "r = \<lparr>lr_segment_id = lb_segment_id b, lr_ordinal = int (length (lb_records b)),
                lr_previous_record_sha256 = p, lr_envelope = e\<rparr>" using a by blast
  have b': "b' = b\<lparr>lb_records := lb_records b @ [r],
               lb_last_sequence := dict_set (oe_source_id e) (oe_source_sequence e) (lb_last_sequence b),
               lb_last_observed_at := dict_set (oe_source_id e) (oe_observed_at_unix_ms e) (lb_last_observed_at b),
               lb_event_ids := (oe_source_id e, oe_source_event_id e) # lb_event_ids b\<rparr>"
    using a by blast
  obtain ds0 d where d: "rmap record_sha256 (lb_records b) = Inr ds0" "record_sha256 r = Inr d" "ds = ds0 @ [d]"
    using ds by (auto simp: b' rmap_snoc)
  have before: "rfold (validate_record m) (walk_start m) (lb_records b) = Inr (walk_of b ds0)"
    using walks m d(1) by (simp add: walks_along_def b')
  have previous: "p = (if ds0 = [] then ZERO_SHA256 else last ds0)"
  proof (cases "lb_records b = []")
    case True
    then show ?thesis using p d(1) by auto
  next
    case False
    then obtain rs x where rs: "lb_records b = rs @ [x]" by (metis rev_exhaust)
    then show ?thesis using p d(1) by (auto simp: rmap_snoc)
  qed
  have "validate_record m (walk_of b ds0) r = Inr (walk_of b' ds)"
    using a d m by (auto simp: validate_record_Inr walk_of_def r b' previous)
  then show "rfold (validate_record m) (walk_start m) (lb_records b') = Inr (walk_of b' ds)"
    using before by (simp add: b' rfold_append)
qed

lemma entries_ok_append:
  assumes "entries_ok b" "envelope_ok e" "LedgerBuilder_append e b = Inr (b', r)"
  shows "entries_ok b'"
proof -
  have e: "entry_ok (oe_source_id e) (oe_source_sequence e)" "entry_ok (oe_source_id e) (oe_observed_at_unix_ms e)"
    using envelope_ok_facts [OF assms(2)] by (auto simp: entry_ok_def is_ok_iff)
  have b': "b' = b\<lparr>lb_records := lb_records b @ [r],
               lb_last_sequence := dict_set (oe_source_id e) (oe_source_sequence e) (lb_last_sequence b),
               lb_last_observed_at := dict_set (oe_source_id e) (oe_observed_at_unix_ms e) (lb_last_observed_at b),
               lb_event_ids := (oe_source_id e, oe_source_event_id e) # lb_event_ids b\<rparr>"
    and r: "lr_envelope r = e"
    using assms(3) unfolding LedgerBuilder_append_Inr by auto
  show ?thesis using assms(1) e unfolding entries_ok_def b' by (auto simp: dict.keys_put r)
qed

lemma builder_inv_append:
  assumes "builder_inv b" "envelope_ok e" "LedgerBuilder_append e b = Inr (b', r)"
  shows "builder_inv b'"
proof -
  have "lb_records b' = lb_records b @ [r]" "record_ok r" "length (lb_records b) < MAX_SEGMENT_RECORDS"
    "lb_segment_id b' = lb_segment_id b" "lb_created_at_unix_ms b' = lb_created_at_unix_ms b"
    "lb_previous_segment_sha256 b' = lb_previous_segment_sha256 b" "lb_starting_checkpoints b' = lb_starting_checkpoints b"
    using assms(2,3) unfolding LedgerBuilder_append_Inr record_ok_def by auto
  moreover have "walks_along b'" "entries_ok b'"
    using assms walks_along_append entries_ok_append by (auto simp: builder_inv_def)
  ultimately show ?thesis using assms(1) by (simp add: builder_inv_def)
qed

lemma LedgerBuilder_seal_state: "LedgerBuilder_seal b = Inr (b', seg) \<Longrightarrow> b' = b\<lparr>lb_sealed := True\<rparr>"
  by (auto simp: LedgerBuilder_seal_def split: if_splits)

lemma builder_inv_seal:
  assumes "builder_inv b" "LedgerBuilder_seal b = Inr (b', seg)"
  shows "builder_inv b'"
  using assms(1) unfolding LedgerBuilder_seal_state [OF assms(2)]
  by (simp add: builder_inv_def walks_along_def entries_ok_def walk_of_def)

lemma builder_reachable_inv: "builder_reachable b \<Longrightarrow> builder_inv b"
  by (induction rule: builder_reachable.induct) (blast intro: builder_inv_init builder_inv_append builder_inv_seal)+

subsection \<open>Sealing\<close>

lemma digests_root_ok:
  assumes "list_all is_sha256_text ds" "length ds \<le> MAX_SEGMENT_RECORDS"
  shows "is_ok (canonical_sha256 (JArr (map JStr ds)))"
proof -
  have plain: "json_escape_char c = [c]" if "is_hex_char c" for c
  proof -
    have "c \<in> set hex_digits" using that by (simp add: is_hex_char_def)
    then show ?thesis by (auto simp: hex_digits_def json_escape_char_def)
  qed
  have quoted: "length (json_quote d) = 66" if "is_sha256_text d" for d
  proof -
    have "concat (map json_escape_char s) = s" if "list_all is_hex_char s" for s
      using that plain by (induction s) auto
    then have "concat (map json_escape_char d) = d" using that by (simp add: is_sha256_text_def)
    then show ?thesis using that by (simp add: json_quote_def is_sha256_text_def)
  qed
  have sum: "(\<Sum>d \<leftarrow> ds. length (json_quote d)) = 66 * length ds"
    using assms(1) quoted by (induction ds) auto
  have "json_size (JArr (map JStr ds)) \<le> DEFAULT_MAX_JSON_BYTES"
    using sum assms(2) by (simp add: comp_def MAX_SEGMENT_RECORDS_def DEFAULT_MAX_JSON_BYTES_def)
  moreover have "json_items (JArr (map JStr ds)) \<le> DEFAULT_MAX_ITEMS"
    using assms(2) by (simp add: comp_def sum_list_triv MAX_SEGMENT_RECORDS_def DEFAULT_MAX_ITEMS_def)
  moreover have "json_depth (JArr (map JStr ds)) \<le> DEFAULT_MAX_DEPTH"
    by (simp add: fold_max_le_iff DEFAULT_MAX_DEPTH_def)
  moreover have "\<not> has_huge_int (JArr (map JStr ds))" by (simp add: list_ex_iff)
  ultimately show ?thesis by (simp only: is_ok_iff canonical_sha256_iff canonical_json_bytes_iff) blast
qed

lemma ending_checkpoints:
  assumes "entries_ok b"
  obtains ending where "checkpoints_from_maps (lb_last_sequence b) (lb_last_observed_at b) = Inr ending"
    "checkpoints_ok ending" "set (map cp_source_id ending) = set (dict_keys (lb_last_sequence b))"
    "\<And>s. dict_get (sequences_of ending) s = dict_get (lb_last_sequence b) s"
    "\<And>s. dict_get (observed_of ending) s = dict_get (lb_last_observed_at b) s"
proof -
  let ?ss = "lb_last_sequence b" and ?os = "lb_last_observed_at b"
  have b: "dict_wf ?ss" "dict_wf ?os" "set (dict_keys ?ss) = set (dict_keys ?os)"
    "\<And>s v. dict_get ?ss s = Some v \<Longrightarrow> entry_ok s v" "\<And>s v. dict_get ?os s = Some v \<Longrightarrow> entry_ok s v"
    using assms by (auto simp: entries_ok_def)
  let ?c = "\<lambda>k. \<lparr>cp_source_id = k, cp_source_sequence = the (dict_get ?ss k), cp_observed_at_unix_ms = the (dict_get ?os k)\<rparr>"
  have "SourceCheckpoint_post_init (?c k) = Inr (?c k)" if "k \<in> set (sort (dict_keys ?ss))" for k
  proof -
    have "k \<in> dom (dict_get ?ss)" "k \<in> dom (dict_get ?os)"
      unfolding dict.set_keys [symmetric] using that b(3) by simp_all
    then obtain v w where "dict_get ?ss k = Some v" "dict_get ?os k = Some w" by blast
    then show ?thesis using b(4,5) [of k] by (simp add: SourceCheckpoint_post_init_Inr entry_ok_def)
  qed
  then have "rmap (\<lambda>k. SourceCheckpoint_post_init (?c k)) (sort (dict_keys ?ss)) = Inr (map ?c (sort (dict_keys ?ss)))"
    by (rule rmap_InrI)
  then have "checkpoints_from_maps ?ss ?os = Inr (map ?c (sort (dict_keys ?ss)))"
    unfolding checkpoints_from_maps_def using b(3) by simp
  then obtain ending where e: "checkpoints_from_maps ?ss ?os = Inr ending" by blast
  note f = checkpoints_from_maps_Inr [OF e b(1,2)]
  show thesis by (rule that [OF e f(1) _ f(3,4)]) (simp add: f(2))
qed

lemma sorted_map_last:
  assumes "sorted (map f xs)" "x \<in> set xs" "xs \<noteq> []"
  shows "f x \<le> f (last xs)"
proof -
  obtain ys y where xs: "xs = ys @ [y]" using assms(3) by (metis rev_exhaust)
  then show ?thesis using assms(1,2) by (auto simp: sorted_append)
qed

text \<open>Every source of the starting checkpoints ends where it started or later.\<close>

lemma walk_keeps_checkpoint:
  assumes walk: "rfold (validate_record m) (walk_start m) rs = Inr st"
    and start: "checkpoints_ok (sm_starting_source_checkpoints m)" and c: "c \<in> set (sm_starting_source_checkpoints m)"
  shows "\<exists>v w. dict_get (vw_last_sequence st) (cp_source_id c) = Some v \<and> cp_source_sequence c \<le> v
    \<and> dict_get (vw_last_observed st) (cp_source_id c) = Some w \<and> cp_observed_at_unix_ms c \<le> w"
proof -
  let ?s = "cp_source_id c" and ?cps = "sm_starting_source_checkpoints m"
  let ?es = "source_events ?s (map lr_envelope rs)"
  note dist = checkpoints_okD(1) [OF start]
  note ws = walk_start_dicts [OF dist]
  have here: "dict_get (sequences_of ?cps) ?s = Some (cp_source_sequence c)"
    "dict_get (observed_of ?cps) ?s = Some (cp_observed_at_unix_ms c)"
    using c by (auto simp: dict_get_checkpoints [OF dist])
  have "0 \<le> cp_source_sequence c"
    using start c by (auto simp: checkpoints_ok_def list_all_iff SourceCheckpoint_post_init_Inr)
  moreover have "cp_source_sequence c + 1 \<le> expected_sequence (vw_last_sequence st) ?s"
    using walk_sequences [OF walk, of ?s] here(1) by (simp add: ws expected_sequence_def)
  ultimately have "\<exists>v. dict_get (vw_last_sequence st) ?s = Some v \<and> cp_source_sequence c \<le> v"
    by (cases "dict_get (vw_last_sequence st) ?s") (simp_all add: expected_sequence_def)
  moreover have "\<exists>w. dict_get (vw_last_observed st) ?s = Some w \<and> cp_observed_at_unix_ms c \<le> w"
    using walk_times [OF walk, of ?s] here(2) by (auto simp: ws not_before_def list_all_iff)
  ultimately show ?thesis by blast
qed

definition genesis_or_linked :: "ledger_builder \<Rightarrow> bool" where
  "genesis_or_linked b \<longleftrightarrow> lb_previous_segment_sha256 b \<noteq> ZERO_SHA256 \<or> lb_starting_checkpoints b = []"

lemma seal_succeeds:
  assumes inv: "builder_inv b" and linked: "genesis_or_linked b" and "\<not> lb_sealed b" "lb_records b \<noteq> []"
    and ds: "rmap record_sha256 (lb_records b) = Inr ds"
    and time: "\<forall>r \<in> set (lb_records b). oe_observed_at_unix_ms (lr_envelope r) \<le> lb_created_at_unix_ms b"
  shows "\<exists>seg. LedgerBuilder_seal b = Inr (b\<lparr>lb_sealed := True\<rparr>, seg) \<and> segment_ok seg
    \<and> os_records seg = lb_records b \<and> sm_segment_id (os_manifest seg) = lb_segment_id b
    \<and> sm_starting_source_checkpoints (os_manifest seg) = lb_starting_checkpoints b"
proof -
  have entries: "entries_ok b" and start: "checkpoints_ok (lb_starting_checkpoints b)" and walks: "walks_along b"
    and count: "length (lb_records b) \<le> MAX_SEGMENT_RECORDS" and records: "list_all record_ok (lb_records b)"
    and fields: "is_segment_id (lb_segment_id b)" "0 \<le> lb_created_at_unix_ms b" "lb_created_at_unix_ms b \<le> MAX_U64"
      "is_sha256_text (lb_previous_segment_sha256 b)"
    using inv by (auto simp: builder_inv_def)
  obtain ending where ending: "checkpoints_from_maps (lb_last_sequence b) (lb_last_observed_at b) = Inr ending"
    "checkpoints_ok ending" "set (map cp_source_id ending) = set (dict_keys (lb_last_sequence b))"
    and get: "\<And>s. dict_get (sequences_of ending) s = dict_get (lb_last_sequence b) s"
      "\<And>s. dict_get (observed_of ending) s = dict_get (lb_last_observed_at b) s"
    by (rule ending_checkpoints [OF entries]) blast
  note edist = checkpoints_okD(1) [OF ending(2)]
  have "ending \<noteq> []"
  proof -
    obtain r where "r \<in> set (lb_records b)" using assms(4) by (cases "lb_records b") auto
    then have "set (dict_keys (lb_last_sequence b)) \<noteq> {}" using entries by (auto simp: entries_ok_def)
    then show ?thesis using ending(3) by auto
  qed
  moreover have "cp_observed_at_unix_ms c \<le> lb_created_at_unix_ms b" if "c \<in> set ending" for c
  proof -
    have "dict_get (lb_last_observed_at b) (cp_source_id c) = Some (cp_observed_at_unix_ms c)"
      using that by (auto simp: get(2) [symmetric] dict_get_checkpoints [OF edist])
    then show ?thesis using entries time by (fastforce simp: entries_ok_def)
  qed
  ultimately have latest: "latest_observed ending \<le> lb_created_at_unix_ms b" by (simp add: latest_observed_le)
  have len: "length ds = length (lb_records b)" using ds by (rule rmap_length)
  have "list_all is_sha256_text ds" using ds
    by (auto simp: rmap_eq_Inr intro: list_all2_right dest: record_sha256_text)
  then obtain root where root: "canonical_sha256 (JArr (map JStr ds)) = Inr root"
    using digests_root_ok count len by (metis is_ok_iff)
  define m where "m = \<lparr>sm_segment_id = lb_segment_id b, sm_created_at_unix_ms = lb_created_at_unix_ms b,
        sm_previous_segment_sha256 = lb_previous_segment_sha256 b,
        sm_record_count = int (length (lb_records b)),
        sm_first_record_sha256 = hd ds, sm_last_record_sha256 = last ds,
        sm_records_root_sha256 = root, sm_source_contract_set_sha256 = json_sha256 contract_set_json,
        sm_starting_source_checkpoints = lb_starting_checkpoints b,
        sm_ending_source_checkpoints = ending\<rparr>"
  have walk: "rfold (validate_record m) (walk_start m) (lb_records b) = Inr (walk_of b ds)"
    using walks ds by (simp add: walks_along_def m_def)
  have "\<exists>d \<in> set ending. cp_source_id d = cp_source_id c \<and> cp_source_sequence c \<le> cp_source_sequence d
        \<and> cp_observed_at_unix_ms c \<le> cp_observed_at_unix_ms d" if "c \<in> set (lb_starting_checkpoints b)" for c
  proof -
    have "\<exists>v w. dict_get (lb_last_sequence b) (cp_source_id c) = Some v \<and> cp_source_sequence c \<le> v
      \<and> dict_get (lb_last_observed_at b) (cp_source_id c) = Some w \<and> cp_observed_at_unix_ms c \<le> w"
      using walk_keeps_checkpoint [OF walk, of c] start that by (simp add: m_def walk_of_def)
    then obtain v w where v: "dict_get (sequences_of ending) (cp_source_id c) = Some v" "cp_source_sequence c \<le> v"
      and w: "dict_get (observed_of ending) (cp_source_id c) = Some w" "cp_observed_at_unix_ms c \<le> w"
      unfolding get by blast
    obtain d d' where "d \<in> set ending" "cp_source_id d = cp_source_id c" "cp_source_sequence d = v"
      and "d' \<in> set ending" "cp_source_id d' = cp_source_id c" "cp_observed_at_unix_ms d' = w"
      using v(1) w(1) by (auto simp: dict_get_checkpoints [OF edist])
    moreover from this have "d = d'" using edist by (auto simp: distinct_map inj_on_def)
    ultimately show ?thesis using v(2) w(2) by auto
  qed
  moreover have "ds \<noteq> []" using len assms(4) by auto
  then have "is_sha256_text (hd ds)" "is_sha256_text (last ds)"
    using \<open>list_all is_sha256_text ds\<close> by (simp_all add: list_all_iff)
  moreover have "is_sha256_text root" using root by (auto simp: canonical_sha256_iff json_sha256_text)
  moreover have "sorted (map cp_source_id (lb_starting_checkpoints b))" "sorted (map cp_source_id ending)"
    "1 \<le> int (length (lb_records b))"
    using start ending(2) assms(4) by (auto simp: checkpoints_ok_def Suc_le_eq)
  moreover have "lb_previous_segment_sha256 b = ZERO_SHA256 \<longleftrightarrow> lb_starting_checkpoints b = []"
    using linked inv by (auto simp: genesis_or_linked_def builder_inv_def)
  ultimately have post: "SegmentManifest_post_init m = Inr m"
    using fields count latest \<open>ending \<noteq> []\<close> checkpoints_okD(1) [OF start] edist
    by (subst SegmentManifest_post_init_Inr) (simp_all add: m_def json_sha256_text)
  have valid: "validate_segment (lb_records b) m = Inr ()"
    using walk assms(4) count ending(1) latest root
    by (simp add: validate_segment_Inr m_def walk_of_def contract_set_digest)
  define seg where "seg = \<lparr>os_records = lb_records b, os_manifest = m\<rparr>"
  have seg_init: "ObservationSegment_post_init seg = Inr seg"
    using valid assms(4) by (simp add: ObservationSegment_post_init_def seg_def)
  have "segment_ok seg"
    using seg_init post start ending(2) records
    by (simp add: segment_ok_def manifest_ok_def seg_def m_def checkpoints_ok_def)
  moreover have "LedgerBuilder_seal b = Inr (b\<lparr>lb_sealed := True\<rparr>, seg)"
    unfolding LedgerBuilder_seal_def
    using assms(3,4) ending(1) latest ds root post seg_init
    by (simp add: contract_set_digest m_def [symmetric] seg_def)
  ultimately show ?thesis by (intro exI [of _ seg]) (simp add: seg_def m_def)
qed

lemma seal_needs:
  assumes inv: "builder_inv b" and seal: "LedgerBuilder_seal b = Inr (b', seg)"
  shows "\<not> lb_sealed b" "lb_records b \<noteq> []" "\<exists>ds. rmap record_sha256 (lb_records b) = Inr ds"
    "\<forall>r \<in> set (lb_records b). oe_observed_at_unix_ms (lr_envelope r) \<le> lb_created_at_unix_ms b"
proof -
  show "\<not> lb_sealed b" "lb_records b \<noteq> []" and digests: "\<exists>ds. rmap record_sha256 (lb_records b) = Inr ds"
    using seal by (auto simp: LedgerBuilder_seal_def split: if_splits)
  obtain ds where ds: "rmap record_sha256 (lb_records b) = Inr ds" using digests by blast
  have entries: "entries_ok b" and walks: "walks_along b" using inv by (auto simp: builder_inv_def)
  obtain ending where ending: "checkpoints_from_maps (lb_last_sequence b) (lb_last_observed_at b) = Inr ending"
    "checkpoints_ok ending" and get: "\<And>s. dict_get (observed_of ending) s = dict_get (lb_last_observed_at b) s"
    by (rule ending_checkpoints [OF entries]) blast
  have latest: "latest_observed ending \<le> lb_created_at_unix_ms b"
    using seal ending(1) by (auto simp: LedgerBuilder_seal_def split: if_splits)
  define m where "m = os_manifest seg\<lparr>sm_segment_id := lb_segment_id b, sm_starting_source_checkpoints := lb_starting_checkpoints b\<rparr>"
  have walk: "rfold (validate_record m) (walk_start m) (lb_records b) = Inr (walk_of b ds)"
    using walks ds by (simp add: walks_along_def m_def)
  show "\<forall>r \<in> set (lb_records b). oe_observed_at_unix_ms (lr_envelope r) \<le> lb_created_at_unix_ms b"
  proof
    fix r
    assume r: "r \<in> set (lb_records b)"
    let ?s = "oe_source_id (lr_envelope r)" let ?es = "source_events ?s (map lr_envelope (lb_records b))"
    have e: "lr_envelope r \<in> set ?es" using r by (auto simp: source_events_def)
    then have "?es \<noteq> []" by auto
    then have final: "dict_get (lb_last_observed_at b) ?s = Some (oe_observed_at_unix_ms (last ?es))"
      and sort: "sorted (map oe_observed_at_unix_ms ?es)"
      using walk_times [OF walk, of ?s] by (auto simp: walk_of_def)
    have "oe_observed_at_unix_ms (lr_envelope r) \<le> oe_observed_at_unix_ms (last ?es)"
      using sort e \<open>?es \<noteq> []\<close> by (rule sorted_map_last)
    moreover obtain c where c: "c \<in> set ending" "cp_observed_at_unix_ms c = oe_observed_at_unix_ms (last ?es)"
      using final by (auto simp: get [symmetric] dict_get_checkpoints [OF checkpoints_okD(1) [OF ending(2)]])
    moreover from c have "ending \<noteq> []" by auto
    then have "oe_observed_at_unix_ms (last ?es) \<le> lb_created_at_unix_ms b"
      using latest c by (auto simp: latest_observed_le)
    ultimately show "oe_observed_at_unix_ms (lr_envelope r) \<le> lb_created_at_unix_ms b" by simp
  qed
qed

text \<open>Sealing succeeds exactly when the builder could have known it would.\<close>

lemma seal_iff:
  assumes "builder_inv b" "genesis_or_linked b"
  shows "is_ok (LedgerBuilder_seal b) \<longleftrightarrow>
    \<not> lb_sealed b \<and> lb_records b \<noteq> [] \<and> list_all (\<lambda>r. is_ok (record_sha256 r)) (lb_records b)
    \<and> list_all (\<lambda>r. oe_observed_at_unix_ms (lr_envelope r) \<le> lb_created_at_unix_ms b) (lb_records b)"
proof -
  have digests: "(\<exists>ds. rmap record_sha256 rs = Inr ds) \<longleftrightarrow> list_all (\<lambda>r. is_ok (record_sha256 r)) rs" for rs
    by (induction rs) (auto simp: is_ok_iff)
  show ?thesis
  proof
    assume "is_ok (LedgerBuilder_seal b)"
    then obtain b' seg where "LedgerBuilder_seal b = Inr (b', seg)" by (auto simp: is_ok_iff)
    from seal_needs [OF assms(1) this]
    show "\<not> lb_sealed b \<and> lb_records b \<noteq> [] \<and> list_all (\<lambda>r. is_ok (record_sha256 r)) (lb_records b)
      \<and> list_all (\<lambda>r. oe_observed_at_unix_ms (lr_envelope r) \<le> lb_created_at_unix_ms b) (lb_records b)"
      unfolding digests by (simp add: list_all_iff)
  next
    assume r: "\<not> lb_sealed b \<and> lb_records b \<noteq> [] \<and> list_all (\<lambda>r. is_ok (record_sha256 r)) (lb_records b)
      \<and> list_all (\<lambda>r. oe_observed_at_unix_ms (lr_envelope r) \<le> lb_created_at_unix_ms b) (lb_records b)"
    then obtain ds where "rmap record_sha256 (lb_records b) = Inr ds" using digests by blast
    then show "is_ok (LedgerBuilder_seal b)"
      using seal_succeeds [OF assms] r by (force simp: list_all_iff is_ok_iff)
  qed
qed

lemma seal_reached:
  assumes "builder_inv b" "genesis_or_linked b" "\<not> lb_sealed b" "lb_records b \<noteq> []"
    and "list_all (\<lambda>r. is_ok (record_sha256 r)) (lb_records b)"
    and "list_all (\<lambda>r. oe_observed_at_unix_ms (lr_envelope r) \<le> lb_created_at_unix_ms b) (lb_records b)"
  shows "\<exists>seg. LedgerBuilder_seal b = Inr (b\<lparr>lb_sealed := True\<rparr>, seg) \<and> segment_ok seg \<and> os_records seg = lb_records b"
proof -
  have "\<exists>ds. rmap record_sha256 rs = Inr ds" if "list_all (\<lambda>r. is_ok (record_sha256 r)) rs" for rs
    using that by (induction rs) (auto simp: is_ok_iff)
  with assms(5) obtain ds where "rmap record_sha256 (lb_records b) = Inr ds" by blast
  from seal_succeeds [OF assms(1-4) this] assms(6) show ?thesis by (auto simp: list_all_iff)
qed

subsection \<open>A builder that can go no further\<close>

text \<open>A record nests the payload of its envelope two levels deeper than the constructor of the
  envelope checked; at the limit it has no digest.\<close>

lemma json_depth_field: "(k, x) \<in> set kvs \<Longrightarrow> Suc (json_depth x) \<le> json_depth (JObj kvs)"
  using fold_max_le_iff [of "map (\<lambda>kv. Suc (json_depth (snd kv))) kvs" 0 "json_depth (JObj kvs)"] by auto

lemma deep_record_undigested:
  assumes "envelope_payload (lr_envelope r) = Inr kvs" "DEFAULT_MAX_DEPTH < json_depth (JObj kvs) + 2"
  shows "\<not> is_ok (record_sha256 r)"
proof
  assume "is_ok (record_sha256 r)"
  then obtain ed v where v: "ObservationEnvelope_to_json (lr_envelope r) = Inr v"
    and rec: "is_ok (canonical_sha256 (JObj [(''schema'', JStr RECORD_SCHEMA), (''segment_id'', JStr (lr_segment_id r)),
         (''ordinal'', JStr (str_of_int (lr_ordinal r))),
         (''previous_record_sha256'', JStr (lr_previous_record_sha256 r)),
         (''envelope_sha256'', JStr ed), (''envelope'', v)]))"
    by (auto simp: is_ok_iff record_sha256_def LedgerRecord_unsigned_json_def)
  obtain fields where "v = JObj fields" "(''payload'', JObj kvs) \<in> set fields"
    using v assms(1) by (auto simp: ObservationEnvelope_to_json_def)
  then have "Suc (json_depth (JObj kvs)) \<le> json_depth v" by (metis json_depth_field)
  moreover have "Suc (json_depth v) \<le> DEFAULT_MAX_DEPTH"
    using rec json_depth_field [of "''envelope''" v] unfolding is_ok_iff canonical_sha256_iff canonical_json_bytes_iff
    by (meson list.set_intros order_trans)
  ultimately show False using assms(2) by simp
qed

lemma undigested_record_blocks:
  assumes "LedgerBuilder_append e b = Inr (b', r)" "\<not> is_ok (record_sha256 r)"
  shows "\<not> is_ok (LedgerBuilder_append e' b')" "\<not> is_ok (LedgerBuilder_seal b')"
proof -
  have records: "lb_records b' = lb_records b @ [r]" using assms(1) by (auto simp: LedgerBuilder_append_Inr)
  have "LedgerBuilder_append e' b' \<noteq> Inr (b'', r')" for b'' r'
    using assms(2) by (auto simp: LedgerBuilder_append_Inr records is_ok_iff)
  then show "\<not> is_ok (LedgerBuilder_append e' b')" by (auto simp: is_ok_iff)
  have "rmap record_sha256 (lb_records b') \<noteq> Inr ds" for ds
    using assms(2) by (auto simp: records rmap_snoc is_ok_iff)
  then show "\<not> is_ok (LedgerBuilder_seal b')" by (auto simp: is_ok_iff LedgerBuilder_seal_def)
qed

end
