(* ===== verification/Ledger_Codec.thy ===== *)
theory Ledger_Codec
  imports Ledger_Correct
begin

text \<open>
  Ledger segments as bytes: \<open>parse_segment\<close> reads back what \<open>serialize_segment\<close> writes, and the
  digest of a segment's manifest commits to all of its content.
\<close>

subsection \<open>Reading a normalised object\<close>

lemma json_norm_eq [simp]:
  "json_norm x = JStr s \<longleftrightarrow> x = JStr s" "json_norm x = JNull \<longleftrightarrow> x = JNull"
  by (cases x; simp)+

lemma json_norm_readers [simp]:
  "exact_str msg (json_norm x) = exact_str msg x"
  "parse_decimal name (json_norm x) k = parse_decimal name x k"
  "require_sha256_json name (json_norm x) = require_sha256_json name x"
  "require_segment_id_json (json_norm x) = require_segment_id_json x"
  by (cases x; simp add: exact_str_def parse_decimal_def require_sha256_json_def require_segment_id_json_def)+

lemma distinct_keys_sort_key [simp]: "distinct (map fst (sort_key fst kvs)) = distinct (map fst kvs)"
  by (rule mset_eq_imp_distinct_iff) simp

lemma map_of_sort_key: "distinct (map fst kvs) \<Longrightarrow> map_of (sort_key fst kvs) = map_of kvs"
  by (subst map_of_inject_set) simp_all

lemma keys_norm_fields [simp]: "set (map fst (norm_fields kvs)) = set (map fst kvs)"
  by (force simp: norm_fields_def)

lemma jfield_norm_fields:
  assumes "distinct (map fst kvs)"
  shows "jfield (norm_fields kvs) k = json_norm (jfield kvs k)"
proof -
  have "distinct (map fst (map (\<lambda>(k, x). (k, json_norm x)) kvs))"
    using assms by (simp add: comp_def split_def)
  then have "map_of (norm_fields kvs) k = map_of (map (\<lambda>(k, x). (k, json_norm x)) kvs) k"
    by (simp add: norm_fields_def map_of_sort_key)
  also have "\<dots> = map_option json_norm (map_of kvs k)" by (simp add: map_of_map)
  finally show ?thesis by (simp add: jfield_def split: option.splits)
qed

lemma require_exact_keys_norm [simp]: "require_exact_keys n (norm_fields kvs) ks = require_exact_keys n kvs ks"
  by (simp only: require_exact_keys_def keys_norm_fields)

lemma json_norm_obj: "json_norm (JObj kvs) = JObj (norm_fields kvs)"
  by (simp add: norm_fields_def)

lemma exact_dict_norm: "exact_dict msg (json_norm x) = map_sum id norm_fields (exact_dict msg x)"
  by (cases x) (simp_all add: exact_dict_def norm_fields_def)

lemma optional_decimal_norm [simp]:
  "(case json_norm x of JNull \<Rightarrow> Inr None
      | raw \<Rightarrow> rbind (parse_decimal n raw k) (\<lambda>t. Inr (Some t)))
    = (case x of JNull \<Rightarrow> Inr None | raw \<Rightarrow> rbind (parse_decimal n raw k) (\<lambda>t. Inr (Some t)))"
  by (cases x) (simp_all add: parse_decimal_def)

lemma text_case_norm [simp]: "(case json_norm x of JStr t \<Rightarrow> f t | _ \<Rightarrow> e) = (case x of JStr t \<Rightarrow> f t | _ \<Rightarrow> e)"
  by (cases x) simp_all

lemma envelope_from_norm:
  assumes "json_unique v"
  shows "ObservationEnvelope_from_json (json_norm v) = Inr e \<longleftrightarrow> ObservationEnvelope_from_json v = Inr e"
proof (cases v)
  case (JObj kvs)
  then have d: "distinct (map fst kvs)" using assms by simp
  note j = jfield_norm_fields [OF d]
  show ?thesis
    unfolding JObj json_norm_obj ObservationEnvelope_from_json_def exact_dict_def
    by (simp add: j canonical_json_bytes_norm Let_def cong: rbind_cong)
qed (simp_all add: ObservationEnvelope_from_json_def exact_dict_def)

lemma json_unique_jfield: "json_unique (JObj kvs) \<Longrightarrow> json_unique (jfield kvs k)"
  by (auto simp: jfield_def list_all_iff split: option.splits dest!: map_of_SomeD)

lemma record_from_norm:
  assumes "json_unique v"
  shows "LedgerRecord_from_json (json_norm v) = Inr r \<longleftrightarrow> LedgerRecord_from_json v = Inr r"
proof (cases v)
  case (JObj kvs)
  then have d: "distinct (map fst kvs)" using assms by simp
  have u: "json_unique (jfield kvs k)" for k using assms JObj json_unique_jfield by blast
  note j = jfield_norm_fields [OF d]
  show ?thesis
    unfolding JObj json_norm_obj LedgerRecord_from_json_def exact_dict_def
    by (simp add: j envelope_from_norm [OF u])
qed (simp_all add: LedgerRecord_from_json_def exact_dict_def)

lemma checkpoint_from_norm:
  assumes "json_unique v"
  shows "SourceCheckpoint_from_json s (json_norm v) = SourceCheckpoint_from_json s v"
proof (cases v)
  case (JObj kvs)
  then have d: "distinct (map fst kvs)" using assms by simp
  show ?thesis
    unfolding JObj json_norm_obj SourceCheckpoint_from_json_def exact_dict_def
    by (simp add: jfield_norm_fields [OF d])
qed (simp_all add: SourceCheckpoint_from_json_def exact_dict_def)

lemma checkpoints_from_norm:
  assumes "json_unique v"
  shows "parse_checkpoints n (json_norm v) = parse_checkpoints n v"
proof (cases v)
  case (JObj kvs)
  have "sort_key fst (norm_fields kvs) = map (\<lambda>(k, x). (k, json_norm x)) (sort_key fst kvs)"
    by (simp add: norm_fields_def sort_key_map_pair sort_key_id_if_sorted)
  moreover have "rmap (\<lambda>(s, c). SourceCheckpoint_from_json s c) (map (\<lambda>(k, x). (k, json_norm x)) xs)
    = rmap (\<lambda>(s, c). SourceCheckpoint_from_json s c) xs" if "set xs \<subseteq> set kvs" for xs
    using that assms JObj by (induction xs) (auto simp: list_all_iff checkpoint_from_norm)
  ultimately show ?thesis
    unfolding JObj json_norm_obj parse_checkpoints_def exact_dict_def by simp
qed (simp_all add: parse_checkpoints_def exact_dict_def)

lemma manifest_from_norm:
  assumes "json_unique v"
  shows "SegmentManifest_from_json (json_norm v) = SegmentManifest_from_json v"
proof (cases v)
  case (JObj kvs)
  then have d: "distinct (map fst kvs)" using assms by simp
  have u: "json_unique (jfield kvs k)" for k using assms JObj json_unique_jfield by blast
  show ?thesis
    unfolding JObj json_norm_obj SegmentManifest_from_json_def exact_dict_def
    by (simp add: jfield_norm_fields [OF d] checkpoints_from_norm [OF u])
qed (simp_all add: SegmentManifest_from_json_def exact_dict_def)

subsection \<open>Objects survive their JSON form\<close>

lemma is_sha256_readers [simp]:
  "is_sha256_text d \<Longrightarrow> require_sha256_json n (JStr d) = Inr d"
  by (simp add: require_sha256_json_def)

lemma record_json_roundtrip:
  assumes ok: "record_ok r" and json: "LedgerRecord_to_json r = Inr v"
  shows "LedgerRecord_from_json v = Inr r"
proof -
  obtain ed ej rd where e: "envelope_digest (lr_envelope r) = Inr ed" "ObservationEnvelope_to_json (lr_envelope r) = Inr ej"
    and rd: "record_sha256 r = Inr rd"
    and v: "v = JObj [(''schema'', JStr RECORD_SCHEMA), (''segment_id'', JStr (lr_segment_id r)),
         (''ordinal'', JStr (str_of_int (lr_ordinal r))),
         (''previous_record_sha256'', JStr (lr_previous_record_sha256 r)),
         (''envelope_sha256'', JStr ed), (''envelope'', ej), (''record_sha256'', JStr rd)]"
    using json by (auto simp: LedgerRecord_to_json_def LedgerRecord_unsigned_json_def)
  have init: "LedgerRecord_post_init r = Inr r" and env: "envelope_ok (lr_envelope r)" using ok by (auto simp: record_ok_def)
  have bounds: "is_sha256_text (lr_previous_record_sha256 r)" "0 \<le> lr_ordinal r" "lr_ordinal r \<le> int MAX_SEGMENT_RECORDS - 1"
    using init by (auto simp: LedgerRecord_post_init_def split: if_splits)
  have whole: "LedgerRecord_post_init \<lparr>lr_segment_id = lr_segment_id r, lr_ordinal = lr_ordinal r,
      lr_previous_record_sha256 = lr_previous_record_sha256 r, lr_envelope = lr_envelope r\<rparr> = Inr r"
    using init by (cases r) simp
  have "int MAX_SEGMENT_RECORDS - 1 \<le> MAX_U64" by (simp add: MAX_SEGMENT_RECORDS_def MAX_U64_def)
  moreover have "is_sha256_text ed" "is_sha256_text rd" using e(1) rd envelope_digest_text record_sha256_text by auto
  ultimately show ?thesis
    unfolding v using envelope_json_roundtrip [OF env e(2)] bounds whole e(1) rd
    by (simp add: LedgerRecord_from_json_def exact_dict_def require_exact_keys_def RECORD_KEYS_def jfield_def
        parse_decimal_str_of_int require_segment_id_json_def exact_str_def)
qed

lemma checkpoint_json_roundtrip:
  "SourceCheckpoint_post_init c = Inr c \<Longrightarrow> SourceCheckpoint_from_json (cp_source_id c) (SourceCheckpoint_to_json c) = Inr c"
  by (simp add: SourceCheckpoint_from_json_def SourceCheckpoint_to_json_def exact_dict_def require_exact_keys_def
      jfield_def parse_decimal_str_of_int SourceCheckpoint_post_init_Inr)

lemma checkpoints_json_roundtrip:
  assumes "checkpoints_ok cps"
  shows "parse_checkpoints n (checkpoints_json cps) = Inr cps"
proof -
  let ?kvs = "map (\<lambda>c. (cp_source_id c, SourceCheckpoint_to_json c)) cps"
  have "sort_key fst ?kvs = ?kvs"
    using assms by (intro sort_key_id_if_sorted) (simp add: checkpoints_ok_def comp_def)
  moreover have "rmap (\<lambda>(s, c). SourceCheckpoint_from_json s c) (map (\<lambda>c. (cp_source_id c, SourceCheckpoint_to_json c)) xs) = Inr xs"
    if "list_all (\<lambda>c. SourceCheckpoint_post_init c = Inr c) xs" for xs
    using that by (induction xs) (auto simp: checkpoint_json_roundtrip)
  ultimately show ?thesis
    using assms checkpoint_dicts(4) [OF checkpoints_okD(1) [OF assms]]
    by (simp add: parse_checkpoints_def exact_dict_def checkpoints_ok_def)
qed

lemma manifest_fields:
  assumes "SegmentManifest_post_init m = Inr m"
  shows "is_sha256_text (sm_previous_segment_sha256 m)" "is_sha256_text (sm_first_record_sha256 m)"
    "is_sha256_text (sm_last_record_sha256 m)" "is_sha256_text (sm_records_root_sha256 m)"
    "is_sha256_text (sm_source_contract_set_sha256 m)" "0 \<le> sm_created_at_unix_ms m" "sm_created_at_unix_ms m \<le> MAX_U64"
    "0 \<le> sm_record_count m" "sm_record_count m \<le> int MAX_SEGMENT_RECORDS" "is_segment_id (sm_segment_id m)"
  using assms by (auto simp: SegmentManifest_post_init_def require_segment_id_def rall_Inr_iff simp del: rall.simps split: if_splits)

lemma manifest_json_roundtrip:
  assumes ok: "manifest_ok m" and json: "SegmentManifest_to_json m = Inr v"
  shows "SegmentManifest_from_json v = Inr m"
proof -
  obtain d where d: "segment_sha256 m = Inr d" and v: "v = JObj (SegmentManifest_unsigned_json m @ [(''segment_sha256'', JStr d)])"
    using json by (auto simp: SegmentManifest_to_json_def)
  have init: "SegmentManifest_post_init m = Inr m" using ok by (simp add: manifest_ok_def)
  have sha: "is_sha256_text d" using d by (auto simp: segment_sha256_def canonical_sha256_iff json_sha256_text)
  have "int MAX_SEGMENT_RECORDS \<le> MAX_U64" by (simp add: MAX_SEGMENT_RECORDS_def MAX_U64_def)
  note facts = manifest_fields [OF init] sha this
  have whole: "SegmentManifest_post_init
      \<lparr>sm_segment_id = sm_segment_id m, sm_created_at_unix_ms = sm_created_at_unix_ms m,
       sm_previous_segment_sha256 = sm_previous_segment_sha256 m, sm_record_count = sm_record_count m,
       sm_first_record_sha256 = sm_first_record_sha256 m, sm_last_record_sha256 = sm_last_record_sha256 m,
       sm_records_root_sha256 = sm_records_root_sha256 m,
       sm_source_contract_set_sha256 = sm_source_contract_set_sha256 m,
       sm_starting_source_checkpoints = sm_starting_source_checkpoints m,
       sm_ending_source_checkpoints = sm_ending_source_checkpoints m\<rparr> = Inr m"
    using init by (cases m) simp
  note cps = manifest_ok_checkpoints [OF ok]
  show ?thesis
    unfolding v using facts whole d
    by (simp add: SegmentManifest_from_json_def SegmentManifest_unsigned_json_def exact_dict_def require_exact_keys_def
        MANIFEST_KEYS_def jfield_def parse_decimal_str_of_int require_segment_id_json_def exact_str_def
        checkpoints_json_roundtrip [OF cps(1)] checkpoints_json_roundtrip [OF cps(2)])
qed

subsection \<open>The texts of a segment\<close>

text \<open>A recorded envelope whose texts are Unicode and whose payload is a Python object.\<close>

definition envelope_text_ok :: "envelope \<Rightarrow> bool" where
  "envelope_text_ok e \<longleftrightarrow> utf8_valid (oe_source_event_id e) \<and>
    (case envelope_payload e of Inr kvs \<Rightarrow> json_unique (JObj kvs) \<and> json_utf8 (JObj kvs) | Inl _ \<Rightarrow> False)"

lemma utf8_valid_values [simp]:
  "utf8_valid (chain_value c)" "utf8_valid (source_kind_value k)" "utf8_valid (observation_kind_value ob)"
  "utf8_valid (finality_value f)" "utf8_valid (visibility_value v)"
proof -
  show "utf8_valid (chain_value c)" by (cases c) simp_all
  show "utf8_valid (source_kind_value k)" by (cases k) simp_all
  show "utf8_valid (observation_kind_value ob)" by (cases ob) simp_all
  show "utf8_valid (finality_value f)" by (cases f) simp_all
  show "utf8_valid (visibility_value v)" by (cases v) simp_all
qed

lemma hex_ascii: "is_hex_char c \<Longrightarrow> (of_char c :: nat) < 128"
  by (auto simp: is_hex_char_def hex_digits_def)

lemma utf8_valid_sha256: "is_sha256_text d \<Longrightarrow> utf8_valid d"
  by (rule utf8_valid_ascii) (auto simp: is_sha256_text_def list_all_iff hex_ascii)

lemma identifier_ascii: "is_lower_alnum c \<or> c \<in> set ''._-'' \<Longrightarrow> (of_char c :: nat) < 128"
  by (auto simp: is_lower_alnum_def)

lemma utf8_valid_segment_id: "is_segment_id s \<Longrightarrow> utf8_valid s"
  unfolding is_segment_id_def list_all_iff
  by (rule utf8_valid_ascii) (use identifier_ascii in \<open>unfold list_all_iff, blast\<close>)

lemma utf8_valid_source_id:
  assumes "get_source_contract s = Inr c"
  shows "utf8_valid s"
proof -
  have "is_source_id s"
    using source_contract_facts [OF assms] by (auto simp: SourceContract_post_init_def split: if_splits)
  then have "\<forall>c \<in> set s. is_lower_alnum c \<or> c \<in> set ''._-''" by (auto simp: is_source_id_def list_all_iff)
  then show ?thesis
    by (intro utf8_valid_ascii) (use identifier_ascii in \<open>unfold list_all_iff, blast\<close>)
qed

lemma envelope_json_text:
  assumes ok: "envelope_ok e" and uni: "envelope_text_ok e" and json: "ObservationEnvelope_to_json e = Inr v"
  shows "json_unique v" "json_utf8 v"
proof -
  obtain kvs s where p: "envelope_payload e = Inr kvs" and s: "source_contract_sha256 e = Inr s"
    using json by (auto simp: ObservationEnvelope_to_json_def)
  have sha: "utf8_valid s" "utf8_valid (payload_sha256 e)"
    using s by (auto simp: source_contract_sha256_def SourceContract_digest_def canonical_sha256_iff payload_sha256_def
        intro!: utf8_valid_sha256 json_sha256_text sha256.digest_hex_text)
  have src: "utf8_valid (oe_source_id e)" using envelope_ok_facts(6) [OF ok] utf8_valid_source_id by blast
  define em where "em = (case oe_emitted_at_unix_ms e of None \<Rightarrow> JNull | Some t \<Rightarrow> JStr (str_of_int t))"
  have em: "json_unique em" "json_utf8 em" by (simp_all add: em_def utf8_valid_digits split: option.splits)
  have payload: "json_unique (JObj kvs)" "json_utf8 (JObj kvs)" "utf8_valid (oe_source_event_id e)"
    using uni p by (simp_all add: envelope_text_ok_def)
  have v: "v = JObj [(''schema'', JStr ENVELOPE_SCHEMA), (''source_id'', JStr (oe_source_id e)),
     (''chain'', JStr (chain_value (oe_chain e))), (''source_kind'', JStr (source_kind_value (oe_source_kind e))),
     (''source_sequence'', JStr (str_of_int (oe_source_sequence e))),
     (''source_event_id'', JStr (oe_source_event_id e)),
     (''observed_at_unix_ms'', JStr (str_of_int (oe_observed_at_unix_ms e))), (''emitted_at_unix_ms'', em),
     (''kind'', JStr (observation_kind_value (oe_kind e))), (''finality'', JStr (finality_value (oe_finality e))),
     (''visibility'', JStr (visibility_value (oe_visibility e))), (''payload'', JObj kvs),
     (''payload_sha256'', JStr (payload_sha256 e)), (''source_contract_sha256'', JStr s)]"
    using json p s by (simp add: ObservationEnvelope_to_json_def em_def)
  show "json_unique v" unfolding v using payload(1) em(1) by simp
  show "json_utf8 v" unfolding v using payload(2,3) em(2) sha src
    by (simp add: utf8_valid_digits ENVELOPE_SCHEMA_def)
qed

lemma record_json_text:
  assumes ok: "record_ok r" and uni: "envelope_text_ok (lr_envelope r)" and json: "LedgerRecord_to_json r = Inr v"
  shows "json_unique v" "json_utf8 v"
proof -
  obtain ed ej rd where e: "envelope_digest (lr_envelope r) = Inr ed" "ObservationEnvelope_to_json (lr_envelope r) = Inr ej"
    and rd: "record_sha256 r = Inr rd"
    and v: "v = JObj [(''schema'', JStr RECORD_SCHEMA), (''segment_id'', JStr (lr_segment_id r)),
         (''ordinal'', JStr (str_of_int (lr_ordinal r))),
         (''previous_record_sha256'', JStr (lr_previous_record_sha256 r)),
         (''envelope_sha256'', JStr ed), (''envelope'', ej), (''record_sha256'', JStr rd)]"
    using json by (auto simp: LedgerRecord_to_json_def LedgerRecord_unsigned_json_def)
  have "envelope_ok (lr_envelope r)" using ok by (simp add: record_ok_def)
  note env = envelope_json_text [OF this uni e(2)]
  have "LedgerRecord_post_init r = Inr r" using ok by (simp add: record_ok_def)
  then have "utf8_valid (lr_segment_id r)" "utf8_valid (lr_previous_record_sha256 r)"
    by (auto simp: LedgerRecord_post_init_def require_segment_id_def utf8_valid_segment_id utf8_valid_sha256 split: if_splits)
  moreover have "utf8_valid ed" "utf8_valid rd"
    using e(1) rd envelope_digest_text record_sha256_text utf8_valid_sha256 by auto
  ultimately show "json_unique v" "json_utf8 v"
    unfolding v using env by (simp_all add: utf8_valid_digits RECORD_SCHEMA_def)
qed

lemma checkpoints_json_text:
  assumes "checkpoints_ok cps"
  shows "json_unique (checkpoints_json cps)" "json_utf8 (checkpoints_json cps)"
proof -
  note dist = checkpoints_okD(1) [OF assms]
  have "utf8_valid (cp_source_id c)" if "c \<in> set cps" for c
    using assms that
    by (auto simp: checkpoints_ok_def list_all_iff SourceCheckpoint_post_init_Inr is_ok_iff intro: utf8_valid_source_id)
  then show "json_unique (checkpoints_json cps)" "json_utf8 (checkpoints_json cps)"
    unfolding checkpoint_dicts(4) [OF dist] using dist
    by (auto simp: comp_def list_all_iff SourceCheckpoint_to_json_def utf8_valid_digits)
qed

lemma manifest_json_text:
  assumes ok: "manifest_ok m" and json: "SegmentManifest_to_json m = Inr v"
  shows "json_unique v" "json_utf8 v"
proof -
  obtain d where d: "segment_sha256 m = Inr d" and v: "v = JObj (SegmentManifest_unsigned_json m @ [(''segment_sha256'', JStr d)])"
    using json by (auto simp: SegmentManifest_to_json_def)
  have "SegmentManifest_post_init m = Inr m" using ok by (simp add: manifest_ok_def)
  note f = manifest_fields [OF this]
  have sha: "utf8_valid d" using d by (auto simp: segment_sha256_def canonical_sha256_iff json_sha256_text intro: utf8_valid_sha256)
  note cps = manifest_ok_checkpoints [OF ok]
  note texts = checkpoints_json_text [OF cps(1)] checkpoints_json_text [OF cps(2)]
  show "json_unique v" "json_utf8 v"
    unfolding v using texts f sha
    by (simp_all add: SegmentManifest_unsigned_json_def utf8_valid_digits MANIFEST_SCHEMA_def utf8_valid_sha256 utf8_valid_segment_id)
qed

subsection \<open>Lines\<close>

text \<open>An encoding holds no control character, so no line of a segment is split or refused.\<close>

definition printable :: "char \<Rightarrow> bool" where
  "printable c \<longleftrightarrow> 32 \<le> (of_char c :: nat)"

lemma printable_marks [simp]:
  "printable CHR 0x22" "printable CHR 0x5C" "printable (CHR '','')" "printable (CHR '':'')"
  "printable (CHR ''['')" "printable (CHR '']'')" "printable (CHR ''{'')" "printable (CHR ''}'')"
  "printable (CHR ''0'')" "printable (CHR ''-'')" "printable (CHR ''n'')" "printable (CHR ''r'')"
  "printable (CHR ''t'')" "printable (CHR ''f'')" "printable (CHR ''b'')" "printable (CHR ''u'')"
  "printable (CHR ''l'')" "printable (CHR ''e'')" "printable (CHR ''a'')" "printable (CHR ''s'')"
  by (simp_all add: printable_def)

lemma printable_hex: "is_hex_char c \<Longrightarrow> printable c"
  by (auto simp: is_hex_char_def hex_digits_def printable_def)

lemma printable_escape: "list_all printable (json_escape_char c)"
proof -
  have "printable (hex_digit (n div 16)) \<and> printable (hex_digit (n mod 16))" if "n < 32" for n
    using that hex_digit_facts(1) [of "n div 16"] hex_digit_facts(1) [of "n mod 16"] printable_hex by simp
  then have "list_all printable (hex4 (of_char c))" if "(of_char c :: nat) < 32"
    using that by (simp add: hex4_def)
  moreover have "printable c" if "\<not> (of_char c :: nat) < 32" using that by (simp add: printable_def)
  ultimately show ?thesis by (simp add: json_escape_char_def)
qed

lemma printable_quote: "list_all printable (json_quote s)"
proof -
  have "list_all printable (concat (map json_escape_char s))"
    using printable_escape by (induction s) simp_all
  then show ?thesis by (simp add: json_quote_def)
qed

lemma printable_join: "list_all (list_all printable) xs \<Longrightarrow> list_all printable (join '','' xs)"
  by (induction "'',''" xs rule: join.induct) simp_all

lemma printable_digits: "list_all printable (str_of_int v)"
proof -
  have "printable c" if "is_digit_char c" for c using that by (auto simp: is_digit_char_def printable_def)
  then have "list_all printable (str_of_nat n)" for n
    using str_of_nat_digits [of n] by (auto simp: list_all_iff)
  then show ?thesis by (simp add: str_of_int_def)
qed

lemma printable_dump: "list_all printable (json_dump v)"
proof (induction v)
  case (JArr vs)
  then have "list_all printable (join '','' (map json_dump vs))"
    by (intro printable_join) (simp add: list_all_iff)
  then show ?case by simp
next
  case (JObj kvs)
  define parts where "parts = map (\<lambda>(k, t). json_quote k @ '':'' @ t) (sort_key fst (map (\<lambda>(k, x). (k, json_dump x)) kvs))"
  have each: "list_all printable (json_dump (snd kv))" if "kv \<in> set kvs" for kv
    using JObj [of kv "snd kv"] that by (simp add: snds.intros prod_set_simps)
  have "list_all printable t" if t: "t \<in> set parts" for t
  proof -
    obtain k x where kv: "(k, x) \<in> set kvs" "t = json_quote k @ '':'' @ json_dump x"
      using t by (auto simp: parts_def)
    then show ?thesis using each [OF kv(1)] printable_quote by simp
  qed
  then have "list_all printable (join '','' parts)" by (intro printable_join) (simp add: list_all_iff)
  then show ?case unfolding json_dump.simps parts_def by simp
qed (simp_all add: printable_quote printable_digits)

lemma encoded_bytes:
  assumes "canonical_json_bytes v = Inr b"
  shows "b \<noteq> []" "0x0A \<notin> set b" "0x0D \<notin> set b" "length b \<le> DEFAULT_MAX_JSON_BYTES" "take 3 (b @ r) \<noteq> [0xEF, 0xBB, 0xBF]"
proof -
  have b: "b = utf8_bytes (json_dump v)" and size: "json_size v \<le> DEFAULT_MAX_JSON_BYTES"
    using assms by (simp_all add: canonical_json_bytes_iff)
  obtain c t where c: "json_dump v = c # t" "(of_char c :: nat) < 128" using json_dump_head by blast
  show "b \<noteq> []" by (simp add: b c utf8_bytes_def)
  show "length b \<le> DEFAULT_MAX_JSON_BYTES" using size by (simp add: b length_json_dump)
  have big: "32 \<le> unat w" if "w \<in> set b" for w
    using that printable_dump char_less_256
    by (auto simp: b utf8_bytes_def list_all_iff printable_def unat_of_nat_byte)
  show "0x0A \<notin> set b" "0x0D \<notin> set b" using big by fastforce+
  have "unat (hd b) < 128" using c by (simp add: b utf8_bytes_def unat_of_nat_byte)
  then have "hd b \<noteq> 0xEF" by auto
  moreover obtain w ws where "b = w # ws" using \<open>b \<noteq> []\<close> by (metis neq_Nil_conv)
  ultimately show "take 3 (b @ r) \<noteq> [0xEF, 0xBB, 0xBF]" by simp
qed

lemma split_lines_not_Nil [simp]: "split_lines bs \<noteq> []"
  by (induction bs) (auto split: list.splits)

lemma split_lines_line: "0x0A \<notin> set l \<Longrightarrow> split_lines (l @ 0x0A # bs) = l # split_lines bs"
  by (induction l) auto

lemma split_lines_last: "0x0A \<notin> set l \<Longrightarrow> split_lines l = [l]"
  by (induction l) auto

lemma split_lines_segment:
  assumes "ls \<noteq> []" "\<forall>l \<in> set ls. 0x0A \<notin> set l"
  shows "split_lines (butlast (concat (map (\<lambda>l. l @ [0x0A]) ls))) = ls"
  using assms
proof (induction ls)
  case Nil
  then show ?case by simp
next
  case (Cons l ls)
  show ?case
  proof (cases "ls = []")
    case True
    then show ?thesis using Cons.prems by (simp add: butlast_append split_lines_last)
  next
    case False
    then obtain x xs where "ls = x # xs" by (cases ls) auto
    then have "concat (map (\<lambda>l. l @ [0x0A]) ls) \<noteq> []" by simp
    then have "butlast (concat (map (\<lambda>l. l @ [0x0A]) (l # ls))) = l @ 0x0A # butlast (concat (map (\<lambda>l. l @ [0x0A]) ls))"
      by (simp add: butlast_append)
    then show ?thesis using Cons False by (simp add: split_lines_line)
  qed
qed

lemma parse_line_encoded:
  assumes "canonical_json_bytes v = Inr b" "json_unique v" "json_utf8 v"
  shows "parse_line b = Inr (json_norm v)"
  using strict_json_loads_canonical [OF assms] canonical_json_bytes_norm [of v b] assms(1)
  by (simp add: parse_line_def)

subsection \<open>Segments\<close>

lemma lines_read_back:
  assumes "rmap (\<lambda>r. rbind (LedgerRecord_to_json r) canonical_json_bytes) rs = Inr ls"
    and "list_all record_ok rs" "list_all (\<lambda>r. envelope_text_ok (lr_envelope r)) rs"
  shows "\<exists>vals. rmap parse_line ls = Inr vals \<and> rmap LedgerRecord_from_json vals = Inr rs"
    and "\<forall>l \<in> set ls. \<exists>v. canonical_json_bytes v = Inr l"
  using assms
proof (induction rs arbitrary: ls)
  case Nil
  { case 1 then show ?case by simp }
  { case 2 then show ?case by simp }
next
  case (Cons r rs)
  have split: "\<exists>v l ls'. ls = l # ls' \<and> LedgerRecord_to_json r = Inr v \<and> canonical_json_bytes v = Inr l
      \<and> rmap (\<lambda>r. rbind (LedgerRecord_to_json r) canonical_json_bytes) rs = Inr ls'"
    if "rmap (\<lambda>r. rbind (LedgerRecord_to_json r) canonical_json_bytes) (r # rs) = Inr ls" for ls
    using that by auto
  {
    case 1
    obtain v l ls' where v: "ls = l # ls'" "LedgerRecord_to_json r = Inr v" "canonical_json_bytes v = Inr l"
      and rest: "rmap (\<lambda>r. rbind (LedgerRecord_to_json r) canonical_json_bytes) rs = Inr ls'"
      using split [OF 1(1)] by blast
    have ok: "record_ok r" "envelope_text_ok (lr_envelope r)" using 1 by auto
    note u = record_json_text [OF ok v(2)]
    have "LedgerRecord_from_json (json_norm v) = Inr r"
      using record_json_roundtrip [OF ok(1) v(2)] record_from_norm [OF u(1)] by simp
    moreover obtain vals where "rmap parse_line ls' = Inr vals" "rmap LedgerRecord_from_json vals = Inr rs"
      using Cons.IH(1) [OF rest] 1 by auto
    ultimately show ?case using parse_line_encoded [OF v(3) u] by (simp add: v(1))
  next
    case 2
    obtain v l ls' where v: "ls = l # ls'" "canonical_json_bytes v = Inr l"
      and rest: "rmap (\<lambda>r. rbind (LedgerRecord_to_json r) canonical_json_bytes) rs = Inr ls'"
      using split [OF 2(1)] by blast
    show ?case using Cons.IH(2) [OF rest] 2 v by auto
  }
qed

lemma segment_roundtrip:
  assumes ok: "segment_ok seg" and uni: "list_all (\<lambda>r. envelope_text_ok (lr_envelope r)) (os_records seg)"
    and ser: "serialize_segment seg = Inr payload"
  shows "parse_segment payload = Inr seg"
proof -
  let ?rs = "os_records seg" and ?m = "os_manifest seg"
  obtain ls mv ml where ls: "rmap (\<lambda>r. rbind (LedgerRecord_to_json r) canonical_json_bytes) ?rs = Inr ls"
    and mv: "SegmentManifest_to_json ?m = Inr mv" and ml: "canonical_json_bytes mv = Inr ml"
    and payload: "payload = concat (map (\<lambda>l. l @ [0x0A]) (ls @ [ml]))" and size: "length payload \<le> MAX_SEGMENT_BYTES"
    using ser by (auto simp: serialize_segment_def Let_def not_less split: if_splits)
  have records: "list_all record_ok ?rs" and man: "manifest_ok ?m" and init: "ObservationSegment_post_init seg = Inr seg"
    using ok by (auto simp: segment_ok_def)
  have count: "?rs \<noteq> []" "length ?rs \<le> MAX_SEGMENT_RECORDS" using segment_okD [OF ok] by metis+
  have len: "length ls = length ?rs" using ls by (rule rmap_length)
  obtain vals where vals: "rmap parse_line ls = Inr vals" "rmap LedgerRecord_from_json vals = Inr ?rs"
    using lines_read_back(1) [OF ls records uni] by blast
  note u = manifest_json_text [OF man mv]
  have m: "SegmentManifest_from_json (json_norm mv) = Inr ?m"
    using manifest_json_roundtrip [OF man mv] manifest_from_norm [OF u(1)] by simp
  have enc: "\<forall>l \<in> set (ls @ [ml]). \<exists>v. canonical_json_bytes v = Inr l"
    using lines_read_back(2) [OF ls records uni] ml by auto
  then have lines: "\<forall>l \<in> set (ls @ [ml]). 0x0A \<notin> set l" "\<forall>l \<in> set (ls @ [ml]). 0x0D \<notin> set l"
    "[] \<notin> set (ls @ [ml])" "\<not> list_ex (\<lambda>l. DEFAULT_MAX_JSON_BYTES < length l) (ls @ [ml])"
    unfolding list_ex_iff using encoded_bytes by (metis, metis, metis, metis not_less)
  have split: "split_lines (butlast payload) = ls @ [ml]"
    unfolding payload by (rule split_lines_segment) (use lines(1) in auto)
  have ends: "last payload = 0x0A" "payload \<noteq> []" by (simp_all add: payload)
  have no_cr: "0x0D \<notin> set payload" using lines(2) by (auto simp: payload)
  have no_mark: "take 3 payload \<noteq> [0xEF, 0xBB, 0xBF]"
  proof (cases ls)
    case Nil
    then show ?thesis using count(1) len by simp
  next
    case (Cons l ls')
    then obtain v where "canonical_json_bytes v = Inr l" using enc by auto
    then show ?thesis using encoded_bytes(5) by (simp add: payload Cons)
  qed
  have "rmap parse_line (ls @ [ml]) = Inr (vals @ [json_norm mv])"
    using vals(1) parse_line_encoded [OF ml u] by (induction ls arbitrary: vals) auto
  moreover have "ObservationSegment_post_init \<lparr>os_records = ?rs, os_manifest = ?m\<rparr> = Inr seg"
    using init by (cases seg) simp
  ultimately show ?thesis
    using split ends no_cr no_mark size count len lines(3,4) m vals(2)
    by (simp add: parse_segment_def Let_def not_less Suc_le_eq)
qed

subsection \<open>Digests commit to content\<close>

text \<open>The byte strings a segment's chain of digests is computed from: its manifest, the list of
  its record digests, and its records.\<close>

definition hashed_values :: "observation_segment \<Rightarrow> json list result" where
  "hashed_values seg =
    rbind (rmap record_sha256 (os_records seg)) (\<lambda>ds.
    rbind (rmap LedgerRecord_unsigned_json (os_records seg)) (\<lambda>kvss.
    Inr (JObj (SegmentManifest_unsigned_json (os_manifest seg)) # JArr (map JStr ds) # map JObj kvss)))"

definition hashed_texts :: "observation_segment \<Rightarrow> bytes list" where
  "hashed_texts seg =
    (case hashed_values seg of Inr vs \<Rightarrow> map (\<lambda>v. utf8_bytes (json_dump v)) vs | Inl _ \<Rightarrow> [])"

lemma dump_inj:
  assumes "json_unique v" "\<not> has_huge_int v" "json_unique w" "\<not> has_huge_int w" "json_dump v = json_dump w"
  shows "json_norm v = json_norm w"
  using json_loads_dump [OF assms(1,2)] json_loads_dump [OF assms(3,4)] assms(5) by simp

lemma digest_inj:
  assumes "canonical_sha256 v = Inr d" "canonical_sha256 w = Inr d" "json_unique v" "json_unique w"
    and inj: "inj_on sha256 B" "utf8_bytes (json_dump v) \<in> B" "utf8_bytes (json_dump w) \<in> B"
  shows "json_norm v = json_norm w"
proof -
  have ok: "\<not> has_huge_int v" "\<not> has_huge_int w" "json_sha256 v = json_sha256 w"
    using assms(1,2) by (auto simp: canonical_sha256_iff is_ok_iff canonical_json_bytes_iff)
  then have "sha256 (utf8_bytes (json_dump v)) = sha256 (utf8_bytes (json_dump w))"
    by (simp add: json_sha256_def bytes_hex_inj)
  then have "utf8_bytes (json_dump v) = utf8_bytes (json_dump w)" using inj by (meson inj_onD)
  then show ?thesis using ok assms(3,4) by (intro dump_inj) (auto dest: utf8_bytes_inj)
qed

text \<open>Objects that agree after normalisation still agree with one more field.\<close>

lemma norm_fields_snoc:
  assumes "norm_fields a = norm_fields b" "distinct (map fst (a @ [x]))" "distinct (map fst (b @ [x]))"
  shows "norm_fields (a @ [x]) = norm_fields (b @ [x])"
proof -
  let ?N = "\<lambda>(k :: string, x). (k, json_norm x)"
  have keys: "map fst (map ?N c) = map fst c" for c by (simp add: comp_def split_def)
  have "set (norm_fields c) = set (map ?N c)" for c by (simp add: norm_fields_def)
  then have "set (norm_fields (a @ [x])) = set (norm_fields (b @ [x]))" using assms(1) by (metis map_append set_append)
  moreover have "sorted (map fst (norm_fields c))" for c by (simp add: norm_fields_def)
  moreover have "distinct (map fst (norm_fields c))" if "distinct (map fst c)" for c
    using that unfolding norm_fields_def distinct_keys_sort_key keys .
  moreover from this have "inj_on fst (set (norm_fields (a @ [x])))"
    using assms(2) by (metis distinct_map)
  ultimately show ?thesis
    using assms(2,3) by (intro map_sorted_distinct_set_unique [of fst]) auto
qed

lemma record_committed:
  assumes ok: "record_ok r" "envelope_text_ok (lr_envelope r)" "record_ok r'" "envelope_text_ok (lr_envelope r')"
    and d: "record_sha256 r = Inr d" "record_sha256 r' = Inr d"
    and u: "LedgerRecord_unsigned_json r = Inr kvs" "LedgerRecord_unsigned_json r' = Inr kvs'"
    and inj: "inj_on sha256 B" "utf8_bytes (json_dump (JObj kvs)) \<in> B" "utf8_bytes (json_dump (JObj kvs')) \<in> B"
  shows "r = r'"
proof -
  let ?x = "(''record_sha256'', JStr d)"
  have json: "LedgerRecord_to_json r = Inr (JObj (kvs @ [?x]))" "LedgerRecord_to_json r' = Inr (JObj (kvs' @ [?x]))"
    using d u by (simp_all add: LedgerRecord_to_json_def)
  note w = record_json_text(1) [OF ok(1,2) json(1)] record_json_text(1) [OF ok(3,4) json(2)]
  have unique: "json_unique (JObj kvs)" "json_unique (JObj kvs')" using w by auto
  have "json_norm (JObj kvs) = json_norm (JObj kvs')"
    using d u by (intro digest_inj [OF _ _ unique inj]) (simp_all add: record_sha256_def)
  then have same: "norm_fields kvs = norm_fields kvs'" by (simp only: json_norm_obj json.inject)
  have "distinct (map fst (kvs @ [?x]))" "distinct (map fst (kvs' @ [?x]))"
    using w by (simp_all only: json_unique.simps)
  from norm_fields_snoc [OF same this]
  have "json_norm (JObj (kvs @ [?x])) = json_norm (JObj (kvs' @ [?x]))"
    by (simp only: json_norm_obj)
  moreover have "LedgerRecord_from_json (json_norm (JObj (kvs @ [?x]))) = Inr r"
    "LedgerRecord_from_json (json_norm (JObj (kvs' @ [?x]))) = Inr r'"
    using record_json_roundtrip [OF ok(1) json(1)] record_json_roundtrip [OF ok(3) json(2)]
      record_from_norm [OF w(1)] record_from_norm [OF w(2)] by auto
  ultimately show ?thesis by simp
qed

lemma manifest_committed:
  assumes ok: "manifest_ok m" "manifest_ok m'" and d: "segment_sha256 m = Inr d" "segment_sha256 m' = Inr d"
    and inj: "inj_on sha256 B" "utf8_bytes (json_dump (JObj (SegmentManifest_unsigned_json m))) \<in> B"
      "utf8_bytes (json_dump (JObj (SegmentManifest_unsigned_json m'))) \<in> B"
  shows "m = m'"
proof -
  let ?x = "(''segment_sha256'', JStr d)" and ?k = "SegmentManifest_unsigned_json m" and ?k' = "SegmentManifest_unsigned_json m'"
  have json: "SegmentManifest_to_json m = Inr (JObj (?k @ [?x]))" "SegmentManifest_to_json m' = Inr (JObj (?k' @ [?x]))"
    using d by (simp_all add: SegmentManifest_to_json_def)
  note w = manifest_json_text(1) [OF ok(1) json(1)] manifest_json_text(1) [OF ok(2) json(2)]
  have unique: "json_unique (JObj ?k)" "json_unique (JObj ?k')" using w by auto
  have "json_norm (JObj ?k) = json_norm (JObj ?k')"
    using d by (intro digest_inj [OF _ _ unique inj]) (simp_all add: segment_sha256_def)
  then have same: "norm_fields ?k = norm_fields ?k'" by (simp only: json_norm_obj json.inject)
  have "distinct (map fst (?k @ [?x]))" "distinct (map fst (?k' @ [?x]))"
    using w by (simp_all only: json_unique.simps)
  from norm_fields_snoc [OF same this]
  have "json_norm (JObj (?k @ [?x])) = json_norm (JObj (?k' @ [?x]))"
    by (simp only: json_norm_obj)
  moreover have "SegmentManifest_from_json (json_norm (JObj (?k @ [?x]))) = Inr m"
    "SegmentManifest_from_json (json_norm (JObj (?k' @ [?x]))) = Inr m'"
    using manifest_json_roundtrip [OF ok(1) json(1)] manifest_json_roundtrip [OF ok(2) json(2)]
      manifest_from_norm [OF w(1)] manifest_from_norm [OF w(2)] by auto
  ultimately show ?thesis by simp
qed

lemma segment_okE:
  assumes "segment_ok seg"
  obtains ds kvss where "rmap record_sha256 (os_records seg) = Inr ds" "rmap LedgerRecord_unsigned_json (os_records seg) = Inr kvss"
    "canonical_sha256 (JArr (map JStr ds)) = Inr (sm_records_root_sha256 (os_manifest seg))"
    "hashed_values seg = Inr (JObj (SegmentManifest_unsigned_json (os_manifest seg)) # JArr (map JStr ds) # map JObj kvss)"
proof -
  obtain st where walk: "rfold (validate_record (os_manifest seg)) (walk_start (os_manifest seg)) (os_records seg) = Inr st"
    and root: "canonical_sha256 (JArr (map JStr (vw_digests st))) = Inr (sm_records_root_sha256 (os_manifest seg))"
    by (rule segment_okD [OF assms])
  obtain ds where ds: "vw_digests st = ds" "rmap record_sha256 (os_records seg) = Inr ds"
    using walk_digests [OF walk] by (auto simp: walk_start_def)
  have "\<exists>kvss. rmap LedgerRecord_unsigned_json rs = Inr kvss" if "rmap record_sha256 rs = Inr es" for rs es
    using that by (induction rs arbitrary: es) (auto simp: record_sha256_def)
  then obtain kvss where "rmap LedgerRecord_unsigned_json (os_records seg) = Inr kvss" using ds(2) by blast
  then show thesis using ds root by (intro that) (auto simp: hashed_values_def)
qed

lemma segment_committed:
  assumes ok: "segment_ok a" "segment_ok b"
    and uni: "list_all (\<lambda>r. envelope_text_ok (lr_envelope r)) (os_records a @ os_records b)"
    and d: "segment_sha256 (os_manifest a) = Inr d" "segment_sha256 (os_manifest b) = Inr d"
    and inj: "inj_on sha256 (set (hashed_texts a @ hashed_texts b))"
  shows "a = b"
proof -
  obtain da ka where a: "rmap record_sha256 (os_records a) = Inr da" "rmap LedgerRecord_unsigned_json (os_records a) = Inr ka"
    "canonical_sha256 (JArr (map JStr da)) = Inr (sm_records_root_sha256 (os_manifest a))"
    "hashed_values a = Inr (JObj (SegmentManifest_unsigned_json (os_manifest a)) # JArr (map JStr da) # map JObj ka)"
    by (rule segment_okE [OF ok(1)])
  obtain db kb where b: "rmap record_sha256 (os_records b) = Inr db" "rmap LedgerRecord_unsigned_json (os_records b) = Inr kb"
    "canonical_sha256 (JArr (map JStr db)) = Inr (sm_records_root_sha256 (os_manifest b))"
    "hashed_values b = Inr (JObj (SegmentManifest_unsigned_json (os_manifest b)) # JArr (map JStr db) # map JObj kb)"
    by (rule segment_okE [OF ok(2)])
  let ?B = "set (hashed_texts a @ hashed_texts b)" and ?t = "\<lambda>v. utf8_bytes (json_dump v)"
  have B: "?t (JObj (SegmentManifest_unsigned_json (os_manifest a))) \<in> ?B" "?t (JObj (SegmentManifest_unsigned_json (os_manifest b))) \<in> ?B"
    "?t (JArr (map JStr da)) \<in> ?B" "?t (JArr (map JStr db)) \<in> ?B"
    "\<And>k. k \<in> set ka \<union> set kb \<Longrightarrow> ?t (JObj k) \<in> ?B"
    using a(4) b(4) by (auto simp: hashed_texts_def)
  have mok: "manifest_ok (os_manifest a)" "manifest_ok (os_manifest b)" using ok by (auto simp: segment_ok_def)
  have m: "os_manifest a = os_manifest b" by (rule manifest_committed [OF mok d inj B(1,2)])
  have "json_norm (JArr (map JStr da)) = json_norm (JArr (map JStr db))"
    using a(3) b(3) B(3,4) by (intro digest_inj [OF _ _ _ _ inj]) (auto simp: m list_all_iff)
  moreover have "map json_norm (map JStr es) = map JStr es" for es by simp
  ultimately have "map JStr da = map JStr db" by (simp only: json_norm.simps json.inject)
  then have dd: "da = db" by (metis json.inject(3) injI inj_map_eq_map)
  have records: "list_all record_ok (os_records a)" "list_all record_ok (os_records b)" using ok by (auto simp: segment_ok_def)
  have "xs = ys"
    if "rmap record_sha256 xs = Inr ds" "rmap record_sha256 ys = Inr ds" "rmap LedgerRecord_unsigned_json xs = Inr kx"
      "rmap LedgerRecord_unsigned_json ys = Inr ky" "set kx \<subseteq> set ka" "set ky \<subseteq> set kb"
      "list_all record_ok xs" "list_all record_ok ys" "list_all (\<lambda>r. envelope_text_ok (lr_envelope r)) xs"
      "list_all (\<lambda>r. envelope_text_ok (lr_envelope r)) ys" for xs ys ds kx ky
    using that
  proof (induction xs arbitrary: ys ds kx ky)
    case Nil
    then show ?case by (cases ys) auto
  next
    case (Cons x xs)
    then obtain y ys' where y: "ys = y # ys'" by (cases ys) auto
    obtain d ds' k kx' k' ky' where parts: "record_sha256 x = Inr d" "record_sha256 y = Inr d"
      "LedgerRecord_unsigned_json x = Inr k" "LedgerRecord_unsigned_json y = Inr k'" "kx = k # kx'" "ky = k' # ky'"
      "rmap record_sha256 xs = Inr ds'" "rmap record_sha256 ys' = Inr ds'" "rmap LedgerRecord_unsigned_json xs = Inr kx'"
      "rmap LedgerRecord_unsigned_json ys' = Inr ky'"
      using Cons.prems y by auto
    have "x = y"
      using Cons.prems parts B(5) y by (intro record_committed [OF _ _ _ _ parts(1-4) inj]) auto
    moreover have "xs = ys'"
      by (rule Cons.IH [OF parts(7-10)]) (use Cons.prems parts y in auto)
    ultimately show ?case by (simp add: y)
  qed
  from this [OF a(1) _ a(2) b(2) _ _ records] b(1) dd uni have "os_records a = os_records b" by auto
  then show ?thesis using m by (cases a; cases b) simp
qed

end
