(* ===== verification/Examples_Ledger.thy ===== *)
theory Examples_Ledger
  imports Examples_Pools Ledger_Builder Ledger_Codec
begin

text \<open>
  A concrete ledger: one block head appended to a fresh builder and sealed, and the same with
  an envelope whose payload is nested as deep as its constructor admits.
\<close>

definition first_envelope :: envelope where
  "first_envelope = head_envelope 0 (fields_of hash_a ''0'' ZERO_BLOCK_HASH)"

definition empty_builder :: ledger_builder where
  "empty_builder =
    \<lparr>lb_segment_id = ''segment'', lb_created_at_unix_ms = 10, lb_previous_segment_sha256 = ZERO_SHA256,
     lb_starting_checkpoints = [], lb_records = [], lb_last_sequence = [], lb_last_observed_at = [],
     lb_event_ids = [], lb_sealed = False\<rparr>"

lemma empty_builder_init: "LedgerBuilder_init ''segment'' 10 None = Inr empty_builder"
proof -
  have "is_segment_id ''segment''" by code_simp
  then show ?thesis
    by (simp add: LedgerBuilder_init_def require_segment_id_def require_u64_def MAX_U64_def empty_builder_def
        sequences_of_def observed_of_def)
qed

lemma empty_builder_reachable: "builder_reachable empty_builder"
  by (rule builder_reachable.init [OF _ empty_builder_init]) simp

text \<open>Appending any valid first envelope of the source to the empty builder.\<close>

definition first_record :: "envelope \<Rightarrow> ledger_record" where
  "first_record e = \<lparr>lr_segment_id = ''segment'', lr_ordinal = 0, lr_previous_record_sha256 = ZERO_SHA256, lr_envelope = e\<rparr>"

definition one_builder :: "envelope \<Rightarrow> ledger_builder" where
  "one_builder e = empty_builder\<lparr>lb_records := [first_record e],
      lb_last_sequence := [(oe_source_id e, oe_source_sequence e)],
      lb_last_observed_at := [(oe_source_id e, oe_observed_at_unix_ms e)],
      lb_event_ids := [(oe_source_id e, oe_source_event_id e)]\<rparr>"

lemma append_first:
  assumes "oe_source_sequence e = 0"
  shows "LedgerBuilder_append e empty_builder = Inr (one_builder e, first_record e)"
proof -
  have "is_segment_id ''segment''" by code_simp
  then show ?thesis
    using assms
    by (simp add: LedgerBuilder_append_Inr empty_builder_def one_builder_def first_record_def expected_sequence_def
        observed_backwards_def LedgerRecord_post_init_Inr MAX_SEGMENT_RECORDS_def dict_set_def)
qed

lemma first_envelope_simps [simp]:
  "oe_source_sequence first_envelope = 0" "oe_observed_at_unix_ms first_envelope = 9"
  "oe_source_event_id first_envelope = ''event''"
  by (simp_all add: first_envelope_def head_envelope_def)

lemma first_payload: "envelope_payload first_envelope = Inr (fields_of hash_a ''0'' ZERO_BLOCK_HASH)"
  unfolding first_envelope_def by (rule head_envelope_payload) code_simp

lemma first_envelope_ok: "envelope_ok first_envelope"
  unfolding first_envelope_def by (rule head_envelope_ok; code_simp)

lemma first_envelope_text: "envelope_text_ok first_envelope"
proof -
  have "json_unique (JObj (fields_of hash_a ''0'' ZERO_BLOCK_HASH))" "json_utf8 (JObj (fields_of hash_a ''0'' ZERO_BLOCK_HASH))"
    by code_simp+
  moreover have "utf8_valid ''event''" by code_simp
  ultimately show ?thesis by (simp add: envelope_text_ok_def first_payload)
qed

lemma first_envelope_json:
  "\<exists>v. ObservationEnvelope_to_json first_envelope = Inr v \<and> small_json v \<and> json_bound v \<le> 10000
    \<and> json_depth v \<le> 2 \<and> json_items v \<le> 30"
proof -
  have len: "length (payload_sha256 first_envelope) = 64" "length (json_sha256 (SourceContract_to_json ex_contract)) = 64"
    by (rule digest_lengths)+
  have "length hash_a = 66" "length ZERO_BLOCK_HASH = 66" by code_simp+
  moreover have src: "oe_source_id first_envelope = ''ethereum-json-rpc''" "oe_chain first_envelope = ETHEREUM"
    "oe_source_kind first_envelope = EVM_JSON_RPC" "oe_emitted_at_unix_ms first_envelope = None"
    "oe_kind first_envelope = BLOCK_HEAD" "oe_finality first_envelope = CONFIRMED" "oe_visibility first_envelope = FULL"
    by (simp_all add: first_envelope_def head_envelope_def)
  ultimately show ?thesis
    using first_payload contract_digest_ok [OF ex_contract_get] len
    by (simp add: ObservationEnvelope_to_json_def source_contract_sha256_def ex_contract_get fields_of_def
        ENVELOPE_SCHEMA_def small_json_def ex_numbers)
qed

lemma first_record_digest: "\<exists>d. record_sha256 (first_record first_envelope) = Inr d"
proof -
  obtain v where v: "ObservationEnvelope_to_json first_envelope = Inr v" "small_json v" "json_bound v \<le> 10000"
    "json_depth v \<le> 2" "json_items v \<le> 30" using first_envelope_json by blast
  have e: "envelope_digest first_envelope = Inr (json_sha256 v)"
    using v(1) small_json_digest(2) [OF v(2)] by (simp add: envelope_digest_def)
  have "length (json_sha256 v) = 64" "length ZERO_SHA256 = 64" by (simp_all add: digest_lengths ZERO_SHA256_def)
  then have "small_json (JObj [(''schema'', JStr RECORD_SCHEMA), (''segment_id'', JStr ''segment''),
         (''ordinal'', JStr (str_of_int 0)), (''previous_record_sha256'', JStr ZERO_SHA256),
         (''envelope_sha256'', JStr (json_sha256 v)), (''envelope'', v)])"
    using v(2-5) by (simp add: small_json_def RECORD_SCHEMA_def ex_numbers)
  from small_json_digest(2) [OF this] show ?thesis
    using v(1) e by (simp add: record_sha256_def LedgerRecord_unsigned_json_def first_record_def)
qed

lemma one_builder_reachable: "builder_reachable (one_builder first_envelope)"
  by (rule builder_reachable.append [OF empty_builder_reachable first_envelope_ok append_first]) simp

lemma one_builder_simps [simp]:
  "lb_records (one_builder e) = [first_record e]" "lb_sealed (one_builder e) = False"
  "lb_created_at_unix_ms (one_builder e) = 10" "genesis_or_linked (one_builder e)"
  "lr_envelope (first_record e) = e"
  by (simp_all add: one_builder_def empty_builder_def genesis_or_linked_def first_record_def)

lemma first_sealed:
  "\<exists>seg. LedgerBuilder_seal (one_builder first_envelope) = Inr ((one_builder first_envelope)\<lparr>lb_sealed := True\<rparr>, seg)
    \<and> segment_ok seg \<and> os_records seg = [first_record first_envelope]
    \<and> sm_starting_source_checkpoints (os_manifest seg) = []"
proof -
  obtain d where "record_sha256 (first_record first_envelope) = Inr d" using first_record_digest by blast
  then have "rmap record_sha256 (lb_records (one_builder first_envelope)) = Inr [d]" by simp
  then have "\<exists>seg. LedgerBuilder_seal (one_builder first_envelope) = Inr ((one_builder first_envelope)\<lparr>lb_sealed := True\<rparr>, seg)
    \<and> segment_ok seg \<and> os_records seg = lb_records (one_builder first_envelope)
    \<and> sm_segment_id (os_manifest seg) = lb_segment_id (one_builder first_envelope)
    \<and> sm_starting_source_checkpoints (os_manifest seg) = lb_starting_checkpoints (one_builder first_envelope)"
    by (intro seal_succeeds [OF builder_reachable_inv [OF one_builder_reachable]]) simp_all
  then show ?thesis by (simp add: one_builder_def empty_builder_def) blast
qed

text \<open>The segment of the sealed builder, written out.\<close>

definition first_manifest :: "string \<Rightarrow> segment_manifest" where
  "first_manifest d =
    \<lparr>sm_segment_id = ''segment'', sm_created_at_unix_ms = 10, sm_previous_segment_sha256 = ZERO_SHA256,
     sm_record_count = 1, sm_first_record_sha256 = d, sm_last_record_sha256 = d,
     sm_records_root_sha256 = json_sha256 (JArr [JStr d]),
     sm_source_contract_set_sha256 = json_sha256 contract_set_json, sm_starting_source_checkpoints = [],
     sm_ending_source_checkpoints =
       [\<lparr>cp_source_id = ''ethereum-json-rpc'', cp_source_sequence = 0, cp_observed_at_unix_ms = 9\<rparr>]\<rparr>"

definition first_segment :: "string \<Rightarrow> observation_segment" where
  "first_segment d = \<lparr>os_records = [first_record first_envelope], os_manifest = first_manifest d\<rparr>"

lemma first_segment_sealed:
  "\<exists>d. record_sha256 (first_record first_envelope) = Inr d \<and> length d = 64
    \<and> LedgerBuilder_seal (one_builder first_envelope) = Inr ((one_builder first_envelope)\<lparr>lb_sealed := True\<rparr>, first_segment d)
    \<and> segment_ok (first_segment d)"
proof -
  obtain d where d: "record_sha256 (first_record first_envelope) = Inr d" using first_record_digest by blast
  have len: "length d = 64" using d by (auto simp: record_sha256_def canonical_sha256_iff digest_lengths)
  obtain seg where seg: "LedgerBuilder_seal (one_builder first_envelope) = Inr ((one_builder first_envelope)\<lparr>lb_sealed := True\<rparr>, seg)"
    "segment_ok seg" using first_sealed by blast
  have "oe_source_id first_envelope = ''ethereum-json-rpc''" by (simp add: first_envelope_def head_envelope_def)
  then have ending: "checkpoints_from_maps (lb_last_sequence (one_builder first_envelope)) (lb_last_observed_at (one_builder first_envelope))
    = Inr (sm_ending_source_checkpoints (first_manifest d))"
    by (simp add: one_builder_def checkpoints_from_maps_def dict_keys_def dict_get_def first_manifest_def
        SourceCheckpoint_post_init_def ex_contract_get MAX_U64_def require_u64_def)
  have "small_json (JArr [JStr d])" using len by (simp add: small_json_def)
  note root = small_json_digest(2) [OF this]
  have "seg = first_segment d"
    using seg(1) d ending root
    by (auto simp: LedgerBuilder_seal_def contract_set_digest first_segment_def first_manifest_def one_builder_def
        empty_builder_def ObservationSegment_post_init_def split: if_splits dest!: SegmentManifest_post_init_same)
  then show ?thesis using d len seg by blast
qed

lemma first_segment_chain:
  assumes "segment_ok (first_segment d)"
  shows "validate_segment_chain [first_segment d] = Inr ()"
  by (simp add: validate_segment_chain_def validate_chain_step_def first_segment_def first_manifest_def)

lemma first_segment_serialized:
  assumes d: "record_sha256 (first_record first_envelope) = Inr d" "length d = 64"
  shows "\<exists>payload. serialize_segment (first_segment d) = Inr payload"
proof -
  obtain v where v: "ObservationEnvelope_to_json first_envelope = Inr v" "small_json v" "json_bound v \<le> 10000"
    "json_depth v \<le> 2" "json_items v \<le> 30" using first_envelope_json by blast
  have e: "envelope_digest first_envelope = Inr (json_sha256 v)"
    using v(1) small_json_digest(2) [OF v(2)] by (simp add: envelope_digest_def)
  have len: "length (json_sha256 w) = 64" "length ZERO_SHA256 = 64" for w by (simp_all add: digest_lengths ZERO_SHA256_def)
  obtain rv where rv: "LedgerRecord_to_json (first_record first_envelope) = Inr rv" "small_json rv"
    using v e d len
    by (simp add: LedgerRecord_to_json_def LedgerRecord_unsigned_json_def first_record_def small_json_def RECORD_SCHEMA_def ex_numbers)
  obtain b where b: "canonical_json_bytes rv = Inr b" using small_json_digest(1) [OF rv(2)] by (auto simp: is_ok_iff)
  let ?u = "SegmentManifest_unsigned_json (first_manifest d)"
  have ten: "length (str_of_int 10) = 2" by (simp add: str_of_int_def str_of_nat.simps)
  have u: "small_json (JObj ?u)" "small_json (JObj (?u @ [(''segment_sha256'', JStr (json_sha256 (JObj ?u)))]))"
    using len d(2) ten
    by (simp_all add: SegmentManifest_unsigned_json_def first_manifest_def checkpoints_json_def SourceCheckpoint_to_json_def
        small_json_def MANIFEST_SCHEMA_def ex_numbers dict_set_def)
  have m: "SegmentManifest_to_json (first_manifest d) = Inr (JObj (?u @ [(''segment_sha256'', JStr (json_sha256 (JObj ?u)))]))"
    using small_json_digest(2) [OF u(1)] by (simp add: SegmentManifest_to_json_def segment_sha256_def)
  obtain c where c: "canonical_json_bytes (JObj (?u @ [(''segment_sha256'', JStr (json_sha256 (JObj ?u)))])) = Inr c"
    using small_json_digest(1) [OF u(2)] by (auto simp: is_ok_iff)
  have "length b \<le> DEFAULT_MAX_JSON_BYTES" "length c \<le> DEFAULT_MAX_JSON_BYTES"
    using encoded_bytes(4) [OF b] encoded_bytes(4) [OF c] by auto
  then have "length (b @ 0x0A # c @ [0x0A]) \<le> MAX_SEGMENT_BYTES"
    by (simp add: DEFAULT_MAX_JSON_BYTES_def MAX_SEGMENT_BYTES_def)
  then show ?thesis using rv(1) b m c
    by (simp add: serialize_segment_def first_segment_def Let_def)
qed

lemma first_segment_digest:
  assumes "length d = 64"
  shows "\<exists>e. segment_sha256 (os_manifest (first_segment d)) = Inr e"
proof -
  have ten: "length (str_of_int 10) = 2" by (simp add: str_of_int_def str_of_nat.simps)
  have "length (json_sha256 w) = 64" "length ZERO_SHA256 = 64" for w by (simp_all add: digest_lengths ZERO_SHA256_def)
  then have "small_json (JObj (SegmentManifest_unsigned_json (first_manifest d)))"
    using assms ten
    by (simp add: SegmentManifest_unsigned_json_def first_manifest_def checkpoints_json_def SourceCheckpoint_to_json_def
        small_json_def MANIFEST_SCHEMA_def ex_numbers dict_set_def)
  from small_json_digest(2) [OF this] show ?thesis by (simp add: segment_sha256_def first_segment_def)
qed

subsection \<open>An envelope at the depth limit\<close>

fun nested :: "nat \<Rightarrow> json" where
  "nested 0 = JNull"
| "nested (Suc n) = JArr [nested n]"

definition deep_envelope :: envelope where
  "deep_envelope = head_envelope 0 [(''a'', nested 30)]"

lemma deep_payload: "envelope_payload deep_envelope = Inr [(''a'', nested 30)]"
  unfolding deep_envelope_def by (rule head_envelope_payload) code_simp

lemma deep_envelope_ok: "envelope_ok deep_envelope"
  unfolding deep_envelope_def by (rule head_envelope_ok; code_simp)

lemma deep_depth: "json_depth (JObj [(''a'', nested 30)]) = 31"
  by code_simp

lemma deep_appended: "LedgerBuilder_append deep_envelope empty_builder = Inr (one_builder deep_envelope, first_record deep_envelope)"
  by (rule append_first) (simp add: deep_envelope_def head_envelope_def)

end
