(* ===== verification/Secp256k1.thy ===== *)
theory Secp256k1
  imports Hashes
begin

text \<open>
  \<open>src/aladdin_mev_engine/secp256k1.py\<close>: affine points of the curve \<open>y^2 = x^3 + 7\<close> over the
  prime field, double-and-add, lifting of an abscissa, ECDSA verification and public-key
  recovery. \<open>pow(b, e, m)\<close> and \<open>pow(b, -1, m)\<close> of Python are \<open>pow_mod\<close> and \<open>inverse_mod\<close>; the
  latter raises where no inverse exists, which the model keeps, so nothing here rests on the
  primality of the moduli.
\<close>

definition FIELD_MODULUS :: int where
  "FIELD_MODULUS = 0xFFFFFFFFFFFFFFFFFFFFFFFFFFFFFFFFFFFFFFFFFFFFFFFFFFFFFFFEFFFFFC2F"
definition GROUP_ORDER :: int where
  "GROUP_ORDER = 0xFFFFFFFFFFFFFFFFFFFFFFFFFFFFFFFEBAAEDCE6AF48A03BBFD25E8CD0364141"
definition GENERATOR_X :: int where
  "GENERATOR_X = 0x79BE667EF9DCBBAC55A06295CE870B07029BFCDB2DCE28D959F2815B16F81798"
definition GENERATOR_Y :: int where
  "GENERATOR_Y = 0x483ADA7726A3C4655DA4FBFC0E1108A8FD17B448A68554199C47D08FFB10D4B8"
definition HALF_GROUP_ORDER :: int where "HALF_GROUP_ORDER = GROUP_ORDER div 2"

subsection \<open>Modular powers and inverses\<close>

fun pow_mod :: "int \<Rightarrow> nat \<Rightarrow> int \<Rightarrow> int" where
  "pow_mod b e m =
    (if e = 0 then 1 mod m
     else let h = pow_mod (b * b mod m) (e div 2) m in if odd e then b * h mod m else h)"

declare pow_mod.simps [simp del]

function egcd :: "int \<Rightarrow> int \<Rightarrow> int \<times> int \<times> int" where
  "egcd a b = (if b \<le> 0 then (a, 1, 0) else (case egcd b (a mod b) of (g, x, y) \<Rightarrow> (g, y, x - a div b * y)))"
  by pat_completeness auto
termination egcd by (relation "measure (\<lambda>(a, b). nat b)") auto

declare egcd.simps [simp del]

definition NOT_INVERTIBLE :: py_error where
  "NOT_INVERTIBLE = ValueError ''base is not invertible for the given modulus''"

definition inverse_mod :: "int \<Rightarrow> int \<Rightarrow> int result" where
  "inverse_mod a m =
    (case egcd (a mod m) m of (g, x, y) \<Rightarrow> if g = 1 then Inr (x mod m) else Inl NOT_INVERTIBLE)"

subsection \<open>Points\<close>

record secp256k1_point =
  pt_x :: int
  pt_y :: int

definition Point_post_init :: "secp256k1_point \<Rightarrow> secp256k1_point result" where
  "Point_post_init self =
    (if \<not> (0 \<le> pt_x self \<and> pt_x self < FIELD_MODULUS) \<or> \<not> (0 \<le> pt_y self \<and> pt_y self < FIELD_MODULUS)
     then Inl (ValueError ''secp256k1 point is outside the field'')
     else if (pt_y self * pt_y self - (pt_x self * pt_x self * pt_x self + 7)) mod FIELD_MODULUS \<noteq> 0
     then Inl (ValueError ''secp256k1 point is not on the curve'')
     else Inr self)"

definition mk_point :: "int \<Rightarrow> int \<Rightarrow> secp256k1_point result" where
  "mk_point x y = Point_post_init \<lparr>pt_x = x, pt_y = y\<rparr>"

definition to_uncompressed_bytes :: "secp256k1_point \<Rightarrow> bytes" where
  "to_uncompressed_bytes self = 0x04 # to_bytes_be 32 (pt_x self) @ to_bytes_be 32 (pt_y self)"

definition GENERATOR :: secp256k1_point where
  "GENERATOR = \<lparr>pt_x = GENERATOR_X, pt_y = GENERATOR_Y\<rparr>"

text \<open>A point or, as \<open>None\<close>, the point at infinity.\<close>

type_synonym point_or_infinity = "secp256k1_point option"

definition require_scalar :: "string \<Rightarrow> int \<Rightarrow> bool \<Rightarrow> int result" where
  "require_scalar name v allow_zero =
    (let minimum = (if allow_zero then 0 else 1) in
     if \<not> (minimum \<le> v \<and> v < GROUP_ORDER)
     then Inl (ValueError (name @ '' must be a '' @ (if allow_zero then ''non-negative'' else ''positive'') @ '' secp256k1 scalar''))
     else Inr v)"

definition point_negate :: "point_or_infinity \<Rightarrow> point_or_infinity result" where
  "point_negate point =
    (case point of
       None \<Rightarrow> Inr None
     | Some p \<Rightarrow> rbind (mk_point (pt_x p) ((- pt_y p) mod FIELD_MODULUS)) (\<lambda>q. Inr (Some q)))"

text \<open>The third intersection of the line through \<open>left\<close> with the slope, mirrored.\<close>

definition point_add :: "point_or_infinity \<Rightarrow> point_or_infinity \<Rightarrow> point_or_infinity result" where
  "point_add left right =
    (case left of
       None \<Rightarrow> Inr right
     | Some l \<Rightarrow>
       (case right of
          None \<Rightarrow> Inr (Some l)
        | Some r \<Rightarrow>
          if pt_x l = pt_x r \<and> ((pt_y l + pt_y r) mod FIELD_MODULUS = 0 \<or> pt_y l = 0) then Inr None
          else
          rbind (if pt_x l = pt_x r
                 then rbind (inverse_mod (2 * pt_y l) FIELD_MODULUS) (\<lambda>i. Inr (3 * pt_x l * pt_x l * i))
                 else rbind (inverse_mod (pt_x r - pt_x l) FIELD_MODULUS) (\<lambda>i. Inr ((pt_y r - pt_y l) * i))) (\<lambda>raw_slope.
          let slope = raw_slope mod FIELD_MODULUS;
              x = (slope * slope - pt_x l - pt_x r) mod FIELD_MODULUS;
              y = (slope * (pt_x l - x) - pt_y l) mod FIELD_MODULUS
          in rbind (mk_point x y) (\<lambda>q. Inr (Some q)))))"

text \<open>The loop \<open>while remaining\<close> of \<open>scalar_multiply\<close>, which ends because it halves \<open>remaining\<close>.\<close>

fun multiply_loop :: "nat \<Rightarrow> point_or_infinity \<Rightarrow> point_or_infinity \<Rightarrow> point_or_infinity result" where
  "multiply_loop remaining acc addend =
    (if remaining = 0 then Inr acc
     else
     rbind (if odd remaining then point_add acc addend else Inr acc) (\<lambda>acc'.
     rbind (point_add addend addend) (\<lambda>addend'. multiply_loop (remaining div 2) acc' addend')))"

declare multiply_loop.simps [simp del]

definition scalar_multiply :: "int \<Rightarrow> point_or_infinity \<Rightarrow> point_or_infinity result" where
  "scalar_multiply scalar point =
    (if \<not> (0 \<le> scalar \<and> scalar \<le> GROUP_ORDER)
     then Inl (ValueError ''scalar must be an exact integer from zero through the secp256k1 group order'')
     else if point = None \<or> scalar = 0 then Inr None
     else multiply_loop (nat scalar) None point)"

definition lift_x :: "int \<Rightarrow> int \<Rightarrow> secp256k1_point result" where
  "lift_x x y_parity =
    (if \<not> (0 \<le> x \<and> x < FIELD_MODULUS) then Inl (ValueError ''x must be an exact secp256k1 field element'')
     else if y_parity \<notin> {0, 1} then Inl (ValueError ''y_parity must be 0 or 1'')
     else
     let y_squared = (x * x * x + 7) mod FIELD_MODULUS;
         y = pow_mod y_squared (nat ((FIELD_MODULUS + 1) div 4)) FIELD_MODULUS in
     if (y * y) mod FIELD_MODULUS \<noteq> y_squared
     then Inl (ValueError ''x does not lift to a secp256k1 point'')
     else mk_point x (if y mod 2 \<noteq> y_parity then FIELD_MODULUS - y else y))"

definition public_key_to_address :: "secp256k1_point \<Rightarrow> bytes" where
  "public_key_to_address public_key =
    drop 12 (keccak256 (to_bytes_be 32 (pt_x public_key) @ to_bytes_be 32 (pt_y public_key)))"

subsection \<open>Signatures\<close>

definition verify_signature :: "bytes \<Rightarrow> int \<Rightarrow> int \<Rightarrow> secp256k1_point \<Rightarrow> bool result" where
  "verify_signature message_hash r s public_key =
    (if length message_hash \<noteq> 32 then Inl (ValueError ''message_hash must be exact 32-byte data'')
     else
     rbind (require_scalar ''r'' r False) (\<lambda>_.
     rbind (require_scalar ''s'' s False) (\<lambda>_.
     let z = from_bytes_be message_hash mod GROUP_ORDER in
     rbind (inverse_mod s GROUP_ORDER) (\<lambda>inverse_s.
     rbind (scalar_multiply (z * inverse_s mod GROUP_ORDER) (Some GENERATOR)) (\<lambda>left.
     rbind (scalar_multiply (r * inverse_s mod GROUP_ORDER) (Some public_key)) (\<lambda>right.
     rbind (point_add left right) (\<lambda>result.
     Inr (case result of None \<Rightarrow> False | Some p \<Rightarrow> pt_x p mod GROUP_ORDER = r))))))))"

text \<open>One pass of the loop over \<open>overflow_bit\<close>; a lift that raises \<open>ValueError\<close> is skipped.\<close>

definition recover_candidate ::
  "bytes \<Rightarrow> int \<Rightarrow> int \<Rightarrow> int \<Rightarrow> int \<Rightarrow> int \<Rightarrow> secp256k1_point list \<Rightarrow> int \<Rightarrow> secp256k1_point list result" where
  "recover_candidate message_hash r s y_parity z inverse_r candidates overflow_bit =
    (let x = r + overflow_bit * GROUP_ORDER in
     if FIELD_MODULUS \<le> x then Inr candidates
     else (case lift_x x y_parity of
         Inl e \<Rightarrow> if is_value_error e then Inr candidates else Inl e
       | Inr ephemeral \<Rightarrow>
         rbind (scalar_multiply GROUP_ORDER (Some ephemeral)) (\<lambda>zero.
         if zero \<noteq> None then Inr candidates
         else
         rbind (scalar_multiply s (Some ephemeral)) (\<lambda>s_times_r.
         rbind (scalar_multiply (- z mod GROUP_ORDER) (Some GENERATOR)) (\<lambda>minus_z_times_g.
         rbind (point_add s_times_r minus_z_times_g) (\<lambda>total.
         rbind (scalar_multiply inverse_r total) (\<lambda>recovered.
         (case recovered of
            None \<Rightarrow> Inr candidates
          | Some key \<Rightarrow>
            rbind (verify_signature message_hash r s key) (\<lambda>verified.
            Inr (if \<not> verified \<or> key \<in> set candidates then candidates else candidates @ [key]))))))))))"

definition recover_public_keys :: "bytes \<Rightarrow> int \<Rightarrow> int \<Rightarrow> int \<Rightarrow> secp256k1_point list result" where
  "recover_public_keys message_hash r s y_parity =
    (if length message_hash \<noteq> 32 then Inl (ValueError ''message_hash must be exact 32-byte data'')
     else
     rbind (require_scalar ''r'' r False) (\<lambda>_.
     rbind (require_scalar ''s'' s False) (\<lambda>_.
     if y_parity \<notin> {0, 1} then Inl (ValueError ''y_parity must be 0 or 1'')
     else
     let z = from_bytes_be message_hash mod GROUP_ORDER in
     rbind (inverse_mod r GROUP_ORDER) (\<lambda>inverse_r.
     rbind (rfold (recover_candidate message_hash r s y_parity z inverse_r) [] [0, 1]) (\<lambda>candidates.
     Inr (sort_key (\<lambda>p. (pt_x p, pt_y p)) candidates))))))"

definition recover_addresses :: "bytes \<Rightarrow> int \<Rightarrow> int \<Rightarrow> int \<Rightarrow> bytes list result" where
  "recover_addresses message_hash r s y_parity =
    rbind (recover_public_keys message_hash r s y_parity) (\<lambda>keys.
    Inr (sort (remdups (map public_key_to_address keys))))"

subsection \<open>Arithmetic\<close>

lemma pow_mod: "pow_mod b e m = b ^ e mod m"
proof (induction b e m rule: pow_mod.induct)
  case (1 b e m)
  show ?case
  proof (cases "e = 0")
    case True
    then show ?thesis by (simp add: pow_mod.simps)
  next
    case False
    have h: "pow_mod (b * b mod m) (e div 2) m = (b * b) ^ (e div 2) mod m"
      using 1 [OF False] by (simp add: power_mod)
    have "b ^ e = (if odd e then b * (b * b) ^ (e div 2) else (b * b) ^ (e div 2))"
      by (metis dvd_mult_div_cancel odd_two_times_div_two_succ power2_eq_square power_Suc power_mult Suc_eq_plus1)
    then show ?thesis using h False by (simp add: pow_mod.simps [of b e m] Let_def mod_mult_right_eq)
  qed
qed

lemma egcd: "0 \<le> a \<Longrightarrow> 0 \<le> b \<Longrightarrow> egcd a b = (g, x, y) \<Longrightarrow> g = gcd a b \<and> a * x + b * y = g"
proof (induction a b arbitrary: g x y rule: egcd.induct)
  case (1 a b)
  show ?case
  proof (cases "b \<le> 0")
    case True
    then show ?thesis using 1(2-4) by (auto simp: egcd.simps [of a 0])
  next
    case False
    obtain g' x' y' where rec: "egcd b (a mod b) = (g', x', y')" by (cases "egcd b (a mod b)") auto
    have "g' = gcd b (a mod b) \<and> b * x' + a mod b * y' = g'"
      by (rule 1(1) [OF False _ _ rec]) (use False in auto)
    moreover have "g = g'" "x = y'" "y = x' - a div b * y'"
      using 1(4) False rec by (auto simp: egcd.simps [of a b])
    moreover have "a * y' + b * (x' - a div b * y') = b * x' + a mod b * y'"
      by (simp add: algebra_simps minus_div_mult_eq_mod [symmetric])
    moreover have "gcd b (a mod b) = gcd a b" by (metis gcd.commute gcd_red_int)
    ultimately show ?thesis by simp
  qed
qed

lemma inverse_mod_Inr:
  assumes "inverse_mod a m = Inr i" "0 < m"
  shows "a * i mod m = 1 mod m" "0 \<le> i" "i < m"
proof -
  obtain x y where e: "egcd (a mod m) m = (1, x, y)" and i: "i = x mod m"
    using assms(1) by (auto simp: inverse_mod_def split: prod.splits if_splits)
  have "a mod m * x + m * y = 1" using egcd [OF _ _ e] assms(2) by simp
  then have "(a mod m * x) mod m = 1 mod m" by (metis mod_mult_self2)
  then show "a * i mod m = 1 mod m" by (simp add: i mod_mult_left_eq mod_mult_right_eq)
  show "0 \<le> i" "i < m" using assms(2) by (simp_all add: i)
qed

lemma inverse_mod_Inl:
  assumes "inverse_mod a m = Inl e" "0 < m"
  shows "e = NOT_INVERTIBLE" "gcd a m \<noteq> 1"
proof -
  obtain g x y where g: "egcd (a mod m) m = (g, x, y)" "g \<noteq> 1" and e: "e = NOT_INVERTIBLE"
    using assms(1) by (auto simp: inverse_mod_def split: prod.splits if_splits)
  show "e = NOT_INVERTIBLE" by (rule e)
  have "g = gcd (a mod m) m" using egcd [OF _ _ g(1)] assms(2) by simp
  also have "\<dots> = gcd a m" by (metis gcd.commute gcd_red_int)
  finally show "gcd a m \<noteq> 1" using g(2) by simp
qed

lemma FIELD_MODULUS_pos: "0 < FIELD_MODULUS" "0 < GROUP_ORDER"
  by (simp_all add: FIELD_MODULUS_def GROUP_ORDER_def)

subsection \<open>The curve\<close>

definition on_curve :: "int \<Rightarrow> int \<Rightarrow> bool" where
  "on_curve x y \<longleftrightarrow> FIELD_MODULUS dvd y * y - (x * x * x + 7)"

definition point_ok :: "secp256k1_point \<Rightarrow> bool" where
  "point_ok p \<longleftrightarrow> 0 \<le> pt_x p \<and> pt_x p < FIELD_MODULUS \<and> 0 \<le> pt_y p \<and> pt_y p < FIELD_MODULUS
    \<and> on_curve (pt_x p) (pt_y p)"

definition opt_point_ok :: "point_or_infinity \<Rightarrow> bool" where
  "opt_point_ok p \<longleftrightarrow> (case p of None \<Rightarrow> True | Some q \<Rightarrow> point_ok q)"

lemma opt_point_ok_simps [simp]: "opt_point_ok None" "opt_point_ok (Some p) = point_ok p"
  by (simp_all add: opt_point_ok_def)

lemma Point_post_init_Inr: "Point_post_init p = Inr q \<longleftrightarrow> q = p \<and> point_ok p"
  by (auto simp: Point_post_init_def point_ok_def on_curve_def dvd_eq_mod_eq_0)

lemma mk_point_mod:
  assumes "on_curve x y"
  shows "mk_point (x mod FIELD_MODULUS) (y mod FIELD_MODULUS)
    = Inr \<lparr>pt_x = x mod FIELD_MODULUS, pt_y = y mod FIELD_MODULUS\<rparr>"
proof -
  let ?P = FIELD_MODULUS
  have y: "((y mod ?P) * (y mod ?P)) mod ?P = (y * y) mod ?P" by (rule mod_mult_eq)
  have "((x mod ?P) * (x mod ?P) * (x mod ?P)) mod ?P = (x * x * x) mod ?P"
    by (rule mod_mult_cong [OF mod_mult_cong]; rule mod_mod_trivial)
  from mod_diff_cong [OF y mod_add_cong [OF this refl]]
  have "on_curve (x mod ?P) (y mod ?P)"
    using assms unfolding on_curve_def dvd_eq_mod_eq_0 by (rule trans)
  then show ?thesis
    using FIELD_MODULUS_pos by (simp add: mk_point_def Point_post_init_Inr point_ok_def)
qed

text \<open>The polynomial behind the addition law: what a line through two points of a cubic leaves.\<close>

lemma cubic_product:
  "(x - a) * (x - b) * (x - c) = x * x * x - (a + b + c) * (x * x) + (a * b + a * c + b * c) * x - a * b * (c :: int)"
  by (simp add: algebra_simps)

lemma line_square: "(m * x + n) * (m * x + n) = m * m * (x * x) + 2 * m * n * x + n * (n :: int)"
  by (simp add: algebra_simps)

lemma line_cubic:
  fixes m xl yl xr x :: int
  defines "x3 \<equiv> m * m - xl - xr" and "c1 \<equiv> - (2 * m * (yl - m * xl)) - (xl * xr + xl * (m * m - xl - xr) + xr * (m * m - xl - xr))"
    and "c0 \<equiv> 7 - (yl - m * xl) * (yl - m * xl) + xl * xr * (m * m - xl - xr)"
  shows "(x * x * x + 7) - (m * (x - xl) + yl) * (m * (x - xl) + yl) = (x - xl) * (x - xr) * (x - x3) + (c1 * x + c0)"
proof -
  define n where "n = yl - m * xl"
  define e where "e = xl * xr + xl * x3 + xr * x3"
  have "m * (x - xl) + yl = m * x + n" by (simp add: n_def right_diff_distrib)
  moreover have "xl + xr + x3 = m * m" by (simp add: x3_def)
  then have "(x - xl) * (x - xr) * (x - x3) = x * x * x - m * m * (x * x) + e * x - xl * xr * x3"
    by (simp add: cubic_product e_def)
  moreover have "c1 = - (2 * m * n) - e" "c0 = 7 - n * n + xl * xr * x3"
    by (simp_all add: c1_def c0_def n_def e_def x3_def)
  moreover have "(- (2 * m * n) - e) * x = - (2 * m * n * x) - e * x" by (simp add: left_diff_distrib)
  ultimately show ?thesis by (simp only: line_square)
qed

lemma third_point:
  fixes m xl yl xr :: int
  defines "x3 \<equiv> m * m - xl - xr" and "c1 \<equiv> - (2 * m * (yl - m * xl)) - (xl * xr + xl * (m * m - xl - xr) + xr * (m * m - xl - xr))"
    and "c0 \<equiv> 7 - (yl - m * xl) * (yl - m * xl) + xl * xr * (m * m - xl - xr)"
  assumes "FIELD_MODULUS dvd c1" "FIELD_MODULUS dvd c0"
  shows "on_curve x3 (m * (xl - x3) - yl)"
proof -
  have "(x3 * x3 * x3 + 7) - (m * (x3 - xl) + yl) * (m * (x3 - xl) + yl) = c1 * x3 + c0"
    using line_cubic [of x3 m xl yl xr] unfolding x3_def c1_def c0_def by simp
  moreover have "(m * (xl - x3) - yl) * (m * (xl - x3) - yl) = (m * (x3 - xl) + yl) * (m * (x3 - xl) + yl)"
    by (simp add: algebra_simps)
  ultimately have "(m * (xl - x3) - yl) * (m * (xl - x3) - yl) - (x3 * x3 * x3 + 7) = - (c1 * x3 + c0)" by simp
  then show ?thesis unfolding on_curve_def using assms(4,5) by simp
qed

lemma chord_on_curve:
  assumes l: "on_curve xl yl" and r: "on_curve xr yr"
    and m: "FIELD_MODULUS dvd m * (xr - xl) - (yr - yl)" and i: "(xr - xl) * i mod FIELD_MODULUS = 1 mod FIELD_MODULUS"
  shows "on_curve (m * m - xl - xr) (m * (xl - (m * m - xl - xr)) - yl)"
proof -
  define c1 where "c1 = - (2 * m * (yl - m * xl)) - (xl * xr + xl * (m * m - xl - xr) + xr * (m * m - xl - xr))"
  define c0 where "c0 = 7 - (yl - m * xl) * (yl - m * xl) + xl * xr * (m * m - xl - xr)"
  note cubic = line_cubic [where m = m and xl = xl and yl = yl and xr = xr, folded c1_def c0_def]
  have "xl * xl * xl + 7 - yl * yl = c1 * xl + c0" using cubic [of xl] by simp
  then have at_l: "FIELD_MODULUS dvd c1 * xl + c0"
    using l unfolding on_curve_def by (metis dvd_minus_iff minus_diff_eq)
  have "(m * (xr - xl) + yl) * (m * (xr - xl) + yl) - yr * yr
      = (m * (xr - xl) - (yr - yl)) * (m * (xr - xl) + yl + yr)" by (simp add: algebra_simps)
  then have "FIELD_MODULUS dvd (m * (xr - xl) + yl) * (m * (xr - xl) + yl) - yr * yr" using m by simp
  moreover have "FIELD_MODULUS dvd yr * yr - (xr * xr * xr + 7)" using r by (simp add: on_curve_def)
  ultimately have "FIELD_MODULUS dvd (m * (xr - xl) + yl) * (m * (xr - xl) + yl) - (xr * xr * xr + 7)"
    by (metis (no_types, lifting) diff_add_cancel dvd_add add_diff_eq)
  moreover have "xr * xr * xr + 7 - (m * (xr - xl) + yl) * (m * (xr - xl) + yl) = c1 * xr + c0" using cubic [of xr] by simp
  ultimately have at_r: "FIELD_MODULUS dvd c1 * xr + c0" by (metis dvd_minus_iff minus_diff_eq)
  have "c1 * (xr - xl) = (c1 * xr + c0) - (c1 * xl + c0)" by (simp add: algebra_simps)
  then have slope: "FIELD_MODULUS dvd c1 * (xr - xl)" using at_l at_r by (simp only: dvd_diff)
  have unit: "FIELD_MODULUS dvd (xr - xl) * i - 1" using i by (simp add: mod_eq_dvd_iff)
  have "c1 = c1 * (xr - xl) * i - c1 * ((xr - xl) * i - 1)" by (simp add: algebra_simps)
  then have c1: "FIELD_MODULUS dvd c1" using slope unit by (metis dvd_diff dvd_mult dvd_mult2)
  have "c0 = (c1 * xl + c0) - c1 * xl" by simp
  then have c0: "FIELD_MODULUS dvd c0" using at_l c1 by (metis dvd_diff dvd_mult2)
  show ?thesis by (rule third_point) (use c1 c0 in \<open>simp_all add: c1_def c0_def\<close>)
qed

lemma tangent_on_curve:
  assumes l: "on_curve x y" and m: "FIELD_MODULUS dvd m * (2 * y) - 3 * x * x"
  shows "on_curve (m * m - x - x) (m * (x - (m * m - x - x)) - y)"
proof -
  define c1 where "c1 = - (2 * m * (y - m * x)) - (x * x + x * (m * m - x - x) + x * (m * m - x - x))"
  define c0 where "c0 = 7 - (y - m * x) * (y - m * x) + x * x * (m * m - x - x)"
  note cubic = line_cubic [where m = m and xl = x and yl = y and xr = x, folded c1_def c0_def]
  have "x * x * x + 7 - y * y = c1 * x + c0" using cubic [of x] by simp
  then have at: "FIELD_MODULUS dvd c1 * x + c0"
    using l unfolding on_curve_def by (metis dvd_minus_iff minus_diff_eq)
  have "c1 = - (m * (2 * y) - 3 * x * x)" by (simp add: c1_def algebra_simps)
  then have c1: "FIELD_MODULUS dvd c1" using m by (simp only: dvd_minus_iff)
  have "c0 = (c1 * x + c0) - c1 * x" by simp
  then have c0: "FIELD_MODULUS dvd c0" using at c1 by (metis dvd_diff dvd_mult2)
  show ?thesis by (rule third_point) (use c1 c0 in \<open>simp_all add: c1_def c0_def\<close>)
qed

subsection \<open>What the operations return\<close>

lemma chord_slope:
  assumes "(xr - xl) * i mod FIELD_MODULUS = 1 mod FIELD_MODULUS"
  shows "FIELD_MODULUS dvd (yr - yl) * i mod FIELD_MODULUS * (xr - xl) - (yr - yl)"
proof -
  let ?P = FIELD_MODULUS
  have "((yr - yl) * i mod ?P * (xr - xl)) mod ?P = ((yr - yl) * ((xr - xl) * i mod ?P)) mod ?P"
    by (simp add: mod_mult_left_eq mod_mult_right_eq ac_simps)
  also have "\<dots> = (yr - yl) mod ?P" using assms by (simp add: mod_mult_right_eq)
  finally show ?thesis by (simp add: mod_eq_dvd_iff)
qed

lemma tangent_slope:
  assumes "2 * y * i mod FIELD_MODULUS = 1 mod FIELD_MODULUS"
  shows "FIELD_MODULUS dvd 3 * x * x * i mod FIELD_MODULUS * (2 * y) - 3 * x * x"
proof -
  let ?P = FIELD_MODULUS
  have "(3 * x * x * i mod ?P * (2 * y)) mod ?P = (3 * x * x * i * (2 * y)) mod ?P" by (rule mod_mult_left_eq)
  also have "3 * x * x * i * (2 * y) = 3 * x * x * (2 * y * i)" by simp
  also have "(3 * x * x * (2 * y * i)) mod ?P = (3 * x * x * (2 * y * i mod ?P)) mod ?P" by (rule mod_mult_right_eq [symmetric])
  also have "\<dots> = (3 * x * x) mod ?P" using assms by (simp add: mod_mult_right_eq)
  finally show ?thesis by (simp add: mod_eq_dvd_iff)
qed

lemma reduced_y: "(m * (x - X mod FIELD_MODULUS) - y) mod FIELD_MODULUS = (m * (x - X) - y) mod FIELD_MODULUS"
  by (intro mod_diff_cong mod_mult_cong refl) (simp_all add: mod_diff_right_eq)

text \<open>Addition is closed: the constructor of its result never raises, only a missing inverse can.\<close>

lemma point_add_ok:
  assumes "opt_point_ok p" "opt_point_ok q"
  shows "case point_add p q of Inr r \<Rightarrow> opt_point_ok r | Inl e \<Rightarrow> e = NOT_INVERTIBLE"
proof (cases p)
  case None
  then show ?thesis using assms(2) by (simp add: point_add_def)
next
  case (Some l)
  show ?thesis
  proof (cases q)
    case None
    then show ?thesis using Some assms(1) by (simp add: point_add_def)
  next
    case (Some r)
    note lr = \<open>p = Some l\<close> \<open>q = Some r\<close>
    have l: "on_curve (pt_x l) (pt_y l)" and r: "on_curve (pt_x r) (pt_y r)"
      using assms lr by (simp_all add: point_ok_def)
    show ?thesis
    proof (cases "pt_x l = pt_x r \<and> ((pt_y l + pt_y r) mod FIELD_MODULUS = 0 \<or> pt_y l = 0)")
      case True
      then show ?thesis using lr by (simp add: point_add_def)
    next
      case regular: False
      define slope where "slope = (if pt_x l = pt_x r
                 then rbind (inverse_mod (2 * pt_y l) FIELD_MODULUS) (\<lambda>i. Inr (3 * pt_x l * pt_x l * i))
                 else rbind (inverse_mod (pt_x r - pt_x l) FIELD_MODULUS) (\<lambda>i. Inr ((pt_y r - pt_y l) * i)))"
      have add: "point_add p q = rbind slope (\<lambda>raw. let m = raw mod FIELD_MODULUS;
              x = (m * m - pt_x l - pt_x r) mod FIELD_MODULUS; y = (m * (pt_x l - x) - pt_y l) mod FIELD_MODULUS
            in rbind (mk_point x y) (\<lambda>q. Inr (Some q)))"
        unfolding point_add_def slope_def lr option.case if_not_P [OF regular] Let_def ..
      show ?thesis
      proof (cases slope)
        case (Inl e)
        then have "e = NOT_INVERTIBLE"
          using inverse_mod_Inl(1) FIELD_MODULUS_pos by (auto simp: slope_def rbind_eq_Inl split: if_splits)
        then show ?thesis by (simp add: add Inl)
      next
        case (Inr raw)
        define m where "m = raw mod FIELD_MODULUS"
        define X where "X = m * m - pt_x l - pt_x r"
        have "on_curve X (m * (pt_x l - X) - pt_y l)"
        proof (cases "pt_x l = pt_x r")
          case True
          then obtain i where "inverse_mod (2 * pt_y l) FIELD_MODULUS = Inr i" "raw = 3 * pt_x l * pt_x l * i"
            using Inr by (auto simp: slope_def)
          then have "FIELD_MODULUS dvd m * (2 * pt_y l) - 3 * pt_x l * pt_x l"
            using tangent_slope inverse_mod_Inr(1) FIELD_MODULUS_pos by (simp add: m_def)
          from tangent_on_curve [OF l this] show ?thesis using True by (simp add: X_def)
        next
          case False
          then obtain i where i: "inverse_mod (pt_x r - pt_x l) FIELD_MODULUS = Inr i" "raw = (pt_y r - pt_y l) * i"
            using Inr by (auto simp: slope_def)
          note inv = inverse_mod_Inr(1) [OF i(1) FIELD_MODULUS_pos(1)]
          have "FIELD_MODULUS dvd m * (pt_x r - pt_x l) - (pt_y r - pt_y l)"
            using chord_slope [OF inv] by (simp add: m_def i(2))
          from chord_on_curve [OF l r this inv] show ?thesis by (simp add: X_def)
        qed
        then have "mk_point (X mod FIELD_MODULUS) ((m * (pt_x l - X) - pt_y l) mod FIELD_MODULUS)
          = Inr \<lparr>pt_x = X mod FIELD_MODULUS, pt_y = (m * (pt_x l - X) - pt_y l) mod FIELD_MODULUS\<rparr>" (is "_ = Inr ?p")
          by (rule mk_point_mod)
        moreover from this have "point_ok ?p" by (simp only: mk_point_def Point_post_init_Inr)
        moreover have "point_add p q = rbind (mk_point (X mod FIELD_MODULUS) ((m * (pt_x l - X) - pt_y l) mod FIELD_MODULUS)) (\<lambda>q. Inr (Some q))"
          unfolding add Inr rbind_simps Let_def m_def [symmetric] X_def [symmetric] reduced_y ..
        ultimately show ?thesis by simp
      qed
    qed
  qed
qed

lemma multiply_loop_ok:
  assumes "opt_point_ok acc" "opt_point_ok addend"
  shows "case multiply_loop n acc addend of Inr r \<Rightarrow> opt_point_ok r | Inl e \<Rightarrow> e = NOT_INVERTIBLE"
  using assms
proof (induction n acc addend rule: multiply_loop.induct)
  case (1 n acc addend)
  show ?case
  proof (cases "n = 0")
    case True
    then show ?thesis using 1 by (simp add: multiply_loop.simps)
  next
    case False
    have a: "case (if odd n then point_add acc addend else Inr acc) of Inr r \<Rightarrow> opt_point_ok r | Inl e \<Rightarrow> e = NOT_INVERTIBLE"
      using point_add_ok 1(2,3) by simp
    have b: "case point_add addend addend of Inr r \<Rightarrow> opt_point_ok r | Inl e \<Rightarrow> e = NOT_INVERTIBLE"
      using point_add_ok 1(3) by simp
    show ?thesis
      using 1(1) [OF False] a b False
      by (cases "if odd n then point_add acc addend else Inr acc"; cases "point_add addend addend")
         (auto simp: multiply_loop.simps [of n acc addend])
  qed
qed

lemma scalar_multiply_ok:
  assumes "opt_point_ok p" "0 \<le> k" "k \<le> GROUP_ORDER"
  shows "case scalar_multiply k p of Inr r \<Rightarrow> opt_point_ok r | Inl e \<Rightarrow> e = NOT_INVERTIBLE"
  using assms multiply_loop_ok [of None p "nat k"] by (auto simp: scalar_multiply_def)

lemma point_negate_ok:
  assumes "opt_point_ok p"
  shows "\<exists>r. point_negate p = Inr r \<and> opt_point_ok r"
proof (cases p)
  case None
  then show ?thesis by (simp add: point_negate_def)
next
  case (Some q)
  have "on_curve (pt_x q) (- pt_y q)" using assms Some by (simp add: point_ok_def on_curve_def)
  moreover have "pt_x q mod FIELD_MODULUS = pt_x q" using assms Some by (simp add: point_ok_def)
  ultimately show ?thesis using mk_point_mod [of "pt_x q" "- pt_y q"] Some
    by (auto simp: point_negate_def mk_point_def Point_post_init_Inr)
qed

lemma lift_x_ok:
  assumes "lift_x x par = Inr p"
  shows "point_ok p" "pt_x p = x" "pt_y p mod 2 = par"
proof -
  define y where "y = pow_mod ((x * x * x + 7) mod FIELD_MODULUS) (nat ((FIELD_MODULUS + 1) div 4)) FIELD_MODULUS"
  have p: "Point_post_init \<lparr>pt_x = x, pt_y = (if y mod 2 \<noteq> par then FIELD_MODULUS - y else y)\<rparr> = Inr p" and par: "par \<in> {0, 1}"
    using assms by (auto simp: lift_x_def Let_def y_def [symmetric] mk_point_def split: if_splits)
  show "point_ok p" "pt_x p = x" using p by (auto simp: Point_post_init_Inr)
  have "FIELD_MODULUS mod 2 = 1" by (simp add: FIELD_MODULUS_def)
  then have "(FIELD_MODULUS - y) mod 2 = 1 - y mod 2" by presburger
  moreover have "y mod 2 = 0 \<or> y mod 2 = 1" by presburger
  ultimately show "pt_y p mod 2 = par" using p par by (auto simp: Point_post_init_Inr split: if_splits)
qed

lemma mk_point_error: "mk_point x y = Inl e \<Longrightarrow> is_value_error e"
  unfolding mk_point_def Point_post_init_def by (simp only: split: if_splits) auto

lemma lift_x_error: "lift_x x par = Inl e \<Longrightarrow> is_value_error e"
  unfolding lift_x_def Let_def by (simp only: split: if_splits) (auto intro: mk_point_error)

lemma GENERATOR_ok: "point_ok GENERATOR"
proof -
  have "GENERATOR_X * GENERATOR_X * GENERATOR_X + 7 - GENERATOR_Y * GENERATOR_Y
    = FIELD_MODULUS * 0x1B888E01A06E974017A28A5B4DA436169761C9730B7AEEDF75FC60F6A33CFC7792FE74711F025D590B10E57F1B3A7CE38FFC4C885C515894B45C19C9F413E5E9"
    unfolding GENERATOR_X_def GENERATOR_Y_def FIELD_MODULUS_def by simp
  then have "FIELD_MODULUS dvd GENERATOR_X * GENERATOR_X * GENERATOR_X + 7 - GENERATOR_Y * GENERATOR_Y" by simp
  then have "on_curve GENERATOR_X GENERATOR_Y" unfolding on_curve_def by (metis dvd_minus_iff minus_diff_eq)
  then show ?thesis
    by (simp add: point_ok_def GENERATOR_def) (simp add: GENERATOR_X_def GENERATOR_Y_def FIELD_MODULUS_def)
qed

lemma NOT_INVERTIBLE_value [simp]: "is_value_error NOT_INVERTIBLE"
  by (simp add: NOT_INVERTIBLE_def)

lemma point_add_cases:
  assumes "opt_point_ok p" "opt_point_ok q"
  shows "point_add p q = Inr r \<Longrightarrow> opt_point_ok r" "point_add p q = Inl e \<Longrightarrow> is_value_error e"
  using point_add_ok [OF assms] by auto

lemma scalar_multiply_cases:
  assumes "opt_point_ok p"
  shows "scalar_multiply k p = Inr r \<Longrightarrow> opt_point_ok r" "scalar_multiply k p = Inl e \<Longrightarrow> is_value_error e"
  using multiply_loop_ok [of None p "nat k"] assms by (auto simp: scalar_multiply_def split: if_splits)

lemma inverse_mod_error:
  assumes "inverse_mod a GROUP_ORDER = Inl e"
  shows "is_value_error e"
  unfolding inverse_mod_Inl(1) [OF assms FIELD_MODULUS_pos(2)] by simp

lemma require_scalar_Inl: "require_scalar n v z = Inl e \<Longrightarrow> is_value_error e"
  by (auto simp: require_scalar_def Let_def split: if_splits)

text \<open>Sequencing when every failure is a \<open>ValueError\<close>.\<close>

lemma rbind_cases:
  assumes "\<And>e. m = Inl e \<Longrightarrow> is_value_error e"
    and "\<And>x. m = Inr x \<Longrightarrow> case f x of Inr y \<Rightarrow> Q y | Inl e \<Rightarrow> is_value_error e"
  shows "case rbind m f of Inr y \<Rightarrow> Q y | Inl e \<Rightarrow> is_value_error e"
  using assms by (cases m) auto

lemma verify_signature_error:
  assumes "point_ok k"
  shows "verify_signature h r s k = Inl e \<Longrightarrow> is_value_error e"
proof -
  have ok: "opt_point_ok (Some GENERATOR)" "opt_point_ok (Some k)" using assms GENERATOR_ok by simp_all
  note g = scalar_multiply_cases [OF ok(1)] and k = scalar_multiply_cases [OF ok(2)]
  have "case verify_signature h r s k of Inr y \<Rightarrow> True | Inl e \<Rightarrow> is_value_error e"
  proof (cases "length h \<noteq> 32")
    case True
    then show ?thesis by (simp add: verify_signature_def)
  next
    case False
    show ?thesis
      unfolding verify_signature_def if_not_P [OF False] Let_def
      by (rule rbind_cases, erule require_scalar_Inl, rule rbind_cases, erule require_scalar_Inl,
          rule rbind_cases, erule inverse_mod_error, rule rbind_cases, erule g(2), rule rbind_cases, erule k(2),
          rule rbind_cases, rule point_add_cases(2) [OF g(1) k(1)], assumption+, simp)
  qed
  then show "verify_signature h r s k = Inl e \<Longrightarrow> is_value_error e" by simp
qed

definition recovered_ok :: "bytes \<Rightarrow> int \<Rightarrow> int \<Rightarrow> secp256k1_point list \<Rightarrow> bool" where
  "recovered_ok h r s keys \<longleftrightarrow>
    list_all (\<lambda>k. point_ok k \<and> verify_signature h r s k = Inr True) keys \<and> distinct keys"

lemma recover_candidate_ok:
  assumes "recovered_ok h r s keys"
  shows "case recover_candidate h r s par z i keys ob of
      Inr keys' \<Rightarrow> recovered_ok h r s keys' \<and> length keys' \<le> Suc (length keys) | Inl e \<Rightarrow> is_value_error e"
proof (cases "lift_x (r + ob * GROUP_ORDER) par")
  case (Inl e)
  then have "is_value_error e" by (rule lift_x_error)
  then show ?thesis using Inl assms by (simp add: recover_candidate_def Let_def)
next
  case (Inr p)
  have ok: "opt_point_ok (Some p)" "opt_point_ok (Some GENERATOR)" using lift_x_ok [OF Inr] GENERATOR_ok by simp_all
  note k = scalar_multiply_cases [OF ok(1)] and g = scalar_multiply_cases [OF ok(2)]
  define tail where "tail = (\<lambda>recovered. case recovered of
            None \<Rightarrow> Inr keys
          | Some key \<Rightarrow>
            rbind (verify_signature h r s key) (\<lambda>verified.
            Inr (if \<not> verified \<or> key \<in> set keys then keys else keys @ [key])))"
  have last: "case tail q of Inr keys' \<Rightarrow> recovered_ok h r s keys' \<and> length keys' \<le> Suc (length keys) | Inl e \<Rightarrow> is_value_error e"
    if "opt_point_ok q" for q
  proof (cases q)
    case None
    then show ?thesis using assms by (simp add: tail_def)
  next
    case (Some k)
    then show ?thesis using that assms verify_signature_error [of k h r s]
      by (cases "verify_signature h r s k") (auto simp: tail_def recovered_ok_def)
  qed
  show ?thesis
  proof (cases "FIELD_MODULUS \<le> r + ob * GROUP_ORDER")
    case True
    then show ?thesis using assms by (simp add: recover_candidate_def Let_def)
  next
    case False
    have body: "recover_candidate h r s par z i keys ob =
         rbind (scalar_multiply GROUP_ORDER (Some p)) (\<lambda>zero.
         if zero \<noteq> None then Inr keys
         else
         rbind (scalar_multiply s (Some p)) (\<lambda>a.
         rbind (scalar_multiply (- z mod GROUP_ORDER) (Some GENERATOR)) (\<lambda>b.
         rbind (point_add a b) (\<lambda>total.
         rbind (scalar_multiply i total) tail))))"
      unfolding recover_candidate_def Let_def if_not_P [OF False] Inr sum.case tail_def ..
    show ?thesis
      unfolding body
    proof (rule rbind_cases)
      show "is_value_error e" if "scalar_multiply GROUP_ORDER (Some p) = Inl e" for e
        using k(2) [OF that] .
      fix zero
      assume "scalar_multiply GROUP_ORDER (Some p) = Inr zero"
      have "case rbind (scalar_multiply s (Some p)) (\<lambda>a.
         rbind (scalar_multiply (- z mod GROUP_ORDER) (Some GENERATOR)) (\<lambda>b.
         rbind (point_add a b) (\<lambda>total. rbind (scalar_multiply i total) tail)))
        of Inr keys' \<Rightarrow> recovered_ok h r s keys' \<and> length keys' \<le> Suc (length keys) | Inl e \<Rightarrow> is_value_error e"
        by (rule rbind_cases, erule k(2), rule rbind_cases, erule g(2),
            rule rbind_cases, rule point_add_cases(2) [OF k(1) g(1)], assumption+,
            rule rbind_cases, rule scalar_multiply_cases(2) [OF point_add_cases(1) [OF k(1) g(1)]], assumption+,
            rule last, rule scalar_multiply_cases(1) [OF point_add_cases(1) [OF k(1) g(1)]], assumption+)
      then show "case if zero \<noteq> None then Inr keys
         else rbind (scalar_multiply s (Some p)) (\<lambda>a.
         rbind (scalar_multiply (- z mod GROUP_ORDER) (Some GENERATOR)) (\<lambda>b.
         rbind (point_add a b) (\<lambda>total. rbind (scalar_multiply i total) tail)))
        of Inr keys' \<Rightarrow> recovered_ok h r s keys' \<and> length keys' \<le> Suc (length keys) | Inl e \<Rightarrow> is_value_error e"
        using assms by simp
    qed
  qed
qed

text \<open>What recovery returns: curve points that verify the signature, each once, at most two.\<close>

lemma recover_public_keys_ok:
  "case recover_public_keys h r s par of
     Inr keys \<Rightarrow> recovered_ok h r s keys \<and> sorted (map (\<lambda>p. (pt_x p, pt_y p)) keys) \<and> length keys \<le> 2
   | Inl e \<Rightarrow> is_value_error e" (is "case _ of Inr keys \<Rightarrow> ?Q keys | Inl e \<Rightarrow> _")
proof -
  have "case rfold (recover_candidate h r s par z i) [] [0, 1] of
      Inr cs \<Rightarrow> recovered_ok h r s cs \<and> length cs \<le> 2 | Inl e \<Rightarrow> is_value_error e" for z i
  proof -
    have start: "recovered_ok h r s []" by (simp add: recovered_ok_def)
    note one = recover_candidate_ok [OF start, of par z i 0]
    show ?thesis
    proof (cases "recover_candidate h r s par z i [] 0")
      case (Inl e)
      then show ?thesis using one by simp
    next
      case (Inr c0)
      then have "recovered_ok h r s c0" "length c0 \<le> 1" using one by simp_all
      then show ?thesis
        using Inr recover_candidate_ok [of h r s c0 par z i 1]
        by (cases "recover_candidate h r s par z i c0 1") auto
    qed
  qed
  note folded = this
  have loop: "case rbind (rfold (recover_candidate h r s par z i) [] [0, 1]) (\<lambda>cs. Inr (sort_key (\<lambda>p. (pt_x p, pt_y p)) cs)) of
      Inr keys \<Rightarrow> ?Q keys | Inl e \<Rightarrow> is_value_error e" for z i
  proof (cases "rfold (recover_candidate h r s par z i) [] [0, 1]")
    case (Inl e)
    then show ?thesis using folded [of z i] by (simp only: rbind_simps sum.case)
  next
    case (Inr cs)
    have "recovered_ok h r s cs" "length cs \<le> 2" using folded [of z i] unfolding Inr sum.case by simp_all
    then show ?thesis unfolding Inr rbind_simps sum.case by (simp add: recovered_ok_def list_all_iff)
  qed
  show ?thesis
  proof (cases "length h \<noteq> 32 \<or> par \<notin> {0, 1}")
    case True
    have "recover_public_keys h r s par \<noteq> Inr keys" for keys
      using True by (auto simp: recover_public_keys_def)
    then show ?thesis using True require_scalar_Inl
      by (cases "recover_public_keys h r s par") (auto simp: recover_public_keys_def rbind_eq_Inl split: if_splits)
  next
    case False
    then have conds: "(length h \<noteq> 32) = False" "(par \<notin> {0, 1}) = False" by simp_all
    show ?thesis
      unfolding recover_public_keys_def conds if_False Let_def
      by (rule rbind_cases, erule require_scalar_Inl, rule rbind_cases, erule require_scalar_Inl,
          rule rbind_cases, erule inverse_mod_error, rule loop)
  qed
qed

end
