(* ===== verification/Evidence.thy ===== *)
theory Evidence
  imports Profit
begin

text \<open>
  \<open>src/aladdin_mev_engine/evidence.py\<close>: simulation results, the agreement of independent
  simulations, and the evidence record whose decision is the profit assessment.
\<close>

definition EVIDENCE_SCHEMA_ID :: string where
  "EVIDENCE_SCHEMA_ID = ''aladdin-mev-simulation-evidence/v1''"

fun chain_health_value :: "chain_health \<Rightarrow> string" where
  "chain_health_value HEALTHY = ''healthy''"
| "chain_health_value DEGRADED_HEALTH = ''degraded''"
| "chain_health_value UNKNOWN_HEALTH = ''unknown''"

record simulation_result =
  sim_engine_id :: string
  sim_success :: bool
  sim_gas_units :: int
  sim_output_amount :: int
  sim_post_state_digest :: string
  sim_error_code :: "string option"

definition SimulationResult_post_init :: "simulation_result \<Rightarrow> simulation_result result" where
  "SimulationResult_post_init self =
    rbind (require_bounded_text ''engine_id'' (sim_engine_id self) 128) (\<lambda>_.
    rbind (require_non_negative_int ''gas_units'' (sim_gas_units self)) (\<lambda>_.
    rbind (require_non_negative_int ''output_amount'' (sim_output_amount self)) (\<lambda>_.
    rbind (require_sha256 ''post_state_digest'' (sim_post_state_digest self)) (\<lambda>_.
    rbind (case sim_error_code self of
        None \<Rightarrow> Inr ()
      | Some code \<Rightarrow> require_bounded_text ''error_code'' code 128) (\<lambda>_.
    if sim_success self \<and> sim_error_code self \<noteq> None
    then Inl (ValueError ''successful simulation cannot carry an error code'')
    else Inr self)))))"

definition optional_text :: "string option \<Rightarrow> json" where
  "optional_text v = (case v of None \<Rightarrow> JNull | Some s \<Rightarrow> JStr s)"

definition SimulationResult_to_json :: "simulation_result \<Rightarrow> json" where
  "SimulationResult_to_json self = JObj
    [(''engine_id'', JStr (sim_engine_id self)),
     (''success'', JBool (sim_success self)),
     (''gas_units'', JStr (str_of_int (sim_gas_units self))),
     (''output_amount'', JStr (str_of_int (sim_output_amount self))),
     (''post_state_digest'', JStr (sim_post_state_digest self)),
     (''error_code'', optional_text (sim_error_code self))]"

definition dual_simulations_agree :: "simulation_result list \<Rightarrow> bool" where
  "dual_simulations_agree simulations =
    (if length simulations < 2 then False
     else if has_duplicate (map sim_engine_id simulations) then False
     else let reference = hd simulations in
       if \<not> sim_success reference then False
       else list_all (\<lambda>r.
           sim_success r
           \<and> sim_gas_units r = sim_gas_units reference
           \<and> sim_output_amount r = sim_output_amount reference
           \<and> sim_post_state_digest r = sim_post_state_digest reference
           \<and> sim_error_code r = sim_error_code reference) (tl simulations))"

record evidence_record =
  er_opportunity_id :: string
  er_strategy :: strategy
  er_state_reference :: state_reference
  er_capital_at_risk :: int
  er_costs :: cost_breakdown
  er_simulations :: "simulation_result list"
  er_profit_policy :: profit_policy
  er_chain_health :: chain_health
  er_risk_budget_available :: bool
  er_created_at_unix_ms :: int

definition EvidenceRecord_post_init :: "evidence_record \<Rightarrow> evidence_record result" where
  "EvidenceRecord_post_init self =
    rbind (require_bounded_text ''opportunity_id'' (er_opportunity_id self) 128) (\<lambda>_.
    rbind (require_non_negative_int ''capital_at_risk'' (er_capital_at_risk self)) (\<lambda>_.
    rbind (require_non_negative_int ''created_at_unix_ms'' (er_created_at_unix_ms self)) (\<lambda>_.
    if er_created_at_unix_ms self < sr_observed_at_unix_ms (er_state_reference self)
    then Inl (ValueError ''evidence creation time cannot precede state observation'')
    else if length (er_simulations self) < 2
    then Inl (ValueError ''at least two independent simulations are required'')
    else if 8 < length (er_simulations self)
    then Inl (ValueError ''at most eight independent simulations are supported'')
    else Inr self)))"

definition state_age_ms :: "evidence_record \<Rightarrow> int" where
  "state_age_ms self = er_created_at_unix_ms self - sr_observed_at_unix_ms (er_state_reference self)"

definition evidence_decision :: "evidence_record \<Rightarrow> profit_assessment result" where
  "evidence_decision self =
    assess_profit (er_costs self) (er_profit_policy self) (er_capital_at_risk self) (state_age_ms self)
      (dual_simulations_agree (er_simulations self)) (er_chain_health self)
      (er_risk_budget_available self)"

definition EvidenceRecord_to_json :: "evidence_record \<Rightarrow> json result" where
  "EvidenceRecord_to_json self =
    rbind (evidence_decision self) (\<lambda>decision.
    Inr (JObj
      [(''schema'', JStr EVIDENCE_SCHEMA_ID),
       (''opportunity_id'', JStr (er_opportunity_id self)),
       (''strategy'', JStr (strategy_value (er_strategy self))),
       (''state_reference'', StateReference_to_json (er_state_reference self)),
       (''capital_at_risk'', JStr (str_of_int (er_capital_at_risk self))),
       (''costs'', CostBreakdown_to_json (er_costs self)),
       (''simulations'', JArr (map SimulationResult_to_json (er_simulations self))),
       (''profit_policy'', ProfitPolicy_to_json (er_profit_policy self)),
       (''chain_health'', JStr (chain_health_value (er_chain_health self))),
       (''risk_budget_available'', JBool (er_risk_budget_available self)),
       (''decision'', ProfitAssessment_to_json decision),
       (''created_at_unix_ms'', JStr (str_of_int (er_created_at_unix_ms self)))]))"

definition EvidenceRecord_digest :: "evidence_record \<Rightarrow> string result" where
  "EvidenceRecord_digest self = rbind (EvidenceRecord_to_json self) canonical_sha256"

lemma EvidenceRecord_post_init_Inr:
  assumes "EvidenceRecord_post_init r = Inr r'"
  shows "r' = r" "0 \<le> er_capital_at_risk r" "0 \<le> state_age_ms r" "2 \<le> length (er_simulations r)"
  using assms by (auto simp: EvidenceRecord_post_init_def state_age_ms_def split: if_splits)

lemma dual_simulations_agree_iff:
  "dual_simulations_agree sims \<longleftrightarrow>
    2 \<le> length sims \<and> distinct (map sim_engine_id sims)
    \<and> (\<forall>a \<in> set sims. \<forall>b \<in> set sims. sim_success a \<and> sim_gas_units a = sim_gas_units b
        \<and> sim_output_amount a = sim_output_amount b \<and> sim_post_state_digest a = sim_post_state_digest b
        \<and> sim_error_code a = sim_error_code b)"
proof (cases sims)
  case Nil
  then show ?thesis by (simp add: dual_simulations_agree_def)
next
  case (Cons r rs)
  then show ?thesis by (auto simp: dual_simulations_agree_def list_all_iff Let_def Suc_le_eq)
qed

end
