(* ===== verification/Assets.thy ===== *)
theory Assets
  imports Constant_Product
begin

text \<open>
  \<open>src/aladdin_mev_engine/assets.py\<close>: assets, amounts, conservative valuation rates that
  convert upwards, and the book that holds one rate per pair of assets.
\<close>

definition ASSET_SCHEMA :: string where "ASSET_SCHEMA = ''aladdin-mev-asset-id/v1''"
definition RATE_SCHEMA :: string where "RATE_SCHEMA = ''aladdin-mev-conservative-valuation-rate/v1''"
definition BOOK_SCHEMA :: string where "BOOK_SCHEMA = ''aladdin-mev-valuation-book/v1''"
definition MAX_UINT64 :: int where "MAX_UINT64 = 2 ^ 64 - 1"
definition MAX_VALUATION_RATES :: nat where "MAX_VALUATION_RATES = 64"

datatype asset_kind = NATIVE | ERC20

fun asset_kind_value :: "asset_kind \<Rightarrow> string" where
  "asset_kind_value NATIVE = ''native''"
| "asset_kind_value ERC20 = ''erc20''"

definition require_uint :: "string \<Rightarrow> int \<Rightarrow> bool \<Rightarrow> unit result" where
  "require_uint name v positive =
    (if \<not> (0 \<le> v \<and> v \<le> MAX_UINT256)
     then Inl (ValueError (name @ '' must be an unsigned 256-bit exact integer''))
     else if positive \<and> v = 0 then Inl (ValueError (name @ '' must be positive''))
     else Inr ())"

definition require_time :: "string \<Rightarrow> int \<Rightarrow> unit result" where
  "require_time name v =
    (if \<not> (0 \<le> v \<and> v \<le> MAX_UINT64)
     then Inl (ValueError (name @ '' must be an unsigned 64-bit exact integer''))
     else Inr ())"

definition uint_checked_mul :: "int \<Rightarrow> int \<Rightarrow> string \<Rightarrow> int result" where
  "uint_checked_mul left right name =
    rbind (require_uint (name @ '' left'') left False) (\<lambda>_.
    rbind (require_uint (name @ '' right'') right False) (\<lambda>_.
    if left \<noteq> 0 \<and> MAX_UINT256 div left < right
    then Inl (ValueError (name @ '' multiplication exceeds uint256''))
    else Inr (left * right)))"

definition asset_address :: "string \<Rightarrow> bytes option \<Rightarrow> bool \<Rightarrow> unit result" where
  "asset_address name v nonzero =
    (case v of
       None \<Rightarrow> Inl (ValueError (name @ '' must be exact immutable 20-byte data''))
     | Some b \<Rightarrow>
       if length b \<noteq> 20 then Inl (ValueError (name @ '' must be exact immutable 20-byte data''))
       else if nonzero \<and> b = zero_bytes 20 then Inl (ValueError (name @ '' cannot be zero''))
       else Inr ())"

subsection \<open>Assets and amounts\<close>

record asset_id =
  ai_chain :: chain
  ai_kind :: asset_kind
  ai_address :: "bytes option"

definition AssetId_to_json :: "asset_id \<Rightarrow> json" where
  "AssetId_to_json self = JObj
    [(''schema'', JStr ASSET_SCHEMA),
     (''chain'', JStr (chain_value (ai_chain self))),
     (''kind'', JStr (asset_kind_value (ai_kind self))),
     (''address'', (case ai_address self of None \<Rightarrow> JNull | Some b \<Rightarrow> JStr (to_hex_data b)))]"

definition AssetId_post_init :: "asset_id \<Rightarrow> asset_id result" where
  "AssetId_post_init self =
    rbind (case ai_kind self of
        NATIVE \<Rightarrow>
          if ai_address self \<noteq> None
          then Inl (ValueError ''native asset cannot carry a token address'') else Inr ()
      | ERC20 \<Rightarrow> asset_address ''address'' (ai_address self) True) (\<lambda>_.
    rbind (canonical_json_bytes (AssetId_to_json self)) (\<lambda>_. Inr self))"

definition AssetId_native :: "chain \<Rightarrow> asset_id result" where
  "AssetId_native ch = AssetId_post_init \<lparr>ai_chain = ch, ai_kind = NATIVE, ai_address = None\<rparr>"

definition AssetId_erc20 :: "chain \<Rightarrow> bytes \<Rightarrow> asset_id result" where
  "AssetId_erc20 ch address = AssetId_post_init \<lparr>ai_chain = ch, ai_kind = ERC20, ai_address = Some address\<rparr>"

definition AssetId_digest :: "asset_id \<Rightarrow> string" where
  "AssetId_digest self = json_sha256 (AssetId_to_json self)"

definition valuation_pair_sha256 :: "asset_id \<Rightarrow> asset_id \<Rightarrow> string result" where
  "valuation_pair_sha256 asset_in asset_out =
    (if ai_chain asset_in \<noteq> ai_chain asset_out
     then Inl (ValueError ''valuation pair cannot cross chains'')
     else if asset_in = asset_out then Inl (ValueError ''identity valuation pair is forbidden'')
     else canonical_sha256 (JObj
       [(''asset_in'', AssetId_to_json asset_in), (''asset_out'', AssetId_to_json asset_out)]))"

record asset_amount =
  aa_asset :: asset_id
  aa_amount :: int

definition AssetAmount_to_json :: "asset_amount \<Rightarrow> json" where
  "AssetAmount_to_json self = JObj
    [(''asset'', AssetId_to_json (aa_asset self)), (''amount'', JStr (str_of_int (aa_amount self)))]"

definition AssetAmount_post_init :: "asset_amount \<Rightarrow> asset_amount result" where
  "AssetAmount_post_init self =
    rbind (require_uint ''amount'' (aa_amount self) False) (\<lambda>_.
    rbind (canonical_json_bytes (AssetAmount_to_json self)) (\<lambda>_. Inr self))"

definition AssetAmount_digest :: "asset_amount \<Rightarrow> string" where
  "AssetAmount_digest self = json_sha256 (AssetAmount_to_json self)"

subsection \<open>Rates\<close>

record valuation_rate =
  vr_rate_id :: string
  vr_asset_in :: asset_id
  vr_asset_out :: asset_id
  vr_numerator :: int
  vr_denominator :: int
  vr_observed_at_unix_ms :: int
  vr_valid_until_unix_ms :: int
  vr_source_sha256 :: string

definition ConservativeValuationRate_to_json :: "valuation_rate \<Rightarrow> json" where
  "ConservativeValuationRate_to_json self = JObj
    [(''schema'', JStr RATE_SCHEMA),
     (''rate_id'', JStr (vr_rate_id self)),
     (''asset_in'', AssetId_to_json (vr_asset_in self)),
     (''asset_out'', AssetId_to_json (vr_asset_out self)),
     (''numerator'', JStr (str_of_int (vr_numerator self))),
     (''denominator'', JStr (str_of_int (vr_denominator self))),
     (''rounding'', JStr ''ceiling''),
     (''observed_at_unix_ms'', JStr (str_of_int (vr_observed_at_unix_ms self))),
     (''valid_until_unix_ms'', JStr (str_of_int (vr_valid_until_unix_ms self))),
     (''source_sha256'', JStr (vr_source_sha256 self))]"

definition ConservativeValuationRate_post_init :: "valuation_rate \<Rightarrow> valuation_rate result" where
  "ConservativeValuationRate_post_init self =
    rbind (require_bounded_text ''rate_id'' (vr_rate_id self) 128) (\<lambda>_.
    if ai_chain (vr_asset_in self) \<noteq> ai_chain (vr_asset_out self)
    then Inl (ValueError ''valuation cannot cross chains'')
    else if vr_asset_in self = vr_asset_out self
    then Inl (ValueError ''identity valuation rates are forbidden'')
    else
    rbind (require_uint ''numerator'' (vr_numerator self) True) (\<lambda>_.
    rbind (require_uint ''denominator'' (vr_denominator self) True) (\<lambda>_.
    rbind (require_time ''observed_at_unix_ms'' (vr_observed_at_unix_ms self)) (\<lambda>_.
    rbind (require_time ''valid_until_unix_ms'' (vr_valid_until_unix_ms self)) (\<lambda>_.
    if vr_valid_until_unix_ms self < vr_observed_at_unix_ms self
    then Inl (ValueError ''valuation validity cannot precede observation'')
    else
    rbind (require_sha256 ''source_sha256'' (vr_source_sha256 self)) (\<lambda>_.
    rbind (canonical_json_bytes (ConservativeValuationRate_to_json self)) (\<lambda>_. Inr self)))))))"

definition rate_digest :: "valuation_rate \<Rightarrow> string" where
  "rate_digest self = json_sha256 (ConservativeValuationRate_to_json self)"

definition rate_is_valid_at :: "valuation_rate \<Rightarrow> int \<Rightarrow> bool result" where
  "rate_is_valid_at self at_unix_ms =
    rbind (require_time ''at_unix_ms'' at_unix_ms) (\<lambda>_.
    Inr (vr_observed_at_unix_ms self \<le> at_unix_ms \<and> at_unix_ms \<le> vr_valid_until_unix_ms self))"

definition rate_convert_upper_bound :: "valuation_rate \<Rightarrow> asset_amount \<Rightarrow> int \<Rightarrow> asset_amount result" where
  "rate_convert_upper_bound self amount at_unix_ms =
    (if aa_asset amount \<noteq> vr_asset_in self then Inl (ValueError ''valuation input asset mismatch'')
     else
     rbind (rate_is_valid_at self at_unix_ms) (\<lambda>valid.
     if \<not> valid then Inl (ValueError ''valuation rate is not valid at the evidence time'')
     else if aa_amount amount \<noteq> 0 \<and> MAX_UINT256 div aa_amount amount < vr_numerator self
     then Inl (ValueError ''valuation multiplication exceeds uint256'')
     else
     rbind (uint_checked_mul (aa_amount amount) (vr_numerator self) ''valuation'') (\<lambda>product.
     let quotient = product div vr_denominator self;
         remainder = product mod vr_denominator self;
         converted = quotient + (if remainder \<noteq> 0 then 1 else 0) in
     if MAX_UINT256 < converted then Inl (ValueError ''converted upper bound exceeds uint256'')
     else AssetAmount_post_init \<lparr>aa_asset = vr_asset_out self, aa_amount = converted\<rparr>)))"

subsection \<open>Books\<close>

record valuation_book =
  vb_rates :: "valuation_rate list"

definition book_pairs :: "valuation_book \<Rightarrow> (asset_id \<times> asset_id) list" where
  "book_pairs self = map (\<lambda>r. (vr_asset_in r, vr_asset_out r)) (vb_rates self)"

definition book_pair_sha256 :: "valuation_book \<Rightarrow> string list result" where
  "book_pair_sha256 self = rmap (\<lambda>(asset_in, asset_out). valuation_pair_sha256 asset_in asset_out) (book_pairs self)"

definition ValuationBook_to_json :: "valuation_book \<Rightarrow> json result" where
  "ValuationBook_to_json self =
    rbind (book_pair_sha256 self) (\<lambda>pairs.
    Inr (JObj
      [(''schema'', JStr BOOK_SCHEMA),
       (''rates'', JArr (map ConservativeValuationRate_to_json (vb_rates self))),
       (''rate_sha256'', JArr (map (JStr \<circ> rate_digest) (vb_rates self))),
       (''pair_sha256'', JArr (map JStr pairs))]))"

definition rate_sort_key :: "valuation_rate \<Rightarrow> string \<times> string \<times> string \<times> string" where
  "rate_sort_key r = (AssetId_digest (vr_asset_in r), AssetId_digest (vr_asset_out r), vr_rate_id r, rate_digest r)"

definition ValuationBook_post_init :: "valuation_rate list \<Rightarrow> valuation_book result" where
  "ValuationBook_post_init rates =
    (if MAX_VALUATION_RATES < length rates
     then Inl (ValueError ''valuation book exceeds the governed rate ceiling'')
     else
     let self = \<lparr>vb_rates = sort_key rate_sort_key rates\<rparr> in
     if has_duplicate (book_pairs self)
     then Inl (ValueError ''valuation book contains an ambiguous asset pair'')
     else
     rbind (ValuationBook_to_json self) (\<lambda>v. rbind (canonical_json_bytes v) (\<lambda>_. Inr self)))"

definition ValuationBook_digest :: "valuation_book \<Rightarrow> string result" where
  "ValuationBook_digest self = rbind (ValuationBook_to_json self) canonical_sha256"

definition rate_for :: "valuation_book \<Rightarrow> asset_id \<Rightarrow> asset_id \<Rightarrow> valuation_rate result" where
  "rate_for self asset_in asset_out =
    (case find (\<lambda>r. vr_asset_in r = asset_in \<and> vr_asset_out r = asset_out) (vb_rates self) of
       Some r \<Rightarrow> Inr r
     | None \<Rightarrow> Inl (ValueError ''required conservative valuation rate is absent''))"

definition book_convert_upper_bound :: "valuation_book \<Rightarrow> asset_amount \<Rightarrow> asset_id \<Rightarrow> int \<Rightarrow> asset_amount result" where
  "book_convert_upper_bound self amount target at_unix_ms =
    rbind (require_time ''at_unix_ms'' at_unix_ms) (\<lambda>_.
    if aa_asset amount = target
    then AssetAmount_post_init \<lparr>aa_asset = target, aa_amount = aa_amount amount\<rparr>
    else rbind (rate_for self (aa_asset amount) target) (\<lambda>rate.
      rate_convert_upper_bound rate amount at_unix_ms))"

definition require_exact_pairs ::
  "valuation_book \<Rightarrow> (asset_id \<times> asset_id) list \<Rightarrow> int \<Rightarrow> valuation_rate list result" where
  "require_exact_pairs self required_pairs at_unix_ms =
    rbind (require_time ''at_unix_ms'' at_unix_ms) (\<lambda>_.
    rbind (rall (\<lambda>(asset_in, asset_out).
        rbind (valuation_pair_sha256 asset_in asset_out) (\<lambda>_. Inr ())) required_pairs) (\<lambda>_.
    if has_duplicate required_pairs
    then Inl (ValueError ''required valuation pairs contain a duplicate'')
    else if set (book_pairs self) \<noteq> set required_pairs
            \<or> length (vb_rates self) \<noteq> length (remdups required_pairs)
    then Inl (ValueError ''valuation book does not contain the exact required asset pairs'')
    else
    rbind (rmap (\<lambda>r. rate_is_valid_at r at_unix_ms) (vb_rates self)) (\<lambda>valid.
    if \<not> list_all (\<lambda>v. v) valid
    then Inl (ValueError ''valuation rate is not valid at the evidence time'')
    else Inr (vb_rates self))))"

subsection \<open>Conversion\<close>

lemma require_uint_Inr [simp]: "require_uint n v p = Inr u \<longleftrightarrow> 0 \<le> v \<and> v \<le> MAX_UINT256 \<and> (p \<longrightarrow> v \<noteq> 0)"
  by (auto simp: require_uint_def)

lemma require_time_Inr [simp]: "require_time n v = Inr u \<longleftrightarrow> 0 \<le> v \<and> v \<le> MAX_UINT64"
  by (auto simp: require_time_def)

lemma AssetAmount_post_init_Inr: "AssetAmount_post_init a = Inr b \<Longrightarrow> b = a \<and> 0 \<le> aa_amount a \<and> aa_amount a \<le> MAX_UINT256"
  by (auto simp: AssetAmount_post_init_def)

lemma ceiling_quotient:
  fixes p d :: int
  assumes "0 < d"
  shows "p \<le> (p div d + (if p mod d \<noteq> 0 then 1 else 0)) * d"
    and "(p div d + (if p mod d \<noteq> 0 then 1 else 0)) * d < p + d"
proof -
  define q r where "q = p div d" and "r = p mod d"
  have "p = q * d + r" by (simp add: q_def r_def)
  moreover have "0 \<le> r" "r < d" using assms by (simp_all add: r_def)
  ultimately have "p \<le> (q + (if r \<noteq> 0 then 1 else 0)) * d \<and> (q + (if r \<noteq> 0 then 1 else 0)) * d < p + d"
    using assms by (cases "r = 0") (simp_all add: distrib_right)
  then show "p \<le> (p div d + (if p mod d \<noteq> 0 then 1 else 0)) * d"
    "(p div d + (if p mod d \<noteq> 0 then 1 else 0)) * d < p + d"
    by (simp_all only: q_def r_def)
qed

text \<open>A converted amount is the least integer not below the exact value.\<close>

lemma rate_convert_ceiling:
  assumes "rate_convert_upper_bound r a t = Inr b" "0 < vr_denominator r"
  shows "aa_asset a = vr_asset_in r" "aa_asset b = vr_asset_out r"
    and "vr_observed_at_unix_ms r \<le> t" "t \<le> vr_valid_until_unix_ms r"
    and "aa_amount a * vr_numerator r \<le> aa_amount b * vr_denominator r"
    and "aa_amount b * vr_denominator r < aa_amount a * vr_numerator r + vr_denominator r"
    and "0 \<le> aa_amount b" "aa_amount b \<le> MAX_UINT256"
proof -
  let ?p = "aa_amount a * vr_numerator r"
  let ?c = "?p div vr_denominator r + (if ?p mod vr_denominator r \<noteq> 0 then 1 else 0)"
  have b: "AssetAmount_post_init \<lparr>aa_asset = vr_asset_out r, aa_amount = ?c\<rparr> = Inr b"
    and guard: "aa_asset a = vr_asset_in r" "vr_observed_at_unix_ms r \<le> t" "t \<le> vr_valid_until_unix_ms r"
    using assms(1)
    by (auto simp: rate_convert_upper_bound_def uint_checked_mul_def rate_is_valid_at_def Let_def simp del: if_not_P split: if_split_asm)
  note bb = AssetAmount_post_init_Inr [OF b]
  show "aa_asset a = vr_asset_in r" "aa_asset b = vr_asset_out r" "vr_observed_at_unix_ms r \<le> t" "t \<le> vr_valid_until_unix_ms r"
    "0 \<le> aa_amount b" "aa_amount b \<le> MAX_UINT256"
    using guard bb by auto
  have "aa_amount b = ?c" using bb by simp
  then show "?p \<le> aa_amount b * vr_denominator r" "aa_amount b * vr_denominator r < ?p + vr_denominator r"
    using ceiling_quotient [OF assms(2), of ?p] by (simp_all only:)
qed

end
