(* ===== verification/Json_Objects.thy ===== *)
theory Json_Objects
  imports Canonical
begin

text \<open>
  JSON objects some of whose fields come from a computation that may raise (the digest of a
  part, a checked sum). The fields are evaluated in the order of the Python display, so the
  first exception is the one that escapes.
\<close>

definition jobj :: "(string \<times> json result) list \<Rightarrow> json result" where
  "jobj fields = rbind (rmap (\<lambda>(k, v). rbind v (\<lambda>x. Inr (k, x))) fields) (\<lambda>kvs. Inr (JObj kvs))"

definition jarr :: "json result list \<Rightarrow> json result" where
  "jarr items = rbind (rmap (\<lambda>v. v) items) (\<lambda>vs. Inr (JArr vs))"

definition jstr :: "string result \<Rightarrow> json result" where
  "jstr s = rbind s (\<lambda>t. Inr (JStr t))"

definition jstrs :: "string result list \<Rightarrow> json result" where
  "jstrs items = jarr (map jstr items)"

abbreviation jtext :: "string \<Rightarrow> json result" where "jtext s \<equiv> Inr (JStr s)"
abbreviation jint :: "int \<Rightarrow> json result" where "jint n \<equiv> Inr (JStr (str_of_int n))"
abbreviation jbool :: "bool \<Rightarrow> json result" where "jbool b \<equiv> Inr (JBool b)"

definition jdec :: "int result \<Rightarrow> json result" where
  "jdec n = rbind n (\<lambda>v. Inr (JStr (str_of_int v)))"

text \<open>\<open>any(...)\<close> and \<open>[x for x in xs if ...]\<close> with a test that may raise.\<close>

fun rany :: "('a \<Rightarrow> bool result) \<Rightarrow> 'a list \<Rightarrow> bool result" where
  "rany p [] = Inr False"
| "rany p (x # xs) = rbind (p x) (\<lambda>b. if b then Inr True else rany p xs)"

fun rfilter :: "('a \<Rightarrow> bool result) \<Rightarrow> 'a list \<Rightarrow> 'a list result" where
  "rfilter p [] = Inr []"
| "rfilter p (x # xs) = rbind (p x) (\<lambda>b. rbind (rfilter p xs) (\<lambda>ys. Inr (if b then x # ys else ys)))"

text \<open>\<open>min(...)\<close> and \<open>max(...)\<close> of one or more integers; \<open>sorted\<close> with a key that may raise.\<close>

definition min_of :: "int list \<Rightarrow> int" where "min_of xs = fold min (tl xs) (hd xs)"
definition max_of :: "int list \<Rightarrow> int" where "max_of xs = fold max (tl xs) (hd xs)"

definition rsort_key :: "('a \<Rightarrow> 'k::linorder result) \<Rightarrow> 'a list \<Rightarrow> 'a list result" where
  "rsort_key f xs =
    rbind (rmap (\<lambda>x. rbind (f x) (\<lambda>k. Inr (k, x))) xs) (\<lambda>kxs. Inr (map snd (sort_key fst kxs)))"

text \<open>\<open>canonical_sha256(...)\<close> of such a value, and the constructor's last line
  \<open>canonical_json_bytes(self.to_json_value())\<close>.\<close>

definition jsha :: "json result \<Rightarrow> string result" where
  "jsha v = rbind v canonical_sha256"

definition jchecked :: "json result \<Rightarrow> 'a \<Rightarrow> 'a result" where
  "jchecked v self = rbind v (\<lambda>j. rbind (canonical_json_bytes j) (\<lambda>_. Inr self))"

lemma jchecked_Inr: "jchecked v self = Inr r \<longleftrightarrow> r = self \<and> (\<exists>j b. v = Inr j \<and> canonical_json_bytes j = Inr b)"
  by (auto simp: jchecked_def)

lemma jsha_Inr: "jsha v = Inr d \<longleftrightarrow> (\<exists>j. v = Inr j \<and> canonical_sha256 j = Inr d)"
  by (auto simp: jsha_def)

lemma jchecked_digest: "jchecked v self = Inr r \<Longrightarrow> \<exists>d. jsha v = Inr d"
  by (auto simp: jchecked_Inr jsha_Inr canonical_sha256_def)

lemma min_of_le: "x \<in> set xs \<Longrightarrow> min_of xs \<le> x"
proof -
  have "fold min ys m \<le> m \<and> (\<forall>y \<in> set ys. fold min ys m \<le> y)" for ys and m :: int
  proof (induction ys arbitrary: m)
    case Nil
    then show ?case by simp
  next
    case (Cons y ys)
    from Cons [of "min y m"] show ?case by auto
  qed
  from this [of "tl xs" "hd xs"] show "x \<in> set xs \<Longrightarrow> ?thesis"
    by (cases xs) (auto simp: min_of_def)
qed

lemma rfilter_Inr: "rfilter p xs = Inr ys \<Longrightarrow> ys = filter (\<lambda>x. p x = Inr True) xs"
  by (induction xs arbitrary: ys) (auto split: if_splits)

lemma rany_Inr: "rany p xs = Inr b \<Longrightarrow> b \<longleftrightarrow> (\<exists>x \<in> set xs. p x = Inr True)"
  by (induction xs) (auto split: if_splits)

end
