(* ===== verification/Opportunity.thy ===== *)
theory Opportunity
  imports Optimizer_Correct Route_Enumeration Json_Objects Assets
begin

text \<open>
  \<open>src/aladdin_mev_engine/opportunity.py\<close>: an opportunity is a route of an authenticated universe
  with a complete, positive optimisation and the quote at its optimum; a search report optimises
  every simple cycle of the universe.
\<close>

definition ATOMIC_OPPORTUNITY_SCHEMA :: string where
  "ATOMIC_OPPORTUNITY_SCHEMA = ''aladdin-mev-atomic-dex-opportunity/v1''"
definition SEARCH_REPORT_SCHEMA :: string where
  "SEARCH_REPORT_SCHEMA = ''aladdin-mev-opportunity-search-report/v1''"
definition OPPORTUNITY_AUTHORITY :: string where
  "OPPORTUNITY_AUTHORITY = ''authenticated-state-explicit-model-exact-gross-shadow-only''"
definition SEARCH_AUTHORITY :: string where
  "SEARCH_AUTHORITY = ''authenticated-state-explicit-model-gross-shadow-search''"
definition GROSS_COMPLETENESS :: string where
  "GROSS_COMPLETENESS = ''gross-only-no-gas-no-inclusion-no-funding''"
definition MAX_SEARCH_WORK_UNITS :: int where "MAX_SEARCH_WORK_UNITS = 4000000"

definition rq_digest :: "route_quote \<Rightarrow> string" where
  "rq_digest self = json_sha256 (RouteQuote_to_json self)"

definition state_reference_json :: "pool_universe \<Rightarrow> json result" where
  "state_reference_json universe = rbind (pu_state_reference universe) (\<lambda>r. Inr (StateReference_to_json r))"

subsection \<open>Opportunities\<close>

record opportunity =
  op_universe :: pool_universe
  op_route :: cp_route
  op_optimization_limits :: optimization_limits
  op_created_at_unix_ms :: int
  op_optimization :: optimization_result
  op_route_quote :: route_quote
  op_opportunity_id :: string

definition capital_at_risk :: "opportunity \<Rightarrow> int" where
  "capital_at_risk self = or_amount_in (op_optimization self)"

definition op_gross_profit :: "opportunity \<Rightarrow> int" where
  "op_gross_profit self = or_gross_profit (op_optimization self)"

definition AtomicDexOpportunityEvidence_to_json :: "opportunity \<Rightarrow> json result" where
  "AtomicDexOpportunityEvidence_to_json self = jobj
    [(''schema'', jtext ATOMIC_OPPORTUNITY_SCHEMA),
     (''opportunity_id'', jtext (op_opportunity_id self)),
     (''chain'', jtext (chain_value (pu_chain (op_universe self)))),
     (''strategy'', jtext (strategy_value ATOMIC_DEX_ARBITRAGE)),
     (''state_reference'', state_reference_json (op_universe self)),
     (''capital_at_risk'', jint (capital_at_risk self)),
     (''gross_profit'', jint (op_gross_profit self)),
     (''universe_sha256'', jstr (pu_digest (op_universe self))),
     (''model_registry_sha256'', jtext (mr_digest (pu_model_registry (op_universe self)))),
     (''route'', Inr (ConstantProductRoute_to_json (op_route self))),
     (''route_sha256'', jtext (rt_digest (op_route self))),
     (''route_quote'', Inr (RouteQuote_to_json (op_route_quote self))),
     (''route_quote_sha256'', jtext (rq_digest (op_route_quote self))),
     (''optimization'', Inr (OptimizationResult_to_json (op_optimization self))),
     (''optimization_sha256'', jtext (or_digest (op_optimization self))),
     (''authority'', jtext OPPORTUNITY_AUTHORITY),
     (''cost_completeness'', jtext GROSS_COMPLETENESS),
     (''execution_eligible'', jbool False),
     (''created_at_unix_ms'', jint (op_created_at_unix_ms self))]"

definition opportunity_identity :: "pool_universe \<Rightarrow> cp_route \<Rightarrow> route_quote \<Rightarrow> optimization_result \<Rightarrow> json result" where
  "opportunity_identity universe route quote optimization = jobj
    [(''schema'', jtext ATOMIC_OPPORTUNITY_SCHEMA),
     (''chain'', jtext (chain_value (pu_chain universe))),
     (''strategy'', jtext (strategy_value ATOMIC_DEX_ARBITRAGE)),
     (''state_reference'', state_reference_json universe),
     (''universe_sha256'', jstr (pu_digest universe)),
     (''model_registry_sha256'', jtext (mr_digest (pu_model_registry universe))),
     (''route_sha256'', jtext (rt_digest route)),
     (''route_quote_sha256'', jtext (rq_digest quote)),
     (''optimization_sha256'', jtext (or_digest optimization)),
     (''authority'', jtext OPPORTUNITY_AUTHORITY),
     (''cost_completeness'', jtext GROSS_COMPLETENESS),
     (''execution_eligible'', jbool False)]"

definition AtomicDexOpportunityEvidence_init ::
  "pool_universe \<Rightarrow> cp_route \<Rightarrow> optimization_limits \<Rightarrow> int \<Rightarrow> opportunity result" where
  "AtomicDexOpportunityEvidence_init universe route limits created_at_unix_ms =
    rbind (require_time ''created_at_unix_ms'' created_at_unix_ms) (\<lambda>_.
    if created_at_unix_ms < pu_observed_at_unix_ms universe
    then Inl (ValueError ''opportunity creation time precedes authenticated state'')
    else
    rbind (route_validate_against route universe) (\<lambda>_.
    rbind (optimize_route universe route limits) (\<lambda>optimization.
    if \<not> or_complete optimization \<or> or_status optimization \<noteq> COMPLETE
       \<or> or_gross_profit optimization \<le> 0 \<or> or_amount_in optimization \<le> 0
    then Inl (ValueError ''atomic opportunity requires complete positive exact gross optimization'')
    else
    rbind (route_quote_exact_in route universe (or_amount_in optimization)) (\<lambda>quote.
    if rq_amount_out quote \<noteq> or_amount_out optimization
       \<or> rq_gross_profit quote \<noteq> or_gross_profit optimization \<or> rq_gross_profit quote \<le> 0
    then Inl (ValueError ''opportunity route quote disagrees with exact optimization'')
    else
    rbind (jsha (opportunity_identity universe route quote optimization)) (\<lambda>digest.
    let self = \<lparr>op_universe = universe, op_route = route, op_optimization_limits = limits,
                op_created_at_unix_ms = created_at_unix_ms, op_optimization = optimization,
                op_route_quote = quote, op_opportunity_id = ''atomic-dex-'' @ digest\<rparr>
    in jchecked (AtomicDexOpportunityEvidence_to_json self) self)))))"

definition op_digest :: "opportunity \<Rightarrow> string result" where
  "op_digest self = jsha (AtomicDexOpportunityEvidence_to_json self)"

subsection \<open>Search reports\<close>

record search_report =
  se_universe :: pool_universe
  se_base_token :: bytes
  se_maximum_hops :: nat
  se_optimization_limits :: optimization_limits
  se_created_at_unix_ms :: int
  se_routes :: "cp_route list"
  se_results :: "optimization_result list"

definition positive_result :: "optimization_result \<Rightarrow> bool" where
  "positive_result r \<longleftrightarrow> or_complete r \<and> or_status r = COMPLETE \<and> 0 < or_gross_profit r"

definition report_complete :: "search_report \<Rightarrow> bool" where
  "report_complete self \<longleftrightarrow> list_all or_complete (se_results self)"

definition route_count :: "search_report \<Rightarrow> int" where
  "route_count self = int (length (se_routes self))"

definition positive_route_count :: "search_report \<Rightarrow> int" where
  "positive_route_count self = int (length (filter positive_result (se_results self)))"

definition incomplete_route_sha256 :: "search_report \<Rightarrow> string list" where
  "incomplete_route_sha256 self =
    map (\<lambda>(route, result). rt_digest route)
      (filter (\<lambda>(route, result). \<not> or_complete result) (zip (se_routes self) (se_results self)))"

definition positive_route_sha256 :: "search_report \<Rightarrow> string list" where
  "positive_route_sha256 self =
    map (\<lambda>(route, result). rt_digest route)
      (filter (\<lambda>(route, result). positive_result result) (zip (se_routes self) (se_results self)))"

definition opportunities :: "search_report \<Rightarrow> opportunity list result" where
  "opportunities self =
    rmap (\<lambda>(route, result). AtomicDexOpportunityEvidence_init (se_universe self) route
        (se_optimization_limits self) (se_created_at_unix_ms self))
      (filter (\<lambda>(route, result). positive_result result) (zip (se_routes self) (se_results self)))"

definition OpportunitySearchReport_to_json :: "search_report \<Rightarrow> json result" where
  "OpportunitySearchReport_to_json self = jobj
    [(''schema'', jtext SEARCH_REPORT_SCHEMA),
     (''state_reference'', state_reference_json (se_universe self)),
     (''universe_sha256'', jstr (pu_digest (se_universe self))),
     (''model_registry_sha256'', jtext (mr_digest (pu_model_registry (se_universe self)))),
     (''base_token'', jtext (to_hex_data (se_base_token self))),
     (''maximum_hops'', jint (int (se_maximum_hops self))),
     (''optimization_limits'', Inr (OptimizationLimits_to_json (se_optimization_limits self))),
     (''complete'', jbool (report_complete self)),
     (''route_count'', jint (route_count self)),
     (''positive_route_count'', jint (positive_route_count self)),
     (''route_sha256'', Inr (JArr (map (\<lambda>r. JStr (rt_digest r)) (se_routes self)))),
     (''result_sha256'', Inr (JArr (map (\<lambda>r. JStr (or_digest r)) (se_results self)))),
     (''incomplete_route_sha256'', Inr (JArr (map JStr (incomplete_route_sha256 self)))),
     (''positive_route_sha256'', Inr (JArr (map JStr (positive_route_sha256 self)))),
     (''authority'', jtext SEARCH_AUTHORITY),
     (''execution_eligible'', jbool False),
     (''created_at_unix_ms'', jint (se_created_at_unix_ms self))]"

definition OpportunitySearchReport_post_init :: "search_report \<Rightarrow> search_report result" where
  "OpportunitySearchReport_post_init self =
    rbind (require_address ''base_token'' (se_base_token self)) (\<lambda>_.
    if \<not> (MIN_ROUTE_HOPS \<le> se_maximum_hops self \<and> se_maximum_hops self \<le> MAX_ROUTE_HOPS)
    then Inl (ValueError ''maximum_hops is outside the governed range'')
    else
    rbind (require_time ''created_at_unix_ms'' (se_created_at_unix_ms self)) (\<lambda>_.
    if se_created_at_unix_ms self < pu_observed_at_unix_ms (se_universe self)
    then Inl (ValueError ''search report creation time precedes authenticated state'')
    else
    rbind (enumerate_simple_cycles (se_universe self) (se_base_token self) (se_maximum_hops self)) (\<lambda>routes.
    if MAX_SEARCH_WORK_UNITS < int (length routes) * maximum_work_units (se_optimization_limits self)
    then Inl (ValueError ''opportunity search work exceeds the governed ceiling'')
    else
    rbind (rmap (\<lambda>route. optimize_route (se_universe self) route (se_optimization_limits self)) routes) (\<lambda>results.
    let self = self\<lparr>se_routes := routes, se_results := results\<rparr>
    in jchecked (OpportunitySearchReport_to_json self) self))))"

definition se_digest :: "search_report \<Rightarrow> string result" where
  "se_digest self = jsha (OpportunitySearchReport_to_json self)"

end
