(* ===== verification/Execution_Plan.thy ===== *)
theory Execution_Plan
  imports Opportunity
begin

text \<open>
  \<open>src/aladdin_mev_engine/execution_plan.py\<close>: the funding of an opportunity and the plan of its
  swaps, one step per leg of the exact quote.
\<close>

definition FUNDING_SCHEMA :: string where "FUNDING_SCHEMA = ''aladdin-mev-funding-plan/v1''"
definition EXECUTION_PLAN_SCHEMA :: string where "EXECUTION_PLAN_SCHEMA = ''aladdin-mev-atomic-execution-plan/v1''"
definition MAX_EXECUTION_STEPS :: nat where "MAX_EXECUTION_STEPS = 4"

datatype funding_kind = OWN_INVENTORY | FLASH_LOAN

fun funding_kind_value :: "funding_kind \<Rightarrow> string" where
  "funding_kind_value OWN_INVENTORY = ''own-inventory''"
| "funding_kind_value FLASH_LOAN = ''flash-loan''"

subsection \<open>Funding\<close>

record funding_plan =
  fu_kind :: funding_kind
  fu_asset :: asset_id
  fu_principal :: int
  fu_fee :: int
  fu_provider_id :: string
  fu_observed_at_unix_ms :: int
  fu_valid_until_unix_ms :: int
  fu_source_sha256 :: string

definition FundingPlan_to_json :: "funding_plan \<Rightarrow> json" where
  "FundingPlan_to_json self = JObj
    [(''schema'', JStr FUNDING_SCHEMA),
     (''kind'', JStr (funding_kind_value (fu_kind self))),
     (''asset'', AssetId_to_json (fu_asset self)),
     (''principal'', JStr (str_of_int (fu_principal self))),
     (''fee'', JStr (str_of_int (fu_fee self))),
     (''provider_id'', JStr (fu_provider_id self)),
     (''observed_at_unix_ms'', JStr (str_of_int (fu_observed_at_unix_ms self))),
     (''valid_until_unix_ms'', JStr (str_of_int (fu_valid_until_unix_ms self))),
     (''source_sha256'', JStr (fu_source_sha256 self))]"

definition FundingPlan_post_init :: "funding_plan \<Rightarrow> funding_plan result" where
  "FundingPlan_post_init self =
    (if ai_kind (fu_asset self) \<noteq> ERC20
     then Inl (ValueError ''F4 atomic route funding must use the exact ERC20 base asset'')
     else
     rbind (require_uint ''principal'' (fu_principal self) True) (\<lambda>_.
     rbind (require_uint ''fee'' (fu_fee self) False) (\<lambda>_.
     rbind (require_bounded_text ''provider_id'' (fu_provider_id self) 128) (\<lambda>_.
     rbind (require_time ''observed_at_unix_ms'' (fu_observed_at_unix_ms self)) (\<lambda>_.
     rbind (require_time ''valid_until_unix_ms'' (fu_valid_until_unix_ms self)) (\<lambda>_.
     if fu_valid_until_unix_ms self < fu_observed_at_unix_ms self
     then Inl (ValueError ''funding validity cannot precede observation'')
     else
     rbind (require_sha256 ''source_sha256'' (fu_source_sha256 self)) (\<lambda>_.
     rbind (case fu_kind self of
         OWN_INVENTORY \<Rightarrow>
           if fu_provider_id self \<noteq> ''self''
           then Inl (ValueError ''own-inventory funding provider_id must be self'')
           else if fu_fee self \<noteq> 0
           then Inl (ValueError ''own-inventory funding cannot claim a flash-loan fee'') else Inr ()
       | FLASH_LOAN \<Rightarrow>
           if fu_provider_id self = ''self''
           then Inl (ValueError ''flash-loan funding requires an external provider identity'') else Inr ()) (\<lambda>_.
     rbind (canonical_json_bytes (FundingPlan_to_json self)) (\<lambda>_. Inr self)))))))))"

definition funding_is_valid_at :: "funding_plan \<Rightarrow> int \<Rightarrow> bool result" where
  "funding_is_valid_at self at_unix_ms =
    rbind (require_time ''at_unix_ms'' at_unix_ms) (\<lambda>_.
    Inr (fu_observed_at_unix_ms self \<le> at_unix_ms \<and> at_unix_ms \<le> fu_valid_until_unix_ms self))"

definition fu_digest :: "funding_plan \<Rightarrow> string" where
  "fu_digest self = json_sha256 (FundingPlan_to_json self)"

subsection \<open>Steps\<close>

record execution_step =
  es_index :: nat
  es_pool_address :: bytes
  es_token_in :: bytes
  es_token_out :: bytes
  es_amount_in :: int
  es_amount_out :: int
  es_quote_sha256 :: string

definition ExecutionStep_to_json :: "execution_step \<Rightarrow> json" where
  "ExecutionStep_to_json self = JObj
    [(''index'', JStr (str_of_int (int (es_index self)))),
     (''pool_address'', JStr (to_hex_data (es_pool_address self))),
     (''token_in'', JStr (to_hex_data (es_token_in self))),
     (''token_out'', JStr (to_hex_data (es_token_out self))),
     (''amount_in'', JStr (str_of_int (es_amount_in self))),
     (''amount_out'', JStr (str_of_int (es_amount_out self))),
     (''quote_sha256'', JStr (es_quote_sha256 self))]"

definition ExecutionStep_post_init :: "execution_step \<Rightarrow> execution_step result" where
  "ExecutionStep_post_init self =
    (if \<not> es_index self < MAX_EXECUTION_STEPS
     then Inl (ValueError ''execution-step index is outside the governed range'')
     else
     rbind (rall (\<lambda>(name, v). require_address name v)
       [(''pool_address'', es_pool_address self), (''token_in'', es_token_in self),
        (''token_out'', es_token_out self)]) (\<lambda>_.
     if es_token_in self = es_token_out self
     then Inl (ValueError ''execution-step tokens must be distinct'')
     else
     rbind (require_uint ''amount_in'' (es_amount_in self) False) (\<lambda>_.
     rbind (require_uint ''amount_out'' (es_amount_out self) False) (\<lambda>_.
     rbind (require_sha256 ''quote_sha256'' (es_quote_sha256 self)) (\<lambda>_.
     rbind (canonical_json_bytes (ExecutionStep_to_json self)) (\<lambda>_. Inr self))))))"

definition ExecutionStep_from_quote :: "nat \<Rightarrow> pool_swap_quote \<Rightarrow> execution_step result" where
  "ExecutionStep_from_quote index quote = ExecutionStep_post_init
    \<lparr>es_index = index, es_pool_address = q_pool_address quote, es_token_in = q_token_in quote,
     es_token_out = q_token_out quote, es_amount_in = q_amount_in quote,
     es_amount_out = q_amount_out quote, es_quote_sha256 = q_digest quote\<rparr>"

definition es_digest :: "execution_step \<Rightarrow> string" where
  "es_digest self = json_sha256 (ExecutionStep_to_json self)"

subsection \<open>Plans\<close>

record execution_plan =
  pl_opportunity :: opportunity
  pl_funding :: funding_plan
  pl_created_at_unix_ms :: int
  pl_base_asset :: asset_id
  pl_steps :: "execution_step list"
  pl_plan_id :: string

definition plan_gross_profit :: "execution_plan \<Rightarrow> int" where
  "plan_gross_profit self = op_gross_profit (pl_opportunity self)"

definition residual_before_external_costs :: "execution_plan \<Rightarrow> int" where
  "residual_before_external_costs self = plan_gross_profit self - fu_fee (pl_funding self)"

definition AtomicExecutionPlan_to_json :: "execution_plan \<Rightarrow> json result" where
  "AtomicExecutionPlan_to_json self = jobj
    [(''schema'', jtext EXECUTION_PLAN_SCHEMA),
     (''plan_id'', jtext (pl_plan_id self)),
     (''opportunity_id'', jtext (op_opportunity_id (pl_opportunity self))),
     (''opportunity_sha256'', jstr (op_digest (pl_opportunity self))),
     (''state_reference'', state_reference_json (op_universe (pl_opportunity self))),
     (''base_asset'', Inr (AssetId_to_json (pl_base_asset self))),
     (''funding'', Inr (FundingPlan_to_json (pl_funding self))),
     (''funding_sha256'', jtext (fu_digest (pl_funding self))),
     (''steps'', Inr (JArr (map ExecutionStep_to_json (pl_steps self)))),
     (''step_sha256'', Inr (JArr (map (\<lambda>s. JStr (es_digest s)) (pl_steps self)))),
     (''gross_profit'', jint (plan_gross_profit self)),
     (''residual_before_external_costs'', jint (residual_before_external_costs self)),
     (''calldata_authority'', jtext ''none''),
     (''signing_authority'', jtext ''none''),
     (''execution_eligible'', jbool False),
     (''created_at_unix_ms'', jint (pl_created_at_unix_ms self))]"

definition plan_identity :: "execution_plan \<Rightarrow> json result" where
  "plan_identity self = jobj
    [(''schema'', jtext EXECUTION_PLAN_SCHEMA),
     (''opportunity_sha256'', jstr (op_digest (pl_opportunity self))),
     (''funding_sha256'', jtext (fu_digest (pl_funding self))),
     (''base_asset_sha256'', jtext (AssetId_digest (pl_base_asset self))),
     (''step_sha256'', Inr (JArr (map (\<lambda>s. JStr (es_digest s)) (pl_steps self)))),
     (''execution_authority'', jtext ''none'')]"

definition AtomicExecutionPlan_post_init :: "execution_plan \<Rightarrow> execution_plan result" where
  "AtomicExecutionPlan_post_init self =
    (let opportunity = pl_opportunity self; funding = pl_funding self in
     rbind (require_time ''created_at_unix_ms'' (pl_created_at_unix_ms self)) (\<lambda>_.
     if pl_created_at_unix_ms self < op_created_at_unix_ms opportunity
     then Inl (ValueError ''execution plan cannot precede its F3 opportunity'')
     else
     rbind (funding_is_valid_at funding (pl_created_at_unix_ms self)) (\<lambda>valid.
     if \<not> valid then Inl (ValueError ''funding plan is not valid at execution-plan creation time'')
     else
     rbind (AssetId_erc20 (pu_chain (op_universe opportunity)) (rt_base_token (op_route opportunity))) (\<lambda>base_asset.
     if fu_asset funding \<noteq> base_asset
     then Inl (ValueError ''funding asset does not match the exact route base asset'')
     else if fu_principal funding \<noteq> capital_at_risk opportunity
     then Inl (ValueError ''funding principal does not match exact F3 capital at risk'')
     else
     rbind (rmap (\<lambda>(index, quote). ExecutionStep_from_quote index quote)
       (enumerate 0 (rq_legs (op_route_quote opportunity)))) (\<lambda>steps.
     if \<not> (2 \<le> length steps \<and> length steps \<le> MAX_EXECUTION_STEPS)
     then Inl (ValueError ''execution-plan step count is outside the governed range'')
     else if es_amount_in (hd steps) \<noteq> fu_principal funding
     then Inl (ValueError ''first execution step does not consume the exact principal'')
     else if list_ex (\<lambda>(previous, current).
         es_token_out previous \<noteq> es_token_in current \<or> es_amount_out previous \<noteq> es_amount_in current)
       (neighbours steps)
     then Inl (ValueError ''execution-plan token or amount flow is disconnected'')
     else if es_token_out (last steps) \<noteq> es_token_in (hd steps)
     then Inl (ValueError ''execution plan does not return to its base token'')
     else if es_amount_out (last steps) \<noteq> rq_amount_out (op_route_quote opportunity)
     then Inl (ValueError ''execution plan output does not match exact F3 route output'')
     else
     let self = self\<lparr>pl_base_asset := base_asset, pl_steps := steps\<rparr> in
     rbind (jsha (plan_identity self)) (\<lambda>digest.
     let self = self\<lparr>pl_plan_id := ''atomic-plan-'' @ digest\<rparr>
     in jchecked (AtomicExecutionPlan_to_json self) self))))))"

definition pl_digest :: "execution_plan \<Rightarrow> string result" where
  "pl_digest self = jsha (AtomicExecutionPlan_to_json self)"

end
