(* ===== verification/Context_Evidence.thy ===== *)
theory Context_Evidence
  imports Assets Risk Evidence Json_Objects
begin

text \<open>
  \<open>src/aladdin_mev_engine/context_evidence.py\<close>: recorded chain health and the snapshot of the
  risk ledger an execution is judged by. Computed fields (\<open>field(init=False)\<close>) are fields of the
  record that \<open>X_post_init\<close> sets, whatever they were.
\<close>

definition CHAIN_HEALTH_EVIDENCE_SCHEMA :: string where
  "CHAIN_HEALTH_EVIDENCE_SCHEMA = ''aladdin-mev-chain-health-evidence/v1''"
definition RISK_BUDGET_EVIDENCE_SCHEMA :: string where
  "RISK_BUDGET_EVIDENCE_SCHEMA = ''aladdin-mev-risk-budget-evidence/v1''"

definition require_signed_uint :: "string \<Rightarrow> int \<Rightarrow> unit result" where
  "require_signed_uint name v =
    (if \<not> (- MAX_UINT256 \<le> v \<and> v \<le> MAX_UINT256)
     then Inl (ValueError (name @ '' must be a signed 256-bit exact integer'')) else Inr ())"

definition context_checked_sum :: "int list \<Rightarrow> string \<Rightarrow> int result" where
  "context_checked_sum values name =
    rfold (\<lambda>total value.
      rbind (require_uint (name @ '' component'') value False) (\<lambda>_.
      if MAX_UINT256 - total < value then Inl (ValueError (name @ '' exceeds uint256''))
      else Inr (total + value))) 0 values"

definition RiskLimits_fields :: "risk_limits \<Rightarrow> (string \<times> int) list" where
  "RiskLimits_fields limits =
    [(''maximum_daily_loss'', maximum_daily_loss limits),
     (''maximum_single_execution_cost'', maximum_single_execution_cost limits),
     (''maximum_pending_execution_cost'', maximum_pending_execution_cost limits),
     (''maximum_concurrent_candidates'', maximum_concurrent_candidates limits),
     (''maximum_notional'', maximum_notional limits)]"

definition limits_to_json :: "risk_limits \<Rightarrow> json" where
  "limits_to_json limits = JObj (map (\<lambda>(name, v). (name, JStr (str_of_int v))) (RiskLimits_fields limits))"

subsection \<open>Chain health\<close>

record chain_health_evidence =
  ch_chain :: chain
  ch_health :: chain_health
  ch_observed_at_unix_ms :: int
  ch_valid_until_unix_ms :: int
  ch_source_sha256 :: string
  ch_evidence_id :: string

definition ChainHealthEvidence_to_json :: "chain_health_evidence \<Rightarrow> json" where
  "ChainHealthEvidence_to_json self = JObj
    [(''schema'', JStr CHAIN_HEALTH_EVIDENCE_SCHEMA),
     (''evidence_id'', JStr (ch_evidence_id self)),
     (''chain'', JStr (chain_value (ch_chain self))),
     (''health'', JStr (chain_health_value (ch_health self))),
     (''observed_at_unix_ms'', JStr (str_of_int (ch_observed_at_unix_ms self))),
     (''valid_until_unix_ms'', JStr (str_of_int (ch_valid_until_unix_ms self))),
     (''source_sha256'', JStr (ch_source_sha256 self)),
     (''authority'', JStr ''recorded-chain-health-shadow-context-only'')]"

definition ChainHealthEvidence_post_init :: "chain_health_evidence \<Rightarrow> chain_health_evidence result" where
  "ChainHealthEvidence_post_init self =
    rbind (require_time ''observed_at_unix_ms'' (ch_observed_at_unix_ms self)) (\<lambda>_.
    rbind (require_time ''valid_until_unix_ms'' (ch_valid_until_unix_ms self)) (\<lambda>_.
    if ch_valid_until_unix_ms self < ch_observed_at_unix_ms self
    then Inl (ValueError ''chain-health validity cannot precede observation'')
    else
    rbind (require_sha256 ''source_sha256'' (ch_source_sha256 self)) (\<lambda>_.
    rbind (canonical_sha256 (JObj
      [(''schema'', JStr CHAIN_HEALTH_EVIDENCE_SCHEMA),
       (''chain'', JStr (chain_value (ch_chain self))),
       (''health'', JStr (chain_health_value (ch_health self))),
       (''observed_at_unix_ms'', JStr (str_of_int (ch_observed_at_unix_ms self))),
       (''valid_until_unix_ms'', JStr (str_of_int (ch_valid_until_unix_ms self))),
       (''source_sha256'', JStr (ch_source_sha256 self)),
       (''authority'', JStr ''recorded-chain-health-shadow-context-only'')])) (\<lambda>digest.
    let self = self\<lparr>ch_evidence_id := ''chain-health-'' @ digest\<rparr>
    in jchecked (Inr (ChainHealthEvidence_to_json self)) self))))"

definition chain_health_is_valid_at :: "chain_health_evidence \<Rightarrow> int \<Rightarrow> bool result" where
  "chain_health_is_valid_at self at_unix_ms =
    rbind (require_time ''at_unix_ms'' at_unix_ms) (\<lambda>_.
    Inr (ch_observed_at_unix_ms self \<le> at_unix_ms \<and> at_unix_ms \<le> ch_valid_until_unix_ms self))"

definition ch_digest :: "chain_health_evidence \<Rightarrow> string" where
  "ch_digest self = json_sha256 (ChainHealthEvidence_to_json self)"

subsection \<open>Risk budget\<close>

record risk_budget_evidence =
  rb_risk_policy_id :: string
  rb_execution_plan_sha256 :: string
  rb_limits :: risk_limits
  rb_realized_net_profit :: int
  rb_reserved_execution_cost :: int
  rb_concurrent_candidates :: int
  rb_requested_execution_cost :: int
  rb_requested_notional :: int
  rb_observed_at_unix_ms :: int
  rb_valid_until_unix_ms :: int
  rb_source_sha256 :: string
  rb_allowed :: bool
  rb_reasons :: "string list"
  rb_evidence_id :: string

definition rb_realized_loss :: "risk_budget_evidence \<Rightarrow> int" where
  "rb_realized_loss self = max (- rb_realized_net_profit self) 0"

definition RiskBudgetEvidence_to_json :: "risk_budget_evidence \<Rightarrow> json" where
  "RiskBudgetEvidence_to_json self = JObj
    [(''schema'', JStr RISK_BUDGET_EVIDENCE_SCHEMA),
     (''evidence_id'', JStr (rb_evidence_id self)),
     (''risk_policy_id'', JStr (rb_risk_policy_id self)),
     (''execution_plan_sha256'', JStr (rb_execution_plan_sha256 self)),
     (''limits'', limits_to_json (rb_limits self)),
     (''realized_net_profit'', JStr (str_of_int (rb_realized_net_profit self))),
     (''realized_loss'', JStr (str_of_int (rb_realized_loss self))),
     (''reserved_execution_cost'', JStr (str_of_int (rb_reserved_execution_cost self))),
     (''concurrent_candidates'', JStr (str_of_int (rb_concurrent_candidates self))),
     (''requested_execution_cost'', JStr (str_of_int (rb_requested_execution_cost self))),
     (''requested_notional'', JStr (str_of_int (rb_requested_notional self))),
     (''allowed'', JBool (rb_allowed self)),
     (''reasons'', JArr (map JStr (rb_reasons self))),
     (''observed_at_unix_ms'', JStr (str_of_int (rb_observed_at_unix_ms self))),
     (''valid_until_unix_ms'', JStr (str_of_int (rb_valid_until_unix_ms self))),
     (''source_sha256'', JStr (rb_source_sha256 self)),
     (''authority'', JStr ''recorded-risk-budget-snapshot-shadow-only'')]"

text \<open>The dictionary \<open>identity\<close> of the constructor.\<close>

definition risk_budget_identity :: "risk_budget_evidence \<Rightarrow> json" where
  "risk_budget_identity self = JObj
    [(''schema'', JStr RISK_BUDGET_EVIDENCE_SCHEMA),
     (''risk_policy_id'', JStr (rb_risk_policy_id self)),
     (''execution_plan_sha256'', JStr (rb_execution_plan_sha256 self)),
     (''limits'', limits_to_json (rb_limits self)),
     (''realized_net_profit'', JStr (str_of_int (rb_realized_net_profit self))),
     (''reserved_execution_cost'', JStr (str_of_int (rb_reserved_execution_cost self))),
     (''concurrent_candidates'', JStr (str_of_int (rb_concurrent_candidates self))),
     (''requested_execution_cost'', JStr (str_of_int (rb_requested_execution_cost self))),
     (''requested_notional'', JStr (str_of_int (rb_requested_notional self))),
     (''allowed'', JBool (rb_allowed self)),
     (''reasons'', JArr (map JStr (rb_reasons self))),
     (''observed_at_unix_ms'', JStr (str_of_int (rb_observed_at_unix_ms self))),
     (''valid_until_unix_ms'', JStr (str_of_int (rb_valid_until_unix_ms self))),
     (''source_sha256'', JStr (rb_source_sha256 self)),
     (''authority'', JStr ''recorded-risk-budget-snapshot-shadow-only'')]"

text \<open>The three checked sums and the reasons they and the limits give.\<close>

definition risk_budget_reasons :: "risk_budget_evidence \<Rightarrow> string list result" where
  "risk_budget_reasons self =
    rbind (context_checked_sum [rb_reserved_execution_cost self, rb_requested_execution_cost self]
      ''pending execution cost'') (\<lambda>pending_execution_cost.
    rbind (context_checked_sum [rb_realized_loss self, rb_reserved_execution_cost self, rb_requested_execution_cost self]
      ''daily loss exposure'') (\<lambda>daily_loss_exposure.
    rbind (context_checked_sum [rb_concurrent_candidates self, 1] ''concurrent candidate count'') (\<lambda>concurrent_after_request.
    let limits = rb_limits self in
    Inr ((if maximum_single_execution_cost limits < rb_requested_execution_cost self
          then [''single-execution-cost-limit''] else [])
       @ (if maximum_pending_execution_cost limits < pending_execution_cost
          then [''pending-execution-cost-limit''] else [])
       @ (if maximum_daily_loss limits < daily_loss_exposure then [''daily-loss-limit''] else [])
       @ (if maximum_concurrent_candidates limits < concurrent_after_request
          then [''concurrent-candidate-limit''] else [])
       @ (if maximum_notional limits < rb_requested_notional self then [''notional-limit''] else [])))))"

definition RiskBudgetEvidence_post_init :: "risk_budget_evidence \<Rightarrow> risk_budget_evidence result" where
  "RiskBudgetEvidence_post_init self =
    rbind (require_bounded_text ''risk_policy_id'' (rb_risk_policy_id self) 128) (\<lambda>_.
    rbind (require_sha256 ''execution_plan_sha256'' (rb_execution_plan_sha256 self)) (\<lambda>_.
    rbind (rall (\<lambda>(name, v). require_uint name v False) (RiskLimits_fields (rb_limits self))) (\<lambda>_.
    rbind (require_signed_uint ''realized_net_profit'' (rb_realized_net_profit self)) (\<lambda>_.
    rbind (require_uint ''reserved_execution_cost'' (rb_reserved_execution_cost self) False) (\<lambda>_.
    rbind (require_uint ''concurrent_candidates'' (rb_concurrent_candidates self) False) (\<lambda>_.
    rbind (require_uint ''requested_execution_cost'' (rb_requested_execution_cost self) False) (\<lambda>_.
    rbind (require_uint ''requested_notional'' (rb_requested_notional self) False) (\<lambda>_.
    rbind (require_time ''observed_at_unix_ms'' (rb_observed_at_unix_ms self)) (\<lambda>_.
    rbind (require_time ''valid_until_unix_ms'' (rb_valid_until_unix_ms self)) (\<lambda>_.
    if rb_valid_until_unix_ms self < rb_observed_at_unix_ms self
    then Inl (ValueError ''risk-budget validity cannot precede observation'')
    else
    rbind (require_sha256 ''source_sha256'' (rb_source_sha256 self)) (\<lambda>_.
    rbind (risk_budget_reasons self) (\<lambda>reasons.
    let self = self\<lparr>rb_allowed := (reasons = []), rb_reasons := reasons\<rparr> in
    rbind (canonical_sha256 (risk_budget_identity self)) (\<lambda>digest.
    let self = self\<lparr>rb_evidence_id := ''risk-budget-'' @ digest\<rparr>
    in jchecked (Inr (RiskBudgetEvidence_to_json self)) self)))))))))))))"

definition RiskBudgetEvidence_capture ::
  "string \<Rightarrow> string \<Rightarrow> risk_ledger \<Rightarrow> int \<Rightarrow> int \<Rightarrow> int \<Rightarrow> int \<Rightarrow> string \<Rightarrow> risk_budget_evidence result" where
  "RiskBudgetEvidence_capture risk_policy_id execution_plan_sha256 ledger requested_execution_cost
      requested_notional observed_at_unix_ms valid_until_unix_ms source_sha256 =
    RiskBudgetEvidence_post_init
      \<lparr>rb_risk_policy_id = risk_policy_id, rb_execution_plan_sha256 = execution_plan_sha256,
       rb_limits = rl_limits ledger, rb_realized_net_profit = rl_realized_net_profit ledger,
       rb_reserved_execution_cost = reserved_execution_cost ledger,
       rb_concurrent_candidates = concurrent_candidates ledger,
       rb_requested_execution_cost = requested_execution_cost, rb_requested_notional = requested_notional,
       rb_observed_at_unix_ms = observed_at_unix_ms, rb_valid_until_unix_ms = valid_until_unix_ms,
       rb_source_sha256 = source_sha256, rb_allowed = False, rb_reasons = [], rb_evidence_id = []\<rparr>"

definition risk_budget_is_valid_at :: "risk_budget_evidence \<Rightarrow> int \<Rightarrow> bool result" where
  "risk_budget_is_valid_at self at_unix_ms =
    rbind (require_time ''at_unix_ms'' at_unix_ms) (\<lambda>_.
    Inr (rb_observed_at_unix_ms self \<le> at_unix_ms \<and> at_unix_ms \<le> rb_valid_until_unix_ms self))"

definition rb_digest :: "risk_budget_evidence \<Rightarrow> string" where
  "rb_digest self = json_sha256 (RiskBudgetEvidence_to_json self)"

subsection \<open>Agreement with the ledger\<close>

lemma context_checked_sum_Inr:
  "context_checked_sum xs name = Inr s \<Longrightarrow>
    s = sum_list xs \<and> list_all (\<lambda>v. 0 \<le> v \<and> v \<le> MAX_UINT256) xs \<and> s \<le> MAX_UINT256"
proof -
  have "rfold (\<lambda>total value.
      rbind (require_uint (name @ '' component'') value False) (\<lambda>_.
      if MAX_UINT256 - total < value then Inl (ValueError (name @ '' exceeds uint256''))
      else Inr (total + value))) t xs = Inr s \<Longrightarrow> t \<le> MAX_UINT256 \<Longrightarrow>
    s = t + sum_list xs \<and> list_all (\<lambda>v. 0 \<le> v \<and> v \<le> MAX_UINT256) xs \<and> s \<le> MAX_UINT256" for t
  proof (induction xs arbitrary: t)
    case Nil
    then show ?case by simp
  next
    case (Cons v vs)
    have rest: "0 \<le> v" "v \<le> MAX_UINT256" "t + v \<le> MAX_UINT256" and
      "rfold (\<lambda>total value.
        rbind (require_uint (name @ '' component'') value False) (\<lambda>_.
        if MAX_UINT256 - total < value then Inl (ValueError (name @ '' exceeds uint256''))
        else Inr (total + value))) (t + v) vs = Inr s"
      using Cons(2) by (auto split: if_splits)
    with Cons(1) [of "t + v"] show ?case by simp
  qed
  from this [of 0] show "context_checked_sum xs name = Inr s \<Longrightarrow> ?thesis"
    by (auto simp: context_checked_sum_def MAX_UINT256_def)
qed

text \<open>A captured budget decides as the ledger it was captured from would.\<close>

lemma capture_agrees:
  assumes "RiskBudgetEvidence_capture policy plan ledger cost notional t0 t1 src = Inr b"
  shows "\<exists>a. RiskLedger_authorize ledger cost notional = Inr a
    \<and> rb_allowed b = ra_allowed a \<and> rb_reasons b = ra_reasons a"
proof -
  let ?b = "\<lparr>rb_risk_policy_id = policy, rb_execution_plan_sha256 = plan,
       rb_limits = rl_limits ledger, rb_realized_net_profit = rl_realized_net_profit ledger,
       rb_reserved_execution_cost = reserved_execution_cost ledger,
       rb_concurrent_candidates = concurrent_candidates ledger,
       rb_requested_execution_cost = cost, rb_requested_notional = notional,
       rb_observed_at_unix_ms = t0, rb_valid_until_unix_ms = t1,
       rb_source_sha256 = src, rb_allowed = False, rb_reasons = [], rb_evidence_id = []\<rparr>"
  from assms obtain reasons where r: "risk_budget_reasons ?b = Inr reasons"
    and b: "rb_allowed b = (reasons = [])" "rb_reasons b = reasons" and nn: "0 \<le> cost" "0 \<le> notional"
    by (auto simp: RiskBudgetEvidence_capture_def RiskBudgetEvidence_post_init_def Let_def jchecked_Inr
        simp del: rall.simps split: if_splits)
  from r obtain p d c where sums:
    "context_checked_sum [reserved_execution_cost ledger, cost] ''pending execution cost'' = Inr p"
    "context_checked_sum [rb_realized_loss ?b, reserved_execution_cost ledger, cost] ''daily loss exposure'' = Inr d"
    "context_checked_sum [concurrent_candidates ledger, 1] ''concurrent candidate count'' = Inr c"
    by (auto simp: risk_budget_reasons_def)
  have "p = reserved_execution_cost ledger + cost"
    "d = realized_loss ledger + reserved_execution_cost ledger + cost" "c = concurrent_candidates ledger + 1"
    using sums [THEN context_checked_sum_Inr] by (simp_all add: rb_realized_loss_def realized_loss_def)
  with r sums nn show ?thesis
    unfolding b by (auto simp: risk_budget_reasons_def RiskLedger_authorize_def require_non_negative_int_def Let_def)
qed

end
