(* ===== verification/Cost_Evidence.thy ===== *)
theory Cost_Evidence
  imports Execution_Plan Context_Evidence Pydict
begin

text \<open>
  \<open>src/aladdin_mev_engine/cost_evidence.py\<close>: upper bounds of every cost of a plan, converted into
  its base asset by recorded rates, and the net-profit evidence that binds plan, costs,
  simulations, chain health and risk budget to one decision.
\<close>

definition FEE_ENVELOPE_SCHEMA :: string where "FEE_ENVELOPE_SCHEMA = ''aladdin-mev-eip1559-cost-envelope/v1''"
definition RESERVE_COMPONENT_SCHEMA :: string where "RESERVE_COMPONENT_SCHEMA = ''aladdin-mev-reserve-cost-component/v1''"
definition ROUTE_SIMULATION_SCHEMA :: string where "ROUTE_SIMULATION_SCHEMA = ''aladdin-mev-route-simulation-result/v1''"
definition COST_ENVELOPE_SCHEMA :: string where "COST_ENVELOPE_SCHEMA = ''aladdin-mev-execution-cost-envelope/v1''"
definition NET_EVIDENCE_SCHEMA :: string where "NET_EVIDENCE_SCHEMA = ''aladdin-mev-conservative-net-profit-evidence/v1''"
definition NET_COST_COMPLETENESS :: string where "NET_COST_COMPLETENESS = ''complete-recorded-upper-bound-no-inclusion-guarantee''"
definition NET_AUTHORITY :: string where "NET_AUTHORITY = ''offline-recorded-cost-complete-shadow-net-evidence''"
definition MAX_SIMULATIONS :: nat where "MAX_SIMULATIONS = 8"

datatype reserve_category = SLIPPAGE_RESERVE | STALE_STATE_RESERVE | FAILURE_RISK_RESERVE | INFRASTRUCTURE_COST | INVENTORY_HEDGE_COST

fun reserve_category_value :: "reserve_category \<Rightarrow> string" where
  "reserve_category_value SLIPPAGE_RESERVE = ''slippage_reserve''"
| "reserve_category_value STALE_STATE_RESERVE = ''stale_state_reserve''"
| "reserve_category_value FAILURE_RISK_RESERVE = ''failure_risk_reserve''"
| "reserve_category_value INFRASTRUCTURE_COST = ''infrastructure_cost''"
| "reserve_category_value INVENTORY_HEDGE_COST = ''inventory_hedge_cost''"

definition all_reserve_categories :: "reserve_category list" where
  "all_reserve_categories =
    [SLIPPAGE_RESERVE, STALE_STATE_RESERVE, FAILURE_RISK_RESERVE, INFRASTRUCTURE_COST, INVENTORY_HEDGE_COST]"

definition u256_mul :: "int \<Rightarrow> int \<Rightarrow> string \<Rightarrow> int result" where
  "u256_mul left right name =
    rbind (require_uint (name @ '' left'') left False) (\<lambda>_.
    rbind (require_uint (name @ '' right'') right False) (\<lambda>_.
    let value = left * right in
    if MAX_UINT256 < value
    then Inl (ValueError (name @ '' exceeds uint256''))
    else
    Inr value))"

definition cost_checked_sum :: "int list \<Rightarrow> string \<Rightarrow> int result" where
  "cost_checked_sum values name =
    rfold (\<lambda>total value.
      rbind (require_uint (name @ '' component'') value False) (\<lambda>_.
      if MAX_UINT256 < total + value then Inl (ValueError (name @ '' exceeds uint256''))
      else Inr (total + value))) 0 values"

subsection \<open>Fee envelopes\<close>

record fee_envelope =
  fe_chain :: chain
  fe_native_asset :: asset_id
  fe_gas_units_upper_bound :: int
  fe_max_fee_per_gas :: int
  fe_max_priority_fee_per_gas :: int
  fe_l1_data_fee_upper_bound :: int
  fe_operator_fee_upper_bound :: int
  fe_direct_inclusion_payment_upper_bound :: int
  fe_observed_at_unix_ms :: int
  fe_valid_until_unix_ms :: int
  fe_source_sha256 :: string

definition fe_execution_gas_cost_upper_bound :: "fee_envelope \<Rightarrow> int result" where
  "fe_execution_gas_cost_upper_bound self =
    u256_mul (fe_gas_units_upper_bound self) (fe_max_fee_per_gas self) ''execution gas cost''"

definition fe_total_native_upper_bound :: "fee_envelope \<Rightarrow> int result" where
  "fe_total_native_upper_bound self =
    rbind (fe_execution_gas_cost_upper_bound self) (\<lambda>execution_gas_cost_upper_bound.
    cost_checked_sum [execution_gas_cost_upper_bound, fe_l1_data_fee_upper_bound self,
        fe_operator_fee_upper_bound self,
        fe_direct_inclusion_payment_upper_bound self] ''total native fee upper bound'')"

definition Eip1559CostEnvelope_to_json :: "fee_envelope \<Rightarrow> json result" where
  "Eip1559CostEnvelope_to_json self =
    jobj
    [(''schema'', jtext FEE_ENVELOPE_SCHEMA),
     (''chain'', jtext (chain_value (fe_chain self))),
     (''native_asset'', Inr (AssetId_to_json (fe_native_asset self))),
     (''gas_units_upper_bound'', jint (fe_gas_units_upper_bound self)),
     (''max_fee_per_gas'', jint (fe_max_fee_per_gas self)),
     (''max_priority_fee_per_gas'', jint (fe_max_priority_fee_per_gas self)),
     (''execution_gas_cost_upper_bound'', jdec (fe_execution_gas_cost_upper_bound self)),
     (''l1_data_fee_upper_bound'', jint (fe_l1_data_fee_upper_bound self)),
     (''operator_fee_upper_bound'', jint (fe_operator_fee_upper_bound self)),
     (''direct_inclusion_payment_upper_bound'', jint (fe_direct_inclusion_payment_upper_bound self)),
     (''total_native_upper_bound'', jdec (fe_total_native_upper_bound self)),
     (''priority_fee_semantics'', jtext ''included-inside-max-fee-per-gas-not-added-again''),
     (''operator_fee_semantics'', jtext ''separate-recorded-protocol-fee-upper-bound-not-in-eip1559-gas''),
     (''direct_payment_semantics'', jtext ''separate-conditional-payment-not-priority-fee''),
     (''observed_at_unix_ms'', jint (fe_observed_at_unix_ms self)),
     (''valid_until_unix_ms'', jint (fe_valid_until_unix_ms self)),
     (''source_sha256'', jtext (fe_source_sha256 self))]"

definition fe_digest :: "fee_envelope \<Rightarrow> string result" where
  "fe_digest self =
    jsha (Eip1559CostEnvelope_to_json self)"

definition Eip1559CostEnvelope_post_init :: "fee_envelope \<Rightarrow> fee_envelope result" where
  "Eip1559CostEnvelope_post_init self =
    (if fe_chain self \<notin> {ETHEREUM, BASE}
     then Inl (ValueError ''F4 EIP-1559 cost envelope supports Ethereum and Base only'')
     else if ai_chain (fe_native_asset self) \<noteq> fe_chain self
         \<or> ai_kind (fe_native_asset self) \<noteq> NATIVE
     then Inl (ValueError ''native_asset does not match the exact fee-envelope chain'')
     else
     rbind (require_uint ''gas_units_upper_bound'' (fe_gas_units_upper_bound self) True) (\<lambda>_.
     rbind (require_uint ''max_fee_per_gas'' (fe_max_fee_per_gas self) True) (\<lambda>_.
     rbind (require_uint ''max_priority_fee_per_gas'' (fe_max_priority_fee_per_gas self) False) (\<lambda>_.
     rbind (require_uint ''l1_data_fee_upper_bound'' (fe_l1_data_fee_upper_bound self) False) (\<lambda>_.
     rbind (require_uint ''operator_fee_upper_bound'' (fe_operator_fee_upper_bound self) False) (\<lambda>_.
     rbind (require_uint ''direct_inclusion_payment_upper_bound'' (fe_direct_inclusion_payment_upper_bound
         self) False) (\<lambda>_.
     if fe_max_fee_per_gas self < fe_max_priority_fee_per_gas self
     then Inl (ValueError ''max priority fee cannot exceed max fee per gas'')
     else if fe_chain self = ETHEREUM \<and> fe_l1_data_fee_upper_bound self \<noteq> 0
     then Inl (ValueError ''Ethereum envelope cannot double-count an L1 data fee'')
     else if fe_chain self = ETHEREUM \<and> fe_operator_fee_upper_bound self \<noteq> 0
     then Inl (ValueError ''Ethereum envelope cannot record an OP Stack operator fee'')
     else
     rbind (require_time ''observed_at_unix_ms'' (fe_observed_at_unix_ms self)) (\<lambda>_.
     rbind (require_time ''valid_until_unix_ms'' (fe_valid_until_unix_ms self)) (\<lambda>_.
     if fe_valid_until_unix_ms self < fe_observed_at_unix_ms self
     then Inl (ValueError ''fee-envelope validity cannot precede observation'')
     else
     rbind (require_sha256 ''source_sha256'' (fe_source_sha256 self)) (\<lambda>_.
     rbind (fe_total_native_upper_bound self) (\<lambda>_.
     jchecked (Eip1559CostEnvelope_to_json self) self)))))))))))"

definition fe_is_valid_at :: "fee_envelope \<Rightarrow> int \<Rightarrow> bool result" where
  "fe_is_valid_at self at_unix_ms =
    rbind (require_time ''at_unix_ms'' at_unix_ms) (\<lambda>_.
    Inr (fe_observed_at_unix_ms self \<le> at_unix_ms \<and> at_unix_ms \<le> fe_valid_until_unix_ms self))"

subsection \<open>Reserve components\<close>

record reserve_component =
  rc_category :: reserve_category
  rc_amount :: asset_amount
  rc_observed_at_unix_ms :: int
  rc_valid_until_unix_ms :: int
  rc_source_sha256 :: string

definition ReserveCostComponent_to_json :: "reserve_component \<Rightarrow> json" where
  "ReserveCostComponent_to_json self =
    JObj
    [(''schema'', JStr RESERVE_COMPONENT_SCHEMA),
     (''category'', JStr (reserve_category_value (rc_category self))),
     (''amount'', AssetAmount_to_json (rc_amount self)),
     (''bound_semantics'', JStr ''conservative-upper-bound''),
     (''observed_at_unix_ms'', JStr (str_of_int (rc_observed_at_unix_ms self))),
     (''valid_until_unix_ms'', JStr (str_of_int (rc_valid_until_unix_ms self))),
     (''source_sha256'', JStr (rc_source_sha256 self))]"

definition rc_digest :: "reserve_component \<Rightarrow> string" where
  "rc_digest self =
    json_sha256 (ReserveCostComponent_to_json self)"

definition ReserveCostComponent_post_init :: "reserve_component \<Rightarrow> reserve_component result"
    where
  "ReserveCostComponent_post_init self =
    rbind (require_time ''observed_at_unix_ms'' (rc_observed_at_unix_ms self)) (\<lambda>_.
    rbind (require_time ''valid_until_unix_ms'' (rc_valid_until_unix_ms self)) (\<lambda>_.
    if rc_valid_until_unix_ms self < rc_observed_at_unix_ms self
    then Inl (ValueError ''reserve-component validity cannot precede observation'')
    else
    rbind (require_sha256 ''source_sha256'' (rc_source_sha256 self)) (\<lambda>_.
    jchecked (Inr (ReserveCostComponent_to_json self)) self)))"

definition rc_is_valid_at :: "reserve_component \<Rightarrow> int \<Rightarrow> bool result" where
  "rc_is_valid_at self at_unix_ms =
    rbind (require_time ''at_unix_ms'' at_unix_ms) (\<lambda>_.
    Inr (rc_observed_at_unix_ms self \<le> at_unix_ms \<and> at_unix_ms \<le> rc_valid_until_unix_ms self))"

subsection \<open>Route simulations\<close>

record route_simulation =
  rs_engine_id :: string
  rs_engine_implementation_sha256 :: string
  rs_environment_sha256 :: string
  rs_result_source_sha256 :: string
  rs_state_reference_sha256 :: string
  rs_success :: bool
  rs_opportunity_sha256 :: string
  rs_execution_plan_sha256 :: string
  rs_gas_units :: int
  rs_output_amount :: int
  rs_token_deltas_sha256 :: string
  rs_post_state_sha256 :: string
  rs_observed_at_unix_ms :: int
  rs_valid_until_unix_ms :: int
  rs_error_code :: "string option"

definition RouteSimulationResult_to_json :: "route_simulation \<Rightarrow> json" where
  "RouteSimulationResult_to_json self =
    JObj
    [(''schema'', JStr ROUTE_SIMULATION_SCHEMA),
     (''engine_id'', JStr (rs_engine_id self)),
     (''engine_implementation_sha256'', JStr (rs_engine_implementation_sha256 self)),
     (''environment_sha256'', JStr (rs_environment_sha256 self)),
     (''result_source_sha256'', JStr (rs_result_source_sha256 self)),
     (''state_reference_sha256'', JStr (rs_state_reference_sha256 self)),
     (''success'', JBool (rs_success self)),
     (''opportunity_sha256'', JStr (rs_opportunity_sha256 self)),
     (''execution_plan_sha256'', JStr (rs_execution_plan_sha256 self)),
     (''gas_units'', JStr (str_of_int (rs_gas_units self))),
     (''output_amount'', JStr (str_of_int (rs_output_amount self))),
     (''token_deltas_sha256'', JStr (rs_token_deltas_sha256 self)),
     (''post_state_sha256'', JStr (rs_post_state_sha256 self)),
     (''observed_at_unix_ms'', JStr (str_of_int (rs_observed_at_unix_ms self))),
     (''valid_until_unix_ms'', JStr (str_of_int (rs_valid_until_unix_ms self))),
     (''error_code'', optional_text (rs_error_code self))]"

definition rs_digest :: "route_simulation \<Rightarrow> string" where
  "rs_digest self =
    json_sha256 (RouteSimulationResult_to_json self)"

definition RouteSimulationResult_post_init :: "route_simulation \<Rightarrow> route_simulation result" where
  "RouteSimulationResult_post_init self =
    rbind (require_bounded_text ''engine_id'' (rs_engine_id self) 128) (\<lambda>_.
    rbind (require_sha256 ''engine_implementation_sha256'' (rs_engine_implementation_sha256 self))
        (\<lambda>_.
    rbind (require_sha256 ''environment_sha256'' (rs_environment_sha256 self)) (\<lambda>_.
    rbind (require_sha256 ''result_source_sha256'' (rs_result_source_sha256 self)) (\<lambda>_.
    rbind (require_sha256 ''state_reference_sha256'' (rs_state_reference_sha256 self)) (\<lambda>_.
    rbind (require_sha256 ''opportunity_sha256'' (rs_opportunity_sha256 self)) (\<lambda>_.
    rbind (require_sha256 ''execution_plan_sha256'' (rs_execution_plan_sha256 self)) (\<lambda>_.
    rbind (require_uint ''gas_units'' (rs_gas_units self) False) (\<lambda>_.
    rbind (require_uint ''output_amount'' (rs_output_amount self) False) (\<lambda>_.
    rbind (require_sha256 ''token_deltas_sha256'' (rs_token_deltas_sha256 self)) (\<lambda>_.
    rbind (require_sha256 ''post_state_sha256'' (rs_post_state_sha256 self)) (\<lambda>_.
    rbind (require_time ''observed_at_unix_ms'' (rs_observed_at_unix_ms self)) (\<lambda>_.
    rbind (require_time ''valid_until_unix_ms'' (rs_valid_until_unix_ms self)) (\<lambda>_.
    if rs_valid_until_unix_ms self < rs_observed_at_unix_ms self
    then Inl (ValueError ''simulation validity cannot precede observation'')
    else
    rbind (case rs_error_code self of
        None \<Rightarrow> Inr ()
      | Some code \<Rightarrow> require_bounded_text ''error_code'' code 128) (\<lambda>_.
    rbind (if rs_success self
      then if rs_error_code self \<noteq> None
        then Inl (ValueError ''successful route simulation cannot carry an error code'')
        else if rs_gas_units self = 0
        then Inl (ValueError ''successful route simulation requires positive gas units'')
        else
        Inr ()
      else if rs_error_code self = None
        then Inl (ValueError ''failed route simulation requires an error code'')
        else
        Inr ()) (\<lambda>_.
    jchecked (Inr (RouteSimulationResult_to_json self)) self)))))))))))))))"

definition rs_is_valid_at :: "route_simulation \<Rightarrow> int \<Rightarrow> bool result" where
  "rs_is_valid_at self at_unix_ms =
    rbind (require_time ''at_unix_ms'' at_unix_ms) (\<lambda>_.
    Inr (rs_observed_at_unix_ms self \<le> at_unix_ms \<and> at_unix_ms \<le> rs_valid_until_unix_ms self))"

definition dual_route_simulations_agree :: "route_simulation list \<Rightarrow> bool" where
  "dual_route_simulations_agree simulations =
    (if \<not> (2 \<le> length simulations \<and> length simulations \<le> MAX_SIMULATIONS) then False
     else if has_duplicate (map rs_engine_id simulations) then False
     else if has_duplicate (map rs_engine_implementation_sha256 simulations) then False
     else if has_duplicate (map rs_result_source_sha256 simulations) then False
     else if length (remdups (map rs_environment_sha256 simulations)) \<noteq> 1 then False
     else
     let reference = hd simulations in
     if \<not> rs_success reference then False
     else
     list_all (\<lambda>item. rs_success item
         \<and> rs_state_reference_sha256 item = rs_state_reference_sha256 reference
         \<and> rs_opportunity_sha256 item = rs_opportunity_sha256 reference
         \<and> rs_execution_plan_sha256 item = rs_execution_plan_sha256 reference
         \<and> rs_gas_units item = rs_gas_units reference
         \<and> rs_output_amount item = rs_output_amount reference
         \<and> rs_token_deltas_sha256 item = rs_token_deltas_sha256 reference
         \<and> rs_post_state_sha256 item = rs_post_state_sha256 reference
         \<and> rs_error_code item = rs_error_code reference) (tl simulations))"

subsection \<open>Cost envelopes\<close>

record cost_envelope =
  ce_plan :: execution_plan
  ce_fee_envelope :: fee_envelope
  ce_reserve_components :: "reserve_component list"
  ce_valuation_book :: valuation_book
  ce_created_at_unix_ms :: int
  ce_costs :: cost_breakdown
  ce_converted_components :: "(string \<times> int) list"
  ce_required_valuation_pairs :: "(asset_id \<times> asset_id) list"
  ce_valid_until_unix_ms :: int
  ce_envelope_id :: string

definition ce_required_valuation_pair_sha256 :: "cost_envelope \<Rightarrow> string list result" where
  "ce_required_valuation_pair_sha256 self =
    rmap (\<lambda>(asset_in,
        asset_out). valuation_pair_sha256 asset_in asset_out) (ce_required_valuation_pairs self)"

definition ExecutionCostEnvelope_to_json :: "cost_envelope \<Rightarrow> json result" where
  "ExecutionCostEnvelope_to_json self =
    jobj
    [(''schema'', jtext COST_ENVELOPE_SCHEMA),
     (''envelope_id'', jtext (ce_envelope_id self)),
     (''execution_plan_sha256'', jstr (pl_digest (ce_plan self))),
     (''base_asset'', Inr (AssetId_to_json (pl_base_asset (ce_plan self)))),
     (''fee_envelope'', Eip1559CostEnvelope_to_json (ce_fee_envelope self)),
     (''fee_envelope_sha256'', jstr (fe_digest (ce_fee_envelope self))),
     (''reserve_components'', Inr (JArr (map ReserveCostComponent_to_json (ce_reserve_components self)))),
     (''reserve_component_sha256'',
         Inr (JArr (map (\<lambda>item. JStr (rc_digest item)) (ce_reserve_components self)))),
     (''valuation_book'', ValuationBook_to_json (ce_valuation_book self)),
     (''valuation_book_sha256'', jstr (ValuationBook_digest (ce_valuation_book self))),
     (''required_valuation_pair_sha256'',
         rbind (ce_required_valuation_pair_sha256 self)
         (\<lambda>required_valuation_pair_sha256. Inr (JArr (map JStr required_valuation_pair_sha256)))),
     (''converted_costs'', Inr (JObj (map (\<lambda>(key, value). (key,
         JStr (str_of_int value))) (ce_converted_components self)))),
     (''cost_breakdown'', Inr (CostBreakdown_to_json (ce_costs self))),
     (''cost_completeness'', jtext NET_COST_COMPLETENESS),
     (''execution_eligible'', jbool False),
     (''created_at_unix_ms'', jint (ce_created_at_unix_ms self)),
     (''valid_until_unix_ms'', jint (ce_valid_until_unix_ms self))]"

definition ce_digest :: "cost_envelope \<Rightarrow> string result" where
  "ce_digest self =
    jsha (ExecutionCostEnvelope_to_json self)"

text \<open>
  The pairs the envelope needs rates for: the distinct assets other than the base, each against
  the base, in the order of the pair digests (a Python set has no order of its own).
\<close>

definition required_valuation_pairs :: "asset_id list \<Rightarrow> asset_id \<Rightarrow> (asset_id \<times> asset_id) list result" where
  "required_valuation_pairs cost_assets base =
    rsort_key (\<lambda>(asset_in, asset_out). valuation_pair_sha256 asset_in asset_out)
      (map (\<lambda>asset. (asset, base)) (remdups (filter (\<lambda>asset. asset \<noteq> base) cost_assets)))"

text \<open>The local function \<open>convert\<close> and the dictionary of converted costs in insertion order.\<close>

definition convert_cost :: "cost_envelope \<Rightarrow> asset_id \<Rightarrow> asset_id \<Rightarrow> int \<Rightarrow> int result" where
  "convert_cost self base asset amount =
    rbind (AssetAmount_post_init \<lparr>aa_asset = asset, aa_amount = amount\<rparr>) (\<lambda>value.
    rbind (book_convert_upper_bound (ce_valuation_book self) value base (ce_created_at_unix_ms self)) (\<lambda>converted.
    Inr (aa_amount converted)))"

definition converted_costs ::
  "cost_envelope \<Rightarrow> asset_id \<Rightarrow> asset_id \<Rightarrow> reserve_component list \<Rightarrow> (string, int) dict result" where
  "converted_costs self base native ordered =
    rbind (fe_execution_gas_cost_upper_bound (ce_fee_envelope self)) (\<lambda>gas_cost.
    rbind (convert_cost self base native gas_cost) (\<lambda>execution_gas_cost.
    rbind (convert_cost self base native (fe_l1_data_fee_upper_bound (ce_fee_envelope self))) (\<lambda>l1_data_fee.
    rbind (convert_cost self base native (fe_operator_fee_upper_bound (ce_fee_envelope self))) (\<lambda>operator_fee.
    rbind (convert_cost self base (fu_asset (pl_funding (ce_plan self))) (fu_fee (pl_funding (ce_plan self)))) (\<lambda>flash_loan_fee.
    rbind (convert_cost self base native (fe_direct_inclusion_payment_upper_bound (ce_fee_envelope self))) (\<lambda>inclusion_bid.
    rfold (\<lambda>values component.
        rbind (convert_cost self base (aa_asset (rc_amount component)) (aa_amount (rc_amount component))) (\<lambda>amount.
        Inr (dict_set (reserve_category_value (rc_category component)) amount values)))
      [(''execution_gas_cost'', execution_gas_cost), (''l1_data_fee'', l1_data_fee), (''operator_fee'', operator_fee),
       (''flash_loan_fee'', flash_loan_fee), (''inclusion_bid'', inclusion_bid)] ordered))))))"

text \<open>\<open>values[key]\<close>\<close>

definition dict_item :: "('k, 'v) dict \<Rightarrow> 'k \<Rightarrow> 'v result" where
  "dict_item d key = (case dict_get d key of None \<Rightarrow> Inl (RuntimeError ''KeyError'') | Some v \<Rightarrow> Inr v)"

definition breakdown_of :: "int \<Rightarrow> (string, int) dict \<Rightarrow> cost_breakdown result" where
  "breakdown_of gross_profit values =
    rbind (dict_item values ''execution_gas_cost'') (\<lambda>execution_gas_cost.
    rbind (dict_item values ''l1_data_fee'') (\<lambda>l1_data_fee.
    rbind (dict_item values ''operator_fee'') (\<lambda>operator_fee.
    rbind (dict_item values ''flash_loan_fee'') (\<lambda>flash_loan_fee.
    rbind (dict_item values ''inclusion_bid'') (\<lambda>inclusion_bid.
    rbind (dict_item values ''slippage_reserve'') (\<lambda>slippage_reserve.
    rbind (dict_item values ''stale_state_reserve'') (\<lambda>stale_state_reserve.
    rbind (dict_item values ''failure_risk_reserve'') (\<lambda>failure_risk_reserve.
    rbind (dict_item values ''infrastructure_cost'') (\<lambda>infrastructure_cost.
    rbind (dict_item values ''inventory_hedge_cost'') (\<lambda>inventory_hedge_cost.
    CostBreakdown_post_init
      \<lparr>cb_gross_profit = gross_profit, cb_execution_gas_cost = execution_gas_cost, cb_l1_data_fee = l1_data_fee,
       cb_operator_fee = operator_fee, cb_flash_loan_fee = flash_loan_fee, cb_inclusion_bid = inclusion_bid,
       cb_slippage_reserve = slippage_reserve, cb_stale_state_reserve = stale_state_reserve,
       cb_failure_risk_reserve = failure_risk_reserve, cb_infrastructure_cost = infrastructure_cost,
       cb_inventory_hedge_cost = inventory_hedge_cost\<rparr>))))))))))"

definition ExecutionCostEnvelope_post_init :: "cost_envelope \<Rightarrow> cost_envelope result" where
  "ExecutionCostEnvelope_post_init self =
    rbind (require_time ''created_at_unix_ms'' (ce_created_at_unix_ms self)) (\<lambda>_.
    if ce_created_at_unix_ms self < pl_created_at_unix_ms (ce_plan self)
    then Inl (ValueError ''cost envelope cannot precede its execution plan'')
    else if fe_chain (ce_fee_envelope self) \<noteq> pu_chain (op_universe (pl_opportunity (ce_plan self)))
    then Inl (ValueError ''fee envelope chain does not match the execution plan'')
    else
    rbind (funding_is_valid_at (pl_funding (ce_plan self)) (ce_created_at_unix_ms self))
        (\<lambda>is_valid_at.
    if \<not> is_valid_at
    then Inl (ValueError ''funding plan is not valid at cost-envelope creation time'')
    else
    rbind (fe_is_valid_at (ce_fee_envelope self) (ce_created_at_unix_ms self)) (\<lambda>is_valid_at1.
    if \<not> is_valid_at1
    then Inl (ValueError ''fee envelope is not valid at cost-envelope creation time'')
    else
    let ordered = sort_key
        (\<lambda>item. reserve_category_value (rc_category item)) (ce_reserve_components self) in
    let self = self\<lparr>ce_reserve_components := ordered\<rparr> in
    let categories = map rc_category ordered in
    if length categories \<noteq> length all_reserve_categories \<or> set categories \<noteq> set all_reserve_categories
    then Inl (ValueError ''reserve cost components must contain every category exactly once'')
    else
    rbind (rany (\<lambda>item. rbind (rc_is_valid_at item (ce_created_at_unix_ms self))
        (\<lambda>is_valid_at2. Inr (\<not> is_valid_at2))) ordered) (\<lambda>found.
    if found
    then Inl (ValueError ''reserve component is not valid at cost-envelope creation time'')
    else
    let base = pl_base_asset (ce_plan self) in
    let native = fe_native_asset (ce_fee_envelope self) in
    let cost_assets = native # fu_asset (pl_funding (ce_plan self)) # map (\<lambda>item. aa_asset (rc_amount item)) ordered in
    if list_ex (\<lambda>asset. ai_chain asset \<noteq> ai_chain base) cost_assets
    then Inl (ValueError ''cost component asset does not match the execution-plan chain'')
    else
    rbind (required_valuation_pairs cost_assets base) (\<lambda>required_pairs.
    rbind (require_exact_pairs (ce_valuation_book self) required_pairs (ce_created_at_unix_ms self)) (\<lambda>rates.
    let self = self\<lparr>ce_required_valuation_pairs := required_pairs\<rparr> in
    rbind (converted_costs self base native ordered) (\<lambda>values.
    rbind (cost_checked_sum (map snd values) ''converted execution cost'') (\<lambda>_.
    rbind (breakdown_of (plan_gross_profit (ce_plan self)) values) (\<lambda>costs.
    let converted = sort values in
    let valid_until = min_of
      (fu_valid_until_unix_ms (pl_funding (ce_plan self)) # fe_valid_until_unix_ms (ce_fee_envelope self)
       # map rc_valid_until_unix_ms ordered @ map vr_valid_until_unix_ms rates) in
    let self = self\<lparr>ce_costs := costs,
                        ce_converted_components := converted,
                        ce_valid_until_unix_ms := valid_until\<rparr> in
    rbind (jsha (jobj
        [(''schema'', jtext COST_ENVELOPE_SCHEMA),
         (''execution_plan_sha256'', jstr (pl_digest (ce_plan self))),
         (''fee_envelope_sha256'', jstr (fe_digest (ce_fee_envelope self))),
         (''reserve_component_sha256'', Inr (JArr (map (\<lambda>item. JStr (rc_digest item)) ordered))),
         (''valuation_book_sha256'', jstr (ValuationBook_digest (ce_valuation_book self))),
         (''required_valuation_pair_sha256'',
             rbind (ce_required_valuation_pair_sha256 self)
             (\<lambda>required_valuation_pair_sha256. Inr (JArr (map JStr
             required_valuation_pair_sha256)))),
         (''converted_costs'', Inr (JObj (map (\<lambda>(key, value). (key,
             JStr (str_of_int value))) converted))),
         (''valid_until_unix_ms'', jint valid_until),
         (''cost_completeness'', jtext NET_COST_COMPLETENESS)])) (\<lambda>digest.
    let self = self\<lparr>ce_envelope_id := ''execution-cost-'' @ digest\<rparr> in
    jchecked (ExecutionCostEnvelope_to_json self) self))))))))))"

fun is_type_error :: "py_error \<Rightarrow> bool" where
  "is_type_error (TypeError _) = True"
| "is_type_error _ = False"

definition ce_is_valid_at :: "cost_envelope \<Rightarrow> int \<Rightarrow> bool result" where
  "ce_is_valid_at self at_unix_ms =
    rbind (require_time ''at_unix_ms'' at_unix_ms) (\<lambda>_.
    if \<not> (ce_created_at_unix_ms self \<le> at_unix_ms
        \<and> at_unix_ms \<le> ce_valid_until_unix_ms self) then Inr False
    else
    rbind (funding_is_valid_at (pl_funding (ce_plan self)) at_unix_ms) (\<lambda>is_valid_at.
    if \<not> is_valid_at then Inr False
    else
    rbind (fe_is_valid_at (ce_fee_envelope self) at_unix_ms) (\<lambda>is_valid_at1.
    if \<not> is_valid_at1 then Inr False
    else
    rbind (rany (\<lambda>item. rbind (rc_is_valid_at item at_unix_ms)
        (\<lambda>is_valid_at2. Inr (\<not> is_valid_at2))) (ce_reserve_components self)) (\<lambda>found.
    if found then Inr False
    else
    (case require_exact_pairs (ce_valuation_book self) (ce_required_valuation_pairs self) at_unix_ms of
       Inr _ \<Rightarrow> Inr True
     | Inl e \<Rightarrow> if is_value_error e \<or> is_type_error e then Inr False else Inl e)))))"

subsection \<open>Net-profit evidence\<close>

record net_evidence =
  ne_cost_envelope :: cost_envelope
  ne_simulations :: "route_simulation list"
  ne_profit_policy :: profit_policy
  ne_chain_health_evidence :: chain_health_evidence
  ne_risk_budget_evidence :: risk_budget_evidence
  ne_created_at_unix_ms :: int
  ne_decision :: profit_assessment
  ne_evidence_id :: string
  ne_inputs_valid_until_unix_ms :: int

definition ne_plan :: "net_evidence \<Rightarrow> execution_plan" where
  "ne_plan self =
    ce_plan (ne_cost_envelope self)"

definition ne_state_age_ms :: "net_evidence \<Rightarrow> int result" where
  "ne_state_age_ms self =
    rbind (pu_state_reference (op_universe (pl_opportunity (ne_plan self)))) (\<lambda>state_reference.
    Inr (ne_created_at_unix_ms self - sr_observed_at_unix_ms state_reference))"

definition ConservativeNetProfitEvidence_to_json :: "net_evidence \<Rightarrow> json result" where
  "ConservativeNetProfitEvidence_to_json self =
    jobj
    [(''schema'', jtext NET_EVIDENCE_SCHEMA),
     (''evidence_id'', jtext (ne_evidence_id self)),
     (''opportunity_id'', jtext (op_opportunity_id (pl_opportunity (ne_plan self)))),
     (''opportunity_sha256'', jstr (op_digest (pl_opportunity (ne_plan self)))),
     (''execution_plan_sha256'', jstr (pl_digest (ne_plan self))),
     (''cost_envelope'', ExecutionCostEnvelope_to_json (ne_cost_envelope self)),
     (''cost_envelope_sha256'', jstr (ce_digest (ne_cost_envelope self))),
     (''simulations'', Inr (JArr (map RouteSimulationResult_to_json (ne_simulations self)))),
     (''simulation_sha256'', Inr (JArr (map (\<lambda>item. JStr (rs_digest item)) (ne_simulations self)))),
     (''profit_policy'', Inr (ProfitPolicy_to_json (ne_profit_policy self))),
     (''chain_health_evidence'', Inr (ChainHealthEvidence_to_json (ne_chain_health_evidence self))),
     (''chain_health_evidence_sha256'', jtext (ch_digest (ne_chain_health_evidence self))),
     (''risk_budget_evidence'', Inr (RiskBudgetEvidence_to_json (ne_risk_budget_evidence self))),
     (''risk_budget_evidence_sha256'', jtext (rb_digest (ne_risk_budget_evidence self))),
     (''chain_health'', jtext (chain_health_value (ch_health (ne_chain_health_evidence self)))),
     (''risk_budget_available'', jbool (rb_allowed (ne_risk_budget_evidence self))),
     (''state_age_ms'', jdec (ne_state_age_ms self)),
     (''decision'', Inr (ProfitAssessment_to_json (ne_decision self))),
     (''decision_authority'', jtext ''shadow-economics-only''),
     (''cost_completeness'', jtext NET_COST_COMPLETENESS),
     (''authority'', jtext NET_AUTHORITY),
     (''inclusion_guarantee'', jbool False),
     (''signing_authority'', jtext ''none''),
     (''execution_eligible'', jbool False),
     (''created_at_unix_ms'', jint (ne_created_at_unix_ms self)),
     (''inputs_valid_until_unix_ms'', jint (ne_inputs_valid_until_unix_ms self))]"

definition ne_digest :: "net_evidence \<Rightarrow> string result" where
  "ne_digest self =
    jsha (ConservativeNetProfitEvidence_to_json self)"

definition ConservativeNetProfitEvidence_post_init :: "net_evidence \<Rightarrow> net_evidence result" where
  "ConservativeNetProfitEvidence_post_init self =
    (if \<not> (2 \<le> length (ne_simulations self)
        \<and> length (ne_simulations self) \<le> MAX_SIMULATIONS)
     then Inl (ValueError ''two to eight exact route simulations are required'')
     else
     let ordered = sort_key (\<lambda>item. (rs_engine_id item, rs_engine_implementation_sha256 item,
         rs_digest item)) (ne_simulations self) in
     let self = self\<lparr>ne_simulations := ordered\<rparr> in
     rbind (rall (\<lambda>(name, v). require_uint (''profit_policy.'' @ name) v False)
       [(''minimum_absolute_profit'', pp_minimum_absolute_profit (ne_profit_policy self)),
        (''minimum_return_bps'', pp_minimum_return_bps (ne_profit_policy self)),
        (''maximum_bid_fraction_bps'', pp_maximum_bid_fraction_bps (ne_profit_policy self)),
        (''maximum_state_age_ms'', pp_maximum_state_age_ms (ne_profit_policy self))]) (\<lambda>_.
     rbind (require_time ''created_at_unix_ms'' (ne_created_at_unix_ms self)) (\<lambda>_.
     if ne_created_at_unix_ms self < ce_created_at_unix_ms (ne_cost_envelope self)
     then Inl (ValueError ''net-profit evidence cannot precede its cost envelope'')
     else
     rbind (ce_is_valid_at (ne_cost_envelope self) (ne_created_at_unix_ms self)) (\<lambda>is_valid_at.
     if \<not> is_valid_at
     then Inl (ValueError ''cost envelope inputs are not valid at net-evidence time'')
     else if \<not> dual_route_simulations_agree (ne_simulations self)
     then Inl (ValueError ''route simulations do not provide independent exact agreement'')
     else
     let plan = ce_plan (ne_cost_envelope self) in
     rbind (jsha (state_reference_json (op_universe (pl_opportunity plan))))
         (\<lambda>state_reference_sha256.
     rbind (rall (\<lambda>simulation.
       if rs_observed_at_unix_ms simulation < pl_created_at_unix_ms plan
         then Inl (ValueError ''route simulation cannot precede the execution plan'')
         else
         rbind (rs_is_valid_at simulation (ne_created_at_unix_ms self)) (\<lambda>is_valid_at1.
         if \<not> is_valid_at1
         then Inl (ValueError ''route simulation is not valid at net-evidence time'')
         else if rs_state_reference_sha256 simulation \<noteq> state_reference_sha256
         then Inl (ValueError ''route simulation does not bind the exact state reference'')
         else
         Inr ())) (ne_simulations self)) (\<lambda>_.
     let reference = hd (ne_simulations self) in
     rbind (op_digest (pl_opportunity plan)) (\<lambda>digest1.
     if rs_opportunity_sha256 reference \<noteq> digest1
     then Inl (ValueError ''route simulation does not bind the exact F3 opportunity'')
     else
     rbind (pl_digest plan) (\<lambda>digest2.
     if rs_execution_plan_sha256 reference \<noteq> digest2
     then Inl (ValueError ''route simulation does not bind the exact execution plan'')
     else if rs_output_amount reference \<noteq> rq_amount_out (op_route_quote (pl_opportunity plan))
     then Inl (ValueError ''route simulation output disagrees with exact F3 output'')
     else if fe_gas_units_upper_bound (ce_fee_envelope (ne_cost_envelope self)) < rs_gas_units reference
     then Inl (ValueError ''simulated gas exceeds the recorded gas upper bound'')
     else if ch_chain (ne_chain_health_evidence self) \<noteq> pu_chain (op_universe (pl_opportunity plan))
     then Inl (ValueError ''chain-health evidence does not match the execution-plan chain'')
     else
     rbind (chain_health_is_valid_at (ne_chain_health_evidence self) (ne_created_at_unix_ms self))
         (\<lambda>is_valid_at3.
     if \<not> is_valid_at3
     then Inl (ValueError ''chain-health evidence is not valid at net-evidence time'')
     else
     rbind (risk_budget_is_valid_at (ne_risk_budget_evidence self) (ne_created_at_unix_ms self))
         (\<lambda>is_valid_at4.
     if \<not> is_valid_at4
     then Inl (ValueError ''risk-budget evidence is not valid at net-evidence time'')
     else if rb_observed_at_unix_ms (ne_risk_budget_evidence self) < ce_created_at_unix_ms
         (ne_cost_envelope self)
     then Inl (ValueError ''risk-budget evidence cannot precede the execution cost envelope'')
     else
     rbind (pl_digest plan) (\<lambda>digest5.
     if rb_execution_plan_sha256 (ne_risk_budget_evidence self) \<noteq> digest5
     then Inl (ValueError ''risk-budget evidence does not bind the exact execution plan'')
     else if rb_requested_execution_cost (ne_risk_budget_evidence self) \<noteq> total_cost (ce_costs
         (ne_cost_envelope self))
     then Inl (ValueError ''risk-budget evidence does not bind the exact execution cost'')
     else if rb_requested_notional (ne_risk_budget_evidence self) \<noteq> capital_at_risk (pl_opportunity
         plan)
     then Inl (ValueError ''risk-budget evidence does not bind the exact notional'')
     else
     rbind (pu_state_reference (op_universe (pl_opportunity plan))) (\<lambda>state_reference.
     let state_age_ms = ne_created_at_unix_ms self - sr_observed_at_unix_ms state_reference in
     rbind (assess_profit (ce_costs (ne_cost_envelope self)) (ne_profit_policy self) (capital_at_risk
         (pl_opportunity plan)) state_age_ms True (ch_health (ne_chain_health_evidence self)) (rb_allowed
         (ne_risk_budget_evidence self))) (\<lambda>decision.
     let inputs_valid_until = min_of ([ce_valid_until_unix_ms (ne_cost_envelope self),
         ch_valid_until_unix_ms (ne_chain_health_evidence self),
         rb_valid_until_unix_ms (ne_risk_budget_evidence self)] @ map rs_valid_until_unix_ms
         (ne_simulations self)) in
     let self = self\<lparr>ne_decision := decision,
                         ne_inputs_valid_until_unix_ms := inputs_valid_until\<rparr> in
     rbind (jsha (jobj
         [(''schema'', jtext NET_EVIDENCE_SCHEMA),
          (''cost_envelope_sha256'', jstr (ce_digest (ne_cost_envelope self))),
          (''simulation_sha256'',
              Inr (JArr (map (\<lambda>item. JStr (rs_digest item)) (ne_simulations self)))),
          (''profit_policy'', Inr (ProfitPolicy_to_json (ne_profit_policy self))),
          (''chain_health_evidence_sha256'', jtext (ch_digest (ne_chain_health_evidence self))),
          (''risk_budget_evidence_sha256'', jtext (rb_digest (ne_risk_budget_evidence self))),
          (''decision'', Inr (ProfitAssessment_to_json decision)),
          (''created_at_unix_ms'', jint (ne_created_at_unix_ms self)),
          (''inputs_valid_until_unix_ms'', jint inputs_valid_until),
          (''authority'', jtext NET_AUTHORITY)])) (\<lambda>digest6.
     let self = self\<lparr>ne_evidence_id := ''net-evidence-'' @ digest6\<rparr> in
     jchecked (ConservativeNetProfitEvidence_to_json self) self))))))))))))))"

end
