(* ===== verification/Deployments.thy ===== *)
theory Deployments
  imports Cost_Evidence
begin

text \<open>
  \<open>src/aladdin_mev_engine/deployments.py\<close>: executor interfaces, deployment specifications, the
  registry that resolves a block to exactly one of them, and deployments authenticated by a
  state proof.
\<close>

definition INTERFACE_SCHEMA :: string where "INTERFACE_SCHEMA = ''aladdin-mev-executor-interface/v1''"
definition DEPLOYMENT_SPEC_SCHEMA :: string where "DEPLOYMENT_SPEC_SCHEMA = ''aladdin-mev-executor-deployment-spec/v1''"
definition AUTHENTICATED_DEPLOYMENT_SCHEMA :: string where "AUTHENTICATED_DEPLOYMENT_SCHEMA = ''aladdin-mev-authenticated-executor-deployment/v1''"
definition DEPLOYMENT_REGISTRY_SCHEMA :: string where "DEPLOYMENT_REGISTRY_SCHEMA = ''aladdin-mev-executor-deployment-registry/v1''"
definition EXECUTE_SIGNATURE :: string where "EXECUTE_SIGNATURE = ''execute(bytes32,address,uint256,uint256,uint64,bytes)''"
definition ROUTE_COMMAND_SCHEMA :: string where "ROUTE_COMMAND_SCHEMA = ''aladdin-mev-route-command-binary/v1''"
definition MAX_REGISTRY_DEPLOYMENTS :: nat where "MAX_REGISTRY_DEPLOYMENTS = 32"
definition MAX_CALLDATA_BYTES :: int where "MAX_CALLDATA_BYTES = 65536"
definition ROUTE_COMMAND_BINARY_BYTES :: nat where "ROUTE_COMMAND_BINARY_BYTES = 189"
definition FLASH_FUNDING_SEMANTICS :: string where "FLASH_FUNDING_SEMANTICS = ''runtime-bound-recorded-flash-loan-provider-only''"
definition VALUE_SEMANTICS :: string where "VALUE_SEMANTICS = ''msg-value-conditional-coinbase-payment-upper-bound''"
definition BENEFICIARY_SEMANTICS :: string where "BENEFICIARY_SEMANTICS = ''msg-sender-receives-complete-base-token-residual''"
definition STORAGE_SEMANTICS :: string where "STORAGE_SEMANTICS = ''empty-storage-root-stateless-runtime''"

definition require_runtime_hash :: "string \<Rightarrow> bytes \<Rightarrow> unit result" where
  "require_runtime_hash name v =
    (if length v \<noteq> 32 \<or> v = zero_bytes 32
     then Inl (ValueError (name @ '' must be a non-zero exact 32-byte hash''))
     else if v = EMPTY_CODE_HASH
     then Inl (ValueError (name @ '' cannot identify empty runtime code''))
     else Inr ())"

subsection \<open>Interfaces\<close>

record executor_interface =
  ei_interface_id :: string
  ei_interface_source_sha256 :: string
  ei_flash_loan_provider_id :: string
  ei_flash_loan_source_sha256 :: string
  ei_maximum_calldata_bytes :: int
  ei_function_signature :: string
  ei_route_command_schema :: string

definition ei_function_selector :: "executor_interface \<Rightarrow> bytes" where
  "ei_function_selector self =
    take 4 (keccak256 (utf8_bytes (ei_function_signature self)))"

definition ei_route_command_schema_sha256 :: "executor_interface \<Rightarrow> string result" where
  "ei_route_command_schema_sha256 self =
    canonical_sha256 (JObj
        [(''schema'', JStr (ei_route_command_schema self)),
         (''version_byte'', JStr ''1''),
         (''header'', JStr ''AMEVF5R1''),
         (''payload_prefix_fields'', JArr [JStr ''header:raw-8-byte'', JStr ''version:uint8'',
             JStr ''command_count:uint8'']),
         (''command_length_bytes'', JStr (str_of_int (int (ROUTE_COMMAND_BINARY_BYTES)))),
         (''byte_order'', JStr ''big-endian''),
         (''address_encoding'', JStr ''raw-20-byte''),
         (''uint256_encoding'', JStr ''unsigned-big-endian-exact-32-byte''),
         (''quote_encoding'', JStr ''raw-32-byte-sha256''),
         (''fields'', JArr [JStr ''index:uint8'', JStr ''pool:address'', JStr ''token_in:address'',
             JStr ''token_out:address'', JStr ''amount_in:uint256'', JStr ''expected_amount_out:uint256'',
             JStr ''minimum_amount_out:uint256'', JStr ''quote_sha256:bytes32''])])"

definition ExecutorInterfaceSpec_to_json :: "executor_interface \<Rightarrow> json result" where
  "ExecutorInterfaceSpec_to_json self =
    jobj
    [(''schema'', jtext INTERFACE_SCHEMA),
     (''interface_id'', jtext (ei_interface_id self)),
     (''function_signature'', jtext (ei_function_signature self)),
     (''function_selector'', jtext (to_hex_data (ei_function_selector self))),
     (''route_command_schema'', jtext (ei_route_command_schema self)),
     (''route_command_schema_sha256'', jstr (ei_route_command_schema_sha256 self)),
     (''maximum_calldata_bytes'', jint (ei_maximum_calldata_bytes self)),
     (''interface_source_sha256'', jtext (ei_interface_source_sha256 self)),
     (''funding_kind'', jtext (funding_kind_value FLASH_LOAN)),
     (''flash_loan_provider_id'', jtext (ei_flash_loan_provider_id self)),
     (''flash_loan_source_sha256'', jtext (ei_flash_loan_source_sha256 self)),
     (''funding_semantics'', jtext FLASH_FUNDING_SEMANTICS),
     (''value_semantics'', jtext VALUE_SEMANTICS),
     (''beneficiary_semantics'', jtext BENEFICIARY_SEMANTICS),
     (''storage_semantics'', jtext STORAGE_SEMANTICS),
     (''proxy_semantics'', jtext ''direct-runtime-only''),
     (''authority'', jtext ''recorded-interface-identity-only'')]"

definition ei_digest :: "executor_interface \<Rightarrow> string result" where
  "ei_digest self =
    jsha (ExecutorInterfaceSpec_to_json self)"

definition ExecutorInterfaceSpec_post_init :: "executor_interface \<Rightarrow> executor_interface result"
    where
  "ExecutorInterfaceSpec_post_init self =
    rbind (require_bounded_text ''interface_id'' (ei_interface_id self) 128) (\<lambda>_.
    rbind (require_sha256 ''interface_source_sha256'' (ei_interface_source_sha256 self)) (\<lambda>_.
    rbind (require_bounded_text ''flash_loan_provider_id'' (ei_flash_loan_provider_id self) 128)
        (\<lambda>_.
    if ei_flash_loan_provider_id self = ''self''
    then Inl (ValueError ''F5 executor interface requires an external flash-loan provider identity'')
    else
    rbind (require_sha256 ''flash_loan_source_sha256'' (ei_flash_loan_source_sha256 self)) (\<lambda>_.
    if ei_function_signature self \<noteq> EXECUTE_SIGNATURE
    then Inl (ValueError ''executor interface must use the exact governed execute signature'')
    else if ei_route_command_schema self \<noteq> ROUTE_COMMAND_SCHEMA
    then Inl (ValueError ''executor interface must use the exact governed route-command schema'')
    else
    rbind (require_uint ''maximum_calldata_bytes'' (ei_maximum_calldata_bytes self) True) (\<lambda>_.
    if MAX_CALLDATA_BYTES < ei_maximum_calldata_bytes self
    then Inl (ValueError ''maximum_calldata_bytes exceeds the governed ceiling'')
    else
    jchecked (ExecutorInterfaceSpec_to_json self) self)))))"

subsection \<open>Deployment specifications\<close>

record deployment_spec =
  ds_deployment_id :: string
  ds_chain :: chain
  ds_address :: bytes
  ds_runtime_code_hash :: bytes
  ds_interface :: executor_interface
  ds_valid_from_block :: int
  ds_valid_until_block :: int
  ds_deployment_source_sha256 :: string

definition ExecutorDeploymentSpec_to_json :: "deployment_spec \<Rightarrow> json result" where
  "ExecutorDeploymentSpec_to_json self =
    jobj
    [(''schema'', jtext DEPLOYMENT_SPEC_SCHEMA),
     (''deployment_id'', jtext (ds_deployment_id self)),
     (''chain'', jtext (chain_value (ds_chain self))),
     (''address'', jtext (to_hex_data (ds_address self))),
     (''runtime_code_hash'', jtext (to_hex_data (ds_runtime_code_hash self))),
     (''interface'', ExecutorInterfaceSpec_to_json (ds_interface self)),
     (''interface_sha256'', jstr (ei_digest (ds_interface self))),
     (''valid_from_block'', jint (ds_valid_from_block self)),
     (''valid_until_block'', jint (ds_valid_until_block self)),
     (''deployment_source_sha256'', jtext (ds_deployment_source_sha256 self)),
     (''deployment_semantics'', jtext ''authenticated-recorded-direct-runtime'')]"

definition ds_digest :: "deployment_spec \<Rightarrow> string result" where
  "ds_digest self =
    jsha (ExecutorDeploymentSpec_to_json self)"

definition ExecutorDeploymentSpec_post_init :: "deployment_spec \<Rightarrow> deployment_spec result" where
  "ExecutorDeploymentSpec_post_init self =
    rbind (require_bounded_text ''deployment_id'' (ds_deployment_id self) 128) (\<lambda>_.
    if ds_chain self \<notin> {ETHEREUM, BASE}
    then Inl (ValueError ''F5 executor deployments support Ethereum and Base only'')
    else
    rbind (require_address ''address'' (ds_address self)) (\<lambda>_.
    rbind (require_runtime_hash ''runtime_code_hash'' (ds_runtime_code_hash self)) (\<lambda>_.
    rbind (require_time ''valid_from_block'' (ds_valid_from_block self)) (\<lambda>_.
    rbind (require_time ''valid_until_block'' (ds_valid_until_block self)) (\<lambda>_.
    if ds_valid_until_block self < ds_valid_from_block self
    then Inl (ValueError ''deployment validity cannot end before it begins'')
    else
    rbind (require_sha256 ''deployment_source_sha256'' (ds_deployment_source_sha256 self)) (\<lambda>_.
    jchecked (ExecutorDeploymentSpec_to_json self) self))))))"

definition ds_is_valid_at_block :: "deployment_spec \<Rightarrow> int \<Rightarrow> bool result" where
  "ds_is_valid_at_block self block_number =
    rbind (require_time ''block_number'' block_number) (\<lambda>_.
    Inr (ds_valid_from_block self \<le> block_number \<and> block_number \<le> ds_valid_until_block self))"

subsection \<open>The registry\<close>

record deployment_registry =
  dr_registry_id :: string
  dr_deployments :: "deployment_spec list"

definition ExecutorDeploymentRegistry_to_json :: "deployment_registry \<Rightarrow> json result" where
  "ExecutorDeploymentRegistry_to_json self =
    jobj
    [(''schema'', jtext DEPLOYMENT_REGISTRY_SCHEMA),
     (''registry_id'', jtext (dr_registry_id self)),
     (''deployments'', jarr (map ExecutorDeploymentSpec_to_json (dr_deployments self))),
     (''deployment_sha256'', jarr (map (\<lambda>item. jstr (ds_digest item)) (dr_deployments self))),
     (''production_approval'', jbool False)]"

definition dr_digest :: "deployment_registry \<Rightarrow> string result" where
  "dr_digest self =
    jsha (ExecutorDeploymentRegistry_to_json self)"

text \<open>The two scans of the ordered deployments: interfaces by code hash, and pairwise validity ranges.\<close>

definition conflicting_interfaces :: "deployment_spec list \<Rightarrow> (bytes, string) dict result" where
  "conflicting_interfaces ordered =
    rfold (\<lambda>by_code_hash item.
      rbind (ei_digest (ds_interface item)) (\<lambda>interface_digest.
      case dict_get by_code_hash (ds_runtime_code_hash item) of
        None \<Rightarrow> Inr (dict_set (ds_runtime_code_hash item) interface_digest by_code_hash)
      | Some previous \<Rightarrow>
          if previous \<noteq> interface_digest
          then Inl (ValueError ''one executor runtime code hash cannot authorize conflicting interfaces'')
          else Inr (dict_set (ds_runtime_code_hash item) interface_digest by_code_hash)))
      [] ordered"

definition deployments_overlap :: "deployment_spec \<Rightarrow> deployment_spec \<Rightarrow> bool" where
  "deployments_overlap left right \<longleftrightarrow>
    ds_chain left = ds_chain right \<and> ds_address left = ds_address right
    \<and> max (ds_valid_from_block left) (ds_valid_from_block right)
      \<le> min (ds_valid_until_block left) (ds_valid_until_block right)"

fun any_overlap :: "deployment_spec list \<Rightarrow> bool" where
  "any_overlap [] \<longleftrightarrow> False"
| "any_overlap (left # rest) \<longleftrightarrow> list_ex (deployments_overlap left) rest \<or> any_overlap rest"

definition ExecutorDeploymentRegistry_post_init :: "deployment_registry \<Rightarrow> deployment_registry result" where
  "ExecutorDeploymentRegistry_post_init self =
    rbind (require_bounded_text ''registry_id'' (dr_registry_id self) 128) (\<lambda>_.
    if dr_deployments self = []
    then Inl (TypeError ''deployments must be a non-empty exact tuple'')
    else if MAX_REGISTRY_DEPLOYMENTS < length (dr_deployments self)
    then Inl (ValueError ''executor deployment registry exceeds the governed ceiling'')
    else
    rbind (rsort_key (\<lambda>item. rbind (ds_digest item) (\<lambda>digest.
        Inr (chain_value (ds_chain item), ds_address item, ds_valid_from_block item, digest)))
        (dr_deployments self)) (\<lambda>ordered.
    let self = self\<lparr>dr_deployments := ordered\<rparr> in
    if \<not> distinct (map ds_deployment_id ordered)
    then Inl (ValueError ''executor deployment registry contains duplicate deployment_id'')
    else if \<not> distinct (map (\<lambda>item. (ds_chain item, ds_address item, ds_valid_from_block item,
        ds_valid_until_block item)) ordered)
    then Inl (ValueError ''executor deployment registry contains duplicate deployment identity'')
    else
    rbind (conflicting_interfaces ordered) (\<lambda>_.
    if any_overlap ordered
    then Inl (ValueError ''executor deployment registry has overlapping authority for one address'')
    else
    jchecked (ExecutorDeploymentRegistry_to_json self) self)))"

definition dr_resolve :: "deployment_registry \<Rightarrow> chain \<Rightarrow> bytes \<Rightarrow> int
    \<Rightarrow> deployment_spec result" where
  "dr_resolve self chain address block_number =
    rbind (require_address ''address'' address) (\<lambda>_.
    rbind (require_time ''block_number'' block_number) (\<lambda>_.
    rbind (rfilter (\<lambda>item. rbind (ds_is_valid_at_block item block_number)
        (\<lambda>is_valid_at_block. Inr (ds_chain item = chain \<and> ds_address item = address
        \<and> is_valid_at_block))) (dr_deployments self)) (\<lambda>matches.
    if length matches \<noteq> 1
    then Inl (ValueError ''executor deployment registry does not resolve exactly one spec'')
    else
    Inr (hd matches))))"

subsection \<open>Authenticated deployments\<close>

text \<open>Further properties of state-proof evidence (\<open>state_proof_evidence.py\<close>) used from here on.\<close>

definition ev_block_number :: "state_proof_evidence \<Rightarrow> int" where
  "ev_block_number self = an_block_number (ev_anchor self)"
definition ev_storage_root :: "state_proof_evidence \<Rightarrow> bytes" where
  "ev_storage_root self = st_storage_root (vp_proof (ev_verified self))"
definition ev_nonce :: "state_proof_evidence \<Rightarrow> int" where
  "ev_nonce self = st_nonce (vp_proof (ev_verified self))"
definition ev_balance :: "state_proof_evidence \<Rightarrow> int" where
  "ev_balance self = st_balance (vp_proof (ev_verified self))"
definition ev_proof_observed_at_unix_ms :: "state_proof_evidence \<Rightarrow> int" where
  "ev_proof_observed_at_unix_ms self = oe_observed_at_unix_ms (ev_proof_observation self)"

record executor_deployment =
  ad_spec :: deployment_spec
  ad_evidence :: state_proof_evidence
  ad_registry :: deployment_registry

definition ad_chain :: "executor_deployment \<Rightarrow> chain" where
  "ad_chain self =
    ds_chain (ad_spec self)"

definition ad_address :: "executor_deployment \<Rightarrow> bytes" where
  "ad_address self =
    ds_address (ad_spec self)"

definition ad_anchor_sha256 :: "executor_deployment \<Rightarrow> string result" where
  "ad_anchor_sha256 self =
    EvmBlockStateAnchor_digest (ev_anchor (ad_evidence self))"

definition AuthenticatedExecutorDeployment_to_json :: "executor_deployment \<Rightarrow> json result" where
  "AuthenticatedExecutorDeployment_to_json self =
    jobj
    [(''schema'', jtext AUTHENTICATED_DEPLOYMENT_SCHEMA),
     (''registry'', ExecutorDeploymentRegistry_to_json (ad_registry self)),
     (''registry_sha256'', jstr (dr_digest (ad_registry self))),
     (''spec'', ExecutorDeploymentSpec_to_json (ad_spec self)),
     (''spec_sha256'', jstr (ds_digest (ad_spec self))),
     (''evidence'', EvmStateProofEvidence_to_json (ad_evidence self)),
     (''evidence_sha256'', jstr (EvmStateProofEvidence_digest (ad_evidence self))),
     (''authenticated_block_number'', jint (ev_block_number (ad_evidence self))),
     (''authenticated_anchor_sha256'', jstr (ad_anchor_sha256 self)),
     (''production_approval'', jbool False),
     (''deployment_authority'', jtext ''authenticated-recorded-shadow-only'')]"

definition ad_digest :: "executor_deployment \<Rightarrow> string result" where
  "ad_digest self =
    jsha (AuthenticatedExecutorDeployment_to_json self)"

definition AuthenticatedExecutorDeployment_post_init :: "executor_deployment \<Rightarrow>
    executor_deployment result" where
  "AuthenticatedExecutorDeployment_post_init self =
    (if \<not> ev_account_exists (ad_evidence self)
     then Inl (ValueError ''executor deployment account must exist'')
     else if ev_chain (ad_evidence self) \<noteq> ds_chain (ad_spec self)
     then Inl (ValueError ''executor deployment evidence chain mismatch'')
     else if ev_address (ad_evidence self) \<noteq> ds_address (ad_spec self)
     then Inl (ValueError ''executor deployment evidence address mismatch'')
     else if ev_code_hash (ad_evidence self) \<noteq> ds_runtime_code_hash (ad_spec self)
     then Inl (ValueError ''executor runtime code hash mismatch'')
     else
     rbind (ds_is_valid_at_block (ad_spec self) (ev_block_number (ad_evidence self)))
         (\<lambda>is_valid_at_block.
     if \<not> is_valid_at_block
     then Inl (ValueError ''executor deployment is not valid at the authenticated block'')
     else if ev_storage_root (ad_evidence self) \<noteq> EMPTY_TRIE_ROOT
     then Inl (ValueError ''F5 executor runtime requires the canonical empty storage root'')
     else if ev_storage_values (ad_evidence self) \<noteq> []
     then Inl (ValueError ''F5 direct-runtime deployment evidence must not carry unused storage proofs'')
     else
     rbind (dr_resolve (ad_registry self) (ds_chain (ad_spec self)) (ds_address (ad_spec self))
         (ev_block_number (ad_evidence self))) (\<lambda>registered.
     rbind (ds_digest registered) (\<lambda>digest.
     rbind (ds_digest (ad_spec self)) (\<lambda>digest1.
     if digest \<noteq> digest1
     then Inl (ValueError ''executor deployment spec is not the exact registry authority'')
     else
     jchecked (AuthenticatedExecutorDeployment_to_json self) self)))))"

end
