(* ===== verification/Evm_Abi.thy ===== *)
theory Evm_Abi
  imports Deployments
begin

text \<open>
  \<open>src/aladdin_mev_engine/evm_abi.py\<close>: the binary form of route commands, the ABI encoding of the
  governed execute call with its payload validator, and the executor call built from approved
  net-profit evidence.
\<close>

definition CONSTRAINT_POLICY_SCHEMA :: string where "CONSTRAINT_POLICY_SCHEMA = ''aladdin-mev-execution-constraint-policy/v1''"
definition ROUTE_COMMAND_SCHEMA_JSON :: string where "ROUTE_COMMAND_SCHEMA_JSON = ''aladdin-mev-route-command/v1''"
definition EXECUTOR_CALL_SCHEMA :: string where "EXECUTOR_CALL_SCHEMA = ''aladdin-mev-governed-executor-call/v1''"
definition MAX_ROUTE_PAYLOAD_BYTES :: nat where "MAX_ROUTE_PAYLOAD_BYTES = 32768"
definition ROUTE_PAYLOAD_HEADER :: bytes where "ROUTE_PAYLOAD_HEADER = [0x41, 0x4D, 0x45, 0x56, 0x46, 0x35, 0x52, 0x31]"
definition ROUTE_PAYLOAD_VERSION :: int where "ROUTE_PAYLOAD_VERSION = 1"

definition require_bytes32 :: "string \<Rightarrow> bytes \<Rightarrow> unit result" where
  "require_bytes32 name v =
    (if length v \<noteq> 32 then Inl (ValueError (name @ '' must be exact immutable 32-byte data'')) else Inr ())"

definition u256_add :: "int \<Rightarrow> int \<Rightarrow> string \<Rightarrow> int result" where
  "u256_add left right name =
    rbind (require_uint (name @ '' left'') left False) (\<lambda>_.
    rbind (require_uint (name @ '' right'') right False) (\<lambda>_.
    if MAX_UINT256 - left < right
    then Inl (ValueError (name @ '' exceeds uint256''))
    else
    Inr (left + right)))"

definition u256_ceil_div :: "int \<Rightarrow> int \<Rightarrow> int result" where
  "u256_ceil_div numerator denominator =
    rbind (require_uint ''ceil numerator'' numerator False) (\<lambda>_.
    rbind (require_uint ''ceil denominator'' denominator True) (\<lambda>_.
    let quotient = numerator div denominator; remainder = numerator mod denominator in
    Inr (quotient + (if remainder \<noteq> 0 then 1 else 0))))"

definition abi_word_uint :: "int \<Rightarrow> bytes result" where
  "abi_word_uint value =
    rbind (require_uint ''ABI integer'' value False) (\<lambda>_.
    Inr (to_bytes_be 32 value))"

definition abi_word_address :: "bytes \<Rightarrow> bytes result" where
  "abi_word_address value =
    rbind (require_address ''ABI address'' value) (\<lambda>_.
    Inr (zero_bytes 12 @ value))"

definition abi_word_bytes32 :: "bytes \<Rightarrow> bytes result" where
  "abi_word_bytes32 value = rbind (require_bytes32 ''ABI bytes32'' value) (\<lambda>_. Inr value)"

definition abi_dynamic_bytes :: "bytes \<Rightarrow> bytes result" where
  "abi_dynamic_bytes payload =
    (if MAX_ROUTE_PAYLOAD_BYTES < length payload
     then Inl (ValueError ''ABI dynamic bytes payload exceeds the governed ceiling'')
     else
     let padding = nat (- int (length payload) mod 32) in
     rbind (abi_word_uint (int (length payload))) (\<lambda>word.
     Inr (word @ payload @ zero_bytes padding)))"

text \<open>
  The validator of a route payload: the frame, the loop over its commands (with the pools used
  so far and the parsed tuples), and the loop over the parsed tuples that checks the flow (with
  the intermediate tokens so far).
\<close>

type_synonym parsed_command = "bytes \<times> bytes \<times> bytes \<times> int \<times> int \<times> int"

definition slice :: "nat \<Rightarrow> nat \<Rightarrow> 'a list \<Rightarrow> 'a list" where
  "slice start stop xs = drop start (take stop xs)"

definition parse_route_command ::
  "bytes \<Rightarrow> bytes set \<times> parsed_command list \<Rightarrow> nat \<Rightarrow> (bytes set \<times> parsed_command list) result" where
  "parse_route_command route_payload st index =
    (let (used_pools, parsed) = st;
         header_length = length ROUTE_PAYLOAD_HEADER + 2;
         start = header_length + index * ROUTE_COMMAND_BINARY_BYTES;
         command = slice start (start + ROUTE_COMMAND_BINARY_BYTES) route_payload in
     if uint (command ! 0) \<noteq> int index
     then Inl (ValueError ''route_payload command indexes must be contiguous and canonical'')
     else
     let pool_address = slice 1 21 command; token_in = slice 21 41 command; token_out = slice 41 61 command in
     rbind (require_address ''route payload pool_address'' pool_address) (\<lambda>_.
     rbind (require_address ''route payload token_in'' token_in) (\<lambda>_.
     rbind (require_address ''route payload token_out'' token_out) (\<lambda>_.
     if pool_address \<in> used_pools
     then Inl (ValueError ''route_payload cannot reuse a pool'')
     else
     let used_pools = insert pool_address used_pools in
     if token_in = token_out
     then Inl (ValueError ''route_payload command tokens must be distinct'')
     else
     let amount_in = from_bytes_be (slice 61 93 command);
         expected_amount_out = from_bytes_be (slice 93 125 command);
         minimum_amount_out = from_bytes_be (slice 125 157 command) in
     rbind (require_uint ''route payload amount_in'' amount_in True) (\<lambda>_.
     rbind (require_uint ''route payload expected_amount_out'' expected_amount_out True) (\<lambda>_.
     rbind (require_uint ''route payload minimum_amount_out'' minimum_amount_out False) (\<lambda>_.
     if expected_amount_out < minimum_amount_out
     then Inl (ValueError ''route_payload minimum output exceeds expected output'')
     else if slice 157 189 command = zero_bytes 32
     then Inl (ValueError ''route_payload quote digest cannot be zero'')
     else
     Inr (used_pools, parsed @ [(pool_address, token_in, token_out, amount_in, expected_amount_out,
       minimum_amount_out)]))))))))"

definition check_route_flow ::
  "bytes \<Rightarrow> int \<Rightarrow> parsed_command list \<Rightarrow> nat \<Rightarrow> bytes set \<Rightarrow> nat \<times> parsed_command \<Rightarrow> bytes set result" where
  "check_route_flow base_token minimum_final_output parsed command_count intermediate_tokens item =
    (let (index, (_, token_in, token_out, amount_in, expected_out, minimum_out)) = item in
     rbind (if index \<noteq> 0
       then let (_, _, previous_token_out, _, previous_expected_out, _) = parsed ! (index - 1) in
         if previous_token_out \<noteq> token_in
         then Inl (ValueError ''route_payload token flow is disconnected'')
         else if previous_expected_out \<noteq> amount_in
         then Inl (ValueError ''route_payload amount flow is disconnected'')
         else Inr ()
       else Inr ()) (\<lambda>_.
     if int index < int command_count - 1
     then if token_out = base_token
       then Inl (ValueError ''route_payload returns to the base token before the final command'')
       else if token_out \<in> intermediate_tokens
       then Inl (ValueError ''route_payload repeats an intermediate token'')
       else Inr (insert token_out intermediate_tokens)
     else if token_out \<noteq> base_token
       then Inl (ValueError ''route_payload final output token must equal the governed base token'')
       else if expected_out < minimum_final_output
       then Inl (ValueError ''route_payload final expected output is below the governed minimum'')
       else if minimum_out \<noteq> minimum_final_output
       then Inl (ValueError ''route_payload final command minimum must equal the governed final minimum'')
       else Inr intermediate_tokens))"

definition validate_governed_route_payload :: "bytes \<Rightarrow> bytes \<Rightarrow> int \<Rightarrow> int \<Rightarrow> bytes result" where
  "validate_governed_route_payload route_payload base_token principal_amount minimum_final_output =
    (if MAX_ROUTE_PAYLOAD_BYTES < length route_payload
     then Inl (ValueError ''route_payload exceeds the governed byte ceiling'')
     else
     let header_length = length ROUTE_PAYLOAD_HEADER + 2 in
     if length route_payload < header_length
     then Inl (ValueError ''route_payload is shorter than the governed frame header'')
     else if take (length ROUTE_PAYLOAD_HEADER) route_payload \<noteq> ROUTE_PAYLOAD_HEADER
     then Inl (ValueError ''route_payload header is not governed'')
     else
     let version = uint (route_payload ! length ROUTE_PAYLOAD_HEADER);
         command_count = unat (route_payload ! (length ROUTE_PAYLOAD_HEADER + 1)) in
     if version \<noteq> ROUTE_PAYLOAD_VERSION
     then Inl (ValueError ''route_payload version is not governed'')
     else if \<not> (2 \<le> command_count \<and> command_count \<le> 4)
     then Inl (ValueError ''route_payload command count is outside the governed range'')
     else
     let expected_length = header_length + command_count * ROUTE_COMMAND_BINARY_BYTES in
     if length route_payload \<noteq> expected_length
     then Inl (ValueError ''route_payload length does not match its command count'')
     else
     rbind (rfold (parse_route_command route_payload) ({}, []) [0 ..< command_count]) (\<lambda>(_, parsed).
     let (_, first_token_in, _, first_amount_in, _, _) = hd parsed in
     if first_token_in \<noteq> base_token
     then Inl (ValueError ''route_payload first input token must equal the governed base token'')
     else if first_amount_in \<noteq> principal_amount
     then Inl (ValueError ''route_payload first input amount must equal the governed principal'')
     else
     rbind (rfold (check_route_flow base_token minimum_final_output parsed command_count) {}
       (enumerate 0 parsed)) (\<lambda>_.
     Inr route_payload)))"

definition encode_governed_execute_call :: "bytes \<Rightarrow> bytes \<Rightarrow> bytes \<Rightarrow> int
    \<Rightarrow> int \<Rightarrow> int \<Rightarrow> bytes \<Rightarrow> bytes result" where
  "encode_governed_execute_call selector plan_sha256 base_token principal_amount minimum_final_output
      deadline_unix_s route_payload =
    (if length selector \<noteq> 4 \<or> selector = zero_bytes 4
     then Inl (ValueError ''function selector must be non-zero exact 4-byte data'')
     else
     rbind (require_bytes32 ''plan_sha256'' plan_sha256) (\<lambda>_.
     if plan_sha256 = zero_bytes 32
     then Inl (ValueError ''plan_sha256 cannot be zero'')
     else
     rbind (require_address ''base_token'' base_token) (\<lambda>_.
     rbind (require_uint ''principal'' principal_amount True) (\<lambda>_.
     rbind (require_uint ''minimum_final_output'' minimum_final_output True) (\<lambda>_.
     if minimum_final_output < principal_amount
     then Inl (ValueError ''minimum_final_output cannot be smaller than principal'')
     else
     rbind (require_time ''deadline_unix_s'' deadline_unix_s) (\<lambda>_.
     if deadline_unix_s = 0
     then Inl (ValueError ''deadline_unix_s must be positive'')
     else
     rbind (validate_governed_route_payload route_payload base_token principal_amount minimum_final_output) (\<lambda>payload.
     let dynamic_offset = 32 * 6 in
     rbind (abi_word_bytes32 plan_sha256) (\<lambda>word_plan.
     rbind (abi_word_address base_token) (\<lambda>word_base.
     rbind (abi_word_uint principal_amount) (\<lambda>word_principal.
     rbind (abi_word_uint minimum_final_output) (\<lambda>word_minimum.
     rbind (abi_word_uint deadline_unix_s) (\<lambda>word_deadline.
     rbind (abi_word_uint dynamic_offset) (\<lambda>word_offset.
     let head = word_plan @ word_base @ word_principal @ word_minimum @ word_deadline @ word_offset in
     rbind (abi_dynamic_bytes payload) (\<lambda>tail.
     Inr (selector @ head @ tail)))))))))))))))"

subsection \<open>Constraint policies\<close>

record constraint_policy =
  cp_policy_id :: string
  cp_maximum_slippage_bps :: int
  cp_maximum_deadline_horizon_ms :: int

definition ExecutionConstraintPolicy_to_json :: "constraint_policy \<Rightarrow> json" where
  "ExecutionConstraintPolicy_to_json self =
    JObj
    [(''schema'', JStr CONSTRAINT_POLICY_SCHEMA),
     (''policy_id'', JStr (cp_policy_id self)),
     (''maximum_slippage_bps'', JStr (str_of_int (cp_maximum_slippage_bps self))),
     (''maximum_deadline_horizon_ms'', JStr (str_of_int (cp_maximum_deadline_horizon_ms self))),
     (''minimum_output_semantics'', JStr ''max-economic-policy-floor-slippage-floor'')]"

definition cp_digest :: "constraint_policy \<Rightarrow> string" where
  "cp_digest self =
    json_sha256 (ExecutionConstraintPolicy_to_json self)"

definition ExecutionConstraintPolicy_post_init :: "constraint_policy \<Rightarrow> constraint_policy
    result" where
  "ExecutionConstraintPolicy_post_init self =
    rbind (require_bounded_text ''policy_id'' (cp_policy_id self) 128) (\<lambda>_.
    rbind (require_uint ''maximum_slippage_bps'' (cp_maximum_slippage_bps self) False) (\<lambda>_.
    if BASIS_POINTS < cp_maximum_slippage_bps self
    then Inl (ValueError ''maximum_slippage_bps cannot exceed 10000'')
    else
    rbind (require_time ''maximum_deadline_horizon_ms'' (cp_maximum_deadline_horizon_ms self)) (\<lambda>_.
    if cp_maximum_deadline_horizon_ms self = 0
    then Inl (ValueError ''maximum_deadline_horizon_ms must be positive'')
    else
    jchecked (Inr (ExecutionConstraintPolicy_to_json self)) self)))"

subsection \<open>Route commands\<close>

record route_command =
  cm_index :: int
  cm_pool_address :: bytes
  cm_token_in :: bytes
  cm_token_out :: bytes
  cm_amount_in :: int
  cm_expected_amount_out :: int
  cm_minimum_amount_out :: int
  cm_quote_sha256 :: string

definition cm_binary :: "route_command \<Rightarrow> bytes" where
  "cm_binary self =
    concat [[word_of_int (cm_index self)], cm_pool_address self, cm_token_in self, cm_token_out self,
        to_bytes_be 32 (cm_amount_in self), to_bytes_be 32 (cm_expected_amount_out self),
        to_bytes_be 32 (cm_minimum_amount_out self), bytes_fromhex (cm_quote_sha256 self)]"

definition RouteCommand_to_json :: "route_command \<Rightarrow> json" where
  "RouteCommand_to_json self =
    JObj
    [(''schema'', JStr ROUTE_COMMAND_SCHEMA_JSON),
     (''index'', JStr (str_of_int (cm_index self))),
     (''pool_address'', JStr (to_hex_data (cm_pool_address self))),
     (''token_in'', JStr (to_hex_data (cm_token_in self))),
     (''token_out'', JStr (to_hex_data (cm_token_out self))),
     (''amount_in'', JStr (str_of_int (cm_amount_in self))),
     (''expected_amount_out'', JStr (str_of_int (cm_expected_amount_out self))),
     (''minimum_amount_out'', JStr (str_of_int (cm_minimum_amount_out self))),
     (''quote_sha256'', JStr (cm_quote_sha256 self)),
     (''binary'', JStr (to_hex_data (cm_binary self)))]"

definition cm_digest :: "route_command \<Rightarrow> string" where
  "cm_digest self =
    json_sha256 (RouteCommand_to_json self)"

definition RouteCommand_post_init :: "route_command \<Rightarrow> route_command result" where
  "RouteCommand_post_init self =
    (if \<not> (0 \<le> cm_index self \<and> cm_index self < 4)
     then Inl (ValueError ''route-command index must be an exact integer from 0 through 3'')
     else
     rbind (require_address ''pool_address'' (cm_pool_address self)) (\<lambda>_.
     rbind (require_address ''token_in'' (cm_token_in self)) (\<lambda>_.
     rbind (require_address ''token_out'' (cm_token_out self)) (\<lambda>_.
     if cm_token_in self = cm_token_out self
     then Inl (ValueError ''route-command tokens must be distinct'')
     else
     rbind (require_uint ''amount_in'' (cm_amount_in self) True) (\<lambda>_.
     rbind (require_uint ''expected_amount_out'' (cm_expected_amount_out self) True) (\<lambda>_.
     rbind (require_uint ''minimum_amount_out'' (cm_minimum_amount_out self) False) (\<lambda>_.
     if cm_expected_amount_out self < cm_minimum_amount_out self
     then Inl (ValueError ''route-command minimum output exceeds expected output'')
     else
     rbind (require_sha256 ''quote_sha256'' (cm_quote_sha256 self)) (\<lambda>_.
     if cm_quote_sha256 self = replicate 64 (CHR ''0'')
     then Inl (ValueError ''route-command quote_sha256 cannot be zero'')
     else
     jchecked (Inr (RouteCommand_to_json self)) self))))))))"

subsection \<open>Governed executor calls\<close>

record executor_call =
  gc_net_profit_evidence :: net_evidence
  gc_deployment :: executor_deployment
  gc_constraints :: constraint_policy
  gc_created_at_unix_ms :: int
  gc_commands :: "route_command list"
  gc_route_payload :: bytes
  gc_minimum_final_output :: int
  gc_deadline_unix_s :: int
  gc_inputs_valid_until_unix_ms :: int
  gc_calldata :: bytes
  gc_call_id :: string

definition GovernedExecutorCall_to_json :: "executor_call \<Rightarrow> json result" where
  "GovernedExecutorCall_to_json self =
    jobj
    [(''schema'', jtext EXECUTOR_CALL_SCHEMA),
     (''call_id'', jtext (gc_call_id self)),
     (''net_profit_evidence_sha256'', jstr (ne_digest (gc_net_profit_evidence self))),
     (''execution_plan_sha256'', jstr (pl_digest (ne_plan (gc_net_profit_evidence self)))),
     (''deployment'', AuthenticatedExecutorDeployment_to_json (gc_deployment self)),
     (''deployment_sha256'', jstr (ad_digest (gc_deployment self))),
     (''constraint_policy'', Inr (ExecutionConstraintPolicy_to_json (gc_constraints self))),
     (''constraint_policy_sha256'', jtext (cp_digest (gc_constraints self))),
     (''route_command_schema'', jtext ROUTE_COMMAND_SCHEMA),
     (''commands'', Inr (JArr (map RouteCommand_to_json (gc_commands self)))),
     (''route_command_sha256'', Inr (JArr (map (\<lambda>item. JStr (cm_digest item)) (gc_commands self)))),
     (''route_payload'', jtext (to_hex_data (gc_route_payload self))),
     (''principal'', jint (capital_at_risk (pl_opportunity (ne_plan (gc_net_profit_evidence self))))),
     (''minimum_final_output'', jint (gc_minimum_final_output self)),
     (''deadline_unix_s'', jint (gc_deadline_unix_s self)),
     (''inputs_valid_until_unix_ms'', jint (gc_inputs_valid_until_unix_ms self)),
     (''function_selector'',
         jtext (to_hex_data (ei_function_selector (ds_interface (ad_spec (gc_deployment self)))))),
     (''calldata'', jtext (to_hex_data (gc_calldata self))),
     (''calldata_sha256'', jtext (bytes_hex (sha256 (gc_calldata self)))),
     (''created_at_unix_ms'', jint (gc_created_at_unix_ms self)),
     (''calldata_authority'', jtext ''deterministic-governed-unsigned-only''),
     (''signing_eligible'', jbool False),
     (''execution_eligible'', jbool False)]"

text \<open>
  The constructor's parts: the minimum final output (the greater of the economic floor and the
  slippage floor), the commands of the steps, the payload and the calldata.
\<close>

definition call_slippage_numerator :: "executor_call \<Rightarrow> int" where
  "call_slippage_numerator self = BASIS_POINTS - cp_maximum_slippage_bps (gc_constraints self)"

definition call_economic_floor :: "net_evidence \<Rightarrow> int result" where
  "call_economic_floor evidence =
    (let principal = capital_at_risk (pl_opportunity (ne_plan evidence));
         policy = ne_profit_policy evidence in
     rbind (u256_mul principal (pp_minimum_return_bps policy) ''required return'') (\<lambda>product.
     rbind (u256_ceil_div product BASIS_POINTS) (\<lambda>required_return.
     let required_profit = max (pp_minimum_absolute_profit policy) required_return in
     rbind (u256_add principal (total_cost (ce_costs (ne_cost_envelope evidence))) ''economic floor'') (\<lambda>total.
     u256_add total required_profit ''economic floor''))))"

definition call_minimum_final :: "executor_call \<Rightarrow> int result" where
  "call_minimum_final self =
    (let evidence = gc_net_profit_evidence self;
         expected_final = rq_amount_out (op_route_quote (pl_opportunity (ne_plan evidence))) in
     rbind (call_economic_floor evidence) (\<lambda>economic_floor.
     rbind (u256_mul expected_final (call_slippage_numerator self) ''slippage floor'') (\<lambda>product.
     rbind (u256_ceil_div product BASIS_POINTS) (\<lambda>slippage_floor.
     let minimum_final = max economic_floor slippage_floor in
     if expected_final < minimum_final
     then Inl (ValueError ''F4 economics cannot satisfy the governed minimum-output constraint'')
     else Inr minimum_final))))"

definition call_command :: "executor_call \<Rightarrow> int \<Rightarrow> nat \<Rightarrow> nat \<times> execution_step \<Rightarrow> route_command result" where
  "call_command self minimum_final step_count item =
    (let (index, step) = item in
     rbind (u256_mul (es_amount_out step) (call_slippage_numerator self) ''route-command slippage floor'') (\<lambda>product.
     rbind (u256_ceil_div product BASIS_POINTS) (\<lambda>floor.
     let minimum = (if int index = int step_count - 1 then max floor minimum_final else floor) in
     RouteCommand_post_init
       \<lparr>cm_index = int index, cm_pool_address = es_pool_address step, cm_token_in = es_token_in step,
        cm_token_out = es_token_out step, cm_amount_in = es_amount_in step,
        cm_expected_amount_out = es_amount_out step, cm_minimum_amount_out = minimum,
        cm_quote_sha256 = es_quote_sha256 step\<rparr>)))"

definition call_payload :: "route_command list \<Rightarrow> bytes result" where
  "call_payload commands =
    (if \<not> (2 \<le> length commands \<and> length commands \<le> 4)
     then Inl (ValueError ''executor-call route command count is outside the governed range'')
     else
     let payload = ROUTE_PAYLOAD_HEADER @ [word_of_int ROUTE_PAYLOAD_VERSION, word_of_int (int (length commands))]
         @ concat (map cm_binary commands) in
     if MAX_ROUTE_PAYLOAD_BYTES < length payload
     then Inl (ValueError ''route-command payload exceeds the governed byte ceiling'')
     else Inr payload)"

definition call_calldata :: "executor_call \<Rightarrow> int \<Rightarrow> int \<Rightarrow> bytes \<Rightarrow> bytes result" where
  "call_calldata self minimum_final deadline_s payload =
    (let plan = ne_plan (gc_net_profit_evidence self);
         interface = ds_interface (ad_spec (gc_deployment self)) in
     rbind (pl_digest plan) (\<lambda>digest.
     rbind (encode_governed_execute_call (ei_function_selector interface) (bytes_fromhex digest)
       (case ai_address (pl_base_asset plan) of Some address \<Rightarrow> address | None \<Rightarrow> [])
       (capital_at_risk (pl_opportunity plan)) minimum_final deadline_s payload) (\<lambda>calldata.
     if ei_maximum_calldata_bytes interface < int (length calldata)
     then Inl (ValueError ''executor calldata exceeds the authenticated interface ceiling'')
     else Inr calldata)))"

definition call_identity :: "executor_call \<Rightarrow> json result" where
  "call_identity self = jobj
    [(''schema'', jtext EXECUTOR_CALL_SCHEMA),
     (''net_profit_evidence_sha256'', jstr (ne_digest (gc_net_profit_evidence self))),
     (''deployment_sha256'', jstr (ad_digest (gc_deployment self))),
     (''constraint_policy_sha256'', jtext (cp_digest (gc_constraints self))),
     (''route_command_sha256'', Inr (JArr (map (\<lambda>item. JStr (cm_digest item)) (gc_commands self)))),
     (''minimum_final_output'', jint (gc_minimum_final_output self)),
     (''deadline_unix_s'', jint (gc_deadline_unix_s self)),
     (''inputs_valid_until_unix_ms'', jint (gc_inputs_valid_until_unix_ms self)),
     (''calldata'', jtext (to_hex_data (gc_calldata self))),
     (''created_at_unix_ms'', jint (gc_created_at_unix_ms self))]"

text \<open>The authorities of a call: the approved evidence, its validity, the deployment and the funding.\<close>

definition call_authority :: "executor_call \<Rightarrow> unit result" where
  "call_authority self =
    (let evidence = gc_net_profit_evidence self; plan = ne_plan evidence; deployment = gc_deployment self;
         interface = ds_interface (ad_spec deployment); universe = op_universe (pl_opportunity plan) in
     if \<not> pa_approved (ne_decision evidence)
     then Inl (ValueError ''F5 call construction requires an approved F4 shadow decision'')
     else if gc_created_at_unix_ms self < ne_created_at_unix_ms evidence
     then Inl (ValueError ''executor call cannot precede F4 net-profit evidence'')
     else if ne_inputs_valid_until_unix_ms evidence < gc_created_at_unix_ms self
     then Inl (ValueError ''F4 net-profit inputs are expired at executor-call creation'')
     else if gc_created_at_unix_ms self < ev_proof_observed_at_unix_ms (ad_evidence deployment)
     then Inl (ValueError ''executor call cannot precede deployment proof observation'')
     else if fu_kind (pl_funding plan) \<noteq> FLASH_LOAN
     then Inl (ValueError ''F5 executor interface v1 supports recorded flash-loan funding only'')
     else if fu_provider_id (pl_funding plan) \<noteq> ei_flash_loan_provider_id interface
         \<or> fu_source_sha256 (pl_funding plan) \<noteq> ei_flash_loan_source_sha256 interface
     then Inl (ValueError ''F4 funding plan does not match the executor interface funding authority'')
     else if ad_chain deployment \<noteq> pu_chain universe
     then Inl (ValueError ''executor deployment chain does not match the execution plan'')
     else
     rbind (ad_anchor_sha256 deployment) (\<lambda>deployment_anchor.
     rbind (EvmBlockStateAnchor_digest (sn_anchor (pu_snapshot universe))) (\<lambda>plan_anchor.
     if deployment_anchor \<noteq> plan_anchor
     then Inl (ValueError ''executor deployment does not bind the exact F4 state anchor'')
     else Inr ())))"

definition GovernedExecutorCall_post_init :: "executor_call \<Rightarrow> executor_call result" where
  "GovernedExecutorCall_post_init self =
    (let evidence = gc_net_profit_evidence self; steps = pl_steps (ne_plan evidence) in
     rbind (require_time ''created_at_unix_ms'' (gc_created_at_unix_ms self)) (\<lambda>_.
     rbind (call_authority self) (\<lambda>_.
     rbind (call_minimum_final self) (\<lambda>minimum_final.
     rbind (rmap (call_command self minimum_final (length steps)) (enumerate 0 steps)) (\<lambda>commands.
     rbind (call_payload commands) (\<lambda>payload.
     let inputs_valid_until_ms = min (ne_inputs_valid_until_unix_ms evidence)
           (gc_created_at_unix_ms self + cp_maximum_deadline_horizon_ms (gc_constraints self));
         deadline_s = inputs_valid_until_ms div 1000 in
     if deadline_s \<le> gc_created_at_unix_ms self div 1000
     then Inl (ValueError ''executor-call deadline must be strictly after creation time'')
     else
     rbind (call_calldata self minimum_final deadline_s payload) (\<lambda>calldata.
     let self = self\<lparr>gc_commands := commands, gc_route_payload := payload,
                    gc_minimum_final_output := minimum_final, gc_deadline_unix_s := deadline_s,
                    gc_inputs_valid_until_unix_ms := inputs_valid_until_ms, gc_calldata := calldata\<rparr> in
     rbind (jsha (call_identity self)) (\<lambda>digest.
     let self = self\<lparr>gc_call_id := ''executor-call-'' @ digest\<rparr> in
     jchecked (GovernedExecutorCall_to_json self) self))))))))"

definition gc_digest :: "executor_call \<Rightarrow> string result" where
  "gc_digest self =
    jsha (GovernedExecutorCall_to_json self)"

end
