(* ===== verification/Evm_Transaction.thy ===== *)
theory Evm_Transaction
  imports Evm_Abi
begin

text \<open>
  \<open>src/aladdin_mev_engine/evm_transaction.py\<close>: the authenticated sender state, the unsigned EIP-1559
  transaction of an executor call with its signing payload, and the intent of a private bundle.
\<close>

definition SENDER_STATE_SCHEMA :: string where "SENDER_STATE_SCHEMA = ''aladdin-mev-sender-state-evidence/v1''"
definition UNSIGNED_TX_SCHEMA :: string where "UNSIGNED_TX_SCHEMA = ''aladdin-mev-unsigned-eip1559-transaction/v1''"
definition BUNDLE_INTENT_SCHEMA :: string where "BUNDLE_INTENT_SCHEMA = ''aladdin-mev-private-bundle-intent/v1''"
definition MAX_BUNDLE_TRANSACTIONS :: nat where "MAX_BUNDLE_TRANSACTIONS = 8"
definition MAX_TARGET_BLOCK_DISTANCE :: int where "MAX_TARGET_BLOCK_DISTANCE = 8"
definition MAX_BUNDLE_ANCHOR_AGE_MS :: int where "MAX_BUNDLE_ANCHOR_AGE_MS = 1000"
definition EIP1559_TYPE_BYTE :: bytes where "EIP1559_TYPE_BYTE = [0x02]"
definition BASE_INTRINSIC_GAS :: int where "BASE_INTRINSIC_GAS = 21000"
definition ZERO_DATA_GAS :: int where "ZERO_DATA_GAS = 4"
definition NONZERO_DATA_GAS :: int where "NONZERO_DATA_GAS = 16"
definition CHAIN_IDS :: "(chain, int) dict" where "CHAIN_IDS = [(ETHEREUM, 1), (BASE, 8453)]"

datatype delivery_class = BUILDER | SEQUENCER

fun delivery_class_value :: "delivery_class \<Rightarrow> string" where
  "delivery_class_value BUILDER = ''private-builder''"
| "delivery_class_value SEQUENCER = ''private-sequencer''"

definition uint_bytes :: "int \<Rightarrow> bytes result" where
  "uint_bytes value =
    rbind (require_uint ''RLP integer'' value False) (\<lambda>_.
    Inr (if value = 0 then [] else to_bytes_be ((bit_length value + 7) div 8) value))"

subsection \<open>Sender state\<close>

record sender_state =
  ss_evidence :: state_proof_evidence

definition ss_chain :: "sender_state \<Rightarrow> chain" where
  "ss_chain self =
    ev_chain (ss_evidence self)"

definition ss_sender :: "sender_state \<Rightarrow> bytes" where
  "ss_sender self =
    ev_address (ss_evidence self)"

definition ss_nonce :: "sender_state \<Rightarrow> int" where
  "ss_nonce self =
    ev_nonce (ss_evidence self)"

definition ss_balance :: "sender_state \<Rightarrow> int" where
  "ss_balance self =
    ev_balance (ss_evidence self)"

definition ss_anchor_sha256 :: "sender_state \<Rightarrow> string result" where
  "ss_anchor_sha256 self =
    EvmBlockStateAnchor_digest (ev_anchor (ss_evidence self))"

definition SenderStateEvidence_to_json :: "sender_state \<Rightarrow> json result" where
  "SenderStateEvidence_to_json self =
    jobj
    [(''schema'', jtext SENDER_STATE_SCHEMA),
     (''evidence'', EvmStateProofEvidence_to_json (ss_evidence self)),
     (''evidence_sha256'', jstr (EvmStateProofEvidence_digest (ss_evidence self))),
     (''sender'', jtext (to_hex_data (ss_sender self))),
     (''nonce'', jint (ss_nonce self)),
     (''balance'', jint (ss_balance self)),
     (''account_kind'', jtext ''externally-owned-account''),
     (''signing_authority'', jtext ''none'')]"

definition ss_digest :: "sender_state \<Rightarrow> string result" where
  "ss_digest self =
    jsha (SenderStateEvidence_to_json self)"

definition SenderStateEvidence_post_init :: "sender_state \<Rightarrow> sender_state result" where
  "SenderStateEvidence_post_init self =
    (if \<not> ev_account_exists (ss_evidence self)
     then Inl (ValueError ''sender account must exist in authenticated state'')
     else if ev_chain (ss_evidence self) \<notin> set (map fst CHAIN_IDS)
     then Inl (ValueError ''F5 sender state supports Ethereum and Base only'')
     else if ev_address (ss_evidence self) = zero_bytes 20
     then Inl (ValueError ''sender address cannot be zero'')
     else if ev_code_hash (ss_evidence self) \<noteq> EMPTY_CODE_HASH
     then Inl (ValueError ''F5 sender must be an authenticated externally owned account'')
     else if ev_storage_root (ss_evidence self) \<noteq> EMPTY_TRIE_ROOT
     then Inl (ValueError ''authenticated EOA sender must have the empty storage root'')
     else if ev_storage_values (ss_evidence self) \<noteq> []
     then Inl (ValueError ''sender-state evidence cannot carry unused storage proofs'')
     else
     rbind (require_time ''sender nonce'' (ev_nonce (ss_evidence self))) (\<lambda>_.
     rbind (require_uint ''sender balance'' (ev_balance (ss_evidence self)) False) (\<lambda>_.
     jchecked (SenderStateEvidence_to_json self) self)))"

subsection \<open>Unsigned transactions\<close>

record unsigned_transaction =
  ut_call :: executor_call
  ut_sender_state :: sender_state
  ut_created_at_unix_ms :: int
  ut_nonce_offset :: int
  ut_signing_payload :: bytes
  ut_signing_hash :: bytes
  ut_intrinsic_gas :: int
  ut_maximum_upfront_native :: int
  ut_inputs_valid_until_unix_ms :: int
  ut_transaction_id :: string

definition ut_chain :: "unsigned_transaction \<Rightarrow> chain" where
  "ut_chain self =
    ad_chain (gc_deployment (ut_call self))"

definition ut_chain_id :: "unsigned_transaction \<Rightarrow> int result" where
  "ut_chain_id self = dict_item CHAIN_IDS (ut_chain self)"

definition ut_nonce :: "unsigned_transaction \<Rightarrow> int" where
  "ut_nonce self =
    ss_nonce (ut_sender_state self) + ut_nonce_offset self"

definition ut_sender :: "unsigned_transaction \<Rightarrow> bytes" where
  "ut_sender self =
    ss_sender (ut_sender_state self)"

definition ut_to :: "unsigned_transaction \<Rightarrow> bytes" where
  "ut_to self =
    ad_address (gc_deployment (ut_call self))"

definition ut_value :: "unsigned_transaction \<Rightarrow> int" where
  "ut_value self =
    fe_direct_inclusion_payment_upper_bound (ce_fee_envelope (ne_cost_envelope (gc_net_profit_evidence
        (ut_call self))))"

definition ut_gas_limit :: "unsigned_transaction \<Rightarrow> int" where
  "ut_gas_limit self =
    fe_gas_units_upper_bound (ce_fee_envelope (ne_cost_envelope (gc_net_profit_evidence (ut_call self))))"

definition ut_max_fee_per_gas :: "unsigned_transaction \<Rightarrow> int" where
  "ut_max_fee_per_gas self =
    fe_max_fee_per_gas (ce_fee_envelope (ne_cost_envelope (gc_net_profit_evidence (ut_call self))))"

definition ut_max_priority_fee_per_gas :: "unsigned_transaction \<Rightarrow> int" where
  "ut_max_priority_fee_per_gas self =
    fe_max_priority_fee_per_gas (ce_fee_envelope (ne_cost_envelope (gc_net_profit_evidence (ut_call
        self))))"

definition ut_operator_fee_upper_bound :: "unsigned_transaction \<Rightarrow> int" where
  "ut_operator_fee_upper_bound self =
    fe_operator_fee_upper_bound (ce_fee_envelope (ne_cost_envelope (gc_net_profit_evidence (ut_call
        self))))"

definition ut_data :: "unsigned_transaction \<Rightarrow> bytes" where
  "ut_data self =
    gc_calldata (ut_call self)"

definition ut_signing_hash_hex :: "unsigned_transaction \<Rightarrow> string" where
  "ut_signing_hash_hex self =
    to_hex_data (ut_signing_hash self)"

definition UnsignedEip1559Transaction_to_json :: "unsigned_transaction \<Rightarrow> json result" where
  "UnsignedEip1559Transaction_to_json self =
    jobj
    [(''schema'', jtext UNSIGNED_TX_SCHEMA),
     (''transaction_id'', jtext (ut_transaction_id self)),
     (''call'', GovernedExecutorCall_to_json (ut_call self)),
     (''call_sha256'', jstr (gc_digest (ut_call self))),
     (''sender_state'', SenderStateEvidence_to_json (ut_sender_state self)),
     (''sender_state_sha256'', jstr (ss_digest (ut_sender_state self))),
     (''transaction_type'', jtext ''0x02''),
     (''chain'', jtext (chain_value (ut_chain self))),
     (''chain_id'', jdec (ut_chain_id self)),
     (''sender'', jtext (to_hex_data (ut_sender self))),
     (''nonce'', jint (ut_nonce self)),
     (''nonce_offset'', jint (ut_nonce_offset self)),
     (''max_priority_fee_per_gas'', jint (ut_max_priority_fee_per_gas self)),
     (''max_fee_per_gas'', jint (ut_max_fee_per_gas self)),
     (''gas_limit'', jint (ut_gas_limit self)),
     (''intrinsic_gas'', jint (ut_intrinsic_gas self)),
     (''to'', jtext (to_hex_data (ut_to self))),
     (''value'', jint (ut_value self)),
     (''data'', jtext (to_hex_data (ut_data self))),
     (''access_list'', Inr (JArr [])),
     (''operator_fee_upper_bound'', jint (ut_operator_fee_upper_bound self)),
     (''maximum_upfront_native'', jint (ut_maximum_upfront_native self)),
     (''signing_payload'', jtext (to_hex_data (ut_signing_payload self))),
     (''signing_hash'', jtext (ut_signing_hash_hex self)),
     (''signature'', Inr JNull),
     (''created_at_unix_ms'', jint (ut_created_at_unix_ms self)),
     (''inputs_valid_until_unix_ms'', jint (ut_inputs_valid_until_unix_ms self)),
     (''transaction_authority'', jtext ''unsigned-deterministic-preimage-only''),
     (''signing_eligible'', jbool False),
     (''submission_eligible'', jbool False),
     (''execution_eligible'', jbool False)]"

definition ut_digest :: "unsigned_transaction \<Rightarrow> string result" where
  "ut_digest self =
    jsha (UnsignedEip1559Transaction_to_json self)"

definition UnsignedEip1559Transaction_post_init :: "unsigned_transaction \<Rightarrow> unsigned_transaction
    result" where
  "UnsignedEip1559Transaction_post_init self =
    rbind (require_time ''created_at_unix_ms'' (ut_created_at_unix_ms self)) (\<lambda>_.
    rbind (require_time ''nonce_offset'' (ut_nonce_offset self)) (\<lambda>_.
    if int (MAX_BUNDLE_TRANSACTIONS) \<le> ut_nonce_offset self
    then Inl (ValueError ''nonce_offset exceeds the governed bundle transaction ceiling'')
    else if MAX_UINT64 - ut_nonce_offset self < ss_nonce (ut_sender_state self)
    then Inl (ValueError ''sender nonce plus offset exceeds uint64'')
    else if ut_created_at_unix_ms self < gc_created_at_unix_ms (ut_call self)
    then Inl (ValueError ''unsigned transaction cannot precede its executor call'')
    else if ut_created_at_unix_ms self < ev_proof_observed_at_unix_ms (ss_evidence (ut_sender_state self))
    then Inl (ValueError ''unsigned transaction cannot precede sender proof observation'')
    else
    let chain = ad_chain (gc_deployment (ut_call self)) in
    if ss_chain (ut_sender_state self) \<noteq> chain
    then Inl (ValueError ''sender state chain does not match the executor call'')
    else
    rbind (ss_anchor_sha256 (ut_sender_state self)) (\<lambda>anchor_sha256.
    rbind (ad_anchor_sha256 (gc_deployment (ut_call self))) (\<lambda>anchor_sha2562.
    if anchor_sha256 \<noteq> anchor_sha2562
    then Inl (ValueError ''sender, deployment, and execution plan must share one exact state anchor'')
    else
    let evidence = gc_net_profit_evidence (ut_call self) in
    let inputs_valid_until
        = min (ne_inputs_valid_until_unix_ms evidence) (gc_inputs_valid_until_unix_ms (ut_call self)) in
    if inputs_valid_until < ut_created_at_unix_ms self
    then Inl (ValueError ''F4 inputs or executor-call deadline are expired at unsigned-transaction creation'')
    else
    let fee = ce_fee_envelope (ne_cost_envelope evidence) in
    rbind (require_time ''gas_limit'' (fe_gas_units_upper_bound fee)) (\<lambda>_.
    let zero_count = int (count_list (gc_calldata (ut_call self)) 0) in
    let nonzero_count = int (length (gc_calldata (ut_call self))) - zero_count in
    rbind (u256_mul zero_count ZERO_DATA_GAS ''zero calldata intrinsic gas'') (\<lambda>int_value.
    rbind (u256_mul nonzero_count NONZERO_DATA_GAS ''nonzero calldata intrinsic gas'') (\<lambda>int_value4.
    rbind (u256_add int_value int_value4 ''calldata intrinsic gas'') (\<lambda>int_value5.
    rbind (u256_add BASE_INTRINSIC_GAS int_value5 ''transaction intrinsic gas'') (\<lambda>intrinsic.
    rbind (require_time ''intrinsic_gas'' intrinsic) (\<lambda>_.
    if fe_gas_units_upper_bound fee < intrinsic
    then Inl (ValueError ''gas limit is below the canonical intrinsic gas requirement'')
    else
    let value = fe_direct_inclusion_payment_upper_bound fee in
    rbind (u256_mul (fe_gas_units_upper_bound fee) (fe_max_fee_per_gas fee) ''maximum gas charge'')
        (\<lambda>int_value8.
    rbind (u256_add int_value8 value ''maximum upfront native amount'') (\<lambda>maximum_upfront.
    rbind (u256_add maximum_upfront (fe_l1_data_fee_upper_bound fee)
        ''maximum funded native amount before operator fee'') (\<lambda>maximum_with_l1.
    rbind (u256_add maximum_with_l1 (fe_operator_fee_upper_bound fee) ''maximum funded native amount'')
        (\<lambda>maximum_funded.
    if ss_balance (ut_sender_state self) < maximum_funded
    then Inl (ValueError ''authenticated sender balance cannot cover the recorded native upper bound'')
    else
    rbind (dict_item CHAIN_IDS chain) (\<lambda>chain_id.
    let access_list = RList [] in
    rbind (uint_bytes chain_id) (\<lambda>chain_bytes.
    rbind (uint_bytes (ut_nonce self)) (\<lambda>nonce_bytes.
    rbind (uint_bytes (fe_max_priority_fee_per_gas fee)) (\<lambda>priority_bytes.
    rbind (uint_bytes (fe_max_fee_per_gas fee)) (\<lambda>fee_bytes.
    rbind (uint_bytes (fe_gas_units_upper_bound fee)) (\<lambda>gas_bytes.
    rbind (uint_bytes value) (\<lambda>value_bytes.
    let unsigned_fields = RList [RBytes chain_bytes, RBytes nonce_bytes, RBytes priority_bytes,
        RBytes fee_bytes, RBytes gas_bytes, RBytes (ad_address (gc_deployment (ut_call self))),
        RBytes value_bytes, RBytes (gc_calldata (ut_call self)), access_list] in
    rbind (rlp_encode unsigned_fields) (\<lambda>encoded.
    let payload = EIP1559_TYPE_BYTE @ encoded in
    let signing_hash = keccak256 payload in
    let self = self\<lparr>ut_signing_payload := payload,
                        ut_signing_hash := signing_hash,
                        ut_intrinsic_gas := intrinsic,
                        ut_maximum_upfront_native := maximum_funded,
                        ut_inputs_valid_until_unix_ms := inputs_valid_until\<rparr> in
    rbind (jsha (jobj
        [(''schema'', jtext UNSIGNED_TX_SCHEMA),
         (''call_sha256'', jstr (gc_digest (ut_call self))),
         (''sender_state_sha256'', jstr (ss_digest (ut_sender_state self))),
         (''chain_id'', jint chain_id),
         (''nonce'', jint (ut_nonce self)),
         (''nonce_offset'', jint (ut_nonce_offset self)),
         (''signing_hash'', jtext (to_hex_data signing_hash)),
         (''created_at_unix_ms'', jint (ut_created_at_unix_ms self))])) (\<lambda>digest.
    let self = self\<lparr>ut_transaction_id := ''unsigned-tx-'' @ digest\<rparr> in
    jchecked (UnsignedEip1559Transaction_to_json self) self)))))))))))))))))))))))"

subsection \<open>Bundle intents\<close>

record bundle_intent =
  bi_transactions :: "unsigned_transaction list"
  bi_target_block_number :: int
  bi_maximum_block_number :: int
  bi_created_at_unix_ms :: int
  bi_delivery_class :: delivery_class
  bi_anchor_fresh_until_unix_ms :: int
  bi_inputs_valid_until_unix_ms :: int
  bi_maximum_bundle_upfront_native :: int
  bi_bundle_id :: string

definition bi_chain :: "bundle_intent \<Rightarrow> chain" where
  "bi_chain self =
    ut_chain (hd (bi_transactions self))"

definition bi_sender :: "bundle_intent \<Rightarrow> bytes" where
  "bi_sender self =
    ut_sender (hd (bi_transactions self))"

definition PrivateBundleIntent_to_json :: "bundle_intent \<Rightarrow> json result" where
  "PrivateBundleIntent_to_json self =
    jobj
    [(''schema'', jtext BUNDLE_INTENT_SCHEMA),
     (''bundle_id'', jtext (bi_bundle_id self)),
     (''chain'', jtext (chain_value (bi_chain self))),
     (''sender'', jtext (to_hex_data (bi_sender self))),
     (''transactions'', jarr (map UnsignedEip1559Transaction_to_json (bi_transactions self))),
     (''transaction_sha256'', jarr (map (\<lambda>item. jstr (ut_digest item)) (bi_transactions self))),
     (''transaction_signing_hash'',
         Inr (JArr (map (\<lambda>item. JStr (ut_signing_hash_hex item)) (bi_transactions self)))),
     (''target_block_number'', jint (bi_target_block_number self)),
     (''maximum_block_number'', jint (bi_maximum_block_number self)),
     (''delivery_class'', jtext (delivery_class_value (bi_delivery_class self))),
     (''relay_url'', Inr JNull),
     (''relay_credentials'', Inr JNull),
     (''signed_transaction_count'', jtext ''0''),
     (''maximum_bundle_upfront_native'', jint (bi_maximum_bundle_upfront_native self)),
     (''anchor_fresh_until_unix_ms'', jint (bi_anchor_fresh_until_unix_ms self)),
     (''created_at_unix_ms'', jint (bi_created_at_unix_ms self)),
     (''inputs_valid_until_unix_ms'', jint (bi_inputs_valid_until_unix_ms self)),
     (''submission_authority'', jtext ''none''),
     (''signing_eligible'', jbool False),
     (''submission_eligible'', jbool False),
     (''execution_eligible'', jbool False)]"

definition bi_digest :: "bundle_intent \<Rightarrow> string result" where
  "bi_digest self =
    jsha (PrivateBundleIntent_to_json self)"

definition PrivateBundleIntent_post_init :: "bundle_intent \<Rightarrow> bundle_intent result" where
  "PrivateBundleIntent_post_init self =
    (if bi_transactions self = []
     then Inl (TypeError ''transactions must be a non-empty exact tuple'')
     else if MAX_BUNDLE_TRANSACTIONS < length (bi_transactions self)
     then Inl (ValueError ''private bundle exceeds the governed transaction ceiling'')
     else
     rbind (require_time ''target_block_number'' (bi_target_block_number self)) (\<lambda>_.
     rbind (require_time ''maximum_block_number'' (bi_maximum_block_number self)) (\<lambda>_.
     rbind (require_time ''created_at_unix_ms'' (bi_created_at_unix_ms self)) (\<lambda>_.
     let first = hd (bi_transactions self) in
     if bi_created_at_unix_ms self < max_of (map ut_created_at_unix_ms (bi_transactions self))
     then Inl (ValueError ''bundle intent cannot precede an unsigned transaction'')
     else
     let chain = ut_chain first in
     let sender = ut_sender first in
     let anchor = ev_anchor (ss_evidence (ut_sender_state first)) in
     if list_ex (\<lambda>item. ut_chain item \<noteq> chain) (bi_transactions self)
     then Inl (ValueError ''private bundle transactions must share one exact chain'')
     else if list_ex (\<lambda>item. ut_sender item \<noteq> sender) (bi_transactions self)
     then Inl (ValueError ''private bundle transactions must share one exact sender'')
     else
     rbind (rany (\<lambda>item. rbind (ss_anchor_sha256 (ut_sender_state item))
         (\<lambda>anchor_sha256. rbind (ss_anchor_sha256 (ut_sender_state first))
         (\<lambda>anchor_sha2563. Inr (anchor_sha256 \<noteq> anchor_sha2563)))) (bi_transactions self))
         (\<lambda>found.
     if found
     then Inl (ValueError ''private bundle transactions must share one exact state anchor'')
     else
     rbind (rany (\<lambda>item. rbind (ss_digest (ut_sender_state item))
         (\<lambda>digest. rbind (ss_digest (ut_sender_state first))
         (\<lambda>digest3. Inr (digest \<noteq> digest3)))) (bi_transactions self)) (\<lambda>found3.
     if found3
     then Inl (ValueError ''private bundle transactions must share one exact sender-state evidence'')
     else if ut_nonce_offset first \<noteq> 0 \<or> ut_nonce first \<noteq> ss_nonce (ut_sender_state first)
     then Inl (ValueError ''private bundle must start at the authenticated sender nonce'')
     else
     let nonces = map ut_nonce (bi_transactions self) in
     if nonces \<noteq> map (\<lambda>k. hd nonces + int k) [0 ..< length nonces]
     then Inl (ValueError ''private bundle transaction nonces must be contiguous and ordered'')
     else
     let signing_hashes = map ut_signing_hash (bi_transactions self) in
     if \<not> distinct signing_hashes
     then Inl (ValueError ''private bundle reuses an unsigned transaction signing hash'')
     else if \<not> (an_block_number anchor < bi_target_block_number self)
     then Inl (ValueError ''private bundle target block must follow the authenticated state block'')
     else if an_block_number anchor + MAX_TARGET_BLOCK_DISTANCE < bi_target_block_number self
     then Inl (ValueError ''private bundle target block exceeds the governed distance'')
     else if \<not> (bi_target_block_number self \<le> bi_maximum_block_number self)
     then Inl (ValueError ''maximum bundle block cannot precede target block'')
     else if an_block_number anchor + MAX_TARGET_BLOCK_DISTANCE < bi_maximum_block_number self
     then Inl (ValueError ''private bundle maximum block exceeds the authenticated-state horizon'')
     else
     rbind (rany (\<lambda>item. rbind (ds_is_valid_at_block (ad_spec (gc_deployment (ut_call item)))
         (bi_maximum_block_number self))
         (\<lambda>is_valid_at_block. Inr (\<not> is_valid_at_block))) (bi_transactions self))
         (\<lambda>found4.
     if found4
     then Inl (ValueError ''executor deployment is not governed through the complete bundle block horizon'')
     else
     rbind (u256_add (an_state_observed_at anchor) MAX_BUNDLE_ANCHOR_AGE_MS
         ''bundle anchor freshness ceiling'') (\<lambda>anchor_fresh_until.
     rbind (require_time ''anchor_fresh_until_unix_ms'' anchor_fresh_until) (\<lambda>_.
     if anchor_fresh_until < bi_created_at_unix_ms self
     then Inl (ValueError ''private bundle intent exceeds the governed authenticated-anchor freshness window'')
     else
     rbind (rfold (\<lambda>maximum_bundle_upfront item.
       u256_add maximum_bundle_upfront (ut_maximum_upfront_native item) ''maximum bundle upfront native amount'')
       0 (bi_transactions self)) (\<lambda>maximum_bundle_upfront.
     if ss_balance (ut_sender_state first) < maximum_bundle_upfront
     then Inl (ValueError ''authenticated sender balance cannot cover the complete private bundle'')
     else
     let valid_until = min_of ([anchor_fresh_until] @ map ut_inputs_valid_until_unix_ms (bi_transactions
         self)) in
     if valid_until < bi_created_at_unix_ms self
     then Inl (ValueError ''private bundle inputs are expired at intent creation'')
     else if list_ex (\<lambda>item. gc_deadline_unix_s (ut_call item) \<le> bi_created_at_unix_ms self div
         1000) (bi_transactions self)
     then Inl (ValueError ''executor-call deadline has expired before bundle-intent creation'')
     else
     let delivery = (if chain = ETHEREUM then BUILDER else SEQUENCER) in
     let self = self\<lparr>bi_delivery_class := delivery,
                         bi_anchor_fresh_until_unix_ms := anchor_fresh_until,
                         bi_inputs_valid_until_unix_ms := valid_until,
                         bi_maximum_bundle_upfront_native := maximum_bundle_upfront\<rparr> in
     rbind (jsha (jobj
         [(''schema'', jtext BUNDLE_INTENT_SCHEMA),
          (''transaction_sha256'',
              jarr (map (\<lambda>item. jstr (ut_digest item)) (bi_transactions self))),
          (''target_block_number'', jint (bi_target_block_number self)),
          (''maximum_block_number'', jint (bi_maximum_block_number self)),
          (''delivery_class'', jtext (delivery_class_value delivery)),
          (''maximum_bundle_upfront_native'', jint maximum_bundle_upfront),
          (''created_at_unix_ms'', jint (bi_created_at_unix_ms self)),
          (''inputs_valid_until_unix_ms'', jint valid_until)])) (\<lambda>digest.
     let self = self\<lparr>bi_bundle_id := ''bundle-intent-'' @ digest\<rparr> in
     jchecked (PrivateBundleIntent_to_json self) self)))))))))))"

end
