(* ===== verification/Signed_Transaction.thy ===== *)
theory Signed_Transaction
  imports Evm_Transaction Secp256k1
begin

text \<open>
  \<open>src/aladdin_mev_engine/signed_transaction.py\<close>: an external signature, the signed transaction it
  makes of an unsigned one when it recovers exactly the authenticated sender, and signed bundles.
\<close>

definition SIGNATURE_SCHEMA :: string where "SIGNATURE_SCHEMA = ''aladdin-mev-eip1559-signature/v1''"
definition SIGNED_TRANSACTION_SCHEMA :: string where "SIGNED_TRANSACTION_SCHEMA = ''aladdin-mev-signed-eip1559-transaction/v1''"
definition SIGNED_BUNDLE_SCHEMA :: string where "SIGNED_BUNDLE_SCHEMA = ''aladdin-mev-signed-private-bundle/v1''"

subsection \<open>Signatures\<close>

record signature =
  sg_y_parity :: int
  sg_r :: int
  sg_s :: int
  sg_observed_at_unix_ms :: int
  sg_source_id :: string
  sg_source_sha256 :: string
  sg_digest :: string

definition sg_signature_bytes :: "signature \<Rightarrow> bytes" where
  "sg_signature_bytes self =
    to_bytes_be 32 (sg_r self) @ to_bytes_be 32 (sg_s self) @ [word_of_int (sg_y_parity self)]"

definition Eip1559Signature_to_json :: "signature \<Rightarrow> json" where
  "Eip1559Signature_to_json self =
    JObj
    [(''schema'', JStr SIGNATURE_SCHEMA),
     (''y_parity'', JStr (str_of_int (sg_y_parity self))),
     (''r'', JStr (str_of_int (sg_r self))),
     (''s'', JStr (str_of_int (sg_s self))),
     (''signature_bytes'', JStr (to_hex_data (sg_signature_bytes self))),
     (''observed_at_unix_ms'', JStr (str_of_int (sg_observed_at_unix_ms self))),
     (''source_id'', JStr (sg_source_id self)),
     (''source_sha256'', JStr (sg_source_sha256 self)),
     (''canonicality'', JStr ''eip2-low-s''),
     (''private_key_present'', JBool False)]"

definition Eip1559Signature_post_init :: "signature \<Rightarrow> signature result" where
  "Eip1559Signature_post_init self =
    (if sg_y_parity self \<notin> {0, 1}
     then Inl (ValueError ''y_parity must be 0 or 1'')
     else
     rbind (require_uint ''r'' (sg_r self) True) (\<lambda>_.
     rbind (require_uint ''s'' (sg_s self) True) (\<lambda>_.
     if GROUP_ORDER \<le> sg_r self \<or> GROUP_ORDER \<le> sg_s self
     then Inl (ValueError ''signature scalars must be below the secp256k1 group order'')
     else if HALF_GROUP_ORDER < sg_s self
     then Inl (ValueError ''signature must use canonical low-s form'')
     else
     rbind (require_time ''observed_at_unix_ms'' (sg_observed_at_unix_ms self)) (\<lambda>_.
     rbind (require_bounded_text ''source_id'' (sg_source_id self) 128) (\<lambda>_.
     rbind (require_sha256 ''source_sha256'' (sg_source_sha256 self)) (\<lambda>_.
     let payload = Eip1559Signature_to_json self in
     rbind (canonical_json_bytes payload) (\<lambda>_.
     rbind (canonical_sha256 payload) (\<lambda>digest.
     let self = self\<lparr>sg_digest := digest\<rparr> in
    Inr self))))))))"

subsection \<open>Signed transactions\<close>

record signed_transaction =
  sx_unsigned_transaction :: unsigned_transaction
  sx_signature :: signature
  sx_created_at_unix_ms :: int
  sx_raw_transaction :: bytes
  sx_transaction_hash :: bytes
  sx_recovered_sender :: bytes
  sx_signed_transaction_id :: string
  sx_unsigned_transaction_sha256 :: string
  sx_signature_sha256 :: string
  sx_digest :: string

definition sx_transaction_hash_hex :: "signed_transaction \<Rightarrow> string" where
  "sx_transaction_hash_hex self =
    to_hex_data (sx_transaction_hash self)"

definition sx_inputs_valid_until_unix_ms :: "signed_transaction \<Rightarrow> int" where
  "sx_inputs_valid_until_unix_ms self =
    ut_inputs_valid_until_unix_ms (sx_unsigned_transaction self)"

definition SignedEip1559TransactionEvidence_to_json :: "signed_transaction \<Rightarrow> json result" where
  "SignedEip1559TransactionEvidence_to_json self =
    jobj
    [(''schema'', jtext SIGNED_TRANSACTION_SCHEMA),
     (''signed_transaction_id'', jtext (sx_signed_transaction_id self)),
     (''unsigned_transaction_sha256'', jtext (sx_unsigned_transaction_sha256 self)),
     (''unsigned_signing_hash'', jtext (ut_signing_hash_hex (sx_unsigned_transaction self))),
     (''chain'', jtext (chain_value (ut_chain (sx_unsigned_transaction self)))),
     (''chain_id'', jdec (ut_chain_id (sx_unsigned_transaction self))),
     (''nonce'', jint (ut_nonce (sx_unsigned_transaction self))),
     (''signature'', Inr (Eip1559Signature_to_json (sx_signature self))),
     (''signature_sha256'', jtext (sx_signature_sha256 self)),
     (''raw_transaction'', jtext (to_hex_data (sx_raw_transaction self))),
     (''transaction_hash'', jtext (sx_transaction_hash_hex self)),
     (''recovered_sender'', jtext (to_hex_data (sx_recovered_sender self))),
     (''created_at_unix_ms'', jint (sx_created_at_unix_ms self)),
     (''inputs_valid_until_unix_ms'', jint (sx_inputs_valid_until_unix_ms self)),
     (''signature_present'', jbool True),
     (''private_key_present'', jbool False),
     (''signature_verification_authority'', jtext ''offline-secp256k1-recovery-only''),
     (''signing_authority'', jtext ''external-unmodeled''),
     (''submission_eligible'', jbool False),
     (''execution_eligible'', jbool False)]"

definition SignedEip1559TransactionEvidence_post_init :: "signed_transaction \<Rightarrow>
    signed_transaction result" where
  "SignedEip1559TransactionEvidence_post_init self =
    rbind (require_time ''created_at_unix_ms'' (sx_created_at_unix_ms self)) (\<lambda>_.
    if sg_observed_at_unix_ms (sx_signature self) < ut_created_at_unix_ms (sx_unsigned_transaction self)
    then Inl (ValueError ''signature cannot predate the unsigned transaction'')
    else if sx_created_at_unix_ms self < sg_observed_at_unix_ms (sx_signature self)
    then Inl (ValueError ''signed transaction evidence cannot predate the signature'')
    else if ut_inputs_valid_until_unix_ms (sx_unsigned_transaction self) < sx_created_at_unix_ms self
    then Inl (ValueError ''unsigned transaction inputs expired before signature verification'')
    else
    rbind (recover_public_keys (ut_signing_hash (sx_unsigned_transaction self)) (sg_r (sx_signature self))
        (sg_s (sx_signature self)) (sg_y_parity (sx_signature self))) (\<lambda>recovered_keys.
    let matching_keys = filter
        (\<lambda>item. public_key_to_address item
        = ut_sender (sx_unsigned_transaction self)) recovered_keys in
    if length matching_keys \<noteq> 1
    then Inl (ValueError ''signature does not uniquely recover the authenticated sender'')
    else
    let recovered_sender = public_key_to_address (hd matching_keys) in
    let unsigned = sx_unsigned_transaction self in
    rbind (ut_chain_id unsigned) (\<lambda>chain_id.
    rbind (uint_bytes chain_id) (\<lambda>chain_bytes.
    rbind (uint_bytes (ut_nonce unsigned)) (\<lambda>nonce_bytes.
    rbind (uint_bytes (ut_max_priority_fee_per_gas unsigned)) (\<lambda>priority_bytes.
    rbind (uint_bytes (ut_max_fee_per_gas unsigned)) (\<lambda>fee_bytes.
    rbind (uint_bytes (ut_gas_limit unsigned)) (\<lambda>gas_bytes.
    rbind (uint_bytes (ut_value unsigned)) (\<lambda>value_bytes.
    rbind (uint_bytes (sg_y_parity (sx_signature self))) (\<lambda>parity_bytes.
    rbind (uint_bytes (sg_r (sx_signature self))) (\<lambda>r_bytes.
    rbind (uint_bytes (sg_s (sx_signature self))) (\<lambda>s_bytes.
    let signed_fields = RList [RBytes chain_bytes, RBytes nonce_bytes, RBytes priority_bytes,
        RBytes fee_bytes, RBytes gas_bytes, RBytes (ut_to unsigned), RBytes value_bytes,
        RBytes (ut_data unsigned), RList [], RBytes parity_bytes, RBytes r_bytes, RBytes s_bytes] in
    rbind (rlp_encode signed_fields) (\<lambda>encoded.
    let raw = EIP1559_TYPE_BYTE @ encoded in
    let transaction_hash = keccak256 raw in
    rbind (ut_digest unsigned) (\<lambda>unsigned_sha256.
    let signature_sha256 = sg_digest (sx_signature self) in
    let self = self\<lparr>sx_raw_transaction := raw,
                        sx_transaction_hash := transaction_hash,
                        sx_recovered_sender := recovered_sender,
                        sx_unsigned_transaction_sha256 := unsigned_sha256,
                        sx_signature_sha256 := signature_sha256\<rparr> in
    rbind (canonical_sha256 (JObj
        [(''schema'', JStr SIGNED_TRANSACTION_SCHEMA),
         (''unsigned_transaction_sha256'', JStr unsigned_sha256),
         (''signature_sha256'', JStr signature_sha256),
         (''transaction_hash'', JStr (to_hex_data transaction_hash)),
         (''recovered_sender'', JStr (to_hex_data recovered_sender)),
         (''created_at_unix_ms'', JStr (str_of_int (sx_created_at_unix_ms self)))])) (\<lambda>digest9.
    let self = self\<lparr>sx_signed_transaction_id := ''signed-tx-'' @ digest9\<rparr> in
    rbind (SignedEip1559TransactionEvidence_to_json self) (\<lambda>payload.
    rbind (canonical_json_bytes payload) (\<lambda>_.
    rbind (canonical_sha256 payload) (\<lambda>digest10.
    let self = self\<lparr>sx_digest := digest10\<rparr> in
    Inr self))))))))))))))))))"

subsection \<open>Signed bundles\<close>

record signed_bundle =
  sb_unsigned_bundle :: bundle_intent
  sb_signed_transactions :: "signed_transaction list"
  sb_created_at_unix_ms :: int
  sb_signed_bundle_id :: string
  sb_unsigned_bundle_sha256 :: string
  sb_signed_transaction_sha256 :: "string list"
  sb_digest :: string

definition sb_raw_transactions :: "signed_bundle \<Rightarrow> bytes list" where
  "sb_raw_transactions self =
    map sx_raw_transaction (sb_signed_transactions self)"

definition sb_transaction_hashes :: "signed_bundle \<Rightarrow> string list" where
  "sb_transaction_hashes self =
    map sx_transaction_hash_hex (sb_signed_transactions self)"

definition sb_inputs_valid_until_unix_ms :: "signed_bundle \<Rightarrow> int" where
  "sb_inputs_valid_until_unix_ms self =
    min_of ([bi_inputs_valid_until_unix_ms (sb_unsigned_bundle self)] @ map sx_inputs_valid_until_unix_ms
        (sb_signed_transactions self))"

definition SignedPrivateBundleEvidence_to_json :: "signed_bundle \<Rightarrow> json" where
  "SignedPrivateBundleEvidence_to_json self =
    JObj
    [(''schema'', JStr SIGNED_BUNDLE_SCHEMA),
     (''signed_bundle_id'', JStr (sb_signed_bundle_id self)),
     (''unsigned_bundle_sha256'', JStr (sb_unsigned_bundle_sha256 self)),
     (''signed_transaction_sha256'', JArr (map JStr (sb_signed_transaction_sha256 self))),
     (''raw_transactions'', JArr (map (\<lambda>item. JStr (to_hex_data item)) (sb_raw_transactions self))),
     (''transaction_hashes'', JArr (map JStr (sb_transaction_hashes self))),
     (''chain'', JStr (chain_value (bi_chain (sb_unsigned_bundle self)))),
     (''delivery_class'', JStr (delivery_class_value (bi_delivery_class (sb_unsigned_bundle self)))),
     (''sender'', JStr (to_hex_data (bi_sender (sb_unsigned_bundle self)))),
     (''target_block_number'', JStr (str_of_int (bi_target_block_number (sb_unsigned_bundle self)))),
     (''maximum_block_number'', JStr (str_of_int (bi_maximum_block_number (sb_unsigned_bundle self)))),
     (''created_at_unix_ms'', JStr (str_of_int (sb_created_at_unix_ms self))),
     (''inputs_valid_until_unix_ms'', JStr (str_of_int (sb_inputs_valid_until_unix_ms self))),
     (''bundle_authority'', JStr ''offline-externally-signed-private-intent-only''),
     (''relay_credentials_present'', JBool False),
     (''network_dispatched'', JBool False),
     (''submission_eligible'', JBool False),
     (''execution_eligible'', JBool False),
     (''inclusion_guarantee'', JBool False)]"

definition SignedPrivateBundleEvidence_post_init :: "signed_bundle \<Rightarrow> signed_bundle result" where
  "SignedPrivateBundleEvidence_post_init self =
    (if sb_signed_transactions self = []
     then Inl (TypeError ''signed_transactions must be a non-empty exact tuple'')
     else if MAX_BUNDLE_TRANSACTIONS < length (sb_signed_transactions self)
     then Inl (ValueError ''signed bundle exceeds the governed transaction ceiling'')
     else
     rbind (require_time ''created_at_unix_ms'' (sb_created_at_unix_ms self)) (\<lambda>_.
     if length (sb_signed_transactions self) \<noteq> length (bi_transactions (sb_unsigned_bundle self))
     then Inl (ValueError ''signed bundle transaction count does not match the unsigned intent'')
     else
     rbind (rall (\<lambda>(unsigned, signed).
       rbind (ut_digest (sx_unsigned_transaction signed)) (\<lambda>digest.
         rbind (ut_digest unsigned) (\<lambda>digest1.
         if digest \<noteq> digest1
         then Inl (ValueError ''signed bundle transaction order or identity disagrees with the unsigned intent'')
         else
         Inr ()))) (zip (bi_transactions (sb_unsigned_bundle self)) (sb_signed_transactions self)))
             (\<lambda>_.
     if sb_created_at_unix_ms self < max_of (map sx_created_at_unix_ms (sb_signed_transactions self))
     then Inl (ValueError ''signed bundle evidence cannot predate a signed transaction'')
     else if sb_created_at_unix_ms self < bi_created_at_unix_ms (sb_unsigned_bundle self)
     then Inl (ValueError ''signed bundle evidence cannot predate the unsigned bundle intent'')
     else if bi_inputs_valid_until_unix_ms (sb_unsigned_bundle self) < sb_created_at_unix_ms self
     then Inl (ValueError ''unsigned bundle inputs expired before signed bundle construction'')
     else
     rbind (bi_digest (sb_unsigned_bundle self)) (\<lambda>unsigned_bundle_sha256.
     let signed_transaction_sha256 = map sx_digest (sb_signed_transactions self) in
     let self = self\<lparr>sb_unsigned_bundle_sha256 := unsigned_bundle_sha256,
                         sb_signed_transaction_sha256 := signed_transaction_sha256\<rparr> in
     rbind (canonical_sha256 (JObj
         [(''schema'', JStr SIGNED_BUNDLE_SCHEMA),
          (''unsigned_bundle_sha256'', JStr unsigned_bundle_sha256),
          (''signed_transaction_sha256'', JArr (map JStr signed_transaction_sha256)),
          (''transaction_hash'',
              JArr (map (\<lambda>item. JStr (sx_transaction_hash_hex item)) (sb_signed_transactions
              self))),
          (''created_at_unix_ms'', JStr (str_of_int (sb_created_at_unix_ms self)))])) (\<lambda>digest1.
     let self = self\<lparr>sb_signed_bundle_id := ''signed-bundle-'' @ digest1\<rparr> in
     let payload = SignedPrivateBundleEvidence_to_json self in
     rbind (canonical_json_bytes payload) (\<lambda>_.
     rbind (canonical_sha256 payload) (\<lambda>digest2.
     let self = self\<lparr>sb_digest := digest2\<rparr> in
    Inr self)))))))"

end
