(* ===== verification/Execution_Package.thy ===== *)
theory Execution_Package
  imports Evm_Transaction Head_Tracker
begin

text \<open>
  \<open>src/aladdin_mev_engine/execution_package.py\<close>: simulations of the exact transaction and the
  unsigned package that binds evidence, call, transaction, bundle and agreeing simulations.
\<close>

definition TX_SIMULATION_SCHEMA :: string where "TX_SIMULATION_SCHEMA = ''aladdin-mev-transaction-simulation-result/v1''"
definition UNSIGNED_PACKAGE_SCHEMA :: string where "UNSIGNED_PACKAGE_SCHEMA = ''aladdin-mev-unsigned-execution-package/v1''"

subsection \<open>Transaction simulations\<close>

record tx_simulation =
  ts_engine_id :: string
  ts_engine_implementation_sha256 :: string
  ts_environment_sha256 :: string
  ts_result_source_sha256 :: string
  ts_state_anchor_sha256 :: string
  ts_transaction_sha256 :: string
  ts_transaction_signing_hash :: string
  ts_bundle_sha256 :: string
  ts_simulated_block_number :: int
  ts_simulated_block_timestamp_unix_s :: int
  ts_simulated_base_fee_per_gas :: int
  ts_success :: bool
  ts_gas_used :: int
  ts_operator_fee_paid :: int
  ts_output_amount :: int
  ts_base_token :: bytes
  ts_flash_loan_principal_repaid :: int
  ts_flash_loan_fee_paid :: int
  ts_base_token_residual_before_external_costs :: int
  ts_base_token_beneficiary :: bytes
  ts_base_token_beneficiary_delta :: int
  ts_token_deltas_sha256 :: string
  ts_logs_sha256 :: string
  ts_post_state_sha256 :: string
  ts_coinbase_payment :: int
  ts_observed_at_unix_ms :: int
  ts_valid_until_unix_ms :: int
  ts_error_code :: "string option"

definition TransactionSimulationResult_to_json :: "tx_simulation \<Rightarrow> json" where
  "TransactionSimulationResult_to_json self =
    JObj
    [(''schema'', JStr TX_SIMULATION_SCHEMA),
     (''engine_id'', JStr (ts_engine_id self)),
     (''engine_implementation_sha256'', JStr (ts_engine_implementation_sha256 self)),
     (''environment_sha256'', JStr (ts_environment_sha256 self)),
     (''result_source_sha256'', JStr (ts_result_source_sha256 self)),
     (''state_anchor_sha256'', JStr (ts_state_anchor_sha256 self)),
     (''transaction_sha256'', JStr (ts_transaction_sha256 self)),
     (''transaction_signing_hash'', JStr (ts_transaction_signing_hash self)),
     (''bundle_sha256'', JStr (ts_bundle_sha256 self)),
     (''simulated_block_number'', JStr (str_of_int (ts_simulated_block_number self))),
     (''simulated_block_timestamp_unix_s'', JStr (str_of_int (ts_simulated_block_timestamp_unix_s self))),
     (''simulated_base_fee_per_gas'', JStr (str_of_int (ts_simulated_base_fee_per_gas self))),
     (''success'', JBool (ts_success self)),
     (''gas_used'', JStr (str_of_int (ts_gas_used self))),
     (''operator_fee_paid'', JStr (str_of_int (ts_operator_fee_paid self))),
     (''output_amount'', JStr (str_of_int (ts_output_amount self))),
     (''base_token'', JStr (to_hex_data (ts_base_token self))),
     (''flash_loan_principal_repaid'', JStr (str_of_int (ts_flash_loan_principal_repaid self))),
     (''flash_loan_fee_paid'', JStr (str_of_int (ts_flash_loan_fee_paid self))),
     (''base_token_residual_before_external_costs'',
         JStr (str_of_int (ts_base_token_residual_before_external_costs self))),
     (''base_token_beneficiary'', JStr (to_hex_data (ts_base_token_beneficiary self))),
     (''base_token_beneficiary_delta'', JStr (str_of_int (ts_base_token_beneficiary_delta self))),
     (''token_deltas_sha256'', JStr (ts_token_deltas_sha256 self)),
     (''logs_sha256'', JStr (ts_logs_sha256 self)),
     (''post_state_sha256'', JStr (ts_post_state_sha256 self)),
     (''coinbase_payment'', JStr (str_of_int (ts_coinbase_payment self))),
     (''observed_at_unix_ms'', JStr (str_of_int (ts_observed_at_unix_ms self))),
     (''valid_until_unix_ms'', JStr (str_of_int (ts_valid_until_unix_ms self))),
     (''error_code'', optional_text (ts_error_code self))]"

definition ts_digest :: "tx_simulation \<Rightarrow> string" where
  "ts_digest self =
    json_sha256 (TransactionSimulationResult_to_json self)"

definition simulation_outcome_ok :: "tx_simulation \<Rightarrow> unit result" where
  "simulation_outcome_ok self =
    (if ts_success self then
       if ts_error_code self \<noteq> None
       then Inl (ValueError ''successful transaction simulation cannot carry an error code'')
       else if ts_gas_used self = 0
       then Inl (ValueError ''successful transaction simulation requires positive gas'')
       else if ts_flash_loan_principal_repaid self = 0
       then Inl (ValueError ''successful F5 simulation requires positive principal repayment'')
       else
       rbind (u256_add (ts_flash_loan_principal_repaid self) (ts_flash_loan_fee_paid self) ''flash-loan repayment'') (\<lambda>repayment.
       if ts_output_amount self < repayment
       then Inl (ValueError ''simulation output cannot cover recorded flash-loan repayment'')
       else if ts_base_token_residual_before_external_costs self \<noteq> ts_output_amount self - repayment
       then Inl (ValueError ''simulation base-token residual does not reconcile'')
       else if ts_base_token_beneficiary_delta self \<noteq> ts_base_token_residual_before_external_costs self
       then Inl (ValueError ''simulation beneficiary delta does not equal the complete base-token residual'')
       else Inr ())
     else
       if ts_error_code self = None
       then Inl (ValueError ''failed transaction simulation requires an error code'')
       else if list_ex (\<lambda>v. v \<noteq> 0)
         [ts_gas_used self, ts_operator_fee_paid self, ts_output_amount self, ts_flash_loan_principal_repaid self,
          ts_flash_loan_fee_paid self, ts_base_token_residual_before_external_costs self,
          ts_base_token_beneficiary_delta self, ts_coinbase_payment self]
       then Inl (ValueError ''failed transaction simulation cannot claim economic outputs'')
       else Inr ())"

definition TransactionSimulationResult_post_init :: "tx_simulation \<Rightarrow> tx_simulation result" where
  "TransactionSimulationResult_post_init self =
    rbind (require_bounded_text ''engine_id'' (ts_engine_id self) 128) (\<lambda>_.
    rbind (rall (\<lambda>(name, v). require_sha256 name v)
      [(''engine_implementation_sha256'', ts_engine_implementation_sha256 self),
       (''environment_sha256'', ts_environment_sha256 self),
       (''result_source_sha256'', ts_result_source_sha256 self),
       (''state_anchor_sha256'', ts_state_anchor_sha256 self),
       (''transaction_sha256'', ts_transaction_sha256 self),
       (''bundle_sha256'', ts_bundle_sha256 self),
       (''token_deltas_sha256'', ts_token_deltas_sha256 self),
       (''logs_sha256'', ts_logs_sha256 self),
       (''post_state_sha256'', ts_post_state_sha256 self)]) (\<lambda>_.
    if take 2 (ts_transaction_signing_hash self) \<noteq> ''0x''
    then Inl (ValueError ''transaction_signing_hash must be canonical 0x-prefixed data'')
    else
    let raw = drop 2 (ts_transaction_signing_hash self) in
    if py_len raw \<noteq> 64 \<or> \<not> list_all is_hex_char raw
    then Inl (ValueError ''transaction_signing_hash must be a lowercase exact 32-byte hash'')
    else
    rbind (require_time ''simulated_block_number'' (ts_simulated_block_number self)) (\<lambda>_.
    rbind (require_time ''simulated_block_timestamp_unix_s'' (ts_simulated_block_timestamp_unix_s self)) (\<lambda>_.
    rbind (rall (\<lambda>(name, v). require_uint name v False)
      [(''simulated_base_fee_per_gas'', ts_simulated_base_fee_per_gas self),
       (''gas_used'', ts_gas_used self),
       (''operator_fee_paid'', ts_operator_fee_paid self),
       (''output_amount'', ts_output_amount self)]) (\<lambda>_.
    rbind (require_address ''base_token'' (ts_base_token self)) (\<lambda>_.
    rbind (rall (\<lambda>(name, v). require_uint name v False)
      [(''flash_loan_principal_repaid'', ts_flash_loan_principal_repaid self),
       (''flash_loan_fee_paid'', ts_flash_loan_fee_paid self),
       (''base_token_residual_before_external_costs'', ts_base_token_residual_before_external_costs self)]) (\<lambda>_.
    rbind (require_address ''base_token_beneficiary'' (ts_base_token_beneficiary self)) (\<lambda>_.
    rbind (rall (\<lambda>(name, v). require_uint name v False)
      [(''base_token_beneficiary_delta'', ts_base_token_beneficiary_delta self),
       (''coinbase_payment'', ts_coinbase_payment self)]) (\<lambda>_.
    rbind (require_time ''observed_at_unix_ms'' (ts_observed_at_unix_ms self)) (\<lambda>_.
    rbind (require_time ''valid_until_unix_ms'' (ts_valid_until_unix_ms self)) (\<lambda>_.
    if ts_valid_until_unix_ms self < ts_observed_at_unix_ms self
    then Inl (ValueError ''transaction simulation validity cannot precede observation'')
    else
    rbind (case ts_error_code self of
        None \<Rightarrow> Inr ()
      | Some code \<Rightarrow> require_bounded_text ''error_code'' code 128) (\<lambda>_.
    rbind (simulation_outcome_ok self) (\<lambda>_.
    jchecked (Inr (TransactionSimulationResult_to_json self)) self)))))))))))))"

definition ts_is_valid_at :: "tx_simulation \<Rightarrow> int \<Rightarrow> bool result" where
  "ts_is_valid_at self at_unix_ms =
    rbind (require_time ''at_unix_ms'' at_unix_ms) (\<lambda>_.
    Inr (ts_observed_at_unix_ms self \<le> at_unix_ms \<and> at_unix_ms \<le> ts_valid_until_unix_ms self))"

definition transaction_simulations_agree :: "tx_simulation list \<Rightarrow> bool" where
  "transaction_simulations_agree simulations =
    (if \<not> (2 \<le> length simulations \<and> length simulations \<le> MAX_SIMULATIONS) then False
     else if has_duplicate (map ts_engine_id simulations) then False
     else if has_duplicate (map ts_engine_implementation_sha256 simulations) then False
     else if has_duplicate (map ts_result_source_sha256 simulations) then False
     else if length (remdups (map ts_environment_sha256 simulations)) \<noteq> 1 then False
     else
     let reference = hd simulations in
     if \<not> ts_success reference then False
     else
     list_all (\<lambda>item. ts_success item
         \<and> ts_state_anchor_sha256 item = ts_state_anchor_sha256 reference
         \<and> ts_transaction_sha256 item = ts_transaction_sha256 reference
         \<and> ts_transaction_signing_hash item = ts_transaction_signing_hash reference
         \<and> ts_bundle_sha256 item = ts_bundle_sha256 reference
         \<and> ts_simulated_block_number item = ts_simulated_block_number reference
         \<and> ts_simulated_block_timestamp_unix_s item = ts_simulated_block_timestamp_unix_s reference
         \<and> ts_simulated_base_fee_per_gas item = ts_simulated_base_fee_per_gas reference
         \<and> ts_gas_used item = ts_gas_used reference
         \<and> ts_operator_fee_paid item = ts_operator_fee_paid reference
         \<and> ts_output_amount item = ts_output_amount reference
         \<and> ts_base_token item = ts_base_token reference
         \<and> ts_flash_loan_principal_repaid item = ts_flash_loan_principal_repaid reference
         \<and> ts_flash_loan_fee_paid item = ts_flash_loan_fee_paid reference
         \<and> ts_base_token_residual_before_external_costs item
         = ts_base_token_residual_before_external_costs reference
         \<and> ts_base_token_beneficiary item = ts_base_token_beneficiary reference
         \<and> ts_base_token_beneficiary_delta item = ts_base_token_beneficiary_delta reference
         \<and> ts_token_deltas_sha256 item = ts_token_deltas_sha256 reference
         \<and> ts_logs_sha256 item = ts_logs_sha256 reference
         \<and> ts_post_state_sha256 item = ts_post_state_sha256 reference
         \<and> ts_coinbase_payment item = ts_coinbase_payment reference
         \<and> ts_error_code item = ts_error_code reference) (tl simulations))"

subsection \<open>Unsigned packages\<close>

record unsigned_package =
  up_net_profit_evidence :: net_evidence
  up_call :: executor_call
  up_transaction :: unsigned_transaction
  up_bundle :: bundle_intent
  up_simulations :: "tx_simulation list"
  up_created_at_unix_ms :: int
  up_valid_until_unix_ms :: int
  up_package_id :: string
  up_digest :: string

definition UnsignedExecutionPackageEvidence_to_json :: "unsigned_package \<Rightarrow> json result" where
  "UnsignedExecutionPackageEvidence_to_json self =
    jobj
    [(''schema'', jtext UNSIGNED_PACKAGE_SCHEMA),
     (''package_id'', jtext (up_package_id self)),
     (''net_profit_evidence'', ConservativeNetProfitEvidence_to_json (up_net_profit_evidence self)),
     (''net_profit_evidence_sha256'', jstr (ne_digest (up_net_profit_evidence self))),
     (''call'', GovernedExecutorCall_to_json (up_call self)),
     (''call_sha256'', jstr (gc_digest (up_call self))),
     (''transaction'', UnsignedEip1559Transaction_to_json (up_transaction self)),
     (''transaction_sha256'', jstr (ut_digest (up_transaction self))),
     (''bundle'', PrivateBundleIntent_to_json (up_bundle self)),
     (''bundle_sha256'', jstr (bi_digest (up_bundle self))),
     (''simulations'', Inr (JArr (map TransactionSimulationResult_to_json (up_simulations self)))),
     (''simulation_sha256'', Inr (JArr (map (\<lambda>item. JStr (ts_digest item)) (up_simulations self)))),
     (''created_at_unix_ms'', jint (up_created_at_unix_ms self)),
     (''valid_until_unix_ms'', jint (up_valid_until_unix_ms self)),
     (''package_authority'', jtext ''offline-unsigned-transaction-bound-shadow-only''),
     (''private_delivery_intent'', jbool True),
     (''signature_present'', jbool False),
     (''relay_credentials_present'', jbool False),
     (''signing_authority'', jtext ''none''),
     (''submission_authority'', jtext ''none''),
     (''signing_eligible'', jbool False),
     (''submission_eligible'', jbool False),
     (''execution_eligible'', jbool False),
     (''inclusion_guarantee'', jbool False)]"

definition UnsignedExecutionPackageEvidence_post_init :: "unsigned_package \<Rightarrow> unsigned_package
    result" where
  "UnsignedExecutionPackageEvidence_post_init self =
    (if \<not> (2 \<le> length (up_simulations self)
        \<and> length (up_simulations self) \<le> MAX_SIMULATIONS)
     then Inl (ValueError ''two to eight transaction simulations are required'')
     else
     let ordered = sort_key (\<lambda>item. (ts_engine_id item, ts_engine_implementation_sha256 item,
         ts_digest item)) (up_simulations self) in
     let self = self\<lparr>up_simulations := ordered\<rparr> in
     rbind (require_time ''created_at_unix_ms'' (up_created_at_unix_ms self)) (\<lambda>_.
     let evidence = up_net_profit_evidence self in
     if \<not> pa_approved (ne_decision evidence)
     then Inl (ValueError ''unsigned execution package requires approved F4 shadow economics'')
     else
     rbind (ne_digest (gc_net_profit_evidence (up_call self))) (\<lambda>digest.
     rbind (ne_digest evidence) (\<lambda>digest1.
     if digest \<noteq> digest1
     then Inl (ValueError ''executor call does not bind the exact F4 evidence'')
     else
     rbind (gc_digest (ut_call (up_transaction self))) (\<lambda>digest2.
     rbind (gc_digest (up_call self)) (\<lambda>digest3.
     if digest2 \<noteq> digest3
     then Inl (ValueError ''unsigned transaction does not bind the exact executor call'')
     else
     if length (bi_transactions (up_bundle self)) \<noteq> 1
     then Inl (ValueError ''F5 package requires exactly the bound unsigned transaction'')
     else
     rbind (ut_digest (hd (bi_transactions (up_bundle self)))) (\<lambda>digest4.
     rbind (ut_digest (up_transaction self)) (\<lambda>digest5.
     if digest4 \<noteq> digest5
     then Inl (ValueError ''F5 package requires exactly the bound unsigned transaction'')
     else if up_created_at_unix_ms self < bi_created_at_unix_ms (up_bundle self)
     then Inl (ValueError ''unsigned execution package cannot precede its bundle intent'')
     else if bi_inputs_valid_until_unix_ms (up_bundle self) < up_created_at_unix_ms self
     then Inl (ValueError ''bundle inputs are expired at package creation'')
     else if \<not> transaction_simulations_agree (up_simulations self)
     then Inl (ValueError ''transaction simulations do not provide independent exact agreement'')
     else
     let reference = hd (up_simulations self) in
     rbind (ss_anchor_sha256 (ut_sender_state (up_transaction self))) (\<lambda>expected_anchor.
     rbind (rall (\<lambda>item.
       if ts_observed_at_unix_ms item < bi_created_at_unix_ms (up_bundle self)
         then Inl (ValueError ''transaction simulation cannot precede its bundle intent'')
         else
         rbind (ts_is_valid_at item (up_created_at_unix_ms self)) (\<lambda>is_valid_at.
         if \<not> is_valid_at
         then Inl (ValueError ''transaction simulation is not valid at package creation'')
         else
         Inr ())) (up_simulations self)) (\<lambda>_.
     if ts_state_anchor_sha256 reference \<noteq> expected_anchor
     then Inl (ValueError ''transaction simulation does not bind the exact state anchor'')
     else
     rbind (ut_digest (up_transaction self)) (\<lambda>digest6.
     if ts_transaction_sha256 reference \<noteq> digest6
     then Inl (ValueError ''transaction simulation does not bind the exact unsigned transaction'')
     else if ts_transaction_signing_hash reference \<noteq> ut_signing_hash_hex (up_transaction self)
     then Inl (ValueError ''transaction simulation signing hash mismatch'')
     else
     rbind (bi_digest (up_bundle self)) (\<lambda>digest7.
     if ts_bundle_sha256 reference \<noteq> digest7
     then Inl (ValueError ''transaction simulation does not bind the exact bundle intent'')
     else if \<not> (bi_target_block_number (up_bundle self) \<le> ts_simulated_block_number reference
         \<and> ts_simulated_block_number reference \<le> bi_maximum_block_number (up_bundle self))
     then Inl (ValueError ''transaction simulation block is outside the bundle target range'')
     else
     rbind (EvmHead_from_observation (an_head_observation (ev_anchor (ss_evidence (ut_sender_state
         (up_transaction self)))))) (\<lambda>anchor_head.
     if ts_simulated_block_timestamp_unix_s reference \<le> eh_block_timestamp_unix_s anchor_head
     then Inl (ValueError ''transaction simulation block timestamp must follow the authenticated anchor block'')
     else if gc_deadline_unix_s (up_call self) < ts_simulated_block_timestamp_unix_s reference
     then Inl (ValueError ''transaction simulation block timestamp exceeds the executor deadline'')
     else if ut_max_fee_per_gas (up_transaction self) < ts_simulated_base_fee_per_gas reference
     then Inl (ValueError ''transaction simulation base fee exceeds the transaction max fee'')
     else if ts_gas_used reference < ut_intrinsic_gas (up_transaction self)
     then Inl (ValueError ''transaction simulation gas is below the canonical intrinsic gas floor'')
     else if ut_gas_limit (up_transaction self) < ts_gas_used reference
     then Inl (ValueError ''transaction simulation gas exceeds unsigned transaction gas limit'')
     else
     let operator_fee_upper_bound
         = fe_operator_fee_upper_bound (ce_fee_envelope (ne_cost_envelope evidence)) in
     if operator_fee_upper_bound < ts_operator_fee_paid reference
     then Inl (ValueError ''transaction simulation operator fee exceeds the recorded upper bound'')
     else
     let expected_output = rq_amount_out (op_route_quote (pl_opportunity (ne_plan evidence))) in
     if ts_output_amount reference \<noteq> expected_output
     then Inl (ValueError ''transaction simulation output disagrees with exact F4 route output'')
     else if Some (ts_base_token reference) \<noteq> ai_address (pl_base_asset (ne_plan evidence))
     then Inl (ValueError ''transaction simulation output asset is not the exact F4 base token'')
     else if ts_flash_loan_principal_repaid reference \<noteq> fu_principal (pl_funding (ne_plan evidence))
     then Inl (ValueError ''transaction simulation principal repayment disagrees with the F4 funding plan'')
     else if ts_flash_loan_fee_paid reference \<noteq> fu_fee (pl_funding (ne_plan evidence))
     then Inl (ValueError ''transaction simulation flash-loan fee disagrees with the F4 funding plan'')
     else if ts_base_token_residual_before_external_costs reference \<noteq> residual_before_external_costs
         (ne_plan evidence)
     then Inl (ValueError ''transaction simulation residual disagrees with the F4 execution plan'')
     else if ts_base_token_beneficiary reference \<noteq> ut_sender (up_transaction self)
     then Inl (ValueError ''transaction simulation base-token beneficiary is not the authenticated sender'')
     else if ts_base_token_beneficiary_delta reference \<noteq> residual_before_external_costs (ne_plan
         evidence)
     then Inl (ValueError ''transaction simulation beneficiary delta disagrees with the F4 residual'')
     else if ts_output_amount reference < gc_minimum_final_output (up_call self)
     then Inl (ValueError ''transaction simulation output violates the governed minimum'')
     else if ut_value (up_transaction self) < ts_coinbase_payment reference
     then Inl (ValueError ''transaction simulation coinbase payment exceeds the recorded direct payment'')
     else
     let valid_until = min_of ([bi_inputs_valid_until_unix_ms (up_bundle self)] @ map
         ts_valid_until_unix_ms (up_simulations self)) in
     let self = self\<lparr>up_valid_until_unix_ms := valid_until\<rparr> in
     rbind (jsha (jobj
         [(''schema'', jtext UNSIGNED_PACKAGE_SCHEMA),
          (''net_profit_evidence_sha256'', jstr (ne_digest evidence)),
          (''call_sha256'', jstr (gc_digest (up_call self))),
          (''transaction_sha256'', jstr (ut_digest (up_transaction self))),
          (''bundle_sha256'', jstr (bi_digest (up_bundle self))),
          (''simulation_sha256'', Inr (JArr (map (\<lambda>item. JStr (ts_digest item)) ordered))),
          (''created_at_unix_ms'', jint (up_created_at_unix_ms self)),
          (''valid_until_unix_ms'', jint valid_until)])) (\<lambda>digest8.
     let self = self\<lparr>up_package_id := ''unsigned-package-'' @ digest8\<rparr> in
     rbind (UnsignedExecutionPackageEvidence_to_json self) (\<lambda>payload.
     rbind (canonical_json_bytes payload) (\<lambda>_.
     rbind (canonical_sha256 payload) (\<lambda>digest9.
     let self = self\<lparr>up_digest := digest9\<rparr> in
    Inr self)))))))))))))))))"

end
