(* ===== verification/Relay_Evidence.thy ===== *)
theory Relay_Evidence
  imports Signed_Transaction Execution_Package
begin

text \<open>
  \<open>src/aladdin_mev_engine/relay_evidence.py\<close>: the relay endpoints and their registry, the request
  with its JSON-RPC payload, recorded responses, and the externally signed package. Nothing is
  sent: the request is evidence.
\<close>

definition RELAY_ENDPOINT_SCHEMA :: string where "RELAY_ENDPOINT_SCHEMA = ''aladdin-mev-relay-endpoint-spec/v1''"
definition RELAY_REGISTRY_SCHEMA :: string where "RELAY_REGISTRY_SCHEMA = ''aladdin-mev-relay-endpoint-registry/v1''"
definition RELAY_REQUEST_SCHEMA :: string where "RELAY_REQUEST_SCHEMA = ''aladdin-mev-relay-submission-request/v1''"
definition RELAY_RESPONSE_SCHEMA :: string where "RELAY_RESPONSE_SCHEMA = ''aladdin-mev-relay-response-evidence/v1''"
definition SIGNED_PACKAGE_SCHEMA :: string where "SIGNED_PACKAGE_SCHEMA = ''aladdin-mev-externally-signed-execution-package/v1''"
definition MAX_RELAY_ENDPOINTS :: nat where "MAX_RELAY_ENDPOINTS = 64"
definition MAX_RELAY_RESPONSES :: nat where "MAX_RELAY_RESPONSES = 8"

datatype relay_protocol = NORMALIZED_PRIVATE_BUNDLE_V1

fun relay_protocol_value :: "relay_protocol \<Rightarrow> string" where
  "relay_protocol_value NORMALIZED_PRIVATE_BUNDLE_V1 = ''normalized-private-bundle-v1''"

datatype response_status = ACCEPTED | REJECTED | RELAY_ERROR

fun response_status_value :: "response_status \<Rightarrow> string" where
  "response_status_value ACCEPTED = ''accepted''"
| "response_status_value REJECTED = ''rejected''"
| "response_status_value RELAY_ERROR = ''error''"

subsection \<open>Endpoints\<close>

record relay_endpoint =
  re_endpoint_id :: string
  re_chain :: chain
  re_delivery_class :: delivery_class
  re_maximum_transactions :: int
  re_supports_replacement :: bool
  re_requires_authentication :: bool
  re_protocol :: relay_protocol
  re_digest :: string

definition RelayEndpointSpec_to_json :: "relay_endpoint \<Rightarrow> json" where
  "RelayEndpointSpec_to_json self =
    JObj
    [(''schema'', JStr RELAY_ENDPOINT_SCHEMA),
     (''endpoint_id'', JStr (re_endpoint_id self)),
     (''chain'', JStr (chain_value (re_chain self))),
     (''delivery_class'', JStr (delivery_class_value (re_delivery_class self))),
     (''protocol'', JStr (relay_protocol_value (re_protocol self))),
     (''maximum_transactions'', JStr (str_of_int (re_maximum_transactions self))),
     (''supports_replacement'', JBool (re_supports_replacement self)),
     (''requires_authentication'', JBool (re_requires_authentication self)),
     (''endpoint_url_present'', JBool False),
     (''credential_present'', JBool False),
     (''production_approval'', JBool False)]"

definition RelayEndpointSpec_post_init :: "relay_endpoint \<Rightarrow> relay_endpoint result" where
  "RelayEndpointSpec_post_init self =
    rbind (require_bounded_text ''endpoint_id'' (re_endpoint_id self) 128) (\<lambda>_.
    if re_chain self \<notin> {ETHEREUM, BASE}
    then Inl (ValueError ''F6 relay endpoints support Ethereum and Base only'')
    else
    let expected = (if re_chain self = ETHEREUM then BUILDER else SEQUENCER) in
    if re_delivery_class self \<noteq> expected
    then Inl (ValueError ''relay delivery class does not match its chain'')
    else if \<not> (1 \<le> re_maximum_transactions self
        \<and> re_maximum_transactions self \<le> int (MAX_BUNDLE_TRANSACTIONS))
    then Inl (ValueError ''maximum_transactions is outside the governed range'')
    else
    let payload = RelayEndpointSpec_to_json self in
    rbind (canonical_json_bytes payload) (\<lambda>_.
    rbind (canonical_sha256 payload) (\<lambda>digest.
    let self = self\<lparr>re_digest := digest\<rparr> in
    Inr self)))"

subsection \<open>The registry\<close>

record relay_registry =
  rr_registry_id :: string
  rr_endpoints :: "relay_endpoint list"
  rr_endpoint_sha256 :: "string list"
  rr_digest :: string

definition RelayEndpointRegistry_to_json :: "relay_registry \<Rightarrow> json" where
  "RelayEndpointRegistry_to_json self =
    JObj
    [(''schema'', JStr RELAY_REGISTRY_SCHEMA),
     (''registry_id'', JStr (rr_registry_id self)),
     (''endpoints'', JArr (map RelayEndpointSpec_to_json (rr_endpoints self))),
     (''endpoint_sha256'', JArr (map JStr (rr_endpoint_sha256 self))),
     (''registry_authority'', JStr ''explicit-offline-evidence-only-not-production-approval'')]"

definition RelayEndpointRegistry_post_init :: "relay_registry \<Rightarrow> relay_registry result" where
  "RelayEndpointRegistry_post_init self =
    rbind (require_bounded_text ''registry_id'' (rr_registry_id self) 128) (\<lambda>_.
    if rr_endpoints self = []
    then Inl (TypeError ''endpoints must be a non-empty exact tuple'')
    else if MAX_RELAY_ENDPOINTS < length (rr_endpoints self)
    then Inl (ValueError ''relay endpoint registry exceeds the governed ceiling'')
    else
    let ordered = sort_key (\<lambda>item. (re_endpoint_id item, re_digest item)) (rr_endpoints self) in
    let self = self\<lparr>rr_endpoints := ordered\<rparr> in
    let ids = map re_endpoint_id ordered in
    if has_duplicate ids
    then Inl (ValueError ''relay endpoint id cannot authorize conflicting specifications'')
    else
    let self = self\<lparr>rr_endpoint_sha256 := map re_digest ordered\<rparr> in
    let payload = RelayEndpointRegistry_to_json self in
    rbind (canonical_json_bytes payload) (\<lambda>_.
    rbind (canonical_sha256 payload) (\<lambda>digest.
    let self = self\<lparr>rr_digest := digest\<rparr> in
    Inr self)))"

definition rr_resolve :: "relay_registry \<Rightarrow> string \<Rightarrow> relay_endpoint result" where
  "rr_resolve self endpoint_id =
    rbind (require_bounded_text ''endpoint_id'' endpoint_id 128) (\<lambda>_.
    case find (\<lambda>item. re_endpoint_id item = endpoint_id) (rr_endpoints self) of
      Some item \<Rightarrow> Inr item
    | None \<Rightarrow> Inl (ValueError ''relay endpoint id is absent from the registry''))"

subsection \<open>Requests\<close>

record relay_request =
  rqs_registry :: relay_registry
  rqs_endpoint_id :: string
  rqs_signed_bundle :: signed_bundle
  rqs_request_id :: string
  rqs_created_at_unix_ms :: int
  rqs_endpoint :: relay_endpoint
  rqs_request_payload_bytes :: bytes
  rqs_request_payload_sha256 :: string
  rqs_request_id_digest :: string
  rqs_registry_sha256 :: string
  rqs_endpoint_sha256 :: string
  rqs_signed_bundle_sha256 :: string
  rqs_digest :: string

definition rqs_request_payload :: "relay_request \<Rightarrow> json result" where
  "rqs_request_payload self =
    rbind (strict_json_loads (rqs_request_payload_bytes self)) (\<lambda>v.
    case v of JObj _ \<Rightarrow> Inr v
    | _ \<Rightarrow> Inl (RuntimeError ''governed relay request payload lost its object shape''))"

definition rqs_relay_request_id :: "relay_request \<Rightarrow> string" where
  "rqs_relay_request_id self =
    rqs_request_id_digest self"

definition rqs_inputs_valid_until_unix_ms :: "relay_request \<Rightarrow> int" where
  "rqs_inputs_valid_until_unix_ms self =
    sb_inputs_valid_until_unix_ms (rqs_signed_bundle self)"

definition RelaySubmissionRequestEvidence_to_json :: "relay_request \<Rightarrow> json result" where
  "RelaySubmissionRequestEvidence_to_json self =
    jobj
    [(''schema'', jtext RELAY_REQUEST_SCHEMA),
     (''relay_request_id'', jtext (rqs_relay_request_id self)),
     (''registry_sha256'', jtext (rqs_registry_sha256 self)),
     (''endpoint'', Inr (RelayEndpointSpec_to_json (rqs_endpoint self))),
     (''endpoint_sha256'', jtext (rqs_endpoint_sha256 self)),
     (''signed_bundle_sha256'', jtext (rqs_signed_bundle_sha256 self)),
     (''request_payload'', rqs_request_payload self),
     (''request_payload_sha256'', jtext (rqs_request_payload_sha256 self)),
     (''created_at_unix_ms'', jint (rqs_created_at_unix_ms self)),
     (''inputs_valid_until_unix_ms'', jint (rqs_inputs_valid_until_unix_ms self)),
     (''credential_present'', jbool False),
     (''local_network_dispatched'', jbool False),
     (''submission_authority'', jtext ''none''),
     (''submission_eligible'', jbool False),
     (''inclusion_guarantee'', jbool False)]"

text \<open>\<open>hex(n)\<close> of a natural number, and the JSON-RPC payload of the request.\<close>

definition py_hex :: "int \<Rightarrow> string" where
  "py_hex n = ''0x'' @ hex_of_nat (nat n)"

definition relay_payload :: "string \<Rightarrow> relay_endpoint \<Rightarrow> signed_bundle \<Rightarrow> json" where
  "relay_payload request_id endpoint bundle = JObj
    [(''jsonrpc'', JStr ''2.0''),
     (''id'', JStr request_id),
     (''method'', JStr ''aladdin_submitPrivateBundle''),
     (''params'', JArr [JObj
       [(''protocol'', JStr (relay_protocol_value (re_protocol endpoint))),
        (''transactions'', JArr (map (\<lambda>item. JStr (''0x'' @ bytes_hex item)) (sb_raw_transactions bundle))),
        (''target_block_number'', JStr (py_hex (bi_target_block_number (sb_unsigned_bundle bundle)))),
        (''maximum_block_number'', JStr (py_hex (bi_maximum_block_number (sb_unsigned_bundle bundle)))),
        (''replacement_id'', JNull)]])]"

definition RelaySubmissionRequestEvidence_post_init :: "relay_request \<Rightarrow> relay_request result"
    where
  "RelaySubmissionRequestEvidence_post_init self =
    rbind (require_bounded_text ''request_id'' (rqs_request_id self) 128) (\<lambda>_.
    rbind (require_time ''created_at_unix_ms'' (rqs_created_at_unix_ms self)) (\<lambda>_.
    rbind (rr_resolve (rqs_registry self) (rqs_endpoint_id self)) (\<lambda>endpoint.
    let bundle = rqs_signed_bundle self in
    if re_chain endpoint \<noteq> bi_chain (sb_unsigned_bundle bundle)
    then Inl (ValueError ''relay endpoint chain does not match the signed bundle'')
    else if re_delivery_class endpoint \<noteq> bi_delivery_class (sb_unsigned_bundle bundle)
    then Inl (ValueError ''relay endpoint delivery class does not match the signed bundle'')
    else if re_maximum_transactions endpoint < int (length (sb_signed_transactions bundle))
    then Inl (ValueError ''signed bundle exceeds the relay endpoint transaction ceiling'')
    else if rqs_created_at_unix_ms self < sb_created_at_unix_ms bundle
    then Inl (ValueError ''relay request cannot predate the signed bundle'')
    else if sb_inputs_valid_until_unix_ms bundle < rqs_created_at_unix_ms self
    then Inl (ValueError ''signed bundle inputs expired before relay-request construction'')
    else
    let payload = relay_payload (rqs_request_id self) endpoint bundle in
    rbind (canonical_json_bytes payload) (\<lambda>payload_bytes.
    rbind (canonical_sha256 payload) (\<lambda>payload_sha256.
    let registry_sha256 = rr_digest (rqs_registry self) in
    let endpoint_sha256 = re_digest endpoint in
    let signed_bundle_sha256 = sb_digest bundle in
    rbind (canonical_sha256 (JObj
        [(''schema'', JStr RELAY_REQUEST_SCHEMA),
         (''registry_sha256'', JStr registry_sha256),
         (''endpoint_sha256'', JStr endpoint_sha256),
         (''signed_bundle_sha256'', JStr signed_bundle_sha256),
         (''request_payload_sha256'', JStr payload_sha256),
         (''created_at_unix_ms'',
             JStr (str_of_int (rqs_created_at_unix_ms self)))])) (\<lambda>request_digest.
    let self = self\<lparr>rqs_endpoint := endpoint,
                        rqs_registry_sha256 := registry_sha256,
                        rqs_endpoint_sha256 := endpoint_sha256,
                        rqs_signed_bundle_sha256 := signed_bundle_sha256,
                        rqs_request_payload_bytes := payload_bytes,
                        rqs_request_payload_sha256 := payload_sha256,
                        rqs_request_id_digest := ''relay-request-'' @ request_digest\<rparr> in
    rbind (RelaySubmissionRequestEvidence_to_json self) (\<lambda>value.
    rbind (canonical_json_bytes value) (\<lambda>_.
    rbind (canonical_sha256 value) (\<lambda>digest3.
    let self = self\<lparr>rqs_digest := digest3\<rparr> in
    Inr self)))))))))"

subsection \<open>Responses\<close>

record relay_response =
  rsp_request :: relay_request
  rsp_status :: response_status
  rsp_observed_at_unix_ms :: int
  rsp_response_source_id :: string
  rsp_response_source_sha256 :: string
  rsp_relay_reference :: "string option"
  rsp_error_code :: "string option"
  rsp_error_message :: "string option"
  rsp_request_sha256 :: string
  rsp_digest :: string

definition rsp_relay_acceptance_observed :: "relay_response \<Rightarrow> bool" where
  "rsp_relay_acceptance_observed self =
    (rsp_status self = ACCEPTED)"

definition RelayResponseEvidence_to_json :: "relay_response \<Rightarrow> json" where
  "RelayResponseEvidence_to_json self =
    JObj
    [(''schema'', JStr RELAY_RESPONSE_SCHEMA),
     (''request_sha256'', JStr (rsp_request_sha256 self)),
     (''endpoint_id'', JStr (re_endpoint_id (rqs_endpoint (rsp_request self)))),
     (''status'', JStr (response_status_value (rsp_status self))),
     (''observed_at_unix_ms'', JStr (str_of_int (rsp_observed_at_unix_ms self))),
     (''response_source_id'', JStr (rsp_response_source_id self)),
     (''response_source_sha256'', JStr (rsp_response_source_sha256 self)),
     (''relay_reference'', optional_text (rsp_relay_reference self)),
     (''error_code'', optional_text (rsp_error_code self)),
     (''error_message'', optional_text (rsp_error_message self)),
     (''relay_acceptance_observed'', JBool (rsp_relay_acceptance_observed self)),
     (''inclusion_observed'', JBool False),
     (''inclusion_guarantee'', JBool False),
     (''response_authority'', JStr ''recorded-input-only'')]"

definition RelayResponseEvidence_post_init :: "relay_response \<Rightarrow> relay_response result" where
  "RelayResponseEvidence_post_init self =
    rbind (require_time ''observed_at_unix_ms'' (rsp_observed_at_unix_ms self)) (\<lambda>_.
    rbind (require_bounded_text ''response_source_id'' (rsp_response_source_id self) 128) (\<lambda>_.
    rbind (require_sha256 ''response_source_sha256'' (rsp_response_source_sha256 self)) (\<lambda>_.
    if rsp_observed_at_unix_ms self < rqs_created_at_unix_ms (rsp_request self)
    then Inl (ValueError ''relay response cannot predate its request'')
    else if rqs_inputs_valid_until_unix_ms (rsp_request self) < rsp_observed_at_unix_ms self
    then Inl (ValueError ''relay response arrived after the request validity horizon'')
    else
    rbind (if rsp_status self = ACCEPTED
      then (case rsp_relay_reference self of
          None \<Rightarrow> Inl (ValueError ''accepted relay response requires a relay reference'')
        | Some reference \<Rightarrow>
            rbind (require_bounded_text ''relay_reference'' reference 256) (\<lambda>_.
            if rsp_error_code self \<noteq> None \<or> rsp_error_message self \<noteq> None
            then Inl (ValueError ''accepted relay response cannot carry an error'') else Inr ()))
      else if rsp_relay_reference self \<noteq> None
      then Inl (ValueError ''non-accepted relay response cannot carry a relay reference'')
      else (case (rsp_error_code self, rsp_error_message self) of
          (Some code, Some message) \<Rightarrow>
            rbind (require_bounded_text ''error_code'' code 128) (\<lambda>_.
            rbind (require_bounded_text ''error_message'' message 512) (\<lambda>_. Inr ()))
        | _ \<Rightarrow> Inl (ValueError ''rejected or error relay response requires exact error fields''))) (\<lambda>_.
    let self = self\<lparr>rsp_request_sha256 := rqs_digest (rsp_request self)\<rparr> in
    let value = RelayResponseEvidence_to_json self in
    rbind (canonical_json_bytes value) (\<lambda>_.
    rbind (canonical_sha256 value) (\<lambda>digest.
    let self = self\<lparr>rsp_digest := digest\<rparr> in
    Inr self))))))"

subsection \<open>Externally signed packages\<close>

record signed_package =
  xp_unsigned_package :: unsigned_package
  xp_signed_transaction :: signed_transaction
  xp_signed_bundle :: signed_bundle
  xp_relay_request :: relay_request
  xp_relay_responses :: "relay_response list"
  xp_created_at_unix_ms :: int
  xp_package_id :: string
  xp_valid_until_unix_ms :: int
  xp_unsigned_package_sha256 :: string
  xp_signed_transaction_sha256 :: string
  xp_signed_bundle_sha256 :: string
  xp_relay_request_sha256 :: string
  xp_relay_response_sha256 :: "string list"
  xp_digest :: string

definition xp_relay_acceptance_observed :: "signed_package \<Rightarrow> bool" where
  "xp_relay_acceptance_observed self =
    (list_ex rsp_relay_acceptance_observed (xp_relay_responses self))"

definition ExternallySignedExecutionPackageEvidence_to_json :: "signed_package \<Rightarrow> json" where
  "ExternallySignedExecutionPackageEvidence_to_json self =
    JObj
    [(''schema'', JStr SIGNED_PACKAGE_SCHEMA),
     (''package_id'', JStr (xp_package_id self)),
     (''unsigned_package_sha256'', JStr (xp_unsigned_package_sha256 self)),
     (''signed_transaction_sha256'', JStr (xp_signed_transaction_sha256 self)),
     (''signed_bundle_sha256'', JStr (xp_signed_bundle_sha256 self)),
     (''relay_request_sha256'', JStr (xp_relay_request_sha256 self)),
     (''relay_response_sha256'', JArr (map JStr (xp_relay_response_sha256 self))),
     (''transaction_hash'', JStr (sx_transaction_hash_hex (xp_signed_transaction self))),
     (''endpoint_id'', JStr (re_endpoint_id (rqs_endpoint (xp_relay_request self)))),
     (''created_at_unix_ms'', JStr (str_of_int (xp_created_at_unix_ms self))),
     (''valid_until_unix_ms'', JStr (str_of_int (xp_valid_until_unix_ms self))),
     (''package_authority'', JStr ''offline-external-signature-and-recorded-relay-evidence-only''),
     (''signature_present'', JBool True),
     (''private_key_present'', JBool False),
     (''relay_request_present'', JBool True),
     (''relay_acceptance_observed'', JBool (xp_relay_acceptance_observed self)),
     (''local_network_dispatched'', JBool False),
     (''signing_authority'', JStr ''external-unmodeled''),
     (''submission_authority'', JStr ''none''),
     (''inclusion_observed'', JBool False),
     (''signing_eligible'', JBool False),
     (''submission_eligible'', JBool False),
     (''execution_eligible'', JBool False),
     (''inclusion_guarantee'', JBool False)]"

definition ExternallySignedExecutionPackageEvidence_post_init :: "signed_package \<Rightarrow>
    signed_package result" where
  "ExternallySignedExecutionPackageEvidence_post_init self =
    (if MAX_RELAY_RESPONSES < length (xp_relay_responses self)
     then Inl (ValueError ''relay_responses must be an exact bounded tuple'')
     else
     let ordered = sort_key (\<lambda>item. (rsp_response_source_id item,
         rsp_digest item)) (xp_relay_responses self) in
     let self = self\<lparr>xp_relay_responses := ordered\<rparr> in
     rbind (require_time ''created_at_unix_ms'' (xp_created_at_unix_ms self)) (\<lambda>_.
     let unsigned_package_sha256 = up_digest (xp_unsigned_package self) in
     let signed_transaction_sha256 = sx_digest (xp_signed_transaction self) in
     let signed_bundle_sha256 = sb_digest (xp_signed_bundle self) in
     let relay_request_sha256 = rqs_digest (xp_relay_request self) in
     rbind (ut_digest (sx_unsigned_transaction (xp_signed_transaction self))) (\<lambda>digest.
     rbind (ut_digest (up_transaction (xp_unsigned_package self))) (\<lambda>digest1.
     if digest \<noteq> digest1
     then Inl (ValueError ''signed transaction does not bind the exact unsigned package transaction'')
     else
     rbind (bi_digest (sb_unsigned_bundle (xp_signed_bundle self))) (\<lambda>digest2.
     rbind (bi_digest (up_bundle (xp_unsigned_package self))) (\<lambda>digest3.
     if digest2 \<noteq> digest3
     then Inl (ValueError ''signed bundle does not bind the exact unsigned package bundle'')
     else if length (sb_signed_transactions (xp_signed_bundle self)) \<noteq> 1
         \<or> sx_digest (hd (sb_signed_transactions (xp_signed_bundle self))) \<noteq>
         signed_transaction_sha256
     then Inl (ValueError ''F6 package requires exactly the bound signed transaction'')
     else if sb_digest (rqs_signed_bundle (xp_relay_request self)) \<noteq> signed_bundle_sha256
     then Inl (ValueError ''relay request does not bind the exact signed bundle'')
     else if xp_created_at_unix_ms self < rqs_created_at_unix_ms (xp_relay_request self)
     then Inl (ValueError ''externally signed package cannot predate the relay request'')
     else
     let valid_until = min_of [up_valid_until_unix_ms (xp_unsigned_package self),
         sx_inputs_valid_until_unix_ms (xp_signed_transaction self),
         sb_inputs_valid_until_unix_ms (xp_signed_bundle self),
         rqs_inputs_valid_until_unix_ms (xp_relay_request self)] in
     if valid_until < xp_created_at_unix_ms self
     then Inl (ValueError ''externally signed package inputs are expired'')
     else
     rbind (rfold (\<lambda>(seen_source_ids, seen_source_digests) response.
       if rqs_digest (rsp_request response) \<noteq> relay_request_sha256
       then Inl (ValueError ''relay response does not bind the exact request'')
       else if xp_created_at_unix_ms self < rsp_observed_at_unix_ms response
       then Inl (ValueError ''externally signed package cannot predate a relay response'')
       else if rsp_response_source_id response \<in> seen_source_ids
       then Inl (ValueError ''duplicate relay-response source id'')
       else if rsp_response_source_sha256 response \<in> seen_source_digests
       then Inl (ValueError ''duplicate relay-response source digest'')
       else Inr (insert (rsp_response_source_id response) seen_source_ids,
         insert (rsp_response_source_sha256 response) seen_source_digests)) ({}, {}) ordered) (\<lambda>_.
     let relay_response_sha256 = map rsp_digest ordered in
     let self = self\<lparr>xp_valid_until_unix_ms := valid_until,
                         xp_unsigned_package_sha256 := unsigned_package_sha256,
                         xp_signed_transaction_sha256 := signed_transaction_sha256,
                         xp_signed_bundle_sha256 := signed_bundle_sha256,
                         xp_relay_request_sha256 := relay_request_sha256,
                         xp_relay_response_sha256 := relay_response_sha256\<rparr> in
     rbind (canonical_sha256 (JObj
         [(''schema'', JStr SIGNED_PACKAGE_SCHEMA),
          (''unsigned_package_sha256'', JStr unsigned_package_sha256),
          (''signed_transaction_sha256'', JStr signed_transaction_sha256),
          (''signed_bundle_sha256'', JStr signed_bundle_sha256),
          (''relay_request_sha256'', JStr relay_request_sha256),
          (''relay_response_sha256'', JArr (map JStr relay_response_sha256)),
          (''created_at_unix_ms'', JStr (str_of_int (xp_created_at_unix_ms self))),
          (''valid_until_unix_ms'', JStr (str_of_int valid_until))])) (\<lambda>digest4.
     let self = self\<lparr>xp_package_id := ''externally-signed-package-'' @ digest4\<rparr> in
     let value = ExternallySignedExecutionPackageEvidence_to_json self in
     rbind (canonical_json_bytes value) (\<lambda>_.
     rbind (canonical_sha256 value) (\<lambda>digest5.
     let self = self\<lparr>xp_digest := digest5\<rparr> in
    Inr self))))))))))"

end
