(* ===== verification/Evm_Receipt.thy ===== *)
theory Evm_Receipt
  imports Evm_Abi Rlp
begin

text \<open>
  \<open>src/aladdin_mev_engine/evm_receipt.py\<close>: log entries, the bloom filter and the digest of the
  logs, and transaction receipts, whose raw bytes are decoded and re-encoded exactly.
\<close>

definition LOG_ENTRY_SCHEMA :: string where "LOG_ENTRY_SCHEMA = ''aladdin-mev-evm-log-entry/v1''"
definition RECEIPT_SCHEMA :: string where "RECEIPT_SCHEMA = ''aladdin-mev-transaction-receipt/v1''"
definition EIP1559_TRANSACTION_TYPE :: int where "EIP1559_TRANSACTION_TYPE = 2"
definition MAX_RECEIPT_BYTES :: nat where "MAX_RECEIPT_BYTES = 1048576"
definition MAX_RECEIPT_LOGS :: nat where "MAX_RECEIPT_LOGS = 1024"
definition MAX_LOG_TOPICS :: nat where "MAX_LOG_TOPICS = 4"
definition MAX_LOG_DATA_BYTES :: nat where "MAX_LOG_DATA_BYTES = 262144"
definition LOGS_BLOOM_BYTES :: nat where "LOGS_BLOOM_BYTES = 256"

unbundle bit_operations_syntax

definition require_log_address :: "string \<Rightarrow> bytes \<Rightarrow> unit result" where
  "require_log_address name v =
    (if length v \<noteq> 20 then Inl (ValueError (name @ '' must be an exact 20-byte address'')) else Inr ())"

subsection \<open>Log entries\<close>

record log_entry =
  lg_address :: bytes
  lg_topics :: "bytes list"
  lg_data :: bytes

definition lg_rlp_value :: "log_entry \<Rightarrow> rlp_item" where
  "lg_rlp_value self = RList [RBytes (lg_address self), RList (map RBytes (lg_topics self)), RBytes (lg_data self)]"

definition EvmLogEntry_to_json :: "log_entry \<Rightarrow> json" where
  "EvmLogEntry_to_json self =
    JObj
    [(''schema'', JStr LOG_ENTRY_SCHEMA),
     (''address'', JStr (to_hex_data (lg_address self))),
     (''topics'', JArr (map (\<lambda>item. JStr (to_hex_data item)) (lg_topics self))),
     (''data'', JStr (to_hex_data (lg_data self)))]"

definition lg_digest :: "log_entry \<Rightarrow> string" where
  "lg_digest self =
    json_sha256 (EvmLogEntry_to_json self)"

definition EvmLogEntry_post_init :: "log_entry \<Rightarrow> log_entry result" where
  "EvmLogEntry_post_init self =
    rbind (require_log_address ''log address'' (lg_address self)) (\<lambda>_.
    if MAX_LOG_TOPICS < length (lg_topics self)
    then Inl (ValueError ''log topic count exceeds the governed ceiling'')
    else if list_ex (\<lambda>item. length item \<noteq> 32) (lg_topics self)
    then Inl (ValueError ''log topics must be exact 32-byte values'')
    else if MAX_LOG_DATA_BYTES < length (lg_data self)
    then Inl (ValueError ''log data exceeds the governed byte ceiling'')
    else
    jchecked (Inr (EvmLogEntry_to_json self)) self)"

definition bloom_value :: "int \<Rightarrow> bytes \<Rightarrow> int" where
  "bloom_value bloom v =
    (let digest = keccak256 v in
     fold (\<lambda>offset bloom.
         let index = from_bytes_be (slice offset (offset + 2) digest) AND 2047 in
         bloom OR push_bit (nat index) 1)
       [0, 2, 4] bloom)"

definition compute_logs_bloom :: "log_entry list \<Rightarrow> bytes result" where
  "compute_logs_bloom logs =
    (if MAX_RECEIPT_LOGS < length logs
     then Inl (ValueError ''receipt log count exceeds the governed ceiling'')
     else
     let bloom = fold (\<lambda>entry bloom. fold (\<lambda>v bloom. bloom_value bloom v) (lg_address entry # lg_topics entry) bloom)
       logs 0 in
     Inr (to_bytes_be LOGS_BLOOM_BYTES bloom))"

text \<open>
  The digest of the array of logs, fed to the hash piece by piece: the state of the loop is what
  the hash object has been given so far, and the counted size.
\<close>

definition canonical_logs_sha256 :: "log_entry list \<Rightarrow> string result" where
  "canonical_logs_sha256 logs =
    (if MAX_RECEIPT_LOGS < length logs
     then Inl (ValueError ''receipt log count exceeds the governed ceiling'')
     else
     rbind (rfold (\<lambda>(digest, encoded_size) (index, item).
       rbind (canonical_json_bytes (EvmLogEntry_to_json item)) (\<lambda>encoded_item.
       let separator_size = (if index \<noteq> 0 then 1 else 0) in
       if DEFAULT_MAX_JSON_BYTES < encoded_size + separator_size + length encoded_item + 1
       then Inl (ValueError ''canonical receipt log array exceeds the governed byte ceiling'')
       else
       let (digest, encoded_size) =
         (if index \<noteq> 0 then (digest @ utf8_bytes '','', encoded_size + 1) else (digest, encoded_size)) in
       Inr (digest @ encoded_item, encoded_size + length encoded_item)))
       (utf8_bytes ''['', 1) (enumerate (0 :: nat) logs)) (\<lambda>(digest, _).
     Inr (bytes_hex (sha256 (digest @ utf8_bytes '']'')))))"

subsection \<open>Receipts\<close>

record receipt =
  rx_transaction_type :: "int option"
  rx_status :: int
  rx_cumulative_gas_used :: int
  rx_logs_bloom :: bytes
  rx_logs :: "log_entry list"
  rx_raw_receipt :: bytes
  rx_logs_sha256 :: string

definition rx_success :: "receipt \<Rightarrow> bool" where
  "rx_success self =
    (rx_status self = 1)"

definition EvmTransactionReceipt_to_json :: "receipt \<Rightarrow> json" where
  "EvmTransactionReceipt_to_json self =
    JObj
    [(''schema'', JStr RECEIPT_SCHEMA),
     (''transaction_type'',
         (case rx_transaction_type self of None \<Rightarrow> JNull | Some x \<Rightarrow> JStr (str_of_int
         x))),
     (''status'', JStr (str_of_int (rx_status self))),
     (''success'', JBool (rx_success self)),
     (''cumulative_gas_used'', JStr (str_of_int (rx_cumulative_gas_used self))),
     (''logs_bloom'', JStr (to_hex_data (rx_logs_bloom self))),
     (''logs'', JArr (map EvmLogEntry_to_json (rx_logs self))),
     (''log_sha256'', JArr (map (\<lambda>item. JStr (lg_digest item)) (rx_logs self))),
     (''logs_sha256'', JStr (rx_logs_sha256 self)),
     (''raw_receipt'', JStr (to_hex_data (rx_raw_receipt self)))]"

definition rx_digest :: "receipt \<Rightarrow> string" where
  "rx_digest self =
    json_sha256 (EvmTransactionReceipt_to_json self)"

definition EvmTransactionReceipt_post_init :: "receipt \<Rightarrow> receipt result" where
  "EvmTransactionReceipt_post_init self =
    rbind (case rx_transaction_type self of
        None \<Rightarrow> Inr ()
      | Some transaction_type \<Rightarrow>
          if \<not> (1 \<le> transaction_type \<and> transaction_type \<le> 0x7F)
          then Inl (ValueError ''typed receipt transaction_type must be in [1, 127]'') else Inr ()) (\<lambda>_.
    if rx_status self \<notin> {0, 1}
    then Inl (ValueError ''receipt status must be exactly zero or one'')
    else
    rbind (require_uint ''cumulative_gas_used'' (rx_cumulative_gas_used self) False) (\<lambda>_.
    if length (rx_logs_bloom self) \<noteq> LOGS_BLOOM_BYTES
    then Inl (ValueError ''logs_bloom must be exact immutable 256-byte data'')
    else if MAX_RECEIPT_LOGS < length (rx_logs self)
    then Inl (ValueError ''receipt log count exceeds the governed ceiling'')
    else if rx_raw_receipt self = []
    then Inl (ValueError ''raw_receipt must be non-empty exact immutable bytes'')
    else if MAX_RECEIPT_BYTES < length (rx_raw_receipt self)
    then Inl (ValueError ''raw_receipt exceeds the governed byte ceiling'')
    else
    rbind (compute_logs_bloom (rx_logs self)) (\<lambda>bloom.
    if bloom \<noteq> rx_logs_bloom self
    then Inl (ValueError ''receipt logs bloom does not match its exact logs'')
    else
    rbind (rlp_encode (RList
        [RBytes (if rx_status self = 0 then [] else [word_of_int (rx_status self)]),
         RBytes (if rx_cumulative_gas_used self = 0 then []
           else to_bytes_be ((bit_length (rx_cumulative_gas_used self) + 7) div 8) (rx_cumulative_gas_used self)),
         RBytes (rx_logs_bloom self),
         RList (map lg_rlp_value (rx_logs self))])) (\<lambda>payload.
    let expected = (case rx_transaction_type self of
        None \<Rightarrow> payload
      | Some transaction_type \<Rightarrow> word_of_int transaction_type # payload) in
    if expected \<noteq> rx_raw_receipt self
    then Inl (ValueError ''raw_receipt does not match the exact canonical receipt fields'')
    else
    rbind (canonical_logs_sha256 (rx_logs self)) (\<lambda>logs_sha256.
    let self = self\<lparr>rx_logs_sha256 := logs_sha256\<rparr> in
    jchecked (Inr (EvmTransactionReceipt_to_json self)) self)))))"

text \<open>
  Decoding: the type byte, the four fields, and one log at a time. The constructor then checks
  that the fields encode to the very bytes decoded.
\<close>

definition decode_log_entry :: "nat \<times> rlp_item \<Rightarrow> log_entry result" where
  "decode_log_entry item =
    (let (index, entry) = item; name = ''receipt log '' @ str_of_nat index in
     rbind (require_rlp_list name entry (Some 3)) (\<lambda>fields.
     rbind (require_rlp_bytes (name @ '' address'') (fields ! 0)) (\<lambda>address.
     rbind (require_rlp_list (name @ '' topics'') (fields ! 1) None) (\<lambda>topics_value.
     if MAX_LOG_TOPICS < length topics_value
     then Inl (ValueError ''receipt log topic count exceeds the governed ceiling'')
     else
     rbind (rmap (\<lambda>(topic_index, topic).
         let topic_name = name @ '' topic '' @ str_of_nat topic_index in
         rbind (require_rlp_bytes topic_name topic) (\<lambda>v.
         rbind (require_bytes32 topic_name v) (\<lambda>_. Inr v)))
       (enumerate 0 topics_value)) (\<lambda>topics.
     rbind (require_rlp_bytes (name @ '' data'') (fields ! 2)) (\<lambda>data.
     EvmLogEntry_post_init \<lparr>lg_address = address, lg_topics = topics, lg_data = data\<rparr>))))))"

definition EvmTransactionReceipt_decode :: "bytes \<Rightarrow> receipt result" where
  "EvmTransactionReceipt_decode raw_receipt =
    (if raw_receipt = []
     then Inl (ValueError ''raw_receipt must be non-empty exact immutable bytes'')
     else if MAX_RECEIPT_BYTES < length raw_receipt
     then Inl (ValueError ''raw_receipt exceeds the governed byte ceiling'')
     else
     rbind (if uint (hd raw_receipt) \<le> 0x7F
       then let transaction_type = uint (hd raw_receipt) in
         if transaction_type = 0
         then Inl (ValueError ''typed receipt transaction type zero is not governed'')
         else
         let encoded_payload = tl raw_receipt in
         if encoded_payload = []
         then Inl (ValueError ''typed receipt is missing its RLP payload'')
         else Inr (Some transaction_type, encoded_payload)
       else Inr (None, raw_receipt)) (\<lambda>(transaction_type, encoded_payload).
     rbind (rlp_decode encoded_payload) (\<lambda>decoded.
     rbind (require_rlp_list ''transaction receipt'' decoded (Some 4)) (\<lambda>fields.
     rbind (require_rlp_bytes ''receipt status'' (fields ! 0)) (\<lambda>encoded_status.
     rbind (rlp_decode_uint encoded_status 8) (\<lambda>status.
     if status \<noteq> 0 \<and> status \<noteq> 1
     then Inl (ValueError ''receipt status must be exactly zero or one'')
     else
     rbind (require_rlp_bytes ''receipt cumulative gas'' (fields ! 1)) (\<lambda>encoded_gas.
     rbind (rlp_decode_uint encoded_gas 256) (\<lambda>cumulative.
     rbind (require_rlp_bytes ''receipt logs bloom'' (fields ! 2)) (\<lambda>bloom.
     rbind (require_rlp_list ''receipt logs'' (fields ! 3) None) (\<lambda>logs_value.
     if MAX_RECEIPT_LOGS < length logs_value
     then Inl (ValueError ''receipt log count exceeds the governed ceiling'')
     else
     rbind (rmap decode_log_entry (enumerate 0 logs_value)) (\<lambda>logs.
     EvmTransactionReceipt_post_init
       \<lparr>rx_transaction_type = transaction_type, rx_status = status, rx_cumulative_gas_used = cumulative,
        rx_logs_bloom = bloom, rx_logs = logs, rx_raw_receipt = raw_receipt, rx_logs_sha256 = []\<rparr>)))))))))))"

end
