(* ===== verification/Execution_Outcome.thy ===== *)
theory Execution_Outcome
  imports Relay_Evidence Evm_Receipt
begin

text \<open>
  \<open>src/aladdin_mev_engine/execution_outcome.py\<close>: recorded and authenticated blocks, trie proofs of
  the transaction and its receipts, the inclusion evidence with the gas paid, settlement events
  and the registry of their specifications, and the realized outcome of a package.
\<close>

definition RECORDED_BLOCK_SCHEMA :: string where "RECORDED_BLOCK_SCHEMA = ''aladdin-mev-recorded-execution-block/v1''"
definition AUTHENTICATED_BLOCK_SCHEMA :: string where "AUTHENTICATED_BLOCK_SCHEMA = ''aladdin-mev-authenticated-execution-block/v1''"
definition INDEXED_TRIE_PROOF_SCHEMA :: string where "INDEXED_TRIE_PROOF_SCHEMA = ''aladdin-mev-indexed-trie-proof/v1''"
definition INCLUSION_SCHEMA :: string where "INCLUSION_SCHEMA = ''aladdin-mev-authenticated-transaction-receipt-inclusion/v1''"
definition SETTLEMENT_SPEC_SCHEMA :: string where "SETTLEMENT_SPEC_SCHEMA = ''aladdin-mev-executor-settlement-event-spec/v1''"
definition SETTLEMENT_REGISTRY_SCHEMA :: string where "SETTLEMENT_REGISTRY_SCHEMA = ''aladdin-mev-executor-settlement-event-registry/v1''"
definition SETTLEMENT_EVENT_SCHEMA :: string where "SETTLEMENT_EVENT_SCHEMA = ''aladdin-mev-executor-settlement-event/v1''"
definition ROLLUP_FEE_SCHEMA :: string where "ROLLUP_FEE_SCHEMA = ''aladdin-mev-recorded-rollup-fee/v1''"
definition REALIZED_OUTCOME_SCHEMA :: string where "REALIZED_OUTCOME_SCHEMA = ''aladdin-mev-realized-execution-outcome/v1''"
definition SETTLEMENT_EVENT_SIGNATURE :: string where "SETTLEMENT_EVENT_SIGNATURE = ''ExecutionSettled(bytes32,address,address,uint256,uint256,uint256,uint256,uint256)''"
definition SETTLEMENT_VALUE_SEMANTICS :: string where "SETTLEMENT_VALUE_SEMANTICS = ''msg-value-unused-balance-is-refunded-to-authenticated-sender''"
definition MAX_SETTLEMENT_REGISTRY_SIZE :: nat where "MAX_SETTLEMENT_REGISTRY_SIZE = 32"
definition MAX_TRIE_VALUE_BYTES :: nat where "MAX_TRIE_VALUE_BYTES = 1048576"

datatype trie_kind = TRANSACTION_TRIE | RECEIPT_TRIE | PREVIOUS_RECEIPT_TRIE

fun trie_kind_value :: "trie_kind \<Rightarrow> string" where
  "trie_kind_value TRANSACTION_TRIE = ''transaction''"
| "trie_kind_value RECEIPT_TRIE = ''receipt''"
| "trie_kind_value PREVIOUS_RECEIPT_TRIE = ''previous-receipt''"

definition require_exact_hash :: "string \<Rightarrow> bytes \<Rightarrow> unit result" where
  "require_exact_hash name v =
    (if length v \<noteq> 32 \<or> v = zero_bytes 32
     then Inl (ValueError (name @ '' must be a non-zero exact 32-byte hash'')) else Inr ())"

definition topic_address :: "string \<Rightarrow> bytes \<Rightarrow> bytes result" where
  "topic_address name v =
    (if length v \<noteq> 32 \<or> take 12 v \<noteq> zero_bytes 12
     then Inl (ValueError (name @ '' must be a canonical indexed EVM address topic''))
     else rbind (require_address name (drop 12 v)) (\<lambda>_. Inr (drop 12 v)))"

unbundle bit_operations_syntax

subsection \<open>Recorded blocks\<close>

record recorded_block =
  bk_chain :: chain
  bk_finality :: finality
  bk_block_number :: int
  bk_block_hash :: bytes
  bk_parent_hash :: bytes
  bk_state_root :: bytes
  bk_transactions_root :: bytes
  bk_receipts_root :: bytes
  bk_logs_bloom :: bytes
  bk_gas_used :: int
  bk_base_fee_per_gas :: int
  bk_block_timestamp_unix_s :: int
  bk_observed_at_unix_ms :: int
  bk_source_id :: string
  bk_source_sha256 :: string
  bk_raw_header :: bytes

definition RecordedExecutionBlockEvidence_to_json :: "recorded_block \<Rightarrow> json" where
  "RecordedExecutionBlockEvidence_to_json self =
    JObj
    [(''schema'', JStr RECORDED_BLOCK_SCHEMA),
     (''chain'', JStr (chain_value (bk_chain self))),
     (''finality'', JStr (finality_value (bk_finality self))),
     (''block_number'', JStr (str_of_int (bk_block_number self))),
     (''block_hash'', JStr (to_hex_data (bk_block_hash self))),
     (''parent_hash'', JStr (to_hex_data (bk_parent_hash self))),
     (''state_root'', JStr (to_hex_data (bk_state_root self))),
     (''transactions_root'', JStr (to_hex_data (bk_transactions_root self))),
     (''receipts_root'', JStr (to_hex_data (bk_receipts_root self))),
     (''logs_bloom'', JStr (to_hex_data (bk_logs_bloom self))),
     (''gas_used'', JStr (str_of_int (bk_gas_used self))),
     (''base_fee_per_gas'', JStr (str_of_int (bk_base_fee_per_gas self))),
     (''block_timestamp_unix_s'', JStr (str_of_int (bk_block_timestamp_unix_s self))),
     (''observed_at_unix_ms'', JStr (str_of_int (bk_observed_at_unix_ms self))),
     (''source_id'', JStr (bk_source_id self)),
     (''source_sha256'', JStr (bk_source_sha256 self)),
     (''raw_header'', JStr (to_hex_data (bk_raw_header self))),
     (''header_sha256'', JStr (bytes_hex (sha256 (bk_raw_header self)))),
     (''network_authority'', JStr ''recorded-input-only'')]"

definition bk_digest :: "recorded_block \<Rightarrow> string" where
  "bk_digest self =
    json_sha256 (RecordedExecutionBlockEvidence_to_json self)"

definition RecordedExecutionBlockEvidence_post_init :: "recorded_block \<Rightarrow> recorded_block result"
    where
  "RecordedExecutionBlockEvidence_post_init self =
    (if bk_chain self \<notin> {ETHEREUM, BASE}
     then Inl (ValueError ''F7 execution blocks support Ethereum and Base only'')
     else if bk_finality self \<notin> {CONFIRMED, FINALIZED}
     then Inl (ValueError ''execution block finality must be confirmed or finalized'')
     else
     rbind (require_time ''block_number'' (bk_block_number self)) (\<lambda>_.
     rbind (require_exact_hash ''block_hash'' (bk_block_hash self)) (\<lambda>_.
     rbind (require_exact_hash ''parent_hash'' (bk_parent_hash self)) (\<lambda>_.
     rbind (require_exact_hash ''state_root'' (bk_state_root self)) (\<lambda>_.
     rbind (require_exact_hash ''transactions_root'' (bk_transactions_root self)) (\<lambda>_.
     rbind (require_exact_hash ''receipts_root'' (bk_receipts_root self)) (\<lambda>_.
     if length (bk_logs_bloom self) \<noteq> 256
     then Inl (ValueError ''logs_bloom must be exact immutable 256-byte data'')
     else
     rbind (require_uint ''gas_used'' (bk_gas_used self) True) (\<lambda>_.
     rbind (require_uint ''base_fee_per_gas'' (bk_base_fee_per_gas self) False) (\<lambda>_.
     rbind (require_time ''block_timestamp_unix_s'' (bk_block_timestamp_unix_s self)) (\<lambda>_.
     rbind (require_time ''observed_at_unix_ms'' (bk_observed_at_unix_ms self)) (\<lambda>_.
     rbind (require_bounded_text ''source_id'' (bk_source_id self) 128) (\<lambda>_.
     rbind (require_sha256 ''source_sha256'' (bk_source_sha256 self)) (\<lambda>_.
     if bk_raw_header self = []
     then Inl (ValueError ''raw_header must be non-empty exact immutable bytes'')
     else
     rbind (rlp_decode (bk_raw_header self)) (\<lambda>rlp.
     rbind (require_rlp_list ''execution block header'' rlp None) (\<lambda>header.
     if \<not> (16 \<le> length header \<and> length header \<le> 24)
     then Inl (ValueError ''execution block header field count is outside the governed range'')
     else
     rbind (require_rlp_bytes ''header parent hash'' (header ! 0)) (\<lambda>parent_hash.
     rbind (require_rlp_bytes ''header state root'' (header ! 3)) (\<lambda>state_root.
     rbind (require_rlp_bytes ''header transactions root'' (header ! 4)) (\<lambda>transactions_root.
     rbind (require_rlp_bytes ''header receipts root'' (header ! 5)) (\<lambda>receipts_root.
     rbind (require_rlp_bytes ''header logs bloom'' (header ! 6)) (\<lambda>logs_bloom.
     if length logs_bloom \<noteq> 256
     then Inl (ValueError ''execution block header logs bloom must be exact 256-byte data'')
     else
     rbind (require_rlp_bytes ''header number'' (header ! 8)) (\<lambda>number_bytes.
     rbind (rlp_decode_uint number_bytes 64) (\<lambda>number.
     rbind (require_rlp_bytes ''header gas limit'' (header ! 9)) (\<lambda>limit_bytes.
     rbind (rlp_decode_uint limit_bytes 256) (\<lambda>gas_limit.
     rbind (require_rlp_bytes ''header gas used'' (header ! 10)) (\<lambda>used_bytes.
     rbind (rlp_decode_uint used_bytes 256) (\<lambda>gas_used.
     rbind (require_rlp_bytes ''header timestamp'' (header ! 11)) (\<lambda>timestamp_bytes.
     rbind (rlp_decode_uint timestamp_bytes 64) (\<lambda>timestamp.
     rbind (require_rlp_bytes ''header base fee'' (header ! 15)) (\<lambda>fee_bytes.
     rbind (rlp_decode_uint fee_bytes 256) (\<lambda>base_fee.
     if gas_limit < gas_used
     then Inl (ValueError ''execution block gas used exceeds the header gas limit'')
     else if keccak256 (bk_raw_header self) \<noteq> bk_block_hash self
     then Inl (ValueError ''recorded execution block hash is not the legacy-Keccak header hash'')
     else if parent_hash \<noteq> bk_parent_hash self \<or> state_root \<noteq> bk_state_root self
         \<or> transactions_root \<noteq> bk_transactions_root self
         \<or> receipts_root \<noteq> bk_receipts_root self \<or> logs_bloom \<noteq> bk_logs_bloom self
         \<or> number \<noteq> bk_block_number self \<or> gas_used \<noteq> bk_gas_used self
         \<or> timestamp \<noteq> bk_block_timestamp_unix_s self
         \<or> base_fee \<noteq> bk_base_fee_per_gas self
     then Inl (ValueError ''recorded execution block fields disagree with the canonical header'')
     else
     jchecked (Inr (RecordedExecutionBlockEvidence_to_json self)) self))))))))))))))))))))))))))))))"

subsection \<open>Authenticated blocks\<close>

record execution_block =
  ab_state_anchor :: block_state_anchor
  ab_block :: recorded_block

definition ab_chain :: "execution_block \<Rightarrow> chain" where
  "ab_chain self =
    bk_chain (ab_block self)"

definition ab_block_number :: "execution_block \<Rightarrow> int" where
  "ab_block_number self =
    bk_block_number (ab_block self)"

definition ab_block_hash :: "execution_block \<Rightarrow> bytes" where
  "ab_block_hash self =
    bk_block_hash (ab_block self)"

definition AuthenticatedExecutionBlockEvidence_to_json :: "execution_block \<Rightarrow> json result" where
  "AuthenticatedExecutionBlockEvidence_to_json self =
    jobj
    [(''schema'', jtext AUTHENTICATED_BLOCK_SCHEMA),
     (''state_anchor'', EvmBlockStateAnchor_to_json (ab_state_anchor self)),
     (''state_anchor_sha256'', jstr (EvmBlockStateAnchor_digest (ab_state_anchor self))),
     (''block'', Inr (RecordedExecutionBlockEvidence_to_json (ab_block self))),
     (''block_sha256'', jtext (bk_digest (ab_block self))),
     (''authentication_authority'', jtext ''state-root-and-recorded-header-cross-check-only'')]"

definition ab_digest :: "execution_block \<Rightarrow> string result" where
  "ab_digest self =
    jsha (AuthenticatedExecutionBlockEvidence_to_json self)"

definition AuthenticatedExecutionBlockEvidence_post_init :: "execution_block \<Rightarrow> execution_block
    result" where
  "AuthenticatedExecutionBlockEvidence_post_init self =
    (if bk_chain (ab_block self) \<noteq> an_chain (ab_state_anchor self)
     then Inl (ValueError ''recorded execution block chain disagrees with state anchor'')
     else if bk_finality (ab_block self) \<noteq> an_finality (ab_state_anchor self)
     then Inl (ValueError ''recorded execution block finality disagrees with state anchor'')
     else if bk_source_id (ab_block self) \<noteq> an_source_id (ab_state_anchor self)
     then Inl (ValueError ''recorded execution block source disagrees with state anchor'')
     else if bk_block_number (ab_block self) \<noteq> an_block_number (ab_state_anchor self)
     then Inl (ValueError ''recorded execution block number disagrees with state anchor'')
     else if bk_block_hash (ab_block self) \<noteq> an_block_hash (ab_state_anchor self)
     then Inl (ValueError ''recorded execution block hash disagrees with state anchor'')
     else if bk_state_root (ab_block self) \<noteq> an_state_root (ab_state_anchor self)
     then Inl (ValueError ''recorded execution state root disagrees with state anchor'')
     else
     rbind (EvmHead_from_observation (an_head_observation (ab_state_anchor self))) (\<lambda>head.
     if bk_parent_hash (ab_block self) \<noteq> bytes_fromhex (drop 2 (eh_parent_hash head))
     then Inl (ValueError ''recorded execution parent hash disagrees with block head'')
     else if bk_block_timestamp_unix_s (ab_block self) \<noteq> eh_block_timestamp_unix_s head
     then Inl (ValueError ''recorded execution timestamp disagrees with block head'')
     else if bk_observed_at_unix_ms (ab_block self) < an_state_observed_at (ab_state_anchor self)
     then Inl (ValueError ''recorded execution block predates its authenticated state anchor'')
     else
     jchecked (AuthenticatedExecutionBlockEvidence_to_json self) self))"

subsection \<open>Indexed trie proofs\<close>

record trie_proof =
  tp_kind :: trie_kind
  tp_index :: int
  tp_raw_value :: bytes
  tp_proof_nodes :: "bytes list"
  tp_observed_at_unix_ms :: int
  tp_source_id :: string
  tp_source_sha256 :: string

definition tp_trie_key :: "trie_proof \<Rightarrow> bytes result" where
  "tp_trie_key self =
    rlp_encode_uint (tp_index self)"

definition IndexedTrieProofEvidence_to_json :: "trie_proof \<Rightarrow> json result" where
  "IndexedTrieProofEvidence_to_json self =
    jobj
    [(''schema'', jtext INDEXED_TRIE_PROOF_SCHEMA),
     (''kind'', jtext (trie_kind_value (tp_kind self))),
     (''index'', jint (tp_index self)),
     (''trie_key'', rbind (tp_trie_key self) (\<lambda>trie_key. Inr (JStr (to_hex_data trie_key)))),
     (''raw_value'', jtext (to_hex_data (tp_raw_value self))),
     (''proof'', Inr (JArr (map (\<lambda>node. JStr (to_hex_data node)) (tp_proof_nodes self)))),
     (''observed_at_unix_ms'', jint (tp_observed_at_unix_ms self)),
     (''source_id'', jtext (tp_source_id self)),
     (''source_sha256'', jtext (tp_source_sha256 self))]"

definition tp_digest :: "trie_proof \<Rightarrow> string result" where
  "tp_digest self =
    jsha (IndexedTrieProofEvidence_to_json self)"

definition IndexedTrieProofEvidence_post_init :: "trie_proof \<Rightarrow> trie_proof result" where
  "IndexedTrieProofEvidence_post_init self =
    rbind (require_time ''index'' (tp_index self)) (\<lambda>_.
    if tp_raw_value self = []
    then Inl (ValueError ''raw_value must be non-empty exact immutable bytes'')
    else if MAX_TRIE_VALUE_BYTES < length (tp_raw_value self)
    then Inl (ValueError ''raw_value exceeds the governed byte ceiling'')
    else if tp_proof_nodes self = []
    then Inl (TypeError ''proof_nodes must be a non-empty exact tuple'')
    else if MAX_PROOF_NODES < length (tp_proof_nodes self)
    then Inl (ValueError ''proof node count exceeds the governed ceiling'')
    else if list_ex (\<lambda>node. node = []
        \<or> MAX_PROOF_NODE_BYTES < length node) (tp_proof_nodes self)
    then Inl (ValueError ''proof_nodes contain an empty, oversized, or non-bytes value'')
    else if MAX_PROOF_TOTAL_BYTES < sum_list (map length (tp_proof_nodes self))
    then Inl (ValueError ''proof_nodes exceed the governed byte ceiling'')
    else
    rbind (require_time ''observed_at_unix_ms'' (tp_observed_at_unix_ms self)) (\<lambda>_.
    rbind (require_bounded_text ''source_id'' (tp_source_id self) 128) (\<lambda>_.
    rbind (require_sha256 ''source_sha256'' (tp_source_sha256 self)) (\<lambda>_.
    jchecked (IndexedTrieProofEvidence_to_json self) self))))"

subsection \<open>Inclusion\<close>

record inclusion =
  inc_package :: signed_package
  inc_block :: execution_block
  inc_executor_state :: state_proof_evidence
  inc_transaction_proof :: trie_proof
  inc_receipt_proof :: trie_proof
  inc_previous_receipt_proof :: "trie_proof option"
  inc_created_at_unix_ms :: int
  inc_receipt :: receipt
  inc_previous_receipt :: "receipt option"
  inc_gas_used :: int
  inc_effective_gas_price :: int
  inc_execution_gas_cost :: int

definition inc_transaction_index :: "inclusion \<Rightarrow> int" where
  "inc_transaction_index self =
    tp_index (inc_receipt_proof self)"

definition AuthenticatedTransactionReceiptInclusionEvidence_to_json :: "inclusion \<Rightarrow> json
    result" where
  "AuthenticatedTransactionReceiptInclusionEvidence_to_json self =
    jobj
    [(''schema'', jtext INCLUSION_SCHEMA),
     (''package_sha256'', jtext (xp_digest (inc_package self))),
     (''block'', AuthenticatedExecutionBlockEvidence_to_json (inc_block self)),
     (''block_sha256'', jstr (ab_digest (inc_block self))),
     (''executor_state'', EvmStateProofEvidence_to_json (inc_executor_state self)),
     (''executor_state_sha256'', jstr (EvmStateProofEvidence_digest (inc_executor_state self))),
     (''transaction_proof'', IndexedTrieProofEvidence_to_json (inc_transaction_proof self)),
     (''transaction_proof_sha256'', jstr (tp_digest (inc_transaction_proof self))),
     (''receipt_proof'', IndexedTrieProofEvidence_to_json (inc_receipt_proof self)),
     (''receipt_proof_sha256'', jstr (tp_digest (inc_receipt_proof self))),
     (''previous_receipt_proof'',
         (case inc_previous_receipt_proof self of None \<Rightarrow> Inr JNull | Some x \<Rightarrow>
         IndexedTrieProofEvidence_to_json x)),
     (''previous_receipt_proof_sha256'',
         (case inc_previous_receipt_proof self of None \<Rightarrow> Inr JNull | Some x \<Rightarrow> jstr
         (tp_digest x))),
     (''transaction_hash'', jtext (sx_transaction_hash_hex (xp_signed_transaction (inc_package self)))),
     (''transaction_index'', jint (inc_transaction_index self)),
     (''receipt'', Inr (EvmTransactionReceipt_to_json (inc_receipt self))),
     (''receipt_sha256'', jtext (rx_digest (inc_receipt self))),
     (''gas_used'', jint (inc_gas_used self)),
     (''effective_gas_price'', jint (inc_effective_gas_price self)),
     (''execution_gas_cost'', jint (inc_execution_gas_cost self)),
     (''created_at_unix_ms'', jint (inc_created_at_unix_ms self)),
     (''inclusion_authority'',
         jtext ''authenticated-transaction-receipt-and-executor-post-state-inclusion''),
     (''inclusion_observed'', jbool True),
     (''execution_success'', jbool (rx_success (inc_receipt self))),
     (''submission_authority'', jtext ''none''),
     (''execution_authority'', jtext ''none'')]"

definition inc_digest :: "inclusion \<Rightarrow> string result" where
  "inc_digest self =
    jsha (AuthenticatedTransactionReceiptInclusionEvidence_to_json self)"

text \<open>
  The constructor's parts: the bindings of the package, the block and the executor's post-state;
  a trie proof that authenticates its value; the receipt before the transaction's; and the gas
  paid.
\<close>

definition inclusion_bindings :: "inclusion \<Rightarrow> unit result" where
  "inclusion_bindings self =
    (let deployment = gc_deployment (up_call (xp_unsigned_package (inc_package self)));
         state = inc_executor_state self; block = inc_block self;
         bundle = sb_unsigned_bundle (xp_signed_bundle (inc_package self)) in
     if bi_chain bundle \<noteq> ab_chain block
     then Inl (ValueError ''signed package chain disagrees with inclusion block'')
     else
     rbind (EvmBlockStateAnchor_digest (ev_anchor state)) (\<lambda>state_anchor.
     rbind (EvmBlockStateAnchor_digest (ab_state_anchor block)) (\<lambda>block_anchor.
     if state_anchor \<noteq> block_anchor
     then Inl (ValueError ''executor post-state proof does not bind the exact inclusion block'')
     else if \<not> ev_account_exists state
     then Inl (ValueError ''executor account must exist in authenticated inclusion post-state'')
     else if ev_address state \<noteq> ad_address deployment
     then Inl (ValueError ''executor post-state proof address disagrees with deployment'')
     else if ev_code_hash state \<noteq> ds_runtime_code_hash (ad_spec deployment)
     then Inl (ValueError ''executor runtime code hash changed at the inclusion block'')
     else if ev_storage_root state \<noteq> EMPTY_TRIE_ROOT
     then Inl (ValueError ''executor storage root changed at the inclusion block'')
     else if ev_storage_values state \<noteq> []
     then Inl (ValueError ''executor post-state proof must not carry unused storage proofs'')
     else
     rbind (ds_is_valid_at_block (ad_spec deployment) (ab_block_number block)) (\<lambda>is_valid_at_block.
     if \<not> is_valid_at_block
     then Inl (ValueError ''executor deployment is not governed at the inclusion block'')
     else if ev_proof_observed_at_unix_ms state < bk_observed_at_unix_ms (ab_block block)
     then Inl (ValueError ''executor post-state proof predates the recorded execution block'')
     else if inc_created_at_unix_ms self < ev_proof_observed_at_unix_ms state
     then Inl (ValueError ''inclusion evidence predates the executor post-state proof'')
     else if \<not> (bi_target_block_number bundle \<le> ab_block_number block
         \<and> ab_block_number block \<le> bi_maximum_block_number bundle)
     then Inl (ValueError ''inclusion block lies outside the exact signed-bundle range'')
     else if gc_deadline_unix_s (up_call (xp_unsigned_package (inc_package self)))
         < bk_block_timestamp_unix_s (ab_block block)
     then Inl (ValueError ''inclusion block timestamp exceeds the executor deadline'')
     else if tp_kind (inc_transaction_proof self) \<noteq> TRANSACTION_TRIE
     then Inl (ValueError ''transaction_proof has the wrong trie kind'')
     else if tp_kind (inc_receipt_proof self) \<noteq> RECEIPT_TRIE
     then Inl (ValueError ''receipt_proof has the wrong trie kind'')
     else if tp_index (inc_transaction_proof self) \<noteq> tp_index (inc_receipt_proof self)
     then Inl (ValueError ''transaction and receipt proof indices disagree'')
     else
     rall (\<lambda>proof_item.
       if tp_observed_at_unix_ms proof_item < bk_observed_at_unix_ms (ab_block block)
       then Inl (ValueError ''trie proof predates the recorded execution block'')
       else if inc_created_at_unix_ms self < tp_observed_at_unix_ms proof_item
       then Inl (ValueError ''inclusion evidence predates a bound trie proof'')
       else Inr ()) [inc_transaction_proof self, inc_receipt_proof self]))))"

definition proves_value :: "bytes \<Rightarrow> trie_proof \<Rightarrow> bytes \<Rightarrow> bool result" where
  "proves_value root_hash evidence v =
    rbind (tp_trie_key evidence) (\<lambda>key.
    rbind (verify_mpt_proof root_hash key (tp_proof_nodes evidence)) (\<lambda>result.
    Inr (mp_found result \<and> mp_value result = Some v)))"

definition previous_receipt_and_gas :: "inclusion \<Rightarrow> receipt \<Rightarrow> (receipt option \<times> int) result" where
  "previous_receipt_and_gas self receipt =
    (let block = ab_block (inc_block self) in
     if tp_index (inc_receipt_proof self) = 0
     then (if inc_previous_receipt_proof self \<noteq> None
       then Inl (ValueError ''transaction index zero cannot carry a previous receipt proof'')
       else Inr (None, rx_cumulative_gas_used receipt))
     else (case inc_previous_receipt_proof self of
         None \<Rightarrow> Inl (ValueError ''non-zero transaction index requires a previous receipt proof'')
       | Some previous_proof \<Rightarrow>
           if tp_kind previous_proof \<noteq> PREVIOUS_RECEIPT_TRIE
           then Inl (ValueError ''previous receipt proof has the wrong trie kind'')
           else if tp_index previous_proof \<noteq> tp_index (inc_receipt_proof self) - 1
           then Inl (ValueError ''previous receipt proof index is not immediately preceding'')
           else if tp_observed_at_unix_ms previous_proof < bk_observed_at_unix_ms block
           then Inl (ValueError ''previous receipt proof predates the recorded execution block'')
           else if inc_created_at_unix_ms self < tp_observed_at_unix_ms previous_proof
           then Inl (ValueError ''inclusion evidence predates its previous receipt proof'')
           else
           rbind (proves_value (bk_receipts_root block) previous_proof (tp_raw_value previous_proof)) (\<lambda>proved.
           if \<not> proved
           then Inl (ValueError ''previous receipt proof does not authenticate its exact value'')
           else
           rbind (EvmTransactionReceipt_decode (tp_raw_value previous_proof)) (\<lambda>previous.
           if rx_cumulative_gas_used receipt \<le> rx_cumulative_gas_used previous
           then Inl (ValueError ''receipt cumulative gas does not strictly follow the previous receipt'')
           else Inr (Some previous, rx_cumulative_gas_used receipt - rx_cumulative_gas_used previous)))))"

definition inclusion_gas_cost :: "inclusion \<Rightarrow> receipt \<Rightarrow> int \<Rightarrow> (int \<times> int) result" where
  "inclusion_gas_cost self receipt gas_used =
    (let block = ab_block (inc_block self); unsigned = sx_unsigned_transaction (xp_signed_transaction (inc_package self)) in
     rbind (require_uint ''transaction gas_used'' gas_used True) (\<lambda>_.
     if bk_gas_used block < rx_cumulative_gas_used receipt
     then Inl (ValueError ''receipt cumulative gas exceeds the authenticated block gas used'')
     else if gas_used < ut_intrinsic_gas unsigned
     then Inl (ValueError ''authenticated transaction gas is below canonical intrinsic gas'')
     else if ut_gas_limit unsigned < gas_used
     then Inl (ValueError ''authenticated transaction gas exceeds its exact gas limit'')
     else
     let base_fee = bk_base_fee_per_gas block in
     if ut_max_fee_per_gas unsigned < base_fee
     then Inl (ValueError ''authenticated block base fee exceeds the transaction max fee'')
     else
     let priority = min (ut_max_priority_fee_per_gas unsigned) (ut_max_fee_per_gas unsigned - base_fee) in
     rbind (u256_add base_fee priority ''effective gas price'') (\<lambda>effective_gas_price.
     rbind (u256_mul gas_used effective_gas_price ''execution gas cost'') (\<lambda>execution_gas_cost.
     Inr (effective_gas_price, execution_gas_cost)))))"

definition AuthenticatedTransactionReceiptInclusionEvidence_post_init :: "inclusion \<Rightarrow> inclusion result" where
  "AuthenticatedTransactionReceiptInclusionEvidence_post_init self =
    (let block = ab_block (inc_block self);
         expected_transaction = sx_raw_transaction (xp_signed_transaction (inc_package self)) in
     rbind (require_time ''created_at_unix_ms'' (inc_created_at_unix_ms self)) (\<lambda>_.
     rbind (inclusion_bindings self) (\<lambda>_.
     if tp_raw_value (inc_transaction_proof self) \<noteq> expected_transaction
     then Inl (ValueError ''transaction proof raw value is not the exact F6 signed transaction'')
     else
     rbind (proves_value (bk_transactions_root block) (inc_transaction_proof self) expected_transaction) (\<lambda>proved.
     if \<not> proved
     then Inl (ValueError ''transaction proof does not authenticate the exact signed transaction'')
     else if keccak256 expected_transaction \<noteq> sx_transaction_hash (xp_signed_transaction (inc_package self))
     then Inl (ValueError ''authenticated transaction bytes disagree with the F6 transaction hash'')
     else
     rbind (proves_value (bk_receipts_root block) (inc_receipt_proof self) (tp_raw_value (inc_receipt_proof self))) (\<lambda>proved.
     if \<not> proved
     then Inl (ValueError ''receipt proof does not authenticate its exact raw receipt'')
     else
     rbind (EvmTransactionReceipt_decode (tp_raw_value (inc_receipt_proof self))) (\<lambda>receipt.
     if rx_transaction_type receipt \<noteq> Some EIP1559_TRANSACTION_TYPE
     then Inl (ValueError ''F7 target receipt type does not match the exact F6 type-2 transaction'')
     else if list_ex (\<lambda>(receipt_byte, block_byte). receipt_byte AND block_byte \<noteq> receipt_byte)
         (zip (rx_logs_bloom receipt) (bk_logs_bloom block))
     then Inl (ValueError ''receipt logs bloom is not a subset of the authenticated block bloom'')
     else
     rbind (previous_receipt_and_gas self receipt) (\<lambda>(previous, gas_used).
     rbind (inclusion_gas_cost self receipt gas_used) (\<lambda>(effective_gas_price, execution_gas_cost).
     let self = self\<lparr>inc_receipt := receipt, inc_previous_receipt := previous, inc_gas_used := gas_used,
                    inc_effective_gas_price := effective_gas_price,
                    inc_execution_gas_cost := execution_gas_cost\<rparr> in
     jchecked (AuthenticatedTransactionReceiptInclusionEvidence_to_json self) self))))))))"

subsection \<open>Settlement\<close>

record settlement_event =
  sev_spec_sha256 :: string
  sev_log :: log_entry
  sev_plan_sha256 :: string
  sev_beneficiary :: bytes
  sev_base_token :: bytes
  sev_gross_output :: int
  sev_principal_repaid :: int
  sev_flash_loan_fee_paid :: int
  sev_base_token_residual_before_external_costs :: int
  sev_direct_inclusion_payment :: int

definition ExecutorSettlementEvent_to_json :: "settlement_event \<Rightarrow> json" where
  "ExecutorSettlementEvent_to_json self =
    JObj
    [(''schema'', JStr SETTLEMENT_EVENT_SCHEMA),
     (''spec_sha256'', JStr (sev_spec_sha256 self)),
     (''log'', EvmLogEntry_to_json (sev_log self)),
     (''log_sha256'', JStr (lg_digest (sev_log self))),
     (''plan_sha256'', JStr (sev_plan_sha256 self)),
     (''beneficiary'', JStr (to_hex_data (sev_beneficiary self))),
     (''base_token'', JStr (to_hex_data (sev_base_token self))),
     (''gross_output'', JStr (str_of_int (sev_gross_output self))),
     (''principal_repaid'', JStr (str_of_int (sev_principal_repaid self))),
     (''flash_loan_fee_paid'', JStr (str_of_int (sev_flash_loan_fee_paid self))),
     (''base_token_residual_before_external_costs'',
         JStr (str_of_int (sev_base_token_residual_before_external_costs self))),
     (''direct_inclusion_payment'', JStr (str_of_int (sev_direct_inclusion_payment self)))]"

definition sev_digest :: "settlement_event \<Rightarrow> string" where
  "sev_digest self =
    json_sha256 (ExecutorSettlementEvent_to_json self)"

definition ExecutorSettlementEvent_post_init :: "settlement_event \<Rightarrow> settlement_event result"
    where
  "ExecutorSettlementEvent_post_init self =
    rbind (require_sha256 ''spec_sha256'' (sev_spec_sha256 self)) (\<lambda>_.
    rbind (require_sha256 ''plan_sha256'' (sev_plan_sha256 self)) (\<lambda>_.
    rbind (require_address ''beneficiary'' (sev_beneficiary self)) (\<lambda>_.
    rbind (require_address ''base_token'' (sev_base_token self)) (\<lambda>_.
    rbind (rall (\<lambda>(name, v). require_uint name v False)
      [(''gross_output'', sev_gross_output self), (''principal_repaid'', sev_principal_repaid self),
       (''flash_loan_fee_paid'', sev_flash_loan_fee_paid self),
       (''base_token_residual_before_external_costs'', sev_base_token_residual_before_external_costs self),
       (''direct_inclusion_payment'', sev_direct_inclusion_payment self)]) (\<lambda>_.
    rbind (u256_add (sev_principal_repaid self) (sev_flash_loan_fee_paid self) ''event repayment'')
        (\<lambda>repayment.
    if sev_gross_output self < repayment
    then Inl (ValueError ''settlement gross output cannot cover principal and fee'')
    else if sev_base_token_residual_before_external_costs self \<noteq> sev_gross_output self - repayment
    then Inl (ValueError ''settlement residual does not reconcile'')
    else if length (lg_topics (sev_log self)) \<noteq> 4
    then Inl (ValueError ''settlement log must contain exactly four topics'')
    else
    let expected_topic0 = keccak256 (utf8_bytes SETTLEMENT_EVENT_SIGNATURE) in
    if hd (lg_topics (sev_log self)) \<noteq> expected_topic0
    then Inl (ValueError ''settlement log topic0 is not the exact governed event signature'')
    else if (lg_topics (sev_log self)) ! 1 \<noteq> bytes_fromhex (sev_plan_sha256 self)
    then Inl (ValueError ''settlement log plan topic does not match the decoded plan'')
    else
    rbind (topic_address ''settlement log beneficiary'' ((lg_topics (sev_log self)) ! 2))
        (\<lambda>beneficiary_topic.
    if beneficiary_topic \<noteq> sev_beneficiary self
    then Inl (ValueError ''settlement log beneficiary topic does not match the decoded beneficiary'')
    else
    rbind (topic_address ''settlement log base token'' ((lg_topics (sev_log self)) ! 3))
        (\<lambda>base_token_topic.
    if base_token_topic \<noteq> sev_base_token self
    then Inl (ValueError ''settlement log base-token topic does not match the decoded base token'')
    else
    let expected_data = concat (map (\<lambda>item. to_bytes_be 32 item) [sev_gross_output self,
        sev_principal_repaid self, sev_flash_loan_fee_paid self,
        sev_base_token_residual_before_external_costs self, sev_direct_inclusion_payment self]) in
    if lg_data (sev_log self) \<noteq> expected_data
    then Inl (ValueError ''settlement log data does not match the decoded settlement values'')
    else
    jchecked (Inr (ExecutorSettlementEvent_to_json self)) self))))))))"

record settlement_spec =
  sps_spec_id :: string
  sps_runtime_code_hash :: bytes
  sps_valid_from_block :: int
  sps_valid_until_block :: int
  sps_implementation_source_sha256 :: string
  sps_event_signature :: string
  sps_value_semantics :: string

definition sps_topic0 :: "settlement_spec \<Rightarrow> bytes" where
  "sps_topic0 self =
    keccak256 (utf8_bytes (sps_event_signature self))"

definition ExecutorSettlementEventSpec_to_json :: "settlement_spec \<Rightarrow> json" where
  "ExecutorSettlementEventSpec_to_json self =
    JObj
    [(''schema'', JStr SETTLEMENT_SPEC_SCHEMA),
     (''spec_id'', JStr (sps_spec_id self)),
     (''runtime_code_hash'', JStr (to_hex_data (sps_runtime_code_hash self))),
     (''event_signature'', JStr (sps_event_signature self)),
     (''value_semantics'', JStr (sps_value_semantics self)),
     (''topic0'', JStr (to_hex_data (sps_topic0 self))),
     (''indexed_fields'', JArr [JStr ''execution_plan_sha256'', JStr ''beneficiary'', JStr ''base_token'']),
     (''data_fields'', JArr [JStr ''gross_output'', JStr ''principal_repaid'', JStr ''flash_loan_fee_paid'',
         JStr ''base_token_residual_before_external_costs'', JStr ''direct_inclusion_payment'']),
     (''valid_from_block'', JStr (str_of_int (sps_valid_from_block self))),
     (''valid_until_block'', JStr (str_of_int (sps_valid_until_block self))),
     (''implementation_source_sha256'', JStr (sps_implementation_source_sha256 self)),
     (''authority'', JStr ''recorded-runtime-event-model-only'')]"

definition sps_digest :: "settlement_spec \<Rightarrow> string" where
  "sps_digest self =
    json_sha256 (ExecutorSettlementEventSpec_to_json self)"

definition ExecutorSettlementEventSpec_post_init :: "settlement_spec \<Rightarrow> settlement_spec result"
    where
  "ExecutorSettlementEventSpec_post_init self =
    rbind (require_bounded_text ''spec_id'' (sps_spec_id self) 128) (\<lambda>_.
    rbind (require_exact_hash ''runtime_code_hash'' (sps_runtime_code_hash self)) (\<lambda>_.
    if sps_runtime_code_hash self = EMPTY_CODE_HASH
    then Inl (ValueError ''settlement event model cannot bind the canonical empty-code hash'')
    else
    rbind (require_time ''valid_from_block'' (sps_valid_from_block self)) (\<lambda>_.
    rbind (require_time ''valid_until_block'' (sps_valid_until_block self)) (\<lambda>_.
    if sps_valid_until_block self < sps_valid_from_block self
    then Inl (ValueError ''settlement spec validity cannot end before it begins'')
    else
    rbind (require_sha256 ''implementation_source_sha256'' (sps_implementation_source_sha256 self))
        (\<lambda>_.
    if sps_event_signature self \<noteq> SETTLEMENT_EVENT_SIGNATURE
    then Inl (ValueError ''settlement event signature is not the exact governed signature'')
    else if sps_value_semantics self \<noteq> SETTLEMENT_VALUE_SEMANTICS
    then Inl (ValueError ''settlement value semantics are not the exact governed semantics'')
    else
    jchecked (Inr (ExecutorSettlementEventSpec_to_json self)) self)))))"

definition sps_is_valid_at_block :: "settlement_spec \<Rightarrow> int \<Rightarrow> bool result" where
  "sps_is_valid_at_block self block_number =
    rbind (require_time ''block_number'' block_number) (\<lambda>_.
    Inr (sps_valid_from_block self \<le> block_number
        \<and> block_number \<le> sps_valid_until_block self))"

definition sps_decode :: "settlement_spec \<Rightarrow> log_entry \<Rightarrow> settlement_event result"
    where
  "sps_decode self log =
    (if length (lg_topics log) \<noteq> 4 \<or> hd (lg_topics log) \<noteq> sps_topic0 self
     then Inl (ValueError ''log does not match the exact settlement-event topic contract'')
     else if length (lg_data log) \<noteq> 5 * 32
     then Inl (ValueError ''settlement-event data must contain exactly five ABI words'')
     else
     let plan_sha256 = bytes_hex ((lg_topics log) ! 1) in
     rbind (require_sha256 ''settlement plan_sha256'' plan_sha256) (\<lambda>_.
     rbind (topic_address ''settlement beneficiary'' ((lg_topics log) ! 2)) (\<lambda>beneficiary.
     rbind (topic_address ''settlement base token'' ((lg_topics log) ! 3)) (\<lambda>base_token.
     let words = map (\<lambda>index. from_bytes_be (slice (32 * index) (32 * index + 32) (lg_data log))) [0 ..< 5] in
     ExecutorSettlementEvent_post_init \<lparr>sev_spec_sha256 = sps_digest self, sev_log = log,
         sev_plan_sha256 = plan_sha256, sev_beneficiary = beneficiary, sev_base_token = base_token,
         sev_gross_output = hd words, sev_principal_repaid = words ! 1,
         sev_flash_loan_fee_paid = words ! 2, sev_base_token_residual_before_external_costs = words ! 3,
         sev_direct_inclusion_payment = words ! 4\<rparr>))))"

record settlement_registry =
  spr_registry_id :: string
  spr_specs :: "settlement_spec list"

definition ExecutorSettlementEventRegistry_to_json :: "settlement_registry \<Rightarrow> json" where
  "ExecutorSettlementEventRegistry_to_json self =
    JObj
    [(''schema'', JStr SETTLEMENT_REGISTRY_SCHEMA),
     (''registry_id'', JStr (spr_registry_id self)),
     (''specs'', JArr (map ExecutorSettlementEventSpec_to_json (spr_specs self))),
     (''spec_sha256'', JArr (map (\<lambda>item. JStr (sps_digest item)) (spr_specs self))),
     (''production_approval'', JBool False)]"

definition spr_digest :: "settlement_registry \<Rightarrow> string" where
  "spr_digest self =
    json_sha256 (ExecutorSettlementEventRegistry_to_json self)"

definition specs_overlap :: "settlement_spec \<Rightarrow> settlement_spec \<Rightarrow> bool" where
  "specs_overlap left right \<longleftrightarrow>
    sps_runtime_code_hash left = sps_runtime_code_hash right
    \<and> max (sps_valid_from_block left) (sps_valid_from_block right)
      \<le> min (sps_valid_until_block left) (sps_valid_until_block right)"

fun any_specs_overlap :: "settlement_spec list \<Rightarrow> bool" where
  "any_specs_overlap [] \<longleftrightarrow> False"
| "any_specs_overlap (left # rest) \<longleftrightarrow> list_ex (specs_overlap left) rest \<or> any_specs_overlap rest"

definition ExecutorSettlementEventRegistry_post_init :: "settlement_registry \<Rightarrow> settlement_registry result" where
  "ExecutorSettlementEventRegistry_post_init self =
    rbind (require_bounded_text ''registry_id'' (spr_registry_id self) 128) (\<lambda>_.
    if spr_specs self = []
    then Inl (TypeError ''specs must be a non-empty exact tuple'')
    else if MAX_SETTLEMENT_REGISTRY_SIZE < length (spr_specs self)
    then Inl (ValueError ''settlement registry exceeds the governed ceiling'')
    else
    let ordered = sort_key (\<lambda>item. (sps_runtime_code_hash item, sps_valid_from_block item,
        sps_spec_id item, sps_digest item)) (spr_specs self) in
    let self = self\<lparr>spr_specs := ordered\<rparr> in
    if has_duplicate (map sps_spec_id ordered)
    then Inl (ValueError ''settlement registry contains duplicate spec_id'')
    else if any_specs_overlap ordered
    then Inl (ValueError ''one runtime code hash has overlapping settlement-event authority'')
    else
    jchecked (Inr (ExecutorSettlementEventRegistry_to_json self)) self)"

definition spr_resolve :: "settlement_registry \<Rightarrow> bytes \<Rightarrow> int \<Rightarrow>
    settlement_spec result" where
  "spr_resolve self runtime_code_hash block_number =
    rbind (require_exact_hash ''runtime_code_hash'' runtime_code_hash) (\<lambda>_.
    rbind (require_time ''block_number'' block_number) (\<lambda>_.
    rbind (rfilter (\<lambda>item. rbind (sps_is_valid_at_block item block_number)
        (\<lambda>is_valid_at_block. Inr (sps_runtime_code_hash item = runtime_code_hash
        \<and> is_valid_at_block))) (spr_specs self)) (\<lambda>matches.
    if length matches \<noteq> 1
    then Inl (ValueError ''settlement registry does not resolve exactly one event spec'')
    else
    Inr (hd matches))))"

subsection \<open>Rollup fees\<close>

record rollup_fee =
  rf_chain :: chain
  rf_transaction_hash :: bytes
  rf_l1_data_fee_paid :: int
  rf_operator_fee_paid :: int
  rf_observed_at_unix_ms :: int
  rf_source_id :: string
  rf_source_sha256 :: string

definition RecordedRollupFeeEvidence_to_json :: "rollup_fee \<Rightarrow> json" where
  "RecordedRollupFeeEvidence_to_json self =
    JObj
    [(''schema'', JStr ROLLUP_FEE_SCHEMA),
     (''chain'', JStr (chain_value (rf_chain self))),
     (''transaction_hash'', JStr (to_hex_data (rf_transaction_hash self))),
     (''l1_data_fee_paid'', JStr (str_of_int (rf_l1_data_fee_paid self))),
     (''operator_fee_paid'', JStr (str_of_int (rf_operator_fee_paid self))),
     (''observed_at_unix_ms'', JStr (str_of_int (rf_observed_at_unix_ms self))),
     (''source_id'', JStr (rf_source_id self)),
     (''source_sha256'', JStr (rf_source_sha256 self)),
     (''fee_authority'', JStr ''recorded-input-only'')]"

definition rf_digest :: "rollup_fee \<Rightarrow> string" where
  "rf_digest self =
    json_sha256 (RecordedRollupFeeEvidence_to_json self)"

definition RecordedRollupFeeEvidence_post_init :: "rollup_fee \<Rightarrow> rollup_fee result" where
  "RecordedRollupFeeEvidence_post_init self =
    (if rf_chain self \<notin> {ETHEREUM, BASE}
     then Inl (ValueError ''recorded rollup fees support Ethereum and Base only'')
     else
     rbind (require_exact_hash ''transaction_hash'' (rf_transaction_hash self)) (\<lambda>_.
     rbind (require_uint ''l1_data_fee_paid'' (rf_l1_data_fee_paid self) False) (\<lambda>_.
     rbind (require_uint ''operator_fee_paid'' (rf_operator_fee_paid self) False) (\<lambda>_.
     if rf_chain self = ETHEREUM \<and> (rf_l1_data_fee_paid self \<noteq> 0
         \<or> rf_operator_fee_paid self \<noteq> 0)
     then Inl (ValueError ''Ethereum cannot carry OP Stack L1 or operator fees'')
     else
     rbind (require_time ''observed_at_unix_ms'' (rf_observed_at_unix_ms self)) (\<lambda>_.
     rbind (require_bounded_text ''source_id'' (rf_source_id self) 128) (\<lambda>_.
     rbind (require_sha256 ''source_sha256'' (rf_source_sha256 self)) (\<lambda>_.
     jchecked (Inr (RecordedRollupFeeEvidence_to_json self)) self)))))))"

subsection \<open>Realized outcomes\<close>

record realized_outcome =
  ro_package :: signed_package
  ro_inclusion :: inclusion
  ro_settlement_registry :: settlement_registry
  ro_settlement_spec :: settlement_spec
  ro_rollup_fee :: rollup_fee
  ro_created_at_unix_ms :: int
  ro_settlement_event :: settlement_event
  ro_actual_native_cost :: int
  ro_native_cost_upper_bound :: int
  ro_native_cost_overrun :: int
  ro_base_token_residual_shortfall_before_external_costs :: int
  ro_simulation_gas_match :: bool
  ro_simulation_logs_match :: bool
  ro_simulation_output_match :: bool
  ro_simulation_residual_match :: bool
  ro_simulation_direct_payment_match :: bool
  ro_cost_upper_bounds_respected :: bool
  ro_conservative_shadow_floor_preserved :: bool
  ro_outcome_id :: string

definition ro_simulation_economic_match :: "realized_outcome \<Rightarrow> bool" where
  "ro_simulation_economic_match self =
    (ro_simulation_output_match self \<and> ro_simulation_residual_match self
        \<and> ro_simulation_direct_payment_match self)"

definition ro_simulation_exact_match :: "realized_outcome \<Rightarrow> bool" where
  "ro_simulation_exact_match self =
    (ro_simulation_gas_match self \<and> ro_simulation_logs_match self
        \<and> ro_simulation_economic_match self)"

definition RealizedExecutionOutcomeEvidence_to_json :: "realized_outcome \<Rightarrow> json result" where
  "RealizedExecutionOutcomeEvidence_to_json self =
    jobj
    [(''schema'', jtext REALIZED_OUTCOME_SCHEMA),
     (''outcome_id'', jtext (ro_outcome_id self)),
     (''package_sha256'', jtext (xp_digest (ro_package self))),
     (''inclusion'', AuthenticatedTransactionReceiptInclusionEvidence_to_json (ro_inclusion self)),
     (''inclusion_sha256'', jstr (inc_digest (ro_inclusion self))),
     (''settlement_registry'', Inr (ExecutorSettlementEventRegistry_to_json (ro_settlement_registry self))),
     (''settlement_registry_sha256'', jtext (spr_digest (ro_settlement_registry self))),
     (''settlement_spec'', Inr (ExecutorSettlementEventSpec_to_json (ro_settlement_spec self))),
     (''settlement_spec_sha256'', jtext (sps_digest (ro_settlement_spec self))),
     (''settlement_event'', Inr (ExecutorSettlementEvent_to_json (ro_settlement_event self))),
     (''settlement_event_sha256'', jtext (sev_digest (ro_settlement_event self))),
     (''rollup_fee'', Inr (RecordedRollupFeeEvidence_to_json (ro_rollup_fee self))),
     (''rollup_fee_sha256'', jtext (rf_digest (ro_rollup_fee self))),
     (''transaction_hash'', jtext (sx_transaction_hash_hex (xp_signed_transaction (ro_package self)))),
     (''block_number'', jint (ab_block_number (inc_block (ro_inclusion self)))),
     (''transaction_index'', jint (inc_transaction_index (ro_inclusion self))),
     (''gas_used'', jint (inc_gas_used (ro_inclusion self))),
     (''effective_gas_price'', jint (inc_effective_gas_price (ro_inclusion self))),
     (''execution_gas_cost'', jint (inc_execution_gas_cost (ro_inclusion self))),
     (''l1_data_fee_paid'', jint (rf_l1_data_fee_paid (ro_rollup_fee self))),
     (''operator_fee_paid'', jint (rf_operator_fee_paid (ro_rollup_fee self))),
     (''direct_inclusion_payment'', jint (sev_direct_inclusion_payment (ro_settlement_event self))),
     (''actual_native_cost'', jint (ro_actual_native_cost self)),
     (''native_cost_upper_bound'', jint (ro_native_cost_upper_bound self)),
     (''native_cost_overrun'', jint (ro_native_cost_overrun self)),
     (''base_token'', jtext (to_hex_data (sev_base_token (ro_settlement_event self)))),
     (''planned_base_token_residual_before_external_costs'',
         jint (residual_before_external_costs (ne_plan (up_net_profit_evidence (xp_unsigned_package
         (ro_package self)))))),
     (''realized_base_token_residual_before_external_costs'',
         jint (sev_base_token_residual_before_external_costs (ro_settlement_event self))),
     (''base_token_residual_shortfall_before_external_costs'',
         jint (ro_base_token_residual_shortfall_before_external_costs self)),
     (''simulation_gas_match'', jbool (ro_simulation_gas_match self)),
     (''simulation_logs_match'', jbool (ro_simulation_logs_match self)),
     (''simulation_output_match'', jbool (ro_simulation_output_match self)),
     (''simulation_residual_match'', jbool (ro_simulation_residual_match self)),
     (''simulation_direct_payment_match'', jbool (ro_simulation_direct_payment_match self)),
     (''simulation_economic_match'', jbool (ro_simulation_economic_match self)),
     (''simulation_exact_match'', jbool (ro_simulation_exact_match self)),
     (''cost_upper_bounds_respected'', jbool (ro_cost_upper_bounds_respected self)),
     (''conservative_shadow_floor_preserved'', jbool (ro_conservative_shadow_floor_preserved self)),
     (''created_at_unix_ms'', jint (ro_created_at_unix_ms self)),
     (''outcome_authority'',
         jtext ''authenticated-inclusion-receipt-code-hash-bound-settlement-and-recorded-rollup-fees-only''),
     (''cost_completeness'',
         jtext ''authenticated-eip1559-gas-plus-recorded-rollup-and-direct-payment-only''),
     (''inclusion_observed'', jbool True),
     (''execution_success'', jbool True),
     (''settlement_observed'', jbool True),
     (''realized_profit_claimed'', jbool False),
     (''key_authority'', jtext ''none''),
     (''submission_authority'', jtext ''none''),
     (''execution_authority'', jtext ''none''),
     (''inclusion_guarantee'', jbool False)]"

definition ro_digest :: "realized_outcome \<Rightarrow> string result" where
  "ro_digest self =
    jsha (RealizedExecutionOutcomeEvidence_to_json self)"

definition RealizedExecutionOutcomeEvidence_post_init :: "realized_outcome \<Rightarrow> realized_outcome
    result" where
  "RealizedExecutionOutcomeEvidence_post_init self =
    rbind (require_time ''created_at_unix_ms'' (ro_created_at_unix_ms self)) (\<lambda>_.
    if xp_digest (inc_package (ro_inclusion self)) \<noteq> xp_digest (ro_package self)
    then Inl (ValueError ''inclusion evidence does not bind the exact F6 package'')
    else if \<not> rx_success (inc_receipt (ro_inclusion self))
    then Inl (ValueError ''realized settlement requires a successful authenticated receipt'')
    else if ro_created_at_unix_ms self < inc_created_at_unix_ms (ro_inclusion self)
    then Inl (ValueError ''realized outcome cannot predate authenticated inclusion'')
    else if rf_chain (ro_rollup_fee self) \<noteq> ab_chain (inc_block (ro_inclusion self))
    then Inl (ValueError ''rollup fee chain disagrees with the authenticated inclusion'')
    else if rf_transaction_hash (ro_rollup_fee self) \<noteq> sx_transaction_hash (xp_signed_transaction
        (ro_package self))
    then Inl (ValueError ''rollup fee evidence does not bind the exact transaction hash'')
    else if rf_observed_at_unix_ms (ro_rollup_fee self) < bk_observed_at_unix_ms (ab_block (inc_block
        (ro_inclusion self)))
    then Inl (ValueError ''rollup fee evidence predates the included execution block'')
    else if ro_created_at_unix_ms self < rf_observed_at_unix_ms (ro_rollup_fee self)
    then Inl (ValueError ''realized outcome predates rollup fee evidence'')
    else
    let deployment = gc_deployment (up_call (xp_unsigned_package (ro_package self))) in
    let runtime_code_hash = ds_runtime_code_hash (ad_spec deployment) in
    rbind (spr_resolve (ro_settlement_registry self) runtime_code_hash (ab_block_number (inc_block
        (ro_inclusion self)))) (\<lambda>resolved.
    if sps_digest resolved \<noteq> sps_digest (ro_settlement_spec self)
    then Inl (ValueError ''settlement spec is not the exact registry authority'')
    else if sps_runtime_code_hash (ro_settlement_spec self) \<noteq> runtime_code_hash
    then Inl (ValueError ''settlement spec runtime code hash disagrees with deployment'')
    else
    rbind (ds_is_valid_at_block (ad_spec deployment) (ab_block_number (inc_block (ro_inclusion self))))
        (\<lambda>is_valid_at_block.
    if \<not> is_valid_at_block
    then Inl (ValueError ''executor deployment is not governed at the inclusion block'')
    else
    let candidates = filter (\<lambda>item. lg_address item = ad_address deployment
        \<and> length (lg_topics item) = 4
        \<and> hd (lg_topics item)
        = sps_topic0 (ro_settlement_spec self)) (rx_logs (inc_receipt (ro_inclusion self))) in
    if length candidates \<noteq> 1
    then Inl (ValueError ''receipt must contain exactly one governed executor settlement event'')
    else
    rbind (sps_decode (ro_settlement_spec self) (hd candidates)) (\<lambda>event.
    let plan = ne_plan (up_net_profit_evidence (xp_unsigned_package (ro_package self))) in
    let transaction = sx_unsigned_transaction (xp_signed_transaction (ro_package self)) in
    rbind (pl_digest plan) (\<lambda>digest.
    if sev_plan_sha256 event \<noteq> digest
    then Inl (ValueError ''settlement event does not bind the exact execution plan'')
    else if sev_beneficiary event \<noteq> ut_sender transaction
    then Inl (ValueError ''settlement beneficiary is not the authenticated transaction sender'')
    else if ai_address (pl_base_asset plan) \<noteq> Some (sev_base_token event)
    then Inl (ValueError ''settlement base token is not the exact F4 base asset'')
    else if sev_principal_repaid event \<noteq> fu_principal (pl_funding plan)
    then Inl (ValueError ''settlement principal repayment disagrees with F4 funding'')
    else if sev_flash_loan_fee_paid event \<noteq> fu_fee (pl_funding plan)
    then Inl (ValueError ''settlement flash fee disagrees with F4 funding'')
    else if sev_gross_output event < gc_minimum_final_output (up_call (xp_unsigned_package (ro_package
        self)))
    then Inl (ValueError ''settlement output violates the governed minimum final output'')
    else if ut_value transaction < sev_direct_inclusion_payment event
    then Inl (ValueError ''settlement direct payment exceeds the unsigned transaction value'')
    else
    let fee_envelope = ce_fee_envelope (ne_cost_envelope (up_net_profit_evidence (xp_unsigned_package
        (ro_package self)))) in
    let actual_native_cost = inc_execution_gas_cost (ro_inclusion self) in
    rbind (u256_add actual_native_cost (rf_l1_data_fee_paid (ro_rollup_fee self)) ''actual native cost'')
        (\<lambda>actual_native_cost.
    rbind (u256_add actual_native_cost (rf_operator_fee_paid (ro_rollup_fee self)) ''actual native cost'')
        (\<lambda>actual_native_cost.
    rbind (u256_add actual_native_cost (sev_direct_inclusion_payment event) ''actual native cost'')
        (\<lambda>actual_native_cost.
    rbind (fe_total_native_upper_bound fee_envelope) (\<lambda>native_cost_upper_bound.
    let native_cost_overrun = max (actual_native_cost - native_cost_upper_bound) 0 in
    let residual_shortfall
        = max (residual_before_external_costs plan - sev_base_token_residual_before_external_costs event) 0
        in
    rbind (fe_execution_gas_cost_upper_bound fee_envelope) (\<lambda>execution_gas_cost_upper_bound.
    let cost_upper_bounds_respected
        = inc_execution_gas_cost (ro_inclusion self) \<le> execution_gas_cost_upper_bound
        \<and> rf_l1_data_fee_paid (ro_rollup_fee self) \<le> fe_l1_data_fee_upper_bound fee_envelope
        \<and> rf_operator_fee_paid (ro_rollup_fee self) \<le> fe_operator_fee_upper_bound fee_envelope
        \<and> sev_direct_inclusion_payment event \<le> fe_direct_inclusion_payment_upper_bound
        fee_envelope \<and> actual_native_cost \<le> native_cost_upper_bound in
    let conservative_shadow_floor_preserved = cost_upper_bounds_respected \<and> residual_shortfall = 0 in
    let simulation = hd (up_simulations (xp_unsigned_package (ro_package self))) in
    if sev_principal_repaid event \<noteq> ts_flash_loan_principal_repaid simulation
    then Inl (ValueError ''settlement principal disagrees with exact simulation agreement'')
    else if sev_flash_loan_fee_paid event \<noteq> ts_flash_loan_fee_paid simulation
    then Inl (ValueError ''settlement fee disagrees with exact simulation agreement'')
    else if sev_beneficiary event \<noteq> ts_base_token_beneficiary simulation
    then Inl (ValueError ''settlement beneficiary disagrees with exact simulation agreement'')
    else
    let simulation_gas_match = inc_gas_used (ro_inclusion self) = ts_gas_used simulation in
    let simulation_logs_match = rx_logs_sha256 (inc_receipt (ro_inclusion self))
        = ts_logs_sha256 simulation in
    let simulation_output_match = sev_gross_output event = ts_output_amount simulation in
    let simulation_residual_match = sev_base_token_residual_before_external_costs event
        = ts_base_token_residual_before_external_costs simulation in
    let simulation_direct_payment_match = sev_direct_inclusion_payment event
        = ts_coinbase_payment simulation in
    let self = self\<lparr>ro_settlement_event := event,
                        ro_actual_native_cost := actual_native_cost,
                        ro_native_cost_upper_bound := native_cost_upper_bound,
                        ro_native_cost_overrun := native_cost_overrun,
                        ro_base_token_residual_shortfall_before_external_costs := residual_shortfall,
                        ro_simulation_gas_match := simulation_gas_match,
                        ro_simulation_logs_match := simulation_logs_match,
                        ro_simulation_output_match := simulation_output_match,
                        ro_simulation_residual_match := simulation_residual_match,
                        ro_simulation_direct_payment_match := simulation_direct_payment_match,
                        ro_cost_upper_bounds_respected := cost_upper_bounds_respected,
                        ro_conservative_shadow_floor_preserved :=
                            conservative_shadow_floor_preserved\<rparr> in
    rbind (jsha (jobj
        [(''schema'', jtext REALIZED_OUTCOME_SCHEMA),
         (''package_sha256'', jtext (xp_digest (ro_package self))),
         (''inclusion_sha256'', jstr (inc_digest (ro_inclusion self))),
         (''settlement_registry_sha256'', jtext (spr_digest (ro_settlement_registry self))),
         (''settlement_spec_sha256'', jtext (sps_digest (ro_settlement_spec self))),
         (''settlement_event_sha256'', jtext (sev_digest event)),
         (''rollup_fee_sha256'', jtext (rf_digest (ro_rollup_fee self))),
         (''actual_native_cost'', jint actual_native_cost),
         (''native_cost_upper_bound'', jint native_cost_upper_bound),
         (''native_cost_overrun'', jint native_cost_overrun),
         (''base_token_residual_shortfall_before_external_costs'', jint residual_shortfall),
         (''created_at_unix_ms'', jint (ro_created_at_unix_ms self))])) (\<lambda>digest3.
    let self = self\<lparr>ro_outcome_id := ''realized-outcome-'' @ digest3\<rparr> in
    jchecked (RealizedExecutionOutcomeEvidence_to_json self) self)))))))))))"

end
