(* ===== verification/Historical_Scoreboard.thy ===== *)
theory Historical_Scoreboard
  imports Execution_Outcome
begin

text \<open>
  Historical scoreboards (\<^verbatim>\<open>historical_scoreboard.py\<close>): valuation policies, cohort
  keys, execution records with their disposition and conservative economics, attempt references
  and the source manifest, the corpus that must consume exactly the declared references, the
  scoreboard's metrics, calibration buckets and reports, expected value, and the research
  promotion decision.  A metric is read by name, as \<open>__getattr__\<close> does.
\<close>

definition MAX_CORPUS_RECORDS :: int where "MAX_CORPUS_RECORDS = 128"
definition MAX_CALIBRATION_BUCKETS :: int where "MAX_CALIBRATION_BUCKETS = 16"
definition MAX_AGGREGATE :: int where "MAX_AGGREGATE = 2 ^ 512 - 1"
definition COHORT_SCHEMA :: string where "COHORT_SCHEMA = ''aladdin-mev-historical-cohort-key/v1''"
definition VALUATION_POLICY_SCHEMA :: string where "VALUATION_POLICY_SCHEMA = ''aladdin-mev-historical-valuation-policy/v1''"
definition HISTORICAL_RECORD_SCHEMA :: string where "HISTORICAL_RECORD_SCHEMA = ''aladdin-mev-historical-execution-record/v1''"
definition ATTEMPT_REFERENCE_SCHEMA :: string where "ATTEMPT_REFERENCE_SCHEMA = ''aladdin-mev-historical-attempt-reference/v1''"
definition SOURCE_MANIFEST_SCHEMA :: string where "SOURCE_MANIFEST_SCHEMA = ''aladdin-mev-historical-corpus-source-manifest/v1''"
definition CORPUS_SCHEMA :: string where "CORPUS_SCHEMA = ''aladdin-mev-historical-outcome-corpus/v1''"
definition SCOREBOARD_SCHEMA :: string where "SCOREBOARD_SCHEMA = ''aladdin-mev-historical-economic-scoreboard/v1''"
definition CALIBRATION_POLICY_SCHEMA :: string where "CALIBRATION_POLICY_SCHEMA = ''aladdin-mev-calibration-policy/v1''"
definition CALIBRATION_BUCKET_SCHEMA :: string where "CALIBRATION_BUCKET_SCHEMA = ''aladdin-mev-calibration-bucket/v1''"
definition CALIBRATION_REPORT_SCHEMA :: string where "CALIBRATION_REPORT_SCHEMA = ''aladdin-mev-historical-calibration-report/v1''"
definition EXPECTED_VALUE_SCHEMA :: string where "EXPECTED_VALUE_SCHEMA = ''aladdin-mev-historical-expected-value/v1''"
definition PROMOTION_POLICY_SCHEMA :: string where "PROMOTION_POLICY_SCHEMA = ''aladdin-mev-research-promotion-policy/v1''"
definition PROMOTION_DECISION_SCHEMA :: string where "PROMOTION_DECISION_SCHEMA = ''aladdin-mev-research-promotion-decision/v1''"

datatype disposition = SETTLED | REVERTED | SETTLEMENT_MISSING | SETTLEMENT_EVIDENCE_INCOMPLETE

fun disposition_value :: "disposition \<Rightarrow> string" where
  "disposition_value SETTLED = ''settled''"
| "disposition_value REVERTED = ''reverted''"
| "disposition_value SETTLEMENT_MISSING = ''settlement-missing''"
| "disposition_value SETTLEMENT_EVIDENCE_INCOMPLETE = ''settlement-evidence-incomplete''"

datatype promotion_reason = EXPECTED_VALUE_UNAVAILABLE | INSUFFICIENT_ATTEMPTS | INSUFFICIENT_SCOREABLE_RECORDS | INSUFFICIENT_SCOREABLE_RATE | INSUFFICIENT_EXECUTION_SUCCESS_RATE | INSUFFICIENT_FLOOR_PRESERVATION_RATE | INSUFFICIENT_COST_BOUND_RATE | INSUFFICIENT_POSITIVE_SURPLUS_RATE | INSUFFICIENT_UNIQUE_SCOREABLE_BLOCKS | EXCESSIVE_NATIVE_COST_OVERRUN_RATE | EXCESSIVE_MEAN_ABSOLUTE_ERROR | GUARDED_EXPECTED_VALUE_BELOW_FLOOR | CALIBRATION_BUCKET_UNDERSAMPLED

fun promotion_reason_value :: "promotion_reason \<Rightarrow> string" where
  "promotion_reason_value EXPECTED_VALUE_UNAVAILABLE = ''expected-value-unavailable''"
| "promotion_reason_value INSUFFICIENT_ATTEMPTS = ''insufficient-attempts''"
| "promotion_reason_value INSUFFICIENT_SCOREABLE_RECORDS = ''insufficient-scoreable-records''"
| "promotion_reason_value INSUFFICIENT_SCOREABLE_RATE = ''insufficient-scoreable-rate''"
| "promotion_reason_value INSUFFICIENT_EXECUTION_SUCCESS_RATE = ''insufficient-execution-success-rate''"
| "promotion_reason_value INSUFFICIENT_FLOOR_PRESERVATION_RATE = ''insufficient-floor-preservation-rate''"
| "promotion_reason_value INSUFFICIENT_COST_BOUND_RATE = ''insufficient-cost-bound-rate''"
| "promotion_reason_value INSUFFICIENT_POSITIVE_SURPLUS_RATE = ''insufficient-positive-surplus-rate''"
| "promotion_reason_value INSUFFICIENT_UNIQUE_SCOREABLE_BLOCKS = ''insufficient-unique-scoreable-blocks''"
| "promotion_reason_value EXCESSIVE_NATIVE_COST_OVERRUN_RATE = ''excessive-native-cost-overrun-rate''"
| "promotion_reason_value EXCESSIVE_MEAN_ABSOLUTE_ERROR = ''excessive-mean-absolute-error''"
| "promotion_reason_value GUARDED_EXPECTED_VALUE_BELOW_FLOOR = ''guarded-expected-value-below-floor''"
| "promotion_reason_value CALIBRATION_BUCKET_UNDERSAMPLED = ''calibration-bucket-undersampled''"

definition signed_aggregate :: "string \<Rightarrow> int \<Rightarrow> int result" where
  "signed_aggregate name v =
    (if \<not> (- MAX_AGGREGATE \<le> v \<and> v \<le> MAX_AGGREGATE)
     then Inl (ValueError (name @ '' exceeds the governed signed aggregate domain''))
     else
     Inr v)"

definition aggregate_add :: "int \<Rightarrow> int \<Rightarrow> string \<Rightarrow> int result" where
  "aggregate_add left right name =
    rbind (signed_aggregate (name @ '' left'') left) (\<lambda>_.
    rbind (signed_aggregate (name @ '' right'') right) (\<lambda>_.
    signed_aggregate name (left + right)))"

definition aggregate_sum :: "int list \<Rightarrow> string \<Rightarrow> int result" where
  "aggregate_sum xs name = rfold (\<lambda>sum v. aggregate_add sum v name) 0 xs"

definition signed_ceil_div :: "int \<Rightarrow> int \<Rightarrow> int result" where
  "signed_ceil_div numerator denominator =
    (if denominator \<le> 0
     then Inl (ValueError ''ceiling division requires exact integer numerator and positive denominator'')
     else
     Inr (- ((- numerator) div denominator)))"

definition ratio_bps :: "int \<Rightarrow> int \<Rightarrow> int result" where
  "ratio_bps numerator denominator =
    (if numerator < 0 \<or> denominator < 0 \<or> denominator < numerator
     then Inl (ValueError ''ratio inputs must satisfy 0 <= numerator <= denominator'')
     else if denominator = 0 then Inr 0
     else
     Inr ((numerator * BASIS_POINTS) div denominator))"

definition signed_ratio_bps_floor :: "int \<Rightarrow> int \<Rightarrow> int result" where
  "signed_ratio_bps_floor numerator denominator =
    (if denominator \<le> 0
     then Inl (ValueError ''signed ratio requires an exact numerator and positive denominator'')
     else
     rbind (signed_aggregate ''signed ratio numerator'' numerator) (\<lambda>_.
     if MAX_AGGREGATE div BASIS_POINTS < \<bar>numerator\<bar>
     then Inl (ValueError ''signed ratio multiplication exceeds the governed aggregate domain'')
     else
     Inr ((numerator * BASIS_POINTS) div denominator)))"

definition unsigned_ratio_bps_ceiling_saturated :: "int \<Rightarrow> int \<Rightarrow> int result" where
  "unsigned_ratio_bps_ceiling_saturated numerator denominator =
    (if numerator < 0 \<or> denominator \<le> 0
     then Inl (ValueError ''unsigned ratio requires a non-negative numerator and positive denominator'')
     else
     rbind (signed_ceil_div (numerator * BASIS_POINTS) denominator) (\<lambda>v.
     Inr (min v MAX_UINT256)))"

subsection \<open>Valuation policies\<close>

record valuation_policy =
  hp_policy_id :: string
  hp_native_asset :: asset_id
  hp_base_asset :: asset_id
  hp_rate_source_sha256 :: "string option"

definition hp_mode :: "valuation_policy \<Rightarrow> string" where
  "hp_mode self =
    (if hp_native_asset self = hp_base_asset self then ''identity'' else ''directional-ceiling'')"

definition HistoricalValuationPolicy_to_json :: "valuation_policy \<Rightarrow> json" where
  "HistoricalValuationPolicy_to_json self =
    JObj
    [(''schema'', JStr VALUATION_POLICY_SCHEMA),
     (''policy_id'', JStr (hp_policy_id self)),
     (''native_asset'', AssetId_to_json (hp_native_asset self)),
     (''base_asset'', AssetId_to_json (hp_base_asset self)),
     (''rate_source_sha256'', optional_text (hp_rate_source_sha256 self)),
     (''mode'', JStr (hp_mode self)),
     (''rounding'', JStr ''identity-or-ceiling'')]"

definition hp_digest :: "valuation_policy \<Rightarrow> string" where
  "hp_digest self =
    json_sha256 (HistoricalValuationPolicy_to_json self)"

definition HistoricalValuationPolicy_post_init :: "valuation_policy \<Rightarrow> valuation_policy result" where
  "HistoricalValuationPolicy_post_init self =
    rbind (require_bounded_text ''policy_id'' (hp_policy_id self) 128) (\<lambda>_.
    if ai_chain (hp_native_asset self) \<noteq> ai_chain (hp_base_asset self)
    then Inl (ValueError ''historical valuation policy cannot cross chains'')
    else
    rbind (if hp_native_asset self = hp_base_asset self
      then (if hp_rate_source_sha256 self \<noteq> None
        then Inl (ValueError ''identity valuation policy cannot carry a rate source'')
        else Inr ())
      else (case hp_rate_source_sha256 self of
          None \<Rightarrow> Inl (ValueError ''directional valuation policy requires a rate source'')
        | Some source \<Rightarrow> require_sha256 ''rate_source_sha256'' source)) (\<lambda>_.
    jchecked (Inr (HistoricalValuationPolicy_to_json self)) self))"

definition hp_validate_assets :: "valuation_policy \<Rightarrow> asset_id \<Rightarrow> asset_id \<Rightarrow> unit result" where
  "hp_validate_assets self native_asset base_asset =
    (if native_asset \<noteq> hp_native_asset self \<or> base_asset \<noteq> hp_base_asset self
     then Inl (ValueError ''historical valuation policy asset identity disagrees with the package'')
     else Inr ())"

definition hp_validate_book :: "valuation_policy \<Rightarrow> valuation_book \<Rightarrow> int \<Rightarrow> unit result" where
  "hp_validate_book self book at_unix_ms =
    rbind (require_time ''at_unix_ms'' at_unix_ms) (\<lambda>_.
    if hp_mode self = ''identity''
    then rbind (require_exact_pairs book [] at_unix_ms) (\<lambda>_. Inr ())
    else
    rbind (require_exact_pairs book [(hp_native_asset self, hp_base_asset self)] at_unix_ms) (\<lambda>rates.
    if length rates \<noteq> 1 \<or> Some (vr_source_sha256 (hd rates)) \<noteq> hp_rate_source_sha256 self
    then Inl (ValueError ''historical valuation rate source disagrees with its policy'')
    else Inr ()))"

subsection \<open>Cohort keys\<close>

record cohort_key =
  hk_chain :: chain
  hk_strategy :: strategy
  hk_base_asset_sha256 :: string
  hk_sender_address :: bytes
  hk_signature_source_sha256 :: string
  hk_profit_policy_sha256 :: string
  hk_relay_endpoint_sha256 :: string
  hk_relay_response_source_set_sha256 :: string
  hk_funding_kind :: funding_kind
  hk_funding_provider_id :: string
  hk_funding_source_sha256 :: string
  hk_executor_interface_sha256 :: string
  hk_execution_constraint_policy_sha256 :: string
  hk_pool_model_registry_sha256 :: string
  hk_simulation_environment_sha256 :: string
  hk_route_simulation_engine_set_sha256 :: string
  hk_transaction_simulation_engine_set_sha256 :: string
  hk_executor_deployment_sha256 :: string
  hk_settlement_event_registry_sha256 :: string
  hk_settlement_event_spec_sha256 :: string
  hk_rollup_fee_source_identity_sha256 :: string
  hk_historical_valuation_policy_sha256 :: string
  hk_inclusion_finality :: finality

definition HistoricalCohortKey_to_json :: "cohort_key \<Rightarrow> json" where
  "HistoricalCohortKey_to_json self =
    JObj
    [(''schema'', JStr COHORT_SCHEMA),
     (''chain'', JStr (chain_value (hk_chain self))),
     (''strategy'', JStr (strategy_value (hk_strategy self))),
     (''base_asset_sha256'', JStr (hk_base_asset_sha256 self)),
     (''sender_address'', JStr (to_hex_data (hk_sender_address self))),
     (''signature_source_sha256'', JStr (hk_signature_source_sha256 self)),
     (''profit_policy_sha256'', JStr (hk_profit_policy_sha256 self)),
     (''relay_endpoint_sha256'', JStr (hk_relay_endpoint_sha256 self)),
     (''relay_response_source_set_sha256'', JStr (hk_relay_response_source_set_sha256 self)),
     (''funding_kind'', JStr (funding_kind_value (hk_funding_kind self))),
     (''funding_provider_id'', JStr (hk_funding_provider_id self)),
     (''funding_source_sha256'', JStr (hk_funding_source_sha256 self)),
     (''executor_interface_sha256'', JStr (hk_executor_interface_sha256 self)),
     (''execution_constraint_policy_sha256'', JStr (hk_execution_constraint_policy_sha256 self)),
     (''pool_model_registry_sha256'', JStr (hk_pool_model_registry_sha256 self)),
     (''simulation_environment_sha256'', JStr (hk_simulation_environment_sha256 self)),
     (''route_simulation_engine_set_sha256'', JStr (hk_route_simulation_engine_set_sha256 self)),
     (''transaction_simulation_engine_set_sha256'',
         JStr (hk_transaction_simulation_engine_set_sha256 self)),
     (''executor_deployment_sha256'', JStr (hk_executor_deployment_sha256 self)),
     (''settlement_event_registry_sha256'', JStr (hk_settlement_event_registry_sha256 self)),
     (''settlement_event_spec_sha256'', JStr (hk_settlement_event_spec_sha256 self)),
     (''rollup_fee_source_identity_sha256'', JStr (hk_rollup_fee_source_identity_sha256 self)),
     (''historical_valuation_policy_sha256'', JStr (hk_historical_valuation_policy_sha256 self)),
     (''inclusion_finality'', JStr (finality_value (hk_inclusion_finality self)))]"

definition hk_digest :: "cohort_key \<Rightarrow> string" where
  "hk_digest self =
    json_sha256 (HistoricalCohortKey_to_json self)"

definition HistoricalCohortKey_post_init :: "cohort_key \<Rightarrow> cohort_key result" where
  "HistoricalCohortKey_post_init self =
    (if hk_chain self \<notin> {ETHEREUM, BASE}
     then Inl (ValueError ''F8 historical cohorts support Ethereum and Base only'')
     else if hk_strategy self \<noteq> ATOMIC_DEX_ARBITRAGE
     then Inl (ValueError ''F8 historical cohorts support atomic DEX arbitrage only'')
     else
     rbind (require_address ''sender_address'' (hk_sender_address self)) (\<lambda>_.
     rbind (rall (\<lambda>(name, v). require_sha256 name v)
      [(''base_asset_sha256'', hk_base_asset_sha256 self),
       (''signature_source_sha256'', hk_signature_source_sha256 self),
       (''profit_policy_sha256'', hk_profit_policy_sha256 self),
       (''relay_endpoint_sha256'', hk_relay_endpoint_sha256 self),
       (''relay_response_source_set_sha256'', hk_relay_response_source_set_sha256 self),
       (''funding_source_sha256'', hk_funding_source_sha256 self),
       (''executor_interface_sha256'', hk_executor_interface_sha256 self),
       (''execution_constraint_policy_sha256'', hk_execution_constraint_policy_sha256 self),
       (''pool_model_registry_sha256'', hk_pool_model_registry_sha256 self),
       (''simulation_environment_sha256'', hk_simulation_environment_sha256 self),
       (''route_simulation_engine_set_sha256'', hk_route_simulation_engine_set_sha256 self),
       (''transaction_simulation_engine_set_sha256'', hk_transaction_simulation_engine_set_sha256 self),
       (''executor_deployment_sha256'', hk_executor_deployment_sha256 self),
       (''settlement_event_registry_sha256'', hk_settlement_event_registry_sha256 self),
       (''settlement_event_spec_sha256'', hk_settlement_event_spec_sha256 self),
       (''rollup_fee_source_identity_sha256'', hk_rollup_fee_source_identity_sha256 self),
       (''historical_valuation_policy_sha256'', hk_historical_valuation_policy_sha256 self)]) (\<lambda>_.
     if hk_inclusion_finality self \<notin> {CONFIRMED, FINALIZED}
     then Inl (ValueError ''F8 historical cohorts require confirmed or finalized inclusion'')
     else
     rbind (require_bounded_text ''funding_provider_id'' (hk_funding_provider_id self) 128) (\<lambda>_.
     jchecked (Inr (HistoricalCohortKey_to_json self)) self))))"

definition engine_set_json :: "(string \<times> string \<times> string) list \<Rightarrow> json" where
  "engine_set_json engines = JArr (map (\<lambda>(engine_id, implementation, source).
    JObj [(''engine_id'', JStr engine_id),
          (''engine_implementation_sha256'', JStr implementation),
          (''result_source_sha256'', JStr source)]) engines)"

definition HistoricalCohortKey_from_evidence ::
  "signed_package \<Rightarrow> inclusion \<Rightarrow> settlement_registry \<Rightarrow> settlement_spec \<Rightarrow> rollup_fee
    \<Rightarrow> valuation_policy \<Rightarrow> cohort_key result" where
  "HistoricalCohortKey_from_evidence package evidence settlement_registry settlement_spec rollup_fee policy =
    (if xp_digest (inc_package evidence) \<noteq> xp_digest package
     then Inl (ValueError ''cohort inclusion does not bind the exact package'')
     else
     let unsigned = xp_unsigned_package package;
         net = up_net_profit_evidence unsigned;
         plan = ne_plan net;
         deployment = ad_spec (gc_deployment (up_call unsigned));
         runtime_code_hash = ds_runtime_code_hash deployment in
     rbind (spr_resolve settlement_registry runtime_code_hash (ab_block_number (inc_block evidence))) (\<lambda>resolved.
     if sps_digest resolved \<noteq> sps_digest settlement_spec
     then Inl (ValueError ''cohort settlement registry does not bind the exact settlement spec'')
     else if sps_runtime_code_hash settlement_spec \<noteq> runtime_code_hash
     then Inl (ValueError ''cohort settlement spec does not bind the executor runtime code'')
     else
     rbind (canonical_sha256 (ProfitPolicy_to_json (ne_profit_policy net))) (\<lambda>profit_policy.
     rbind (canonical_sha256 (JArr (map (\<lambda>item.
         JObj [(''response_source_id'', JStr (rsp_response_source_id item)),
               (''response_source_sha256'', JStr (rsp_response_source_sha256 item))])
         (xp_relay_responses package)))) (\<lambda>response_sources.
     rbind (ei_digest (ds_interface deployment)) (\<lambda>interface.
     rbind (canonical_sha256 (engine_set_json (map (\<lambda>item. (rs_engine_id item,
         rs_engine_implementation_sha256 item, rs_result_source_sha256 item)) (ne_simulations net)))) (\<lambda>route_engines.
     rbind (canonical_sha256 (engine_set_json (map (\<lambda>item. (ts_engine_id item,
         ts_engine_implementation_sha256 item, ts_result_source_sha256 item)) (up_simulations unsigned)))) (\<lambda>transaction_engines.
     rbind (ds_digest deployment) (\<lambda>executor_deployment.
     rbind (canonical_sha256 (JObj [(''source_id'', JStr (rf_source_id rollup_fee)),
         (''source_sha256'', JStr (rf_source_sha256 rollup_fee))])) (\<lambda>rollup_source.
     HistoricalCohortKey_post_init
       \<lparr>hk_chain = bi_chain (up_bundle unsigned),
        hk_strategy = ATOMIC_DEX_ARBITRAGE,
        hk_base_asset_sha256 = AssetId_digest (pl_base_asset plan),
        hk_sender_address = sx_recovered_sender (xp_signed_transaction package),
        hk_signature_source_sha256 = sg_source_sha256 (sx_signature (xp_signed_transaction package)),
        hk_profit_policy_sha256 = profit_policy,
        hk_relay_endpoint_sha256 = re_digest (rqs_endpoint (xp_relay_request package)),
        hk_relay_response_source_set_sha256 = response_sources,
        hk_funding_kind = fu_kind (pl_funding plan),
        hk_funding_provider_id = fu_provider_id (pl_funding plan),
        hk_funding_source_sha256 = fu_source_sha256 (pl_funding plan),
        hk_executor_interface_sha256 = interface,
        hk_execution_constraint_policy_sha256 = cp_digest (gc_constraints (up_call unsigned)),
        hk_pool_model_registry_sha256 = mr_digest (pu_model_registry (op_universe (pl_opportunity plan))),
        hk_simulation_environment_sha256 = ts_environment_sha256 (hd (up_simulations unsigned)),
        hk_route_simulation_engine_set_sha256 = route_engines,
        hk_transaction_simulation_engine_set_sha256 = transaction_engines,
        hk_executor_deployment_sha256 = executor_deployment,
        hk_settlement_event_registry_sha256 = spr_digest settlement_registry,
        hk_settlement_event_spec_sha256 = sps_digest settlement_spec,
        hk_rollup_fee_source_identity_sha256 = rollup_source,
        hk_historical_valuation_policy_sha256 = hp_digest policy,
        hk_inclusion_finality = bk_finality (ab_block (inc_block evidence))\<rparr>)))))))))"

subsection \<open>Execution records\<close>

record execution_record =
  hr_package :: signed_package
  hr_inclusion :: inclusion
  hr_settlement_registry :: settlement_registry
  hr_settlement_spec :: settlement_spec
  hr_rollup_fee :: rollup_fee
  hr_outcome :: "realized_outcome option"
  hr_historical_valuation_policy :: valuation_policy
  hr_historical_valuation_book :: valuation_book
  hr_recorded_at_unix_ms :: int
  hr_cohort :: cohort_key
  hr_disposition :: disposition
  hr_predicted_conservative_net_profit :: int
  hr_predicted_external_cost_base_upper_bound :: int
  hr_actual_external_cost_base_upper_bound :: "int option"
  hr_historical_conservative_surplus :: "int option"
  hr_prediction_error :: "int option"
  hr_settlement_event_observed :: bool
  hr_cost_upper_bounds_respected :: bool
  hr_conservative_floor_preserved :: bool
  hr_record_id :: string

definition hr_capital_at_risk :: "execution_record \<Rightarrow> int" where
  "hr_capital_at_risk self =
    capital_at_risk (pl_opportunity (ne_plan (up_net_profit_evidence (xp_unsigned_package (hr_package
        self)))))"

definition hr_absolute_prediction_error :: "execution_record \<Rightarrow> int option" where
  "hr_absolute_prediction_error self =
    (case hr_prediction_error self of None \<Rightarrow> None | Some x \<Rightarrow> Some (\<bar>x\<bar>))"

definition hr_economics_scoreable :: "execution_record \<Rightarrow> bool" where
  "hr_economics_scoreable self =
    (hr_outcome self \<noteq> None)"

definition hr_execution_success :: "execution_record \<Rightarrow> bool" where
  "hr_execution_success self =
    (rx_success (inc_receipt (hr_inclusion self)))"

definition hr_settlement_observed :: "execution_record \<Rightarrow> bool" where
  "hr_settlement_observed self =
    (hr_settlement_event_observed self)"

definition hr_outcome_evidence_complete :: "execution_record \<Rightarrow> bool" where
  "hr_outcome_evidence_complete self =
    (hr_outcome self \<noteq> None)"

definition hr_positive_historical_surplus :: "execution_record \<Rightarrow> bool" where
  "hr_positive_historical_surplus self =
    (case hr_historical_conservative_surplus self of None \<Rightarrow> False | Some x \<Rightarrow> 0 < x)"

definition hr_simulation_exact_match :: "execution_record \<Rightarrow> bool" where
  "hr_simulation_exact_match self =
    (case hr_outcome self of None \<Rightarrow> False | Some x \<Rightarrow> ro_simulation_exact_match x)"

definition hr_native_cost_overrun :: "execution_record \<Rightarrow> int option" where
  "hr_native_cost_overrun self =
    (case hr_outcome self of None \<Rightarrow> None | Some x \<Rightarrow> Some (ro_native_cost_overrun
        x))"

definition HistoricalExecutionRecord_to_json :: "execution_record \<Rightarrow> json result" where
  "HistoricalExecutionRecord_to_json self =
    jobj
    [(''schema'', jtext HISTORICAL_RECORD_SCHEMA),
     (''record_id'', jtext (hr_record_id self)),
     (''cohort'', Inr (HistoricalCohortKey_to_json (hr_cohort self))),
     (''cohort_sha256'', jtext (hk_digest (hr_cohort self))),
     (''package_sha256'', jtext (xp_digest (hr_package self))),
     (''inclusion_sha256'', jstr (inc_digest (hr_inclusion self))),
     (''settlement_event_registry_sha256'', jtext (spr_digest (hr_settlement_registry self))),
     (''settlement_event_spec_sha256'', jtext (sps_digest (hr_settlement_spec self))),
     (''rollup_fee_sha256'', jtext (rf_digest (hr_rollup_fee self))),
     (''outcome_sha256'', (case hr_outcome self of None \<Rightarrow> Inr JNull | Some x \<Rightarrow> jstr
         (ro_digest x))),
     (''historical_valuation_policy'',
         Inr (HistoricalValuationPolicy_to_json (hr_historical_valuation_policy self))),
     (''historical_valuation_policy_sha256'', jtext (hp_digest (hr_historical_valuation_policy self))),
     (''historical_valuation_book'', ValuationBook_to_json (hr_historical_valuation_book self)),
     (''historical_valuation_book_sha256'',
         jstr (ValuationBook_digest (hr_historical_valuation_book self))),
     (''transaction_hash'', jtext (sx_transaction_hash_hex (xp_signed_transaction (hr_package self)))),
     (''block_number'', jint (ab_block_number (inc_block (hr_inclusion self)))),
     (''transaction_index'', jint (inc_transaction_index (hr_inclusion self))),
     (''disposition'', jtext (disposition_value (hr_disposition self))),
     (''capital_at_risk'', jint (hr_capital_at_risk self)),
     (''predicted_conservative_net_profit'', jint (hr_predicted_conservative_net_profit self)),
     (''predicted_external_cost_base_upper_bound'',
         jint (hr_predicted_external_cost_base_upper_bound self)),
     (''actual_external_cost_base_upper_bound'',
         Inr (case hr_actual_external_cost_base_upper_bound self of None \<Rightarrow> JNull | Some x
         \<Rightarrow> JStr (str_of_int x))),
     (''historical_conservative_surplus'',
         Inr (case hr_historical_conservative_surplus self of None \<Rightarrow> JNull | Some x
         \<Rightarrow> JStr (str_of_int x))),
     (''prediction_error'',
         Inr (case hr_prediction_error self of None \<Rightarrow> JNull | Some x \<Rightarrow> JStr
         (str_of_int x))),
     (''absolute_prediction_error'',
         Inr (case hr_absolute_prediction_error self of None \<Rightarrow> JNull | Some x \<Rightarrow>
         JStr (str_of_int x))),
     (''execution_success'', jbool (hr_execution_success self)),
     (''settlement_observed'', jbool (hr_settlement_observed self)),
     (''outcome_evidence_complete'', jbool (hr_outcome_evidence_complete self)),
     (''economics_scoreable'', jbool (hr_economics_scoreable self)),
     (''simulation_exact_match'', jbool (hr_simulation_exact_match self)),
     (''cost_upper_bounds_respected'', jbool (hr_cost_upper_bounds_respected self)),
     (''native_cost_overrun'',
         Inr (case hr_native_cost_overrun self of None \<Rightarrow> JNull | Some x \<Rightarrow> JStr
         (str_of_int x))),
     (''conservative_floor_preserved'', jbool (hr_conservative_floor_preserved self)),
     (''positive_historical_surplus'', jbool (hr_positive_historical_surplus self)),
     (''recorded_at_unix_ms'', jint (hr_recorded_at_unix_ms self)),
     (''economic_authority'',
         jtext ''authenticated-settlement-minus-historical-conservative-cost-upper-bound-only''),
     (''inclusion_conditioned'', jbool True),
     (''realized_profit_claimed'', jbool False),
     (''production_promotion_authority'', jbool False),
     (''submission_authority'', jtext ''none''),
     (''execution_authority'', jtext ''none'')]"

definition hr_digest :: "execution_record \<Rightarrow> string result" where
  "hr_digest self =
    jsha (HistoricalExecutionRecord_to_json self)"

text \<open>
  The record's constructor in parts: what the evidence must bind; the settlement event the
  receipt carries, if any; what the event and a supplied outcome must agree on; the disposition;
  and the economics of a scoreable record.
\<close>

definition record_settlement_event :: "execution_record \<Rightarrow> settlement_event option result" where
  "record_settlement_event self =
    (let deployment = gc_deployment (up_call (xp_unsigned_package (hr_package self)));
         runtime_code_hash = ds_runtime_code_hash (ad_spec deployment);
         spec = hr_settlement_spec self in
     if xp_digest (inc_package (hr_inclusion self)) \<noteq> xp_digest (hr_package self)
     then Inl (ValueError ''inclusion does not bind the exact F6 package'')
     else if rf_chain (hr_rollup_fee self) \<noteq> ab_chain (inc_block (hr_inclusion self))
     then Inl (ValueError ''rollup fee chain disagrees with inclusion'')
     else if rf_transaction_hash (hr_rollup_fee self) \<noteq> sx_transaction_hash (xp_signed_transaction (hr_package self))
     then Inl (ValueError ''rollup fee does not bind the exact transaction'')
     else if rf_observed_at_unix_ms (hr_rollup_fee self) < bk_observed_at_unix_ms (ab_block (inc_block (hr_inclusion self)))
     then Inl (ValueError ''rollup fee evidence predates the authenticated block'')
     else
     rbind (spr_resolve (hr_settlement_registry self) runtime_code_hash (ab_block_number (inc_block (hr_inclusion self)))) (\<lambda>resolved_spec.
     if sps_digest resolved_spec \<noteq> sps_digest spec
     then Inl (ValueError ''settlement registry does not bind the exact settlement spec'')
     else if sps_runtime_code_hash spec \<noteq> runtime_code_hash
     then Inl (ValueError ''settlement spec does not bind the executor runtime code'')
     else
     let candidates = filter (\<lambda>item. lg_address item = ad_address deployment \<and> lg_topics item \<noteq> []
         \<and> hd (lg_topics item) = sps_topic0 spec) (rx_logs (inc_receipt (hr_inclusion self))) in
     if 1 < length candidates
     then Inl (ValueError ''historical record contains multiple governed settlement events'')
     else (case candidates of
         [] \<Rightarrow> Inr None
       | candidate # _ \<Rightarrow> rbind (sps_decode spec candidate) (\<lambda>event. Inr (Some event)))))"

definition record_event_checks :: "execution_record \<Rightarrow> settlement_event \<Rightarrow> unit result" where
  "record_event_checks self event =
    (let unsigned = xp_unsigned_package (hr_package self);
         plan = ne_plan (up_net_profit_evidence unsigned);
         transaction = sx_unsigned_transaction (xp_signed_transaction (hr_package self)) in
     rbind (pl_digest plan) (\<lambda>plan_sha256.
     if sev_plan_sha256 event \<noteq> plan_sha256
     then Inl (ValueError ''historical settlement event does not bind the exact plan'')
     else if sev_beneficiary event \<noteq> ut_sender transaction
     then Inl (ValueError ''historical settlement beneficiary is not the authenticated sender'')
     else if ai_address (pl_base_asset plan) \<noteq> Some (sev_base_token event)
     then Inl (ValueError ''historical settlement base token is not the exact plan asset'')
     else if sev_principal_repaid event \<noteq> fu_principal (pl_funding plan)
     then Inl (ValueError ''historical settlement principal disagrees with funding'')
     else if sev_flash_loan_fee_paid event \<noteq> fu_fee (pl_funding plan)
     then Inl (ValueError ''historical settlement fee disagrees with funding'')
     else if sev_gross_output event < gc_minimum_final_output (up_call unsigned)
     then Inl (ValueError ''historical settlement output violates the governed minimum'')
     else if ut_value transaction < sev_direct_inclusion_payment event
     then Inl (ValueError ''historical settlement direct payment exceeds transaction value'')
     else Inr ()))"

definition record_outcome_checks :: "execution_record \<Rightarrow> settlement_event option \<Rightarrow> unit result" where
  "record_outcome_checks self settlement_event =
    (let latest = max (inc_created_at_unix_ms (hr_inclusion self)) (rf_observed_at_unix_ms (hr_rollup_fee self)) in
     rbind (case hr_outcome self of None \<Rightarrow> Inr latest
       | Some outcome \<Rightarrow>
         if xp_digest (ro_package outcome) \<noteq> xp_digest (hr_package self)
         then Inl (ValueError ''outcome does not bind the exact package'')
         else
         rbind (inc_digest (ro_inclusion outcome)) (\<lambda>outcome_inclusion.
         rbind (inc_digest (hr_inclusion self)) (\<lambda>inclusion_sha256.
         if outcome_inclusion \<noteq> inclusion_sha256
         then Inl (ValueError ''outcome does not bind the exact inclusion'')
         else if rf_digest (ro_rollup_fee outcome) \<noteq> rf_digest (hr_rollup_fee self)
         then Inl (ValueError ''outcome does not bind the exact rollup fee evidence'')
         else if spr_digest (ro_settlement_registry outcome) \<noteq> spr_digest (hr_settlement_registry self)
         then Inl (ValueError ''outcome does not bind the exact settlement registry'')
         else if sps_digest (ro_settlement_spec outcome) \<noteq> sps_digest (hr_settlement_spec self)
         then Inl (ValueError ''outcome does not bind the exact settlement spec'')
         else (case settlement_event of
             None \<Rightarrow> Inl (ValueError ''outcome requires one authenticated governed settlement event'')
           | Some event \<Rightarrow>
             if sev_digest (ro_settlement_event outcome) \<noteq> sev_digest event
             then Inl (ValueError ''outcome settlement event disagrees with the authenticated receipt'')
             else Inr (max latest (ro_created_at_unix_ms outcome)))))) (\<lambda>latest.
     if hr_recorded_at_unix_ms self < latest
     then Inl (ValueError ''historical record predates its latest bound evidence'')
     else Inr ()))"

definition record_disposition :: "execution_record \<Rightarrow> bool \<Rightarrow> disposition result" where
  "record_disposition self settlement_event_observed =
    (if rx_success (inc_receipt (hr_inclusion self))
     then (if hr_outcome self \<noteq> None then Inr SETTLED
       else if settlement_event_observed then Inr SETTLEMENT_EVIDENCE_INCOMPLETE
       else Inr SETTLEMENT_MISSING)
     else if hr_outcome self \<noteq> None
     then Inl (ValueError ''reverted inclusion cannot carry successful settlement outcome'')
     else if settlement_event_observed
     then Inl (ValueError ''reverted inclusion cannot retain a governed settlement event'')
     else Inr REVERTED)"

text \<open>
  The economics: the upper bound of the external cost in the base asset, the conservative
  surplus, the prediction error, and whether the cost bounds and the predicted floor held; for a
  record without an outcome, nothing.
\<close>

definition scoreable_economics ::
  "execution_record \<Rightarrow> realized_outcome \<Rightarrow> int \<Rightarrow> int \<Rightarrow> (int \<times> int \<times> int \<times> bool \<times> bool) result" where
  "scoreable_economics self outcome predicted_external block_time_ms =
    (let net = up_net_profit_evidence (xp_unsigned_package (hr_package self));
         costs = ce_costs (ne_cost_envelope net);
         predicted_net = pa_conservative_net_profit (ne_decision net);
         native = fe_native_asset (ce_fee_envelope (ne_cost_envelope net));
         base = pl_base_asset (ne_plan net) in
     rbind (hp_validate_book (hr_historical_valuation_policy self) (hr_historical_valuation_book self) block_time_ms) (\<lambda>_.
     rbind (AssetAmount_post_init \<lparr>aa_asset = native, aa_amount = ro_actual_native_cost outcome\<rparr>) (\<lambda>amount.
     rbind (book_convert_upper_bound (hr_historical_valuation_book self) amount base block_time_ms) (\<lambda>converted.
     let actual_external = aa_amount converted in
     rbind (aggregate_sum [cb_slippage_reserve costs, cb_stale_state_reserve costs, cb_failure_risk_reserve costs,
         cb_infrastructure_cost costs, cb_inventory_hedge_cost costs] ''retained conservative reserve cost'') (\<lambda>reserve_cost.
     rbind (aggregate_add (sev_base_token_residual_before_external_costs (ro_settlement_event outcome))
         (- actual_external) ''historical conservative surplus'') (\<lambda>surplus_before_reserves.
     rbind (aggregate_add surplus_before_reserves (- reserve_cost) ''historical conservative surplus'') (\<lambda>historical_surplus.
     rbind (aggregate_add historical_surplus (- predicted_net) ''historical prediction error'') (\<lambda>prediction_error.
     let cost_bounds_respected = (ro_cost_upper_bounds_respected outcome \<and> actual_external \<le> predicted_external);
         floor_preserved = (ro_conservative_shadow_floor_preserved outcome \<and> cost_bounds_respected
           \<and> predicted_net \<le> historical_surplus) in
     Inr (actual_external, historical_surplus, prediction_error, cost_bounds_respected, floor_preserved)))))))))"

definition record_identity :: "execution_record \<Rightarrow> json result" where
  "record_identity self = jobj
    [(''schema'', jtext HISTORICAL_RECORD_SCHEMA),
     (''package_sha256'', jtext (xp_digest (hr_package self))),
     (''inclusion_sha256'', jstr (inc_digest (hr_inclusion self))),
     (''settlement_event_registry_sha256'', jtext (spr_digest (hr_settlement_registry self))),
     (''settlement_event_spec_sha256'', jtext (sps_digest (hr_settlement_spec self))),
     (''rollup_fee_sha256'', jtext (rf_digest (hr_rollup_fee self))),
     (''outcome_sha256'', (case hr_outcome self of None \<Rightarrow> Inr JNull | Some x \<Rightarrow> jstr (ro_digest x))),
     (''historical_valuation_policy_sha256'', jtext (hp_digest (hr_historical_valuation_policy self))),
     (''historical_valuation_book_sha256'', jstr (ValuationBook_digest (hr_historical_valuation_book self))),
     (''cohort_sha256'', jtext (hk_digest (hr_cohort self))),
     (''disposition'', jtext (disposition_value (hr_disposition self))),
     (''settlement_event_observed'', jbool (hr_settlement_event_observed self)),
     (''recorded_at_unix_ms'', jint (hr_recorded_at_unix_ms self))]"

definition HistoricalExecutionRecord_post_init :: "execution_record \<Rightarrow> execution_record result" where
  "HistoricalExecutionRecord_post_init self =
    rbind (require_time ''recorded_at_unix_ms'' (hr_recorded_at_unix_ms self)) (\<lambda>_.
    rbind (record_settlement_event self) (\<lambda>settlement_event.
    let settlement_event_observed = (settlement_event \<noteq> None) in
    rbind (case settlement_event of None \<Rightarrow> Inr () | Some event \<Rightarrow> record_event_checks self event) (\<lambda>_.
    rbind (record_outcome_checks self settlement_event) (\<lambda>_.
    rbind (record_disposition self settlement_event_observed) (\<lambda>disposition.
    rbind (HistoricalCohortKey_from_evidence (hr_package self) (hr_inclusion self) (hr_settlement_registry self)
        (hr_settlement_spec self) (hr_rollup_fee self) (hr_historical_valuation_policy self)) (\<lambda>cohort.
    let net = up_net_profit_evidence (xp_unsigned_package (hr_package self));
        costs = ce_costs (ne_cost_envelope net);
        predicted_net = pa_conservative_net_profit (ne_decision net) in
    rbind (aggregate_sum [cb_execution_gas_cost costs, cb_l1_data_fee costs, cb_operator_fee costs, cb_inclusion_bid costs]
        ''predicted external cost upper bound'') (\<lambda>predicted_external.
    rbind (hp_validate_assets (hr_historical_valuation_policy self)
        (fe_native_asset (ce_fee_envelope (ne_cost_envelope net))) (pl_base_asset (ne_plan net))) (\<lambda>_.
    let block_time_ms = bk_block_timestamp_unix_s (ab_block (inc_block (hr_inclusion self))) * 1000 in
    if MAX_UINT64 < block_time_ms
    then Inl (ValueError ''included block timestamp exceeds the governed millisecond domain'')
    else
    rbind (case hr_outcome self of
        None \<Rightarrow> if vb_rates (hr_historical_valuation_book self) \<noteq> []
          then Inl (ValueError ''unscoreable historical record cannot carry unused valuation authority'')
          else Inr (None, None, None, False, False)
      | Some outcome \<Rightarrow>
          rbind (scoreable_economics self outcome predicted_external block_time_ms) (\<lambda>(actual_external, surplus, prediction_error, cost_bounds, floor).
          Inr (Some actual_external, Some surplus, Some prediction_error, cost_bounds, floor)))
      (\<lambda>(actual_external, surplus, prediction_error, cost_bounds_respected, floor_preserved).
    let self = self\<lparr>hr_cohort := cohort, hr_disposition := disposition,
        hr_predicted_conservative_net_profit := predicted_net,
        hr_predicted_external_cost_base_upper_bound := predicted_external,
        hr_actual_external_cost_base_upper_bound := actual_external,
        hr_historical_conservative_surplus := surplus, hr_prediction_error := prediction_error,
        hr_settlement_event_observed := settlement_event_observed,
        hr_cost_upper_bounds_respected := cost_bounds_respected,
        hr_conservative_floor_preserved := floor_preserved\<rparr> in
    rbind (jsha (record_identity self)) (\<lambda>digest.
    let self = self\<lparr>hr_record_id := ''historical-record-'' @ digest\<rparr> in
    jchecked (HistoricalExecutionRecord_to_json self) self))))))))))"

subsection \<open>Attempt references and source manifests\<close>

record attempt_reference =
  ha_chain :: chain
  ha_package_sha256 :: string
  ha_inclusion_sha256 :: string
  ha_transaction_hash :: bytes
  ha_block_number :: int
  ha_transaction_index :: int

definition HistoricalAttemptReference_to_json :: "attempt_reference \<Rightarrow> json" where
  "HistoricalAttemptReference_to_json self =
    JObj
    [(''schema'', JStr ATTEMPT_REFERENCE_SCHEMA),
     (''chain'', JStr (chain_value (ha_chain self))),
     (''package_sha256'', JStr (ha_package_sha256 self)),
     (''inclusion_sha256'', JStr (ha_inclusion_sha256 self)),
     (''transaction_hash'', JStr (to_hex_data (ha_transaction_hash self))),
     (''block_number'', JStr (str_of_int (ha_block_number self))),
     (''transaction_index'', JStr (str_of_int (ha_transaction_index self)))]"

definition ha_digest :: "attempt_reference \<Rightarrow> string" where
  "ha_digest self =
    json_sha256 (HistoricalAttemptReference_to_json self)"

definition HistoricalAttemptReference_post_init :: "attempt_reference \<Rightarrow> attempt_reference
    result" where
  "HistoricalAttemptReference_post_init self =
    (if ha_chain self \<notin> {ETHEREUM, BASE}
     then Inl (ValueError ''historical attempt references support Ethereum and Base only'')
     else
     rbind (require_sha256 ''package_sha256'' (ha_package_sha256 self)) (\<lambda>_.
     rbind (require_sha256 ''inclusion_sha256'' (ha_inclusion_sha256 self)) (\<lambda>_.
     if length (ha_transaction_hash self) \<noteq> 32
     then Inl (ValueError ''transaction_hash must be exact immutable 32-byte data'')
     else if ha_transaction_hash self = zero_bytes 32
     then Inl (ValueError ''transaction_hash cannot be zero'')
     else
     rbind (require_time ''block_number'' (ha_block_number self)) (\<lambda>_.
     rbind (require_time ''transaction_index'' (ha_transaction_index self)) (\<lambda>_.
     jchecked (Inr (HistoricalAttemptReference_to_json self)) self)))))"

definition HistoricalAttemptReference_from_record :: "execution_record \<Rightarrow> attempt_reference
    result" where
  "HistoricalAttemptReference_from_record record =
    rbind (inc_digest (hr_inclusion record)) (\<lambda>digest.
    HistoricalAttemptReference_post_init \<lparr>ha_chain = hk_chain (hr_cohort record),
        ha_package_sha256 = xp_digest (hr_package record), ha_inclusion_sha256 = digest,
        ha_transaction_hash = sx_transaction_hash (xp_signed_transaction (hr_package record)),
        ha_block_number = ab_block_number (inc_block (hr_inclusion record)),
        ha_transaction_index = inc_transaction_index (hr_inclusion record)\<rparr>)"

record source_manifest =
  hm_manifest_id :: string
  hm_source_id :: string
  hm_source_sha256 :: string
  hm_chain :: chain
  hm_start_block_number :: int
  hm_end_block_number :: int
  hm_references :: "attempt_reference list"
  hm_created_at_unix_ms :: int

definition HistoricalCorpusSourceManifest_to_json :: "source_manifest \<Rightarrow> json" where
  "HistoricalCorpusSourceManifest_to_json self =
    JObj
    [(''schema'', JStr SOURCE_MANIFEST_SCHEMA),
     (''manifest_id'', JStr (hm_manifest_id self)),
     (''source_id'', JStr (hm_source_id self)),
     (''source_sha256'', JStr (hm_source_sha256 self)),
     (''chain'', JStr (chain_value (hm_chain self))),
     (''start_block_number'', JStr (str_of_int (hm_start_block_number self))),
     (''end_block_number'', JStr (str_of_int (hm_end_block_number self))),
     (''references'', JArr (map HistoricalAttemptReference_to_json (hm_references self))),
     (''reference_sha256'', JArr (map (\<lambda>item. JStr (ha_digest item)) (hm_references self))),
     (''reference_count'', JStr (str_of_int (int (length (hm_references self))))),
     (''created_at_unix_ms'', JStr (str_of_int (hm_created_at_unix_ms self))),
     (''completeness_scope'', JStr ''exact-declared-source-window-reference-set-only''),
     (''global_completeness_guarantee'', JBool False)]"

definition hm_digest :: "source_manifest \<Rightarrow> string" where
  "hm_digest self =
    json_sha256 (HistoricalCorpusSourceManifest_to_json self)"

definition duplicate_identity :: "string \<Rightarrow> 'a list \<Rightarrow> unit result" where
  "duplicate_identity name xs =
    (if has_duplicate xs
     then Inl (ValueError (''historical source manifest contains duplicate '' @ name @ '' identity''))
     else Inr ())"

definition HistoricalCorpusSourceManifest_post_init :: "source_manifest \<Rightarrow> source_manifest
    result" where
  "HistoricalCorpusSourceManifest_post_init self =
    rbind (require_bounded_text ''manifest_id'' (hm_manifest_id self) 128) (\<lambda>_.
    rbind (require_bounded_text ''source_id'' (hm_source_id self) 128) (\<lambda>_.
    rbind (require_sha256 ''source_sha256'' (hm_source_sha256 self)) (\<lambda>_.
    if hm_chain self \<notin> {ETHEREUM, BASE}
    then Inl (ValueError ''historical source manifests support Ethereum and Base only'')
    else
    rbind (require_time ''start_block_number'' (hm_start_block_number self)) (\<lambda>_.
    rbind (require_time ''end_block_number'' (hm_end_block_number self)) (\<lambda>_.
    if hm_end_block_number self < hm_start_block_number self
    then Inl (ValueError ''historical source manifest block window is inverted'')
    else if hm_references self = []
    then Inl (TypeError ''historical source manifest references must be a non-empty exact tuple'')
    else if MAX_CORPUS_RECORDS < int (length (hm_references self))
    then Inl (ValueError ''historical source manifest exceeds the governed attempt ceiling'')
    else
    let ordered = sort_key (\<lambda>item. (ha_block_number item, ha_transaction_index item,
        ha_transaction_hash item, ha_digest item)) (hm_references self) in
    let self = self\<lparr>hm_references := ordered\<rparr> in
    rbind (rall (\<lambda>item.
      if ha_chain item \<noteq> hm_chain self
        then Inl (ValueError ''historical source manifest contains a cross-chain reference'')
        else if \<not> (hm_start_block_number self \<le> ha_block_number item
            \<and> ha_block_number item \<le> hm_end_block_number self)
        then Inl (ValueError ''historical attempt lies outside the declared source block window'')
        else
        Inr ()) ordered) (\<lambda>_.
    rbind (require_time ''created_at_unix_ms'' (hm_created_at_unix_ms self)) (\<lambda>_.
    rbind (duplicate_identity ''attempt reference'' (map ha_digest ordered)) (\<lambda>_.
    rbind (duplicate_identity ''package'' (map ha_package_sha256 ordered)) (\<lambda>_.
    rbind (duplicate_identity ''inclusion'' (map ha_inclusion_sha256 ordered)) (\<lambda>_.
    rbind (duplicate_identity ''transaction'' (map ha_transaction_hash ordered)) (\<lambda>_.
    rbind (duplicate_identity ''inclusion position''
      (map (\<lambda>item. (ha_block_number item, ha_transaction_index item)) ordered)) (\<lambda>_.
    jchecked (Inr (HistoricalCorpusSourceManifest_to_json self)) self))))))))))))"

subsection \<open>The outcome corpus\<close>

record outcome_corpus =
  hc_source_manifest :: source_manifest
  hc_records :: "execution_record list"
  hc_created_at_unix_ms :: int

definition hc_cohort_sha256 :: "outcome_corpus \<Rightarrow> string list" where
  "hc_cohort_sha256 self = sort (remdups (map (\<lambda>item. hk_digest (hr_cohort item)) (hc_records self)))"

definition HistoricalOutcomeCorpus_to_json :: "outcome_corpus \<Rightarrow> json result" where
  "HistoricalOutcomeCorpus_to_json self =
    jobj
    [(''schema'', jtext CORPUS_SCHEMA),
     (''source_manifest'', Inr (HistoricalCorpusSourceManifest_to_json (hc_source_manifest self))),
     (''source_manifest_sha256'', jtext (hm_digest (hc_source_manifest self))),
     (''records'', jarr (map HistoricalExecutionRecord_to_json (hc_records self))),
     (''record_sha256'', jarr (map (\<lambda>item. jstr (hr_digest item)) (hc_records self))),
     (''cohort_sha256'', Inr (JArr (map JStr (hc_cohort_sha256 self)))),
     (''record_count'', jint (int (length (hc_records self)))),
     (''created_at_unix_ms'', jint (hc_created_at_unix_ms self)),
     (''corpus_authority'',
         jtext ''offline-exact-declared-source-window-inclusion-conditioned-history-only''),
     (''selection_bias_control'',
         jtext ''all-declared-source-references-consumed-with-explicit-scoreability''),
     (''global_completeness_guarantee'', jbool False),
     (''realized_profit_authority'', jtext ''none'')]"

definition hc_digest :: "outcome_corpus \<Rightarrow> string result" where
  "hc_digest self =
    jsha (HistoricalOutcomeCorpus_to_json self)"

text \<open>\<open>item.cohort.chain, item.inclusion.block.block_number, item.inclusion.transaction_index\<close>
  and the transaction hash of a record.\<close>

definition hr_position :: "execution_record \<Rightarrow> chain \<times> int \<times> int" where
  "hr_position item = (hk_chain (hr_cohort item), ab_block_number (inc_block (hr_inclusion item)),
     inc_transaction_index (hr_inclusion item))"

definition hr_transaction :: "execution_record \<Rightarrow> chain \<times> bytes" where
  "hr_transaction item = (hk_chain (hr_cohort item), sx_transaction_hash (xp_signed_transaction (hr_package item)))"

definition HistoricalOutcomeCorpus_post_init :: "outcome_corpus \<Rightarrow> outcome_corpus result" where
  "HistoricalOutcomeCorpus_post_init self =
    (if hc_records self = []
     then Inl (TypeError ''records must be a non-empty exact tuple'')
     else if MAX_CORPUS_RECORDS < int (length (hc_records self))
     then Inl (ValueError ''historical corpus exceeds the governed record ceiling'')
     else
     rbind (rsort_key (\<lambda>item. rbind (hr_digest item) (\<lambda>digest.
         Inr (chain_value (hk_chain (hr_cohort item)), ab_block_number (inc_block (hr_inclusion item)),
           inc_transaction_index (hr_inclusion item),
           sx_transaction_hash (xp_signed_transaction (hr_package item)), digest))) (hc_records self)) (\<lambda>ordered.
     let self = self\<lparr>hc_records := ordered\<rparr> in
     rbind (require_time ''created_at_unix_ms'' (hc_created_at_unix_ms self)) (\<lambda>_.
     let latest = max (hm_created_at_unix_ms (hc_source_manifest self)) (max_of (map hr_recorded_at_unix_ms ordered)) in
     if hc_created_at_unix_ms self < latest
     then Inl (ValueError ''corpus creation time predates its source manifest or a retained record'')
     else if has_duplicate (map hr_record_id ordered)
     then Inl (ValueError ''historical corpus contains duplicate record identity'')
     else if has_duplicate (map hr_transaction ordered)
     then Inl (ValueError ''historical corpus contains duplicate transaction identity'')
     else if has_duplicate (map hr_position ordered)
     then Inl (ValueError ''historical corpus contains duplicate inclusion position'')
     else
     rbind (rmap HistoricalAttemptReference_from_record ordered) (\<lambda>references.
     let expected = map ha_digest (hm_references (hc_source_manifest self));
         actual = sort (map ha_digest references) in
     if actual \<noteq> sort expected \<or> length actual \<noteq> length expected
     then Inl (ValueError ''historical corpus does not consume the exact source-manifest reference set'')
     else
     jchecked (HistoricalOutcomeCorpus_to_json self) self))))"

definition hc_records_for :: "outcome_corpus \<Rightarrow> cohort_key \<Rightarrow> execution_record list"
    where
  "hc_records_for self cohort =
    filter (\<lambda>item. hk_digest (hr_cohort item) = hk_digest cohort) (hc_records self)"

subsection \<open>The economic scoreboard\<close>

record scoreboard =
  hs_corpus :: outcome_corpus
  hs_cohort :: cohort_key
  hs_created_at_unix_ms :: int
  hs_records :: "execution_record list"
  hs_metrics :: "(string \<times> int) list"
  hs_scoreboard_id :: string

definition metrics_json :: "(string \<times> int) list \<Rightarrow> json" where
  "metrics_json metrics = JObj (map (\<lambda>(key, v). (key, JStr (str_of_int v))) metrics)"

definition HistoricalEconomicScoreboard_to_json :: "scoreboard \<Rightarrow> json result" where
  "HistoricalEconomicScoreboard_to_json self =
    jobj
    [(''schema'', jtext SCOREBOARD_SCHEMA),
     (''scoreboard_id'', jtext (hs_scoreboard_id self)),
     (''corpus_sha256'', jstr (hc_digest (hs_corpus self))),
     (''source_manifest_sha256'', jtext (hm_digest (hc_source_manifest (hs_corpus self)))),
     (''source_completeness_scope'', jtext ''exact-declared-source-window-reference-set-only''),
     (''global_completeness_guarantee'', jbool False),
     (''cohort'', Inr (HistoricalCohortKey_to_json (hs_cohort self))),
     (''cohort_sha256'', jtext (hk_digest (hs_cohort self))),
     (''record_sha256'', jarr (map (\<lambda>item. jstr (hr_digest item)) (hs_records self))),
     (''metrics'', Inr (metrics_json (hs_metrics self))),
     (''created_at_unix_ms'', jint (hs_created_at_unix_ms self)),
     (''scoreboard_scope'', jtext ''exact-cohort-inclusion-conditioned-history''),
     (''unscoreable_records_retained'', jbool True),
     (''confidence_guarantee'', jbool False),
     (''realized_profit_claimed'', jbool False),
     (''production_promotion_authority'', jbool False)]"

definition hs_digest :: "scoreboard \<Rightarrow> string result" where
  "hs_digest self =
    jsha (HistoricalEconomicScoreboard_to_json self)"

text \<open>
  The metrics: counts over the cohort's records and over the scoreable ones, rates in basis
  points, and sums, means and ratios of the economics, each a name and an integer.
\<close>

definition count_of :: "('a \<Rightarrow> bool) \<Rightarrow> 'a list \<Rightarrow> int" where
  "count_of p xs = int (length (filter p xs))"

definition unique_blocks :: "execution_record list \<Rightarrow> int" where
  "unique_blocks records = int (length (remdups (map (\<lambda>item. ab_block_number (inc_block (hr_inclusion item))) records)))"

definition overran_native_cost :: "execution_record \<Rightarrow> bool" where
  "overran_native_cost item \<longleftrightarrow> 0 < (case hr_native_cost_overrun item of None \<Rightarrow> 0 | Some v \<Rightarrow> v)"

definition scoreboard_counts :: "execution_record list \<Rightarrow> execution_record list \<Rightarrow> (string \<times> int) list" where
  "scoreboard_counts records scoreable =
    [(''attempt_count'', int (length records)),
     (''execution_success_count'', count_of hr_execution_success records),
     (''settled_count'', count_of (\<lambda>item. hr_disposition item = SETTLED) records),
     (''reverted_count'', count_of (\<lambda>item. hr_disposition item = REVERTED) records),
     (''settlement_missing_count'', count_of (\<lambda>item. hr_disposition item = SETTLEMENT_MISSING) records),
     (''settlement_evidence_incomplete_count'', count_of (\<lambda>item. hr_disposition item = SETTLEMENT_EVIDENCE_INCOMPLETE) records),
     (''settlement_observed_count'', count_of hr_settlement_observed records),
     (''outcome_evidence_complete_count'', count_of hr_outcome_evidence_complete records),
     (''scoreable_count'', int (length scoreable)),
     (''unscoreable_count'', int (length records) - int (length scoreable)),
     (''unique_inclusion_block_count'', unique_blocks records),
     (''unique_scoreable_inclusion_block_count'', unique_blocks scoreable),
     (''floor_preserved_count'', count_of hr_conservative_floor_preserved scoreable),
     (''simulation_exact_match_count'', count_of hr_simulation_exact_match scoreable),
     (''cost_upper_bounds_respected_count'', count_of hr_cost_upper_bounds_respected scoreable),
     (''positive_historical_surplus_count'', count_of hr_positive_historical_surplus scoreable),
     (''native_cost_overrun_count'', count_of overran_native_cost scoreable)]"

definition scoreboard_rates :: "execution_record list \<Rightarrow> execution_record list \<Rightarrow> (string \<times> int) list result" where
  "scoreboard_rates records scoreable =
    rmap (\<lambda>(name, rate). rbind rate (\<lambda>v. Inr (name, v)))
    [(''execution_success_rate_bps'', ratio_bps (count_of hr_execution_success records) (int (length records))),
     (''settlement_observed_rate_bps'', ratio_bps (count_of hr_settlement_observed records) (int (length records))),
     (''outcome_evidence_complete_rate_bps'', ratio_bps (count_of hr_outcome_evidence_complete records) (int (length records))),
     (''scoreable_rate_bps'', ratio_bps (int (length scoreable)) (int (length records))),
     (''floor_preservation_rate_bps'', ratio_bps (count_of hr_conservative_floor_preserved scoreable) (int (length scoreable))),
     (''simulation_exact_match_rate_bps'', ratio_bps (count_of hr_simulation_exact_match scoreable) (int (length scoreable))),
     (''cost_upper_bound_respect_rate_bps'', ratio_bps (count_of hr_cost_upper_bounds_respected scoreable) (int (length scoreable))),
     (''positive_historical_surplus_rate_bps'', ratio_bps (count_of hr_positive_historical_surplus scoreable) (int (length scoreable))),
     (''native_cost_overrun_rate_bps'', ratio_bps (count_of overran_native_cost scoreable) (int (length scoreable)))]"

definition scoreable_mean :: "int \<Rightarrow> execution_record list \<Rightarrow> int" where
  "scoreable_mean aggregate scoreable = (if scoreable \<noteq> [] then aggregate div int (length scoreable) else 0)"

definition scoreable_mean_ceiling :: "int \<Rightarrow> execution_record list \<Rightarrow> int result" where
  "scoreable_mean_ceiling aggregate scoreable =
    (if scoreable \<noteq> [] then signed_ceil_div aggregate (int (length scoreable)) else Inr 0)"

definition or_zero :: "int option \<Rightarrow> int" where
  "or_zero v = (case v of None \<Rightarrow> 0 | Some x \<Rightarrow> x)"

definition scoreboard_economics :: "execution_record list \<Rightarrow> execution_record list \<Rightarrow> (string \<times> int) list result" where
  "scoreboard_economics records scoreable =
    rbind (aggregate_sum (map hr_predicted_conservative_net_profit scoreable) ''predicted conservative net sum'') (\<lambda>predicted_sum.
    rbind (aggregate_sum (map (\<lambda>item. or_zero (hr_historical_conservative_surplus item)) scoreable)
      ''historical conservative surplus sum'') (\<lambda>historical_sum.
    rbind (aggregate_sum (map (\<lambda>item. or_zero (hr_prediction_error item)) scoreable) ''prediction error sum'') (\<lambda>error_sum.
    rbind (aggregate_sum (map (\<lambda>item. or_zero (hr_absolute_prediction_error item)) scoreable)
      ''absolute prediction error sum'') (\<lambda>absolute_error_sum.
    rbind (aggregate_sum (map hr_capital_at_risk records) ''attempt capital at risk sum'') (\<lambda>total_capital.
    rbind (aggregate_sum (map hr_capital_at_risk scoreable) ''scoreable capital at risk sum'') (\<lambda>scoreable_capital.
    let mean_surplus = scoreable_mean historical_sum scoreable in
    rbind (scoreable_mean_ceiling absolute_error_sum scoreable) (\<lambda>mean_abs_error.
    rbind (aggregate_add mean_surplus (- mean_abs_error) ''guarded mean surplus'') (\<lambda>guarded_mean.
    rbind (if scoreable_capital \<noteq> 0 then signed_ratio_bps_floor historical_sum scoreable_capital else Inr 0) (\<lambda>aggregate_return.
    rbind (if scoreable_capital \<noteq> 0
      then unsigned_ratio_bps_ceiling_saturated absolute_error_sum scoreable_capital else Inr 0) (\<lambda>mae_bps.
    Inr
    [(''predicted_conservative_net_profit_sum'', predicted_sum),
     (''historical_conservative_surplus_sum'', historical_sum),
     (''prediction_error_sum'', error_sum),
     (''absolute_prediction_error_sum'', absolute_error_sum),
     (''attempt_capital_at_risk_sum'', total_capital),
     (''scoreable_capital_at_risk_sum'', scoreable_capital),
     (''mean_historical_conservative_surplus_floor'', mean_surplus),
     (''mean_absolute_prediction_error_ceiling'', mean_abs_error),
     (''mean_absolute_prediction_error_bps_of_capital_ceiling'', mae_bps),
     (''guarded_mean_historical_surplus_floor'', guarded_mean),
     (''aggregate_historical_return_bps_floor'', aggregate_return)]))))))))))"

definition scoreboard_metrics :: "execution_record list \<Rightarrow> (string \<times> int) list result" where
  "scoreboard_metrics records =
    (let scoreable = filter hr_economics_scoreable records in
     rbind (scoreboard_economics records scoreable) (\<lambda>economics.
     rbind (scoreboard_rates records scoreable) (\<lambda>rates.
     Inr (scoreboard_counts records scoreable @ rates @ economics))))"

definition HistoricalEconomicScoreboard_post_init :: "scoreboard \<Rightarrow> scoreboard result" where
  "HistoricalEconomicScoreboard_post_init self =
    rbind (require_time ''created_at_unix_ms'' (hs_created_at_unix_ms self)) (\<lambda>_.
    if hs_created_at_unix_ms self < hc_created_at_unix_ms (hs_corpus self)
    then Inl (ValueError ''scoreboard creation time predates its corpus'')
    else
    let records = hc_records_for (hs_corpus self) (hs_cohort self) in
    if records = []
    then Inl (ValueError ''scoreboard cohort is absent from the exact corpus'')
    else
    rbind (scoreboard_metrics records) (\<lambda>metrics.
    let ordered_metrics = sort metrics in
    let self = self\<lparr>hs_records := records, hs_metrics := ordered_metrics\<rparr> in
    rbind (jsha (jobj
        [(''schema'', jtext SCOREBOARD_SCHEMA),
         (''corpus_sha256'', jstr (hc_digest (hs_corpus self))),
         (''cohort_sha256'', jtext (hk_digest (hs_cohort self))),
         (''record_sha256'', jarr (map (\<lambda>item. jstr (hr_digest item)) records)),
         (''metrics'', Inr (metrics_json ordered_metrics)),
         (''created_at_unix_ms'', jint (hs_created_at_unix_ms self))])) (\<lambda>digest.
    let self = self\<lparr>hs_scoreboard_id := ''historical-scoreboard-'' @ digest\<rparr> in
    jchecked (HistoricalEconomicScoreboard_to_json self) self)))"

text \<open>\<open>scoreboard.<metric>\<close>: \<open>__getattr__\<close> looks the name up in the metrics.\<close>

definition score_metric :: "string \<Rightarrow> scoreboard \<Rightarrow> int result" where
  "score_metric name self =
    (case map_of (hs_metrics self) name of Some v \<Rightarrow> Inr v | None \<Rightarrow> Inl (AttributeError name))"

subsection \<open>Calibration\<close>

record calibration_policy =
  kp_policy_id :: string
  kp_predicted_return_upper_bounds_bps :: "int list"

definition CalibrationPolicy_to_json :: "calibration_policy \<Rightarrow> json" where
  "CalibrationPolicy_to_json self =
    JObj
    [(''schema'', JStr CALIBRATION_POLICY_SCHEMA),
     (''policy_id'', JStr (kp_policy_id self)),
     (''predicted_return_upper_bounds_bps'',
         JArr (map (\<lambda>value. JStr (str_of_int value)) (kp_predicted_return_upper_bounds_bps self))),
     (''bucket_semantics'', JStr ''lower-inclusive-upper-exclusive-plus-open-ended-final-bucket'')]"

definition kp_digest :: "calibration_policy \<Rightarrow> string" where
  "kp_digest self =
    json_sha256 (CalibrationPolicy_to_json self)"

definition CalibrationPolicy_post_init :: "calibration_policy \<Rightarrow> calibration_policy result" where
  "CalibrationPolicy_post_init self =
    (let bounds = kp_predicted_return_upper_bounds_bps self in
     rbind (require_bounded_text ''policy_id'' (kp_policy_id self) 128) (\<lambda>_.
     if MAX_CALIBRATION_BUCKETS - 1 < int (length bounds)
     then Inl (ValueError ''calibration policy exceeds the governed bucket ceiling'')
     else
     rbind (rall (\<lambda>v. require_uint ''predicted return upper bound'' v True) bounds) (\<lambda>_.
     if sort (remdups bounds) \<noteq> bounds
     then Inl (ValueError ''calibration upper bounds must be strictly increasing and unique'')
     else
     jchecked (Inr (CalibrationPolicy_to_json self)) self)))"

record calibration_bucket =
  kb_lower_bound_bps :: int
  kb_upper_bound_bps :: "int option"
  kb_attempt_count :: int
  kb_scoreable_count :: int
  kb_floor_preserved_count :: int
  kb_predicted_sum :: int
  kb_historical_sum :: int
  kb_prediction_error_sum :: int
  kb_absolute_prediction_error_sum :: int

definition kb_scoreable_rate_bps :: "calibration_bucket \<Rightarrow> int result" where
  "kb_scoreable_rate_bps self = ratio_bps (kb_scoreable_count self) (kb_attempt_count self)"

definition kb_floor_preservation_rate_bps :: "calibration_bucket \<Rightarrow> int result" where
  "kb_floor_preservation_rate_bps self = ratio_bps (kb_floor_preserved_count self) (kb_scoreable_count self)"

definition kb_mean_prediction_error_floor :: "calibration_bucket \<Rightarrow> int" where
  "kb_mean_prediction_error_floor self =
    (if kb_scoreable_count self \<noteq> 0 then kb_prediction_error_sum self div kb_scoreable_count self else 0)"

definition kb_mean_absolute_prediction_error_ceiling :: "calibration_bucket \<Rightarrow> int result" where
  "kb_mean_absolute_prediction_error_ceiling self =
    (if kb_scoreable_count self \<noteq> 0
     then signed_ceil_div (kb_absolute_prediction_error_sum self) (kb_scoreable_count self) else Inr 0)"

definition CalibrationBucket_to_json :: "calibration_bucket \<Rightarrow> json result" where
  "CalibrationBucket_to_json self =
    jobj
    [(''schema'', jtext CALIBRATION_BUCKET_SCHEMA),
     (''lower_bound_bps'', jint (kb_lower_bound_bps self)),
     (''upper_bound_bps'', Inr (case kb_upper_bound_bps self of None \<Rightarrow> JNull | Some x
         \<Rightarrow> JStr (str_of_int x))),
     (''attempt_count'', jint (kb_attempt_count self)),
     (''scoreable_count'', jint (kb_scoreable_count self)),
     (''floor_preserved_count'', jint (kb_floor_preserved_count self)),
     (''scoreable_rate_bps'', jdec (kb_scoreable_rate_bps self)),
     (''floor_preservation_rate_bps'', jdec (kb_floor_preservation_rate_bps self)),
     (''predicted_sum'', jint (kb_predicted_sum self)),
     (''historical_sum'', jint (kb_historical_sum self)),
     (''prediction_error_sum'', jint (kb_prediction_error_sum self)),
     (''absolute_prediction_error_sum'', jint (kb_absolute_prediction_error_sum self)),
     (''mean_prediction_error_floor'', jint (kb_mean_prediction_error_floor self)),
     (''mean_absolute_prediction_error_ceiling'', jdec (kb_mean_absolute_prediction_error_ceiling self))]"

definition kb_digest :: "calibration_bucket \<Rightarrow> string result" where
  "kb_digest self =
    jsha (CalibrationBucket_to_json self)"

definition CalibrationBucket_post_init :: "calibration_bucket \<Rightarrow> calibration_bucket result" where
  "CalibrationBucket_post_init self =
    rbind (require_uint ''lower_bound_bps'' (kb_lower_bound_bps self) False) (\<lambda>_.
    rbind (case kb_upper_bound_bps self of None \<Rightarrow> Inr ()
      | Some upper \<Rightarrow>
        rbind (require_uint ''upper_bound_bps'' upper False) (\<lambda>_.
        if upper \<le> kb_lower_bound_bps self
        then Inl (ValueError ''calibration bucket upper bound must exceed lower bound'')
        else Inr ())) (\<lambda>_.
    rbind (rall (\<lambda>(name, v).
        if v < 0 \<or> MAX_CORPUS_RECORDS < v
        then Inl (ValueError (name @ '' is outside the governed record domain''))
        else Inr ())
      [(''attempt_count'', kb_attempt_count self),
       (''scoreable_count'', kb_scoreable_count self),
       (''floor_preserved_count'', kb_floor_preserved_count self)]) (\<lambda>_.
    if kb_attempt_count self < kb_scoreable_count self
    then Inl (ValueError ''scoreable_count exceeds attempt_count'')
    else if kb_scoreable_count self < kb_floor_preserved_count self
    then Inl (ValueError ''floor_preserved_count exceeds scoreable_count'')
    else
    rbind (rall (\<lambda>(name, v). rbind (signed_aggregate name v) (\<lambda>_. Inr ()))
      [(''predicted_sum'', kb_predicted_sum self),
       (''historical_sum'', kb_historical_sum self),
       (''prediction_error_sum'', kb_prediction_error_sum self),
       (''absolute_prediction_error_sum'', kb_absolute_prediction_error_sum self)]) (\<lambda>_.
    if kb_absolute_prediction_error_sum self < 0
    then Inl (ValueError ''absolute_prediction_error_sum cannot be negative'')
    else if kb_scoreable_count self = 0
        \<and> list_ex (\<lambda>v. v \<noteq> 0) [kb_predicted_sum self, kb_historical_sum self,
        kb_prediction_error_sum self, kb_absolute_prediction_error_sum self, kb_floor_preserved_count self]
    then Inl (ValueError ''empty scoreable calibration bucket cannot carry economic aggregates'')
    else if kb_prediction_error_sum self \<noteq> kb_historical_sum self - kb_predicted_sum self
    then Inl (ValueError ''calibration prediction error does not reconcile'')
    else
    jchecked (CalibrationBucket_to_json self) self))))"

record calibration_report =
  kr_scoreboard :: scoreboard
  kr_policy :: calibration_policy
  kr_created_at_unix_ms :: int
  kr_buckets :: "calibration_bucket list"
  kr_report_id :: string

definition kr_nonempty_bucket_count :: "calibration_report \<Rightarrow> int" where
  "kr_nonempty_bucket_count self = count_of (\<lambda>item. 0 < kb_attempt_count item) (kr_buckets self)"

definition kr_worst_nonempty_bucket_mean_absolute_error_ceiling :: "calibration_report \<Rightarrow> int result" where
  "kr_worst_nonempty_bucket_mean_absolute_error_ceiling self =
    rbind (rmap kb_mean_absolute_prediction_error_ceiling
      (filter (\<lambda>item. 0 < kb_scoreable_count item) (kr_buckets self))) (\<lambda>ceilings.
    Inr (if ceilings = [] then 0 else max_of ceilings))"

definition HistoricalCalibrationReport_to_json :: "calibration_report \<Rightarrow> json result" where
  "HistoricalCalibrationReport_to_json self =
    jobj
    [(''schema'', jtext CALIBRATION_REPORT_SCHEMA),
     (''report_id'', jtext (kr_report_id self)),
     (''scoreboard_sha256'', jstr (hs_digest (kr_scoreboard self))),
     (''source_manifest_sha256'', jtext (hm_digest (hc_source_manifest (hs_corpus (kr_scoreboard self))))),
     (''source_completeness_scope'', jtext ''exact-declared-source-window-reference-set-only''),
     (''global_completeness_guarantee'', jbool False),
     (''policy'', Inr (CalibrationPolicy_to_json (kr_policy self))),
     (''policy_sha256'', jtext (kp_digest (kr_policy self))),
     (''buckets'', jarr (map CalibrationBucket_to_json (kr_buckets self))),
     (''bucket_sha256'', jarr (map (\<lambda>item. jstr (kb_digest item)) (kr_buckets self))),
     (''nonempty_bucket_count'', jint (kr_nonempty_bucket_count self)),
     (''worst_nonempty_bucket_mean_absolute_error_ceiling'',
         jdec (kr_worst_nonempty_bucket_mean_absolute_error_ceiling self)),
     (''created_at_unix_ms'', jint (kr_created_at_unix_ms self)),
     (''calibration_scope'', jtext ''exact-cohort-inclusion-conditioned-scoreable-subset''),
     (''unscoreable_records_retained_in_bucket_attempt_counts'', jbool True),
     (''confidence_guarantee'', jbool False),
     (''production_promotion_authority'', jbool False)]"

definition kr_digest :: "calibration_report \<Rightarrow> string result" where
  "kr_digest self =
    jsha (HistoricalCalibrationReport_to_json self)"

text \<open>
  Each record falls into the first bucket whose upper bound exceeds its predicted return, or the
  open-ended last one; the buckets are then built in order, each starting where the one before it
  ends.
\<close>

fun bucket_index :: "int list \<Rightarrow> int \<Rightarrow> nat" where
  "bucket_index [] predicted_return = 0"
| "bucket_index (upper # bounds) predicted_return =
    (if predicted_return < upper then 0 else Suc (bucket_index bounds predicted_return))"

definition assign_bucket ::
  "int list \<Rightarrow> execution_record list list \<Rightarrow> execution_record \<Rightarrow> execution_record list list result" where
  "assign_bucket bounds bucket_records item =
    rbind (signed_ratio_bps_floor (hr_predicted_conservative_net_profit item) (hr_capital_at_risk item)) (\<lambda>predicted_return.
    if predicted_return < 0
    then Inl (ValueError ''approved F5 package cannot carry negative predicted return'')
    else
    let index = bucket_index bounds predicted_return in
    Inr (bucket_records[index := (bucket_records ! index) @ [item]]))"

definition build_bucket :: "int \<Rightarrow> int option \<Rightarrow> execution_record list \<Rightarrow> calibration_bucket result" where
  "build_bucket lower upper records =
    (let scoreable = filter hr_economics_scoreable records in
     rbind (aggregate_sum (map hr_predicted_conservative_net_profit scoreable) ''calibration predicted sum'') (\<lambda>predicted_sum.
     rbind (aggregate_sum (map (\<lambda>item. or_zero (hr_historical_conservative_surplus item)) scoreable)
       ''calibration historical sum'') (\<lambda>historical_sum.
     rbind (aggregate_sum (map (\<lambda>item. or_zero (hr_prediction_error item)) scoreable) ''calibration error sum'') (\<lambda>error_sum.
     rbind (aggregate_sum (map (\<lambda>item. or_zero (hr_absolute_prediction_error item)) scoreable)
       ''calibration absolute error sum'') (\<lambda>abs_error_sum.
     CalibrationBucket_post_init
       \<lparr>kb_lower_bound_bps = lower, kb_upper_bound_bps = upper,
        kb_attempt_count = int (length records), kb_scoreable_count = int (length scoreable),
        kb_floor_preserved_count = count_of hr_conservative_floor_preserved scoreable,
        kb_predicted_sum = predicted_sum, kb_historical_sum = historical_sum,
        kb_prediction_error_sum = error_sum, kb_absolute_prediction_error_sum = abs_error_sum\<rparr>)))))"

fun build_buckets :: "int \<Rightarrow> int list \<Rightarrow> execution_record list list \<Rightarrow> calibration_bucket list result" where
  "build_buckets lower bounds [] = Inr []"
| "build_buckets lower bounds (records # rest) =
    (let upper = (case bounds of [] \<Rightarrow> None | b # _ \<Rightarrow> Some b) in
     rbind (build_bucket lower upper records) (\<lambda>bucket.
     rbind (build_buckets (case upper of None \<Rightarrow> lower | Some u \<Rightarrow> u) (tl bounds) rest) (\<lambda>buckets.
     Inr (bucket # buckets))))"

definition HistoricalCalibrationReport_post_init :: "calibration_report \<Rightarrow> calibration_report result" where
  "HistoricalCalibrationReport_post_init self =
    rbind (require_time ''created_at_unix_ms'' (kr_created_at_unix_ms self)) (\<lambda>_.
    if kr_created_at_unix_ms self < hs_created_at_unix_ms (kr_scoreboard self)
    then Inl (ValueError ''calibration report predates its scoreboard'')
    else
    let bounds = kp_predicted_return_upper_bounds_bps (kr_policy self) in
    rbind (rfold (assign_bucket bounds) (replicate (length bounds + 1) []) (hs_records (kr_scoreboard self))) (\<lambda>bucket_records.
    rbind (build_buckets 0 bounds bucket_records) (\<lambda>buckets.
    rbind (score_metric ''attempt_count'' (kr_scoreboard self)) (\<lambda>attempt_count.
    if sum_list (map kb_attempt_count buckets) \<noteq> attempt_count
    then Inl (RuntimeError ''calibration buckets do not partition the exact scoreboard'')
    else
    rbind (jsha (jobj
        [(''schema'', jtext CALIBRATION_REPORT_SCHEMA),
         (''scoreboard_sha256'', jstr (hs_digest (kr_scoreboard self))),
         (''policy_sha256'', jtext (kp_digest (kr_policy self))),
         (''bucket_sha256'', jarr (map (\<lambda>item. jstr (kb_digest item)) buckets)),
         (''created_at_unix_ms'', jint (kr_created_at_unix_ms self))])) (\<lambda>digest.
    let self = self\<lparr>kr_buckets := buckets, kr_report_id := ''historical-calibration-'' @ digest\<rparr> in
    jchecked (HistoricalCalibrationReport_to_json self) self)))))"

subsection \<open>Expected value\<close>

record expected_value =
  hv_scoreboard :: scoreboard
  hv_created_at_unix_ms :: int

definition hv_available :: "expected_value \<Rightarrow> bool result" where
  "hv_available self =
    rbind (score_metric ''scoreable_count'' (hv_scoreboard self)) (\<lambda>scoreable_count.
    Inr (0 < scoreable_count))"

definition hv_sample_count :: "expected_value \<Rightarrow> int result" where
  "hv_sample_count self =
    score_metric ''scoreable_count'' (hv_scoreboard self)"

definition hv_unscoreable_record_count :: "expected_value \<Rightarrow> int result" where
  "hv_unscoreable_record_count self =
    score_metric ''unscoreable_count'' (hv_scoreboard self)"

definition hv_unique_scoreable_inclusion_block_count :: "expected_value \<Rightarrow> int result" where
  "hv_unique_scoreable_inclusion_block_count self =
    score_metric ''unique_scoreable_inclusion_block_count'' (hv_scoreboard self)"

definition hv_historical_surplus_sum :: "expected_value \<Rightarrow> int result" where
  "hv_historical_surplus_sum self =
    score_metric ''historical_conservative_surplus_sum'' (hv_scoreboard self)"

definition hv_sample_mean_floor :: "expected_value \<Rightarrow> int result" where
  "hv_sample_mean_floor self =
    score_metric ''mean_historical_conservative_surplus_floor'' (hv_scoreboard self)"

definition hv_mean_absolute_prediction_error_ceiling :: "expected_value \<Rightarrow> int result" where
  "hv_mean_absolute_prediction_error_ceiling self =
    score_metric ''mean_absolute_prediction_error_ceiling'' (hv_scoreboard self)"

definition hv_guarded_sample_mean_floor :: "expected_value \<Rightarrow> int result" where
  "hv_guarded_sample_mean_floor self =
    score_metric ''guarded_mean_historical_surplus_floor'' (hv_scoreboard self)"

definition hv_aggregate_return_bps_floor :: "expected_value \<Rightarrow> int result" where
  "hv_aggregate_return_bps_floor self =
    score_metric ''aggregate_historical_return_bps_floor'' (hv_scoreboard self)"

definition HistoricalExpectedValueEvidence_to_json :: "expected_value \<Rightarrow> json result" where
  "HistoricalExpectedValueEvidence_to_json self =
    jobj
    [(''schema'', jtext EXPECTED_VALUE_SCHEMA),
     (''scoreboard_sha256'', jstr (hs_digest (hv_scoreboard self))),
     (''source_manifest_sha256'', jtext (hm_digest (hc_source_manifest (hs_corpus (hv_scoreboard self))))),
     (''source_completeness_scope'', jtext ''exact-declared-source-window-reference-set-only''),
     (''global_completeness_guarantee'', jbool False),
     (''available'', rbind (hv_available self) (\<lambda>available. Inr (JBool available))),
     (''sample_count'', jdec (hv_sample_count self)),
     (''unscoreable_record_count'', jdec (hv_unscoreable_record_count self)),
     (''unique_scoreable_inclusion_block_count'', jdec (hv_unique_scoreable_inclusion_block_count self)),
     (''historical_surplus_sum'', jdec (hv_historical_surplus_sum self)),
     (''sample_mean_floor'', jdec (hv_sample_mean_floor self)),
     (''mean_absolute_prediction_error_ceiling'', jdec (hv_mean_absolute_prediction_error_ceiling self)),
     (''guarded_sample_mean_floor'', jdec (hv_guarded_sample_mean_floor self)),
     (''aggregate_return_bps_floor'', jdec (hv_aggregate_return_bps_floor self)),
     (''created_at_unix_ms'', jint (hv_created_at_unix_ms self)),
     (''conditioning'', jtext ''authenticated-successful-settlement-with-scoreable-economics-only''),
     (''availability_semantics'', jtext ''available-only-when-scoreable-sample-count-is-positive''),
     (''selection_bias_disclosure'',
         jtext ''unscoreable-declared-source-records-retained-but-excluded-from-economic-mean-and-scoreable-block-diversity-no-global-completeness-guarantee''),
     (''sample_diversity_semantics'',
         jtext ''unique-inclusion-blocks-among-scoreable-economic-sample-only''),
     (''statistical_semantics'', jtext ''empirical-mean-minus-mean-absolute-prediction-error-screen''),
     (''confidence_guarantee'', jbool False),
     (''realized_profit_claimed'', jbool False),
     (''production_promotion_authority'', jbool False)]"

definition hv_digest :: "expected_value \<Rightarrow> string result" where
  "hv_digest self =
    jsha (HistoricalExpectedValueEvidence_to_json self)"

definition HistoricalExpectedValueEvidence_post_init :: "expected_value \<Rightarrow> expected_value
    result" where
  "HistoricalExpectedValueEvidence_post_init self =
    rbind (require_time ''created_at_unix_ms'' (hv_created_at_unix_ms self)) (\<lambda>_.
    if hv_created_at_unix_ms self < hs_created_at_unix_ms (hv_scoreboard self)
    then Inl (ValueError ''expected-value evidence predates its scoreboard'')
    else
    jchecked (HistoricalExpectedValueEvidence_to_json self) self)"

subsection \<open>Research promotion\<close>

record promotion_policy =
  rp_policy_id :: string
  rp_minimum_attempts :: int
  rp_minimum_scoreable_records :: int
  rp_minimum_scoreable_rate_bps :: int
  rp_minimum_execution_success_rate_bps :: int
  rp_minimum_floor_preservation_rate_bps :: int
  rp_minimum_cost_upper_bound_respect_rate_bps :: int
  rp_minimum_positive_surplus_rate_bps :: int
  rp_minimum_unique_scoreable_inclusion_blocks :: int
  rp_maximum_native_cost_overrun_rate_bps :: int
  rp_maximum_mean_absolute_error_bps_of_capital :: int
  rp_minimum_guarded_mean_surplus :: int
  rp_minimum_scoreable_records_per_nonempty_bucket :: int

definition ResearchPromotionPolicy_to_json :: "promotion_policy \<Rightarrow> json" where
  "ResearchPromotionPolicy_to_json self =
    JObj
    [(''schema'', JStr PROMOTION_POLICY_SCHEMA),
     (''policy_id'', JStr (rp_policy_id self)),
     (''minimum_attempts'', JStr (str_of_int (rp_minimum_attempts self))),
     (''minimum_scoreable_records'', JStr (str_of_int (rp_minimum_scoreable_records self))),
     (''minimum_scoreable_rate_bps'', JStr (str_of_int (rp_minimum_scoreable_rate_bps self))),
     (''minimum_execution_success_rate_bps'',
         JStr (str_of_int (rp_minimum_execution_success_rate_bps self))),
     (''minimum_floor_preservation_rate_bps'',
         JStr (str_of_int (rp_minimum_floor_preservation_rate_bps self))),
     (''minimum_cost_upper_bound_respect_rate_bps'',
         JStr (str_of_int (rp_minimum_cost_upper_bound_respect_rate_bps self))),
     (''minimum_positive_surplus_rate_bps'', JStr (str_of_int (rp_minimum_positive_surplus_rate_bps self))),
     (''minimum_unique_scoreable_inclusion_blocks'',
         JStr (str_of_int (rp_minimum_unique_scoreable_inclusion_blocks self))),
     (''inclusion_block_diversity_semantics'', JStr ''minimum-applies-to-scoreable-economic-sample-only''),
     (''maximum_native_cost_overrun_rate_bps'',
         JStr (str_of_int (rp_maximum_native_cost_overrun_rate_bps self))),
     (''maximum_mean_absolute_error_bps_of_capital'',
         JStr (str_of_int (rp_maximum_mean_absolute_error_bps_of_capital self))),
     (''minimum_guarded_mean_surplus'', JStr (str_of_int (rp_minimum_guarded_mean_surplus self))),
     (''minimum_scoreable_records_per_nonempty_bucket'',
         JStr (str_of_int (rp_minimum_scoreable_records_per_nonempty_bucket self)))]"

definition rp_digest :: "promotion_policy \<Rightarrow> string" where
  "rp_digest self =
    json_sha256 (ResearchPromotionPolicy_to_json self)"

definition ResearchPromotionPolicy_post_init :: "promotion_policy \<Rightarrow> promotion_policy result" where
  "ResearchPromotionPolicy_post_init self =
    rbind (require_bounded_text ''policy_id'' (rp_policy_id self) 128) (\<lambda>_.
    rbind (rall (\<lambda>(name, v).
        if \<not> (1 \<le> v \<and> v \<le> MAX_CORPUS_RECORDS)
        then Inl (ValueError (name @ '' must be a positive governed record count''))
        else Inr ())
      [(''minimum_attempts'', rp_minimum_attempts self),
       (''minimum_scoreable_records'', rp_minimum_scoreable_records self),
       (''minimum_unique_scoreable_inclusion_blocks'', rp_minimum_unique_scoreable_inclusion_blocks self),
       (''minimum_scoreable_records_per_nonempty_bucket'', rp_minimum_scoreable_records_per_nonempty_bucket self)]) (\<lambda>_.
    if rp_minimum_attempts self < rp_minimum_scoreable_records self
    then Inl (ValueError ''minimum_scoreable_records cannot exceed minimum_attempts'')
    else if rp_minimum_attempts self < rp_minimum_unique_scoreable_inclusion_blocks self
    then Inl (ValueError ''minimum_unique_scoreable_inclusion_blocks cannot exceed minimum_attempts'')
    else
    rbind (rall (\<lambda>(name, v).
        if \<not> (0 \<le> v \<and> v \<le> BASIS_POINTS)
        then Inl (ValueError (name @ '' must be an exact basis-point value''))
        else Inr ())
      [(''minimum_scoreable_rate_bps'', rp_minimum_scoreable_rate_bps self),
       (''minimum_execution_success_rate_bps'', rp_minimum_execution_success_rate_bps self),
       (''minimum_floor_preservation_rate_bps'', rp_minimum_floor_preservation_rate_bps self),
       (''minimum_cost_upper_bound_respect_rate_bps'', rp_minimum_cost_upper_bound_respect_rate_bps self),
       (''minimum_positive_surplus_rate_bps'', rp_minimum_positive_surplus_rate_bps self),
       (''maximum_native_cost_overrun_rate_bps'', rp_maximum_native_cost_overrun_rate_bps self),
       (''maximum_mean_absolute_error_bps_of_capital'', rp_maximum_mean_absolute_error_bps_of_capital self)]) (\<lambda>_.
    rbind (signed_aggregate ''minimum_guarded_mean_surplus'' (rp_minimum_guarded_mean_surplus self)) (\<lambda>_.
    jchecked (Inr (ResearchPromotionPolicy_to_json self)) self))))"

record promotion_decision =
  rd_scoreboard :: scoreboard
  rd_calibration :: calibration_report
  rd_expected_value :: expected_value
  rd_policy :: promotion_policy
  rd_created_at_unix_ms :: int
  rd_allowed :: bool
  rd_reasons :: "promotion_reason list"
  rd_decision_id :: string

definition ResearchPromotionDecision_to_json :: "promotion_decision \<Rightarrow> json result" where
  "ResearchPromotionDecision_to_json self =
    jobj
    [(''schema'', jtext PROMOTION_DECISION_SCHEMA),
     (''decision_id'', jtext (rd_decision_id self)),
     (''scoreboard_sha256'', jstr (hs_digest (rd_scoreboard self))),
     (''source_manifest_sha256'', jtext (hm_digest (hc_source_manifest (hs_corpus (rd_scoreboard self))))),
     (''source_completeness_scope'', jtext ''exact-declared-source-window-reference-set-only''),
     (''global_completeness_guarantee'', jbool False),
     (''calibration_sha256'', jstr (kr_digest (rd_calibration self))),
     (''expected_value_sha256'', jstr (hv_digest (rd_expected_value self))),
     (''policy'', Inr (ResearchPromotionPolicy_to_json (rd_policy self))),
     (''policy_sha256'', jtext (rp_digest (rd_policy self))),
     (''observed_unique_inclusion_block_count'',
         jdec (score_metric ''unique_inclusion_block_count'' (rd_scoreboard self))),
     (''observed_unique_scoreable_inclusion_block_count'',
         jdec (score_metric ''unique_scoreable_inclusion_block_count'' (rd_scoreboard self))),
     (''inclusion_block_diversity_semantics'',
         jtext ''promotion-gate-uses-scoreable-economic-sample-only''),
     (''allowed'', jbool (rd_allowed self)),
     (''reasons'', Inr (JArr (map (\<lambda>item. JStr (promotion_reason_value item)) (rd_reasons self)))),
     (''created_at_unix_ms'', jint (rd_created_at_unix_ms self)),
     (''promotion_scope'', jtext ''offline-research-candidate-only''),
     (''confidence_guarantee'', jbool False),
     (''production_promotion_authority'', jbool False),
     (''signing_authority'', jtext ''none''),
     (''submission_authority'', jtext ''none''),
     (''execution_authority'', jtext ''none''),
     (''realized_profit_authority'', jtext ''none'')]"

definition rd_digest :: "promotion_decision \<Rightarrow> string result" where
  "rd_digest self =
    jsha (ResearchPromotionDecision_to_json self)"

text \<open>
  The gates of a promotion: each test with the reason it appends when it holds.
\<close>

definition failed_gates :: "(bool result \<times> promotion_reason) list \<Rightarrow> promotion_reason list result" where
  "failed_gates gates =
    rbind (rmap (\<lambda>(failed, reason). rbind failed (\<lambda>f. Inr (f, reason))) gates) (\<lambda>fs.
    Inr (map snd (filter fst fs)))"

definition sample_gates :: "promotion_decision \<Rightarrow> (bool result \<times> promotion_reason) list" where
  "sample_gates self =
    (let sb = rd_scoreboard self; policy = rd_policy self in
    [(rbind (hv_available (rd_expected_value self)) (\<lambda>available. Inr (\<not> available)),
        EXPECTED_VALUE_UNAVAILABLE),
     (rbind (score_metric ''attempt_count'' sb) (\<lambda>v. Inr (v < rp_minimum_attempts policy)),
        INSUFFICIENT_ATTEMPTS),
     (rbind (score_metric ''scoreable_count'' sb) (\<lambda>v. Inr (v < rp_minimum_scoreable_records policy)),
        INSUFFICIENT_SCOREABLE_RECORDS),
     (rbind (score_metric ''scoreable_rate_bps'' sb) (\<lambda>v. Inr (v < rp_minimum_scoreable_rate_bps policy)),
        INSUFFICIENT_SCOREABLE_RATE),
     (rbind (score_metric ''execution_success_rate_bps'' sb) (\<lambda>v. Inr (v < rp_minimum_execution_success_rate_bps policy)),
        INSUFFICIENT_EXECUTION_SUCCESS_RATE),
     (rbind (score_metric ''floor_preservation_rate_bps'' sb) (\<lambda>v. Inr (v < rp_minimum_floor_preservation_rate_bps policy)),
        INSUFFICIENT_FLOOR_PRESERVATION_RATE),
     (rbind (score_metric ''cost_upper_bound_respect_rate_bps'' sb) (\<lambda>v. Inr (v < rp_minimum_cost_upper_bound_respect_rate_bps policy)),
        INSUFFICIENT_COST_BOUND_RATE),
     (rbind (score_metric ''positive_historical_surplus_rate_bps'' sb) (\<lambda>v. Inr (v < rp_minimum_positive_surplus_rate_bps policy)),
        INSUFFICIENT_POSITIVE_SURPLUS_RATE),
     (rbind (score_metric ''unique_scoreable_inclusion_block_count'' sb) (\<lambda>v. Inr (v < rp_minimum_unique_scoreable_inclusion_blocks policy)),
        INSUFFICIENT_UNIQUE_SCOREABLE_BLOCKS),
     (rbind (score_metric ''native_cost_overrun_rate_bps'' sb) (\<lambda>v. Inr (rp_maximum_native_cost_overrun_rate_bps policy < v)),
        EXCESSIVE_NATIVE_COST_OVERRUN_RATE),
     (rbind (score_metric ''mean_absolute_prediction_error_bps_of_capital_ceiling'' sb) (\<lambda>v. Inr (rp_maximum_mean_absolute_error_bps_of_capital policy < v)),
        EXCESSIVE_MEAN_ABSOLUTE_ERROR)])"

definition economic_gates :: "promotion_decision \<Rightarrow> (bool result \<times> promotion_reason) list" where
  "economic_gates self =
    (let sb = rd_scoreboard self; policy = rd_policy self in
    [(rbind (score_metric ''guarded_mean_historical_surplus_floor'' sb) (\<lambda>v.
        Inr (v < rp_minimum_guarded_mean_surplus policy)), GUARDED_EXPECTED_VALUE_BELOW_FLOOR),
     (Inr (list_ex (\<lambda>bucket. 0 < kb_attempt_count bucket
        \<and> kb_scoreable_count bucket < rp_minimum_scoreable_records_per_nonempty_bucket policy)
        (kr_buckets (rd_calibration self))), CALIBRATION_BUCKET_UNDERSAMPLED)])"

definition decision_identity :: "promotion_decision \<Rightarrow> json result" where
  "decision_identity self = jobj
    [(''schema'', jtext PROMOTION_DECISION_SCHEMA),
     (''scoreboard_sha256'', jstr (hs_digest (rd_scoreboard self))),
     (''source_manifest_sha256'', jtext (hm_digest (hc_source_manifest (hs_corpus (rd_scoreboard self))))),
     (''source_completeness_scope'', jtext ''exact-declared-source-window-reference-set-only''),
     (''global_completeness_guarantee'', jbool False),
     (''calibration_sha256'', jstr (kr_digest (rd_calibration self))),
     (''expected_value_sha256'', jstr (hv_digest (rd_expected_value self))),
     (''policy_sha256'', jtext (rp_digest (rd_policy self))),
     (''observed_unique_inclusion_block_count'',
         jdec (score_metric ''unique_inclusion_block_count'' (rd_scoreboard self))),
     (''observed_unique_scoreable_inclusion_block_count'',
         jdec (score_metric ''unique_scoreable_inclusion_block_count'' (rd_scoreboard self))),
     (''inclusion_block_diversity_semantics'', jtext ''promotion-gate-uses-scoreable-economic-sample-only''),
     (''allowed'', jbool (rd_allowed self)),
     (''reasons'', Inr (JArr (map (\<lambda>item. JStr (promotion_reason_value item)) (rd_reasons self)))),
     (''created_at_unix_ms'', jint (rd_created_at_unix_ms self))]"

definition ResearchPromotionDecision_post_init :: "promotion_decision \<Rightarrow> promotion_decision result" where
  "ResearchPromotionDecision_post_init self =
    rbind (require_time ''created_at_unix_ms'' (rd_created_at_unix_ms self)) (\<lambda>_.
    let latest = max (max (hs_created_at_unix_ms (rd_scoreboard self)) (kr_created_at_unix_ms (rd_calibration self)))
        (hv_created_at_unix_ms (rd_expected_value self)) in
    if rd_created_at_unix_ms self < latest
    then Inl (ValueError ''promotion decision predates its bound evidence'')
    else
    rbind (hs_digest (kr_scoreboard (rd_calibration self))) (\<lambda>calibration_scoreboard.
    rbind (hs_digest (rd_scoreboard self)) (\<lambda>scoreboard_sha256.
    if calibration_scoreboard \<noteq> scoreboard_sha256
    then Inl (ValueError ''calibration does not bind the exact scoreboard'')
    else
    rbind (hs_digest (hv_scoreboard (rd_expected_value self))) (\<lambda>expected_value_scoreboard.
    if expected_value_scoreboard \<noteq> scoreboard_sha256
    then Inl (ValueError ''expected value does not bind the exact scoreboard'')
    else
    rbind (failed_gates (sample_gates self)) (\<lambda>sample_reasons.
    rbind (hv_guarded_sample_mean_floor (rd_expected_value self)) (\<lambda>expected_guarded.
    rbind (score_metric ''guarded_mean_historical_surplus_floor'' (rd_scoreboard self)) (\<lambda>guarded.
    if expected_guarded \<noteq> guarded
    then Inl (RuntimeError ''expected-value guarded mean drifted from scoreboard'')
    else
    rbind (failed_gates (economic_gates self)) (\<lambda>economic_reasons.
    let reasons = sample_reasons @ economic_reasons in
    let self = self\<lparr>rd_allowed := reasons = [], rd_reasons := reasons\<rparr> in
    rbind (jsha (decision_identity self)) (\<lambda>digest.
    let self = self\<lparr>rd_decision_id := ''research-promotion-'' @ digest\<rparr> in
    jchecked (ResearchPromotionDecision_to_json self) self)))))))))"

end
