(* ===== verification/Execution_Correct.thy ===== *)
theory Execution_Correct
  imports Execution_Outcome
begin

text \<open>
  What the evidence of an execution guarantees: the gas an inclusion charges stays within what was
  signed, a receipt is decoded exactly when it is its own encoding, the logs bloom has a bit for
  every value logged and no other, a settlement event is exactly the log of its values.
\<close>

text \<open>A guard that passes; with \<open>rbind_eq_Inr\<close> it turns a constructor into the conjunction of its checks.\<close>

lemma guard_Inr: "(if c then Inl e else m) = Inr y \<longleftrightarrow> \<not> c \<and> m = Inr y"
  by simp

subsection \<open>Checked 256-bit arithmetic\<close>

lemma u256_add_Inr: "u256_add a b name = Inr c \<longleftrightarrow> 0 \<le> a \<and> 0 \<le> b \<and> a + b \<le> MAX_UINT256 \<and> c = a + b"
  by (auto simp: u256_add_def)

lemma u256_mul_Inr:
  "u256_mul a b name = Inr c \<longleftrightarrow>
     0 \<le> a \<and> a \<le> MAX_UINT256 \<and> 0 \<le> b \<and> b \<le> MAX_UINT256 \<and> a * b \<le> MAX_UINT256 \<and> c = a * b"
  by (auto simp: u256_mul_def Let_def)

lemma u256_ceil_div_Inr:
  "u256_ceil_div n d = Inr q \<longleftrightarrow> 0 \<le> n \<and> n \<le> MAX_UINT256 \<and> 0 < d \<and> d \<le> MAX_UINT256 \<and> q = - ((- n) div d)"
proof -
  have "n div d + (if n mod d \<noteq> 0 then 1 else 0) = - ((- n) div d)" if "0 < d"
    by (cases "n mod d = 0") (auto simp: zdiv_zminus1_eq_if that less_imp_neq [OF that, symmetric])
  then show ?thesis by (auto simp: u256_ceil_div_def Let_def simp del: if_not_P)
qed

subsection \<open>Gas\<close>

abbreviation included_transaction :: "inclusion \<Rightarrow> unsigned_transaction" where
  "included_transaction self \<equiv> sx_unsigned_transaction (xp_signed_transaction (inc_package self))"

lemma inclusion_gas_cost_Inr:
  assumes "inclusion_gas_cost self receipt gas = Inr (price, cost)"
  shows "cost = gas * price" "0 < gas" "gas \<le> ut_gas_limit (included_transaction self)" "ut_intrinsic_gas (included_transaction self) \<le> gas"
    "bk_base_fee_per_gas (ab_block (inc_block self)) \<le> price" "price \<le> ut_max_fee_per_gas (included_transaction self)"
    "price \<le> bk_base_fee_per_gas (ab_block (inc_block self)) + ut_max_priority_fee_per_gas (included_transaction self)"
    "0 \<le> price"
  using assms(1)
  by (auto simp: inclusion_gas_cost_def Let_def u256_add_Inr u256_mul_Inr split: if_splits)

lemma inclusion_cost_bounded:
  assumes "inclusion_gas_cost self receipt gas = Inr (price, cost)"
  shows "cost \<le> ut_gas_limit (included_transaction self) * ut_max_fee_per_gas (included_transaction self)"
  using inclusion_gas_cost_Inr [OF assms(1)]
  by (auto intro!: mult_mono)

lemma inclusion_gas_cost_iff:
  "inclusion_gas_cost self receipt gas = Inr (price, cost) \<longleftrightarrow>
    (let base_fee = bk_base_fee_per_gas (ab_block (inc_block self));
         tip = ut_max_priority_fee_per_gas (included_transaction self);
         max_fee = ut_max_fee_per_gas (included_transaction self) in
     0 < gas \<and> gas \<le> MAX_UINT256 \<and> rx_cumulative_gas_used receipt \<le> bk_gas_used (ab_block (inc_block self))
     \<and> ut_intrinsic_gas (included_transaction self) \<le> gas \<and> gas \<le> ut_gas_limit (included_transaction self)
     \<and> 0 \<le> base_fee \<and> base_fee \<le> max_fee \<and> 0 \<le> min tip (max_fee - base_fee)
     \<and> price = min (base_fee + tip) max_fee \<and> price \<le> MAX_UINT256
     \<and> cost = gas * price \<and> cost \<le> MAX_UINT256)"
  by (auto simp: inclusion_gas_cost_def Let_def u256_add_Inr u256_mul_Inr min_def split: if_splits)

subsection \<open>Receipts\<close>

lemma log_entry_post_init_same: "EvmLogEntry_post_init e = Inr r \<Longrightarrow> r = e"
  by (auto simp: EvmLogEntry_post_init_def jchecked_Inr split: if_splits)

lemma receipt_log_decode:
  assumes "EvmLogEntry_post_init e = Inr e"
  shows "decode_log_entry (i, lg_rlp_value e) = Inr e"
proof -
  have topics: "\<not> MAX_LOG_TOPICS < length (lg_topics e)" "list_all (\<lambda>t. length t = 32) (lg_topics e)"
    using assms by (auto simp: EvmLogEntry_post_init_def list_ex_iff list_all_iff split: if_splits)
  have "rmap (\<lambda>(topic_index, topic). let topic_name = n @ '' topic '' @ str_of_nat topic_index in
         rbind (require_rlp_bytes topic_name topic) (\<lambda>v. rbind (require_bytes32 topic_name v) (\<lambda>_. Inr v)))
       (enumerate k (map RBytes ts)) = Inr ts" if "list_all (\<lambda>t. length t = 32) ts" for n k ts
    using that by (induction ts arbitrary: k) (auto simp: require_rlp_bytes_def require_bytes32_def Let_def)
  from this [of "lg_topics e" "''receipt log '' @ str_of_nat i" 0] topics assms show ?thesis
    by (cases e) (simp add: decode_log_entry_def lg_rlp_value_def Let_def require_rlp_list_def require_rlp_bytes_def)
qed

lemma receipt_logs_decode:
  "list_all (\<lambda>e. EvmLogEntry_post_init e = Inr e) logs
    \<Longrightarrow> rmap decode_log_entry (enumerate k (map lg_rlp_value logs)) = Inr logs"
  by (induction logs arbitrary: k) (auto simp: receipt_log_decode)

lemma decode_log_entry_valid: "decode_log_entry p = Inr e \<Longrightarrow> EvmLogEntry_post_init e = Inr e"
  by (cases p) (auto simp: decode_log_entry_def Let_def dest: log_entry_post_init_same split: if_splits)

definition receipt_payload :: "receipt \<Rightarrow> rlp_item" where
  "receipt_payload r = RList [RBytes (minimal_be (rx_status r)), RBytes (minimal_be (rx_cumulative_gas_used r)),
     RBytes (rx_logs_bloom r), RList (map lg_rlp_value (rx_logs r))]"

lemma minimal_be_bit: "minimal_be 0 = []" "minimal_be 1 = [1]"
  using minimal_from_be [of "[1]"] by (simp_all add: from_bytes_be_Cons)

lemma receipt_gas_bytes: "(if n = 0 then [] else to_bytes_be ((bit_length n + 7) div 8) n) = minimal_be n"
  by (simp add: minimal_be_def byte_width_def flip: minimal_be_0)

text \<open>What the constructor has checked, and that it accepts its own result again.\<close>

definition receipt_checked :: "receipt \<Rightarrow> bool" where
  "receipt_checked r \<longleftrightarrow> (rx_status r = 0 \<or> rx_status r = 1)
    \<and> 0 \<le> rx_cumulative_gas_used r \<and> rx_cumulative_gas_used r \<le> MAX_UINT256
    \<and> length (rx_logs_bloom r) = LOGS_BLOOM_BYTES
    \<and> length (rx_logs r) \<le> MAX_RECEIPT_LOGS \<and> rx_raw_receipt r \<noteq> []
    \<and> length (rx_raw_receipt r) \<le> MAX_RECEIPT_BYTES
    \<and> compute_logs_bloom (rx_logs r) = Inr (rx_logs_bloom r)
    \<and> (case rx_transaction_type r of None \<Rightarrow> rlp_encode (receipt_payload r) = Inr (rx_raw_receipt r)
       | Some t \<Rightarrow> 1 \<le> t \<and> t \<le> 127 \<and> (\<exists>p. rlp_encode (receipt_payload r) = Inr p \<and> word_of_int t # p = rx_raw_receipt r))"

lemma receipt_post_init_Inr:
  "EvmTransactionReceipt_post_init x = Inr r \<longleftrightarrow>
     receipt_checked x \<and> (\<exists>d b. canonical_logs_sha256 (rx_logs x) = Inr d \<and> r = x\<lparr>rx_logs_sha256 := d\<rparr>
       \<and> canonical_json_bytes (EvmTransactionReceipt_to_json (x\<lparr>rx_logs_sha256 := d\<rparr>)) = Inr b)"
proof (cases "rx_status x = 0 \<or> rx_status x = 1")
  case True
  then have "(if rx_status x = 0 then [] else [word_of_int (rx_status x)]) = minimal_be (rx_status x)"
    using minimal_be_bit by auto
  with True show ?thesis
    unfolding EvmTransactionReceipt_post_init_def receipt_gas_bytes receipt_payload_def receipt_checked_def
    by (cases "rx_transaction_type x")
      (simp add: guard_Inr jchecked_Inr Let_def not_less split del: if_split; blast)+
next
  case False
  then show ?thesis by (simp add: EvmTransactionReceipt_post_init_def receipt_checked_def)
qed

lemma receipt_checked_sha [simp]: "receipt_checked (x\<lparr>rx_logs_sha256 := d\<rparr>) = receipt_checked x"
  by (cases "rx_transaction_type x") (simp_all add: receipt_checked_def receipt_payload_def)

lemma receipt_post_init_same: "EvmTransactionReceipt_post_init x = Inr r \<Longrightarrow> EvmTransactionReceipt_post_init r = Inr r"
  by (auto simp: receipt_post_init_Inr)

text \<open>The payload of a receipt decodes to its fields, and only a receipt's payload does.\<close>

lemma receipt_head:
  assumes "rlp_encode (RList vs) = Inr p"
  shows "p \<noteq> []" "127 < uint (hd p)"
proof -
  have p: "p \<noteq> []" using assms rlp_encode_not_Nil by blast
  have d: "rlp_decode p = Inr (RList vs)" using assms by (simp add: rlp.decode_iff)
  have "\<not> unat (hd p) \<le> 127"
  proof
    assume small: "unat (hd p) \<le> 127"
    then have "rlp_head_at p 0 = Inr (HString [hd p] 1)" using p by (simp add: rlp_head_at_def hd_conv_nth)
    with d show False by (simp add: rlp_decode_def guard_Inr)
  qed
  then have "127 < int (unat (hd p))" by linarith
  with p show "p \<noteq> []" "127 < uint (hd p)" by simp_all
qed

lemma decode_of_encoded:
  assumes r: "EvmTransactionReceipt_post_init r = Inr r"
    and logs: "list_all (\<lambda>e. EvmLogEntry_post_init e = Inr e) (rx_logs r)"
  shows "EvmTransactionReceipt_decode (rx_raw_receipt r) = Inr r"
proof -
  have checked: "receipt_checked r" using r by (simp add: receipt_post_init_Inr)
  have status: "rlp_decode_uint (minimal_be (rx_status r)) 8 = Inr (rx_status r)"
    and gas: "rlp_decode_uint (minimal_be (rx_cumulative_gas_used r)) 256 = Inr (rx_cumulative_gas_used r)"
    using checked by (auto simp: rlp_decode_uint_Inr receipt_checked_def MAX_UINT256_def)
  have again: "EvmTransactionReceipt_post_init (r\<lparr>rx_logs_sha256 := []\<rparr>) = Inr r"
    using r by (auto simp: receipt_post_init_Inr)
  show ?thesis
  proof (cases "rx_transaction_type r")
    case None
    have "rlp_encode (receipt_payload r) = Inr (rx_raw_receipt r)" using checked None by (simp add: receipt_checked_def)
    then have "127 < uint (hd (rx_raw_receipt r))" "rlp_decode (rx_raw_receipt r) = Inr (receipt_payload r)"
      by (auto simp: receipt_payload_def rlp.decode_iff dest: receipt_head)
    then show ?thesis using checked None status gas again receipt_logs_decode [OF logs]
      by (cases r) (auto simp: EvmTransactionReceipt_decode_def receipt_checked_def receipt_payload_def Let_def
        require_rlp_list_def require_rlp_bytes_def)
  next
    case (Some t)
    then obtain p where t: "1 \<le> t" "t \<le> 127" and p: "rlp_encode (receipt_payload r) = Inr p"
      and raw: "rx_raw_receipt r = word_of_int t # p" using checked by (auto simp: receipt_checked_def)
    have "p \<noteq> []" using p by (simp add: receipt_payload_def receipt_head)
    moreover have "rlp_decode p = Inr (receipt_payload r)" using p by (simp add: rlp.decode_iff)
    moreover have "uint (word_of_int t :: 8 word) = t" using t by (simp add: uint_word_of_int)
    moreover have "length (word_of_int t # p) \<le> MAX_RECEIPT_BYTES" using checked raw by (simp add: receipt_checked_def)
    ultimately show ?thesis using raw Some t checked status gas again receipt_logs_decode [OF logs]
      by (cases r) (auto simp: EvmTransactionReceipt_decode_def receipt_checked_def receipt_payload_def Let_def
        require_rlp_list_def require_rlp_bytes_def)
  qed
qed

lemma decoded_receipt:
  assumes "EvmTransactionReceipt_decode b = Inr r"
  shows "rx_raw_receipt r = b" "list_all (\<lambda>e. EvmLogEntry_post_init e = Inr e) (rx_logs r)"
    "EvmTransactionReceipt_post_init r = Inr r"
proof -
  obtain ty st gas bloom logs items where
    logs: "rmap decode_log_entry (enumerate 0 items) = Inr logs"
    and r: "EvmTransactionReceipt_post_init
       \<lparr>rx_transaction_type = ty, rx_status = st, rx_cumulative_gas_used = gas,
        rx_logs_bloom = bloom, rx_logs = logs, rx_raw_receipt = b, rx_logs_sha256 = []\<rparr> = Inr r"
    using assms by (auto simp: EvmTransactionReceipt_decode_def guard_Inr split del: if_split)
  show "EvmTransactionReceipt_post_init r = Inr r" using r by (rule receipt_post_init_same)
  have "rx_logs r = logs" and "rx_raw_receipt r = b" using r by (auto simp: receipt_post_init_Inr)
  moreover have "list_all (\<lambda>e. EvmLogEntry_post_init e = Inr e) logs"
    using logs by (auto simp: rmap_eq_Inr list_all2_conv_all_nth list_all_length dest: decode_log_entry_valid)
  ultimately show "rx_raw_receipt r = b" "list_all (\<lambda>e. EvmLogEntry_post_init e = Inr e) (rx_logs r)" by simp_all
qed

subsection \<open>The logs bloom\<close>

text \<open>The three bits of a value: the low eleven bits of the first three pairs of bytes of its hash.\<close>

definition bloom_bits :: "bytes \<Rightarrow> nat set" where
  "bloom_bits v = (\<lambda>k. nat (from_bytes_be (slice k (k + 2) (keccak256 v)) mod 2048)) ` {0, 2, 4}"

definition logged_values :: "log_entry list \<Rightarrow> bytes list" where
  "logged_values logs = concat (map (\<lambda>e. lg_address e # lg_topics e) logs)"

lemma bloom_value_bits: "bit (bloom_value n v) i \<longleftrightarrow> bit n i \<or> i \<in> bloom_bits v"
proof -
  have m: "k AND 2047 = k mod 2048" for k :: int using take_bit_eq_mask [of 11 k] by (simp add: mask_eq_exp_minus_1 take_bit_eq_mod)
  show ?thesis
    by (auto simp: bloom_value_def bloom_bits_def Let_def m bit_simps)
qed

lemma bloom_fold: "fold (\<lambda>entry bloom. fold (\<lambda>v bloom. bloom_value bloom v) (lg_address entry # lg_topics entry) bloom) logs n
    = fold (\<lambda>v bloom. bloom_value bloom v) (logged_values logs) n"
  by (induction logs arbitrary: n) (simp_all add: logged_values_def)

lemma bloom_values_bits: "bit (fold (\<lambda>v bloom. bloom_value bloom v) vs n) i \<longleftrightarrow> bit n i \<or> (\<exists>v\<in>set vs. i \<in> bloom_bits v)"
  by (induction vs arbitrary: n) (auto simp: bloom_value_bits)

lemma bloom_nonneg: "0 \<le> n \<Longrightarrow> 0 \<le> fold (\<lambda>v bloom. bloom_value bloom v) vs n"
  by (induction vs arbitrary: n) (simp_all add: bloom_value_def Let_def or_nonnegative_int_iff)

lemma bloom_bits_less: "i \<in> bloom_bits v \<Longrightarrow> i < 2048"
  by (auto simp: bloom_bits_def nat_less_iff)

lemma compute_logs_bloom_Inr:
  "compute_logs_bloom logs = Inr b \<longleftrightarrow>
     length logs \<le> MAX_RECEIPT_LOGS \<and> length b = LOGS_BLOOM_BYTES
     \<and> (\<forall>i. bit (from_bytes_be b) i \<longleftrightarrow> (\<exists>v\<in>set (logged_values logs). i \<in> bloom_bits v))"
proof -
  let ?n = "fold (\<lambda>v bloom. bloom_value bloom v) (logged_values logs) 0"
  have bits: "bit ?n i \<longleftrightarrow> (\<exists>v\<in>set (logged_values logs). i \<in> bloom_bits v)" for i
    by (simp add: bloom_values_bits)
  have "take_bit 2048 ?n = ?n"
    by (rule bit_eqI) (auto simp: bit_take_bit_iff bits dest: bloom_bits_less)
  then have "?n < 2 ^ 2048" by (metis take_bit_int_less_exp)
  moreover have "(2::int) ^ 2048 = 256 ^ LOGS_BLOOM_BYTES"
    by (simp add: LOGS_BLOOM_BYTES_def power_mult [of 2 8, symmetric, simplified] flip: power_mult)
  ultimately have n: "from_bytes_be (to_bytes_be LOGS_BLOOM_BYTES ?n) = ?n"
    by (simp add: from_to_bytes_be bloom_nonneg)
  have "to_bytes_be LOGS_BLOOM_BYTES ?n = b \<longleftrightarrow> length b = LOGS_BLOOM_BYTES \<and> (\<forall>i. bit (from_bytes_be b) i = bit ?n i)"
  proof
    assume "to_bytes_be LOGS_BLOOM_BYTES ?n = b"
    with n show "length b = LOGS_BLOOM_BYTES \<and> (\<forall>i. bit (from_bytes_be b) i = bit ?n i)" by auto
  next
    assume b: "length b = LOGS_BLOOM_BYTES \<and> (\<forall>i. bit (from_bytes_be b) i = bit ?n i)"
    then have "from_bytes_be b = ?n" by (auto intro: bit_eqI)
    with b n show "to_bytes_be LOGS_BLOOM_BYTES ?n = b" by (metis to_from_bytes_be)
  qed
  then show ?thesis
    unfolding compute_logs_bloom_def bloom_fold Let_def guard_Inr not_less bits by auto
qed

subsection \<open>Settlement events\<close>

definition is_address :: "bytes \<Rightarrow> bool" where
  "is_address v \<longleftrightarrow> length v = 20 \<and> v \<noteq> zero_bytes 20"

lemma require_address_Inr [simp]: "require_address name v = Inr u \<longleftrightarrow> is_address v"
  by (simp add: require_address_def is_address_def)

lemma topic_address_Inr:
  "topic_address name v = Inr a \<longleftrightarrow> v = zero_bytes 12 @ a \<and> is_address a"
proof -
  have "length v = 32 \<and> take 12 v = zero_bytes 12 \<and> drop 12 v = a \<longleftrightarrow> v = zero_bytes 12 @ a \<and> length a = 20"
    by (auto simp: zero_bytes_def) (metis append_take_drop_id)
  then show ?thesis by (auto simp: topic_address_def guard_Inr is_address_def)
qed

definition event_words :: "settlement_event \<Rightarrow> int list" where
  "event_words ev = [sev_gross_output ev, sev_principal_repaid ev, sev_flash_loan_fee_paid ev,
     sev_base_token_residual_before_external_costs ev, sev_direct_inclusion_payment ev]"

definition event_topics :: "settlement_event \<Rightarrow> bytes list" where
  "event_topics ev = [keccak256 (utf8_bytes SETTLEMENT_EVENT_SIGNATURE), bytes_fromhex (sev_plan_sha256 ev),
     zero_bytes 12 @ sev_beneficiary ev, zero_bytes 12 @ sev_base_token ev]"

definition event_checked :: "settlement_event \<Rightarrow> bool" where
  "event_checked ev \<longleftrightarrow> is_sha256_text (sev_spec_sha256 ev) \<and> is_sha256_text (sev_plan_sha256 ev)
     \<and> is_address (sev_beneficiary ev) \<and> is_address (sev_base_token ev)
     \<and> list_all (\<lambda>v. 0 \<le> v \<and> v \<le> MAX_UINT256) (event_words ev)
     \<and> sev_gross_output ev = sev_principal_repaid ev + sev_flash_loan_fee_paid ev
         + sev_base_token_residual_before_external_costs ev
     \<and> is_ok (canonical_json_bytes (ExecutorSettlementEvent_to_json ev))"

lemma length_4_Cons: "length xs = 4 \<longleftrightarrow> (\<exists>a b c d. xs = [a, b, c, d])"
  by (auto simp: numeral_eq_Suc length_Suc_conv)

lemma event_post_init_Inr:
  "ExecutorSettlementEvent_post_init ev = Inr r \<longleftrightarrow> r = ev \<and> event_checked ev
     \<and> lg_topics (sev_log ev) = event_topics ev
     \<and> lg_data (sev_log ev) = concat (map (to_bytes_be 32) (event_words ev))"
  unfolding ExecutorSettlementEvent_post_init_def event_checked_def is_ok_iff
  by (auto simp: guard_Inr jchecked_Inr Let_def rall_Inr_iff u256_add_Inr topic_address_Inr length_4_Cons
      event_words_def event_topics_def split del: if_split)

lemma slice_words:
  assumes "length a = 32" "length b = 32" "length c = 32" "length d = 32" "length e = 32"
  shows "map (\<lambda>index. from_bytes_be (slice (32 * index) (32 * index + 32) (a @ b @ c @ d @ e))) [0 ..< 5]
    = map from_bytes_be [a, b, c, d, e]"
  using assms by (simp add: slice_def upt_rec [of _ 5] upt_rec [of _ "Suc _"] numeral_eq_Suc)

text \<open>The decoder accepts a log exactly when it is the encoding of the event it returns.\<close>

lemma sps_decode_Inr:
  "sps_decode spec log = Inr ev \<longleftrightarrow>
     event_checked ev \<and> sev_spec_sha256 ev = sps_digest spec
     \<and> sps_topic0 spec = keccak256 (utf8_bytes SETTLEMENT_EVENT_SIGNATURE) \<and> sev_log ev = log
     \<and> log = \<lparr>lg_address = lg_address log, lg_topics = event_topics ev,
              lg_data = concat (map (to_bytes_be 32) (event_words ev))\<rparr>"
proof
  assume "sps_decode spec log = Inr ev"
  then show "event_checked ev \<and> sev_spec_sha256 ev = sps_digest spec
     \<and> sps_topic0 spec = keccak256 (utf8_bytes SETTLEMENT_EVENT_SIGNATURE) \<and> sev_log ev = log
     \<and> log = \<lparr>lg_address = lg_address log, lg_topics = event_topics ev,
              lg_data = concat (map (to_bytes_be 32) (event_words ev))\<rparr>"
    by (cases log, auto simp: sps_decode_def guard_Inr Let_def event_post_init_Inr event_topics_def split del: if_split)
      (metis list.sel(1))
next
  assume r: "event_checked ev \<and> sev_spec_sha256 ev = sps_digest spec
     \<and> sps_topic0 spec = keccak256 (utf8_bytes SETTLEMENT_EVENT_SIGNATURE) \<and> sev_log ev = log
     \<and> log = \<lparr>lg_address = lg_address log, lg_topics = event_topics ev,
              lg_data = concat (map (to_bytes_be 32) (event_words ev))\<rparr>"
  then have "lg_topics log = event_topics ev" "lg_data log = concat (map (to_bytes_be 32) (event_words ev))"
    by (metis log_entry.select_convs)+
  moreover have "map from_bytes_be (map (to_bytes_be 32) (event_words ev)) = event_words ev"
    using r by (simp add: event_checked_def event_words_def from_to_bytes_be MAX_UINT256_def)
  moreover have "bytes_hex (bytes_fromhex (sev_plan_sha256 ev)) = sev_plan_sha256 ev"
    using r by (auto simp: event_checked_def is_sha256_text_def intro: bytes_hex_fromhex)
  moreover have "ExecutorSettlementEvent_post_init ev = Inr ev" using r calculation by (simp add: event_post_init_Inr)
  ultimately show "sps_decode spec log = Inr ev" using r
    by (cases ev) (simp add: sps_decode_def event_topics_def event_words_def slice_words topic_address_Inr Let_def event_checked_def)
qed

end
