(* ===== verification/Scoreboard_Correct.thy ===== *)
theory Scoreboard_Correct
  imports Historical_Scoreboard Execution_Correct
begin

text \<open>
  What the scoreboard promises: its counts and rates reconcile, its means are rounded against the
  strategy, calibration buckets partition the cohort by predicted return, and a promotion is
  allowed exactly when every gate holds.
\<close>

subsection \<open>Aggregates\<close>

lemma signed_aggregate_Inr:
  "signed_aggregate name v = Inr w \<longleftrightarrow> - MAX_AGGREGATE \<le> v \<and> v \<le> MAX_AGGREGATE \<and> w = v"
  by (auto simp: signed_aggregate_def)

lemma aggregate_add_Inr: "aggregate_add a b name = Inr c \<Longrightarrow> c = a + b"
  by (auto simp: aggregate_add_def signed_aggregate_Inr)

lemma aggregate_sum_Inr: "aggregate_sum xs name = Inr s \<Longrightarrow> s = sum_list xs"
proof -
  have "rfold (\<lambda>sum v. aggregate_add sum v name) a xs = Inr s \<Longrightarrow> s = a + sum_list xs" for a
  proof (induction xs arbitrary: a)
    case (Cons x xs)
    then obtain b where "aggregate_add a x name = Inr b" "rfold (\<lambda>sum v. aggregate_add sum v name) b xs = Inr s" by auto
    with Cons.IH [of b] show ?case by (auto dest: aggregate_add_Inr)
  qed simp
  from this [of 0] show "aggregate_sum xs name = Inr s \<Longrightarrow> s = sum_list xs" by (simp add: aggregate_sum_def)
qed

lemma ratio_bps_Inr:
  assumes "ratio_bps n d = Inr r"
  shows "0 \<le> r" "r \<le> BASIS_POINTS"
proof -
  have n: "0 \<le> n" "n \<le> d" and r: "r = (if d = 0 then 0 else n * BASIS_POINTS div d)"
    using assms by (auto simp: ratio_bps_def split: if_splits)
  have "n * BASIS_POINTS div d \<le> d * BASIS_POINTS div d" if "d \<noteq> 0"
    using n that by (intro zdiv_mono1 mult_right_mono) (auto simp: BASIS_POINTS_def)
  with n r show "0 \<le> r" "r \<le> BASIS_POINTS"
    by (auto simp: BASIS_POINTS_def pos_imp_zdiv_nonneg_iff)
qed

subsection \<open>Metrics\<close>

lemma count_of_simps [simp]: "count_of p [] = 0" "count_of p (x # xs) = (if p x then 1 else 0) + count_of p xs"
  by (simp_all add: count_of_def)

lemma count_of_bounds: "0 \<le> count_of p xs" "count_of p xs \<le> int (length xs)"
  by (simp_all add: count_of_def)

lemma dispositions_partition:
  "count_of (\<lambda>item. hr_disposition item = SETTLED) records + count_of (\<lambda>item. hr_disposition item = REVERTED) records
   + count_of (\<lambda>item. hr_disposition item = SETTLEMENT_MISSING) records
   + count_of (\<lambda>item. hr_disposition item = SETTLEMENT_EVIDENCE_INCOMPLETE) records = int (length records)"
proof (induction records)
  case (Cons r records)
  then show ?case by (cases "hr_disposition r") simp_all
qed simp

text \<open>A metric, by name; the constructor sorts the metrics, which changes no lookup.\<close>

definition metric :: "(string \<times> int) list \<Rightarrow> string \<Rightarrow> int" where
  "metric metrics name = the (map_of metrics name)"

lemma map_of_sorted:
  assumes "distinct (map fst xs)"
  shows "map_of (sort xs) = map_of xs"
proof -
  have "distinct (map fst (sort xs))" using assms by (simp add: distinct_map)
  with assms show ?thesis by (simp add: map_of_inject_set)
qed

definition COUNT_NAMES :: "string list" where
  "COUNT_NAMES = [''attempt_count'', ''execution_success_count'', ''settled_count'', ''reverted_count'',
     ''settlement_missing_count'', ''settlement_evidence_incomplete_count'', ''settlement_observed_count'',
     ''outcome_evidence_complete_count'', ''scoreable_count'', ''unscoreable_count'',
     ''unique_inclusion_block_count'', ''unique_scoreable_inclusion_block_count'', ''floor_preserved_count'',
     ''simulation_exact_match_count'', ''cost_upper_bounds_respected_count'',
     ''positive_historical_surplus_count'', ''native_cost_overrun_count'']"

definition RATE_NAMES :: "string list" where
  "RATE_NAMES = [''execution_success_rate_bps'', ''settlement_observed_rate_bps'',
     ''outcome_evidence_complete_rate_bps'', ''scoreable_rate_bps'', ''floor_preservation_rate_bps'',
     ''simulation_exact_match_rate_bps'', ''cost_upper_bound_respect_rate_bps'',
     ''positive_historical_surplus_rate_bps'', ''native_cost_overrun_rate_bps'']"

definition ECONOMIC_NAMES :: "string list" where
  "ECONOMIC_NAMES = [''predicted_conservative_net_profit_sum'', ''historical_conservative_surplus_sum'',
     ''prediction_error_sum'', ''absolute_prediction_error_sum'', ''attempt_capital_at_risk_sum'',
     ''scoreable_capital_at_risk_sum'', ''mean_historical_conservative_surplus_floor'',
     ''mean_absolute_prediction_error_ceiling'', ''mean_absolute_prediction_error_bps_of_capital_ceiling'',
     ''guarded_mean_historical_surplus_floor'', ''aggregate_historical_return_bps_floor'']"

lemma metric_names_distinct: "distinct (COUNT_NAMES @ RATE_NAMES @ ECONOMIC_NAMES)"
  by (simp add: COUNT_NAMES_def RATE_NAMES_def ECONOMIC_NAMES_def)

lemma scoreboard_metrics_Inr:
  assumes "scoreboard_metrics records = Inr metrics"
  obtains rates economics where
    "metrics = scoreboard_counts records (filter hr_economics_scoreable records) @ rates @ economics"
    "scoreboard_rates records (filter hr_economics_scoreable records) = Inr rates"
    "scoreboard_economics records (filter hr_economics_scoreable records) = Inr economics"
  using assms by (auto simp: scoreboard_metrics_def Let_def)

lemma scoreboard_rates_Inr:
  assumes "scoreboard_rates records scoreable = Inr rates"
  shows "map fst rates = RATE_NAMES" "\<And>n r. (n, r) \<in> set rates \<Longrightarrow> 0 \<le> r \<and> r \<le> BASIS_POINTS"
  using assms by (auto simp: scoreboard_rates_def RATE_NAMES_def dest: ratio_bps_Inr)

lemma scoreboard_counts_names: "map fst (scoreboard_counts records scoreable) = COUNT_NAMES"
  by (simp add: scoreboard_counts_def COUNT_NAMES_def)

lemma scoreboard_economics_names: "scoreboard_economics records scoreable = Inr economics \<Longrightarrow> map fst economics = ECONOMIC_NAMES"
  by (auto simp: scoreboard_economics_def ECONOMIC_NAMES_def Let_def)

lemma metrics_distinct:
  assumes "scoreboard_metrics records = Inr metrics"
  shows "distinct (map fst metrics)"
  using assms by (elim scoreboard_metrics_Inr)
    (use metric_names_distinct in \<open>simp add: scoreboard_counts_names scoreboard_rates_Inr scoreboard_economics_names\<close>)

lemma metric_eq:
  assumes "scoreboard_metrics records = Inr metrics" "(name, v) \<in> set metrics"
  shows "metric metrics name = v"
  using assms metrics_distinct by (simp add: metric_def)

text \<open>The constructed scoreboard reads its metrics by name.\<close>

lemma score_metric_eq:
  assumes "scoreboard_metrics records = Inr metrics" "name \<in> set (COUNT_NAMES @ RATE_NAMES @ ECONOMIC_NAMES)"
    "hs_metrics sb = sort metrics"
  shows "score_metric name sb = Inr (metric metrics name)"
proof -
  have "map fst metrics = COUNT_NAMES @ RATE_NAMES @ ECONOMIC_NAMES"
    using assms(1) by (elim scoreboard_metrics_Inr)
      (simp add: scoreboard_counts_names scoreboard_rates_Inr scoreboard_economics_names)
  then have "name \<in> fst ` set metrics" using assms(2) by (metis set_map)
  then obtain v where "map_of metrics name = Some v" by (auto simp: map_of_eq_None_iff dest: weak_map_of_SomeI)
  with assms show ?thesis
    by (simp add: score_metric_def map_of_sorted metrics_distinct metric_def)
qed

lemma metrics_counts:
  assumes "scoreboard_metrics records = Inr metrics"
  defines "scoreable \<equiv> filter hr_economics_scoreable records"
  shows "metric metrics ''attempt_count'' = int (length records)"
    "metric metrics ''scoreable_count'' = int (length scoreable)"
    "metric metrics ''unscoreable_count'' = int (length records) - int (length scoreable)"
    "metric metrics ''settled_count'' = count_of (\<lambda>item. hr_disposition item = SETTLED) records"
    "metric metrics ''reverted_count'' = count_of (\<lambda>item. hr_disposition item = REVERTED) records"
    "metric metrics ''settlement_missing_count'' = count_of (\<lambda>item. hr_disposition item = SETTLEMENT_MISSING) records"
    "metric metrics ''settlement_evidence_incomplete_count''
      = count_of (\<lambda>item. hr_disposition item = SETTLEMENT_EVIDENCE_INCOMPLETE) records"
  unfolding scoreable_def
  by (rule metric_eq [OF assms(1)], use assms(1) in \<open>elim scoreboard_metrics_Inr, simp add: scoreboard_counts_def\<close>)+

lemma metrics_rates:
  assumes "scoreboard_metrics records = Inr metrics" "name \<in> set RATE_NAMES"
  shows "0 \<le> metric metrics name" "metric metrics name \<le> BASIS_POINTS"
proof -
  obtain rates where rates: "set rates \<subseteq> set metrics" "map fst rates = RATE_NAMES"
      "\<And>n r. (n, r) \<in> set rates \<Longrightarrow> 0 \<le> r \<and> r \<le> BASIS_POINTS"
    using assms(1) by (elim scoreboard_metrics_Inr) (auto dest: scoreboard_rates_Inr)
  then obtain r where "(name, r) \<in> set rates" using assms(2) by (metis imageE prod.collapse set_map)
  with rates show "0 \<le> metric metrics name" "metric metrics name \<le> BASIS_POINTS"
    using metric_eq [OF assms(1)] by (metis subsetD)+
qed

subsection \<open>Means\<close>

lemma signed_ceil_div_Inr:
  assumes "signed_ceil_div n d = Inr q"
  shows "0 < d" "n \<le> q * d" "q * d < n + d"
proof -
  have d: "0 < d" and q: "q = - ((- n) div d)" using assms by (auto simp: signed_ceil_div_def split: if_splits)
  have "(- n) div d * d \<le> - n" using le_div_iff [OF d, of "(- n) div d" "- n"] by simp
  moreover have "- n < ((- n) div d + 1) * d" using div_less_iff [OF d, of "- n" "(- n) div d + 1"] by simp
  ultimately show "0 < d" "n \<le> q * d" "q * d < n + d" using d q by (simp_all add: algebra_simps)
qed

text \<open>
  What the constructor of a record leaves behind: a record with an outcome has a surplus, and its
  prediction error is the surplus less the prediction.
\<close>

definition reconciled :: "execution_record \<Rightarrow> bool" where
  "reconciled item \<longleftrightarrow> (if hr_economics_scoreable item
     then hr_prediction_error item \<noteq> None
       \<and> hr_historical_conservative_surplus item
         = Some (hr_predicted_conservative_net_profit item + or_zero (hr_prediction_error item))
     else hr_historical_conservative_surplus item = None \<and> hr_prediction_error item = None)"

lemma scoreable_economics_error:
  assumes "scoreable_economics self outcome predicted_external block_time_ms = Inr (actual, surplus, err, bounds, floor)"
  shows "surplus = pa_conservative_net_profit (ne_decision (up_net_profit_evidence (xp_unsigned_package (hr_package self)))) + err"
  using assms by (auto simp: scoreable_economics_def Let_def dest!: aggregate_add_Inr)

lemma constructed_record_reconciled:
  assumes "HistoricalExecutionRecord_post_init x = Inr r"
  shows "reconciled r"
proof (cases "hr_outcome x")
  case None
  with assms show ?thesis
    by (auto simp: HistoricalExecutionRecord_post_init_def Let_def guard_Inr jchecked_Inr reconciled_def
        hr_economics_scoreable_def split del: if_split)
next
  case (Some outcome)
  with assms show ?thesis
    by (auto simp: HistoricalExecutionRecord_post_init_def Let_def guard_Inr jchecked_Inr reconciled_def
        hr_economics_scoreable_def or_zero_def dest!: scoreable_economics_error split del: if_split)
qed

lemma constructed_records_reconciled:
  "rmap HistoricalExecutionRecord_post_init xs = Inr records \<Longrightarrow> list_all reconciled records"
  by (auto simp: rmap_eq_Inr list_all2_conv_all_nth list_all_length dest: constructed_record_reconciled)

lemma sum_list_reconciled:
  assumes "list_all reconciled items" "list_all hr_economics_scoreable items"
  shows "sum_list (map (\<lambda>item. or_zero (hr_historical_conservative_surplus item)) items)
      = sum_list (map hr_predicted_conservative_net_profit items) + sum_list (map (\<lambda>item. or_zero (hr_prediction_error item)) items)"
    "sum_list (map (\<lambda>item. or_zero (hr_prediction_error item)) items)
      \<le> sum_list (map (\<lambda>item. or_zero (hr_absolute_prediction_error item)) items)"
    "0 \<le> sum_list (map (\<lambda>item. or_zero (hr_absolute_prediction_error item)) items)"
proof -
  have "or_zero (hr_prediction_error item) \<le> or_zero (hr_absolute_prediction_error item)"
    "0 \<le> or_zero (hr_absolute_prediction_error item)" for item
    by (auto simp: or_zero_def hr_absolute_prediction_error_def intro: abs_ge_self split: option.split)
  then show "sum_list (map (\<lambda>item. or_zero (hr_prediction_error item)) items)
      \<le> sum_list (map (\<lambda>item. or_zero (hr_absolute_prediction_error item)) items)"
    "0 \<le> sum_list (map (\<lambda>item. or_zero (hr_absolute_prediction_error item)) items)"
    by (induction items) (simp_all add: add_mono)
  show "sum_list (map (\<lambda>item. or_zero (hr_historical_conservative_surplus item)) items)
      = sum_list (map hr_predicted_conservative_net_profit items) + sum_list (map (\<lambda>item. or_zero (hr_prediction_error item)) items)"
    using assms by (induction items) (simp_all add: reconciled_def or_zero_def)
qed

lemma metrics_economics:
  assumes m: "scoreboard_metrics records = Inr metrics"
  defines "scoreable \<equiv> filter hr_economics_scoreable records"
  shows "metric metrics ''predicted_conservative_net_profit_sum'' = sum_list (map hr_predicted_conservative_net_profit scoreable)"
    "metric metrics ''historical_conservative_surplus_sum''
      = sum_list (map (\<lambda>item. or_zero (hr_historical_conservative_surplus item)) scoreable)"
    "metric metrics ''absolute_prediction_error_sum''
      = sum_list (map (\<lambda>item. or_zero (hr_absolute_prediction_error item)) scoreable)"
    "metric metrics ''mean_historical_conservative_surplus_floor''
      = scoreable_mean (metric metrics ''historical_conservative_surplus_sum'') scoreable"
    "scoreable_mean_ceiling (metric metrics ''absolute_prediction_error_sum'') scoreable
      = Inr (metric metrics ''mean_absolute_prediction_error_ceiling'')"
    "metric metrics ''guarded_mean_historical_surplus_floor''
      = metric metrics ''mean_historical_conservative_surplus_floor'' - metric metrics ''mean_absolute_prediction_error_ceiling''"
proof -
  obtain economics where e: "scoreboard_economics records scoreable = Inr economics" "set economics \<subseteq> set metrics"
    using m unfolding scoreable_def by (elim scoreboard_metrics_Inr) auto
  obtain p h ab c ma g where
    "p = sum_list (map hr_predicted_conservative_net_profit scoreable)"
    "h = sum_list (map (\<lambda>item. or_zero (hr_historical_conservative_surplus item)) scoreable)"
    "ab = sum_list (map (\<lambda>item. or_zero (hr_absolute_prediction_error item)) scoreable)"
    "scoreable_mean_ceiling ab scoreable = Inr ma" "g = scoreable_mean h scoreable - ma"
    "{(''predicted_conservative_net_profit_sum'', p), (''historical_conservative_surplus_sum'', h),
      (''absolute_prediction_error_sum'', ab), (''mean_historical_conservative_surplus_floor'', scoreable_mean h scoreable),
      (''mean_absolute_prediction_error_ceiling'', ma), (''guarded_mean_historical_surplus_floor'', g)} \<subseteq> set economics"
    using e(1) by (auto simp: scoreboard_economics_def Let_def dest!: aggregate_sum_Inr aggregate_add_Inr)
  moreover from this e(2) have "metric metrics ''predicted_conservative_net_profit_sum'' = p"
    "metric metrics ''historical_conservative_surplus_sum'' = h"
    "metric metrics ''absolute_prediction_error_sum'' = ab"
    "metric metrics ''mean_historical_conservative_surplus_floor'' = scoreable_mean h scoreable"
    "metric metrics ''mean_absolute_prediction_error_ceiling'' = ma"
    "metric metrics ''guarded_mean_historical_surplus_floor'' = g"
    by (intro metric_eq [OF m], auto)+
  ultimately show "metric metrics ''predicted_conservative_net_profit_sum'' = sum_list (map hr_predicted_conservative_net_profit scoreable)"
    "metric metrics ''historical_conservative_surplus_sum''
      = sum_list (map (\<lambda>item. or_zero (hr_historical_conservative_surplus item)) scoreable)"
    "metric metrics ''absolute_prediction_error_sum''
      = sum_list (map (\<lambda>item. or_zero (hr_absolute_prediction_error item)) scoreable)"
    "metric metrics ''mean_historical_conservative_surplus_floor''
      = scoreable_mean (metric metrics ''historical_conservative_surplus_sum'') scoreable"
    "scoreable_mean_ceiling (metric metrics ''absolute_prediction_error_sum'') scoreable
      = Inr (metric metrics ''mean_absolute_prediction_error_ceiling'')"
    "metric metrics ''guarded_mean_historical_surplus_floor''
      = metric metrics ''mean_historical_conservative_surplus_floor'' - metric metrics ''mean_absolute_prediction_error_ceiling''"
    by simp_all
qed

text \<open>
  The guarded mean is conservative twice over: per scoreable record it exceeds neither what was
  realised nor what had been predicted.
\<close>

lemma guarded_mean_bounds:
  assumes m: "scoreboard_metrics records = Inr metrics" and records: "list_all reconciled records"
  shows "metric metrics ''guarded_mean_historical_surplus_floor'' * metric metrics ''scoreable_count''
      \<le> metric metrics ''historical_conservative_surplus_sum''"
    "metric metrics ''guarded_mean_historical_surplus_floor'' * metric metrics ''scoreable_count''
      \<le> metric metrics ''predicted_conservative_net_profit_sum''"
proof -
  define scoreable where "scoreable = filter hr_economics_scoreable records"
  define n where "n = int (length scoreable)"
  define hist where "hist = metric metrics ''historical_conservative_surplus_sum''"
  define pred where "pred = metric metrics ''predicted_conservative_net_profit_sum''"
  define abso where "abso = metric metrics ''absolute_prediction_error_sum''"
  define mean where "mean = metric metrics ''mean_historical_conservative_surplus_floor''"
  define ma where "ma = metric metrics ''mean_absolute_prediction_error_ceiling''"
  note facts = metrics_economics [OF m, folded scoreable_def, folded hist_def pred_def abso_def, folded mean_def ma_def]
  have count: "metric metrics ''scoreable_count'' = n" by (simp add: metrics_counts [OF m] n_def scoreable_def)
  have "list_all reconciled scoreable" "list_all hr_economics_scoreable scoreable"
    using records by (auto simp: scoreable_def list_all_iff)
  from sum_list_reconciled [OF this] have sums: "hist - abso \<le> pred" "0 \<le> abso"
    using facts(1-3) by linarith+
  have means: "mean * n \<le> hist" "abso \<le> ma * n"
  proof (atomize (full), cases "scoreable = []")
    case True
    then show "mean * n \<le> hist \<and> abso \<le> ma * n" using facts(2,3) by (simp add: n_def)
  next
    case False
    then have n: "0 < n" by (simp add: n_def)
    have "mean = hist div n" using facts(4) False by (simp add: scoreable_mean_def n_def)
    then have "mean * n \<le> hist" using le_div_iff [OF n, of mean hist] by simp
    moreover have "signed_ceil_div abso n = Inr ma" using facts(5) False by (simp add: scoreable_mean_ceiling_def n_def)
    ultimately show "mean * n \<le> hist \<and> abso \<le> ma * n" using signed_ceil_div_Inr(2) by simp
  qed
  have "(mean - ma) * n = mean * n - ma * n" by (simp add: left_diff_distrib)
  with sums means have "(mean - ma) * n \<le> hist" "(mean - ma) * n \<le> pred" by linarith+
  then show "metric metrics ''guarded_mean_historical_surplus_floor'' * metric metrics ''scoreable_count''
      \<le> metric metrics ''historical_conservative_surplus_sum''"
    "metric metrics ''guarded_mean_historical_surplus_floor'' * metric metrics ''scoreable_count''
      \<le> metric metrics ''predicted_conservative_net_profit_sum''"
    by (simp_all only: facts(6) count flip: hist_def pred_def)
qed

subsection \<open>Calibration\<close>

text \<open>A bucket takes the records whose predicted return lies from its lower bound up to its upper one.\<close>

definition predicted_return :: "execution_record \<Rightarrow> int" where
  "predicted_return item = hr_predicted_conservative_net_profit item * BASIS_POINTS div hr_capital_at_risk item"

definition in_bucket :: "calibration_bucket \<Rightarrow> execution_record \<Rightarrow> bool" where
  "in_bucket bucket item \<longleftrightarrow> kb_lower_bound_bps bucket \<le> predicted_return item
     \<and> (case kb_upper_bound_bps bucket of None \<Rightarrow> True | Some upper \<Rightarrow> predicted_return item < upper)"

lemma bucket_index_le: "bucket_index bounds r \<le> length bounds"
  by (induction bounds) auto

lemma bucket_index_upper: "bucket_index bounds r < length bounds \<Longrightarrow> r < bounds ! bucket_index bounds r"
  by (induction bounds) auto

lemma bucket_index_lower: "j < bucket_index bounds r \<Longrightarrow> bounds ! j \<le> r"
proof (induction bounds arbitrary: j)
  case (Cons b bounds)
  then show ?case by (cases j) (auto split: if_splits)
qed simp

text \<open>Assigning the records: every record is in the list its return indexes, and nowhere else.\<close>

definition bucket_lists :: "int list \<Rightarrow> execution_record list \<Rightarrow> execution_record list list" where
  "bucket_lists bounds items =
    map (\<lambda>i. filter (\<lambda>item. bucket_index bounds (predicted_return item) = i) items) [0 ..< length bounds + 1]"

lemma assign_bucket_Inr:
  assumes "assign_bucket bounds (bucket_lists bounds items) item = Inr parts"
  shows "parts = bucket_lists bounds (items @ [item])" "0 \<le> predicted_return item"
proof -
  have r: "signed_ratio_bps_floor (hr_predicted_conservative_net_profit item) (hr_capital_at_risk item) = Inr (predicted_return item)"
    and pos: "0 \<le> predicted_return item"
    and parts: "parts = (bucket_lists bounds items)[bucket_index bounds (predicted_return item)
      := bucket_lists bounds items ! bucket_index bounds (predicted_return item) @ [item]]"
    using assms by (auto simp: assign_bucket_def signed_ratio_bps_floor_def predicted_return_def Let_def split: if_splits)
  show "0 \<le> predicted_return item" by (rule pos)
  show "parts = bucket_lists bounds (items @ [item])"
  proof (rule nth_equalityI)
    show "length parts = length (bucket_lists bounds (items @ [item]))" by (simp add: parts bucket_lists_def)
    fix i assume "i < length parts"
    then have "i < length bounds + 1" by (simp add: parts bucket_lists_def)
    then show "parts ! i = bucket_lists bounds (items @ [item]) ! i"
      using bucket_index_le [of bounds "predicted_return item"]
      by (auto simp: parts bucket_lists_def nth_list_update nth_map less_Suc_eq_le simp del: upt_Suc)
  qed
qed

lemma assign_buckets:
  assumes "rfold (assign_bucket bounds) (replicate (length bounds + 1) []) items = Inr parts"
  shows "parts = bucket_lists bounds items" "list_all (\<lambda>item. 0 \<le> predicted_return item) items"
proof -
  have assigned: "parts = bucket_lists bounds (before @ items) \<and> list_all (\<lambda>item. 0 \<le> predicted_return item) items"
    if "rfold (assign_bucket bounds) (bucket_lists bounds before) items = Inr parts" for before
    using that
  proof (induction items arbitrary: before)
    case (Cons item items)
    then obtain mid where step: "assign_bucket bounds (bucket_lists bounds before) item = Inr mid"
      and rest: "rfold (assign_bucket bounds) mid items = Inr parts" by auto
    have "mid = bucket_lists bounds (before @ [item])" using assign_bucket_Inr(1) [OF step] .
    with rest Cons.IH [of "before @ [item]"] assign_bucket_Inr(2) [OF step] show ?case by simp
  qed simp
  have "bucket_lists bounds [] = replicate (length bounds + 1) []"
    by (simp add: bucket_lists_def map_replicate_const del: upt_Suc replicate_Suc)
  with assms assigned [of "[]"] show "parts = bucket_lists bounds items" "list_all (\<lambda>item. 0 \<le> predicted_return item) items"
    by simp_all
qed

lemma build_bucket_Inr:
  assumes "build_bucket lower upper items = Inr bucket"
  shows "kb_lower_bound_bps bucket = lower" "kb_upper_bound_bps bucket = upper"
    "kb_attempt_count bucket = int (length items)"
    "kb_scoreable_count bucket = count_of hr_economics_scoreable items"
    "kb_predicted_sum bucket = sum_list (map hr_predicted_conservative_net_profit (filter hr_economics_scoreable items))"
  using assms by (auto simp: build_bucket_def CalibrationBucket_post_init_def jchecked_Inr guard_Inr Let_def count_of_def
      dest!: aggregate_sum_Inr split del: if_split)

lemma build_buckets_nth:
  assumes "build_buckets lower bounds parts = Inr buckets" "length parts = length bounds + 1"
  shows "length buckets = length parts \<and> (\<forall>i \<le> length bounds.
    build_bucket ((lower # bounds) ! i) (if i < length bounds then Some (bounds ! i) else None) (parts ! i)
      = Inr (buckets ! i))"
  using assms
proof (induction bounds arbitrary: lower parts buckets)
  case Nil
  then obtain items where "parts = [items]" by (cases parts) auto
  with Nil show ?case by (auto simp: Let_def)
next
  case (Cons b bounds)
  then obtain items rest where parts: "parts = items # rest" "length rest = length bounds + 1" by (cases parts) auto
  with Cons.prems(1) obtain bucket more where bucket: "build_bucket lower (Some b) items = Inr bucket"
    and more: "build_buckets b bounds rest = Inr more" "buckets = bucket # more" by (auto simp: Let_def)
  have "length more = length rest \<and> (\<forall>i \<le> length bounds.
    build_bucket ((b # bounds) ! i) (if i < length bounds then Some (bounds ! i) else None) (rest ! i) = Inr (more ! i))"
    by (rule Cons.IH [OF more(1) parts(2)])
  then have step: "build_bucket ((b # bounds) ! i) (if i < length bounds then Some (bounds ! i) else None) (rest ! i)
      = Inr (more ! i)" if "i \<le> length bounds" for i using that by blast
  show ?case
  proof (intro conjI allI impI)
    show "length buckets = length parts" using \<open>length more = length rest \<and> _\<close> more(2) parts by simp
    fix i assume "i \<le> length (b # bounds)"
    then show "build_bucket ((lower # b # bounds) ! i) (if i < length (b # bounds) then Some ((b # bounds) ! i) else None)
        (parts ! i) = Inr (buckets ! i)"
      using bucket more(2) parts step [of "i - 1"] by (cases i) auto
  qed
qed

lemma bucket_lists_length: "length (bucket_lists bounds items) = length bounds + 1"
  by (simp add: bucket_lists_def)

lemma bucket_lists_nth:
  "i \<le> length bounds \<Longrightarrow> bucket_lists bounds items ! i = filter (\<lambda>item. bucket_index bounds (predicted_return item) = i) items"
  by (simp add: bucket_lists_def nth_append less_Suc_eq_le del: upt_Suc)

lemma bucket_lists_sum: "sum_list (map length (bucket_lists bounds items)) = length items"
proof (induction items)
  case Nil
  show ?case by (simp add: bucket_lists_def o_def del: upt_Suc)
next
  case (Cons item items)
  let ?i = "bucket_index bounds (predicted_return item)"
  have "map length (bucket_lists bounds (item # items))
    = (map length (bucket_lists bounds items))[?i := Suc (length (bucket_lists bounds items ! ?i))]"
    by (rule nth_equalityI) (auto simp: bucket_lists_length bucket_lists_nth nth_list_update)
  then show ?case using Cons bucket_index_le [of bounds "predicted_return item"]
    by (simp add: sum_list_update bucket_lists_length)
qed

lemma in_assigned_bucket:
  assumes build: "build_buckets 0 bounds (bucket_lists bounds items) = Inr buckets"
    and i: "i \<le> length bounds" "item \<in> set (bucket_lists bounds items ! i)" "0 \<le> predicted_return item"
  shows "in_bucket (buckets ! i) item"
proof -
  have index: "bucket_index bounds (predicted_return item) = i" using i by (auto simp: bucket_lists_nth)
  have b: "build_bucket ((0 # bounds) ! i) (if i < length bounds then Some (bounds ! i) else None)
      (bucket_lists bounds items ! i) = Inr (buckets ! i)"
    using build_buckets_nth [OF build bucket_lists_length] i(1) by blast
  have "(0 # bounds) ! i \<le> predicted_return item"
  proof (cases i)
    case (Suc j)
    then show ?thesis using bucket_index_lower [of j bounds "predicted_return item"] index by simp
  qed (use i in simp)
  with index bucket_index_upper [of bounds "predicted_return item"] i show ?thesis
    by (auto simp: in_bucket_def build_bucket_Inr [OF b])
qed

lemma calibration_attempts:
  assumes "build_buckets lower bounds (bucket_lists bounds items) = Inr buckets"
  shows "sum_list (map kb_attempt_count buckets) = int (length items)"
proof -
  note b = build_buckets_nth [OF assms bucket_lists_length]
  have "map kb_attempt_count buckets = map (\<lambda>p. int (length p)) (bucket_lists bounds items)"
  proof (rule nth_equalityI)
    show "length (map kb_attempt_count buckets) = length (map (\<lambda>p. int (length p)) (bucket_lists bounds items))" using b by simp
    fix i assume "i < length (map kb_attempt_count buckets)"
    then have i: "i \<le> length bounds" "i < length (bucket_lists bounds items)" "i < length buckets"
      using b by (simp_all add: bucket_lists_length)
    with b have "build_bucket ((lower # bounds) ! i) (if i < length bounds then Some (bounds ! i) else None)
      (bucket_lists bounds items ! i) = Inr (buckets ! i)" by blast
    from build_bucket_Inr(3) [OF this] i show "map kb_attempt_count buckets ! i
      = map (\<lambda>p. int (length p)) (bucket_lists bounds items) ! i" by simp
  qed
  also have "sum_list (map (\<lambda>p. int (length p)) xss) = int (sum_list (map length xss))" for xss :: "execution_record list list"
    by (induction xss) simp_all
  finally show ?thesis by (simp add: bucket_lists_sum)
qed

text \<open>Under an accepted policy the bounds increase, so the ranges of the buckets are disjoint.\<close>

lemma policy_bounds_increase:
  assumes "CalibrationPolicy_post_init x = Inr p"
  shows "sorted_wrt (<) (kp_predicted_return_upper_bounds_bps p)"
proof -
  have "sort (remdups (kp_predicted_return_upper_bounds_bps p)) = kp_predicted_return_upper_bounds_bps p"
    using assms by (auto simp: CalibrationPolicy_post_init_def Let_def guard_Inr jchecked_Inr split del: if_split)
  then have "sorted (kp_predicted_return_upper_bounds_bps p)" "distinct (kp_predicted_return_upper_bounds_bps p)"
    by (metis sorted_sort, metis distinct_remdups distinct_sort)
  then show ?thesis by (simp add: strict_sorted_iff)
qed

lemma bucket_index_unique:
  assumes "sorted_wrt (<) bounds" "i \<le> length bounds" "(lower # bounds) ! i \<le> r" "i < length bounds \<Longrightarrow> r < bounds ! i"
  shows "bucket_index bounds r = i"
  using assms
proof (induction bounds arbitrary: i lower)
  case (Cons b bounds)
  show ?case
  proof (cases i)
    case (Suc j)
    have "b \<le> (b # bounds) ! j" using Cons.prems(1,2) Suc by (cases j) (auto intro: less_imp_le)
    with Cons.prems Suc Cons.IH [of j b] show ?thesis by auto
  qed (use Cons.prems in auto)
qed simp

lemma bucket_counts:
  assumes build: "build_buckets 0 bounds (bucket_lists bounds items) = Inr buckets"
    and bounds: "sorted_wrt (<) bounds" and items: "list_all (\<lambda>item. 0 \<le> predicted_return item) items"
  shows "map kb_attempt_count buckets = map (\<lambda>bucket. count_of (in_bucket bucket) items) buckets"
proof (rule nth_equalityI)
  note b = build_buckets_nth [OF build bucket_lists_length]
  fix i assume "i < length (map kb_attempt_count buckets)"
  then have i: "i \<le> length bounds" "i < length buckets" using b by (simp_all add: bucket_lists_length)
  with b have bucket: "build_bucket ((0 # bounds) ! i) (if i < length bounds then Some (bounds ! i) else None)
      (bucket_lists bounds items ! i) = Inr (buckets ! i)" by blast
  have "in_bucket (buckets ! i) item \<longleftrightarrow> bucket_index bounds (predicted_return item) = i" if "item \<in> set items" for item
  proof
    assume "in_bucket (buckets ! i) item"
    then show "bucket_index bounds (predicted_return item) = i"
      by (intro bucket_index_unique [OF bounds i(1), of 0]) (auto simp: in_bucket_def build_bucket_Inr [OF bucket])
  next
    assume "bucket_index bounds (predicted_return item) = i"
    with that i items show "in_bucket (buckets ! i) item"
      by (intro in_assigned_bucket [OF build i(1)]) (auto simp: bucket_lists_nth list_all_iff)
  qed
  then have "filter (in_bucket (buckets ! i)) items = bucket_lists bounds items ! i"
    using i by (auto simp: bucket_lists_nth intro: filter_cong)
  with i show "map kb_attempt_count buckets ! i = map (\<lambda>bucket. count_of (in_bucket bucket) items) buckets ! i"
    by (simp add: build_bucket_Inr [OF bucket] count_of_def)
qed simp

lemma calibration_report_Inr:
  assumes "CalibrationPolicy_post_init x = Inr (kr_policy self)"
    and "HistoricalCalibrationReport_post_init self = Inr report"
  shows "kr_scoreboard report = kr_scoreboard self"
    "length (kr_buckets report) = length (kp_predicted_return_upper_bounds_bps (kr_policy self)) + 1"
    "map kb_attempt_count (kr_buckets report)
      = map (\<lambda>bucket. count_of (in_bucket bucket) (hs_records (kr_scoreboard self))) (kr_buckets report)"
    "sum_list (map kb_attempt_count (kr_buckets report)) = int (length (hs_records (kr_scoreboard self)))"
proof -
  let ?bounds = "kp_predicted_return_upper_bounds_bps (kr_policy self)" and ?items = "hs_records (kr_scoreboard self)"
  obtain parts where parts: "rfold (assign_bucket ?bounds) (replicate (length ?bounds + 1) []) ?items = Inr parts"
    and build: "build_buckets 0 ?bounds parts = Inr (kr_buckets report)"
    and same: "kr_scoreboard report = kr_scoreboard self"
    using assms(2) unfolding HistoricalCalibrationReport_post_init_def Let_def rbind_eq_Inr guard_Inr jchecked_Inr
    by auto
  note assigned = assign_buckets [OF parts]
  note build = build [unfolded assigned(1)]
  show "kr_scoreboard report = kr_scoreboard self" by (rule same)
  show "length (kr_buckets report) = length ?bounds + 1"
    using build_buckets_nth [OF build bucket_lists_length] by (simp add: bucket_lists_length)
  show "map kb_attempt_count (kr_buckets report)
      = map (\<lambda>bucket. count_of (in_bucket bucket) ?items) (kr_buckets report)"
    by (rule bucket_counts [OF build policy_bounds_increase [OF assms(1)] assigned(2)])
  show "sum_list (map kb_attempt_count (kr_buckets report)) = int (length ?items)"
    by (rule calibration_attempts [OF build])
qed

subsection \<open>Promotion\<close>

lemma failed_gates_simps:
  "failed_gates [] = Inr []"
  "failed_gates ((failed, reason) # gates) =
    rbind failed (\<lambda>f. rbind (failed_gates gates) (\<lambda>rs. Inr (if f then reason # rs else rs)))"
  by (simp add: failed_gates_def)
    (cases failed; cases "rmap (\<lambda>(failed, reason). rbind failed (\<lambda>f. Inr (f, reason))) gates"; simp add: failed_gates_def)

lemma failed_gates_Nil: "failed_gates gates = Inr [] \<longleftrightarrow> list_all (\<lambda>(failed, _). failed = Inr False) gates"
proof (induction gates)
  case (Cons gate gates)
  then show ?case by (cases gate) (auto simp: failed_gates_simps)
qed (simp add: failed_gates_simps)

text \<open>What the thresholds demand of the scoreboard and the calibration.\<close>

definition at_least :: "scoreboard \<Rightarrow> string \<Rightarrow> int \<Rightarrow> bool" where
  "at_least sb name bound \<longleftrightarrow> (case score_metric name sb of Inl _ \<Rightarrow> False | Inr v \<Rightarrow> bound \<le> v)"

definition at_most :: "scoreboard \<Rightarrow> string \<Rightarrow> int \<Rightarrow> bool" where
  "at_most sb name bound \<longleftrightarrow> (case score_metric name sb of Inl _ \<Rightarrow> False | Inr v \<Rightarrow> v \<le> bound)"

definition thresholds_met :: "promotion_decision \<Rightarrow> bool" where
  "thresholds_met self \<longleftrightarrow>
    (let sb = rd_scoreboard self; policy = rd_policy self in
     at_least (hv_scoreboard (rd_expected_value self)) ''scoreable_count'' 1
     \<and> at_least sb ''attempt_count'' (rp_minimum_attempts policy)
     \<and> at_least sb ''scoreable_count'' (rp_minimum_scoreable_records policy)
     \<and> at_least sb ''scoreable_rate_bps'' (rp_minimum_scoreable_rate_bps policy)
     \<and> at_least sb ''execution_success_rate_bps'' (rp_minimum_execution_success_rate_bps policy)
     \<and> at_least sb ''floor_preservation_rate_bps'' (rp_minimum_floor_preservation_rate_bps policy)
     \<and> at_least sb ''cost_upper_bound_respect_rate_bps'' (rp_minimum_cost_upper_bound_respect_rate_bps policy)
     \<and> at_least sb ''positive_historical_surplus_rate_bps'' (rp_minimum_positive_surplus_rate_bps policy)
     \<and> at_least sb ''unique_scoreable_inclusion_block_count'' (rp_minimum_unique_scoreable_inclusion_blocks policy)
     \<and> at_most sb ''native_cost_overrun_rate_bps'' (rp_maximum_native_cost_overrun_rate_bps policy)
     \<and> at_most sb ''mean_absolute_prediction_error_bps_of_capital_ceiling'' (rp_maximum_mean_absolute_error_bps_of_capital policy)
     \<and> at_least sb ''guarded_mean_historical_surplus_floor'' (rp_minimum_guarded_mean_surplus policy)
     \<and> list_all (\<lambda>bucket. kb_attempt_count bucket \<le> 0
           \<or> rp_minimum_scoreable_records_per_nonempty_bucket policy \<le> kb_scoreable_count bucket)
         (kr_buckets (rd_calibration self)))"

lemma gate_at_least: "rbind (score_metric name sb) (\<lambda>v. Inr (v < bound)) = Inr False \<longleftrightarrow> at_least sb name bound"
  by (simp add: at_least_def not_less split: sum.split)

lemma gate_at_most: "rbind (score_metric name sb) (\<lambda>v. Inr (bound < v)) = Inr False \<longleftrightarrow> at_most sb name bound"
  by (simp add: at_most_def not_less split: sum.split)

lemma gate_available:
  "rbind (hv_available ev) (\<lambda>available. Inr (\<not> available)) = Inr False \<longleftrightarrow> at_least (hv_scoreboard ev) ''scoreable_count'' 1"
  by (auto simp: at_least_def hv_available_def split: sum.split)

lemma promotion_gates:
  "failed_gates (sample_gates self) = Inr [] \<and> failed_gates (economic_gates self) = Inr [] \<longleftrightarrow> thresholds_met self"
  unfolding failed_gates_Nil sample_gates_def economic_gates_def Let_def list.pred_inject prod.case
    gate_at_least gate_at_most gate_available thresholds_met_def
  by (auto simp: list_ex_iff list_all_iff not_less)

lemma promotion_decision_Inr:
  assumes "ResearchPromotionDecision_post_init d = Inr r"
  shows "rd_allowed r \<longleftrightarrow> thresholds_met d" "rd_allowed r \<longleftrightarrow> rd_reasons r = []"
    "hs_digest (kr_scoreboard (rd_calibration d)) = hs_digest (rd_scoreboard d)"
    "hs_digest (hv_scoreboard (rd_expected_value d)) = hs_digest (rd_scoreboard d)"
    "hs_created_at_unix_ms (rd_scoreboard d) \<le> rd_created_at_unix_ms d"
proof -
  obtain s e i where "failed_gates (sample_gates d) = Inr s" "failed_gates (economic_gates d) = Inr e"
      "r = d\<lparr>rd_allowed := s @ e = [], rd_reasons := s @ e, rd_decision_id := i\<rparr>"
    and more: "hs_digest (kr_scoreboard (rd_calibration d)) = hs_digest (rd_scoreboard d)"
    "hs_digest (hv_scoreboard (rd_expected_value d)) = hs_digest (rd_scoreboard d)"
    "hs_created_at_unix_ms (rd_scoreboard d) \<le> rd_created_at_unix_ms d"
    using assms unfolding ResearchPromotionDecision_post_init_def Let_def rbind_eq_Inr guard_Inr jchecked_Inr
    by auto
  then show "rd_allowed r \<longleftrightarrow> thresholds_met d" "rd_allowed r \<longleftrightarrow> rd_reasons r = []"
    using promotion_gates [of d] by auto
  show "hs_digest (kr_scoreboard (rd_calibration d)) = hs_digest (rd_scoreboard d)"
    "hs_digest (hv_scoreboard (rd_expected_value d)) = hs_digest (rd_scoreboard d)"
    "hs_created_at_unix_ms (rd_scoreboard d) \<le> rd_created_at_unix_ms d" using more by simp_all
qed

end
