(* ===== verification/Calldata_Correct.thy ===== *)
theory Calldata_Correct
  imports Execution_Correct
begin

text \<open>
  The executor's calldata: a route payload passes the validator exactly when it is the frame of two
  to four commands that form a closed cycle of the governed amounts, and the governed call is the
  ABI encoding of its arguments.
\<close>

subsection \<open>Frames\<close>

text \<open>A command's fields as the payload carries them: the parsed tuple and the digest of its quote.\<close>

type_synonym framed_command = "parsed_command \<times> bytes"

fun command_frame :: "nat \<Rightarrow> framed_command \<Rightarrow> bytes" where
  "command_frame index ((pool, token_in, token_out, amount_in, expected, minimum), quote_digest) =
    of_nat index # pool @ token_in @ token_out @ to_bytes_be 32 amount_in @ to_bytes_be 32 expected
      @ to_bytes_be 32 minimum @ quote_digest"

fun command_shape :: "framed_command \<Rightarrow> bool" where
  "command_shape ((pool, token_in, token_out, amount_in, expected, minimum), quote_digest) \<longleftrightarrow>
    length pool = 20 \<and> length token_in = 20 \<and> length token_out = 20 \<and> length quote_digest = 32
    \<and> 0 \<le> amount_in \<and> amount_in < 2 ^ 256 \<and> 0 \<le> expected \<and> expected < 2 ^ 256
    \<and> 0 \<le> minimum \<and> minimum < 2 ^ 256"

fun command_ok :: "framed_command \<Rightarrow> bool" where
  "command_ok ((pool, token_in, token_out, amount_in, expected, minimum), quote_digest) \<longleftrightarrow>
    is_address pool \<and> is_address token_in \<and> is_address token_out \<and> token_in \<noteq> token_out
    \<and> 0 < amount_in \<and> amount_in \<le> MAX_UINT256 \<and> 0 < expected \<and> expected \<le> MAX_UINT256
    \<and> 0 \<le> minimum \<and> minimum \<le> expected \<and> length quote_digest = 32 \<and> quote_digest \<noteq> zero_bytes 32"

definition payload_frame :: "framed_command list \<Rightarrow> bytes" where
  "payload_frame commands = ROUTE_PAYLOAD_HEADER @ [1, of_nat (length commands)]
     @ concat (map (\<lambda>(index, c). command_frame index c) (enumerate 0 commands))"

lemma command_ok_shape: "command_ok c \<Longrightarrow> command_shape c"
  by (cases c) (auto simp: is_address_def MAX_UINT256_def)

lemma length_command_frame: "command_shape c \<Longrightarrow> length (command_frame index c) = 189"
  by (cases c) auto

lemma slice_frame:
  assumes "command_shape ((pool, token_in, token_out, amount_in, expected, minimum), quote_digest)"
    and "command = command_frame index ((pool, token_in, token_out, amount_in, expected, minimum), quote_digest)"
  shows "slice 1 21 command = pool" "slice 21 41 command = token_in" "slice 41 61 command = token_out"
    "from_bytes_be (slice 61 93 command) = amount_in" "from_bytes_be (slice 93 125 command) = expected"
    "from_bytes_be (slice 125 157 command) = minimum" "slice 157 189 command = quote_digest"
    "command ! 0 = of_nat index"
  using assms by (simp_all add: slice_def from_to_bytes_be)

text \<open>Any 189 bytes with that first byte are the frame of some fields.\<close>

lemma frame_of_bytes:
  assumes "length b = 189" "b ! 0 = of_nat index"
  shows "\<exists>c. command_shape c \<and> b = command_frame index c"
proof -
  define part where "part = (\<lambda>i j. take (j - i) (drop i b))"
  have cut: "drop i b = part i j @ drop j b" if "i \<le> j" for i j
    using append_take_drop_id [of "j - i" "drop i b"] that by (simp add: part_def)
  have parts: "b = b ! 0 # part 1 21 @ part 21 41 @ part 41 61 @ part 61 93 @ part 93 125 @ part 125 157 @ part 157 189"
    using Cons_nth_drop_Suc [of 0 b] assms(1) cut [of 1 21] cut [of 21 41] cut [of 41 61] cut [of 61 93]
      cut [of 93 125] cut [of 125 157] cut [of 157 189] by simp
  have len: "length (part i j) = j - i" if "i \<le> j" "j \<le> 189" for i j using that assms(1) by (simp add: part_def)
  have words: "to_bytes_be 32 (from_bytes_be w) = w" "0 \<le> from_bytes_be w" "from_bytes_be w < 2 ^ 256"
    if "length w = 32" for w
    using that to_from_bytes_be [of w] from_bytes_be_bounds [of w] by simp_all
  show ?thesis
    by (rule exI [of _ "((part 1 21, part 21 41, part 41 61, from_bytes_be (part 61 93), from_bytes_be (part 93 125),
      from_bytes_be (part 125 157)), part 157 189)"])
      (use parts assms(2) words(3) [of "part 61 93"] words(3) [of "part 93 125"] words(3) [of "part 125 157"] in
        \<open>simp add: len words\<close>)
qed

text \<open>Parsing one command: the checks of the loop body hold exactly of the frame of a well-formed command.\<close>

fun command_pool :: "framed_command \<Rightarrow> bytes" where
  "command_pool ((pool, _), _) = pool"

lemma parse_route_command_Inr:
  assumes block: "slice (length ROUTE_PAYLOAD_HEADER + 2 + index * ROUTE_COMMAND_BINARY_BYTES)
      (length ROUTE_PAYLOAD_HEADER + 2 + index * ROUTE_COMMAND_BINARY_BYTES + ROUTE_COMMAND_BINARY_BYTES) payload = block"
    "length block = 189" "index < 256"
  shows "parse_route_command payload (used, parsed) index = Inr st \<longleftrightarrow>
    (\<exists>c. command_ok c \<and> block = command_frame index c \<and> command_pool c \<notin> used
       \<and> st = (insert (command_pool c) used, parsed @ [fst c]))"
proof (cases "block ! 0 = of_nat index")
  case True
  then obtain pool token_in token_out amount_in expected minimum quote_digest where
    shape: "command_shape ((pool, token_in, token_out, amount_in, expected, minimum), quote_digest)"
    and frame: "block = command_frame index ((pool, token_in, token_out, amount_in, expected, minimum), quote_digest)"
    using frame_of_bytes [OF block(2)] by (metis prod.exhaust)
  note fields = slice_frame [OF shape frame]
  have only: "c = ((pool, token_in, token_out, amount_in, expected, minimum), quote_digest)"
    if c: "command_ok c" "block = command_frame index c" for c
  proof -
    obtain pool' token_in' token_out' amount_in' expected' minimum' quote' where
      eq: "c = ((pool', token_in', token_out', amount_in', expected', minimum'), quote')" by (metis prod.exhaust)
    from slice_frame [OF command_ok_shape [OF c(1) [unfolded eq]] c(2) [unfolded eq]] fields show ?thesis by (simp add: eq)
  qed
  have index: "uint (block ! 0) = int index" using True assms(3) by (simp add: unsigned_of_nat take_bit_nat_eq_self)
  have "parse_route_command payload (used, parsed) index = Inr st \<longleftrightarrow>
    command_ok ((pool, token_in, token_out, amount_in, expected, minimum), quote_digest) \<and> pool \<notin> used
    \<and> st = (insert pool used, parsed @ [(pool, token_in, token_out, amount_in, expected, minimum)])"
    using shape unfolding parse_route_command_def Let_def prod.case block(1) index fields(1-7)
    by (auto simp: guard_Inr split del: if_split)
  also have "\<dots> \<longleftrightarrow> (\<exists>c. command_ok c \<and> block = command_frame index c \<and> command_pool c \<notin> used
       \<and> st = (insert (command_pool c) used, parsed @ [fst c]))"
    using only frame by fastforce
  finally show ?thesis .
next
  case False
  then have "uint (block ! 0) \<noteq> int index" by (metis of_int_of_nat_eq word_of_int_uint)
  with block(1) have "\<exists>e. parse_route_command payload (used, parsed) index = Inl e"
    unfolding parse_route_command_def Let_def prod.case block(1) by simp
  moreover have "block \<noteq> command_frame index c" for c using False by (cases c rule: command_shape.cases) auto
  ultimately show ?thesis by auto
qed

subsection \<open>The loop over the commands\<close>

lemma ex_step: "(\<exists>x. (\<exists>c. A c \<and> B c \<and> C c \<and> x = f c) \<and> R x) \<longleftrightarrow> (\<exists>c. A c \<and> B c \<and> C c \<and> R (f c))"
  by auto

lemma ex_Cons: "(\<exists>cs. length cs = Suc m \<and> P cs) \<longleftrightarrow> (\<exists>c cs. length (c # cs) = Suc m \<and> P (c # cs))"
  by (auto simp: length_Suc_conv)

lemma parse_route_commands:
  assumes "length payload = 10 + n * 189" "k + m \<le> n" "n < 256"
  shows "rfold (parse_route_command payload) (used, parsed) [k ..< k + m] = Inr st \<longleftrightarrow>
    (\<exists>cs. length cs = m \<and> list_all command_ok cs
      \<and> take (m * 189) (drop (10 + k * 189) payload) = concat (map (\<lambda>(index, c). command_frame index c) (enumerate k cs))
      \<and> distinct (map command_pool cs) \<and> set (map command_pool cs) \<inter> used = {}
      \<and> st = (set (map command_pool cs) \<union> used, parsed @ map fst cs))"
  using assms(2)
proof (induction m arbitrary: k used parsed)
  case 0
  then show ?case by auto
next
  case (Suc m)
  define block where "block = take 189 (drop (10 + k * 189) payload)"
  have header: "length ROUTE_PAYLOAD_HEADER + 2 + k * ROUTE_COMMAND_BINARY_BYTES = 10 + k * 189" for k
    by (simp add: ROUTE_PAYLOAD_HEADER_def ROUTE_COMMAND_BINARY_BYTES_def)
  have "k * 189 + 189 \<le> n * 189" using Suc.prems by simp
  then have block: "slice (10 + k * 189) (10 + k * 189 + ROUTE_COMMAND_BINARY_BYTES) payload = block" "length block = 189" "k < 256"
    using assms Suc.prems by (simp_all add: block_def slice_def ROUTE_COMMAND_BINARY_BYTES_def drop_take)
  note first = parse_route_command_Inr [of k payload block, unfolded header, OF block]
  have split: "take (Suc m * 189) (drop (10 + k * 189) payload) = block @ take (m * 189) (drop (10 + Suc k * 189) payload)"
    by (simp add: block_def take_add add.commute)
  have upt: "[k ..< k + Suc m] = k # [Suc k ..< Suc k + m]" by (simp add: upt_conv_Cons)
  let ?rest = "take (m * 189) (drop (10 + Suc k * 189) payload)"
  let ?frames = "\<lambda>cs. concat (map (\<lambda>(index, c). command_frame index c) (enumerate (Suc k) cs))"
  have IH: "rfold (parse_route_command payload) (used', parsed') [Suc k ..< Suc k + m] = Inr st \<longleftrightarrow>
    (\<exists>cs. length cs = m \<and> list_all command_ok cs \<and> ?rest = ?frames cs
      \<and> distinct (map command_pool cs) \<and> set (map command_pool cs) \<inter> used' = {}
      \<and> st = (set (map command_pool cs) \<union> used', parsed' @ map fst cs))" for used' parsed'
    using Suc.IH [of "Suc k"] Suc.prems by simp
  have "rfold (parse_route_command payload) (used, parsed) [k ..< k + Suc m] = Inr st \<longleftrightarrow>
    (\<exists>c cs. command_ok c \<and> block = command_frame k c \<and> command_pool c \<notin> used
      \<and> length cs = m \<and> list_all command_ok cs \<and> ?rest = ?frames cs
      \<and> distinct (map command_pool cs) \<and> set (map command_pool cs) \<inter> insert (command_pool c) used = {}
      \<and> st = (set (map command_pool cs) \<union> insert (command_pool c) used, (parsed @ [fst c]) @ map fst cs))"
    unfolding upt rfold.simps rbind_eq_Inr first ex_step IH by (simp only: ex_simps conj_assoc)
  also have "\<dots> \<longleftrightarrow> (\<exists>c cs. length (c # cs) = Suc m \<and> list_all command_ok (c # cs)
      \<and> block @ ?rest = command_frame k c @ ?frames cs
      \<and> distinct (map command_pool (c # cs)) \<and> set (map command_pool (c # cs)) \<inter> used = {}
      \<and> st = (set (map command_pool (c # cs)) \<union> used, parsed @ map fst (c # cs)))"
    (is "(\<exists>c cs. ?L c cs) = (\<exists>c cs. ?R c cs)")
  proof -
    have "?L c cs = ?R c cs" for c cs
      using block(2) length_command_frame [OF command_ok_shape [of c], of k] by auto
    then show ?thesis by simp
  qed
  also have "\<dots> \<longleftrightarrow> (\<exists>cs. length cs = Suc m \<and> list_all command_ok cs
      \<and> take (Suc m * 189) (drop (10 + k * 189) payload) = concat (map (\<lambda>(index, c). command_frame index c) (enumerate k cs))
      \<and> distinct (map command_pool cs) \<and> set (map command_pool cs) \<inter> used = {}
      \<and> st = (set (map command_pool cs) \<union> used, parsed @ map fst cs))"
    unfolding split ex_Cons by (simp only: concat.simps enumerate_simps list.map prod.case length_Cons nat.inject)
  finally show ?case .
qed

subsection \<open>The flow of a route\<close>

fun parsed_out :: "parsed_command \<Rightarrow> bytes" where
  "parsed_out (_, _, token_out, _, _, _) = token_out"

text \<open>
  A closed cycle from the base token: each command takes what the one before it gives, token and
  amount; no token between repeats; the last gives the base token, expects at least the governed
  minimum and insists on exactly it.
\<close>

definition governed_flow :: "bytes \<Rightarrow> int \<Rightarrow> parsed_command list \<Rightarrow> bool" where
  "governed_flow base minimum_final cs \<longleftrightarrow>
    list_all (\<lambda>((_, _, token_out, _, expected, _), (_, token_in, _, amount_in, _, _)).
      token_out = token_in \<and> expected = amount_in) (neighbours cs)
    \<and> distinct (map parsed_out (butlast cs)) \<and> base \<notin> set (map parsed_out (butlast cs))
    \<and> (case last cs of (_, _, token_out, _, expected, minimum) \<Rightarrow>
        token_out = base \<and> minimum_final \<le> expected \<and> minimum = minimum_final)"

definition governed_cycle :: "bytes \<Rightarrow> int \<Rightarrow> int \<Rightarrow> parsed_command list \<Rightarrow> bool" where
  "governed_cycle base principal_amount minimum_final cs \<longleftrightarrow>
    (case hd cs of (_, token_in, _, amount_in, _, _) \<Rightarrow> token_in = base \<and> amount_in = principal_amount)
    \<and> governed_flow base minimum_final cs"

lemma two_to_four:
  assumes "2 \<le> length xs" "length xs \<le> 4"
  obtains a b where "xs = [a, b]" | a b c where "xs = [a, b, c]" | a b c d where "xs = [a, b, c, d]"
proof -
  have "length xs = 2 \<or> length xs = 3 \<or> length xs = 4" using assms by linarith
  then show thesis using that by (auto simp: numeral_eq_Suc length_Suc_conv)
qed

lemma check_flow:
  assumes "2 \<le> length cs" "length cs \<le> 4"
  shows "is_ok (rfold (check_route_flow base minimum_final cs (length cs)) {} (enumerate 0 cs)) \<longleftrightarrow>
    governed_flow base minimum_final cs"
  using assms
proof (cases rule: two_to_four)
  case (1 a b)
  then show ?thesis by (cases a; cases b) (auto simp: check_route_flow_def governed_flow_def is_ok_iff guard_Inr split del: if_split)
next
  case (2 a b c)
  then show ?thesis
    by (cases a; cases b; cases c) (auto simp: check_route_flow_def governed_flow_def is_ok_iff guard_Inr split del: if_split)
next
  case (3 a b c d)
  then show ?thesis
    by (cases a; cases b; cases c; cases d) (auto simp: check_route_flow_def governed_flow_def is_ok_iff guard_Inr split del: if_split)
qed

lemma header_length: "length ROUTE_PAYLOAD_HEADER = 8"
  by (simp add: ROUTE_PAYLOAD_HEADER_def)

lemma payload_frame_simps:
  assumes "list_all command_ok cs" "length cs \<le> 4"
  shows "length (payload_frame cs) = 10 + length cs * 189"
    "take (length ROUTE_PAYLOAD_HEADER) (payload_frame cs) = ROUTE_PAYLOAD_HEADER"
    "payload_frame cs ! length ROUTE_PAYLOAD_HEADER = 1"
    "unat (payload_frame cs ! (length ROUTE_PAYLOAD_HEADER + 1)) = length cs"
    "drop 10 (payload_frame cs) = concat (map (\<lambda>(index, c). command_frame index c) (enumerate 0 cs))"
proof -
  have "length (concat (map (\<lambda>(index, c). command_frame index c) (enumerate k cs))) = length cs * 189" for k
    using assms(1) by (induction cs arbitrary: k) (auto simp: length_command_frame command_ok_shape)
  then show "length (payload_frame cs) = 10 + length cs * 189" by (simp add: payload_frame_def ROUTE_PAYLOAD_HEADER_def)
  show "unat (payload_frame cs ! (length ROUTE_PAYLOAD_HEADER + 1)) = length cs"
    using assms(2) by (simp add: payload_frame_def nth_append unat_of_nat)
qed (simp_all add: payload_frame_def ROUTE_PAYLOAD_HEADER_def)

lemma payload_frameI:
  assumes "length payload = 10 + length cs * 189" "length cs \<le> 4"
    "take (length ROUTE_PAYLOAD_HEADER) payload = ROUTE_PAYLOAD_HEADER"
    "uint (payload ! length ROUTE_PAYLOAD_HEADER) = 1"
    "unat (payload ! (length ROUTE_PAYLOAD_HEADER + 1)) = length cs"
    "drop 10 payload = concat (map (\<lambda>(index, c). command_frame index c) (enumerate 0 cs))"
  shows "payload = payload_frame cs"
proof -
  have n: "length ROUTE_PAYLOAD_HEADER = 8" by (simp add: ROUTE_PAYLOAD_HEADER_def)
  have "payload ! 8 = 1" using assms(4) n by (simp add: word_uint_eqI)
  moreover have "payload ! 9 = of_nat (length cs)" using arg_cong [OF assms(5), of "of_nat :: nat \<Rightarrow> 8 word"] n by simp
  moreover have "payload = take 8 payload @ payload ! 8 # payload ! 9 # drop 10 payload"
    using Cons_nth_drop_Suc [of 8 payload] Cons_nth_drop_Suc [of 9 payload] assms(1) append_take_drop_id [of 8 payload] by simp
  ultimately show ?thesis using assms(3,6) n by (simp add: payload_frame_def)
qed

text \<open>The validator accepts exactly the frames of governed cycles.\<close>

lemma validate_payload_Inr:
  "validate_governed_route_payload payload base principal_amount minimum_final = Inr result \<longleftrightarrow>
    result = payload \<and> (\<exists>cs. 2 \<le> length cs \<and> length cs \<le> 4 \<and> payload = payload_frame cs
      \<and> list_all command_ok cs \<and> distinct (map command_pool cs)
      \<and> governed_cycle base principal_amount minimum_final (map fst cs))"
proof
  assume v: "validate_governed_route_payload payload base principal_amount minimum_final = Inr result"
  define n where "n = unat (payload ! (length ROUTE_PAYLOAD_HEADER + 1))"
  obtain used parsed s where n: "2 \<le> n" "n \<le> 4" "length payload = 10 + n * 189"
    and front: "take (length ROUTE_PAYLOAD_HEADER) payload = ROUTE_PAYLOAD_HEADER"
      "uint (payload ! length ROUTE_PAYLOAD_HEADER) = 1"
    and parse: "rfold (parse_route_command payload) ({}, []) [0 ..< n] = Inr (used, parsed)"
    and first: "case hd parsed of (_, token_in, _, amount_in, _, _) \<Rightarrow> token_in = base \<and> amount_in = principal_amount"
    and flow: "rfold (check_route_flow base minimum_final parsed n) {} (enumerate 0 parsed) = Inr s"
    and result: "result = payload"
    using v unfolding validate_governed_route_payload_def Let_def n_def [symmetric]
    by (auto simp: guard_Inr ROUTE_PAYLOAD_VERSION_def ROUTE_COMMAND_BINARY_BYTES_def header_length case_prod_beta
        split del: if_split)
  have "take (n * 189) (drop (10 + 0 * 189) payload) = drop 10 payload" using n by simp
  with parse parse_route_commands [of payload n 0 n "{}" "[]" "(used, parsed)"] n obtain cs where
    cs: "length cs = n" "list_all command_ok cs" "distinct (map command_pool cs)" "parsed = map fst cs"
      "drop 10 payload = concat (map (\<lambda>(index, c). command_frame index c) (enumerate 0 cs))"
    by auto
  have "payload = payload_frame cs" using n front cs by (intro payload_frameI) (simp_all add: n_def)
  moreover have "governed_flow base minimum_final (map fst cs)"
    using check_flow [of "map fst cs" base minimum_final] flow n cs by (auto simp: is_ok_iff)
  ultimately show "result = payload \<and> (\<exists>cs. 2 \<le> length cs \<and> length cs \<le> 4 \<and> payload = payload_frame cs
      \<and> list_all command_ok cs \<and> distinct (map command_pool cs)
      \<and> governed_cycle base principal_amount minimum_final (map fst cs))"
    using result n cs first by (auto simp: governed_cycle_def)
next
  assume "result = payload \<and> (\<exists>cs. 2 \<le> length cs \<and> length cs \<le> 4 \<and> payload = payload_frame cs
      \<and> list_all command_ok cs \<and> distinct (map command_pool cs)
      \<and> governed_cycle base principal_amount minimum_final (map fst cs))"
  then obtain cs where result: "result = payload" and cs: "2 \<le> length cs" "length cs \<le> 4" "list_all command_ok cs"
      "distinct (map command_pool cs)" "governed_cycle base principal_amount minimum_final (map fst cs)"
    and payload: "payload = payload_frame cs" by blast
  note frame = payload_frame_simps [OF cs(3,2), folded payload]
  have "take (length cs * 189) (drop (10 + 0 * 189) payload) = drop 10 payload" using frame(1) by simp
  then have parse: "rfold (parse_route_command payload) ({}, []) [0 ..< length cs] = Inr (set (map command_pool cs), map fst cs)"
    using parse_route_commands [of payload "length cs" 0 "length cs" "{}" "[]"] frame(1,5) cs by auto
  obtain s where "rfold (check_route_flow base minimum_final (map fst cs) (length cs)) {} (enumerate 0 (map fst cs)) = Inr s"
    using check_flow [of "map fst cs" base minimum_final] cs by (auto simp: is_ok_iff governed_cycle_def)
  with result cs parse frame show "validate_governed_route_payload payload base principal_amount minimum_final = Inr result"
    unfolding validate_governed_route_payload_def Let_def
    by (simp add: ROUTE_PAYLOAD_VERSION_def ROUTE_COMMAND_BINARY_BYTES_def governed_cycle_def MAX_ROUTE_PAYLOAD_BYTES_def
        header_length case_prod_beta)
qed

subsection \<open>The governed call\<close>

text \<open>The ABI encoding: the selector, six head words and the dynamic payload, padded to a word.\<close>

definition call_encoding :: "bytes \<Rightarrow> bytes \<Rightarrow> bytes \<Rightarrow> int \<Rightarrow> int \<Rightarrow> int \<Rightarrow> bytes \<Rightarrow> bytes" where
  "call_encoding selector plan base principal_amount minimum_final deadline payload =
    selector @ plan @ zero_bytes 12 @ base @ to_bytes_be 32 principal_amount @ to_bytes_be 32 minimum_final
    @ to_bytes_be 32 deadline @ to_bytes_be 32 192 @ to_bytes_be 32 (int (length payload))
    @ payload @ zero_bytes (nat (- int (length payload) mod 32))"

lemma encode_call_Inr:
  assumes "encode_governed_execute_call selector plan base principal_amount minimum_final deadline payload = Inr calldata"
  shows "calldata = call_encoding selector plan base principal_amount minimum_final deadline payload"
    "validate_governed_route_payload payload base principal_amount minimum_final = Inr payload"
    "length selector = 4" "length plan = 32" "is_address base"
    "0 < principal_amount" "principal_amount \<le> minimum_final" "minimum_final \<le> MAX_UINT256" "0 < deadline"
    "deadline \<le> MAX_UINT64"
proof -
  from assms obtain result where v: "validate_governed_route_payload payload base principal_amount minimum_final = Inr result"
    and out: "calldata = call_encoding selector plan base principal_amount minimum_final deadline result"
    and rest: "length selector = 4" "length plan = 32" "is_address base"
    "0 < principal_amount" "principal_amount \<le> minimum_final" "minimum_final \<le> MAX_UINT256" "0 < deadline"
    "deadline \<le> MAX_UINT64"
    unfolding encode_governed_execute_call_def Let_def rbind_eq_Inr guard_Inr
    by (auto simp: call_encoding_def abi_word_bytes32_def abi_word_address_def abi_word_uint_def abi_dynamic_bytes_def
        require_bytes32_def guard_Inr Let_def split del: if_split)
  have "result = payload" using v by (simp add: validate_payload_Inr)
  with v out rest show "calldata = call_encoding selector plan base principal_amount minimum_final deadline payload"
    "validate_governed_route_payload payload base principal_amount minimum_final = Inr payload"
    "length selector = 4" "length plan = 32" "is_address base"
    "0 < principal_amount" "principal_amount \<le> minimum_final" "minimum_final \<le> MAX_UINT256" "0 < deadline"
    "deadline \<le> MAX_UINT64" by simp_all
qed

text \<open>The words of the encoding read back as the arguments.\<close>

lemma call_encoding_words:
  assumes "length selector = 4" "length plan = 32" "length base = 20"
    "0 \<le> principal_amount" "principal_amount \<le> MAX_UINT256" "0 \<le> minimum_final" "minimum_final \<le> MAX_UINT256"
    "0 \<le> deadline" "deadline \<le> MAX_UINT64"
    "calldata = call_encoding selector plan base principal_amount minimum_final deadline payload"
  shows "take 4 calldata = selector" "slice 4 36 calldata = plan" "slice 48 68 calldata = base"
    "from_bytes_be (slice 68 100 calldata) = principal_amount" "from_bytes_be (slice 100 132 calldata) = minimum_final"
    "from_bytes_be (slice 132 164 calldata) = deadline" "slice 228 (228 + length payload) calldata = payload"
  using assms
  by (simp_all add: call_encoding_def slice_def from_to_bytes_be MAX_UINT256_def MAX_UINT64_def zero_bytes_def)

subsection \<open>The executor call\<close>

lemma ceiling_covers: "0 < d \<Longrightarrow> n \<le> - ((- n) div d) * (d :: int)"
  using le_div_iff [of d "(- n) div d" "- n"] by simp

text \<open>The least profit the policy asks of a principal, and the output below which a call must revert.\<close>

definition required_profit :: "net_evidence \<Rightarrow> int" where
  "required_profit evidence = max (pp_minimum_absolute_profit (ne_profit_policy evidence))
     (- ((- (capital_at_risk (pl_opportunity (ne_plan evidence)) * pp_minimum_return_bps (ne_profit_policy evidence)))
        div BASIS_POINTS))"

lemma floor_nonneg: "0 < d \<Longrightarrow> 0 \<le> n \<Longrightarrow> 0 \<le> - ((- n) div (d :: int))"
  by (simp add: div_nonpos_pos_le0)

lemma call_economic_floor_Inr:
  assumes "call_economic_floor evidence = Inr economic_floor"
  shows "economic_floor = capital_at_risk (pl_opportunity (ne_plan evidence))
      + total_cost (ce_costs (ne_cost_envelope evidence)) + required_profit evidence"
    "0 \<le> capital_at_risk (pl_opportunity (ne_plan evidence))"
    "0 \<le> total_cost (ce_costs (ne_cost_envelope evidence))" "0 \<le> required_profit evidence"
    "economic_floor \<le> MAX_UINT256"
  using assms floor_nonneg [of BASIS_POINTS "capital_at_risk (pl_opportunity (ne_plan evidence))
      * pp_minimum_return_bps (ne_profit_policy evidence)"]
  by (auto simp: call_economic_floor_def Let_def rbind_eq_Inr u256_add_Inr u256_mul_Inr u256_ceil_div_Inr
      required_profit_def)

lemma call_minimum_final_Inr:
  assumes "call_minimum_final self = Inr minimum_final"
    and "evidence = gc_net_profit_evidence self"
  shows "capital_at_risk (pl_opportunity (ne_plan evidence)) + total_cost (ce_costs (ne_cost_envelope evidence))
      + required_profit evidence \<le> minimum_final"
    "minimum_final \<le> rq_amount_out (op_route_quote (pl_opportunity (ne_plan evidence)))"
    "rq_amount_out (op_route_quote (pl_opportunity (ne_plan evidence)))
      * (BASIS_POINTS - cp_maximum_slippage_bps (gc_constraints self)) \<le> minimum_final * BASIS_POINTS"
    "0 \<le> capital_at_risk (pl_opportunity (ne_plan evidence))"
    "0 \<le> total_cost (ce_costs (ne_cost_envelope evidence))" "0 \<le> required_profit evidence"
    "minimum_final \<le> MAX_UINT256"
proof -
  define out where "out = rq_amount_out (op_route_quote (pl_opportunity (ne_plan evidence)))"
  define slip where "slip = BASIS_POINTS - cp_maximum_slippage_bps (gc_constraints self)"
  obtain economic_floor where e: "call_economic_floor evidence = Inr economic_floor"
    and m: "minimum_final = max economic_floor (- ((- (out * slip)) div BASIS_POINTS))"
    and b: "minimum_final \<le> out" "0 < BASIS_POINTS" "out \<le> MAX_UINT256"
    using assms unfolding call_minimum_final_def Let_def rbind_eq_Inr guard_Inr u256_mul_Inr u256_ceil_div_Inr
      call_slippage_numerator_def out_def slip_def
    by (auto simp: not_less)
  note f = call_economic_floor_Inr [OF e]
  have "out * slip \<le> - ((- (out * slip)) div BASIS_POINTS) * BASIS_POINTS" by (rule ceiling_covers [OF b(2)])
  also have "\<dots> \<le> minimum_final * BASIS_POINTS"
    by (rule mult_right_mono) (use m b(2) in simp_all)
  finally show "rq_amount_out (op_route_quote (pl_opportunity (ne_plan evidence)))
      * (BASIS_POINTS - cp_maximum_slippage_bps (gc_constraints self)) \<le> minimum_final * BASIS_POINTS"
    by (simp add: out_def slip_def)
  show "capital_at_risk (pl_opportunity (ne_plan evidence)) + total_cost (ce_costs (ne_cost_envelope evidence))
      + required_profit evidence \<le> minimum_final" using f(1) m by simp
  show "minimum_final \<le> rq_amount_out (op_route_quote (pl_opportunity (ne_plan evidence)))"
    "minimum_final \<le> MAX_UINT256" using b by (simp_all add: out_def)
  show "0 \<le> capital_at_risk (pl_opportunity (ne_plan evidence))"
    "0 \<le> total_cost (ce_costs (ne_cost_envelope evidence))" "0 \<le> required_profit evidence" by (fact f)+
qed

text \<open>
  A constructed call: its fields are those of the constructor's parts, and its calldata carries
  a payload the validator accepts between the principal and the minimum output.
\<close>

lemma executor_call_Inr:
  assumes "GovernedExecutorCall_post_init self = Inr call"
  shows "call_authority self = Inr ()"
    "call_minimum_final self = Inr (gc_minimum_final_output call)"
    "\<exists>digest. pl_digest (ne_plan (gc_net_profit_evidence call)) = Inr digest
       \<and> encode_governed_execute_call
           (ei_function_selector (ds_interface (ad_spec (gc_deployment call)))) (bytes_fromhex digest)
           (case ai_address (pl_base_asset (ne_plan (gc_net_profit_evidence call))) of
              Some address \<Rightarrow> address | None \<Rightarrow> [])
           (capital_at_risk (pl_opportunity (ne_plan (gc_net_profit_evidence call))))
           (gc_minimum_final_output call) (gc_deadline_unix_s call) (gc_route_payload call)
         = Inr (gc_calldata call)"
    "gc_created_at_unix_ms call div 1000 < gc_deadline_unix_s call"
    "gc_deadline_unix_s call * 1000 \<le> ne_inputs_valid_until_unix_ms (gc_net_profit_evidence call)"
    "gc_deadline_unix_s call * 1000
      \<le> gc_created_at_unix_ms call + cp_maximum_deadline_horizon_ms (gc_constraints call)"
    "gc_net_profit_evidence call = gc_net_profit_evidence self" "gc_deployment call = gc_deployment self"
    "gc_constraints call = gc_constraints self" "gc_created_at_unix_ms call = gc_created_at_unix_ms self"
proof -
  have down: "a div 1000 * 1000 \<le> c" if "a \<le> c" for a c :: int
    using that by presburger
  from assms have
    "call_authority self = Inr () \<and> call_minimum_final self = Inr (gc_minimum_final_output call)
     \<and> call_calldata self (gc_minimum_final_output call) (gc_deadline_unix_s call) (gc_route_payload call)
        = Inr (gc_calldata call)
     \<and> gc_created_at_unix_ms self div 1000 < gc_deadline_unix_s call
     \<and> gc_deadline_unix_s call = min (ne_inputs_valid_until_unix_ms (gc_net_profit_evidence self))
          (gc_created_at_unix_ms self + cp_maximum_deadline_horizon_ms (gc_constraints self)) div 1000
     \<and> gc_net_profit_evidence call = gc_net_profit_evidence self \<and> gc_deployment call = gc_deployment self
     \<and> gc_constraints call = gc_constraints self \<and> gc_created_at_unix_ms call = gc_created_at_unix_ms self"
    unfolding GovernedExecutorCall_post_init_def Let_def rbind_eq_Inr guard_Inr jchecked_Inr
    by (auto simp: not_le)
  note c = conjunct1 [OF this] conjunct2 [OF this]
  note c = c(1) conjunct1 [OF c(2)] conjunct2 [OF c(2)]
  note c = c(1,2) conjunct1 [OF c(3)] conjunct2 [OF c(3)]
  note c = c(1-3) conjunct1 [OF c(4)] conjunct2 [OF c(4)]
  note c = c(1-4) conjunct1 [OF c(5)] conjunct2 [OF c(5)]
  show "gc_net_profit_evidence call = gc_net_profit_evidence self" "gc_deployment call = gc_deployment self"
    "gc_constraints call = gc_constraints self" "gc_created_at_unix_ms call = gc_created_at_unix_ms self"
    using c(6) by simp_all
  show "call_authority self = Inr ()" "call_minimum_final self = Inr (gc_minimum_final_output call)" by (fact c)+
  show "gc_created_at_unix_ms call div 1000 < gc_deadline_unix_s call" using c by simp
  show "gc_deadline_unix_s call * 1000 \<le> ne_inputs_valid_until_unix_ms (gc_net_profit_evidence call)"
    "gc_deadline_unix_s call * 1000
      \<le> gc_created_at_unix_ms call + cp_maximum_deadline_horizon_ms (gc_constraints call)"
    unfolding c(5) by (rule down, simp add: c(6))+
  show "\<exists>digest. pl_digest (ne_plan (gc_net_profit_evidence call)) = Inr digest
       \<and> encode_governed_execute_call
           (ei_function_selector (ds_interface (ad_spec (gc_deployment call)))) (bytes_fromhex digest)
           (case ai_address (pl_base_asset (ne_plan (gc_net_profit_evidence call))) of
              Some address \<Rightarrow> address | None \<Rightarrow> [])
           (capital_at_risk (pl_opportunity (ne_plan (gc_net_profit_evidence call))))
           (gc_minimum_final_output call) (gc_deadline_unix_s call) (gc_route_payload call)
         = Inr (gc_calldata call)"
    using c(3) c(6) unfolding call_calldata_def Let_def rbind_eq_Inr guard_Inr by auto
qed

end
