(* ===== verification/Transaction_Correct.thy ===== *)
theory Transaction_Correct
  imports Signed_Transaction Execution_Correct
begin

text \<open>
  The transactions of an executor call: the gas and the funding of an unsigned transaction, the
  fields its signing payload and a signed transaction decode to, the sender a signature recovers,
  and the nonces and funding of a bundle.
\<close>

subsection \<open>EIP-1559 encodings\<close>

lemma uint_bytes_Inr: "uint_bytes v = Inr b \<longleftrightarrow> 0 \<le> v \<and> v \<le> MAX_UINT256 \<and> b = minimal_be v"
  by (auto simp: uint_bytes_def receipt_gas_bytes)

text \<open>The nine fields every EIP-1559 transaction signs.\<close>

definition signed_fields :: "unsigned_transaction \<Rightarrow> int \<Rightarrow> rlp_item list" where
  "signed_fields tx chain_id =
    [RBytes (minimal_be chain_id), RBytes (minimal_be (ut_nonce tx)),
     RBytes (minimal_be (ut_max_priority_fee_per_gas tx)), RBytes (minimal_be (ut_max_fee_per_gas tx)),
     RBytes (minimal_be (ut_gas_limit tx)), RBytes (ut_to tx), RBytes (minimal_be (ut_value tx)),
     RBytes (ut_data tx), RList []]"

definition signature_fields :: "signature \<Rightarrow> rlp_item list" where
  "signature_fields sg =
    [RBytes (minimal_be (sg_y_parity sg)), RBytes (minimal_be (sg_r sg)), RBytes (minimal_be (sg_s sg))]"

subsection \<open>Unsigned transactions\<close>

definition data_gas :: "bytes \<Rightarrow> int" where
  "data_gas data = ZERO_DATA_GAS * int (length (filter (\<lambda>b. b = 0) data))
     + NONZERO_DATA_GAS * int (length (filter (\<lambda>b. b \<noteq> 0) data))"

lemma data_gas_count:
  "data_gas data = int (count_list data 0) * ZERO_DATA_GAS + (int (length data) - int (count_list data 0)) * NONZERO_DATA_GAS"
proof -
  have "int (count_list data 0) = int (length (filter (\<lambda>b. b = 0) data))"
    "int (length data) - int (count_list data 0) = int (length (filter (\<lambda>b. b \<noteq> 0) data))"
    by (induction data) auto
  then show ?thesis by (simp only: data_gas_def mult.commute)
qed

definition native_bound :: "unsigned_transaction \<Rightarrow> int" where
  "native_bound tx = ut_gas_limit tx * ut_max_fee_per_gas tx + ut_value tx
     + fe_l1_data_fee_upper_bound (ce_fee_envelope (ne_cost_envelope (gc_net_profit_evidence (ut_call tx))))
     + ut_operator_fee_upper_bound tx"

text \<open>Premises on the JSON forms are dropped where only the fields matter.\<close>

lemma discard_json:
  "jsha j = Inr d \<Longrightarrow> P \<Longrightarrow> P" "canonical_json_bytes v = Inr b \<Longrightarrow> P \<Longrightarrow> P"
  "canonical_sha256 v = Inr d \<Longrightarrow> P \<Longrightarrow> P"
  "UnsignedEip1559Transaction_to_json tx = Inr v \<Longrightarrow> P \<Longrightarrow> P"
  "SignedEip1559TransactionEvidence_to_json stx = Inr v \<Longrightarrow> P \<Longrightarrow> P"
  "PrivateBundleIntent_to_json bundle = Inr v \<Longrightarrow> P \<Longrightarrow> P"
  by assumption+

lemma unsigned_transaction_Inr:
  assumes "UnsignedEip1559Transaction_post_init self = Inr tx"
  shows "ut_call tx = ut_call self" "ut_sender_state tx = ut_sender_state self"
    "ut_intrinsic_gas tx = BASE_INTRINSIC_GAS + data_gas (ut_data tx)"
    "ut_intrinsic_gas tx \<le> ut_gas_limit tx"
    "ut_maximum_upfront_native tx = native_bound tx"
    "native_bound tx \<le> ss_balance (ut_sender_state tx)"
    "ut_signing_hash tx = keccak256 (ut_signing_payload tx)"
    "hd (ut_signing_payload tx) = 2"
    "rbind (ut_chain_id tx) (\<lambda>chain_id. rlp_encode (RList (signed_fields tx chain_id)))
      = Inr (tl (ut_signing_payload tx))"
proof -
  let ?fee = "ce_fee_envelope (ne_cost_envelope (gc_net_profit_evidence (ut_call self)))"
  let ?data = "gc_calldata (ut_call self)"
  obtain chain_id encoded until i gas g1 g2 g3 bound b1 b2 b3 c1 c2 c3 c4 c5 c6 where
    tx: "tx = self\<lparr>ut_signing_payload := EIP1559_TYPE_BYTE @ encoded,
      ut_signing_hash := keccak256 (EIP1559_TYPE_BYTE @ encoded), ut_intrinsic_gas := gas,
      ut_maximum_upfront_native := bound, ut_inputs_valid_until_unix_ms := until, ut_transaction_id := i\<rparr>"
    and gas: "gas = BASE_INTRINSIC_GAS + g3" "g3 = g1 + g2" "g1 = int (count_list ?data 0) * ZERO_DATA_GAS"
      "g2 = (int (length ?data) - int (count_list ?data 0)) * NONZERO_DATA_GAS"
      "\<not> fe_gas_units_upper_bound ?fee < gas"
    and bound: "bound = b3 + fe_operator_fee_upper_bound ?fee" "b3 = b2 + fe_l1_data_fee_upper_bound ?fee"
      "b2 = b1 + fe_direct_inclusion_payment_upper_bound ?fee"
      "b1 = fe_gas_units_upper_bound ?fee * fe_max_fee_per_gas ?fee"
      "\<not> ss_balance (ut_sender_state self) < bound"
    and chain: "dict_item CHAIN_IDS (ad_chain (gc_deployment (ut_call self))) = Inr chain_id"
    and encoded: "rlp_encode (RList [RBytes c1, RBytes c2, RBytes c3, RBytes c4, RBytes c5,
        RBytes (ad_address (gc_deployment (ut_call self))), RBytes c6, RBytes ?data, RList []]) = Inr encoded"
      "c1 = minimal_be chain_id" "c2 = minimal_be (ut_nonce self)"
      "c3 = minimal_be (fe_max_priority_fee_per_gas ?fee)" "c4 = minimal_be (fe_max_fee_per_gas ?fee)"
      "c5 = minimal_be (fe_gas_units_upper_bound ?fee)" "c6 = minimal_be (fe_direct_inclusion_payment_upper_bound ?fee)"
    using assms
    unfolding UnsignedEip1559Transaction_post_init_def Let_def rbind_eq_Inr guard_Inr jchecked_Inr
      u256_add_Inr u256_mul_Inr uint_bytes_Inr
    apply -
    apply (elim exE conjE discard_json)
    apply (rule that)
    apply assumption+
    done
  show "ut_call tx = ut_call self" "ut_sender_state tx = ut_sender_state self"
    "ut_signing_hash tx = keccak256 (ut_signing_payload tx)" "hd (ut_signing_payload tx) = 2"
    by (simp_all add: tx EIP1559_TYPE_BYTE_def)
  show "ut_intrinsic_gas tx = BASE_INTRINSIC_GAS + data_gas (ut_data tx)" "ut_intrinsic_gas tx \<le> ut_gas_limit tx"
    using gas by (simp_all add: tx data_gas_count ut_data_def ut_gas_limit_def)
  have sum: "native_bound tx = bound"
    by (simp add: tx bound(1-4) native_bound_def ut_gas_limit_def ut_max_fee_per_gas_def ut_value_def
        ut_operator_fee_upper_bound_def)
  then show "ut_maximum_upfront_native tx = native_bound tx" by (simp add: tx)
  show "native_bound tx \<le> ss_balance (ut_sender_state tx)" using bound(5) unfolding sum by (simp add: tx)
  have "signed_fields tx chain_id = [RBytes c1, RBytes c2, RBytes c3, RBytes c4, RBytes c5,
        RBytes (ad_address (gc_deployment (ut_call self))), RBytes c6, RBytes ?data, RList []]"
    by (simp add: tx encoded(2-7) signed_fields_def ut_nonce_def ut_max_priority_fee_per_gas_def
        ut_max_fee_per_gas_def ut_gas_limit_def ut_to_def ut_value_def ut_data_def)
  with chain encoded(1) show "rbind (ut_chain_id tx) (\<lambda>chain_id. rlp_encode (RList (signed_fields tx chain_id)))
      = Inr (tl (ut_signing_payload tx))"
    by (simp add: tx ut_chain_id_def ut_chain_def EIP1559_TYPE_BYTE_def)
qed

subsection \<open>Signed transactions\<close>

lemma the_matching_key:
  assumes "recover_public_keys h r s par = Inr keys"
    and "\<not> length (filter (\<lambda>k. public_key_to_address k = sender) keys) \<noteq> 1"
    and "key = hd (filter (\<lambda>k. public_key_to_address k = sender) keys)"
  shows "point_ok key" "public_key_to_address key = sender" "verify_signature h r s key = Inr True"
proof -
  have "filter (\<lambda>k. public_key_to_address k = sender) keys = [key]"
    using assms(2,3) by (cases "filter (\<lambda>k. public_key_to_address k = sender) keys") auto
  then have "key \<in> set (filter (\<lambda>k. public_key_to_address k = sender) keys)" by simp
  then have "key \<in> set keys \<and> public_key_to_address key = sender" by simp
  moreover have "recovered_ok h r s keys" using recover_public_keys_ok [of h r s par] assms(1) by simp
  ultimately show "point_ok key" "public_key_to_address key = sender" "verify_signature h r s key = Inr True"
    by (auto simp: recovered_ok_def list_all_iff)
qed

lemma signed_transaction_Inr:
  assumes "SignedEip1559TransactionEvidence_post_init self = Inr tx"
  shows "sx_unsigned_transaction tx = sx_unsigned_transaction self" "sx_signature tx = sx_signature self"
    "sx_recovered_sender tx = ut_sender (sx_unsigned_transaction tx)"
    "\<exists>key. point_ok key \<and> public_key_to_address key = sx_recovered_sender tx
      \<and> verify_signature (ut_signing_hash (sx_unsigned_transaction tx)) (sg_r (sx_signature tx))
          (sg_s (sx_signature tx)) key = Inr True"
    "sx_transaction_hash tx = keccak256 (sx_raw_transaction tx)" "hd (sx_raw_transaction tx) = 2"
    "rbind (ut_chain_id (sx_unsigned_transaction tx)) (\<lambda>chain_id.
       rlp_encode (RList (signed_fields (sx_unsigned_transaction tx) chain_id @ signature_fields (sx_signature tx))))
      = Inr (tl (sx_raw_transaction tx))"
proof -
  let ?unsigned = "sx_unsigned_transaction self" and ?sg = "sx_signature self"
  let ?matching = "\<lambda>keys. filter (\<lambda>item. public_key_to_address item = ut_sender ?unsigned) keys"
  obtain keys chain_id encoded i d1 d2 d3 c1 c2 c3 c4 c5 c6 c7 c8 c9 where
    tx: "tx = self\<lparr>sx_raw_transaction := EIP1559_TYPE_BYTE @ encoded,
      sx_transaction_hash := keccak256 (EIP1559_TYPE_BYTE @ encoded),
      sx_recovered_sender := public_key_to_address (hd (?matching keys)),
      sx_unsigned_transaction_sha256 := d1, sx_signature_sha256 := d2,
      sx_signed_transaction_id := i, sx_digest := d3\<rparr>"
    and keys: "recover_public_keys (ut_signing_hash ?unsigned) (sg_r ?sg) (sg_s ?sg) (sg_y_parity ?sg) = Inr keys"
      "\<not> length (?matching keys) \<noteq> 1"
    and chain: "ut_chain_id ?unsigned = Inr chain_id"
    and encoded: "rlp_encode (RList [RBytes c1, RBytes c2, RBytes c3, RBytes c4, RBytes c5,
        RBytes (ut_to ?unsigned), RBytes c6, RBytes (ut_data ?unsigned), RList [], RBytes c7, RBytes c8, RBytes c9])
        = Inr encoded"
      "c1 = minimal_be chain_id" "c2 = minimal_be (ut_nonce ?unsigned)"
      "c3 = minimal_be (ut_max_priority_fee_per_gas ?unsigned)" "c4 = minimal_be (ut_max_fee_per_gas ?unsigned)"
      "c5 = minimal_be (ut_gas_limit ?unsigned)" "c6 = minimal_be (ut_value ?unsigned)"
      "c7 = minimal_be (sg_y_parity ?sg)" "c8 = minimal_be (sg_r ?sg)" "c9 = minimal_be (sg_s ?sg)"
    using assms
    unfolding SignedEip1559TransactionEvidence_post_init_def Let_def rbind_eq_Inr guard_Inr uint_bytes_Inr
      sum.inject
    apply -
    apply (elim exE conjE discard_json)
    apply (rule that)
    apply (erule sym)
    apply assumption+
    done
  note key = the_matching_key [OF keys refl]
  show same: "sx_unsigned_transaction tx = ?unsigned" "sx_signature tx = ?sg" by (simp_all add: tx)
  show "sx_recovered_sender tx = ut_sender (sx_unsigned_transaction tx)"
    "\<exists>key. point_ok key \<and> public_key_to_address key = sx_recovered_sender tx
      \<and> verify_signature (ut_signing_hash (sx_unsigned_transaction tx)) (sg_r (sx_signature tx))
          (sg_s (sx_signature tx)) key = Inr True"
    using key by (auto simp: tx)
  show "sx_transaction_hash tx = keccak256 (sx_raw_transaction tx)" "hd (sx_raw_transaction tx) = 2"
    by (simp_all add: tx EIP1559_TYPE_BYTE_def)
  show "rbind (ut_chain_id (sx_unsigned_transaction tx)) (\<lambda>chain_id.
       rlp_encode (RList (signed_fields (sx_unsigned_transaction tx) chain_id @ signature_fields (sx_signature tx))))
      = Inr (tl (sx_raw_transaction tx))"
    using encoded(1) by (simp add: same chain encoded(2-10) signed_fields_def signature_fields_def)
      (simp add: tx EIP1559_TYPE_BYTE_def)
qed

subsection \<open>Bundles\<close>

lemma bundle_upfront_Inr:
  "rfold (\<lambda>total_upfront item. u256_add total_upfront (ut_maximum_upfront_native item) name) start items = Inr upfront
    \<Longrightarrow> upfront = start + sum_list (map ut_maximum_upfront_native items)"
proof (induction items arbitrary: start)
  case (Cons item items)
  then show ?case by (auto simp: u256_add_Inr dest!: Cons.IH)
qed simp

lemma bundle_intent_Inr:
  assumes "PrivateBundleIntent_post_init self = Inr bundle"
  defines "txs \<equiv> bi_transactions self"
  shows "bi_transactions bundle = txs" "txs \<noteq> []" "length txs \<le> MAX_BUNDLE_TRANSACTIONS"
    "list_all (\<lambda>tx. ut_sender tx = bi_sender bundle \<and> ut_chain tx = bi_chain bundle) txs"
    "map ut_nonce txs = map (\<lambda>k. ss_nonce (ut_sender_state (hd txs)) + int k) [0 ..< length txs]"
    "distinct (map ut_signing_hash txs)"
    "bi_maximum_bundle_upfront_native bundle = sum_list (map ut_maximum_upfront_native txs)"
    "bi_maximum_bundle_upfront_native bundle \<le> ss_balance (ut_sender_state (hd txs))"
    "an_block_number (ev_anchor (ss_evidence (ut_sender_state (hd txs)))) < bi_target_block_number bundle"
    "bi_target_block_number bundle \<le> bi_maximum_block_number bundle"
    "bi_maximum_block_number bundle
      \<le> an_block_number (ev_anchor (ss_evidence (ut_sender_state (hd txs)))) + MAX_TARGET_BLOCK_DISTANCE"
proof -
  let ?first = "hd (bi_transactions self)"
  let ?block = "an_block_number (ev_anchor (ss_evidence (ut_sender_state ?first)))"
  obtain delivery fresh until upfront i where
    made: "bundle = self\<lparr>bi_delivery_class := delivery, bi_anchor_fresh_until_unix_ms := fresh,
      bi_inputs_valid_until_unix_ms := until, bi_maximum_bundle_upfront_native := upfront, bi_bundle_id := i\<rparr>"
    and some: "\<not> MAX_BUNDLE_TRANSACTIONS < length (bi_transactions self)" "bi_transactions self \<noteq> []"
    and shared: "\<not> list_ex (\<lambda>item. ut_chain item \<noteq> ut_chain ?first) (bi_transactions self)"
      "\<not> list_ex (\<lambda>item. ut_sender item \<noteq> ut_sender ?first) (bi_transactions self)"
    and nonces: "\<not> (ut_nonce_offset ?first \<noteq> 0 \<or> ut_nonce ?first \<noteq> ss_nonce (ut_sender_state ?first))"
      "\<not> map ut_nonce (bi_transactions self)
        \<noteq> map (\<lambda>k. hd (map ut_nonce (bi_transactions self)) + int k) [0 ..< length (map ut_nonce (bi_transactions self))]"
    and hashes: "\<not> \<not> distinct (map ut_signing_hash (bi_transactions self))"
    and blocks: "\<not> \<not> ?block < bi_target_block_number self"
      "\<not> \<not> bi_target_block_number self \<le> bi_maximum_block_number self"
      "\<not> ?block + MAX_TARGET_BLOCK_DISTANCE < bi_maximum_block_number self"
    and upfront: "rfold (\<lambda>total_upfront item. u256_add total_upfront (ut_maximum_upfront_native item)
        ''maximum bundle upfront native amount'') 0 (bi_transactions self) = Inr upfront"
      "\<not> ss_balance (ut_sender_state ?first) < upfront"
    using assms(1)
    unfolding PrivateBundleIntent_post_init_def Let_def rbind_eq_Inr guard_Inr jchecked_Inr
    apply -
    apply (elim exE conjE discard_json)
    apply (rule that)
    apply assumption+
    done
  show "bi_transactions bundle = txs" "txs \<noteq> []" "length txs \<le> MAX_BUNDLE_TRANSACTIONS"
    "distinct (map ut_signing_hash txs)"
    "an_block_number (ev_anchor (ss_evidence (ut_sender_state (hd txs)))) < bi_target_block_number bundle"
    "bi_target_block_number bundle \<le> bi_maximum_block_number bundle"
    "bi_maximum_block_number bundle
      \<le> an_block_number (ev_anchor (ss_evidence (ut_sender_state (hd txs)))) + MAX_TARGET_BLOCK_DISTANCE"
    using some hashes blocks by (simp_all add: made txs_def)
  show "list_all (\<lambda>tx. ut_sender tx = bi_sender bundle \<and> ut_chain tx = bi_chain bundle) txs"
    using shared by (auto simp: made txs_def bi_sender_def bi_chain_def list_ex_iff list_all_iff)
  show "map ut_nonce txs = map (\<lambda>k. ss_nonce (ut_sender_state (hd txs)) + int k) [0 ..< length txs]"
    using nonces some(2) by (simp add: txs_def hd_map)
  show "bi_maximum_bundle_upfront_native bundle = sum_list (map ut_maximum_upfront_native txs)"
    "bi_maximum_bundle_upfront_native bundle \<le> ss_balance (ut_sender_state (hd txs))"
    using upfront(2) bundle_upfront_Inr [OF upfront(1)] by (simp_all add: made txs_def)
qed

end

