(* ===== verification/Spec2Isabelle.thy ===== *)
theory Spec2Isabelle
  imports Examples_Pools Risk Profit State_Proof Envelope_Roundtrip Examples_Ledger Secp256k1 Evidence Assets Route_Search Route_Enumeration Optimizer_Correct Scoreboard_Correct Calldata_Correct Transaction_Correct
begin

text \<open>
  A model of \<open>src/src/aladdin_mev_engine\<close>, an offline research engine for atomic arbitrage:
  recorded observations of EVM sources, block heads and reorganisations, Merkle-Patricia state
  proofs, constant-product pools and cyclic routes over them, the search for the best input, risk,
  profit and policy decisions, the chain of evidence from an opportunity to an executor call, a
  signed transaction, its relay, its receipt and settlement, the decision ledger, and the
  scoreboard of past executions.  The package is pure: every function is a computation on its
  arguments and raises an exception where it refuses, so a function is a definition into
  \<open>'a result\<close> (\<open>py_error + 'a\<close>, \<open>Inl\<close> an exception) whose guards stand in the order of the code.

  Parts, theories and code, each part resting on the ones before it:
  \<^item> \<open>Prelude\<close>, \<open>Pybytes\<close>, \<open>Pydict\<close>: exceptions and their sequencing, integer/bytes/text
    conversions of Python, dictionaries in insertion order; \<open>Json_Objects\<close>: JSON objects whose
    members may raise, and Python's \<open>any\<close>, \<open>sorted\<close>, \<open>min\<close> and \<open>max\<close> on such values.
  \<^item> \<open>Hashes\<close> (keccak.py and hashlib's SHA-256), \<open>Canonical\<close> (canonical.py with the options it
    passes to the standard json module), \<open>Canonical_Roundtrip\<close> (the parser reads back what the
    encoder writes).
  \<^item> \<open>Domain\<close> (domain.py, policy.py), \<open>Risk\<close> (risk.py), \<open>Profit\<close> (profit.py).
  \<^item> \<open>Source_Contracts\<close> (source_contracts.py), \<open>Observation\<close> (observation.py),
    \<open>Envelope_Roundtrip\<close> (their JSON form and digests), \<open>Head_Tracker\<close> (head_tracker.py).
  \<^item> \<open>Evm_Hex\<close> (evm_hex.py), \<open>Rlp\<close> (rlp.py), \<open>Mpt\<close> (mpt.py), \<open>State_Proof\<close>
    (state_proof_types.py, state_proof_evidence.py).
  \<^item> \<open>Swap_Math\<close> (the arithmetic of swaps, integers only), \<open>Constant_Product\<close>
    (constant_product.py), \<open>Opportunity_Graph\<close> (opportunity_graph.py) with \<open>Route_Search\<close> and
    \<open>Route_Enumeration\<close> (its depth-first search: what it finds and that it ends).
  \<^item> \<open>Heapq\<close> (the standard heap the search uses), \<open>Optimizer\<close> (optimizer.py), \<open>Branch_Bound\<close>
    (best-first search over intervals, stated for any priority queue and bound) and
    \<open>Optimizer_Correct\<close> (the code's search is an instance).
  \<^item> \<open>Secp256k1\<close> (secp256k1.py), \<open>Evidence\<close> (evidence.py), \<open>Assets\<close> (assets.py).
  \<^item> \<open>Ledger\<close> (ledger.py), \<open>Ledger_Correct\<close>, \<open>Ledger_Builder\<close> (its state machine and invariants),
    \<open>Ledger_Codec\<close> (records to JSON and back).
  \<^item> \<open>Context_Evidence\<close> (context_evidence.py), \<open>Opportunity\<close> (opportunity.py), \<open>Execution_Plan\<close>
    (execution_plan.py), \<open>Cost_Evidence\<close> (cost_evidence.py), \<open>Deployments\<close> (deployments.py).
  \<^item> \<open>Evm_Abi\<close> (evm_abi.py), \<open>Evm_Transaction\<close> (evm_transaction.py), \<open>Signed_Transaction\<close>
    (signed_transaction.py), \<open>Evm_Receipt\<close> (evm_receipt.py), \<open>Execution_Package\<close>
    (execution_package.py), \<open>Relay_Evidence\<close> (relay_evidence.py), \<open>Execution_Outcome\<close>
    (execution_outcome.py), \<open>Historical_Scoreboard\<close> (historical_scoreboard.py); the lemmas on the
    last parts are in \<open>Execution_Correct\<close> (receipts, settlement, gas), \<open>Calldata_Correct\<close> (the
    executor's calldata), \<open>Transaction_Correct\<close> (transactions, signatures, bundles) and \<open>Scoreboard_Correct\<close>.
  \<^item> \<open>Examples\<close>, \<open>Examples_Pools\<close>, \<open>Examples_Ledger\<close>: concrete inputs at which the hypotheses of
    the properties hold.

  Conventions: a dataclass is a record and \<open>X_post_init\<close> its constructor's checks, returning the
  object with its computed fields set; the fields with a fixed schema string are constants of the
  model; \<open>X_to_json\<close> is \<open>to_json_value\<close>; a digest of an object whose constructor has checked
  that it encodes is the total \<open>json_sha256\<close>, any other is a \<open>result\<close>. Python integers are \<open>int\<close>,
  counts \<open>nat\<close>, Keccak and SHA-256 work on words, text is the list of its UTF-8 bytes (a lone
  surrogate has no such form). Checks of exact Python types are the types of the model.

  Interfaces: \<open>codec\<close> (an encoder and a decoder that invert each other, interpreted by RLP and by
  hex-prefix paths), \<open>digest_function\<close> (both hash functions), \<open>dictionary\<close>
  (Python dictionaries), \<open>min_queue\<close> (a priority queue, interpreted by the heap) and
  \<open>bounded_search\<close> (branch and bound, interpreted by the optimiser's bound).

  Fuel: RLP decoding gets twice the length of its input plus one, the trie walk one more than
  the nibbles of the key, the JSON parser twice the length of its text plus two; each is proved
  to be enough (\<open>rlp_decode_errors\<close>, \<open>verify_mpt_proof_in_fuel\<close>, \<open>json_loads_dump\<close>). The route
  search and the optimiser recurse on measures and need none.

  Not modelled: reading and writing files (io.py, ledger_io.py: descriptors, locks, directory
  entries, atomic replacement, all of it operating-system calls), the command line of
  \<open>__main__.py\<close>, the re-exports of \<open>__init__.py\<close> and state_proof.py, and the repository's
  maintenance scripts, which inspect files and git rather than compute for the engine.
\<close>

section \<open>The optimiser\<close>

text \<open>
  C1. On a validated route and governed limits the branch-and-bound optimiser always returns
  (it never raises, so every result it builds passes the checks of its constructor), and the
  result meets the specification of its status: complete means the least input with the
  greatest exact profit among all inputs up to the requested maximum, no-valid-input that none
  can be quoted, the two no-positive statuses that none gains, budget-exhausted that none
  gains more than the bound.
\<close>

theorem optimizer_meets_specification:
  assumes "universe_ok u" "route_ok r" "route_validate_against r u = Inr ()" "optimizer_limits_ok lim"
  shows "\<exists>res. optimize_route u r lim = Inr res \<and> optimization_spec u r lim res"
  by (rule optimize_route_ok [OF assms])

theorem optimizer_meets_specification_witness:
  "\<exists>res. optimize_route ex_universe ex_route ex_limits = Inr res \<and> optimization_spec ex_universe ex_route ex_limits res"
  by (rule optimizer_meets_specification [OF ex_universe_ok ex_route_cyclic(1,2) ex_limits_ok])

section \<open>Routes\<close>

text \<open>
  C2. The quote of a route is the composition of the exact swaps of its hops: it succeeds
  exactly when every hop accepts the amount the previous one yields, with the profit
  reconciled and every check of the constructor of route quotes passed, and otherwise it
  raises an arithmetic error and nothing else.
\<close>

theorem route_quote_composes:
  assumes "route_ok r" "route_validate_against r u = Inr ()" "route_hops u (rt_legs r) hops" "0 < x" "x \<le> MAX_UINT256"
  shows "if run_accepts hops x
    then \<exists>q. route_quote_exact_in r u x = Inr q \<and> rq_amount_in q = x \<and> rq_amount_out q = run_out hops x
      \<and> rq_gross_profit q = run_out hops x - x \<and> quotes_chain (rt_legs r) (rq_legs q) x (run_out hops x)
    else \<exists>e. route_quote_exact_in r u x = Inl (ConstantProductArithmeticError e)"
  using route_quote_eq [OF assms] by simp

theorem route_quote_composes_witness:
  "\<exists>q. route_quote_exact_in ex_route ex_universe 100 = Inr q \<and> rq_gross_profit q = 112"
  using route_quote_composes [OF ex_route_cyclic(1,2) ex_hops_ok, of 100] ex_hops_run by (auto simp: MAX_UINT256_def)

text \<open>
  C3. The binary search for the greatest safe input of a route ends and is exact: up to the
  requested maximum, an input has a quote exactly when it is at most the result.
\<close>

theorem route_maximum_exact:
  assumes "universe_ok u" "route_ok r" "route_validate_against r u = Inr ()" "0 \<le> requested" "requested \<le> MAX_UINT256"
  shows "\<exists>m. route_maximum_safe_input r u requested = Inr m \<and> 0 \<le> m \<and> m \<le> requested
    \<and> (\<forall>x \<in> {1..requested}. is_ok (route_quote_exact_in r u x) \<longleftrightarrow> x \<le> m)"
proof -
  obtain hops where hops: "route_hops u (rt_legs r) hops" using validated_hops [OF assms(1,3)] by blast
  obtain m where m: "route_maximum_safe_input r u requested = Inr m" "0 \<le> m" "m \<le> requested"
    "\<forall>x. 0 < x \<and> x \<le> requested \<longrightarrow> (run_accepts hops x \<longleftrightarrow> x \<le> m)"
    using route_maximum_eq [OF assms(2,3) hops assms(4,5)] by blast
  have "is_ok (route_quote_exact_in r u x) \<longleftrightarrow> x \<le> m" if "x \<in> {1..requested}" for x
    using route_quote_eq [OF assms(2,3) hops, of x] m(4) that assms(5) by (auto simp: is_ok_iff)
  then show ?thesis using m(1-3) by blast
qed

theorem route_maximum_exact_witness:
  "\<exists>m. route_maximum_safe_input ex_route ex_universe 500 = Inr m
    \<and> (\<forall>x \<in> {1..500}. is_ok (route_quote_exact_in ex_route ex_universe x) \<longleftrightarrow> x \<le> m)"
  using route_maximum_exact [OF ex_universe_ok ex_route_cyclic(1,2), of 500] by (auto simp: MAX_UINT256_def)

text \<open>
  C4. The continuous bound of the optimiser is safe: with the coefficients of a route, the
  bound of an interval of inputs exists and no exact quote inside the interval has a greater
  profit, whichever of the three cases (rising, falling, interior maximum with the rounded-
  down square root) the bound comes from.
\<close>

theorem continuous_bound_safe:
  assumes "universe_ok u" "route_ok r" "route_quote_exact_in r u x = Inr q" "1 \<le> lo" "lo \<le> x" "x \<le> hi" "x \<le> MAX_UINT256"
  shows "\<exists>a b c bound. continuous_coefficients r u = Inr (a, b, c)
    \<and> governed_interval_continuous_upper a b c lo hi = Inr bound \<and> rq_gross_profit q \<le> bound"
proof -
  have valid: "route_validate_against r u = Inr ()" using assms(3) by (auto simp: route_quote_exact_in_def)
  obtain hops where hops: "route_hops u (rt_legs r) hops" using validated_hops [OF assms(1) valid] by blast
  have x: "0 < x" using assms(4,5) by simp
  have profit: "rq_gross_profit q = run_out hops x - x"
    using route_quote_eq [OF assms(2) valid hops x assms(7)] assms(3) by (cases "run_accepts hops x") auto
  obtain a b c where abc: "continuous_coefficients r u = Inr (a, b, c)" and pos: "0 < a" "0 < b" "0 < c"
    and out: "run_out hops x * (b + c * x) \<le> a * x" using route_coefficients [OF assms(2) valid hops] x by auto
  have "lo \<le> hi" using assms(5,6) by simp
  from governed_upper [OF pos assms(4) this] obtain p where p: "interval_continuous_upper a b c lo hi = Inr p"
    "governed_interval_continuous_upper a b c lo hi = Inr (min p MAX_UINT256)" by blast
  have "0 < b + c * x" using pos x by (simp add: add_pos_pos)
  then have "run_out hops x - x \<le> p"
    by (rule exact_profit_le [OF _ out interval_upper_safe [OF pos assms(4-6) p(1)]])
  moreover have "run_out hops x \<le> MAX_UINT256" using run_out_range [OF hops _ assms(7)] x by simp
  ultimately show ?thesis using abc p(2) profit x by auto
qed

theorem continuous_bound_safe_witness:
  "\<exists>q a b c bound. route_quote_exact_in ex_route ex_universe 100 = Inr q
    \<and> continuous_coefficients ex_route ex_universe = Inr (a, b, c)
    \<and> governed_interval_continuous_upper a b c 1 500 = Inr bound \<and> rq_gross_profit q \<le> bound"
  using ex_route_quote continuous_bound_safe [OF ex_universe_ok ex_route_cyclic(1), of 100 _ 1 500]
  by (auto simp: MAX_UINT256_def)

text \<open>
  C5. The enumeration of simple cycles is exact: what the depth-first search returns is, by
  digest and without duplicates and in digest order, the set of all routes through the
  universe that the constructor of routes accepts, that the universe validates, that start at
  the base token and that have at most the given number of hops.
\<close>

theorem enumeration_exact:
  assumes "universe_wf u" "pu_digest u = Inr d" "enumerate_simple_cycles u base h = Inr routes"
  shows "set routes \<subseteq> cyclic_routes u base h \<and> rt_digest ` set routes = rt_digest ` cyclic_routes u base h
    \<and> sorted_wrt (<) (map rt_digest routes) \<and> length routes \<le> MAX_ENUMERATED_ROUTES"
  by (rule enumerate_simple_cycles_exact [OF assms])

theorem enumeration_exact_witness:
  "\<exists>routes. enumerate_simple_cycles ex_universe (replicate 20 3) 2 = Inr routes
    \<and> rt_digest ex_route \<in> rt_digest ` set routes"
proof -
  obtain d where d: "pu_digest ex_universe = Inr d" using ex_universe_digest by blast
  obtain routes where routes: "enumerate_simple_cycles ex_universe (replicate 20 3) 2 = Inr routes"
    using ex_enumeration by blast
  have "ex_route \<in> cyclic_routes ex_universe (replicate 20 3) 2"
    using ex_route_cyclic by (simp add: cyclic_routes_def ex_route_def ex_legs_def)
  then show ?thesis using enumeration_exact [OF ex_universe_wf d routes] routes by blast
qed

text \<open>
  C6. On a well-formed universe the enumeration can fail only at one of its two governed
  ceilings, the number of steps or the number of routes: every route the search closes passes
  the checks of the constructor.
\<close>

theorem enumeration_errors:
  assumes "universe_wf u" "pu_digest u = Inr d" "length base = 20" "base \<noteq> zero_bytes 20"
    and "MIN_ROUTE_HOPS \<le> h" "h \<le> MAX_ROUTE_HOPS"
  shows "case enumerate_simple_cycles u base h of
      Inr routes \<Rightarrow> length routes \<le> MAX_ENUMERATED_ROUTES
    | Inl e \<Rightarrow> e = STEPS_CEILING \<or> e = ROUTES_CEILING"
  using enumerate_simple_cycles_errors [OF assms] enumerate_simple_cycles_exact [OF assms(1,2)]
  by (cases "enumerate_simple_cycles u base h") auto

theorem enumeration_errors_witness:
  "case enumerate_simple_cycles ex_universe (replicate 20 3) 2 of
      Inr routes \<Rightarrow> length routes \<le> MAX_ENUMERATED_ROUTES
    | Inl e \<Rightarrow> e = STEPS_CEILING \<or> e = ROUTES_CEILING"
proof -
  obtain d where d: "pu_digest ex_universe = Inr d" using ex_universe_digest by blast
  have "replicate 20 3 \<noteq> zero_bytes 20" by code_simp
  then show ?thesis using enumeration_errors [OF ex_universe_wf d, of "replicate 20 3" 2]
    by (simp add: MIN_ROUTE_HOPS_def MAX_ROUTE_HOPS_def)
qed

section \<open>Block heads\<close>

text \<open>
  C7. Every transition a reachable head tracker emits is true of the blocks it has seen: it
  starts at the tracker's head and ends at its new one, the removed hashes are a parent-linked
  path from the old head down to the common ancestor, the added hashes (read backwards) one
  from the new head down to it, the two are disjoint, only a bootstrap or an orphan has no
  ancestor, and an orphan changes nothing but the sequence.
\<close>

theorem head_transition_sound:
  assumes "tracker_reachable tr" "HeadTracker_apply tr env = Inr (t, tr')"
  shows "transition_sound tr t tr'"
proof -
  obtain head where "apply_head tr env head = Inr (t, tr')" "head_ok head"
    using HeadTracker_apply_Inr [OF assms(2)] by metis
  then show ?thesis using apply_head_sound tracker_reachable_inv [OF assms(1)] by blast
qed

theorem head_transition_sound_witness:
  "\<exists>t tr'. HeadTracker_apply genesis_tracker child_envelope = Inr (t, tr') \<and> transition_sound genesis_tracker t tr'"
  using head_transition_sound [OF genesis_tracker_reachable] child_applied by blast

text \<open>
  C8. Every reachable head tracker serves a governed full head stream of its source contract,
  stores at most the governed number of heads, each one a valid head of its own chain and
  source under its own hash and with a sequence not above the last one, knows its current
  head, and never stores the zero hash.
\<close>

theorem head_tracker_invariant:
  assumes "tracker_reachable tr"
  shows "tracker_inv tr \<and> dict_get (ht_nodes tr) ZERO_BLOCK_HASH = None \<and> tracked_head_count tr \<le> MAX_TRACKED_HEADS"
  using tracker_reachable_inv [OF assms] tracker_inv_zero by (auto simp: tracker_inv_def tracked_head_count_def)

theorem head_tracker_invariant_witness:
  "tracker_inv genesis_tracker \<and> tracked_head_count genesis_tracker = 1"
  using head_tracker_invariant [OF genesis_tracker_reachable] genesis_tracker_count by simp

text \<open>
  C9. A reachable tracker accepts a head of its stream exactly when the sequence advances, a
  known hash comes with the same metadata, the node ceiling leaves room, a known parent fits
  by number and time, and the path to a new tip removes at least one block unless the head
  extends the current one directly. (The last condition is the constructor of transitions
  refusing a fork whose ancestor is the current head itself, which rejects a valid descendant
  reached through a tracked block after a rollback.)
\<close>

theorem head_accepted_exactly:
  assumes "tracker_reachable tr" "EvmHead_from_observation env = Inr head" "envelope_digest env = Inr d"
    and "oe_chain env = ht_chain tr" "oe_source_id env = ht_source_id tr" "oe_kind env = ht_observation_kind tr"
      "oe_finality env = ht_finality tr" "oe_visibility env = FULL"
  shows "is_ok (HeadTracker_apply tr env) \<longleftrightarrow> head_acceptable tr head"
proof -
  note head = EvmHead_from_observation_Inr [OF assms(2)]
  have "is_ok (apply_head tr env head) \<longleftrightarrow> head_acceptable tr head"
    using apply_head_accepts [OF tracker_reachable_inv [OF assms(1)] _ _ assms(3)] head by blast
  then show ?thesis using assms(2,4-8) by (simp add: HeadTracker_apply_def)
qed

theorem head_accepted_exactly_witness:
  "is_ok (HeadTracker_apply genesis_tracker child_envelope)"
proof -
  obtain d where d: "envelope_digest child_envelope = Inr d" using example_digests(2) by (auto simp: is_ok_iff)
  show ?thesis
    using head_accepted_exactly [OF genesis_tracker_reachable child_head d] child_acceptable
    by (simp add: genesis_tracker_def fresh_tracker_def store_head_def)
qed

section \<open>The observation ledger\<close>

text \<open>
  C10. A validated chain of segments has no gap and no replay: the events of each source, over
  all segments in order, carry exactly the sequences 0, 1, 2, ... and never go back in
  observation time.
\<close>

theorem chain_sequences_gapless:
  fixes s :: string
  assumes "validate_segment_chain segs = Inr u" "list_all segment_ok segs"
  shows "let es = source_events s (concat (map segment_events segs)) in
    map oe_source_sequence es = [0..int (length es) - 1] \<and> sorted (map oe_observed_at_unix_ms es)"
  using chain_gapless [OF assms, of s] by (simp add: Let_def)

theorem chain_sequences_gapless_witness:
  "\<exists>d. validate_segment_chain [first_segment d] = Inr ()
    \<and> map oe_source_sequence (source_events ''ethereum-json-rpc'' (segment_events (first_segment d))) = [0]"
proof -
  obtain d where d: "segment_ok (first_segment d)" using first_segment_sealed by blast
  note chain = first_segment_chain [OF d]
  have "source_events ''ethereum-json-rpc'' (segment_events (first_segment d)) = [first_envelope]"
    by (simp add: segment_events_def first_segment_def first_record_def) (simp add: first_envelope_def head_envelope_def)
  then show ?thesis
    using chain chain_sequences_gapless [OF chain, where s = "''ethereum-json-rpc''"] d by (auto simp: Let_def)
qed

text \<open>
  C11. A reachable builder that is the genesis or linked to a previous segment can be sealed
  exactly when it is not sealed yet, holds a record, every record has a digest and none was
  observed after the creation time; sealing then yields a valid segment of exactly its records
  and closes the builder.
\<close>

theorem ledger_builder_can_seal:
  assumes "builder_reachable b" "genesis_or_linked b"
  shows "if \<not> lb_sealed b \<and> lb_records b \<noteq> [] \<and> list_all (\<lambda>r. is_ok (record_sha256 r)) (lb_records b)
      \<and> list_all (\<lambda>r. oe_observed_at_unix_ms (lr_envelope r) \<le> lb_created_at_unix_ms b) (lb_records b)
    then \<exists>seg. LedgerBuilder_seal b = Inr (b\<lparr>lb_sealed := True\<rparr>, seg) \<and> segment_ok seg \<and> os_records seg = lb_records b
    else \<not> is_ok (LedgerBuilder_seal b)"
  using seal_iff [OF builder_reachable_inv [OF assms(1)] assms(2)] seal_reached [OF builder_reachable_inv [OF assms(1)] assms(2)]
  by simp

theorem ledger_builder_can_seal_witness:
  "\<exists>seg. LedgerBuilder_seal (one_builder first_envelope) = Inr ((one_builder first_envelope)\<lparr>lb_sealed := True\<rparr>, seg)
    \<and> os_records seg = [first_record first_envelope]"
proof -
  have "is_ok (record_sha256 (first_record first_envelope))" using first_record_digest by (simp add: is_ok_iff)
  then show ?thesis using ledger_builder_can_seal [OF one_builder_reachable] by auto
qed

text \<open>
  C12. A valid segment survives its file format: what the serialiser writes (one canonical
  JSON line per record, then the manifest), the parser reads back as the same segment, with
  every digest checked on the way.
\<close>

theorem segment_round_trip:
  assumes "segment_ok seg" "list_all (\<lambda>r. envelope_text_ok (lr_envelope r)) (os_records seg)"
    and "serialize_segment seg = Inr payload"
  shows "parse_segment payload = Inr seg"
  by (rule segment_roundtrip [OF assms])

theorem segment_round_trip_witness:
  "\<exists>d payload. serialize_segment (first_segment d) = Inr payload \<and> parse_segment payload = Inr (first_segment d)"
proof -
  obtain d where d: "record_sha256 (first_record first_envelope) = Inr d" "length d = 64" "segment_ok (first_segment d)"
    using first_segment_sealed by blast
  obtain payload where payload: "serialize_segment (first_segment d) = Inr payload"
    using first_segment_serialized [OF d(1,2)] by blast
  have "list_all (\<lambda>r. envelope_text_ok (lr_envelope r)) (os_records (first_segment d))"
    using first_envelope_text by (simp add: first_segment_def)
  from segment_round_trip [OF d(3) this payload] payload show ?thesis by blast
qed

text \<open>
  C13. The segment digest commits to the whole segment: two valid segments with the same
  digest are equal in every record, envelope and manifest field, or SHA-256 collides on two of
  the texts the two segments hash.
\<close>

theorem segment_tamper_evident:
  assumes "segment_ok a" "segment_ok b"
    and "list_all (\<lambda>r. envelope_text_ok (lr_envelope r)) (os_records a @ os_records b)"
    and "segment_sha256 (os_manifest a) = Inr d" "segment_sha256 (os_manifest b) = Inr d"
  shows "if a = b then True
    else \<exists>x y. {x, y} \<subseteq> set (hashed_texts a @ hashed_texts b) \<and> x \<noteq> y \<and> sha256 x = sha256 y"
  using segment_committed [OF assms] by (auto simp: inj_on_def)

theorem segment_tamper_evident_witness:
  "\<exists>d e. segment_ok (first_segment d) \<and> segment_sha256 (os_manifest (first_segment d)) = Inr e
    \<and> (if first_segment d = first_segment d then True
       else \<exists>x y. {x, y} \<subseteq> set (hashed_texts (first_segment d) @ hashed_texts (first_segment d)) \<and> x \<noteq> y \<and> sha256 x = sha256 y)"
proof -
  obtain d where d: "record_sha256 (first_record first_envelope) = Inr d" "length d = 64" "segment_ok (first_segment d)"
    using first_segment_sealed by blast
  obtain e where e: "segment_sha256 (os_manifest (first_segment d)) = Inr e" using first_segment_digest [OF d(2)] by blast
  have "list_all (\<lambda>r. envelope_text_ok (lr_envelope r)) (os_records (first_segment d) @ os_records (first_segment d))"
    using first_envelope_text by (simp add: first_segment_def)
  from segment_tamper_evident [OF d(3) d(3) this e e] d(3) e show ?thesis by blast
qed

text \<open>
  C14. The builder accepts an envelope whose payload is nested so deep that its record has no
  digest, and is stuck from then on: neither another append nor sealing ever succeeds.
\<close>

theorem ledger_builder_gets_stuck:
  assumes "LedgerBuilder_append e b = Inr (b', r)" "envelope_payload e = Inr kvs"
    and "DEFAULT_MAX_DEPTH < json_depth (JObj kvs) + 2"
  shows "\<not> is_ok (LedgerBuilder_append e' b') \<and> \<not> is_ok (LedgerBuilder_seal b')"
proof -
  have "lr_envelope r = e" using assms(1) by (auto simp: LedgerBuilder_append_Inr)
  then have "\<not> is_ok (record_sha256 r)" using deep_record_undigested [of r] assms(2,3) by simp
  then show ?thesis using undigested_record_blocks [OF assms(1)] by blast
qed

theorem ledger_builder_gets_stuck_witness:
  "envelope_ok deep_envelope \<and> is_ok (LedgerBuilder_append deep_envelope empty_builder)
    \<and> \<not> is_ok (LedgerBuilder_seal (one_builder deep_envelope))"
  using ledger_builder_gets_stuck [OF deep_appended deep_payload] deep_depth deep_appended deep_envelope_ok
  by (simp add: DEFAULT_MAX_DEPTH_def is_ok_iff)

section \<open>Signatures\<close>

text \<open>
  C15. The curve operations are closed: on points of the curve (or infinity) addition and
  multiplication by a scalar up to the group order give points of the curve or infinity, so
  the constructor of their result never refuses it; the only exception they can raise is the
  one of an inverse that does not exist, and negation raises none.
\<close>

theorem curve_operations_closed:
  assumes "opt_point_ok p" "opt_point_ok q" "0 \<le> k" "k \<le> GROUP_ORDER"
  shows "(case point_add p q of Inr r \<Rightarrow> opt_point_ok r | Inl e \<Rightarrow> e = NOT_INVERTIBLE)
    \<and> (case scalar_multiply k p of Inr r \<Rightarrow> opt_point_ok r | Inl e \<Rightarrow> e = NOT_INVERTIBLE)
    \<and> (\<exists>r. point_negate p = Inr r \<and> opt_point_ok r)"
  using point_add_ok scalar_multiply_ok point_negate_ok assms by blast

theorem curve_operations_closed_witness:
  "\<exists>r. point_negate (Some GENERATOR) = Inr r \<and> opt_point_ok r"
  using curve_operations_closed [of "Some GENERATOR" "Some GENERATOR" 2] GENERATOR_ok by (simp add: GROUP_ORDER_def)

text \<open>
  C16. Public-key recovery is sound: whatever the message, the scalars and the parity, it
  returns at most two keys, distinct and in order, each a point of the curve under which the
  signature verifies, or it raises a ValueError and nothing else.
\<close>

theorem recovered_keys_verify:
  "case recover_public_keys h r s par of
     Inr keys \<Rightarrow> recovered_ok h r s keys \<and> sorted (map (\<lambda>p. (pt_x p, pt_y p)) keys) \<and> length keys \<le> 2
   | Inl e \<Rightarrow> is_value_error e"
  by (rule recover_public_keys_ok)

section \<open>Execution\<close>

text \<open>
  C17. A constructed executor call protects its principal: the calldata's words read back as
  the principal, the minimum output and the deadline; the minimum output covers the principal,
  every cost of the envelope and the greater of the two profits the policy asks for, it is
  within the slippage allowance and never above the quoted output; the payload in the calldata
  passes the route validator for exactly these amounts; and the deadline lies after the
  creation and before the inputs expire.
\<close>

theorem executor_call_protects_principal:
  "case GovernedExecutorCall_post_init self of Inl _ \<Rightarrow> True | Inr call \<Rightarrow>
    (let evidence = gc_net_profit_evidence call; calldata = gc_calldata call; payload = gc_route_payload call;
         principal_amount = capital_at_risk (pl_opportunity (ne_plan evidence));
         quoted = rq_amount_out (op_route_quote (pl_opportunity (ne_plan evidence)));
         minimum_final = gc_minimum_final_output call in
     from_bytes_be (slice 68 100 calldata) = principal_amount
     \<and> from_bytes_be (slice 100 132 calldata) = minimum_final
     \<and> from_bytes_be (slice 132 164 calldata) = gc_deadline_unix_s call
     \<and> slice 228 (228 + length payload) calldata = payload
     \<and> validate_governed_route_payload payload (slice 48 68 calldata) principal_amount minimum_final = Inr payload
     \<and> principal_amount + total_cost (ce_costs (ne_cost_envelope evidence)) + required_profit evidence \<le> minimum_final
     \<and> 0 \<le> total_cost (ce_costs (ne_cost_envelope evidence)) \<and> 0 \<le> required_profit evidence
     \<and> quoted * (BASIS_POINTS - cp_maximum_slippage_bps (gc_constraints call)) \<le> minimum_final * BASIS_POINTS
     \<and> minimum_final \<le> quoted
     \<and> gc_created_at_unix_ms call div 1000 < gc_deadline_unix_s call
     \<and> gc_deadline_unix_s call * 1000 \<le> ne_inputs_valid_until_unix_ms evidence)"
proof (cases "GovernedExecutorCall_post_init self")
  case (Inr call)
  note made = executor_call_Inr [OF Inr]
  obtain selector plan base where
    "encode_governed_execute_call selector plan base
       (capital_at_risk (pl_opportunity (ne_plan (gc_net_profit_evidence call))))
       (gc_minimum_final_output call) (gc_deadline_unix_s call) (gc_route_payload call) = Inr (gc_calldata call)"
    using made(3) by blast
  note encoded = encode_call_Inr [OF this]
  note amounts = call_minimum_final_Inr [OF made(2) refl, folded made(7,9)]
  have "length base = 20" using encoded(5) by (simp add: is_address_def)
  note read = call_encoding_words [OF encoded(3,4) this _ _ _ encoded(8) _ encoded(10,1)]
  show ?thesis
    unfolding Inr sum.case Let_def using encoded(2,6-9) read amounts made(4,5) by simp
qed simp

text \<open>
  C18. The route-payload validator accepts exactly the binary frames of governed cycles: two
  to four commands with distinct pools and valid fields, that start with the principal in the
  base token, hand each output on as the next input, never revisit a token, and end in the
  base token with exactly the minimum output; what it returns is the payload itself.
\<close>

theorem route_payload_exact:
  "validate_governed_route_payload payload base principal_amount minimum_final = Inr result \<longleftrightarrow>
    result = payload \<and> (\<exists>commands. 2 \<le> length commands \<and> length commands \<le> 4 \<and> payload = payload_frame commands
      \<and> list_all command_ok commands \<and> distinct (map command_pool commands)
      \<and> governed_cycle base principal_amount minimum_final (map fst commands))"
  by (rule validate_payload_Inr)

text \<open>
  C19. A constructed unsigned transaction can be paid and is what it signs: its intrinsic gas
  is the exact cost of its calldata and fits in the gas limit, the gas at the fee cap with the
  value, the L1 fee and the operator fee is within the authenticated balance of the sender,
  and the payload that is hashed is the type byte and the canonical RLP of exactly its nine
  fields.
\<close>

theorem unsigned_transaction_funded:
  "case UnsignedEip1559Transaction_post_init self of Inl _ \<Rightarrow> True | Inr tx \<Rightarrow>
    ut_intrinsic_gas tx = BASE_INTRINSIC_GAS + data_gas (ut_data tx) \<and> ut_intrinsic_gas tx \<le> ut_gas_limit tx
    \<and> ut_maximum_upfront_native tx = native_bound tx \<and> native_bound tx \<le> ss_balance (ut_sender_state tx)
    \<and> ut_signing_hash tx = keccak256 (ut_signing_payload tx) \<and> hd (ut_signing_payload tx) = 2
    \<and> (\<exists>chain_id. ut_chain_id tx = Inr chain_id
        \<and> rlp_decode (tl (ut_signing_payload tx)) = Inr (RList (signed_fields tx chain_id)))"
proof (cases "UnsignedEip1559Transaction_post_init self")
  case (Inr tx)
  note made = unsigned_transaction_Inr [OF Inr]
  show ?thesis unfolding Inr sum.case using made(3-8) made(9) by (auto simp: rlp.decode_iff)
qed simp

text \<open>
  C20. A constructed signed transaction is genuine: some point of the curve whose address is
  the authenticated sender verifies the signature over the signing hash, and the raw
  transaction is the type byte and RLP that decodes to exactly the nine signed fields and the
  three of the signature, so what is broadcast is what was signed.
\<close>

theorem signed_transaction_genuine:
  "case SignedEip1559TransactionEvidence_post_init self of Inl _ \<Rightarrow> True | Inr tx \<Rightarrow>
    sx_recovered_sender tx = ut_sender (sx_unsigned_transaction tx)
    \<and> (\<exists>key. point_ok key \<and> public_key_to_address key = sx_recovered_sender tx
        \<and> verify_signature (ut_signing_hash (sx_unsigned_transaction tx)) (sg_r (sx_signature tx))
            (sg_s (sx_signature tx)) key = Inr True)
    \<and> sx_transaction_hash tx = keccak256 (sx_raw_transaction tx) \<and> hd (sx_raw_transaction tx) = 2
    \<and> (\<exists>chain_id. ut_chain_id (sx_unsigned_transaction tx) = Inr chain_id
        \<and> rlp_decode (tl (sx_raw_transaction tx))
          = Inr (RList (signed_fields (sx_unsigned_transaction tx) chain_id @ signature_fields (sx_signature tx))))"
proof (cases "SignedEip1559TransactionEvidence_post_init self")
  case (Inr tx)
  note made = signed_transaction_Inr [OF Inr]
  show ?thesis unfolding Inr sum.case using made(3-6) made(7) by (auto simp: rlp.decode_iff)
qed simp

text \<open>
  C21. A constructed bundle is one executable sequence: between one and the governed number of
  transactions of one sender on one chain, with distinct signing hashes, whose nonces run
  without a gap from the authenticated nonce, whose upfront amounts together fit the
  authenticated balance, and whose block range follows the proved block within the governed
  distance.
\<close>

theorem bundle_is_executable:
  "case PrivateBundleIntent_post_init self of Inl _ \<Rightarrow> True | Inr bundle \<Rightarrow>
    (let txs = bi_transactions bundle; state = ut_sender_state (hd txs);
         block = an_block_number (ev_anchor (ss_evidence state)) in
     txs \<noteq> [] \<and> length txs \<le> MAX_BUNDLE_TRANSACTIONS
     \<and> list_all (\<lambda>tx. ut_sender tx = bi_sender bundle \<and> ut_chain tx = bi_chain bundle) txs
     \<and> map ut_nonce txs = map (\<lambda>k. ss_nonce state + int k) [0 ..< length txs]
     \<and> distinct (map ut_signing_hash txs)
     \<and> bi_maximum_bundle_upfront_native bundle = sum_list (map ut_maximum_upfront_native txs)
     \<and> bi_maximum_bundle_upfront_native bundle \<le> ss_balance state
     \<and> block < bi_target_block_number bundle \<and> bi_target_block_number bundle \<le> bi_maximum_block_number bundle
     \<and> bi_maximum_block_number bundle \<le> block + MAX_TARGET_BLOCK_DISTANCE)"
proof (cases "PrivateBundleIntent_post_init self")
  case (Inr intent)
  note made = bundle_intent_Inr [OF Inr]
  show ?thesis unfolding Inr sum.case Let_def made(1) using made(2-11) by blast
qed simp

text \<open>
  C22. Receipt decoding is exact: bytes decode to a receipt exactly when the receipt's raw
  bytes are those bytes and the receipt and its logs are values their constructors accept, so
  the decoder and the re-encoding in the constructor invert each other, for legacy and for
  typed receipts.
\<close>

theorem receipt_decode_exact:
  "EvmTransactionReceipt_decode b = Inr r \<longleftrightarrow>
    rx_raw_receipt r = b \<and> list_all (\<lambda>e. EvmLogEntry_post_init e = Inr e) (rx_logs r)
    \<and> EvmTransactionReceipt_post_init r = Inr r"
  using decoded_receipt decode_of_encoded by blast

text \<open>
  C23. The logs bloom of a receipt has exactly the bits the yellow paper asks for: a bit is
  set if and only if one of the addresses or topics of the logs sets it with one of the three
  low eleven-bit pairs of its hash; more logs than the governed ceiling have no bloom.
\<close>

theorem logs_bloom_exact:
  "compute_logs_bloom logs = Inr b \<longleftrightarrow>
    length logs \<le> MAX_RECEIPT_LOGS \<and> length b = LOGS_BLOOM_BYTES
    \<and> (\<forall>i. bit (from_bytes_be b) i \<longleftrightarrow> (\<exists>v\<in>set (logged_values logs). i \<in> bloom_bits v))"
  by (rule compute_logs_bloom_Inr)

text \<open>
  C24. The settlement-event decoder accepts a log exactly when the log is the ABI encoding of
  the event it returns (four topics, five words, the canonical padding of the two addresses),
  the event is bound to the specification, and its amounts balance: gross output is principal,
  fee and residual.
\<close>

theorem settlement_event_exact:
  "sps_decode spec log = Inr ev \<longleftrightarrow>
     event_checked ev \<and> sev_spec_sha256 ev = sps_digest spec
     \<and> sps_topic0 spec = keccak256 (utf8_bytes SETTLEMENT_EVENT_SIGNATURE) \<and> sev_log ev = log
     \<and> log = \<lparr>lg_address = lg_address log, lg_topics = event_topics ev,
              lg_data = concat (map (to_bytes_be 32) (event_words ev))\<rparr>"
  by (rule sps_decode_Inr)

text \<open>
  The gas charged to an included transaction is computed exactly as EIP-1559 asks: it is
  defined when the gas lies between the intrinsic gas and the limit and the fee cap covers the
  base fee, the price is the lesser of base fee plus tip and the cap, and the cost is gas
  times price, never more than the limit times the cap.
\<close>

theorem inclusion_gas_cost_exact:
  "inclusion_gas_cost self receipt gas = Inr (price, cost) \<longleftrightarrow>
    (let base_fee = bk_base_fee_per_gas (ab_block (inc_block self));
         tip = ut_max_priority_fee_per_gas (included_transaction self);
         max_fee = ut_max_fee_per_gas (included_transaction self) in
     0 < gas \<and> gas \<le> MAX_UINT256 \<and> rx_cumulative_gas_used receipt \<le> bk_gas_used (ab_block (inc_block self))
     \<and> ut_intrinsic_gas (included_transaction self) \<le> gas \<and> gas \<le> ut_gas_limit (included_transaction self)
     \<and> 0 \<le> base_fee \<and> base_fee \<le> max_fee \<and> 0 \<le> min tip (max_fee - base_fee)
     \<and> price = min (base_fee + tip) max_fee \<and> price \<le> MAX_UINT256
     \<and> cost = gas * price \<and> cost \<le> MAX_UINT256
     \<and> cost \<le> ut_gas_limit (included_transaction self) * max_fee)"
  using inclusion_cost_bounded [of self receipt gas price cost]
  by (auto simp: inclusion_gas_cost_iff Let_def)

section \<open>The historical scoreboard\<close>

text \<open>
  C25. A research promotion is allowed exactly when every threshold of the policy is met by
  the scoreboard, the expected value and every non-empty calibration bucket; a refused one
  carries its reasons, and the three parts of a decision are bound to the same scoreboard.
\<close>

theorem promotion_allowed_exactly:
  "case ResearchPromotionDecision_post_init d of Inl _ \<Rightarrow> True | Inr r \<Rightarrow>
    (rd_allowed r \<longleftrightarrow> thresholds_met d) \<and> (rd_allowed r \<longleftrightarrow> rd_reasons r = [])
    \<and> hs_digest (kr_scoreboard (rd_calibration d)) = hs_digest (rd_scoreboard d)
    \<and> hs_digest (hv_scoreboard (rd_expected_value d)) = hs_digest (rd_scoreboard d)"
  by (auto split: sum.split dest: promotion_decision_Inr)

text \<open>
  C26. The guarded mean of a scoreboard of constructed records is conservative twice over:
  times the number of scoreable records it exceeds neither the surplus that was realised nor
  the profit that had been predicted, since the mean rounds down and the mean error it
  subtracts rounds up.
\<close>

theorem guarded_mean_conservative:
  "case rmap HistoricalExecutionRecord_post_init xs of Inl _ \<Rightarrow> True | Inr records \<Rightarrow>
   (case scoreboard_metrics records of Inl _ \<Rightarrow> True | Inr metrics \<Rightarrow>
     metric metrics ''guarded_mean_historical_surplus_floor'' * metric metrics ''scoreable_count''
       \<le> metric metrics ''historical_conservative_surplus_sum''
     \<and> metric metrics ''guarded_mean_historical_surplus_floor'' * metric metrics ''scoreable_count''
       \<le> metric metrics ''predicted_conservative_net_profit_sum'')"
  by (auto split: sum.split dest: constructed_records_reconciled guarded_mean_bounds)

text \<open>
  C27. A calibration report partitions the scoreboard: under an accepted policy there is one
  bucket more than there are bounds, each counts exactly the records whose predicted return
  lies in its range, and the counts add up to all records, so every record is counted once.
\<close>

theorem calibration_partitions:
  "case rbind (CalibrationPolicy_post_init p) (\<lambda>policy. HistoricalCalibrationReport_post_init (self\<lparr>kr_policy := policy\<rparr>)) of
     Inl _ \<Rightarrow> True
   | Inr report \<Rightarrow> length (kr_buckets report) = length (kp_predicted_return_upper_bounds_bps p) + 1
     \<and> map kb_attempt_count (kr_buckets report)
       = map (\<lambda>bucket. count_of (in_bucket bucket) (hs_records (kr_scoreboard self))) (kr_buckets report)
     \<and> sum_list (map kb_attempt_count (kr_buckets report)) = int (length (hs_records (kr_scoreboard self)))"
proof -
  have same: "CalibrationPolicy_post_init p = Inr policy \<Longrightarrow> policy = p" for policy
    by (auto simp: CalibrationPolicy_post_init_def Let_def guard_Inr jchecked_Inr split del: if_split)
  show ?thesis
  proof (cases "rbind (CalibrationPolicy_post_init p) (\<lambda>policy. HistoricalCalibrationReport_post_init (self\<lparr>kr_policy := policy\<rparr>))")
    case (Inr report)
    then have "CalibrationPolicy_post_init p = Inr p" "HistoricalCalibrationReport_post_init (self\<lparr>kr_policy := p\<rparr>) = Inr report"
      by (auto dest: same)
    from calibration_report_Inr [of p "self\<lparr>kr_policy := p\<rparr>", simplified, OF this] show ?thesis
      unfolding Inr sum.case by simp
  qed simp
qed

section \<open>Risk\<close>

text \<open>
  C28. The complete transition relation of the operating-mode governor: which event moves
  which mode to which, under which recorded evidence; every other combination is rejected.
\<close>

theorem governor_transition_relation:
  "governor_apply mode event ctx = Inr mode' \<longleftrightarrow>
    (event \<in> {INVARIANT_BREACH, SIGNER_ANOMALY, DAILY_LOSS_LIMIT} \<and> mode' = HALTED)
    \<or> (event \<in> {DATA_MISMATCH, SERVICE_DEGRADED} \<and>
         mode' = (if mode \<in> {STOPPED, HALTED} then mode else DEGRADED))
    \<or> (event = STOP \<and> human_approved ctx
         \<and> (mode \<in> {DEGRADED, HALTED} \<longrightarrow> human_evidence ctx \<and> incident_closed ctx) \<and> mode' = STOPPED)
    \<or> (event = BOOTSTRAP_TO_SHADOW \<and> mode = STOPPED \<and> human_evidence ctx \<and> mode' = SHADOW)
    \<or> (event = PROMOTE_TO_CANARY \<and> mode = SHADOW \<and> human_evidence ctx \<and> mode' = CANARY)
    \<or> (event = PROMOTE_TO_LIVE \<and> mode = CANARY \<and> human_evidence ctx \<and> mode' = LIVE)
    \<or> (event = RECOVER_TO_SHADOW \<and> mode \<in> {DEGRADED, HALTED} \<and> human_evidence ctx
         \<and> incident_closed ctx \<and> mode' = SHADOW)"
  by (rule governor_apply_Inr_iff)

theorem governor_transition_relation_witness:
  "governor_apply DEGRADED STOP \<lparr>human_approved = True, acceptance_evidence_valid = True, incident_closed = True\<rparr> = Inr STOPPED"
  by (subst governor_transition_relation) (simp add: human_evidence_def)

text \<open>
  An engine that is live has a history with a canary promotion and, after it, a live
  promotion, both with human approval and valid acceptance evidence; one in canary mode has
  the first.
\<close>

theorem governor_live_needs_promotions:
  assumes "governor_reaches mode history"
  shows "(mode = LIVE \<longrightarrow> promoted_live history) \<and> (mode = CANARY \<longrightarrow> promoted_canary history)"
  by (rule governor_reaches_promoted [OF assms])

theorem governor_live_needs_promotions_witness:
  "promoted_live ([] @ [(BOOTSTRAP_TO_SHADOW, evidence_context)] @ [(PROMOTE_TO_CANARY, evidence_context)]
    @ [(PROMOTE_TO_LIVE, evidence_context)])"
  using governor_live_needs_promotions [OF governor_reaches_live] by simp

text \<open>
  C29. Every ledger reached by reservations and settlements keeps its limits, holds each
  reservation once, with a cost between zero and the single-execution limit, and never
  reserves more than the pending limit or more candidates than allowed.
\<close>

theorem risk_ledger_invariant:
  assumes "ledger_reachable limits l"
  shows "rl_limits l = limits \<and> ledger_inv l"
  using ledger_reachable_inv [OF assms] by blast

theorem risk_ledger_invariant_witness: "ledger_inv (reserved_ledger) \<and> concurrent_candidates reserved_ledger = 1"
  using risk_ledger_invariant [OF reserved_ledger_reachable] by (simp add: reserved_ledger_def concurrent_candidates_def)

text \<open>
  When every settlement loses at most what was reserved for it, the realised loss plus all
  open reservations never exceeds the daily loss limit.
\<close>

theorem risk_exposure_bounded:
  assumes "covered_reachable limits l"
  shows "realized_loss l + reserved_execution_cost l \<le> maximum_daily_loss limits"
  using covered_exposure [OF assms] by (simp add: exposure_def)

theorem risk_exposure_bounded_witness:
  "realized_loss reserved_ledger + reserved_execution_cost reserved_ledger \<le> 10"
  using risk_exposure_bounded [OF reserved_ledger_covered] by (simp add: sample_limits_def)

section \<open>Pools\<close>

text \<open>
  A packed storage field is read as exactly its bits: the word shifted right by the offset and
  reduced modulo the width, defined on the words of 256 bits and on nothing else, and never
  above the capacity of the field.
\<close>

theorem packed_field_extraction:
  "case pf_extract f word of
     Inr v \<Rightarrow> 0 \<le> word \<and> word \<le> MAX_UINT256
       \<and> v = word div 2 ^ nat (pf_bit_offset f) mod 2 ^ nat (pf_bit_width f) \<and> 0 \<le> v \<and> v \<le> pf_capacity f
   | Inl e \<Rightarrow> word < 0 \<or> MAX_UINT256 < word"
proof (cases "pf_extract f word")
  case (Inl e)
  then show ?thesis by (auto simp: pf_extract_def rbind_eq_Inl require_uint256_def split: if_splits)
next
  case (Inr v)
  then show ?thesis unfolding Inr sum.case using pf_extract_bounds [OF Inr] Inr [unfolded pf_extract_Inr] by blast
qed

text \<open>
  The checked 256-bit arithmetic of a swap computes the exact quotient floor(x fn rout / (rin
  fd + x fn)) when the numerator and the denominator fit in 256 bits, and raises an arithmetic
  error, and no other error, when one of them does not.
\<close>

theorem checked_swap_exact:
  assumes "0 < fn" "fn < fd" "fd \<le> MAX_UINT256" "0 < rin" "rin \<le> MAX_UINT256" "0 < rout" "rout \<le> MAX_UINT256"
    and "0 \<le> x" "x \<le> MAX_UINT256"
  shows "if x * fn * rout \<le> MAX_UINT256 \<and> rin * fd + x * fn \<le> MAX_UINT256
    then checked_amount_out x fn fd rin rout = Inr ((x * fn * rout) div (rin * fd + x * fn))
    else \<exists>m. checked_amount_out x fn fd rin rout = Inl (ConstantProductArithmeticError m)"
proof -
  have "swap_params fn fd rin rout" using assms by (simp add: swap_params_def)
  from checked_amount_out_eq [OF this assms(8,9,3,5,7)] show ?thesis by (simp add: fits_def swap_out_def)
qed

theorem checked_swap_exact_witness:
  "checked_amount_out 100 997 1000 1000 3000 = Inr 271"
  using checked_swap_exact [of 997 1000 1000 3000 100] by (simp add: MAX_UINT256_def)

text \<open>
  C30. The closed form of the greatest safe input of a pool is exact: a quote succeeds exactly
  for the inputs up to it (all the checks of the quote's constructor pass), every larger input
  raises an arithmetic error, and where the closed form itself overflows no input can be
  quoted.
\<close>

theorem pool_maximum_exact:
  assumes "pool_ok p" "supports_token p t" "0 \<le> x" "x \<le> MAX_UINT256"
  shows "case pool_maximum_safe_input p t of
      Inr m \<Rightarrow> if x \<le> m then is_ok (pool_quote_exact_in p t x)
        else \<exists>e. pool_quote_exact_in p t x = Inl (ConstantProductArithmeticError e)
    | Inl err \<Rightarrow> is_arith_error err \<and> (\<exists>e. pool_quote_exact_in p t x = Inl (ConstantProductArithmeticError e))"
proof -
  obtain rin rout cap where side: "reserve_pair p t = Inr (rin, rout, cap)"
    using reserve_pair_total [OF assms(1,2)] by blast
  note quote = pool_quote_eq [OF assms(1) side assms(3,4)]
  from pool_maximum_eq [OF assms(1) side] show ?thesis
  proof
    assume "\<exists>m. pool_maximum_safe_input p t = Inr m \<and> (\<forall>x \<ge> 0. x \<le> m \<longleftrightarrow> pool_accepts p rin rout cap x)"
    then show ?thesis using quote assms(3) by (auto simp: is_ok_iff)
  next
    assume "(\<exists>e. pool_maximum_safe_input p t = Inl (ConstantProductArithmeticError e))
      \<and> (\<forall>x \<ge> 0. \<not> pool_accepts p rin rout cap x)"
    then show ?thesis using quote assms(3) by auto
  qed
qed

theorem pool_maximum_exact_witness:
  "case pool_maximum_safe_input pool_one (replicate 20 3) of
     Inr m \<Rightarrow> if 100 \<le> m then is_ok (pool_quote_exact_in pool_one (replicate 20 3) 100)
       else \<exists>e. pool_quote_exact_in pool_one (replicate 20 3) 100 = Inl (ConstantProductArithmeticError e)
   | Inl err \<Rightarrow> is_arith_error err \<and>
       (\<exists>e. pool_quote_exact_in pool_one (replicate 20 3) 100 = Inl (ConstantProductArithmeticError e))"
  by (rule pool_maximum_exact [OF pool_one_ok pool_one_supports]) (simp_all add: MAX_UINT256_def)

text \<open>
  C31. A quote never lets value out of a pool: the product of the reserves after the swap is
  at least the product before it, the output stays below the output reserve, the input reserve
  fits its packed field, and the reserves reconcile with the amounts.
\<close>

theorem pool_quote_keeps_product:
  assumes "pool_ok p" "pool_quote_exact_in p t x = Inr q"
  shows "q_reserve_in q * q_reserve_out q \<le> q_post_reserve_in q * q_post_reserve_out q
    \<and> q_amount_in q = x \<and> 0 \<le> q_amount_out q \<and> q_amount_out q < q_reserve_out q
    \<and> q_post_reserve_in q = q_reserve_in q + x \<and> q_post_reserve_in q \<le> q_reserve_in_capacity q
    \<and> q_post_reserve_out q = q_reserve_out q - q_amount_out q"
proof -
  have x: "0 \<le> x" "x \<le> MAX_UINT256" using assms(2) by (simp_all add: pool_quote_exact_in_def)
  obtain rin rout cap where side: "reserve_pair p t = Inr (rin, rout, cap)"
    using assms(2) by (auto simp: pool_quote_exact_in_def)
  note params = reserve_pair_ok(1) [OF assms(1) side]
  have q: "q = expected_quote p t rin rout cap x" and fits: "rin + x \<le> cap"
    using pool_quote_eq [OF assms(1) side x] assms(2) by (auto simp: pool_accepts_def)
  have "q_reserve_in_capacity q = cap" by (simp add: q expected_quote_def Let_def)
  then show ?thesis
    using swap_product [OF params x(1)] swap_out_nonneg [OF params x(1)] swap_out_less [OF params x(1)] fits
    by (simp add: q)
qed

theorem pool_quote_keeps_product_witness:
  "\<exists>q. pool_quote_exact_in pool_one (replicate 20 3) 100 = Inr q
    \<and> q_reserve_in q * q_reserve_out q \<le> q_post_reserve_in q * q_post_reserve_out q"
  using pool_one_quote pool_quote_keeps_product [OF pool_one_ok] by blast

section \<open>Profit and policy\<close>

text \<open>
  C32. For a valid policy and non-negative capital and age the assessment always returns, and
  approves exactly when gross profit is positive, simulations agree, the chain is healthy, the
  state is fresh, the risk budget is there, the bid is within its share of the surplus, and
  the conservative net profit meets both minima.
\<close>

theorem profit_assessment_decides:
  assumes "policy_ok policy" "0 \<le> capital" "0 \<le> age"
  shows "\<exists>a. assess_profit costs policy capital age agree health budget = Inr a
    \<and> (pa_approved a \<longleftrightarrow>
      0 < cb_gross_profit costs \<and> agree \<and> health = HEALTHY \<and> age \<le> pp_maximum_state_age_ms policy \<and> budget
      \<and> cb_inclusion_bid costs * BASIS_POINTS \<le> max (surplus_before_bid costs) 0 * pp_maximum_bid_fraction_bps policy
      \<and> pp_minimum_absolute_profit policy \<le> conservative_net_profit costs
      \<and> (0 < capital \<longrightarrow> capital * pp_minimum_return_bps policy \<le> conservative_net_profit costs * BASIS_POINTS))"
proof -
  obtain a where "assess_profit costs policy capital age agree health budget = Inr a"
    using assess_profit_total [OF assms] unfolding is_ok_iff by blast
  then show ?thesis using assess_profit_reasons by blast
qed

theorem profit_assessment_decides_witness:
  "\<exists>a. assess_profit sample_costs sample_policy 100 5 True HEALTHY True = Inr a \<and> pa_approved a"
  using profit_assessment_decides [OF sample_policy_ok, of 100 5 sample_costs True HEALTHY True]
  by (simp add: sample_costs_def sample_policy_def surplus_before_bid_def cost_excluding_bid_def
      conservative_net_profit_def total_cost_def BASIS_POINTS_def)

text \<open>
  C33. An approved opportunity with valid costs never bids more than its surplus and never has
  a negative conservative net profit.
\<close>

theorem approved_never_loses:
  assumes "policy_ok policy" "costs_ok costs"
    and "assess_profit costs policy capital age agree health budget = Inr a" "pa_approved a"
  shows "cb_inclusion_bid costs \<le> max (surplus_before_bid costs) 0 \<and> 0 \<le> conservative_net_profit costs"
  using approved_net_profit_nonneg [OF assms] by blast

theorem approved_never_loses_witness: "0 \<le> conservative_net_profit sample_costs"
proof -
  obtain a where "assess_profit sample_costs sample_policy 100 5 True HEALTHY True = Inr a" "pa_approved a"
    using sample_approved by blast
  from approved_never_loses [OF sample_policy_ok sample_costs_ok this] show ?thesis by blast
qed

text \<open>
  The strategy policy allows a strategy exactly in shadow mode and only under the name of a
  governed strategy; no prohibited strategy is ever allowed, in any mode.
\<close>

theorem policy_allows_only_shadow:
  "(pd_allowed (StrategyPolicy_evaluate s mode) \<longleftrightarrow> mode = SHADOW \<and> (\<exists>x. s = strategy_value x))
    \<and> \<not> (\<exists>t \<in> set PROHIBITED_STRATEGIES. pd_allowed (StrategyPolicy_evaluate t mode))"
  using strategy_value_not_prohibited by (auto simp: policy_allowed_iff)

section \<open>Canonical JSON and observations\<close>

text \<open>
  C34. What the canonical encoder writes, the strict parser reads back as the same value with
  sorted keys, and that value encodes to the same bytes: the canonical encoding is a fixed
  point of parsing.
\<close>

theorem canonical_json_round_trip:
  assumes "canonical_json_bytes v = Inr b" "json_unique v" "json_utf8 v"
  shows "strict_json_loads b = Inr (json_norm v) \<and> canonical_json_bytes (json_norm v) = Inr b"
proof
  show "strict_json_loads b = Inr (json_norm v)" by (rule strict_json_loads_canonical [OF assms])
  show "canonical_json_bytes (json_norm v) = Inr b" using assms(1) by (simp only: canonical_json_bytes_norm)
qed

theorem canonical_json_round_trip_witness:
  "strict_json_loads (utf8_bytes (json_dump (JObj [(''b'', JInt 2), (''a'', JArr [JNull, JStr ''x''])])))
    = Inr (JObj [(''a'', JArr [JNull, JStr ''x'']), (''b'', JInt 2)])"
proof -
  let ?v = "JObj [(''b'', JInt 2), (''a'', JArr [JNull, JStr ''x''])]"
  have "canonical_json_bytes ?v = Inr (utf8_bytes (json_dump ?v))"
    by (rule sample_json_encodes)
  from canonical_json_round_trip [OF this] sample_json_shape show ?thesis by (simp del: json_norm.simps)
qed

text \<open>
  C35. A valid observation envelope survives its JSON form: whatever to_json_value writes,
  from_json_value reads back as the same envelope.
\<close>

theorem envelope_round_trip:
  assumes "envelope_ok e" "ObservationEnvelope_to_json e = Inr v"
  shows "ObservationEnvelope_from_json v = Inr e"
  by (rule envelope_json_roundtrip [OF assms])

theorem envelope_round_trip_witness:
  "\<exists>v. ObservationEnvelope_to_json genesis_envelope = Inr v \<and> ObservationEnvelope_from_json v = Inr genesis_envelope"
  using envelope_round_trip [OF example_envelopes_ok(1)] genesis_to_json by blast

text \<open>
  C36. A valid envelope has a digest exactly when its payload is nested below the depth limit
  and leaves fourteen items free. The constructor admits a payload at the limit itself, whose
  digest and JSON form then fail.
\<close>

theorem envelope_digest_exists:
  assumes "envelope_ok e" "envelope_payload e = Inr kvs" "length (oe_source_event_id e) \<le> 1024"
  shows "is_ok (envelope_digest e) \<longleftrightarrow>
    json_depth (JObj kvs) < DEFAULT_MAX_DEPTH \<and> json_items (JObj kvs) + 14 \<le> DEFAULT_MAX_ITEMS"
  by (rule envelope_digest_ok_iff [OF assms])

theorem envelope_digest_exists_witness: "is_ok (envelope_digest genesis_envelope)"
  using envelope_digest_exists [OF example_envelopes_ok(1) genesis_payload]
  by (simp add: fields_of_def DEFAULT_MAX_DEPTH_def DEFAULT_MAX_ITEMS_def)

section \<open>Byte encodings\<close>

text \<open>
  C37. RLP decoding accepts exactly the bytes RLP encoding writes: the decoder returns an item
  if and only if the encoder turns that item into the payload, so every accepted payload is
  canonical and every encoding decodes.
\<close>

theorem rlp_decode_is_inverse: "rlp_decode b = Inr v \<longleftrightarrow> rlp_encode v = Inr b"
  by (rule rlp.decode_iff)

text \<open>
  Decoding always ends, with an item or with an RlpError, on any bytes: no other exception
  escapes and the fuel of the model is enough.
\<close>

theorem rlp_decode_fails_cleanly: "(\<exists>v. rlp_decode b = Inr v) \<or> (\<exists>m. rlp_decode b = Inl (RlpError m))"
  using rlp_decode_errors [of b] by (cases "rlp_decode b") (auto simp: only_rlp_errors_def split: py_error.splits)

text \<open>
  An RLP integer is accepted exactly as the minimal big-endian bytes of a value below two to
  the width.
\<close>

theorem rlp_uint_minimal:
  assumes "1 \<le> bits" "bits \<le> 4096"
  shows "rlp_decode_uint b bits = Inr n \<longleftrightarrow> 0 \<le> n \<and> n < 2 ^ bits \<and> b = minimal_be n"
  by (rule rlp_decode_uint_Inr [OF assms])

theorem rlp_uint_minimal_witness: "rlp_decode_uint (minimal_be 300) 256 = Inr 300"
  using rlp_uint_minimal [of 256 "minimal_be 300" 300] by simp

text \<open>
  Hex data parses to bytes exactly when it is their canonical lowercase rendering and their
  length is within the limits asked for.
\<close>

theorem hex_data_exact:
  "parse_hex_data name v exact_bytes maximum = Inr b \<longleftrightarrow>
    v = JStr (to_hex_data b) \<and> length b \<le> maximum \<and> maximum \<le> MAX_HEX_BYTES
      \<and> (exact_bytes = None \<or> exact_bytes = Some (length b))"
  by (auto simp: parse_hex_data_Inr split: option.splits)

text \<open>
  Hexadecimal quantities and decimal strings of values in range are read back as the value
  that was written.
\<close>

theorem quantity_round_trip:
  assumes "0 \<le> v" "v < 2 ^ 256"
  shows "(\<exists>s. to_hex_quantity v = Inr s \<and> parse_hex_quantity name (JStr s) 256 = Inr v)
    \<and> parse_decimal_integer name (JStr (str_of_int v)) 256 = Inr v"
  using parse_hex_quantity_to_hex [of v 256] parse_decimal_integer_to_decimal assms by simp

theorem quantity_round_trip_witness: "parse_decimal_integer ''balance'' (JStr (str_of_int 1000)) 256 = Inr 1000"
  using quantity_round_trip [of 1000 "''balance''"] by simp

section \<open>Merkle-Patricia proofs and state proofs\<close>

text \<open>
  Compact trie paths are a bijection: hex-prefix decoding returns a leaf flag and a path
  exactly when encoding them gives the bytes.
\<close>

theorem hex_prefix_is_inverse:
  "hex_prefix_decode e = Inr (is_leaf, path) \<longleftrightarrow> hex_prefix_encode path is_leaf = Inr e"
  by (rule hex_prefix_decode_Inr)

text \<open>
  C38. Two accepted Merkle-Patricia proofs for one root and key, between whose nodes Keccak
  has no collision, are the same list of nodes and give the same result: a root cannot prove a
  key both present and absent, or with two values.
\<close>

theorem mpt_proof_unique:
  assumes "verify_mpt_proof root key p1 = Inr r1" "verify_mpt_proof root key p2 = Inr r2" "collision_free p1 p2"
  shows "p1 = p2 \<and> r1 = r2"
  by (rule verify_mpt_proof_unique [OF assms])

theorem mpt_proof_unique_witness:
  "\<exists>r. verify_mpt_proof EMPTY_TRIE_ROOT [1] [] = Inr r \<and> mp_terminal r = ABSENT_EMPTY_TRIE"
proof -
  have absent: "verify_mpt_proof EMPTY_TRIE_ROOT [1] [] = Inr \<lparr>mp_found = False, mp_value = None,
      mp_terminal = ABSENT_EMPTY_TRIE, mp_used_node_hashes = []\<rparr>"
    by (rule empty_trie_proof) (simp add: MAX_MPT_KEY_BYTES_def)
  show ?thesis using mpt_proof_unique [OF absent absent] absent by (simp add: collision_free_def)
qed

text \<open>
  C39. Verifying a proof always ends within the fuel of the model (one step per nibble is
  enough, since an extension always consumes a nibble), and a verified result is consistent:
  found exactly when it carries a value and ended in a found terminal.
\<close>

theorem mpt_verification_ends:
  "case verify_mpt_proof root key nodes of
     Inl e \<Rightarrow> e \<noteq> OutOfFuel
   | Inr r \<Rightarrow> (mp_found r \<longleftrightarrow> mp_value r \<noteq> None) \<and> (mp_found r \<longleftrightarrow> mp_terminal r \<in> FOUND_TERMINALS)"
  using verify_mpt_proof_in_fuel [of root key nodes] verify_mpt_proof_result_ok mpt_result_ok_found
  by (auto simp: in_fuel_def split: sum.splits)

text \<open>
  C40. Two state proofs of one address that verify under one state root agree on existence,
  nonce, balance, storage root and code hash, unless Keccak collides between their nodes.
\<close>

theorem account_proofs_agree:
  assumes "verify_account root p = Inr (e1, r1)" "verify_account root q = Inr (e2, r2)"
    and "st_address p = st_address q" "collision_free (st_account_proof_nodes p) (st_account_proof_nodes q)"
  shows "e1 = e2 \<and> st_nonce p = st_nonce q \<and> st_balance p = st_balance q
    \<and> st_storage_root p = st_storage_root q \<and> st_code_hash p = st_code_hash q"
  by (rule verify_account_agree [OF assms])

theorem account_proofs_agree_witness:
  "\<exists>r. verify_account EMPTY_TRIE_ROOT absent_account = Inr (False, r)
    \<and> st_code_hash absent_account = EMPTY_CODE_HASH"
proof -
  have "collision_free (st_account_proof_nodes absent_account) (st_account_proof_nodes absent_account)"
    "st_code_hash absent_account = EMPTY_CODE_HASH" by (simp_all add: absent_account_def collision_free_def)
  then show ?thesis
    using account_proofs_agree [OF absent_account_verified absent_account_verified] absent_account_verified by simp
qed

text \<open>
  Two storage proofs of one slot that verify under one storage root give the same value and
  the same inclusion, unless Keccak collides between their nodes.
\<close>

theorem storage_proofs_agree:
  assumes "verify_storage root s1 = Inr x1" "verify_storage root s2 = Inr x2" "sp_key s1 = sp_key s2"
    and "collision_free (sp_proof_nodes s1) (sp_proof_nodes s2)"
  shows "vs_value x1 = vs_value x2 \<and> vs_included x1 = vs_included x2"
  by (rule verify_storage_agree [OF assms])

theorem storage_proofs_agree_witness:
  "\<exists>x. verify_storage EMPTY_TRIE_ROOT absent_slot = Inr x \<and> vs_value x = 0"
proof -
  obtain x where x: "verify_storage EMPTY_TRIE_ROOT absent_slot = Inr x" "vs_value x = 0" using absent_slot_verified by blast
  from storage_proofs_agree [OF x(1) x(1)] x show ?thesis by (auto simp: collision_free_def)
qed

end
